(* ===== verification/Prelude.thy ===== *)
theory Prelude
  imports Main "HOL-Library.Word" "HOL-Library.Monad_Syntax"
begin

text \<open>
  Shared vocabulary of the development: the C integer types of \<open>def.h\<close>, byte arrays with
  checked access, C strings held in byte arrays, decimal printing and parsing, and the lemma
  collections the component theories use.

  Undefined behaviour is a value. A C access outside the array it indexes has no meaning, so
  every array access of the model is one of the checked operations below and the result is
  \<open>None\<close> ("the C program has left its defined behaviour"). A model function returns
  \<open>Some\<close> exactly when every access it makes is in range. Errors the program handles itself
  (\<open>FAILURE\<close>, negative returns, error codes) are ordinary values inside \<open>Some\<close>.
\<close>

unbundle bit_operations_syntax

section \<open>C integer types (def.h)\<close>

type_synonym u8 = "8 word"    \<comment> \<open>\<open>BYTE\<close>, \<open>u8\<close>, and \<open>char\<close>, unsigned on ARM\<close>
type_synonym u16 = "16 word"  \<comment> \<open>\<open>WORD\<close>, \<open>u16\<close>\<close>
type_synonym u32 = "32 word"  \<comment> \<open>\<open>DWORD\<close>, \<open>u32\<close>\<close>
type_synonym u64 = "64 word"  \<comment> \<open>\<open>UQWORD\<close>\<close>
type_synonym bytes = "u8 list"

named_theorems mem_simps \<open>rewrite rules for checked array accesses\<close>
named_theorems ack_simps \<open>rewrite rules for the reply builders\<close>
named_theorems codec_simps \<open>rewrite rules for struct encoders and decoders\<close>
named_theorems frame_simps \<open>which fields of the device an operation leaves alone\<close>

section \<open>Checked arrays\<close>

definition rd :: "'a list \<Rightarrow> nat \<Rightarrow> 'a option" where
  "rd a i = (if i < length a then Some (a ! i) else None)"

definition wr :: "'a list \<Rightarrow> nat \<Rightarrow> 'a \<Rightarrow> 'a list option" where
  "wr a i v = (if i < length a then Some (a[i := v]) else None)"

text \<open>\<open>memcpy\<close> out of and into an array.\<close>

definition rds :: "'a list \<Rightarrow> nat \<Rightarrow> nat \<Rightarrow> 'a list option" where
  "rds a i n = (if i + n \<le> length a then Some (take n (drop i a)) else None)"

definition wrs :: "'a list \<Rightarrow> nat \<Rightarrow> 'a list \<Rightarrow> 'a list option" where
  "wrs a i vs = (if i + length vs \<le> length a
     then Some (take i a @ vs @ drop (i + length vs) a) else None)"

lemma rd_in [mem_simps]: "i < length a \<Longrightarrow> rd a i = Some (a ! i)"
  by (simp add: rd_def)

lemma rd_out [mem_simps]: "length a \<le> i \<Longrightarrow> rd a i = None"
  by (simp add: rd_def)

lemma rd_Some_iff: "rd a i = Some v \<longleftrightarrow> i < length a \<and> v = a ! i"
  by (auto simp: rd_def)

lemma wr_in [mem_simps]: "i < length a \<Longrightarrow> wr a i v = Some (a[i := v])"
  by (simp add: wr_def)

lemma wr_out [mem_simps]: "length a \<le> i \<Longrightarrow> wr a i v = None"
  by (simp add: wr_def)

lemma wr_Some_iff: "wr a i v = Some b \<longleftrightarrow> i < length a \<and> b = a[i := v]"
  by (auto simp: wr_def)

lemma wrs_Some_length: "wrs a i vs = Some b \<Longrightarrow> length b = length a"
  by (auto simp: wrs_def split: if_splits)

lemma rds_Some_length: "rds a i n = Some b \<Longrightarrow> length b = n"
  by (auto simp: rds_def split: if_splits)

lemma rds_wrs: "wrs a i vs = Some b \<Longrightarrow> rds b i (length vs) = Some vs"
  by (auto simp: wrs_def rds_def split: if_splits)

text \<open>
  A message built front to back: \<open>pre\<close> is what has been written, the rest is the old content.
  Writing the next byte extends \<open>pre\<close>; every reply builder normalises to this form.
\<close>

definition filled :: "'a list \<Rightarrow> 'a list \<Rightarrow> 'a list" where
  "filled pre b = pre @ drop (length pre) b"

lemma filled_Nil [ack_simps]: "filled [] b = b"
  by (simp add: filled_def)

lemma length_filled [ack_simps]: "length pre \<le> length b \<Longrightarrow> length (filled pre b) = length b"
  by (simp add: filled_def)

lemma wr_filled:
  "length pre < length b \<Longrightarrow> wr (filled pre b) (length pre) v = Some (filled (pre @ [v]) b)"
  by (auto simp: wr_def filled_def nth_append list_update_append Cons_nth_drop_Suc [symmetric])

lemma wr_filledI [ack_simps]:
  "i = length pre \<Longrightarrow> i < length b \<Longrightarrow> wr (filled pre b) i v = Some (filled (pre @ [v]) b)"
  by (simp add: wr_filled)

lemma wr_filled_inside:
  "i < length pre \<Longrightarrow> wr (filled pre b) i v = Some (filled (pre[i := v]) b)"
  by (auto simp: wr_def filled_def list_update_append)

lemma wrs_filled [ack_simps]:
  "i = length pre \<Longrightarrow> i + length vs \<le> length b \<Longrightarrow>
     wrs (filled pre b) i vs = Some (filled (pre @ vs) b)"
  by (auto simp: wrs_def filled_def add.commute)

lemma wr_first [ack_simps]: "0 < length b \<Longrightarrow> wr b 0 v = Some (filled [v] b)"
  using wr_filled [of "[]" b v] by (simp add: filled_Nil)

lemma nth_filled: "i < length pre \<Longrightarrow> filled pre b ! i = pre ! i"
  by (simp add: filled_def nth_append)

lemma take_filled [ack_simps]: "n = length pre \<Longrightarrow> take n (filled pre b) = pre"
  by (simp add: filled_def)

lemma rds_filled [ack_simps]:
  "n = length pre \<Longrightarrow> n \<le> length b \<Longrightarrow> rds (filled pre b) 0 n = Some pre"
  by (simp add: rds_def filled_def)

section \<open>C strings in byte arrays\<close>

definition bytes_of :: "string \<Rightarrow> bytes" where
  "bytes_of s = map of_char s"

text \<open>The string at the start of an array, without its terminator; \<open>None\<close> when unterminated.\<close>

fun cstring :: "bytes \<Rightarrow> bytes option" where
  "cstring [] = None"
| "cstring (c # cs) = (if c = 0 then Some [] else map_option ((#) c) (cstring cs))"

text \<open>\<open>strcmp (a, b) == 0\<close>: it stops at the first difference, or runs off an array's end.\<close>

fun streq :: "bytes \<Rightarrow> bytes \<Rightarrow> bool option" where
  "streq (x # xs) (y # ys) =
     (if x \<noteq> y then Some False else if x = 0 then Some True else streq xs ys)"
| "streq _ _ = None"

text \<open>\<open>strcpy\<close> copies the string and its terminator to the start of \<open>dst\<close>.\<close>

definition strcpy :: "bytes \<Rightarrow> bytes \<Rightarrow> bytes option" where
  "strcpy dst src = do { s \<leftarrow> cstring src; wrs dst 0 (s @ [0]) }"

text \<open>\<open>bzero\<close> of a whole array.\<close>

definition zeros :: "nat \<Rightarrow> bytes" where
  "zeros n = replicate n 0"

lemma length_zeros [simp]: "length (zeros n) = n"
  by (simp add: zeros_def)

lemma set_zeros: "set (zeros n) = (if n = 0 then {} else {0})"
  by (simp add: zeros_def)

lemma cstring_append: "0 \<notin> set s \<Longrightarrow> cstring (s @ 0 # r) = Some s"
  by (induction s) auto

lemma cstring_SomeD: "cstring a = Some s \<Longrightarrow> 0 \<notin> set s \<and> (\<exists>r. a = s @ 0 # r)"
proof (induction a arbitrary: s)
  case Nil
  then show ?case by simp
next
  case (Cons c cs)
  then show ?case by (cases "c = 0") auto
qed

lemma streq_cstring:
  "cstring a = Some s \<Longrightarrow> cstring b = Some t \<Longrightarrow> streq a b = Some (s = t)"
proof (induction a b arbitrary: s t rule: streq.induct)
  case (1 x xs y ys)
  then show ?case by (auto split: if_splits)
qed auto

lemma strcpy_cstring: "strcpy dst src = Some d \<Longrightarrow> cstring d = cstring src"
  by (auto simp: strcpy_def wrs_def bind_eq_Some_conv cstring_append
      dest!: cstring_SomeD split: if_splits)

lemma strcpy_length: "strcpy dst src = Some d \<Longrightarrow> length d = length dst"
  by (auto simp: strcpy_def bind_eq_Some_conv dest: wrs_Some_length)

section \<open>Decimal text\<close>

text \<open>\<open>sprintf "%d"\<close> of a non-negative value.\<close>

definition digit :: "nat \<Rightarrow> u8" where
  "digit n = of_nat (48 + n)"

fun decimal :: "nat \<Rightarrow> bytes" where
  "decimal n = (if n < 10 then [digit n] else decimal (n div 10) @ [digit (n mod 10)])"

declare decimal.simps [simp del]

definition is_digit :: "u8 \<Rightarrow> bool" where
  "is_digit c \<longleftrightarrow> 48 \<le> c \<and> c \<le> 57"

text \<open>
  \<open>atoi\<close>: blanks, an optional sign, then digits. C leaves results outside \<open>int\<close> undefined;
  the model computes the mathematical value.
\<close>

fun atoi_digits :: "bytes \<Rightarrow> nat \<Rightarrow> nat" where
  "atoi_digits [] acc = acc"
| "atoi_digits (c # cs) acc =
     (if is_digit c then atoi_digits cs (10 * acc + (unat c - 48)) else acc)"

definition is_blank :: "u8 \<Rightarrow> bool" where
  "is_blank c \<longleftrightarrow> c = 32 \<or> 9 \<le> c \<and> c \<le> 13"

definition atoi :: "bytes \<Rightarrow> int" where
  "atoi s = (case dropWhile is_blank s of
       [] \<Rightarrow> 0
     | c # cs \<Rightarrow> if c = 45 then - int (atoi_digits cs 0)
                else if c = 43 then int (atoi_digits cs 0)
                else int (atoi_digits (c # cs) 0))"

lemma unat_digit: "n < 10 \<Longrightarrow> unat (digit n) = 48 + n"
  by (simp add: digit_def unat_of_nat del: of_nat_add)

lemma is_digit_digit: "n < 10 \<Longrightarrow> is_digit (digit n)"
  by (simp add: is_digit_def word_le_nat_alt unat_digit)

lemma dec_digits: "c \<in> set (decimal n) \<Longrightarrow> is_digit c"
proof (induction n rule: decimal.induct)
  case (1 n)
  then show ?case
    by (cases "n < 10") (auto simp: decimal.simps [of n] is_digit_digit)
qed

lemma dec_nonempty [simp]: "decimal n \<noteq> []"
  by (subst decimal.simps) simp

lemma atoi_digits_dec_acc:
  "atoi_digits (decimal n @ r) acc = atoi_digits r (acc * 10 ^ length (decimal n) + n)"
proof (induction n arbitrary: r acc rule: decimal.induct)
  case (1 n)
  show ?case
  proof (cases "n < 10")
    case True
    then show ?thesis by (simp add: decimal.simps [of n] is_digit_digit unat_digit mult.commute)
  next
    case False
    then have d: "decimal n = decimal (n div 10) @ [digit (n mod 10)]" by (simp add: decimal.simps [of n])
    have "atoi_digits (decimal n @ r) acc
        = atoi_digits (digit (n mod 10) # r) (acc * 10 ^ length (decimal (n div 10)) + n div 10)"
      unfolding d using "1.IH" [OF False, of "digit (n mod 10) # r" acc] by simp
    also have "\<dots> = atoi_digits r (acc * 10 ^ length (decimal n) + n)"
      by (simp add: d algebra_simps is_digit_digit unat_digit)
    finally show ?thesis .
  qed
qed

lemma atoi_digits_stop: "(r = [] \<or> \<not> is_digit (hd r)) \<Longrightarrow> atoi_digits r acc = acc"
  by (cases r) auto

lemma is_digit_not_special: "is_digit c \<Longrightarrow> \<not> is_blank c \<and> c \<noteq> 45 \<and> c \<noteq> 43 \<and> c \<noteq> 46 \<and> c \<noteq> 0"
  by (auto simp: is_digit_def is_blank_def word_le_nat_alt)

lemma atoi_dec: "r = [] \<or> \<not> is_digit (hd r) \<Longrightarrow> atoi (decimal n @ r) = int n"
proof -
  assume r: "r = [] \<or> \<not> is_digit (hd r)"
  obtain c cs where d: "decimal n = c # cs" by (cases "decimal n") auto
  then have "is_digit c" using dec_digits [of c n] by simp
  then have c: "\<not> is_blank c" "c \<noteq> 45" "c \<noteq> 43" by (auto dest: is_digit_not_special)
  have "atoi_digits (decimal n @ r) 0 = n"
    using r by (simp add: atoi_digits_dec_acc atoi_digits_stop)
  with c d show ?thesis by (simp add: atoi_def)
qed

end
