(* ===== verification/Codec.thy ===== *)
theory Codec
  imports Prelude
begin

text \<open>
  Memory images of C data on the 32-bit little-endian target. A codec is an encoder into a
  fixed number of bytes, a decoder that consumes that many bytes from the front of a list, and
  the values that have an image (arrays of the declared length). The interface \<open>codec\<close> states
  what every user of an image relies on; the structs of the program interpret it one by one.
\<close>

type_synonym 'a decoder = "bytes \<Rightarrow> ('a \<times> bytes) option"

section \<open>Integers, byte arrays, padding\<close>

definition enc8 :: "u8 \<Rightarrow> bytes" where "enc8 w = [w]"

definition enc16 :: "u16 \<Rightarrow> bytes" where "enc16 w = [ucast w, ucast (drop_bit 8 w)]"

definition enc32 :: "u32 \<Rightarrow> bytes" where
  "enc32 w = [ucast w, ucast (drop_bit 8 w), ucast (drop_bit 16 w), ucast (drop_bit 24 w)]"

fun dec8 :: "u8 decoder" where
  "dec8 (a # r) = Some (a, r)"
| "dec8 _ = None"

fun dec16 :: "u16 decoder" where
  "dec16 (a # b # r) = Some (ucast a OR push_bit 8 (ucast b), r)"
| "dec16 _ = None"

fun dec32 :: "u32 decoder" where
  "dec32 (a # b # c # d # r) = Some (ucast a OR push_bit 8 (ucast b) OR
     push_bit 16 (ucast c) OR push_bit 24 (ucast d), r)"
| "dec32 _ = None"

definition dec_bytes :: "nat \<Rightarrow> bytes decoder" where
  "dec_bytes n bs = (if n \<le> length bs then Some (take n bs, drop n bs) else None)"

text \<open>Padding: written as 0, ignored when read. C leaves the value of padding bytes open.\<close>

definition dec_pad :: "nat \<Rightarrow> unit decoder" where
  "dec_pad n bs = (if n \<le> length bs then Some ((), drop n bs) else None)"

text \<open>Arrays of structs: one image after the other.\<close>

definition enc_list :: "('a \<Rightarrow> bytes) \<Rightarrow> 'a list \<Rightarrow> bytes" where
  "enc_list enc xs = concat (map enc xs)"

fun dec_list :: "'a decoder \<Rightarrow> nat \<Rightarrow> 'a list decoder" where
  "dec_list dec 0 bs = Some ([], bs)"
| "dec_list dec (Suc n) bs = (case dec bs of None \<Rightarrow> None
     | Some (x, r) \<Rightarrow> (case dec_list dec n r of None \<Rightarrow> None
        | Some (xs, r') \<Rightarrow> Some (x # xs, r')))"

section \<open>The interface\<close>

locale codec =
  fixes enc :: "'a \<Rightarrow> bytes"
    and dec :: "'a decoder"
    and sz :: nat
    and ok :: "'a \<Rightarrow> bool"
  assumes enc_length: "ok x \<Longrightarrow> length (enc x) = sz"
    and dec_enc: "ok x \<Longrightarrow> dec (enc x @ r) = Some (x, r)"
    and dec_ok: "dec bs = Some (x, r) \<Longrightarrow> ok x \<and> length bs = sz + length r"
    and dec_total: "sz \<le> length bs \<Longrightarrow> \<exists>x r. dec bs = Some (x, r)"
begin

lemma dec_enc_exact: "ok x \<Longrightarrow> dec (enc x) = Some (x, [])"
  using dec_enc [of x "[]"] by simp

lemma enc_inj: "ok x \<Longrightarrow> ok y \<Longrightarrow> enc x = enc y \<Longrightarrow> x = y"
  by (metis dec_enc_exact option.inject prod.inject)

lemma dec_rest:
  assumes "dec bs = Some (x, r)"
  shows "ok x" and "length r = length bs - sz" and "sz \<le> length bs"
  using dec_ok [OF assms] by auto

lemma dec_short: "length bs < sz \<Longrightarrow> dec bs = None"
  by (cases "dec bs") (auto dest: dec_ok)

lemma list_length: "list_all ok xs \<Longrightarrow> length (enc_list enc xs) = length xs * sz"
  by (induction xs) (simp_all add: enc_list_def enc_length)

lemma list_dec_enc:
  "list_all ok xs \<Longrightarrow> n = length xs \<Longrightarrow> dec_list dec n (enc_list enc xs @ r) = Some (xs, r)"
  by (induction xs arbitrary: n) (simp_all add: enc_list_def dec_enc)

lemma list_dec_ok:
  "dec_list dec n bs = Some (xs, r) \<Longrightarrow>
     list_all ok xs \<and> length xs = n \<and> length bs = n * sz + length r"
proof (induction n arbitrary: bs xs)
  case 0
  then show ?case by simp
next
  case (Suc n)
  then obtain x r1 xs' where
    "dec bs = Some (x, r1)" "dec_list dec n r1 = Some (xs', r)" "xs = x # xs'"
    by (auto split: option.splits)
  with Suc.IH [of r1 xs'] dec_ok [of bs x r1] show ?case by simp
qed

lemma list_dec_total: "n * sz \<le> length bs \<Longrightarrow> \<exists>xs r. dec_list dec n bs = Some (xs, r)"
proof (induction n arbitrary: bs)
  case 0
  then show ?case by simp
next
  case (Suc n)
  then obtain x r1 where x: "dec bs = Some (x, r1)" using dec_total [of bs] by auto
  then have "n * sz \<le> length r1" using Suc.prems dec_ok [of bs x r1] by simp
  then obtain xs r where "dec_list dec n r1 = Some (xs, r)" using Suc.IH by blast
  with x show ?case by auto
qed

text \<open>The image of element \<open>i\<close> inside the image of an array.\<close>

lemma list_nth_image:
  "list_all ok xs \<Longrightarrow> i < length xs \<Longrightarrow>
     take sz (drop (i * sz) (enc_list enc xs)) = enc (xs ! i)"
proof (induction xs arbitrary: i)
  case Nil
  then show ?case by simp
next
  case (Cons x xs)
  then show ?case
    by (cases i) (simp_all add: enc_list_def enc_length flip: drop_drop)
qed

text \<open>Arrays of a fixed length are codecs again.\<close>

lemma arr: "codec (enc_list enc) (dec_list dec n) (n * sz) (\<lambda>xs. list_all ok xs \<and> length xs = n)"
  by unfold_locales (auto simp: list_length list_dec_enc dest: list_dec_ok list_dec_total)

end

section \<open>The primitive codecs\<close>

lemma dec16_enc16 [codec_simps]: "dec16 (enc16 w @ r) = Some (w, r)"
  by (auto simp: enc16_def intro!: bit_word_eqI) (auto simp: bit_simps dest: bit_imp_le_length)

lemma dec32_enc32 [codec_simps]: "dec32 (enc32 w @ r) = Some (w, r)"
proof -
  have "(ucast (ucast w :: u8) OR push_bit 8 (ucast (ucast (drop_bit 8 w) :: u8)) OR
      push_bit 16 (ucast (ucast (drop_bit 16 w) :: u8)) OR
      push_bit 24 (ucast (ucast (drop_bit 24 w) :: u8)) :: u32) = w" (is "?l = w")
  proof (rule bit_word_eqI)
    fix n assume n: "n < LENGTH(32)"
    have "bit ?l n \<longleftrightarrow> n < 8 \<and> bit w n \<or> 8 \<le> n \<and> n < 16 \<and> bit w n
        \<or> 16 \<le> n \<and> n < 24 \<and> bit w n \<or> 24 \<le> n \<and> n < 32 \<and> bit w n"
      using n by (auto simp: bit_simps)
    then show "bit ?l n \<longleftrightarrow> bit w n" using n by auto
  qed
  then show ?thesis by (simp add: enc32_def)
qed

lemma dec8_enc8 [codec_simps]: "dec8 (enc8 w @ r) = Some (w, r)"
  by (simp add: enc8_def)

lemma enc_lengths [codec_simps]:
  "length (enc8 a) = 1" "length (enc16 b) = 2" "length (enc32 c) = 4"
  by (simp_all add: enc8_def enc16_def enc32_def)

lemma dec_bytes_append [codec_simps]: "length b = n \<Longrightarrow> dec_bytes n (b @ r) = Some (b, r)"
  by (simp add: dec_bytes_def)

lemma dec_pad_append [codec_simps]: "length b = n \<Longrightarrow> dec_pad n (b @ r) = Some ((), r)"
  by (simp add: dec_pad_def)

lemma dec8_Some: "dec8 bs = Some (x, r) \<longleftrightarrow> bs = x # r"
  by (cases bs rule: dec8.cases) auto

lemma dec16_Some_length: "dec16 bs = Some (x, r) \<Longrightarrow> length bs = Suc (Suc (length r))"
  by (cases bs rule: dec16.cases) auto

lemma dec32_Some_length: "dec32 bs = Some (x, r) \<Longrightarrow> length bs = 4 + length r"
  by (cases bs rule: dec32.cases) auto

lemma dec_bytes_Some: "dec_bytes n bs = Some (x, r) \<longleftrightarrow> bs = x @ r \<and> length x = n"
  by (auto simp: dec_bytes_def)

lemma dec_pad_Some_length: "dec_pad n bs = Some (x, r) \<Longrightarrow> length bs = n + length r"
  by (auto simp: dec_pad_def split: if_splits)

interpretation c8: codec enc8 dec8 1 "\<lambda>_. True"
  by unfold_locales (auto simp: codec_simps dec8_Some neq_Nil_conv Suc_le_length_iff)

interpretation c16: codec enc16 dec16 2 "\<lambda>_. True"
proof unfold_locales
  show "\<exists>x r. dec16 bs = Some (x, r)" if "2 \<le> length bs" for bs
    using that by (cases bs rule: dec16.cases) auto
qed (auto simp: codec_simps dest: dec16_Some_length)

interpretation c32: codec enc32 dec32 4 "\<lambda>_. True"
proof unfold_locales
  show "\<exists>x r. dec32 bs = Some (x, r)" if "4 \<le> length bs" for bs
    using that by (cases bs rule: dec32.cases) auto
qed (auto simp: codec_simps dest: dec32_Some_length)

interpretation cbytes: codec "\<lambda>b. b" "dec_bytes n" n "\<lambda>b. length b = n" for n
  by unfold_locales (auto simp: dec_bytes_def split: if_splits)

text \<open>
  A decoder that runs two decoders in sequence and combines their results; the structs are
  chains of it. It has the length bookkeeping of a codec.
\<close>

lemma dec_total_bind:
  assumes "\<exists>x r. d bs = Some (x, r)"
    and "\<And>x r. d bs = Some (x, r) \<Longrightarrow> \<exists>y r'. k x r = Some (y, r')"
  shows "\<exists>y r'. Option.bind (d bs) (\<lambda>(x, r). k x r) = Some (y, r')"
proof -
  obtain x r where x: "d bs = Some (x, r)" using assms(1) by blast
  with assms(2) obtain y r' where "k x r = Some (y, r')" by blast
  with x show ?thesis by simp
qed

lemma dec8_total: "1 \<le> length bs \<Longrightarrow> \<exists>x r. dec8 bs = Some (x, r)"
  by (rule c8.dec_total)

lemma dec16_total: "2 \<le> length bs \<Longrightarrow> \<exists>x r. dec16 bs = Some (x, r)"
  by (rule c16.dec_total)

lemma dec32_total: "4 \<le> length bs \<Longrightarrow> \<exists>x r. dec32 bs = Some (x, r)"
  by (rule c32.dec_total)

lemma dec_bytes_total: "n \<le> length bs \<Longrightarrow> \<exists>x r. dec_bytes n bs = Some (x, r)"
  by (simp add: dec_bytes_def)

lemma dec_pad_total: "n \<le> length bs \<Longrightarrow> \<exists>x r. dec_pad n bs = Some (x, r)"
  by (simp add: dec_pad_def)

lemmas dec_totals = dec8_total dec16_total dec32_total dec_bytes_total dec_pad_total

lemma dec8_len: "dec8 bs = Some (x, r) \<Longrightarrow> length bs = 1 + length r"
  by (simp add: dec8_Some)

lemma dec16_len: "dec16 bs = Some (x, r) \<Longrightarrow> length bs = 2 + length r"
  by (simp add: dec16_Some_length)

lemma dec_bytes_len: "dec_bytes n bs = Some (x, r) \<Longrightarrow> length bs = n + length r"
  by (simp add: dec_bytes_Some)

lemma dec_bytes_res: "dec_bytes n bs = Some (x, r) \<Longrightarrow> length x = n"
  by (simp add: dec_bytes_Some)

lemmas dec_lens = dec8_len dec16_len dec32_Some_length dec_bytes_len dec_pad_Some_length

end
