(* ===== verification/Layout.thy ===== *)
theory Layout
  imports Codec
begin

text \<open>
  The structs of \<open>nc600-2.0/inc/config.h\<close>, \<open>user.h\<close> and \<open>itsip.h\<close>, with their images in memory.
  A field keeps its C name; a name that several structs use carries the struct as a prefix
  (\<open>com_id\<close>, \<open>usr_rsvd\<close>). \<open>ok_S\<close> says that every array of the struct has its declared length,
  \<open>enc_S\<close> is the byte image with the padding the target ABI inserts, and each struct is shown to
  be a \<open>codec\<close>, so that its size, the round trip and the array images come from that interface.
\<close>

declare dec_list.simps [simp del]

interpretation c32s: codec "enc_list enc32" "dec_list dec32 n" "n * 4" "\<lambda>xs. list_all (\<lambda>_. True) xs \<and> length xs = n" for n
  by (rule c32.arr)

lemma list_all_True [simp]: "list_all (\<lambda>_. True) xs"
  by (induction xs) auto

subsection \<open>CONFIG_SYS\<close>

record CONFIG_SYS =
  host_name :: bytes
  host_pos :: bytes
  host_sn :: bytes
  sw_ver :: bytes
  hw_ver :: bytes
  host_id :: bytes
  description :: bytes
  sys_rsvd :: bytes

definition ok_CONFIG_SYS :: "CONFIG_SYS \<Rightarrow> bool" where
  "ok_CONFIG_SYS x \<longleftrightarrow> length (host_name x) = 32 \<and>
     length (host_pos x) = 32 \<and>
     length (host_sn x) = 32 \<and>
     length (sw_ver x) = 32 \<and>
     length (hw_ver x) = 32 \<and>
     length (host_id x) = 32 \<and>
     length (description x) = 32 \<and>
     length (sys_rsvd x) = 32"

definition enc_CONFIG_SYS :: "CONFIG_SYS \<Rightarrow> bytes" where
  "enc_CONFIG_SYS x = host_name x @ host_pos x @ host_sn x @ sw_ver x @ hw_ver x @ host_id x @ description x @
     sys_rsvd x"

definition dec_CONFIG_SYS :: "CONFIG_SYS decoder" where
  "dec_CONFIG_SYS b = do {
     (v0, b) \<leftarrow> dec_bytes 32 b; (v1, b) \<leftarrow> dec_bytes 32 b;
     (v2, b) \<leftarrow> dec_bytes 32 b; (v3, b) \<leftarrow> dec_bytes 32 b;
     (v4, b) \<leftarrow> dec_bytes 32 b; (v5, b) \<leftarrow> dec_bytes 32 b;
     (v6, b) \<leftarrow> dec_bytes 32 b; (v7, b) \<leftarrow> dec_bytes 32 b; 
     Some (\<lparr>host_name = v0, host_pos = v1, host_sn = v2, sw_ver = v3, hw_ver = v4, host_id = v5,
       description = v6, sys_rsvd = v7\<rparr>, b) }"

interpretation cSYS: codec enc_CONFIG_SYS dec_CONFIG_SYS 256 ok_CONFIG_SYS
proof unfold_locales
  show "length (enc_CONFIG_SYS x) = 256" if "ok_CONFIG_SYS x" for x
    using that by (simp add: ok_CONFIG_SYS_def enc_CONFIG_SYS_def codec_simps )
  show "dec_CONFIG_SYS (enc_CONFIG_SYS x @ r) = Some (x, r)" if "ok_CONFIG_SYS x" for x r
    using that by (simp add: ok_CONFIG_SYS_def enc_CONFIG_SYS_def dec_CONFIG_SYS_def codec_simps )
  show "ok_CONFIG_SYS x \<and> length bs = 256 + length r" if "dec_CONFIG_SYS bs = Some (x, r)" for bs x r
    using that by (auto simp: dec_CONFIG_SYS_def ok_CONFIG_SYS_def bind_eq_Some_conv dec_bytes_Some
        dest!: dec_lens )
  show "\<exists>x r. dec_CONFIG_SYS bs = Some (x, r)" if "256 \<le> length bs" for bs
    unfolding dec_CONFIG_SYS_def using that
    by (auto intro!: dec_total_bind dec_totals  dest!: dec_lens )
qed

subsection \<open>CONFIG_NET\<close>

record CONFIG_NET =
  dev_ip :: u32
  dev_nm :: u32
  dev_gw :: u32
  dev_dhcp :: u32
  dhcp_id :: u32
  dns :: "u32 list"
  dev_mac :: bytes
  net_rsvd :: bytes

definition ok_CONFIG_NET :: "CONFIG_NET \<Rightarrow> bool" where
  "ok_CONFIG_NET x \<longleftrightarrow> length (dns x) = 2 \<and>
     length (dev_mac x) = 6 \<and>
     length (net_rsvd x) = 26"

definition enc_CONFIG_NET :: "CONFIG_NET \<Rightarrow> bytes" where
  "enc_CONFIG_NET x = enc32 (dev_ip x) @ enc32 (dev_nm x) @ enc32 (dev_gw x) @ enc32 (dev_dhcp x) @
     enc32 (dhcp_id x) @ enc_list enc32 (dns x) @ dev_mac x @ net_rsvd x"

definition dec_CONFIG_NET :: "CONFIG_NET decoder" where
  "dec_CONFIG_NET b = do {
     (v0, b) \<leftarrow> dec32 b; (v1, b) \<leftarrow> dec32 b; (v2, b) \<leftarrow> dec32 b;
     (v3, b) \<leftarrow> dec32 b; (v4, b) \<leftarrow> dec32 b;
     (v5, b) \<leftarrow> dec_list dec32 2 b; (v6, b) \<leftarrow> dec_bytes 6 b;
     (v7, b) \<leftarrow> dec_bytes 26 b; 
     Some (\<lparr>dev_ip = v0, dev_nm = v1, dev_gw = v2, dev_dhcp = v3, dhcp_id = v4, dns = v5, dev_mac = v6,
       net_rsvd = v7\<rparr>, b) }"

interpretation cNET: codec enc_CONFIG_NET dec_CONFIG_NET 60 ok_CONFIG_NET
proof unfold_locales
  show "length (enc_CONFIG_NET x) = 60" if "ok_CONFIG_NET x" for x
    using that by (simp add: ok_CONFIG_NET_def enc_CONFIG_NET_def codec_simps c32s.enc_length)
  show "dec_CONFIG_NET (enc_CONFIG_NET x @ r) = Some (x, r)" if "ok_CONFIG_NET x" for x r
    using that by (simp add: ok_CONFIG_NET_def enc_CONFIG_NET_def dec_CONFIG_NET_def codec_simps c32s.dec_enc)
  show "ok_CONFIG_NET x \<and> length bs = 60 + length r" if "dec_CONFIG_NET bs = Some (x, r)" for bs x r
    using that by (auto simp: dec_CONFIG_NET_def ok_CONFIG_NET_def bind_eq_Some_conv dec_bytes_Some
        dest!: dec_lens c32s.dec_ok)
  show "\<exists>x r. dec_CONFIG_NET bs = Some (x, r)" if "60 \<le> length bs" for bs
    unfolding dec_CONFIG_NET_def using that
    by (auto intro!: dec_total_bind dec_totals c32s.dec_total dest!: dec_lens c32s.dec_ok)
qed

subsection \<open>CONFIG_VLAN\<close>

record CONFIG_VLAN =
  vlan_enable :: u32
  vlan_id :: u32
  vlan_rsvd :: bytes

definition ok_CONFIG_VLAN :: "CONFIG_VLAN \<Rightarrow> bool" where
  "ok_CONFIG_VLAN x \<longleftrightarrow> length (vlan_rsvd x) = 8"

definition enc_CONFIG_VLAN :: "CONFIG_VLAN \<Rightarrow> bytes" where
  "enc_CONFIG_VLAN x = enc32 (vlan_enable x) @ enc32 (vlan_id x) @ vlan_rsvd x"

definition dec_CONFIG_VLAN :: "CONFIG_VLAN decoder" where
  "dec_CONFIG_VLAN b = do {
     (v0, b) \<leftarrow> dec32 b; (v1, b) \<leftarrow> dec32 b;
     (v2, b) \<leftarrow> dec_bytes 8 b; 
     Some (\<lparr>vlan_enable = v0, vlan_id = v1, vlan_rsvd = v2\<rparr>, b) }"

interpretation cVLAN: codec enc_CONFIG_VLAN dec_CONFIG_VLAN 16 ok_CONFIG_VLAN
proof unfold_locales
  show "length (enc_CONFIG_VLAN x) = 16" if "ok_CONFIG_VLAN x" for x
    using that by (simp add: ok_CONFIG_VLAN_def enc_CONFIG_VLAN_def codec_simps )
  show "dec_CONFIG_VLAN (enc_CONFIG_VLAN x @ r) = Some (x, r)" if "ok_CONFIG_VLAN x" for x r
    using that by (simp add: ok_CONFIG_VLAN_def enc_CONFIG_VLAN_def dec_CONFIG_VLAN_def codec_simps )
  show "ok_CONFIG_VLAN x \<and> length bs = 16 + length r" if "dec_CONFIG_VLAN bs = Some (x, r)" for bs x r
    using that by (auto simp: dec_CONFIG_VLAN_def ok_CONFIG_VLAN_def bind_eq_Some_conv dec_bytes_Some
        dest!: dec_lens )
  show "\<exists>x r. dec_CONFIG_VLAN bs = Some (x, r)" if "16 \<le> length bs" for bs
    unfolding dec_CONFIG_VLAN_def using that
    by (auto intro!: dec_total_bind dec_totals  dest!: dec_lens )
qed

subsection \<open>CONFIG_COM\<close>

record CONFIG_COM =
  com_id :: u32
  bps :: u32
  sbit :: u32
  dbit :: u8
  chk :: u8
  bctrl :: u8
  RTS :: u8
  DTR :: u8
  com_all :: u8
  com_type :: u8
  isloop :: u8
  com_rsvd :: bytes
  alive :: u32

definition ok_CONFIG_COM :: "CONFIG_COM \<Rightarrow> bool" where
  "ok_CONFIG_COM x \<longleftrightarrow> length (com_rsvd x) = 4"

definition enc_CONFIG_COM :: "CONFIG_COM \<Rightarrow> bytes" where
  "enc_CONFIG_COM x = enc32 (com_id x) @ enc32 (bps x) @ enc32 (sbit x) @ enc8 (dbit x) @ enc8 (chk x) @
     enc8 (bctrl x) @ enc8 (RTS x) @ enc8 (DTR x) @ enc8 (com_all x) @ enc8 (com_type x) @
     enc8 (isloop x) @ com_rsvd x @ enc32 (alive x)"

definition dec_CONFIG_COM :: "CONFIG_COM decoder" where
  "dec_CONFIG_COM b = do {
     (v0, b) \<leftarrow> dec32 b; (v1, b) \<leftarrow> dec32 b; (v2, b) \<leftarrow> dec32 b;
     (v3, b) \<leftarrow> dec8 b; (v4, b) \<leftarrow> dec8 b; (v5, b) \<leftarrow> dec8 b;
     (v6, b) \<leftarrow> dec8 b; (v7, b) \<leftarrow> dec8 b; (v8, b) \<leftarrow> dec8 b;
     (v9, b) \<leftarrow> dec8 b; (v10, b) \<leftarrow> dec8 b;
     (v11, b) \<leftarrow> dec_bytes 4 b; (v12, b) \<leftarrow> dec32 b; 
     Some (\<lparr>com_id = v0, bps = v1, sbit = v2, dbit = v3, chk = v4, bctrl = v5, RTS = v6, DTR = v7,
       com_all = v8, com_type = v9, isloop = v10, com_rsvd = v11, alive = v12\<rparr>, b) }"

interpretation cCOM: codec enc_CONFIG_COM dec_CONFIG_COM 28 ok_CONFIG_COM
proof unfold_locales
  show "length (enc_CONFIG_COM x) = 28" if "ok_CONFIG_COM x" for x
    using that by (simp add: ok_CONFIG_COM_def enc_CONFIG_COM_def codec_simps )
  show "dec_CONFIG_COM (enc_CONFIG_COM x @ r) = Some (x, r)" if "ok_CONFIG_COM x" for x r
    using that by (simp add: ok_CONFIG_COM_def enc_CONFIG_COM_def dec_CONFIG_COM_def codec_simps )
  show "ok_CONFIG_COM x \<and> length bs = 28 + length r" if "dec_CONFIG_COM bs = Some (x, r)" for bs x r
    using that by (auto simp: dec_CONFIG_COM_def ok_CONFIG_COM_def bind_eq_Some_conv dec_bytes_Some
        dest!: dec_lens )
  show "\<exists>x r. dec_CONFIG_COM bs = Some (x, r)" if "28 \<le> length bs" for bs
    unfolding dec_CONFIG_COM_def using that
    by (auto intro!: dec_total_bind dec_totals  dest!: dec_lens )
qed

interpretation cCOMs: codec "enc_list enc_CONFIG_COM" "dec_list dec_CONFIG_COM n" "n * 28"
  "\<lambda>xs. list_all ok_CONFIG_COM xs \<and> length xs = n" for n
  by (rule cCOM.arr)

subsection \<open>CONFIG_SESSION\<close>

record CONFIG_SESSION =
  protocol :: u32
  ses_ip :: u32
  lport :: u32
  dport :: u32
  conn :: u8
  dis_conn :: u8
  time_out :: u8
  max_num :: u8
  ses_rsvd :: bytes

definition ok_CONFIG_SESSION :: "CONFIG_SESSION \<Rightarrow> bool" where
  "ok_CONFIG_SESSION x \<longleftrightarrow> length (ses_rsvd x) = 3"

definition enc_CONFIG_SESSION :: "CONFIG_SESSION \<Rightarrow> bytes" where
  "enc_CONFIG_SESSION x = enc32 (protocol x) @ enc32 (ses_ip x) @ enc32 (lport x) @ enc32 (dport x) @ enc8 (conn x) @
     enc8 (dis_conn x) @ enc8 (time_out x) @ enc8 (max_num x) @ ses_rsvd x @ zeros 1"

definition dec_CONFIG_SESSION :: "CONFIG_SESSION decoder" where
  "dec_CONFIG_SESSION b = do {
     (v0, b) \<leftarrow> dec32 b; (v1, b) \<leftarrow> dec32 b; (v2, b) \<leftarrow> dec32 b;
     (v3, b) \<leftarrow> dec32 b; (v4, b) \<leftarrow> dec8 b; (v5, b) \<leftarrow> dec8 b;
     (v6, b) \<leftarrow> dec8 b; (v7, b) \<leftarrow> dec8 b;
     (v8, b) \<leftarrow> dec_bytes 3 b; (_, b) \<leftarrow> dec_pad 1 b; 
     Some (\<lparr>protocol = v0, ses_ip = v1, lport = v2, dport = v3, conn = v4, dis_conn = v5,
       time_out = v6, max_num = v7, ses_rsvd = v8\<rparr>, b) }"

interpretation cSES: codec enc_CONFIG_SESSION dec_CONFIG_SESSION 24 ok_CONFIG_SESSION
proof unfold_locales
  show "length (enc_CONFIG_SESSION x) = 24" if "ok_CONFIG_SESSION x" for x
    using that by (simp add: ok_CONFIG_SESSION_def enc_CONFIG_SESSION_def codec_simps )
  show "dec_CONFIG_SESSION (enc_CONFIG_SESSION x @ r) = Some (x, r)" if "ok_CONFIG_SESSION x" for x r
    using that by (simp add: ok_CONFIG_SESSION_def enc_CONFIG_SESSION_def dec_CONFIG_SESSION_def codec_simps )
  show "ok_CONFIG_SESSION x \<and> length bs = 24 + length r" if "dec_CONFIG_SESSION bs = Some (x, r)" for bs x r
    using that by (auto simp: dec_CONFIG_SESSION_def ok_CONFIG_SESSION_def bind_eq_Some_conv dec_bytes_Some
        dest!: dec_lens )
  show "\<exists>x r. dec_CONFIG_SESSION bs = Some (x, r)" if "24 \<le> length bs" for bs
    unfolding dec_CONFIG_SESSION_def using that
    by (auto intro!: dec_total_bind dec_totals  dest!: dec_lens )
qed

interpretation cSESs: codec "enc_list enc_CONFIG_SESSION" "dec_list dec_CONFIG_SESSION n" "n * 24"
  "\<lambda>xs. list_all ok_CONFIG_SESSION xs \<and> length xs = n" for n
  by (rule cSES.arr)

subsection \<open>CONFIG_MODE\<close>

record CONFIG_MODE =
  mode_id :: u32
  work_mode :: u8
  tcp_mode :: u8
  CR :: u8
  LF :: u8
  is_null :: u8
  attestation :: u8
  att :: u8
  reg :: u8
  mode_rsvd :: bytes
  session :: "CONFIG_SESSION list"

definition ok_CONFIG_MODE :: "CONFIG_MODE \<Rightarrow> bool" where
  "ok_CONFIG_MODE x \<longleftrightarrow> length (mode_rsvd x) = 5 \<and>
     list_all ok_CONFIG_SESSION (session x) \<and> length (session x) = 6"

definition enc_CONFIG_MODE :: "CONFIG_MODE \<Rightarrow> bytes" where
  "enc_CONFIG_MODE x = enc32 (mode_id x) @ enc8 (work_mode x) @ enc8 (tcp_mode x) @ enc8 (CR x) @ enc8 (LF x) @
     enc8 (is_null x) @ enc8 (attestation x) @ enc8 (att x) @ enc8 (reg x) @ mode_rsvd x @
     zeros 3 @ enc_list enc_CONFIG_SESSION (session x)"

definition dec_CONFIG_MODE :: "CONFIG_MODE decoder" where
  "dec_CONFIG_MODE b = do {
     (v0, b) \<leftarrow> dec32 b; (v1, b) \<leftarrow> dec8 b; (v2, b) \<leftarrow> dec8 b;
     (v3, b) \<leftarrow> dec8 b; (v4, b) \<leftarrow> dec8 b; (v5, b) \<leftarrow> dec8 b;
     (v6, b) \<leftarrow> dec8 b; (v7, b) \<leftarrow> dec8 b; (v8, b) \<leftarrow> dec8 b;
     (v9, b) \<leftarrow> dec_bytes 5 b; (_, b) \<leftarrow> dec_pad 3 b;
     (v11, b) \<leftarrow> dec_list dec_CONFIG_SESSION 6 b; 
     Some (\<lparr>mode_id = v0, work_mode = v1, tcp_mode = v2, CR = v3, LF = v4, is_null = v5,
       attestation = v6, att = v7, reg = v8, mode_rsvd = v9, session = v11\<rparr>, b) }"

interpretation cMODE: codec enc_CONFIG_MODE dec_CONFIG_MODE 164 ok_CONFIG_MODE
proof unfold_locales
  show "length (enc_CONFIG_MODE x) = 164" if "ok_CONFIG_MODE x" for x
    using that by (simp add: ok_CONFIG_MODE_def enc_CONFIG_MODE_def codec_simps cSESs.enc_length)
  show "dec_CONFIG_MODE (enc_CONFIG_MODE x @ r) = Some (x, r)" if "ok_CONFIG_MODE x" for x r
    using that by (simp add: ok_CONFIG_MODE_def enc_CONFIG_MODE_def dec_CONFIG_MODE_def codec_simps cSESs.dec_enc)
  show "ok_CONFIG_MODE x \<and> length bs = 164 + length r" if "dec_CONFIG_MODE bs = Some (x, r)" for bs x r
    using that by (auto simp: dec_CONFIG_MODE_def ok_CONFIG_MODE_def bind_eq_Some_conv dec_bytes_Some
        dest!: dec_lens cSESs.dec_ok)
  show "\<exists>x r. dec_CONFIG_MODE bs = Some (x, r)" if "164 \<le> length bs" for bs
    unfolding dec_CONFIG_MODE_def using that
    by (auto intro!: dec_total_bind dec_totals cSESs.dec_total dest!: dec_lens cSESs.dec_ok)
qed

interpretation cMODEs: codec "enc_list enc_CONFIG_MODE" "dec_list dec_CONFIG_MODE n" "n * 164"
  "\<lambda>xs. list_all ok_CONFIG_MODE xs \<and> length xs = n" for n
  by (rule cMODE.arr)

subsection \<open>CONFIG_LIMIT\<close>

record CONFIG_LIMIT =
  lim_id :: u8
  lim_enable :: u8
  lim_read :: bytes
  lim_modify :: bytes

definition ok_CONFIG_LIMIT :: "CONFIG_LIMIT \<Rightarrow> bool" where
  "ok_CONFIG_LIMIT x \<longleftrightarrow> length (lim_read x) = 16 \<and>
     length (lim_modify x) = 16"

definition enc_CONFIG_LIMIT :: "CONFIG_LIMIT \<Rightarrow> bytes" where
  "enc_CONFIG_LIMIT x = enc8 (lim_id x) @ enc8 (lim_enable x) @ lim_read x @ lim_modify x"

definition dec_CONFIG_LIMIT :: "CONFIG_LIMIT decoder" where
  "dec_CONFIG_LIMIT b = do {
     (v0, b) \<leftarrow> dec8 b; (v1, b) \<leftarrow> dec8 b;
     (v2, b) \<leftarrow> dec_bytes 16 b; (v3, b) \<leftarrow> dec_bytes 16 b; 
     Some (\<lparr>lim_id = v0, lim_enable = v1, lim_read = v2, lim_modify = v3\<rparr>, b) }"

interpretation cLIM: codec enc_CONFIG_LIMIT dec_CONFIG_LIMIT 34 ok_CONFIG_LIMIT
proof unfold_locales
  show "length (enc_CONFIG_LIMIT x) = 34" if "ok_CONFIG_LIMIT x" for x
    using that by (simp add: ok_CONFIG_LIMIT_def enc_CONFIG_LIMIT_def codec_simps )
  show "dec_CONFIG_LIMIT (enc_CONFIG_LIMIT x @ r) = Some (x, r)" if "ok_CONFIG_LIMIT x" for x r
    using that by (simp add: ok_CONFIG_LIMIT_def enc_CONFIG_LIMIT_def dec_CONFIG_LIMIT_def codec_simps )
  show "ok_CONFIG_LIMIT x \<and> length bs = 34 + length r" if "dec_CONFIG_LIMIT bs = Some (x, r)" for bs x r
    using that by (auto simp: dec_CONFIG_LIMIT_def ok_CONFIG_LIMIT_def bind_eq_Some_conv dec_bytes_Some
        dest!: dec_lens )
  show "\<exists>x r. dec_CONFIG_LIMIT bs = Some (x, r)" if "34 \<le> length bs" for bs
    unfolding dec_CONFIG_LIMIT_def using that
    by (auto intro!: dec_total_bind dec_totals  dest!: dec_lens )
qed

interpretation cLIMs: codec "enc_list enc_CONFIG_LIMIT" "dec_list dec_CONFIG_LIMIT n" "n * 34"
  "\<lambda>xs. list_all ok_CONFIG_LIMIT xs \<and> length xs = n" for n
  by (rule cLIM.arr)

subsection \<open>CONFIG_GPIO\<close>

record CONFIG_GPIO =
  alarm :: "u32 list"
  alarm_on_off :: bytes
  gpio_output :: bytes
  sensor :: bytes

definition ok_CONFIG_GPIO :: "CONFIG_GPIO \<Rightarrow> bool" where
  "ok_CONFIG_GPIO x \<longleftrightarrow> length (alarm x) = 3 \<and>
     length (alarm_on_off x) = 3 \<and>
     length (gpio_output x) = 4 \<and>
     length (sensor x) = 30"

definition enc_CONFIG_GPIO :: "CONFIG_GPIO \<Rightarrow> bytes" where
  "enc_CONFIG_GPIO x = enc_list enc32 (alarm x) @ alarm_on_off x @ gpio_output x @ sensor x @ zeros 3"

definition dec_CONFIG_GPIO :: "CONFIG_GPIO decoder" where
  "dec_CONFIG_GPIO b = do {
     (v0, b) \<leftarrow> dec_list dec32 3 b; (v1, b) \<leftarrow> dec_bytes 3 b;
     (v2, b) \<leftarrow> dec_bytes 4 b; (v3, b) \<leftarrow> dec_bytes 30 b;
     (_, b) \<leftarrow> dec_pad 3 b; 
     Some (\<lparr>alarm = v0, alarm_on_off = v1, gpio_output = v2, sensor = v3\<rparr>, b) }"

interpretation cGPIO: codec enc_CONFIG_GPIO dec_CONFIG_GPIO 52 ok_CONFIG_GPIO
proof unfold_locales
  show "length (enc_CONFIG_GPIO x) = 52" if "ok_CONFIG_GPIO x" for x
    using that by (simp add: ok_CONFIG_GPIO_def enc_CONFIG_GPIO_def codec_simps c32s.enc_length)
  show "dec_CONFIG_GPIO (enc_CONFIG_GPIO x @ r) = Some (x, r)" if "ok_CONFIG_GPIO x" for x r
    using that by (simp add: ok_CONFIG_GPIO_def enc_CONFIG_GPIO_def dec_CONFIG_GPIO_def codec_simps c32s.dec_enc)
  show "ok_CONFIG_GPIO x \<and> length bs = 52 + length r" if "dec_CONFIG_GPIO bs = Some (x, r)" for bs x r
    using that by (auto simp: dec_CONFIG_GPIO_def ok_CONFIG_GPIO_def bind_eq_Some_conv dec_bytes_Some
        dest!: dec_lens c32s.dec_ok)
  show "\<exists>x r. dec_CONFIG_GPIO bs = Some (x, r)" if "52 \<le> length bs" for bs
    unfolding dec_CONFIG_GPIO_def using that
    by (auto intro!: dec_total_bind dec_totals c32s.dec_total dest!: dec_lens c32s.dec_ok)
qed

subsection \<open>CONFIG_SERVER\<close>

record CONFIG_SERVER =
  server_ip :: u32
  server_port :: u16
  dns_str :: bytes

definition ok_CONFIG_SERVER :: "CONFIG_SERVER \<Rightarrow> bool" where
  "ok_CONFIG_SERVER x \<longleftrightarrow> length (dns_str x) = 50"

definition enc_CONFIG_SERVER :: "CONFIG_SERVER \<Rightarrow> bytes" where
  "enc_CONFIG_SERVER x = enc32 (server_ip x) @ enc16 (server_port x) @ dns_str x"

definition dec_CONFIG_SERVER :: "CONFIG_SERVER decoder" where
  "dec_CONFIG_SERVER b = do {
     (v0, b) \<leftarrow> dec32 b; (v1, b) \<leftarrow> dec16 b;
     (v2, b) \<leftarrow> dec_bytes 50 b; 
     Some (\<lparr>server_ip = v0, server_port = v1, dns_str = v2\<rparr>, b) }"

interpretation cSRV: codec enc_CONFIG_SERVER dec_CONFIG_SERVER 56 ok_CONFIG_SERVER
proof unfold_locales
  show "length (enc_CONFIG_SERVER x) = 56" if "ok_CONFIG_SERVER x" for x
    using that by (simp add: ok_CONFIG_SERVER_def enc_CONFIG_SERVER_def codec_simps )
  show "dec_CONFIG_SERVER (enc_CONFIG_SERVER x @ r) = Some (x, r)" if "ok_CONFIG_SERVER x" for x r
    using that by (simp add: ok_CONFIG_SERVER_def enc_CONFIG_SERVER_def dec_CONFIG_SERVER_def codec_simps )
  show "ok_CONFIG_SERVER x \<and> length bs = 56 + length r" if "dec_CONFIG_SERVER bs = Some (x, r)" for bs x r
    using that by (auto simp: dec_CONFIG_SERVER_def ok_CONFIG_SERVER_def bind_eq_Some_conv dec_bytes_Some
        dest!: dec_lens )
  show "\<exists>x r. dec_CONFIG_SERVER bs = Some (x, r)" if "56 \<le> length bs" for bs
    unfolding dec_CONFIG_SERVER_def using that
    by (auto intro!: dec_total_bind dec_totals  dest!: dec_lens )
qed

subsection \<open>CONFIG_SENSOR\<close>

record CONFIG_SENSOR =
  sen_type :: u8
  sen_num :: u8
  seq_num :: bytes
  sen_attr :: bytes

definition ok_CONFIG_SENSOR :: "CONFIG_SENSOR \<Rightarrow> bool" where
  "ok_CONFIG_SENSOR x \<longleftrightarrow> length (seq_num x) = 8 \<and>
     length (sen_attr x) = 8"

definition enc_CONFIG_SENSOR :: "CONFIG_SENSOR \<Rightarrow> bytes" where
  "enc_CONFIG_SENSOR x = enc8 (sen_type x) @ enc8 (sen_num x) @ seq_num x @ sen_attr x"

definition dec_CONFIG_SENSOR :: "CONFIG_SENSOR decoder" where
  "dec_CONFIG_SENSOR b = do {
     (v0, b) \<leftarrow> dec8 b; (v1, b) \<leftarrow> dec8 b;
     (v2, b) \<leftarrow> dec_bytes 8 b; (v3, b) \<leftarrow> dec_bytes 8 b; 
     Some (\<lparr>sen_type = v0, sen_num = v1, seq_num = v2, sen_attr = v3\<rparr>, b) }"

interpretation cSEN: codec enc_CONFIG_SENSOR dec_CONFIG_SENSOR 18 ok_CONFIG_SENSOR
proof unfold_locales
  show "length (enc_CONFIG_SENSOR x) = 18" if "ok_CONFIG_SENSOR x" for x
    using that by (simp add: ok_CONFIG_SENSOR_def enc_CONFIG_SENSOR_def codec_simps )
  show "dec_CONFIG_SENSOR (enc_CONFIG_SENSOR x @ r) = Some (x, r)" if "ok_CONFIG_SENSOR x" for x r
    using that by (simp add: ok_CONFIG_SENSOR_def enc_CONFIG_SENSOR_def dec_CONFIG_SENSOR_def codec_simps )
  show "ok_CONFIG_SENSOR x \<and> length bs = 18 + length r" if "dec_CONFIG_SENSOR bs = Some (x, r)" for bs x r
    using that by (auto simp: dec_CONFIG_SENSOR_def ok_CONFIG_SENSOR_def bind_eq_Some_conv dec_bytes_Some
        dest!: dec_lens )
  show "\<exists>x r. dec_CONFIG_SENSOR bs = Some (x, r)" if "18 \<le> length bs" for bs
    unfolding dec_CONFIG_SENSOR_def using that
    by (auto intro!: dec_total_bind dec_totals  dest!: dec_lens )
qed

interpretation cSENs: codec "enc_list enc_CONFIG_SENSOR" "dec_list dec_CONFIG_SENSOR n" "n * 18"
  "\<lambda>xs. list_all ok_CONFIG_SENSOR xs \<and> length xs = n" for n
  by (rule cSEN.arr)

subsection \<open>USR_INFO\<close>

record USR_INFO =
  usr_id :: u16
  usr_name :: bytes
  usr_passwd :: bytes
  usr_auth :: u8
  usr_state :: u8
  usr_reserved :: bytes

definition ok_USR_INFO :: "USR_INFO \<Rightarrow> bool" where
  "ok_USR_INFO x \<longleftrightarrow> length (usr_name x) = 24 \<and>
     length (usr_passwd x) = 24 \<and>
     length (usr_reserved x) = 4"

definition enc_USR_INFO :: "USR_INFO \<Rightarrow> bytes" where
  "enc_USR_INFO x = enc16 (usr_id x) @ usr_name x @ usr_passwd x @ enc8 (usr_auth x) @ enc8 (usr_state x) @
     usr_reserved x"

definition dec_USR_INFO :: "USR_INFO decoder" where
  "dec_USR_INFO b = do {
     (v0, b) \<leftarrow> dec16 b; (v1, b) \<leftarrow> dec_bytes 24 b;
     (v2, b) \<leftarrow> dec_bytes 24 b; (v3, b) \<leftarrow> dec8 b;
     (v4, b) \<leftarrow> dec8 b; (v5, b) \<leftarrow> dec_bytes 4 b; 
     Some (\<lparr>usr_id = v0, usr_name = v1, usr_passwd = v2, usr_auth = v3, usr_state = v4,
       usr_reserved = v5\<rparr>, b) }"

interpretation cUSR: codec enc_USR_INFO dec_USR_INFO 56 ok_USR_INFO
proof unfold_locales
  show "length (enc_USR_INFO x) = 56" if "ok_USR_INFO x" for x
    using that by (simp add: ok_USR_INFO_def enc_USR_INFO_def codec_simps )
  show "dec_USR_INFO (enc_USR_INFO x @ r) = Some (x, r)" if "ok_USR_INFO x" for x r
    using that by (simp add: ok_USR_INFO_def enc_USR_INFO_def dec_USR_INFO_def codec_simps )
  show "ok_USR_INFO x \<and> length bs = 56 + length r" if "dec_USR_INFO bs = Some (x, r)" for bs x r
    using that by (auto simp: dec_USR_INFO_def ok_USR_INFO_def bind_eq_Some_conv dec_bytes_Some
        dest!: dec_lens )
  show "\<exists>x r. dec_USR_INFO bs = Some (x, r)" if "56 \<le> length bs" for bs
    unfolding dec_USR_INFO_def using that
    by (auto intro!: dec_total_bind dec_totals  dest!: dec_lens )
qed

interpretation cUSRs: codec "enc_list enc_USR_INFO" "dec_list dec_USR_INFO n" "n * 56"
  "\<lambda>xs. list_all ok_USR_INFO xs \<and> length xs = n" for n
  by (rule cUSR.arr)

subsection \<open>CONFI_DATA\<close>

record CONFI_DATA =
  con_sys :: CONFIG_SYS
  con_net :: CONFIG_NET
  con_vlan :: CONFIG_VLAN
  con_com :: "CONFIG_COM list"
  con_mode :: "CONFIG_MODE list"
  con_lim :: "CONFIG_LIMIT list"
  con_usr :: "USR_INFO list"
  con_server :: CONFIG_SERVER
  con_gpio :: CONFIG_GPIO
  con_sensor :: "CONFIG_SENSOR list"

definition ok_CONFI_DATA :: "CONFI_DATA \<Rightarrow> bool" where
  "ok_CONFI_DATA x \<longleftrightarrow> ok_CONFIG_SYS (con_sys x) \<and>
     ok_CONFIG_NET (con_net x) \<and>
     ok_CONFIG_VLAN (con_vlan x) \<and>
     list_all ok_CONFIG_COM (con_com x) \<and> length (con_com x) = 2 \<and>
     list_all ok_CONFIG_MODE (con_mode x) \<and> length (con_mode x) = 2 \<and>
     list_all ok_CONFIG_LIMIT (con_lim x) \<and> length (con_lim x) = 2 \<and>
     list_all ok_USR_INFO (con_usr x) \<and> length (con_usr x) = 16 \<and>
     ok_CONFIG_SERVER (con_server x) \<and>
     ok_CONFIG_GPIO (con_gpio x) \<and>
     list_all ok_CONFIG_SENSOR (con_sensor x) \<and> length (con_sensor x) = 4"

definition enc_CONFI_DATA :: "CONFI_DATA \<Rightarrow> bytes" where
  "enc_CONFI_DATA x = enc_CONFIG_SYS (con_sys x) @ enc_CONFIG_NET (con_net x) @ enc_CONFIG_VLAN (con_vlan x) @
     enc_list enc_CONFIG_COM (con_com x) @ enc_list enc_CONFIG_MODE (con_mode x) @
     enc_list enc_CONFIG_LIMIT (con_lim x) @ enc_list enc_USR_INFO (con_usr x) @
     enc_CONFIG_SERVER (con_server x) @ enc_CONFIG_GPIO (con_gpio x) @
     enc_list enc_CONFIG_SENSOR (con_sensor x)"

definition dec_CONFI_DATA :: "CONFI_DATA decoder" where
  "dec_CONFI_DATA b = do {
     (v0, b) \<leftarrow> dec_CONFIG_SYS b; (v1, b) \<leftarrow> dec_CONFIG_NET b;
     (v2, b) \<leftarrow> dec_CONFIG_VLAN b; (v3, b) \<leftarrow> dec_list dec_CONFIG_COM 2 b;
     (v4, b) \<leftarrow> dec_list dec_CONFIG_MODE 2 b;
     (v5, b) \<leftarrow> dec_list dec_CONFIG_LIMIT 2 b;
     (v6, b) \<leftarrow> dec_list dec_USR_INFO 16 b; (v7, b) \<leftarrow> dec_CONFIG_SERVER b;
     (v8, b) \<leftarrow> dec_CONFIG_GPIO b;
     (v9, b) \<leftarrow> dec_list dec_CONFIG_SENSOR 4 b; 
     Some (\<lparr>con_sys = v0, con_net = v1, con_vlan = v2, con_com = v3, con_mode = v4, con_lim = v5,
       con_usr = v6, con_server = v7, con_gpio = v8, con_sensor = v9\<rparr>, b) }"

interpretation cDATA: codec enc_CONFI_DATA dec_CONFI_DATA 1860 ok_CONFI_DATA
proof unfold_locales
  show "length (enc_CONFI_DATA x) = 1860" if "ok_CONFI_DATA x" for x
    using that by (simp add: ok_CONFI_DATA_def enc_CONFI_DATA_def codec_simps cCOMs.enc_length cGPIO.enc_length cLIMs.enc_length cMODEs.enc_length cNET.enc_length cSENs.enc_length cSRV.enc_length cSYS.enc_length cUSRs.enc_length cVLAN.enc_length)
  show "dec_CONFI_DATA (enc_CONFI_DATA x @ r) = Some (x, r)" if "ok_CONFI_DATA x" for x r
    using that by (simp add: ok_CONFI_DATA_def enc_CONFI_DATA_def dec_CONFI_DATA_def codec_simps cCOMs.dec_enc cGPIO.dec_enc cLIMs.dec_enc cMODEs.dec_enc cNET.dec_enc cSENs.dec_enc cSRV.dec_enc cSYS.dec_enc cUSRs.dec_enc cVLAN.dec_enc)
  show "ok_CONFI_DATA x \<and> length bs = 1860 + length r" if "dec_CONFI_DATA bs = Some (x, r)" for bs x r
    using that by (auto simp: dec_CONFI_DATA_def ok_CONFI_DATA_def bind_eq_Some_conv dec_bytes_Some
        dest!: dec_lens cCOMs.dec_ok cGPIO.dec_ok cLIMs.dec_ok cMODEs.dec_ok cNET.dec_ok cSENs.dec_ok cSRV.dec_ok cSYS.dec_ok cUSRs.dec_ok cVLAN.dec_ok)
  show "\<exists>x r. dec_CONFI_DATA bs = Some (x, r)" if "1860 \<le> length bs" for bs
    unfolding dec_CONFI_DATA_def using that
    by (auto intro!: dec_total_bind dec_totals cCOMs.dec_total cGPIO.dec_total cLIMs.dec_total cMODEs.dec_total cNET.dec_total cSENs.dec_total cSRV.dec_total cSYS.dec_total cUSRs.dec_total cVLAN.dec_total dest!: dec_lens cCOMs.dec_ok cGPIO.dec_ok cLIMs.dec_ok cMODEs.dec_ok cNET.dec_ok cSENs.dec_ok cSRV.dec_ok cSYS.dec_ok cUSRs.dec_ok cVLAN.dec_ok)
qed

subsection \<open>ITSIP\<close>

record ITSIP =
  itsip_head :: u8
  itsip_cmd :: u8
  itsip_ver :: u8
  itsip_thl :: u8
  itsip_extlen :: u16
  itsip_dev_t :: u8
  itsip_rsvd :: u8
  itsip_user :: bytes
  itsip_data :: bytes

definition ok_ITSIP :: "ITSIP \<Rightarrow> bool" where
  "ok_ITSIP x \<longleftrightarrow> length (itsip_user x) = 24 \<and>
     length (itsip_data x) = 24"

definition enc_ITSIP :: "ITSIP \<Rightarrow> bytes" where
  "enc_ITSIP x = enc8 (itsip_head x) @ enc8 (itsip_cmd x) @ enc8 (itsip_ver x) @ enc8 (itsip_thl x) @
     enc16 (itsip_extlen x) @ enc8 (itsip_dev_t x) @ enc8 (itsip_rsvd x) @ itsip_user x @
     itsip_data x"

definition dec_ITSIP :: "ITSIP decoder" where
  "dec_ITSIP b = do {
     (v0, b) \<leftarrow> dec8 b; (v1, b) \<leftarrow> dec8 b; (v2, b) \<leftarrow> dec8 b;
     (v3, b) \<leftarrow> dec8 b; (v4, b) \<leftarrow> dec16 b; (v5, b) \<leftarrow> dec8 b;
     (v6, b) \<leftarrow> dec8 b; (v7, b) \<leftarrow> dec_bytes 24 b;
     (v8, b) \<leftarrow> dec_bytes 24 b; 
     Some (\<lparr>itsip_head = v0, itsip_cmd = v1, itsip_ver = v2, itsip_thl = v3, itsip_extlen = v4,
       itsip_dev_t = v5, itsip_rsvd = v6, itsip_user = v7, itsip_data = v8\<rparr>, b) }"

interpretation cITSIP: codec enc_ITSIP dec_ITSIP 56 ok_ITSIP
proof unfold_locales
  show "length (enc_ITSIP x) = 56" if "ok_ITSIP x" for x
    using that by (simp add: ok_ITSIP_def enc_ITSIP_def codec_simps )
  show "dec_ITSIP (enc_ITSIP x @ r) = Some (x, r)" if "ok_ITSIP x" for x r
    using that by (simp add: ok_ITSIP_def enc_ITSIP_def dec_ITSIP_def codec_simps )
  show "ok_ITSIP x \<and> length bs = 56 + length r" if "dec_ITSIP bs = Some (x, r)" for bs x r
    using that by (auto simp: dec_ITSIP_def ok_ITSIP_def bind_eq_Some_conv dec_bytes_Some
        dest!: dec_lens )
  show "\<exists>x r. dec_ITSIP bs = Some (x, r)" if "56 \<le> length bs" for bs
    unfolding dec_ITSIP_def using that
    by (auto intro!: dec_total_bind dec_totals  dest!: dec_lens )
qed

end
