(* ===== verification/Protocol.thy ===== *)
theory Protocol
  imports Prelude
begin

text \<open>
  The enumerations and constants of the headers of \<open>nc600-2.0/inc\<close>: reply codes (\<open>cmd_def.h\<close>),
  commands of the management protocol (\<open>itsip.h\<close>), commands of the alarm-server protocol
  (\<open>client.h\<close>), pins (\<open>gpio.h\<close>), serial types (\<open>com.h\<close>) and working modes (\<open>mode.h\<close>). An
  enumeration is a datatype with the function that gives its C value.
\<close>

section \<open>cmd_def.h\<close>

text \<open>Result codes of the management protocol.\<close>

datatype (plugins only: code size) CMD_CODE
  = CONN_FAILED | SEND_FAILED | RECV_FAILED | LOGIN_OK | NO_USER | ERROR_PSW | QUERY_OK
  | QUERY_FAILED | SYS_SET_OK | SYS_SET_FAILED | NET_SET_OK | NET_SET_FAILED
  | VLAN_SET_OK | VLAN_SET_FAILED | FACTORY_SET_OK | FACTORY_SET_FAILED | RC_NOUSR
  | RC_NORIGHT | RC_USREXIST | USR_ADD_OK | USR_ADD_NORIGHT | USR_ADD_FAILED | USR_DEL_OK
  | USR_DEL_NORIGHT | USR_DEL_FAILED | USR_MODIFY_OK | USR_MODIFY_NORIGHT
  | USR_MODIFY_FAILED | COM_SET_OK | COM_SET_FAILED | MODE_SET_OK | MODE_SET_FAILED
  | LIMIT_SET_OK | LIMIT_SET_FAILED | SERVER_SET_OK | SERVER_SET_FAILED | DNS_OK
  | DNS_FAILED | GPIO_SET_OK | GPIO_SET_FAILED

primrec cmd_code :: "CMD_CODE \<Rightarrow> int" where
  "cmd_code CONN_FAILED = 1"
| "cmd_code SEND_FAILED = 2"
| "cmd_code RECV_FAILED = 3"
| "cmd_code LOGIN_OK = 4"
| "cmd_code NO_USER = 5"
| "cmd_code ERROR_PSW = 6"
| "cmd_code QUERY_OK = 7"
| "cmd_code QUERY_FAILED = 8"
| "cmd_code SYS_SET_OK = 9"
| "cmd_code SYS_SET_FAILED = 10"
| "cmd_code NET_SET_OK = 11"
| "cmd_code NET_SET_FAILED = 12"
| "cmd_code VLAN_SET_OK = 13"
| "cmd_code VLAN_SET_FAILED = 14"
| "cmd_code FACTORY_SET_OK = 15"
| "cmd_code FACTORY_SET_FAILED = 16"
| "cmd_code RC_NOUSR = 17"
| "cmd_code RC_NORIGHT = 18"
| "cmd_code RC_USREXIST = 19"
| "cmd_code USR_ADD_OK = 20"
| "cmd_code USR_ADD_NORIGHT = 21"
| "cmd_code USR_ADD_FAILED = 22"
| "cmd_code USR_DEL_OK = 23"
| "cmd_code USR_DEL_NORIGHT = 24"
| "cmd_code USR_DEL_FAILED = 25"
| "cmd_code USR_MODIFY_OK = 26"
| "cmd_code USR_MODIFY_NORIGHT = 27"
| "cmd_code USR_MODIFY_FAILED = 28"
| "cmd_code COM_SET_OK = 29"
| "cmd_code COM_SET_FAILED = 30"
| "cmd_code MODE_SET_OK = 31"
| "cmd_code MODE_SET_FAILED = 32"
| "cmd_code LIMIT_SET_OK = 33"
| "cmd_code LIMIT_SET_FAILED = 34"
| "cmd_code SERVER_SET_OK = 35"
| "cmd_code SERVER_SET_FAILED = 36"
| "cmd_code DNS_OK = 37"
| "cmd_code DNS_FAILED = 38"
| "cmd_code GPIO_SET_OK = 39"
| "cmd_code GPIO_SET_FAILED = 40"

text \<open>The kinds of \<open>ITS_USER_SET\<close> and of \<open>ITS_CONF_QUERY\<close>/\<open>ITS_CONF_SET\<close>, the first data byte.\<close>

datatype USER_SET = USER_ADD | USER_DEL | USER_MODIFY

fun user_set_code :: "USER_SET \<Rightarrow> u8" where
  "user_set_code USER_ADD = 0"
| "user_set_code USER_DEL = 1"
| "user_set_code USER_MODIFY = 2"

datatype CONF_KIND = CONF_COM | CONF_MODE | CONF_LIMIT | CONF_GPIO | CONF_SERVER

fun conf_kind_code :: "CONF_KIND \<Rightarrow> u8" where
  "conf_kind_code CONF_COM = 0"
| "conf_kind_code CONF_MODE = 1"
| "conf_kind_code CONF_LIMIT = 2"
| "conf_kind_code CONF_GPIO = 3"
| "conf_kind_code CONF_SERVER = 4"

section \<open>itsip.h\<close>

text \<open>Command bytes of the management protocol.\<close>

datatype (plugins only: code size) ITS_CMD
  = ITS_HEAD | ITS_LOGIN | ITS_SYSINFO_QUERY | ITS_CONF_QUERY | ITS_CONF_SET
  | ITS_LOG_QUERY | ITS_USER_SET | ITS_SYS_UP | ITS_SYSUP_LOGIN | ITS_CONN_TEST
  | ITS_DELETE | ITS_LOGOUT | ITS_TIME_SET | ITS_TALK_REQ | ITS_KEEPLIVE | ITS_USER_QUERY
  | ITS_SYSINFO_SET | ITS_NETINFO_QUERY | ITS_NETINFO_SET | ITS_VLAN_QUERY | ITS_VLAN_SET
  | ITS_FACTORY_SET | ITS_SERVER_QUERY | ITS_SERVER_SET | ITS_GPIO_QUERY | ITS_GPIO_SET
  | ITS_ACK_LOGIN | ITS_ACK_SYSINFO_QUERY | ITS_ACK_CONF_QUERY | ITS_ACK_CONF_SET
  | ITS_ACK_LOG_QUERY | ITS_ACK_USER_SET | ITS_ACK_SYS_UP | ITS_ACK_SYSUP_LOGIN
  | ITS_ACK_CONN_TEST | ITS_ACK_DELETE | ITS_ACK_LOGOUT | ITS_ACK_TIME_SET
  | ITS_ACK_TALK_REQ | ITS_ACK_KEEPLIVE | ITS_ACK_USER_QUERY | ITS_ACK_SYSINFO_SET
  | ITS_ACK_NETINFO_QUERY | ITS_ACK_NETINFO_SET | ITS_ACK_VLAN_QUERY | ITS_ACK_VLAN_SET
  | ITS_ACK_FACTORY_SET | ITS_ACK_SERVER_QUERY | ITS_ACK_SERVER_SET | ITS_ACK_GPIO_QUERY
  | ITS_ACK_GPIO_SET

primrec its_code :: "ITS_CMD \<Rightarrow> u8" where
  "its_code ITS_HEAD = 255"
| "its_code ITS_LOGIN = 160"
| "its_code ITS_SYSINFO_QUERY = 161"
| "its_code ITS_CONF_QUERY = 162"
| "its_code ITS_CONF_SET = 163"
| "its_code ITS_LOG_QUERY = 164"
| "its_code ITS_USER_SET = 165"
| "its_code ITS_SYS_UP = 166"
| "its_code ITS_SYSUP_LOGIN = 167"
| "its_code ITS_CONN_TEST = 168"
| "its_code ITS_DELETE = 169"
| "its_code ITS_LOGOUT = 170"
| "its_code ITS_TIME_SET = 171"
| "its_code ITS_TALK_REQ = 172"
| "its_code ITS_KEEPLIVE = 173"
| "its_code ITS_USER_QUERY = 174"
| "its_code ITS_SYSINFO_SET = 175"
| "its_code ITS_NETINFO_QUERY = 192"
| "its_code ITS_NETINFO_SET = 193"
| "its_code ITS_VLAN_QUERY = 194"
| "its_code ITS_VLAN_SET = 195"
| "its_code ITS_FACTORY_SET = 196"
| "its_code ITS_SERVER_QUERY = 197"
| "its_code ITS_SERVER_SET = 198"
| "its_code ITS_GPIO_QUERY = 199"
| "its_code ITS_GPIO_SET = 200"
| "its_code ITS_ACK_LOGIN = 176"
| "its_code ITS_ACK_SYSINFO_QUERY = 177"
| "its_code ITS_ACK_CONF_QUERY = 178"
| "its_code ITS_ACK_CONF_SET = 179"
| "its_code ITS_ACK_LOG_QUERY = 180"
| "its_code ITS_ACK_USER_SET = 181"
| "its_code ITS_ACK_SYS_UP = 182"
| "its_code ITS_ACK_SYSUP_LOGIN = 183"
| "its_code ITS_ACK_CONN_TEST = 184"
| "its_code ITS_ACK_DELETE = 185"
| "its_code ITS_ACK_LOGOUT = 186"
| "its_code ITS_ACK_TIME_SET = 187"
| "its_code ITS_ACK_TALK_REQ = 188"
| "its_code ITS_ACK_KEEPLIVE = 189"
| "its_code ITS_ACK_USER_QUERY = 190"
| "its_code ITS_ACK_SYSINFO_SET = 191"
| "its_code ITS_ACK_NETINFO_QUERY = 208"
| "its_code ITS_ACK_NETINFO_SET = 209"
| "its_code ITS_ACK_VLAN_QUERY = 210"
| "its_code ITS_ACK_VLAN_SET = 211"
| "its_code ITS_ACK_FACTORY_SET = 212"
| "its_code ITS_ACK_SERVER_QUERY = 213"
| "its_code ITS_ACK_SERVER_SET = 214"
| "its_code ITS_ACK_GPIO_QUERY = 215"
| "its_code ITS_ACK_GPIO_SET = 216"

section \<open>client.h\<close>

text \<open>Command bytes of the alarm-server protocol.\<close>

datatype (plugins only: code size) protocol_id
  = PROTOCOL_GET_DEVICE_ATTR | PROTOCOL_ACK_GET_DEVICE_ATTR | PROTOCOL_SET_DEVICE_ATTR
  | PROTOCOL_ACK_SET_DEVICE_ATTR | PROTOCOL_GET_ALARM_STATUS
  | PROTOCOL_ACK_GET_ALARM_STATUS | PROTOCOL_GET_TIME | PROTOCOL_SET_TIME
  | PROTOCOL_SET_HEARTBEAT | PROTOCOL_ACK_SET_HEARTBEAT | PROTOCOL_GET_UART_QTY
  | PROTOCOL_ACK_UART_QTY | PROTOCOL_GET_UART_ATTR | PROTOCOL_ACK_GET_UART_ATTR
  | PROTOCOL_SET_UART_ATTR | PROTOCOL_ACK_SET_UART_ATTR | PROTOCOL_QUERY_UART_SENDBUF
  | PROTOCOL_ACK_QUERY_UART_SENDBUF | PROTOCOL_UART_SEND_DATA
  | PROTOCOL_ACK_UART_SEND_DATA | PROTOCOL_SET_UART_RECV_ATTR
  | PROTOCOL_QUERY_UART_RECV_DATA | PROTOCOL_ACK_QUERY_UART_RECV_DATA
  | PROTOCOL_GET_IO_NUM | PROTOCOL_ACK_GET_IO_NUM | PROTOCOL_SET_IO
  | PROTOCOL_GET_IO_STATUS | PROTOCOL_ACK_GET_IO_STATUS | PROTOCOL_GET_TEMP_NUM
  | PROTOCOL_ACK_GET_TEMP_NUM | PROTOCOL_SET_TEMP | PROTOCOL_GET_TEMP_STATUS
  | PROTOCOL_ACK_GET_TEMP_STATUS

primrec proto_code :: "protocol_id \<Rightarrow> u8" where
  "proto_code PROTOCOL_GET_DEVICE_ATTR = 1"
| "proto_code PROTOCOL_ACK_GET_DEVICE_ATTR = 2"
| "proto_code PROTOCOL_SET_DEVICE_ATTR = 3"
| "proto_code PROTOCOL_ACK_SET_DEVICE_ATTR = 4"
| "proto_code PROTOCOL_GET_ALARM_STATUS = 5"
| "proto_code PROTOCOL_ACK_GET_ALARM_STATUS = 6"
| "proto_code PROTOCOL_GET_TIME = 7"
| "proto_code PROTOCOL_SET_TIME = 8"
| "proto_code PROTOCOL_SET_HEARTBEAT = 9"
| "proto_code PROTOCOL_ACK_SET_HEARTBEAT = 10"
| "proto_code PROTOCOL_GET_UART_QTY = 11"
| "proto_code PROTOCOL_ACK_UART_QTY = 12"
| "proto_code PROTOCOL_GET_UART_ATTR = 13"
| "proto_code PROTOCOL_ACK_GET_UART_ATTR = 14"
| "proto_code PROTOCOL_SET_UART_ATTR = 15"
| "proto_code PROTOCOL_ACK_SET_UART_ATTR = 16"
| "proto_code PROTOCOL_QUERY_UART_SENDBUF = 17"
| "proto_code PROTOCOL_ACK_QUERY_UART_SENDBUF = 18"
| "proto_code PROTOCOL_UART_SEND_DATA = 19"
| "proto_code PROTOCOL_ACK_UART_SEND_DATA = 20"
| "proto_code PROTOCOL_SET_UART_RECV_ATTR = 21"
| "proto_code PROTOCOL_QUERY_UART_RECV_DATA = 22"
| "proto_code PROTOCOL_ACK_QUERY_UART_RECV_DATA = 23"
| "proto_code PROTOCOL_GET_IO_NUM = 24"
| "proto_code PROTOCOL_ACK_GET_IO_NUM = 25"
| "proto_code PROTOCOL_SET_IO = 26"
| "proto_code PROTOCOL_GET_IO_STATUS = 27"
| "proto_code PROTOCOL_ACK_GET_IO_STATUS = 28"
| "proto_code PROTOCOL_GET_TEMP_NUM = 32"
| "proto_code PROTOCOL_ACK_GET_TEMP_NUM = 33"
| "proto_code PROTOCOL_SET_TEMP = 34"
| "proto_code PROTOCOL_GET_TEMP_STATUS = 35"
| "proto_code PROTOCOL_ACK_GET_TEMP_STATUS = 36"

definition PROTOCOL_HEAD_1 :: u8 where "PROTOCOL_HEAD_1 = 0x55"
definition PROTOCOL_HEAD_2 :: u8 where "PROTOCOL_HEAD_2 = 0xaa"
definition ALARM_DEVICE_ID :: u8 where "ALARM_DEVICE_ID = 1"

datatype check_error = ERROR_NUM_IS_NOT_ENOUGH | ERROR_HEAD_OR_DEVICE_ID | ERROR_CRC_CHECK
  | ERROR_DATA_FORMAT

fun check_code :: "check_error \<Rightarrow> int" where
  "check_code ERROR_NUM_IS_NOT_ENOUGH = -1"
| "check_code ERROR_HEAD_OR_DEVICE_ID = -2"
| "check_code ERROR_CRC_CHECK = -3"
| "check_code ERROR_DATA_FORMAT = -4"

definition HEARTBEAT_TIMEOUT :: u8 where "HEARTBEAT_TIMEOUT = 10"

text \<open>The values of \<open>g_reconnect_flag\<close> and of \<open>g_sockfd_client_status\<close>.\<close>

datatype reconnect_flag = RECONNECT_OFF | RECONNECT_ON | HEARTBEAT_OFFLINE | HEARTBEAT_ONLINE

datatype sock_status = SOCKFD_CLIENT_NULL | SOCKFD_CLIENT_OK

definition UART_RECV_POLL_MODE :: u8 where "UART_RECV_POLL_MODE = 0"
definition UART_RECV_INT_MODE :: u8 where "UART_RECV_INT_MODE = 1"

section \<open>gpio.h\<close>

text \<open>The GPIO lines of the board.\<close>

datatype (plugins only: code size) gpio_num
  = ALARM_IN1 | ALARM_IN2 | ALARM_IN3 | ALARM_IN4 | ALARM_IN5 | ALARM_IN6 | ALARM_IN7
  | ALARM_IN8 | CFG_KEY | LED_D1_SYSTEM_STATUS | LED_D2_ALARM_STATUS
  | LED_D3_ALARM_SERVER_STATUS | PHY_RESET | OUTPUT_1 | OUTPUT_2 | OUTPUT_3 | OUTPUT_4
  | TEMP_SENSOR_POWER

primrec gpio_code :: "gpio_num \<Rightarrow> nat" where
  "gpio_code ALARM_IN1 = 38"
| "gpio_code ALARM_IN2 = 37"
| "gpio_code ALARM_IN3 = 41"
| "gpio_code ALARM_IN4 = 65"
| "gpio_code ALARM_IN5 = 66"
| "gpio_code ALARM_IN6 = 67"
| "gpio_code ALARM_IN7 = 32"
| "gpio_code ALARM_IN8 = 33"
| "gpio_code CFG_KEY = 40"
| "gpio_code LED_D1_SYSTEM_STATUS = 36"
| "gpio_code LED_D2_ALARM_STATUS = 35"
| "gpio_code LED_D3_ALARM_SERVER_STATUS = 34"
| "gpio_code PHY_RESET = 167"
| "gpio_code OUTPUT_1 = 96"
| "gpio_code OUTPUT_2 = 42"
| "gpio_code OUTPUT_3 = 43"
| "gpio_code OUTPUT_4 = 44"
| "gpio_code TEMP_SENSOR_POWER = 163"

definition GS_LOW :: u32 where "GS_LOW = 0"
definition GS_HIGH :: u32 where "GS_HIGH = 1"
definition ALARM_ON :: u8 where "ALARM_ON = 1"
definition ALARM_OFF :: u8 where "ALARM_OFF = 0"

section \<open>com.h, mode.h, config.h\<close>

datatype COM_TYPE = RS232 | RS485 | RS422

fun com_type_code :: "COM_TYPE \<Rightarrow> u8" where
  "com_type_code RS232 = 0"
| "com_type_code RS485 = 1"
| "com_type_code RS422 = 2"

datatype TCP_PTL = TCP_NO | TCP_CLI | TCP_SRV | TCP_UDP

fun tcp_ptl_code :: "TCP_PTL \<Rightarrow> u32" where
  "tcp_ptl_code TCP_NO = 0"
| "tcp_ptl_code TCP_CLI = 1"
| "tcp_ptl_code TCP_SRV = 2"
| "tcp_ptl_code TCP_UDP = 3"

definition WORK_NO :: u8 where "WORK_NO = 0"
definition WORK_SOCKET :: u8 where "WORK_SOCKET = 1"

text \<open>Indices of \<open>con_sensor\<close>.\<close>

definition SENSOR_TYPE_UART :: nat where "SENSOR_TYPE_UART = 0"
definition SENSOR_TYPE_IO_IN :: nat where "SENSOR_TYPE_IO_IN = 1"
definition SENSOR_TYPE_IO_OUT :: nat where "SENSOR_TYPE_IO_OUT = 2"
definition SENSOR_TYPE_SINGLE_BUS :: nat where "SENSOR_TYPE_SINGLE_BUS = 3"

lemmas sensor_types =
  SENSOR_TYPE_UART_def SENSOR_TYPE_IO_IN_def SENSOR_TYPE_IO_OUT_def SENSOR_TYPE_SINGLE_BUS_def

section \<open>Codes tell their constructors apart\<close>

definition cmd_codes :: "CMD_CODE list" where
  "cmd_codes = [CONN_FAILED, SEND_FAILED, RECV_FAILED, LOGIN_OK, NO_USER, ERROR_PSW, QUERY_OK,
     QUERY_FAILED, SYS_SET_OK, SYS_SET_FAILED, NET_SET_OK, NET_SET_FAILED, VLAN_SET_OK,
     VLAN_SET_FAILED, FACTORY_SET_OK, FACTORY_SET_FAILED, RC_NOUSR, RC_NORIGHT,
     RC_USREXIST, USR_ADD_OK, USR_ADD_NORIGHT, USR_ADD_FAILED, USR_DEL_OK,
     USR_DEL_NORIGHT, USR_DEL_FAILED, USR_MODIFY_OK, USR_MODIFY_NORIGHT,
     USR_MODIFY_FAILED, COM_SET_OK, COM_SET_FAILED, MODE_SET_OK, MODE_SET_FAILED,
     LIMIT_SET_OK, LIMIT_SET_FAILED, SERVER_SET_OK, SERVER_SET_FAILED, DNS_OK,
     DNS_FAILED, GPIO_SET_OK, GPIO_SET_FAILED]"

lemma cmd_codes_nth: "cmd_codes ! nat (cmd_code c - 1) = c"
  by (cases c) (simp_all add: cmd_codes_def)

lemma inj_cmd_code: "cmd_code a = cmd_code b \<longleftrightarrow> a = b"
  by (metis cmd_codes_nth)

lemma inj_gpio_code: "gpio_code a = gpio_code b \<longleftrightarrow> a = b"
  by (cases a; simp; cases b; simp)

lemma cmd_code_range: "1 \<le> cmd_code c \<and> cmd_code c \<le> 40"
  by (cases c) simp_all

text \<open>C orders enumerators by their values.\<close>

instantiation CMD_CODE :: linorder
begin

definition less_eq_CMD_CODE :: "CMD_CODE \<Rightarrow> CMD_CODE \<Rightarrow> bool" where
  "less_eq_CMD_CODE a b \<longleftrightarrow> cmd_code a \<le> cmd_code b"

definition less_CMD_CODE :: "CMD_CODE \<Rightarrow> CMD_CODE \<Rightarrow> bool" where
  "less_CMD_CODE a b \<longleftrightarrow> cmd_code a < cmd_code b"

instance
  by standard (auto simp: less_eq_CMD_CODE_def less_CMD_CODE_def inj_cmd_code [symmetric])

end

instantiation gpio_num :: linorder
begin

definition less_eq_gpio_num :: "gpio_num \<Rightarrow> gpio_num \<Rightarrow> bool" where
  "less_eq_gpio_num a b \<longleftrightarrow> gpio_code a \<le> gpio_code b"

definition less_gpio_num :: "gpio_num \<Rightarrow> gpio_num \<Rightarrow> bool" where
  "less_gpio_num a b \<longleftrightarrow> gpio_code a < gpio_code b"

instance
  by standard (auto simp: less_eq_gpio_num_def less_gpio_num_def inj_gpio_code [symmetric])

end

end
