(* ===== verification/Sys.thy ===== *)
theory Sys
  imports Prelude
begin

text \<open>
  \<open>nc600-2.0/src/system.c\<close> and \<open>file.c\<close>: dotted addresses, the clock, complete writes to a
  descriptor, and the file helpers. The results of \<open>write\<close>, \<open>ioctl\<close>, \<open>fwrite\<close> and
  \<open>fread\<close> are not the program's: they arrive as a script, the list of the results of the
  successive calls. A script that is used up stands for calls that transfer everything they
  are given, the normal case of a blocking descriptor.
\<close>

section \<open>Broken-down time\<close>

text \<open>The fields of \<open>struct tm\<close>, and numbers printed with leading zeros.\<close>

record tm =
  tm_sec :: nat
  tm_min :: nat
  tm_hour :: nat
  tm_mday :: nat
  tm_mon :: nat
  tm_year :: nat
  tm_wday :: nat

definition digits_at_least :: "nat \<Rightarrow> nat \<Rightarrow> bytes" where
  "digits_at_least k n = replicate (k - length (decimal n)) 48 @ decimal n"

section \<open>Dotted addresses (system.c)\<close>

text \<open>\<open>(BYTE) atoi (p)\<close>: the value reduced to a byte.\<close>

definition atoi_byte :: "bytes \<Rightarrow> u8" where
  "atoi_byte p = of_int (atoi p)"

text \<open>
  The loop of \<open>sys_str2ip\<close>: \<open>j\<close> counts the parts read so far. A fifth part would shift a
  32-bit value by 32, which C leaves undefined; running past the array is undefined too.
\<close>

fun str2ip_loop :: "bytes \<Rightarrow> nat \<Rightarrow> u32 \<Rightarrow> u32 option" where
  "str2ip_loop [] j ip = None"
| "str2ip_loop (c # p) j ip =
     (if c = 0 then Some ip
      else if c \<noteq> 46 then str2ip_loop p j ip
      else if 4 \<le> j then None
      else str2ip_loop p (Suc j) (ip + push_bit (8 * j) (ucast (atoi_byte p))))"

definition sys_str2ip :: "bytes \<Rightarrow> u32 option" where
  "sys_str2ip str = str2ip_loop str 1 (ucast (atoi_byte str))"

definition ip_byte :: "u32 \<Rightarrow> nat \<Rightarrow> u8" where
  "ip_byte ip i = ucast (drop_bit (8 * i) ip AND 0xff)"

definition ip_text :: "u32 \<Rightarrow> bytes" where
  "ip_text ip = decimal (unat (ip_byte ip 0)) @ 46 # decimal (unat (ip_byte ip 1)) @ 46 #
     decimal (unat (ip_byte ip 2)) @ 46 # decimal (unat (ip_byte ip 3))"

text \<open>The static buffer has 16 bytes: cleared, then printed into.\<close>

definition sys_ip2str_static :: "u32 \<Rightarrow> bytes option" where
  "sys_ip2str_static ip = strcpy (zeros 16) (ip_text ip @ [0])"

section \<open>The clock (system.c)\<close>

text \<open>
  \<open>tv_sec * CLOCKS_PER_MSEC\<close> is computed in \<open>long\<close>, 32 bits wide on the target, before it is
  widened to 64 bits: the product wraps and a negative one sign-extends.
\<close>

definition system_mscount_get :: "int \<Rightarrow> int \<Rightarrow> u64" where
  "system_mscount_get tv_sec tv_usec =
     of_int (sint (of_int (tv_sec * 1000 + tv_usec div 1000) :: u32))"

section \<open>Complete writes (system.c)\<close>

text \<open>The write loop: the error that ended it, if any, the chunks the kernel took, the rest of the script.\<close>

fun writen_loop :: "int list \<Rightarrow> bytes \<Rightarrow> int option \<times> bytes list \<times> int list" where
  "writen_loop sc [] = (None, [], sc)"
| "writen_loop [] ptr = (None, [ptr], [])"
| "writen_loop (nw # sc) ptr =
     (if nw < 0 then (Some nw, [], sc)
      else let (r, out, sc') = writen_loop sc (drop (nat nw) ptr)
           in (r, take (nat nw) ptr # out, sc'))"

definition writen :: "int list \<Rightarrow> bytes \<Rightarrow> int \<times> bytes list \<times> int list" where
  "writen sc ptr = (let (r, out, sc') = writen_loop sc ptr
     in (case r of None \<Rightarrow> int (length ptr) | Some e \<Rightarrow> e, out, sc'))"

text \<open>\<open>writen_rs485\<close> is the same loop over \<open>ioctl\<close>, between lock and unlock of \<open>rs485_mutex\<close>.\<close>

datatype rs485_io = Lock | Out bytes | Unlock

definition writen_rs485 :: "int list \<Rightarrow> bytes \<Rightarrow> int \<times> rs485_io list \<times> int list" where
  "writen_rs485 sc ptr = (let (r, out, sc') = writen_loop sc ptr
     in (case r of None \<Rightarrow> int (length ptr) | Some e \<Rightarrow> e, Lock # map Out out @ [Unlock], sc'))"

section \<open>Files (file.c)\<close>

datatype OPEN_FLAGS = MODE_READ | MODE_WRITE | MODE_READWRITE | MODE_CREATE | MODE_APPEND
  | MODE_UPDATE | MODE_READ_T | MODE_WRITE_T | MODE_RW_T | MODE_CREATE_T | MODE_APPEND_T
  | MODE_UPDATE_T

text \<open>The \<open>fopen\<close> mode of each flag; \<open>None\<close> where the switch has no case and returns \<open>NULL\<close>.\<close>

fun sys_file_open :: "OPEN_FLAGS \<Rightarrow> string option" where
  "sys_file_open MODE_READ = Some ''rb''"
| "sys_file_open MODE_WRITE = Some ''wb''"
| "sys_file_open MODE_READWRITE = Some ''wb+''"
| "sys_file_open MODE_APPEND = Some ''ab''"
| "sys_file_open MODE_UPDATE = Some ''rb+''"
| "sys_file_open MODE_READ_T = Some ''r''"
| "sys_file_open MODE_WRITE_T = Some ''w''"
| "sys_file_open MODE_APPEND_T = Some ''a+''"
| "sys_file_open MODE_RW_T = Some ''w+''"
| "sys_file_open MODE_UPDATE_T = Some ''r+''"
| "sys_file_open _ = None"

abbreviation (input) SUCCESS :: int where "SUCCESS \<equiv> 1"
abbreviation (input) FAILURE :: int where "FAILURE \<equiv> 0"

text \<open>\<open>sys_file_write\<close> appends to the open file \<open>content\<close> until everything is written.\<close>

fun fwrite_loop :: "nat list \<Rightarrow> bytes \<Rightarrow> bytes \<Rightarrow> bytes" where
  "fwrite_loop [] content p_data = content @ p_data"
| "fwrite_loop (write_cnt # sc) content p_data =
     (let content' = content @ take write_cnt p_data
      in if write_cnt = length p_data then content'
         else fwrite_loop sc content' (drop write_cnt p_data))"

definition sys_file_write :: "nat list \<Rightarrow> bytes option \<Rightarrow> bytes \<Rightarrow> int \<times> bytes option" where
  "sys_file_write sc file_hd p_data = (case file_hd of
       None \<Rightarrow> (FAILURE, None)
     | Some content \<Rightarrow> if p_data = [] then (FAILURE, Some content)
                      else (SUCCESS, Some (fwrite_loop sc content p_data)))"

text \<open>\<open>sys_file_read\<close> reads once, from the start of the open file, into \<open>buf\<close>.\<close>

definition sys_file_read :: "bytes option \<Rightarrow> bytes \<Rightarrow> nat \<Rightarrow> int \<times> bytes" where
  "sys_file_read file_hd buf count = (if count = 0 then (FAILURE, buf)
     else case file_hd of None \<Rightarrow> (FAILURE, buf)
          | Some content \<Rightarrow> (let got = take count content
                            in (int (length got), got @ drop (length got) buf)))"

section \<open>Lemmas: addresses\<close>

lemma str2ip_loop_skip:
  "\<forall>c \<in> set s. c \<noteq> 0 \<and> c \<noteq> 46 \<Longrightarrow> str2ip_loop (s @ r) j ip = str2ip_loop r j ip"
  by (induction s) auto

lemma str2ip_loop_dec: "str2ip_loop (decimal n @ r) j ip = str2ip_loop r j ip"
  by (rule str2ip_loop_skip) (auto dest!: dec_digits is_digit_not_special)

lemma atoi_byte_dec:
  "r = [] \<or> \<not> is_digit (hd r) \<Longrightarrow> atoi_byte (decimal (unat b) @ r) = b"
  by (simp add: atoi_byte_def atoi_dec)

lemma not_digit_dot [simp]: "\<not> is_digit 46" and not_digit_nul [simp]: "\<not> is_digit 0"
  by (simp_all add: is_digit_def word_le_nat_alt)

lemma bit_ip_byte: "bit (ip_byte ip i) n \<longleftrightarrow> n < 8 \<and> bit ip (8 * i + n)"
proof -
  have "(0xff :: u32) = mask 8" by (simp add: mask_eq_exp_minus_1)
  then have "ip_byte ip i = ucast (drop_bit (8 * i) ip AND mask 8)" by (simp only: ip_byte_def)
  then show ?thesis
    by (auto simp: bit_simps ac_simps dest: bit_imp_le_length)
qed

lemma ip_bytes_sum:
  "ucast (ip_byte ip 0) + push_bit 8 (ucast (ip_byte ip 1)) + push_bit 16 (ucast (ip_byte ip 2))
     + push_bit 24 (ucast (ip_byte ip 3)) = ip"
proof -
  let ?b = "\<lambda>i. push_bit (8 * i) (ucast (ip_byte ip i)) :: u32"
  have b: "bit (?b i) n \<longleftrightarrow> n < 32 \<and> 8 * i \<le> n \<and> n < 8 * i + 8 \<and> bit ip n" for i n
    by (auto simp: bit_simps bit_ip_byte)
  have "?b 0 + ?b 1 = ?b 0 OR ?b 1"
    by (rule disjunctive_add, simp only: b) auto
  moreover have "(?b 0 OR ?b 1) + ?b 2 = (?b 0 OR ?b 1) OR ?b 2"
    by (rule disjunctive_add, simp only: b bit_or_iff) auto
  moreover have "((?b 0 OR ?b 1) OR ?b 2) + ?b 3 = ((?b 0 OR ?b 1) OR ?b 2) OR ?b 3"
    by (rule disjunctive_add, simp only: b bit_or_iff) auto
  moreover have "((?b 0 OR ?b 1) OR ?b 2) OR ?b 3 = ip"
    by (rule bit_word_eqI, simp only: b bit_or_iff) auto
  ultimately show ?thesis by simp
qed

lemma str2ip_ip_text: "sys_str2ip (ip_text ip @ 0 # r) = Some ip"
proof -
  let ?d = "\<lambda>i. decimal (unat (ip_byte ip i))"
  have "sys_str2ip (ip_text ip @ 0 # r) = Some (ucast (ip_byte ip 0)
      + push_bit 8 (ucast (ip_byte ip 1)) + push_bit 16 (ucast (ip_byte ip 2))
      + push_bit 24 (ucast (ip_byte ip 3)))"
    by (simp add: sys_str2ip_def ip_text_def str2ip_loop_dec atoi_byte_dec)
  also have "\<dots> = Some ip" by (simp only: ip_bytes_sum)
  finally show ?thesis .
qed

lemma length_dec_byte: "length (decimal (unat (b :: u8))) \<le> 3"
proof -
  have "unat b < 256" using unsigned_less [of b] by simp
  then show ?thesis by (simp add: decimal.simps [of "unat b"] decimal.simps [of "unat b div 10"]
        decimal.simps [of "unat b div 10 div 10"])
qed

lemma length_ip_text: "length (ip_text ip) \<le> 15"
  using length_dec_byte [of "ip_byte ip 0"] length_dec_byte [of "ip_byte ip 1"]
    length_dec_byte [of "ip_byte ip 2"] length_dec_byte [of "ip_byte ip 3"]
  by (simp add: ip_text_def)

lemma ip_text_no_nul: "0 \<notin> set (ip_text ip)"
  by (auto simp: ip_text_def dest: dec_digits)

lemma sys_ip2str_static_eq:
  "sys_ip2str_static ip = Some (ip_text ip @ 0 # zeros (15 - length (ip_text ip)))"
  using length_ip_text [of ip]
  by (simp add: sys_ip2str_static_def strcpy_def cstring_append ip_text_no_nul wrs_def zeros_def)

section \<open>Lemmas: complete writes\<close>

lemma writen_loop_complete:
  "writen_loop sc ptr = (None, out, sc') \<Longrightarrow> concat out = ptr"
proof (induction sc ptr arbitrary: out sc' rule: writen_loop.induct)
  case (3 nw sc a ptr)
  then show ?case by (cases "writen_loop sc (drop (nat nw) (a # ptr))") (auto split: if_splits)
qed auto

lemma writen_loop_error:
  "writen_loop sc ptr = (Some e, out, sc') \<Longrightarrow>
     e < 0 \<and> (\<exists>lost. ptr = concat out @ lost \<and> lost \<noteq> [])"
proof (induction sc ptr arbitrary: out sc' rule: writen_loop.induct)
  case (3 nw sc a ptr)
  show ?case
  proof (cases "nw < 0")
    case True
    with "3.prems" show ?thesis by auto
  next
    case False
    obtain r o' s' where l: "writen_loop sc (drop (nat nw) (a # ptr)) = (r, o', s')"
      by (metis prod_cases3)
    with False "3.prems" have r: "r = Some e" "out = take (nat nw) (a # ptr) # o'" by auto
    from "3.IH" [OF False] l r(1) obtain lost
      where lost: "e < 0" "drop (nat nw) (a # ptr) = concat o' @ lost" "lost \<noteq> []" by auto
    have "a # ptr = take (nat nw) (a # ptr) @ drop (nat nw) (a # ptr)" by simp
    also have "\<dots> = concat out @ lost" by (simp only: lost(2) r(2) concat.simps append_assoc)
    finally show ?thesis using lost(1,3) by blast
  qed
qed auto

lemma writen_result:
  assumes "writen sc ptr = (ret, out, sc')"
  shows "(ret = int (length ptr) \<and> concat out = ptr) \<or>
         (ret < 0 \<and> (\<exists>lost. ptr = concat out @ lost \<and> lost \<noteq> []))"
proof (cases "writen_loop sc ptr")
  case (fields r o' s')
  then show ?thesis using assms
    by (cases r) (auto simp: writen_def dest: writen_loop_complete writen_loop_error)
qed

lemma writen_empty_script [simp]:
  "writen [] ptr = (int (length ptr), (if ptr = [] then [] else [ptr]), [])"
  by (cases ptr) (simp_all add: writen_def)

text \<open>A call that returns 0 makes no progress and does not end the loop.\<close>

lemma writen_zero: "ptr \<noteq> [] \<Longrightarrow> writen (0 # sc) ptr = (case writen sc ptr of (r, out, s) \<Rightarrow> (r, [] # out, s))"
  by (cases ptr) (auto simp: writen_def split: prod.splits)

section \<open>Lemmas: files\<close>

lemma fwrite_loop_all:
  "fwrite_loop sc content p_data = content @ p_data"
proof (induction sc content p_data rule: fwrite_loop.induct)
  case (2 w sc content p)
  then show ?case by (auto simp: Let_def)
qed simp

lemma sys_file_write_eq:
  "p \<noteq> [] \<Longrightarrow> sys_file_write sc (Some c) p = (SUCCESS, Some (c @ p))"
  by (simp add: sys_file_write_def fwrite_loop_all)

end
