(* ===== verification/Device.thy ===== *)
theory Device
  imports Layout Protocol Sys
begin

text \<open>
  The state of the gateway process: the globals of \<open>nc600-2.0/src\<close> under their C names, the
  parts of the operating system the code reads (files, pins, terminal settings) and the trace
  of what it does to the outside world. Every operation of the later theories is a function on
  this record; the threads of the program share it, as they share the globals.
\<close>

section \<open>Terminal settings\<close>

text \<open>
  The fields of \<open>struct termios\<close> the code touches. Flag words are sets of symbolic flags, the
  character size bits of \<open>c_cflag\<close> (\<open>CSIZE\<close>) are kept as the number of data bits.
\<close>

datatype tflag = INPCK | ISTRIP | PARENB | PARODD | CSTOPB | CLOCAL | CREAD
  | ICANON | ECHO | ECHOE | ISIG | OPOST | OTHER_FLAG nat

record termios =
  c_iflag :: "tflag set"
  c_oflag :: "tflag set"
  c_cflag :: "tflag set"
  c_lflag :: "tflag set"
  c_size :: nat
  c_ispeed :: nat
  c_ospeed :: nat
  c_vtime :: nat
  c_vmin :: nat

section \<open>What the program does to the outside world\<close>

datatype event =
    EvWrite int bytes            \<comment> \<open>\<open>write\<close> or \<open>send\<close> on a socket\<close>
  | EvSendTo int u32 u16 bytes   \<comment> \<open>\<open>sendto\<close>: descriptor, address, port, datagram\<close>
  | EvSocket int                 \<comment> \<open>\<open>socket\<close> or \<open>accept\<close> returned this descriptor\<close>
  | EvConnect int u32 u16        \<comment> \<open>descriptor, address, port\<close>
  | EvBind int u16
  | EvListen int u32
  | EvUart int "rs485_io list"   \<comment> \<open>output on a serial port, with the RS485 lock\<close>
  | EvClose int
  | EvSystem bytes               \<comment> \<open>a shell command\<close>
  | EvFile bytes bytes           \<comment> \<open>text written to a control file: path, text\<close>
  | EvGpio nat bytes             \<comment> \<open>text written to a pin's \<open>value\<close> file\<close>
  | EvSleep nat                  \<comment> \<open>seconds\<close>

section \<open>The device\<close>

record dev =
  g_conf_info :: CONFI_DATA
  \<comment> \<open>the configuration file: its content, whether it opens for writing, how \<open>fwrite\<close> splits\<close>
  flash :: "bytes option"
  flash_writable :: bool
  flash_script :: "nat list"
  \<comment> \<open>com.c\<close>
  gcomfd :: "int list"
  rs_type :: u8
  tty_script :: "int list"
  tty_attr :: "int \<Rightarrow> termios"
  tty_set_ok :: bool
  \<comment> \<open>gpio.c: the pins as \<open>/sys/class/gpio\<close> shows them, \<open>None\<close> where not exported\<close>
  pins :: "nat \<Rightarrow> bytes option"
  am2301 :: "bytes option"
  g_alarm_in :: bytes
  \<comment> \<open>client.c\<close>
  get_com_attr :: CONFIG_COM
  get_com_attr_max :: "CONFIG_COM list"
  set_com_attr_max :: "CONFIG_COM list"
  heartbeat_s :: u8
  heartbeat_timeout :: u16
  g_sockfd_client :: int
  g_reconnect_flag :: reconnect_flag
  g_sockfd_client_status :: sock_status
  cbuf :: bytes          \<comment> \<open>\<open>buf\<close>\<close>
  cbuf_send :: bytes     \<comment> \<open>\<open>buf_send\<close>\<close>
  g_uart_send_cnt :: u16
  uart1_recv_buf :: bytes
  uart1_cnt :: u16
  uart2_recv_buf :: bytes
  uart2_cnt :: u16
  trace :: "event list"

definition emit :: "event \<Rightarrow> dev \<Rightarrow> dev" where
  "emit e d = d\<lparr>trace := trace d @ [e]\<rparr>"

text \<open>The sizes the C declarations fix.\<close>

definition ok_dev :: "dev \<Rightarrow> bool" where
  "ok_dev d \<longleftrightarrow> ok_CONFI_DATA (g_conf_info d) \<and> length (gcomfd d) = 2 \<and>
     length (g_alarm_in d) = 8 \<and> length (get_com_attr_max d) = 2 \<and>
     length (set_com_attr_max d) = 2 \<and> length (cbuf d) = 2097152 \<and> length (cbuf_send d) = 1024 \<and>
     length (uart1_recv_buf d) = 2048 \<and> length (uart2_recv_buf d) = 2048 \<and>
     ok_CONFIG_COM (get_com_attr d) \<and> list_all ok_CONFIG_COM (get_com_attr_max d) \<and>
     list_all ok_CONFIG_COM (set_com_attr_max d)"

lemma emit_fields [simp]:
  "g_conf_info (emit e d) = g_conf_info d" "flash (emit e d) = flash d"
  "flash_writable (emit e d) = flash_writable d" "flash_script (emit e d) = flash_script d"
  "gcomfd (emit e d) = gcomfd d" "rs_type (emit e d) = rs_type d"
  "tty_script (emit e d) = tty_script d" "tty_attr (emit e d) = tty_attr d"
  "tty_set_ok (emit e d) = tty_set_ok d" "pins (emit e d) = pins d" "am2301 (emit e d) = am2301 d"
  "g_alarm_in (emit e d) = g_alarm_in d" "get_com_attr (emit e d) = get_com_attr d"
  "get_com_attr_max (emit e d) = get_com_attr_max d"
  "set_com_attr_max (emit e d) = set_com_attr_max d"
  "heartbeat_s (emit e d) = heartbeat_s d" "heartbeat_timeout (emit e d) = heartbeat_timeout d"
  "g_sockfd_client (emit e d) = g_sockfd_client d"
  "g_reconnect_flag (emit e d) = g_reconnect_flag d"
  "g_sockfd_client_status (emit e d) = g_sockfd_client_status d"
  "cbuf (emit e d) = cbuf d" "cbuf_send (emit e d) = cbuf_send d"
  "g_uart_send_cnt (emit e d) = g_uart_send_cnt d"
  "uart1_recv_buf (emit e d) = uart1_recv_buf d" "uart1_cnt (emit e d) = uart1_cnt d"
  "uart2_recv_buf (emit e d) = uart2_recv_buf d" "uart2_cnt (emit e d) = uart2_cnt d"
  "trace (emit e d) = trace d @ [e]"
  by (simp_all add: emit_def)

lemma ok_dev_emit [simp]: "ok_dev (emit e d) = ok_dev d"
  by (simp add: ok_dev_def)

section \<open>Printing into fixed buffers\<close>

text \<open>\<open>sprintf\<close> of a text without NUL into \<open>char buf[n]\<close>.\<close>

definition sprintf_to :: "nat \<Rightarrow> bytes \<Rightarrow> bytes option" where
  "sprintf_to n t = (if length t < n then Some t else None)"

definition hex_digit :: "nat \<Rightarrow> u8" where
  "hex_digit n = (if n < 10 then of_nat (48 + n) else of_nat (87 + n))"

text \<open>\<open>%02x\<close>\<close>

definition hex2 :: "u8 \<Rightarrow> bytes" where
  "hex2 b = [hex_digit (unat b div 16), hex_digit (unat b mod 16)]"

text \<open>\<open>"%02x:%02x:%02x:%02x:%02x:%02x"\<close> over a MAC address.\<close>

definition mac_text :: "bytes \<Rightarrow> bytes option" where
  "mac_text m = do {
     a \<leftarrow> rd m 0; b \<leftarrow> rd m 1; c \<leftarrow> rd m 2; d \<leftarrow> rd m 3; e \<leftarrow> rd m 4; f \<leftarrow> rd m 5;
     Some (hex2 a @ 58 # hex2 b @ 58 # hex2 c @ 58 # hex2 d @ 58 # hex2 e @ 58 # hex2 f) }"

text \<open>The text of an address, as \<open>sys_ip2str_static\<close> leaves it in its static buffer.\<close>

definition ip2str :: "u32 \<Rightarrow> bytes option" where
  "ip2str ip = do { s \<leftarrow> sys_ip2str_static ip; cstring s }"

lemma ip2str_eq: "ip2str ip = Some (ip_text ip)"
  by (simp add: ip2str_def sys_ip2str_static_eq cstring_append ip_text_no_nul)

lemma length_hex2 [simp]: "length (hex2 b) = 2"
  by (simp add: hex2_def)

lemma mac_text_Some:
  "length m = 6 \<Longrightarrow> \<exists>t. mac_text m = Some t \<and> length t = 17"
  by (simp add: mac_text_def mem_simps)

end
