(* ===== verification/Config.thy ===== *)
theory Config
  imports Device
begin

text \<open>
  \<open>nc600-2.0/src/config.c\<close>: the default configuration, the factory reset, saving and loading
  the configuration file, the network commands, and the user table.

  \<open>config_makedefault\<close> and \<open>reconfig\<close> store to \<open>con_gpio.alarm_on_off[3..7]\<close> although the array
  has three elements. Every run does so, so the model follows the target's layout there: the
  store goes to the byte of \<open>CONFIG_GPIO\<close> at that offset (\<open>gpio_poke\<close>).
\<close>

section \<open>The configuration file\<close>

definition config_save :: "dev \<Rightarrow> dev" where
  "config_save d = (if flash_writable d
     then d\<lparr>flash := snd (sys_file_write (flash_script d) (Some []) (enc_CONFI_DATA (g_conf_info d)))\<rparr>
     else d)"

definition config_load :: "dev \<Rightarrow> dev" where
  "config_load d = (case flash d of None \<Rightarrow> d
     | Some content \<Rightarrow>
        (case dec_CONFI_DATA (snd (sys_file_read (Some content) (enc_CONFI_DATA (g_conf_info d)) 1860))
         of None \<Rightarrow> d | Some (c, _) \<Rightarrow> d\<lparr>g_conf_info := c\<rparr>))"

section \<open>The network commands\<close>

definition sys_cmd :: "bytes \<Rightarrow> dev \<Rightarrow> dev option" where
  "sys_cmd t d = do { cmd \<leftarrow> sprintf_to 64 t; Some (emit (EvSystem cmd) d) }"

definition config_net_set :: "CONFIG_NET \<Rightarrow> dev \<Rightarrow> dev option" where
  "config_net_set c d = do {
     ip \<leftarrow> ip2str (dev_ip c);
     nm \<leftarrow> ip2str (dev_nm c);
     d \<leftarrow> sys_cmd (bytes_of ''ifconfig eth0 '' @ ip @ bytes_of '' netmask '' @ nm) d;
     mac \<leftarrow> mac_text (dev_mac c);
     d \<leftarrow> sys_cmd (bytes_of ''ifconfig eth0 hw ether '' @ mac) d;
     d \<leftarrow> sys_cmd (bytes_of ''route add -host 255.255.255.255 dev eth0'') d;
     gw \<leftarrow> ip2str (dev_gw c);
     d \<leftarrow> sys_cmd (bytes_of ''route add default gw '' @ gw @ bytes_of '' eth0'') d;
     d \<leftarrow> sys_cmd (bytes_of ''route add -net 192.168.102.0/24 gw 172.16.136.251'') d;
     sys_cmd (bytes_of ''route'') d }"

text \<open>\<open>get_mac_init\<close> copies the address the kernel reports for \<open>eth0\<close>.\<close>

definition get_mac_init :: "bytes \<Rightarrow> dev \<Rightarrow> dev" where
  "get_mac_init hwaddr d = d\<lparr>g_conf_info := g_conf_info d
     \<lparr>con_net := con_net (g_conf_info d)\<lparr>dev_mac := take 6 hwaddr\<rparr>\<rparr>\<rparr>"

section \<open>Defaults\<close>

definition gpio_poke :: "CONFIG_GPIO \<Rightarrow> nat \<Rightarrow> bytes \<Rightarrow> CONFIG_GPIO option" where
  "gpio_poke g off bs = do {
     b \<leftarrow> wrs (enc_CONFIG_GPIO g) off bs;
     (g', _) \<leftarrow> dec_CONFIG_GPIO b;
     Some g' }"

text \<open>\<open>alarm_on_off[i] = v\<close>; the array starts at byte 12 of the struct.\<close>

definition set_alarm_on_off :: "nat \<Rightarrow> u8 \<Rightarrow> CONFIG_GPIO \<Rightarrow> CONFIG_GPIO option" where
  "set_alarm_on_off i v g = gpio_poke g (12 + i) [v]"

definition alarm_on_off_all :: "CONFIG_GPIO \<Rightarrow> CONFIG_GPIO option" where
  "alarm_on_off_all g = do {
     g \<leftarrow> set_alarm_on_off 0 1 g; g \<leftarrow> set_alarm_on_off 1 1 g; g \<leftarrow> set_alarm_on_off 2 1 g;
     g \<leftarrow> set_alarm_on_off 3 1 g; g \<leftarrow> set_alarm_on_off 4 1 g; g \<leftarrow> set_alarm_on_off 5 1 g;
     g \<leftarrow> set_alarm_on_off 6 1 g; set_alarm_on_off 7 1 g }"

definition str_ip :: "string \<Rightarrow> u32 option" where
  "str_ip s = sys_str2ip (bytes_of s @ [0])"

definition DEVICE_IP :: string where "DEVICE_IP = ''192.168.1.166''"
definition SERVER_IP :: string where "SERVER_IP = []"
definition SERVER_DNS :: string where "SERVER_DNS = ''192.168.1.108''"
definition SERVER_PORT :: u16 where "SERVER_PORT = 8888"
definition PRODUCT_NAME :: string where "PRODUCT_NAME = ''RTNS''"
definition PROGRAM_VERSION :: string where "PROGRAM_VERSION = ''v4.00''"
definition HW_VERSION :: string where "HW_VERSION = ''v1.5''"
definition HW_SN :: string where "HW_SN = ''RTNS2D1I3S2K-XX****X''"
definition USR_SALT :: string where "USR_SALT = ''NC616''"
definition USR_NORMAL :: u8 where "USR_NORMAL = 0"
definition USR_ROOT :: u8 where "USR_ROOT = 1"

text \<open>The network and server part both \<open>reconfig\<close> and \<open>config_makedefault\<close> write.\<close>

definition default_net :: "CONFIG_NET \<Rightarrow> CONFIG_NET option" where
  "default_net n = do {
     ip \<leftarrow> str_ip DEVICE_IP; nm \<leftarrow> str_ip ''255.255.255.0''; gw \<leftarrow> str_ip ''192.168.1.1'';
     Some (n\<lparr>dev_ip := ip, dev_nm := nm, dev_gw := gw, dev_dhcp := 0, dhcp_id := 0,
             dns := [gw, 0]\<rparr>) }"

definition default_server :: "CONFIG_SERVER \<Rightarrow> CONFIG_SERVER option" where
  "default_server s = do {
     ip \<leftarrow> str_ip SERVER_IP;
     dn \<leftarrow> strcpy (dns_str s) (bytes_of SERVER_DNS @ [0]);
     Some (s\<lparr>server_ip := ip, server_port := SERVER_PORT, dns_str := dn\<rparr>) }"

definition reconfig :: "dev \<Rightarrow> dev option" where
  "reconfig d = do {
     let c = g_conf_info d;
     n \<leftarrow> default_net (con_net c);
     g \<leftarrow> alarm_on_off_all (con_gpio c);
     s \<leftarrow> default_server (con_server c);
     let d = config_save (d\<lparr>g_conf_info := c\<lparr>con_net := n, con_gpio := g, con_server := s\<rparr>\<rparr>);
     Some (emit (EvSystem (bytes_of ''reboot'')) (emit (EvSystem (bytes_of ''sync'')) (emit (EvSleep 1) d))) }"

definition zero_COM :: CONFIG_COM where
  "zero_COM = \<lparr>com_id = 0, bps = 0, sbit = 0, dbit = 0, chk = 0, bctrl = 0, RTS = 0, DTR = 0,
     com_all = 0, com_type = 0, isloop = 0, com_rsvd = zeros 4, alive = 0\<rparr>"

definition zero_SESSION :: CONFIG_SESSION where
  "zero_SESSION = \<lparr>protocol = tcp_ptl_code TCP_NO, ses_ip = 0, lport = 0, dport = 0, conn = 0,
     dis_conn = 0, time_out = 0, max_num = 0, ses_rsvd = zeros 3\<rparr>"

definition default_com :: "nat \<Rightarrow> CONFIG_COM" where
  "default_com i = zero_COM\<lparr>com_id := of_nat (i + 1), bps := 9600, chk := 3, sbit := 1, dbit := 8,
     bctrl := 0, RTS := 0, DTR := 0, com_type := com_type_code RS232\<rparr>"

definition default_mode :: "nat \<Rightarrow> CONFIG_MODE" where
  "default_mode i = \<lparr>mode_id = of_nat (i + 1), work_mode = WORK_NO, tcp_mode = 0, CR = 0, LF = 1,
     is_null = 0, attestation = 0, att = 0, reg = 0, mode_rsvd = zeros 5,
     session = replicate 6 zero_SESSION\<rparr>"

definition default_lim :: "nat \<Rightarrow> CONFIG_LIMIT" where
  "default_lim i = \<lparr>lim_id = of_nat (i + 1), lim_enable = 0, lim_read = zeros 16, lim_modify = zeros 16\<rparr>"

definition default_usr :: "nat \<Rightarrow> USR_INFO" where
  "default_usr i = \<lparr>usr_id = of_nat (i + 1), usr_name = zeros 24, usr_passwd = zeros 24,
     usr_auth = USR_NORMAL, usr_state = 0, usr_reserved = zeros 4\<rparr>"

definition sensor_of :: "nat \<Rightarrow> u8 \<Rightarrow> bytes \<Rightarrow> bytes \<Rightarrow> CONFIG_SENSOR" where
  "sensor_of t n seqs attrs = \<lparr>sen_type = of_nat t, sen_num = n,
     seq_num = seqs @ zeros (8 - length seqs), sen_attr = attrs @ zeros (8 - length attrs)\<rparr>"

definition default_sensors :: "CONFIG_SENSOR list" where
  "default_sensors =
    [sensor_of SENSOR_TYPE_UART 2 [1, 2] [0, 1],
     sensor_of SENSOR_TYPE_IO_IN 3 [1, 2, 3] [0, 0, 0],
     sensor_of SENSOR_TYPE_IO_OUT 2 [1, 2] [0, 0],
     sensor_of SENSOR_TYPE_SINGLE_BUS 1 [1] [0]]"

text \<open>
  \<open>config_makedefault\<close>. The compilation date and time and \<open>crypt\<close> come from outside:
  \<open>date\<close>, \<open>time\<close> are the texts of \<open>__DATE__\<close> and \<open>__TIME__\<close>.
\<close>

definition default_conf ::
    "bytes \<Rightarrow> bytes \<Rightarrow> (bytes \<Rightarrow> bytes \<Rightarrow> bytes) \<Rightarrow> CONFI_DATA option" where
  "default_conf date time crypt = do {
     hn \<leftarrow> strcpy (zeros 32) (bytes_of PRODUCT_NAME @ [0]);
     sw \<leftarrow> strcpy (zeros 32) (bytes_of PROGRAM_VERSION @ [32, 32] @ date @ [32, 32] @ time @ [0]);
     hw \<leftarrow> strcpy (zeros 32) (bytes_of HW_VERSION @ [0]);
     sn \<leftarrow> strcpy (zeros 32) (bytes_of HW_SN @ [0]);
     n \<leftarrow> default_net \<lparr>dev_ip = 0, dev_nm = 0, dev_gw = 0, dev_dhcp = 0, dhcp_id = 0, dns = [0, 0],
            dev_mac = [0x88, 0x5c, 0x47, 0, 0, 0], net_rsvd = zeros 26\<rparr>;
     rn \<leftarrow> strcpy (zeros 24) (bytes_of ''root'' @ [0]);
     rp \<leftarrow> strcpy (zeros 24) (crypt (bytes_of ''123456'') (bytes_of USR_SALT) @ [0]);
     s \<leftarrow> default_server \<lparr>server_ip = 0, server_port = 0, dns_str = zeros 50\<rparr>;
     g \<leftarrow> alarm_on_off_all \<lparr>alarm = [0, 0, 0], alarm_on_off = zeros 3, gpio_output = zeros 4,
            sensor = zeros 30\<rparr>;
     let g = g\<lparr>gpio_output := (gpio_output g)[0 := 1, 1 := 1, 2 := 1]\<rparr>;
     Some \<lparr>con_sys = \<lparr>host_name = hn, host_pos = zeros 32, host_sn = sn, sw_ver = sw, hw_ver = hw,
             host_id = zeros 32, description = zeros 32, sys_rsvd = zeros 32\<rparr>,
           con_net = n,
           con_vlan = \<lparr>vlan_enable = 0, vlan_id = 0, vlan_rsvd = zeros 8\<rparr>,
           con_com = map default_com [0, 1], con_mode = map default_mode [0, 1],
           con_lim = map default_lim [0, 1],
           con_usr = (default_usr 0)\<lparr>usr_name := rn, usr_passwd := rp, usr_auth := USR_ROOT\<rparr>
             # map default_usr [1 ..< 16],
           con_server = s, con_gpio = g, con_sensor = default_sensors\<rparr> }"

definition config_makedefault ::
    "bytes \<Rightarrow> bytes \<Rightarrow> (bytes \<Rightarrow> bytes \<Rightarrow> bytes) \<Rightarrow> dev \<Rightarrow> dev option" where
  "config_makedefault date time crypt d = do {
     c \<leftarrow> default_conf date time crypt;
     Some (config_save (d\<lparr>g_conf_info := c\<rparr>)) }"

definition config_init ::
    "bytes \<Rightarrow> bytes \<Rightarrow> (bytes \<Rightarrow> bytes \<Rightarrow> bytes) \<Rightarrow> bytes \<Rightarrow> dev \<Rightarrow> dev option" where
  "config_init date time crypt hwaddr d = do {
     d \<leftarrow> (if flash d = None then config_makedefault date time crypt d else Some (config_load d));
     d \<leftarrow> config_net_set (con_net (g_conf_info d)) d;
     Some (get_mac_init hwaddr d) }"


section \<open>Lemmas: saving and loading\<close>

lemma config_save_fields [simp]:
  "g_conf_info (config_save d) = g_conf_info d" "flash_writable (config_save d) = flash_writable d"
  "flash_script (config_save d) = flash_script d" "gcomfd (config_save d) = gcomfd d"
  "rs_type (config_save d) = rs_type d" "tty_script (config_save d) = tty_script d"
  "tty_attr (config_save d) = tty_attr d" "tty_set_ok (config_save d) = tty_set_ok d"
  "pins (config_save d) = pins d" "am2301 (config_save d) = am2301 d"
  "g_alarm_in (config_save d) = g_alarm_in d" "get_com_attr (config_save d) = get_com_attr d"
  "get_com_attr_max (config_save d) = get_com_attr_max d"
  "set_com_attr_max (config_save d) = set_com_attr_max d"
  "heartbeat_s (config_save d) = heartbeat_s d"
  "heartbeat_timeout (config_save d) = heartbeat_timeout d"
  "g_sockfd_client (config_save d) = g_sockfd_client d"
  "g_reconnect_flag (config_save d) = g_reconnect_flag d"
  "g_sockfd_client_status (config_save d) = g_sockfd_client_status d"
  "cbuf (config_save d) = cbuf d" "cbuf_send (config_save d) = cbuf_send d"
  "g_uart_send_cnt (config_save d) = g_uart_send_cnt d"
  "uart1_recv_buf (config_save d) = uart1_recv_buf d" "uart1_cnt (config_save d) = uart1_cnt d"
  "uart2_recv_buf (config_save d) = uart2_recv_buf d" "uart2_cnt (config_save d) = uart2_cnt d"
  "trace (config_save d) = trace d"
  by (simp_all add: config_save_def)

lemma ok_dev_config_save [simp]: "ok_dev (config_save d) = ok_dev d"
  by (simp add: ok_dev_def)

lemma enc_CONFI_DATA_nonempty: "ok_CONFI_DATA c \<Longrightarrow> enc_CONFI_DATA c \<noteq> []"
  using cDATA.enc_length [of c] by auto

text \<open>What the file holds after a save: the whole image, however \<open>fwrite\<close> split it.\<close>

lemma config_save_flash:
  "flash_writable d \<Longrightarrow> ok_CONFI_DATA (g_conf_info d) \<Longrightarrow>
     flash (config_save d) = Some (enc_CONFI_DATA (g_conf_info d))"
  by (simp add: config_save_def sys_file_write_eq enc_CONFI_DATA_nonempty)

lemma config_load_image:
  "flash d = Some (enc_CONFI_DATA c) \<Longrightarrow> ok_CONFI_DATA c \<Longrightarrow> config_load d = d\<lparr>g_conf_info := c\<rparr>"
  using cDATA.enc_length [of c] cDATA.dec_enc [of c]
  by (simp add: config_load_def sys_file_read_def Let_def)

text \<open>
  The interface of persistence: an operation that ends in \<open>save\<close> leaves a configuration that
  survives a restart, which throws the memory away and loads the file.
\<close>

locale durable_store =
  fixes cfg :: "'s \<Rightarrow> 'c"
    and ok :: "'c \<Rightarrow> bool"
    and writable :: "'s \<Rightarrow> bool"
    and save :: "'s \<Rightarrow> 's"
    and restart :: "'c \<Rightarrow> 's \<Rightarrow> 's"
  assumes save_cfg: "cfg (save s) = cfg s"
    and restart_save: "writable s \<Longrightarrow> ok (cfg s) \<Longrightarrow> ok junk \<Longrightarrow> cfg (restart junk (save s)) = cfg s"
begin

lemma restart_after:
  assumes "s' = save s" "writable s" "ok (cfg s')" "ok junk"
  shows "cfg (restart junk s') = cfg s'"
  using assms by (simp add: save_cfg restart_save)

end

text \<open>A restart: memory starts from any content, then \<open>config_load\<close> runs.\<close>

definition restart :: "CONFI_DATA \<Rightarrow> dev \<Rightarrow> dev" where
  "restart junk d = config_load (d\<lparr>g_conf_info := junk\<rparr>)"

interpretation store: durable_store g_conf_info ok_CONFI_DATA flash_writable config_save restart
  by unfold_locales (simp_all add: restart_def config_load_image config_save_flash)

section \<open>Lemmas: the network commands fit their buffer\<close>

lemma bytes_of_length [simp]: "length (bytes_of s) = length s"
  by (simp add: bytes_of_def)

lemma sys_cmd_Some: "length t < 64 \<Longrightarrow> sys_cmd t d = Some (emit (EvSystem t) d)"
  by (simp add: sys_cmd_def sprintf_to_def)

lemma config_net_set_eq:
  assumes "length (dev_mac c) = 6"
  shows "\<exists>mac. config_net_set c d = Some (d\<lparr>trace := trace d @ map EvSystem
     [bytes_of ''ifconfig eth0 '' @ ip_text (dev_ip c) @ bytes_of '' netmask '' @ ip_text (dev_nm c),
      bytes_of ''ifconfig eth0 hw ether '' @ mac,
      bytes_of ''route add -host 255.255.255.255 dev eth0'',
      bytes_of ''route add default gw '' @ ip_text (dev_gw c) @ bytes_of '' eth0'',
      bytes_of ''route add -net 192.168.102.0/24 gw 172.16.136.251'',
      bytes_of ''route'']\<rparr>)"
proof -
  obtain mac where "mac_text (dev_mac c) = Some mac" "length mac = 17"
    using mac_text_Some [OF assms] by blast
  then show ?thesis
    using length_ip_text [of "dev_ip c"] length_ip_text [of "dev_nm c"] length_ip_text [of "dev_gw c"]
    by (intro exI [of _ mac]) (simp add: config_net_set_def ip2str_eq sys_cmd_Some emit_def)
qed

section \<open>Lemmas: defaults\<close>

lemma gpio_poke_image:
  assumes "gpio_poke g off bs = Some g'" "ok_CONFIG_GPIO g"
  shows "ok_CONFIG_GPIO g'"
  using assms by (auto simp: gpio_poke_def bind_eq_Some_conv dest: cGPIO.dec_ok)

lemma gpio_poke_Some:
  assumes "ok_CONFIG_GPIO g" "off + length bs \<le> 52"
  shows "\<exists>g'. gpio_poke g off bs = Some g' \<and> ok_CONFIG_GPIO g'"
proof -
  let ?b = "take off (enc_CONFIG_GPIO g) @ bs @ drop (off + length bs) (enc_CONFIG_GPIO g)"
  have w: "wrs (enc_CONFIG_GPIO g) off bs = Some ?b"
    using assms cGPIO.enc_length [of g] by (simp add: wrs_def)
  then have "52 \<le> length ?b" using cGPIO.enc_length [of g] assms wrs_Some_length [OF w] by simp
  then obtain g' r where "dec_CONFIG_GPIO ?b = Some (g', r)" using cGPIO.dec_total by blast
  with w show ?thesis by (auto simp: gpio_poke_def dest: cGPIO.dec_ok)
qed

lemma gpio_poke_byte:
  assumes "ok_CONFIG_GPIO g" "ok_CONFIG_GPIO g'" "off < 52" "enc_CONFIG_GPIO g' = (enc_CONFIG_GPIO g)[off := v]"
  shows "gpio_poke g off [v] = Some g'"
proof -
  have "wrs (enc_CONFIG_GPIO g) off [v] = Some (enc_CONFIG_GPIO g')"
    using assms cGPIO.enc_length [of g] by (simp add: wrs_def upd_conv_take_nth_drop)
  then show ?thesis using cGPIO.dec_enc [OF assms(2), of "[]"] by (simp add: gpio_poke_def)
qed

text \<open>Where a store to \<open>alarm_on_off[i]\<close> lands: the array, then \<open>output\<close>, then \<open>sensor\<close>.\<close>

lemma set_alarm_on_off_eq:
  assumes "ok_CONFIG_GPIO g"
  shows "i < 3 \<Longrightarrow> set_alarm_on_off i v g = Some (g\<lparr>alarm_on_off := (alarm_on_off g)[i := v]\<rparr>)"
    and "3 \<le> i \<Longrightarrow> i < 7 \<Longrightarrow>
      set_alarm_on_off i v g = Some (g\<lparr>gpio_output := (gpio_output g)[i - 3 := v]\<rparr>)"
    and "7 \<le> i \<Longrightarrow> i < 37 \<Longrightarrow> set_alarm_on_off i v g = Some (g\<lparr>sensor := (sensor g)[i - 7 := v]\<rparr>)"
proof -
  note ok = assms [unfolded ok_CONFIG_GPIO_def]
  have l: "length (enc_list enc32 (alarm g)) = 12" using ok c32s.enc_length [of "alarm g" 3] by simp
  have img: "enc_CONFIG_GPIO g = enc_list enc32 (alarm g) @ alarm_on_off g @ gpio_output g @ sensor g @ zeros 3"
    by (simp add: enc_CONFIG_GPIO_def)
  show "set_alarm_on_off i v g = Some (g\<lparr>alarm_on_off := (alarm_on_off g)[i := v]\<rparr>)" if "i < 3"
    unfolding set_alarm_on_off_def
    using that ok l by (intro gpio_poke_byte assms)
      (auto simp: ok_CONFIG_GPIO_def img list_update_append enc_CONFIG_GPIO_def)
  show "set_alarm_on_off i v g = Some (g\<lparr>gpio_output := (gpio_output g)[i - 3 := v]\<rparr>)" if "3 \<le> i" "i < 7"
    unfolding set_alarm_on_off_def
    using that ok l by (intro gpio_poke_byte assms)
      (auto simp: ok_CONFIG_GPIO_def img list_update_append enc_CONFIG_GPIO_def)
  show "set_alarm_on_off i v g = Some (g\<lparr>sensor := (sensor g)[i - 7 := v]\<rparr>)" if "7 \<le> i" "i < 37"
    unfolding set_alarm_on_off_def
    using that ok l by (intro gpio_poke_byte assms)
      (auto simp: ok_CONFIG_GPIO_def img list_update_append enc_CONFIG_GPIO_def)
qed

lemma alarm_on_off_all_eq:
  assumes "ok_CONFIG_GPIO g"
  shows "alarm_on_off_all g = Some (g\<lparr>alarm_on_off := [1, 1, 1], gpio_output := [1, 1, 1, 1],
           sensor := (sensor g)[0 := 1]\<rparr>)"
proof -
  obtain a b c where "alarm_on_off g = [a, b, c]"
    using assms by (auto simp: ok_CONFIG_GPIO_def numeral_eq_Suc length_Suc_conv)
  moreover obtain p q r s where "gpio_output g = [p, q, r, s]"
    using assms by (auto simp: ok_CONFIG_GPIO_def numeral_eq_Suc length_Suc_conv)
  ultimately show ?thesis using assms
    by (simp add: alarm_on_off_all_def set_alarm_on_off_eq ok_CONFIG_GPIO_def)
qed

lemma str_ip_defaults:
  "str_ip DEVICE_IP = Some 0xa601a8c0" "str_ip ''255.255.255.0'' = Some 0x00ffffff"
  "str_ip ''192.168.1.1'' = Some 0x0101a8c0" "str_ip SERVER_IP = Some 0"
  by (code_simp)+

end
