(* ===== verification/Gpio.thy ===== *)
theory Gpio
  imports Config
begin

text \<open>
  \<open>nc600-2.0/src/gpio.c\<close>: pins through \<open>/sys/class/gpio\<close>, the alarm inputs with their
  hold time, the reset key, the sensor file. \<open>pins\<close> is what the kernel shows for each line;
  \<open>set_gpio\<close> is the text it writes there. The threads' endless loops are modelled by one turn of
  the loop (\<open>alarm_tick\<close>, \<open>cfg_key_turn\<close>) and runs over the successive inputs.
\<close>

section \<open>Pins\<close>

definition set_gpio :: "gpio_num \<Rightarrow> nat \<Rightarrow> dev \<Rightarrow> int \<times> dev" where
  "set_gpio gn gs d = (if pins d (gpio_code gn) = None then (-1, d)
     else (0, emit (EvGpio (gpio_code gn) (decimal gs)) d))"

text \<open>
  \<open>fread (gsP, 1, 1, fp)\<close> replaces the low byte of the four-byte \<open>*gsP\<close> only; then
  \<open>*gsP -= 0x30\<close>. On failure \<open>*gsP\<close> keeps its value.
\<close>

definition get_gpio :: "gpio_num \<Rightarrow> u32 \<Rightarrow> dev \<Rightarrow> int \<times> u32" where
  "get_gpio gn gs d = (case pins d (gpio_code gn) of
       Some (c # _) \<Rightarrow> (0, ((gs AND NOT 0xff) OR ucast c) - 0x30)
     | _ \<Rightarrow> (-1, gs))"

definition led_ctrl :: "gpio_num \<Rightarrow> nat \<Rightarrow> dev \<Rightarrow> dev" where
  "led_ctrl led on_off d = snd (set_gpio led on_off d)"

definition LED_ON :: nat where "LED_ON = 0"
definition LED_OFF :: nat where "LED_OFF = 1"

text \<open>The board's lines, in the order of \<open>g_gpio_num\<close>, with their directions.\<close>

definition g_gpio :: "(gpio_num \<times> string) list" where
  "g_gpio = [(ALARM_IN1, ''in''), (ALARM_IN2, ''in''), (ALARM_IN3, ''in''), (ALARM_IN4, ''in''),
     (ALARM_IN5, ''in''), (ALARM_IN6, ''in''), (ALARM_IN7, ''in''), (ALARM_IN8, ''in''),
     (CFG_KEY, ''in''), (LED_D1_SYSTEM_STATUS, ''out''), (LED_D2_ALARM_STATUS, ''out''),
     (LED_D3_ALARM_SERVER_STATUS, ''out''), (PHY_RESET, ''out''), (OUTPUT_1, ''out''),
     (OUTPUT_2, ''out''), (OUTPUT_3, ''out''), (OUTPUT_4, ''out''), (TEMP_SENSOR_POWER, ''out'')]"

text \<open>\<open>open_gpio\<close>; \<open>can\<close> says which control files open for writing.\<close>

fun write_files :: "(bytes \<Rightarrow> bool) \<Rightarrow> (bytes \<times> bytes) list \<Rightarrow> dev \<Rightarrow> bool \<times> dev" where
  "write_files can [] d = (True, d)"
| "write_files can ((path, t) # fs) d =
     (if can path then write_files can fs (emit (EvFile path t) d) else (False, d))"

definition gpio_path :: "gpio_num \<Rightarrow> string \<Rightarrow> bytes" where
  "gpio_path gn leaf = bytes_of ''/sys/class/gpio/gpio'' @ decimal (gpio_code gn) @ bytes_of leaf"

definition open_gpio :: "(bytes \<Rightarrow> bool) \<Rightarrow> dev \<Rightarrow> int \<times> dev" where
  "open_gpio can d = (let
     (ok, d) = write_files can
       (map (\<lambda>(n, _). (bytes_of ''/sys/class/gpio/export'', decimal (gpio_code n))) g_gpio) d
   in if \<not> ok then (-1, d) else let
     (ok, d) = write_files can
       (map (\<lambda>(n, dir). (gpio_path n ''/direction'', bytes_of dir)) g_gpio) d
   in if \<not> ok then (-1, d) else (0, d))"

text \<open>\<open>close_gpio\<close> has no return before its error label: it always returns -1.\<close>

definition close_gpio :: "(bytes \<Rightarrow> bool) \<Rightarrow> dev \<Rightarrow> int \<times> dev" where
  "close_gpio can d = (-1, snd (write_files can
     (map (\<lambda>(n, _). (bytes_of ''/sys/class/gpio/unexport'', decimal (gpio_code n))) g_gpio) d))"

definition set_gpios :: "(gpio_num \<times> nat) list \<Rightarrow> dev \<Rightarrow> dev" where
  "set_gpios l d = fold (\<lambda>(n, v) d. snd (set_gpio n v d)) l d"

section \<open>Alarm inputs\<close>

definition alarm_lines :: "gpio_num list" where
  "alarm_lines = [ALARM_IN1, ALARM_IN2, ALARM_IN3, ALARM_IN4, ALARM_IN5, ALARM_IN6, ALARM_IN7, ALARM_IN8]"

definition init_alarm :: "dev \<Rightarrow> dev" where
  "init_alarm d = set_gpios (map (\<lambda>n. (n, 1)) alarm_lines) (d\<lparr>g_alarm_in := zeros 8\<rparr>)"

text \<open>\<open>get_alarm\<close>: one local \<open>alarm\<close> for all lines, so a line that cannot be read repeats the last.\<close>

fun get_lines :: "gpio_num list \<Rightarrow> u32 \<Rightarrow> dev \<Rightarrow> bytes" where
  "get_lines [] v d = []"
| "get_lines (n # ns) v d = (let (_, v) = get_gpio n v d in ucast v # get_lines ns v d)"

definition get_alarm :: "u32 \<Rightarrow> dev \<Rightarrow> bytes" where
  "get_alarm v d = get_lines alarm_lines v d"

text \<open>
  One turn of \<open>alarm_proc\<close> for one input: the level now, the level of the last turn, turns since
  the last change, the alarm flag. 300 turns of 100 ms without a change clear the flag.
\<close>

definition ALARM_OFF_TIMEOUT :: u32 where "ALARM_OFF_TIMEOUT = 300"

definition alarm_channel :: "u8 \<Rightarrow> u8 \<Rightarrow> u32 \<Rightarrow> u8 \<Rightarrow> u32 \<times> u8" where
  "alarm_channel upd ini off_count flag =
     (let (off_count, flag) = (if upd \<noteq> ini then (0, ALARM_ON) else (off_count + 1, flag));
          flag = (if flag = ALARM_ON \<and> ALARM_OFF_TIMEOUT \<le> off_count then ALARM_OFF else flag)
      in (off_count, flag))"

record alarm_state =
  alarm_init :: bytes
  alarm_off_count :: "u32 list"

definition alarm_start :: "u32 \<Rightarrow> dev \<Rightarrow> alarm_state" where
  "alarm_start junk d = \<lparr>alarm_init = get_alarm junk d, alarm_off_count = replicate 8 0\<rparr>"

definition alarm_tick :: "bytes \<Rightarrow> alarm_state \<times> bytes \<Rightarrow> alarm_state \<times> bytes" where
  "alarm_tick update st = (let
     (a, g) = st;
     r = map (\<lambda>i. alarm_channel (update ! i) (alarm_init a ! i) (alarm_off_count a ! i) (g ! i)) [0 ..< 8]
   in (\<lparr>alarm_init = update, alarm_off_count = map fst r\<rparr>, map snd r))"

definition alarm_turn :: "u32 \<Rightarrow> alarm_state \<Rightarrow> dev \<Rightarrow> alarm_state \<times> dev" where
  "alarm_turn junk a d = (let (a, g) = alarm_tick (get_alarm junk d) (a, g_alarm_in d)
     in (a, d\<lparr>g_alarm_in := g\<rparr>))"

section \<open>The reset key\<close>

text \<open>
  One turn of \<open>cfg_key_proc\<close>. \<open>later\<close> is what the pins show after the three seconds; \<open>v\<close> is the
  variable \<open>cfg_key_val\<close>, which a failed read leaves alone.
\<close>

definition cfg_key_turn :: "(nat \<Rightarrow> bytes option) \<Rightarrow> u32 \<Rightarrow> dev \<Rightarrow> (u32 \<times> dev) option" where
  "cfg_key_turn later v d = (let (_, v) = get_gpio CFG_KEY v d in
     if v = GS_LOW then
       (let d = (emit (EvSleep 3) d)\<lparr>pins := later\<rparr>;
            (_, v) = get_gpio CFG_KEY v d
        in if v = GS_LOW then do { d \<leftarrow> reconfig d; Some (v, d) } else Some (v, d))
     else Some (v, d))"

section \<open>Start-up\<close>

definition init_gpio :: "(bytes \<Rightarrow> bool) \<Rightarrow> dev \<Rightarrow> dev" where
  "init_gpio can d = (let
     d = snd (open_gpio can d);
     d = init_alarm d;
     d = snd (set_gpio PHY_RESET 1 d);
     d = led_ctrl LED_D1_SYSTEM_STATUS LED_OFF d;
     d = led_ctrl LED_D2_ALARM_STATUS LED_OFF d;
     d = led_ctrl LED_D3_ALARM_SERVER_STATUS LED_OFF d;
     d = snd (set_gpio CFG_KEY 1 d)
   in set_gpios [(OUTPUT_1, 0), (OUTPUT_2, 0), (OUTPUT_3, 0), (OUTPUT_4, 0),
                 (TEMP_SENSOR_POWER, 1)] d)"

section \<open>The sensor file\<close>

text \<open>
  \<open>get_sensor\<close>: up to 30 bytes of \<open>/proc/am2301\<close> over the caller's array; a file that does not
  open leaves the array as it is. The log call after a read prints the array as a string.
\<close>

definition get_sensor :: "bytes \<Rightarrow> dev \<Rightarrow> bytes option" where
  "get_sensor p d = (case am2301 d of None \<Rightarrow> Some p
     | Some c \<Rightarrow> do { p \<leftarrow> wrs p 0 (take 30 c); _ \<leftarrow> cstring p; Some p })"

section \<open>Lemmas: pins\<close>

lemma set_gpio_ret: "set_gpio gn gs d = (r, d') \<Longrightarrow> r = (if pins d (gpio_code gn) = None then -1 else 0)"
  by (auto simp: set_gpio_def split: if_splits)

lemma set_gpio_snd:
  "snd (set_gpio gn gs d) = (if pins d (gpio_code gn) = None then d
     else emit (EvGpio (gpio_code gn) (decimal gs)) d)"
  by (simp add: set_gpio_def)

text \<open>\<open>set_gpio\<close> and everything built from it changes the trace only.\<close>

definition only_trace :: "dev \<Rightarrow> dev \<Rightarrow> bool" where
  "only_trace d d' \<longleftrightarrow> (\<exists>t. d' = d\<lparr>trace := trace d @ t\<rparr>)"

lemma only_trace_refl [simp]: "only_trace d d"
  by (auto simp: only_trace_def intro: exI [of _ "[]"])

lemma only_trace_trans: "only_trace a b \<Longrightarrow> only_trace b c \<Longrightarrow> only_trace a c"
  by (auto simp: only_trace_def)

lemma only_trace_emit [simp]: "only_trace d (emit e d)"
  by (auto simp: only_trace_def emit_def)

lemma only_trace_set_gpio [simp]: "only_trace d (snd (set_gpio gn gs d))"
  by (simp add: set_gpio_snd)

lemma only_trace_led [simp]: "only_trace d (led_ctrl l v d)"
  by (simp add: led_ctrl_def)

lemma only_trace_set_gpios: "only_trace d (set_gpios l d)"
proof (induction l arbitrary: d)
  case (Cons x l)
  have "set_gpios (x # l) d = set_gpios l (snd (set_gpio (fst x) (snd x) d))"
    by (simp add: set_gpios_def split_beta)
  then show ?case using Cons [of "snd (set_gpio (fst x) (snd x) d)"]
    by (auto intro: only_trace_trans [OF only_trace_set_gpio])
qed (simp add: set_gpios_def)

lemma only_traceD: "only_trace d d' \<Longrightarrow> g_conf_info d' = g_conf_info d \<and> pins d' = pins d"
  by (auto simp: only_trace_def)

text \<open>A pin that shows \<open>0\<close> or \<open>1\<close> reads as that level when the variable held a byte.\<close>

lemma get_gpio_level:
  assumes "pins d (gpio_code gn) = Some (c # cs)" "c = 48 \<or> c = 49" "gs = 0 \<or> gs = 1"
  shows "get_gpio gn gs d = (0, ucast c - 48)"
  using assms by (auto simp: get_gpio_def)

section \<open>Lemmas: alarm inputs\<close>

lemma length_get_lines [simp]: "length (get_lines ns a d) = length ns"
  by (induction ns arbitrary: a) (auto simp: Let_def split_beta)

lemma length_get_alarm [simp]: "length (get_alarm a d) = 8"
  by (simp only: get_alarm_def length_get_lines alarm_lines_def list.size)

text \<open>Over the history of one input: the run of \<open>alarm_channel\<close> from a start level.\<close>

fun channel_run :: "u8 \<Rightarrow> u32 \<Rightarrow> u8 \<Rightarrow> bytes \<Rightarrow> u32 \<times> u8" where
  "channel_run ini cnt flag [] = (cnt, flag)"
| "channel_run ini cnt flag (u # us) =
     (let (cnt, flag) = alarm_channel u ini cnt flag in channel_run u cnt flag us)"

text \<open>Turns since the last change in a history, oldest first; \<open>None\<close> when there was none.\<close>

fun since_change :: "nat option \<Rightarrow> u8 \<Rightarrow> bytes \<Rightarrow> nat option" where
  "since_change s ini [] = s"
| "since_change s ini (u # us) =
     since_change (if u \<noteq> ini then Some 0 else map_option Suc s) u us"

text \<open>The flag is on exactly when the last change is less than 300 turns old.\<close>

definition flag_ok :: "nat option \<Rightarrow> u32 \<times> u8 \<Rightarrow> bool" where
  "flag_ok s r = (case s of None \<Rightarrow> snd r = ALARM_OFF
     | Some k \<Rightarrow> if k < 300 then r = (of_nat k, ALARM_ON) else snd r = ALARM_OFF)"

lemma of_nat_300: "k < 300 \<Longrightarrow> (300 :: u32) \<le> of_nat k + 1 \<longleftrightarrow> k = 299"
proof -
  assume k: "k < 300"
  have "unat (of_nat (Suc k) :: u32) = Suc k"
    using k by (simp add: unat_of_nat take_bit_nat_eq_self del: of_nat_Suc)
  moreover have "unat (300 :: u32) = 300" by simp
  ultimately show ?thesis using k by (simp only: word_le_nat_alt of_nat_Suc add.commute) arith
qed

lemma not_300_le_0: "\<not> (300 :: u32) \<le> 0"
  by (simp add: word_le_nat_alt)

lemma alarm_channel_flag_ok:
  assumes "flag_ok s (cnt, flag)"
  shows "flag_ok (if u \<noteq> ini then Some 0 else map_option Suc s) (alarm_channel u ini cnt flag)"
  using assms of_nat_300 not_300_le_0
  by (auto simp del: word_le_0_iff simp: flag_ok_def alarm_channel_def ALARM_ON_def ALARM_OFF_def ALARM_OFF_TIMEOUT_def
      Let_def add.commute split: option.splits if_splits)

lemma channel_run_flag_ok:
  "flag_ok s (cnt, flag) \<Longrightarrow> flag_ok (since_change s ini us) (channel_run ini cnt flag us)"
proof (induction us arbitrary: s cnt flag ini)
  case (Cons u us)
  obtain c f where cf: "alarm_channel u ini cnt flag = (c, f)" by fastforce
  show ?case
    using Cons.IH [of "if u \<noteq> ini then Some 0 else map_option Suc s" c f u]
      alarm_channel_flag_ok [OF Cons.prems, of u ini] by (simp add: cf)
qed simp

text \<open>The eight channels of \<open>alarm_proc\<close> run independently.\<close>

fun alarm_run :: "bytes list \<Rightarrow> alarm_state \<times> bytes \<Rightarrow> alarm_state \<times> bytes" where
  "alarm_run [] st = st"
| "alarm_run (u # us) st = alarm_run us (alarm_tick u st)"

definition ok_alarm :: "alarm_state \<times> bytes \<Rightarrow> bool" where
  "ok_alarm st \<longleftrightarrow> length (alarm_init (fst st)) = 8 \<and> length (alarm_off_count (fst st)) = 8 \<and>
     length (snd st) = 8"

lemma alarm_tick_nth:
  assumes "i < 8"
  shows "alarm_init (fst (alarm_tick u st)) = u"
    "(alarm_off_count (fst (alarm_tick u st)) ! i, snd (alarm_tick u st) ! i) =
      alarm_channel (u ! i) (alarm_init (fst st) ! i) (alarm_off_count (fst st) ! i) (snd st ! i)"
  using assms by (simp_all add: alarm_tick_def Let_def split_beta)

lemma ok_alarm_tick: "length u = 8 \<Longrightarrow> ok_alarm (alarm_tick u st)"
  by (simp add: ok_alarm_def alarm_tick_def Let_def split_beta)

lemma alarm_run_nth:
  assumes "i < 8"
  shows "(alarm_off_count (fst (alarm_run us st)) ! i, snd (alarm_run us st) ! i) =
     channel_run (alarm_init (fst st) ! i) (alarm_off_count (fst st) ! i) (snd st ! i) (map (\<lambda>u. u ! i) us)"
proof (induction us arbitrary: st)
  case (Cons u us)
  show ?case
    by (simp add: Cons.IH alarm_tick_nth(1) [OF assms] flip: alarm_tick_nth(2) [OF assms])
qed simp

section \<open>Lemmas: the reset key\<close>

lemma reconfig_result:
  assumes "ok_dev d"
  shows "\<exists>d' n s. reconfig d = Some d' \<and> default_net (con_net (g_conf_info d)) = Some n \<and>
     default_server (con_server (g_conf_info d)) = Some s \<and>
     g_conf_info d' = g_conf_info d\<lparr>con_net := n, con_server := s,
       con_gpio := con_gpio (g_conf_info d)\<lparr>alarm_on_off := [1, 1, 1], gpio_output := [1, 1, 1, 1],
         sensor := (sensor (con_gpio (g_conf_info d)))[0 := 1]\<rparr>\<rparr>"
proof -
  let ?c = "g_conf_info d"
  have ok: "ok_CONFI_DATA ?c" using assms by (simp add: ok_dev_def)
  have g: "ok_CONFIG_GPIO (con_gpio ?c)" and l: "length (dns_str (con_server ?c)) = 50"
    using ok by (simp_all add: ok_CONFI_DATA_def ok_CONFIG_SERVER_def)
  obtain n where n: "default_net (con_net ?c) = Some n"
    by (simp add: default_net_def str_ip_defaults)
  have "\<exists>dn. strcpy (dns_str (con_server ?c)) (bytes_of SERVER_DNS @ [0]) = Some dn"
    using l by (simp add: strcpy_def SERVER_DNS_def bytes_of_def cstring_append wrs_def)
  then obtain s where s: "default_server (con_server ?c) = Some s"
    by (auto simp: default_server_def str_ip_defaults)
  show ?thesis
    by (intro exI conjI, simp add: reconfig_def Let_def n s alarm_on_off_all_eq [OF g], rule n, rule s)
      simp
qed

end
