(* ===== verification/Com.thy ===== *)
theory Com
  imports Config
begin

text \<open>
  \<open>nc600-2.0/src/com.c\<close>: opening the serial ports, their terminal settings, and sending network
  data to a port. The thread \<open>com_proc\<close>, which reads the ports, is in theory \<open>Serial\<close>: it feeds
  both the session layer and the alarm-server client.
\<close>

definition MAX_COM_PORT :: nat where "MAX_COM_PORT = 2"

text \<open>\<open>com_dev_open\<close>: \<open>fds\<close> are the results of the two \<open>open\<close> calls.\<close>

definition com_dev_open :: "int list \<Rightarrow> dev \<Rightarrow> dev" where
  "com_dev_open fds d = d\<lparr>gcomfd := take MAX_COM_PORT fds\<rparr>"

text \<open>\<open>enum COM_CHK\<close>; the switch of \<open>setTTY\<close> tests the same numbers.\<close>

datatype COM_CHK = CHK_ODD | CHK_QI | CHK_NONE

fun com_chk_code :: "COM_CHK \<Rightarrow> u8" where
  "com_chk_code CHK_ODD = 1"
| "com_chk_code CHK_QI = 2"
| "com_chk_code CHK_NONE = 3"

text \<open>The speeds \<open>setTTY\<close> has a case for; every other value gives 115200.\<close>

definition baud_rates :: "nat list" where
  "baud_rates = [300, 600, 1200, 2400, 4800, 9600, 19200, 38400, 57600, 115200, 230400, 460800,
     576000, 921600]"

definition baud :: "u32 \<Rightarrow> nat" where
  "baud speed = (if unat speed \<in> set baud_rates then unat speed else 115200)"

definition set_databits :: "u8 \<Rightarrow> termios \<Rightarrow> termios option" where
  "set_databits n t = (if 5 \<le> n \<and> n \<le> 8 then Some (t\<lparr>c_size := unat n\<rparr>) else None)"

definition set_parity :: "u8 \<Rightarrow> termios \<Rightarrow> termios option" where
  "set_parity p t =
     (if p = 3 then Some (t\<lparr>c_cflag := c_cflag t - {PARENB, PARODD}, c_iflag := c_iflag t - {INPCK, ISTRIP}\<rparr>)
      else if p = 2 then Some (t\<lparr>c_cflag := c_cflag t \<union> {PARENB, PARODD}, c_iflag := c_iflag t \<union> {INPCK, ISTRIP}\<rparr>)
      else if p = 1 then Some (t\<lparr>c_iflag := c_iflag t \<union> {INPCK, ISTRIP}, c_cflag := (c_cflag t \<union> {PARENB}) - {PARODD}\<rparr>)
      else None)"

definition set_stopbits :: "u32 \<Rightarrow> termios \<Rightarrow> termios option" where
  "set_stopbits n t =
     (if n = 1 then Some (t\<lparr>c_cflag := c_cflag t - {CSTOPB}\<rparr>)
      else if n = 2 then Some (t\<lparr>c_cflag := c_cflag t \<union> {CSTOPB}\<rparr>)
      else None)"

text \<open>
  \<open>setTTY\<close>, without the port index, which it only logs. Errors return before \<open>tcsetattr\<close>, the
  one call that changes the terminal.
\<close>

definition setTTY :: "int \<Rightarrow> u32 \<Rightarrow> u8 \<Rightarrow> u8 \<Rightarrow> u32 \<Rightarrow> dev \<Rightarrow> int \<times> dev" where
  "setTTY fd speed databits parity stopbits d =
    (if fd \<le> 0 then (-1, d) else
     let ntm = (tty_attr d fd)\<lparr>c_size := 5\<rparr>;
         ntm = ntm\<lparr>c_ispeed := baud speed, c_ospeed := baud speed\<rparr>
     in case set_databits databits ntm of None \<Rightarrow> (-1, d) | Some ntm \<Rightarrow>
        case set_parity parity ntm of None \<Rightarrow> (-2, d) | Some ntm \<Rightarrow>
        case set_stopbits stopbits ntm of None \<Rightarrow> (-3, d) | Some ntm \<Rightarrow>
        let ntm = ntm\<lparr>c_cflag := c_cflag ntm \<union> {CLOCAL, CREAD},
                      c_lflag := c_lflag ntm - {ICANON, ECHO, ECHOE, ISIG},
                      c_oflag := c_oflag ntm - {OPOST}, c_vtime := 0, c_vmin := 0\<rparr>
        in if \<not> tty_set_ok d then (-4, d)
           else (1, d\<lparr>tty_attr := (tty_attr d)(fd := ntm)\<rparr>))"

text \<open>\<open>com_para_set\<close> drops the result of \<open>setTTY\<close> and sets the one global \<open>rs_type\<close> in any case.\<close>

definition com_para_set :: "int \<Rightarrow> CONFIG_COM \<Rightarrow> dev \<Rightarrow> dev" where
  "com_para_set fd c d = (if 0 < fd
     then (snd (setTTY fd (bps c) (dbit c) (chk c) (sbit c) d))
            \<lparr>rs_type := com_type c\<rparr>
     else d)"

text \<open>\<open>gcomfd[id - 1]\<close>; \<open>id\<close> 0 is the element before the array.\<close>

definition com_fd :: "nat \<Rightarrow> dev \<Rightarrow> int option" where
  "com_fd n d = (if n = 0 then None else rd (gcomfd d) (n - 1))"

definition com_set :: "CONFIG_COM \<Rightarrow> dev \<Rightarrow> dev option" where
  "com_set c d = do { fd \<leftarrow> com_fd (unat (com_id c)) d; Some (com_para_set fd c d) }"

text \<open>\<open>com_init\<close>, up to the creation of the threads.\<close>

definition com_init :: "int list \<Rightarrow> dev \<Rightarrow> dev option" where
  "com_init fds d = do {
     let d = com_dev_open fds d;
     fd0 \<leftarrow> rd (gcomfd d) 0; c0 \<leftarrow> rd (con_com (g_conf_info d)) 0;
     let d = com_para_set fd0 c0 d;
     fd1 \<leftarrow> rd (gcomfd d) 1; c1 \<leftarrow> rd (con_com (g_conf_info d)) 1;
     Some (com_para_set fd1 c1 d) }"

definition SendNetDataToCom :: "nat \<Rightarrow> bytes \<Rightarrow> dev \<Rightarrow> (int \<times> dev) option" where
  "SendNetDataToCom n data d =
    (if rs_type d = com_type_code RS232 then do {
       fd \<leftarrow> rd (gcomfd d) n;
       let (r, out, sc) = writen (tty_script d) data;
       Some (r, emit (EvUart fd (map Out out)) (d\<lparr>tty_script := sc\<rparr>)) }
     else if rs_type d = com_type_code RS485 then do {
       fd \<leftarrow> rd (gcomfd d) n;
       let (r, out, sc) = writen_rs485 (tty_script d) data;
       Some (r, emit (EvUart fd out) (d\<lparr>tty_script := sc\<rparr>)) }
     else Some (-1, d))"

section \<open>Lemmas\<close>

lemma setTTY_frame:
  "setTTY fd s b p q d = (r, d') \<Longrightarrow> \<exists>t. d' = d\<lparr>tty_attr := t\<rparr>"
  by (auto simp: setTTY_def Let_def split: if_splits option.splits intro: exI [of _ "tty_attr d"])

lemma com_para_set_frame: "\<exists>t y. com_para_set fd c d = d\<lparr>tty_attr := t, rs_type := y\<rparr>"
proof (cases "0 < fd")
  case True
  obtain t where "snd (setTTY fd (bps c) (dbit c) (chk c) (sbit c) d) = d\<lparr>tty_attr := t\<rparr>"
    using setTTY_frame [of fd "bps c" "dbit c" "chk c" "sbit c" d] by (metis prod.collapse)
  with True show ?thesis by (simp add: com_para_set_def) blast
next
  case False
  then show ?thesis by (intro exI [of _ "tty_attr d"] exI [of _ "rs_type d"]) (simp add: com_para_set_def)
qed

lemma com_para_set_conf [simp]:
  "g_conf_info (com_para_set fd c d) = g_conf_info d" "gcomfd (com_para_set fd c d) = gcomfd d"
  "ok_dev (com_para_set fd c d) = ok_dev d" "trace (com_para_set fd c d) = trace d"
  "flash (com_para_set fd c d) = flash d" "flash_writable (com_para_set fd c d) = flash_writable d"
  "cbuf (com_para_set fd c d) = cbuf d" "pins (com_para_set fd c d) = pins d"
proof -
  obtain t y where e: "com_para_set fd c d = d\<lparr>tty_attr := t, rs_type := y\<rparr>"
    using com_para_set_frame by blast
  show "g_conf_info (com_para_set fd c d) = g_conf_info d" "gcomfd (com_para_set fd c d) = gcomfd d"
    "ok_dev (com_para_set fd c d) = ok_dev d" "trace (com_para_set fd c d) = trace d"
    "flash (com_para_set fd c d) = flash d" "flash_writable (com_para_set fd c d) = flash_writable d"
    "cbuf (com_para_set fd c d) = cbuf d" "pins (com_para_set fd c d) = pins d"
    by (simp_all add: e ok_dev_def)
qed

text \<open>The frame a legal setting gives the port: the terminal's own notion of the line format.\<close>

definition line_format :: "termios \<Rightarrow> nat \<times> nat \<times> (bool \<times> bool) \<times> bool" where
  "line_format t = (c_ospeed t, c_size t, (PARENB \<in> c_cflag t, PARODD \<in> c_cflag t), CSTOPB \<in> c_cflag t)"

definition legal_com :: "u8 \<Rightarrow> u8 \<Rightarrow> u32 \<Rightarrow> bool" where
  "legal_com b p s \<longleftrightarrow> 5 \<le> b \<and> b \<le> 8 \<and> 1 \<le> p \<and> p \<le> 3 \<and> 1 \<le> s \<and> s \<le> 2"

lemma small_word:
  fixes n :: "'a::len word"
  shows "unat n \<le> 3 \<Longrightarrow> n = of_nat 0 \<or> n = of_nat 1 \<or> n = of_nat 2 \<or> n = of_nat 3"
proof -
  assume "unat n \<le> 3"
  then consider "unat n = 0" | "unat n = 1" | "unat n = 2" | "unat n = 3" by linarith
  then show ?thesis by cases (metis of_nat_unat ucast_id)+
qed

lemma legal_chk: "(p :: u8) = 1 \<or> p = 2 \<or> p = 3 \<longleftrightarrow> 1 \<le> p \<and> p \<le> 3"
  using small_word [of p] by (auto simp: word_le_nat_alt)

lemma legal_sbit: "(s :: u32) = 1 \<or> s = 2 \<longleftrightarrow> 1 \<le> s \<and> s \<le> 2"
  using small_word [of s] by (auto simp: word_le_nat_alt)

lemma setTTY_legal:
  assumes "0 < fd" "legal_com b p s" "tty_set_ok d"
  shows "\<exists>t. setTTY fd speed b p s d = (1, d\<lparr>tty_attr := (tty_attr d)(fd := t)\<rparr>) \<and>
     line_format t = (baud speed, unat b, (p \<noteq> 3, p = 2), s = 2) \<and>
     c_ispeed t = baud speed \<and> {CLOCAL, CREAD} \<subseteq> c_cflag t \<and> c_lflag t \<inter> {ICANON, ECHO, ECHOE, ISIG} = {}"
proof -
  have p: "p = 1 \<or> p = 2 \<or> p = 3" and s: "s = 1 \<or> s = 2"
    using assms(2) by (simp_all add: legal_com_def legal_chk legal_sbit)
  show ?thesis
    using p s assms
    by (elim disjE; intro exI conjI, simp add: setTTY_def Let_def set_databits_def set_parity_def set_stopbits_def legal_com_def)
      (auto simp: line_format_def)
qed

lemma setTTY_illegal:
  assumes "\<not> legal_com b p s"
  shows "fst (setTTY fd speed b p s d) < 0" "snd (setTTY fd speed b p s d) = d"
proof -
  have "set_databits b t = None \<or> set_parity p t' = None \<or> set_stopbits s t'' = None" for t t' t''
    using assms legal_chk [of p] legal_sbit [of s]
    by (auto simp: set_databits_def set_parity_def set_stopbits_def legal_com_def)
  then show "fst (setTTY fd speed b p s d) < 0" "snd (setTTY fd speed b p s d) = d"
    by (auto simp: setTTY_def Let_def split: option.splits)
      (metis option.distinct(1))+
qed

lemma SendNetDataToCom_all:
  assumes "tty_script d = []" "rd (gcomfd d) n = Some fd" "data \<noteq> []"
  shows "SendNetDataToCom n data d =
     (if rs_type d = com_type_code RS232 then Some (int (length data), emit (EvUart fd [Out data]) d)
      else if rs_type d = com_type_code RS485
      then Some (int (length data), emit (EvUart fd [Lock, Out data, Unlock]) d)
      else Some (-1, d))"
  using assms by (cases data) (simp_all add: SendNetDataToCom_def writen_def writen_rs485_def)

end
