(* ===== verification/Client.thy ===== *)
theory Client
  imports Gpio Com
begin

text \<open>
  The messages of the alarm-server protocol, \<open>nc600-2.0/src/client.c\<close>: the checks of a received
  message, the operations behind the commands and the builders of the replies. A builder takes
  the send buffer and returns the reply's length with the filled buffer. The dispatch on the
  command byte is \<open>client_dispatch\<close>; the connection and the loop are in theory \<open>Link\<close>.

  Indices of one byte (\<open>u8 i, j\<close>) step by 2, 3 or 8 per element; an element index above 7 has left
  the sensor arrays before they wrap, so the model computes them without wrap-around.
\<close>

section \<open>Loops over an index\<close>

text \<open>\<open>for (j = from; j < from + n; j++) s = body j s\<close>, where the body may leave defined behaviour.\<close>

fun for_from :: "nat \<Rightarrow> nat \<Rightarrow> (nat \<Rightarrow> 's \<Rightarrow> 's option) \<Rightarrow> 's \<Rightarrow> 's option" where
  "for_from j 0 body s = Some s"
| "for_from j (Suc n) body s = do { s \<leftarrow> body j s; for_from (Suc j) n body s }"

abbreviation for_to :: "nat \<Rightarrow> (nat \<Rightarrow> 's \<Rightarrow> 's option) \<Rightarrow> 's \<Rightarrow> 's option" where
  "for_to n body s \<equiv> for_from 0 n body s"

section \<open>Heads and checks\<close>

definition check_head :: "bytes \<Rightarrow> int option" where
  "check_head b = do {
     b0 \<leftarrow> rd b 0;
     if b0 \<noteq> PROTOCOL_HEAD_1 then Some (-1) else do {
       b1 \<leftarrow> rd b 1;
       Some (if b1 \<noteq> PROTOCOL_HEAD_2 then -1 else 0) } }"

definition check_protocol_head :: "bytes \<Rightarrow> u8 \<Rightarrow> int option" where
  "check_protocol_head b pid = do {
     h \<leftarrow> check_head b;
     if h \<noteq> 0 then Some (-1) else do {
       b2 \<leftarrow> rd b 2;
       if b2 \<noteq> pid then Some (-1) else do {
         b3 \<leftarrow> rd b 3;
         Some (if b3 \<noteq> ALARM_DEVICE_ID then -1 else 0) } } }"

definition make_ack_head :: "bytes \<Rightarrow> protocol_id \<Rightarrow> bytes option" where
  "make_ack_head b pid = do {
     b \<leftarrow> wr b 0 PROTOCOL_HEAD_1; b \<leftarrow> wr b 1 PROTOCOL_HEAD_2;
     b \<leftarrow> wr b 2 (proto_code pid); wr b 3 ALARM_DEVICE_ID }"

definition make_crc_num :: "bytes \<Rightarrow> nat \<Rightarrow> u8" where "make_crc_num b n = 0"
definition check_for_crc :: "bytes \<Rightarrow> u8 \<Rightarrow> int" where "check_for_crc b n = 0"

text \<open>The checks of the commands are one function of the least length and the command.\<close>

definition check_cmd :: "u8 \<Rightarrow> protocol_id \<Rightarrow> bytes \<Rightarrow> u8 \<Rightarrow> int option" where
  "check_cmd least pid b num =
    (if num < least then Some (check_code ERROR_NUM_IS_NOT_ENOUGH) else do {
       h \<leftarrow> check_protocol_head b (proto_code pid);
       Some (if h \<noteq> 0 then check_code ERROR_HEAD_OR_DEVICE_ID
             else if check_for_crc b num \<noteq> 0 then check_code ERROR_CRC_CHECK else 0) })"

definition check_for_get_device_attr :: "bytes \<Rightarrow> u8 \<Rightarrow> int option" where
  "check_for_get_device_attr = check_cmd 5 PROTOCOL_GET_DEVICE_ATTR"
definition check_for_set_device_attr :: "bytes \<Rightarrow> u8 \<Rightarrow> int option" where
  "check_for_set_device_attr = check_cmd 7 PROTOCOL_SET_DEVICE_ATTR"
definition check_for_get_alarm_status :: "bytes \<Rightarrow> u8 \<Rightarrow> int option" where
  "check_for_get_alarm_status = check_cmd 5 PROTOCOL_GET_ALARM_STATUS"
definition check_for_set_time :: "bytes \<Rightarrow> u8 \<Rightarrow> int option" where
  "check_for_set_time = check_cmd 11 PROTOCOL_SET_TIME"
definition check_for_get_uart_qty :: "bytes \<Rightarrow> u8 \<Rightarrow> int option" where
  "check_for_get_uart_qty = check_cmd 5 PROTOCOL_GET_UART_QTY"
definition check_for_get_uart_attr :: "bytes \<Rightarrow> u8 \<Rightarrow> int option" where
  "check_for_get_uart_attr = check_cmd 7 PROTOCOL_GET_UART_ATTR"
definition check_for_set_uart_attr :: "bytes \<Rightarrow> u8 \<Rightarrow> int option" where
  "check_for_set_uart_attr = check_cmd 14 PROTOCOL_SET_UART_ATTR"
definition check_for_query_uart_recv_data :: "bytes \<Rightarrow> u8 \<Rightarrow> int option" where
  "check_for_query_uart_recv_data = check_cmd 6 PROTOCOL_QUERY_UART_RECV_DATA"
definition check_for_get_io_num :: "bytes \<Rightarrow> u8 \<Rightarrow> int option" where
  "check_for_get_io_num = check_cmd 5 PROTOCOL_GET_IO_NUM"
definition check_for_set_io :: "bytes \<Rightarrow> u8 \<Rightarrow> int option" where
  "check_for_set_io = check_cmd 9 PROTOCOL_SET_IO"
definition check_for_get_io_status :: "bytes \<Rightarrow> u8 \<Rightarrow> int option" where
  "check_for_get_io_status = check_cmd 7 PROTOCOL_GET_IO_STATUS"
definition check_for_get_temp_num :: "bytes \<Rightarrow> u8 \<Rightarrow> int option" where
  "check_for_get_temp_num = check_cmd 5 PROTOCOL_GET_TEMP_NUM"
definition check_for_get_temp_status :: "bytes \<Rightarrow> u8 \<Rightarrow> int option" where
  "check_for_get_temp_status = check_cmd 7 PROTOCOL_GET_TEMP_STATUS"

text \<open>Four checks also store something. \<open>heartbeat_s\<close> is stored before the crc is looked at.\<close>

definition check_for_set_heartbeat :: "bytes \<Rightarrow> u8 \<Rightarrow> dev \<Rightarrow> (int \<times> dev) option" where
  "check_for_set_heartbeat b num d =
    (if num < 6 then Some (check_code ERROR_NUM_IS_NOT_ENOUGH, d) else do {
       h \<leftarrow> check_protocol_head b (proto_code PROTOCOL_SET_HEARTBEAT);
       if h \<noteq> 0 then Some (check_code ERROR_HEAD_OR_DEVICE_ID, d) else do {
         b4 \<leftarrow> rd b 4;
         let d = d\<lparr>heartbeat_s := b4\<rparr>;
         Some (if check_for_crc b num \<noteq> 0 then check_code ERROR_CRC_CHECK else 0, d) } })"

text \<open>\<open>_buf[4] - 1\<close> as a \<open>DWORD\<close>.\<close>

definition wire_id :: "u8 \<Rightarrow> u32" where
  "wire_id c = ucast c - 1"

definition check_for_query_uart_sendbuf :: "bytes \<Rightarrow> u8 \<Rightarrow> dev \<Rightarrow> (int \<times> dev) option" where
  "check_for_query_uart_sendbuf b num d =
    (if num < 6 then Some (check_code ERROR_NUM_IS_NOT_ENOUGH, d) else do {
       h \<leftarrow> check_protocol_head b (proto_code PROTOCOL_QUERY_UART_SENDBUF);
       if h \<noteq> 0 then Some (check_code ERROR_HEAD_OR_DEVICE_ID, d) else do {
         b4 \<leftarrow> rd b 4;
         let d = d\<lparr>get_com_attr := (get_com_attr d)\<lparr>com_id := wire_id b4\<rparr>\<rparr>;
         Some (if check_for_crc b num \<noteq> 0 then check_code ERROR_CRC_CHECK else 0, d) } })"

definition check_for_uart_send_data :: "bytes \<Rightarrow> u8 \<Rightarrow> dev \<Rightarrow> (int \<times> dev) option" where
  "check_for_uart_send_data b num d =
    (if num < 8 then Some (check_code ERROR_NUM_IS_NOT_ENOUGH, d) else do {
       h \<leftarrow> check_protocol_head b (proto_code PROTOCOL_UART_SEND_DATA);
       if h \<noteq> 0 then Some (check_code ERROR_HEAD_OR_DEVICE_ID, d)
       else if check_for_crc b num \<noteq> 0 then Some (check_code ERROR_CRC_CHECK, d) else do {
         b4 \<leftarrow> rd b 4; b5 \<leftarrow> rd b 5; b6 \<leftarrow> rd b 6;
         Some (0, d\<lparr>get_com_attr := (get_com_attr d)\<lparr>com_id := wire_id b4\<rparr>,
                    g_uart_send_cnt := ucast b5 * 0x100 + ucast b6\<rparr>) } })"

definition upd_com :: "nat \<Rightarrow> CONFIG_COM \<Rightarrow> dev \<Rightarrow> dev option" where
  "upd_com i c d = do {
     cs \<leftarrow> wr (con_com (g_conf_info d)) i c;
     Some (d\<lparr>g_conf_info := g_conf_info d\<lparr>con_com := cs\<rparr>\<rparr>) }"

text \<open>The log call at the end reads \<open>con_com[id]\<close> for every \<open>id\<close>.\<close>

definition check_for_set_uart_recv_attr :: "bytes \<Rightarrow> u8 \<Rightarrow> dev \<Rightarrow> (int \<times> dev) option" where
  "check_for_set_uart_recv_attr b num d =
    (if num < 7 then Some (check_code ERROR_NUM_IS_NOT_ENOUGH, d) else do {
       h \<leftarrow> check_protocol_head b (proto_code PROTOCOL_SET_UART_RECV_ATTR);
       if h \<noteq> 0 then Some (check_code ERROR_HEAD_OR_DEVICE_ID, d)
       else if check_for_crc b num \<noteq> 0 then Some (check_code ERROR_CRC_CHECK, d) else do {
         b4 \<leftarrow> rd b 4;
         let id = wire_id b4;
         d \<leftarrow> (if id = 0 \<or> id = 1 then do {
                b5 \<leftarrow> rd b 5;
                let mode = (if b5 = UART_RECV_POLL_MODE then UART_RECV_POLL_MODE
                            else if b5 = UART_RECV_INT_MODE then UART_RECV_INT_MODE
                            else UART_RECV_POLL_MODE);
                c \<leftarrow> rd (con_com (g_conf_info d)) (unat id);
                rsvd \<leftarrow> wr (com_rsvd c) 0 mode;
                d \<leftarrow> upd_com (unat id) (c\<lparr>com_rsvd := rsvd\<rparr>) d;
                Some (config_save d) }
              else Some d);
         c \<leftarrow> rd (con_com (g_conf_info d)) (unat id);
         _ \<leftarrow> rd (com_rsvd c) 0;
         Some (0, d) } })"

section \<open>Sensors\<close>

definition SENSOR_TYPE_NUM :: nat where "SENSOR_TYPE_NUM = 4"
definition SINGLE_SENSOR_MAX_NUM :: nat where "SINGLE_SENSOR_MAX_NUM = 8"

abbreviation (input) sensors :: "dev \<Rightarrow> CONFIG_SENSOR list" where
  "sensors d \<equiv> con_sensor (g_conf_info d)"

definition get_one_sensor_buf :: "CONFIG_SENSOR \<Rightarrow> nat \<Rightarrow> bytes \<Rightarrow> (nat \<times> bytes) option" where
  "get_one_sensor_buf s off b = do {
     b \<leftarrow> wr b off (ucast (sen_type s));
     b \<leftarrow> wr b (off + 1) (sen_num s);
     if sen_num s = 0 then do {
       b \<leftarrow> wr b (off + 2) 0; b \<leftarrow> wr b (off + 3) 0;
       Some (4, b) }
     else do {
       b \<leftarrow> for_to (unat (sen_num s)) (\<lambda>j b. do {
              q \<leftarrow> rd (seq_num s) j; b \<leftarrow> wr b (off + 2 + 2 * j) q;
              a \<leftarrow> rd (sen_attr s) j; wr b (off + 3 + 2 * j) a }) b;
       Some (2 + 2 * unat (sen_num s), b) } }"

definition get_all_sensor_buf :: "dev \<Rightarrow> nat \<Rightarrow> bytes \<Rightarrow> (nat \<times> bytes) option" where
  "get_all_sensor_buf d off b = do {
     s \<leftarrow> rd (sensors d) SENSOR_TYPE_UART; (cnt, b) \<leftarrow> get_one_sensor_buf s off b;
     let index = cnt;
     s \<leftarrow> rd (sensors d) SENSOR_TYPE_IO_IN; (cnt, b) \<leftarrow> get_one_sensor_buf s (off + index) b;
     let index = index + cnt;
     s \<leftarrow> rd (sensors d) SENSOR_TYPE_IO_OUT; (cnt, b) \<leftarrow> get_one_sensor_buf s (off + index) b;
     let index = index + cnt;
     s \<leftarrow> rd (sensors d) SENSOR_TYPE_SINGLE_BUS; (cnt, b) \<leftarrow> get_one_sensor_buf s (off + index) b;
     Some (index + cnt, b) }"

definition make_ack_get_device_attr :: "dev \<Rightarrow> bytes \<Rightarrow> (nat \<times> bytes) option" where
  "make_ack_get_device_attr d b = do {
     b \<leftarrow> make_ack_head b PROTOCOL_ACK_GET_DEVICE_ATTR;
     b \<leftarrow> wr b 4 (of_nat SENSOR_TYPE_NUM);
     (cnt, b) \<leftarrow> get_all_sensor_buf d 5 b;
     b \<leftarrow> wr b (5 + cnt) 0;
     b \<leftarrow> wr b (5 + cnt) (make_crc_num b (5 + cnt));
     Some (6 + cnt, b) }"

text \<open>\<open>num\<close> is stored before it is compared with the size of the arrays.\<close>

definition set_one_sensor_buf :: "bytes \<Rightarrow> nat \<Rightarrow> CONFIG_SENSOR \<Rightarrow> (int \<times> CONFIG_SENSOR) option" where
  "set_one_sensor_buf b off s = do {
     n \<leftarrow> rd b off;
     let s = s\<lparr>sen_num := n\<rparr>;
     if n = 0 then do {
       qs \<leftarrow> wr (seq_num s) 0 0; as \<leftarrow> wr (sen_attr s) 0 0;
       Some (0, s\<lparr>seq_num := qs, sen_attr := as\<rparr>) }
     else if unat n > SINGLE_SENSOR_MAX_NUM then Some (-1, s)
     else do {
       s \<leftarrow> for_to (unat n) (\<lambda>j s. do {
              q \<leftarrow> rd b (off + 1 + 2 * j); qs \<leftarrow> wr (seq_num s) j q;
              a \<leftarrow> rd b (off + 2 + 2 * j); as \<leftarrow> wr (sen_attr s) j a;
              Some (s\<lparr>seq_num := qs, sen_attr := as\<rparr>) }) s;
       Some (0, s) } }"

definition upd_sensor :: "nat \<Rightarrow> CONFIG_SENSOR \<Rightarrow> dev \<Rightarrow> dev option" where
  "upd_sensor i s d = do {
     ss \<leftarrow> wr (sensors d) i s;
     Some (d\<lparr>g_conf_info := g_conf_info d\<lparr>con_sensor := ss\<rparr>\<rparr>) }"

definition set_alarmin_device_attr :: "bytes \<Rightarrow> dev \<Rightarrow> dev option" where
  "set_alarmin_device_attr b d = do {
     s \<leftarrow> rd (sensors d) SENSOR_TYPE_IO_IN;
     (_, s) \<leftarrow> set_one_sensor_buf b 4 s;
     d \<leftarrow> upd_sensor SENSOR_TYPE_IO_IN s d;
     Some (config_save d) }"

definition make_ack_set_device_attr :: "dev \<Rightarrow> bytes \<Rightarrow> (nat \<times> bytes) option" where
  "make_ack_set_device_attr d b = do {
     b \<leftarrow> make_ack_head b PROTOCOL_ACK_SET_DEVICE_ATTR;
     s \<leftarrow> rd (sensors d) SENSOR_TYPE_IO_IN;
     (n, tmp) \<leftarrow> get_one_sensor_buf s 0 (zeros 100);
     let cnt = unat (of_nat n :: u8);
     t \<leftarrow> rds tmp 1 (cnt - 1);
     b \<leftarrow> wrs b 4 t;
     b \<leftarrow> wr b (4 + cnt - 1) (make_crc_num b (4 + cnt - 1));
     Some (4 + cnt, b) }"

definition make_ack_get_alarm_status :: "dev \<Rightarrow> bytes \<Rightarrow> bytes \<Rightarrow> (nat \<times> bytes) option" where
  "make_ack_get_alarm_status d alarm_in b = do {
     b \<leftarrow> make_ack_head b PROTOCOL_ACK_GET_ALARM_STATUS;
     s \<leftarrow> rd (sensors d) SENSOR_TYPE_IO_IN;
     b \<leftarrow> wr b 4 (sen_num s);
     let n = unat (sen_num s);
     b \<leftarrow> for_to n (\<lambda>j b. do {
            q \<leftarrow> rd (seq_num s) j; b \<leftarrow> wr b (5 + 2 * j) q;
            a \<leftarrow> rd alarm_in j; wr b (6 + 2 * j) a }) b;
     b \<leftarrow> wr b (5 + 2 * n) (make_crc_num b (5 + 2 * n));
     Some (5 + 2 * n + 1, b) }"

section \<open>Time and heartbeat\<close>

definition make_ack_set_time :: "bytes \<Rightarrow> (nat \<times> bytes) option" where
  "make_ack_set_time b = do {
     b \<leftarrow> make_ack_head b PROTOCOL_SET_TIME;
     b \<leftarrow> wr b 4 (make_crc_num b 4);
     Some (5, b) }"

definition make_get_time :: "bytes \<Rightarrow> (nat \<times> bytes) option" where
  "make_get_time b = do {
     b \<leftarrow> make_ack_head b PROTOCOL_GET_TIME;
     b \<leftarrow> wr b 4 (make_crc_num b 4);
     Some (5, b) }"

definition make_ack_set_heartbeat :: "u8 \<Rightarrow> bytes \<Rightarrow> (nat \<times> bytes) option" where
  "make_ack_set_heartbeat t b = do {
     b \<leftarrow> make_ack_head b PROTOCOL_ACK_SET_HEARTBEAT;
     b \<leftarrow> wr b 4 t;
     b \<leftarrow> wr b 5 (make_crc_num b 5);
     Some (6, b) }"

definition set_heartbeat :: "reconnect_flag \<Rightarrow> u8 \<Rightarrow> dev \<Rightarrow> dev" where
  "set_heartbeat status time d =
    (if status = HEARTBEAT_ONLINE
     then d\<lparr>g_reconnect_flag := HEARTBEAT_ONLINE, heartbeat_s := time, heartbeat_timeout := 0\<rparr>
     else if status = HEARTBEAT_OFFLINE
     then d\<lparr>g_reconnect_flag := HEARTBEAT_OFFLINE, heartbeat_s := time, heartbeat_timeout := 0\<rparr>
     else d)"

section \<open>Serial port attributes\<close>

definition make_ack_get_uart_qty :: "bytes \<Rightarrow> (nat \<times> bytes) option" where
  "make_ack_get_uart_qty b = do {
     b \<leftarrow> make_ack_head b PROTOCOL_ACK_UART_QTY;
     b \<leftarrow> wr b 4 (of_nat MAX_COM_PORT);
     b \<leftarrow> wr b 5 (make_crc_num b 5);
     Some (6, b) }"

definition RESET_MSB :: "u8 \<Rightarrow> u8" where "RESET_MSB v = v AND NOT 0x80"

definition calc_high_byte :: "u32 \<Rightarrow> u8" where "calc_high_byte x = ucast (x div 0x10000)"
definition calc_mid_byte :: "u32 \<Rightarrow> u8" where "calc_mid_byte x = ucast (x mod 0x10000 div 0x100)"
definition calc_low_byte :: "u32 \<Rightarrow> u8" where "calc_low_byte x = ucast (x mod 0x10000 mod 0x100)"

definition calc_baud_rate :: "u8 \<Rightarrow> u8 \<Rightarrow> u8 \<Rightarrow> u32" where
  "calc_baud_rate a b c = ucast a * 0x10000 + ucast b * 0x100 + ucast c"

definition return_local_odd_even :: "u8 \<Rightarrow> u8" where
  "return_local_odd_even r = (if r = 0 then 3 else if r = 1 then 2 else if r = 2 then 1 else -1)"

definition return_remote_odd_even :: "u8 \<Rightarrow> u8" where
  "return_remote_odd_even l = (if l = 3 then 0 else if l = 2 then 1 else if l = 1 then 2 else -1)"

definition SET_UART_ATTR_PASS :: u8 where "SET_UART_ATTR_PASS = 1"
definition SET_UART_ATTR_FAIL :: u8 where "SET_UART_ATTR_FAIL = 0"

definition is_good_uart :: "CONFIG_COM \<Rightarrow> u8" where
  "is_good_uart c =
    (if unat (bps c) \<notin> set baud_rates then SET_UART_ATTR_FAIL
     else if \<not> (5 \<le> dbit c \<and> dbit c \<le> 8) then SET_UART_ATTR_FAIL
     else if \<not> (chk c = 3 \<or> chk c = 2 \<or> chk c = 1) then SET_UART_ATTR_FAIL
     else if \<not> (sbit c = 1 \<or> sbit c = 2) then SET_UART_ATTR_FAIL
     else SET_UART_ATTR_PASS)"

text \<open>Eight bytes of the reply per port, the same stores in the one-port and the two-port branch.\<close>

definition put_uart_attr :: "CONFIG_SENSOR \<Rightarrow> CONFIG_COM list \<Rightarrow> nat \<Rightarrow> bytes \<Rightarrow> bytes option" where
  "put_uart_attr s coms j b = do {
     q \<leftarrow> rd (seq_num s) j;
     b \<leftarrow> wr b (5 + 8 * j) (RESET_MSB q);
     let com_index = RESET_MSB q - 1;
     a \<leftarrow> rd (sen_attr s) j;
     b \<leftarrow> wr b (6 + 8 * j) a;
     c \<leftarrow> rd coms (unat com_index);
     b \<leftarrow> wr b (7 + 8 * j) (calc_high_byte (bps c));
     b \<leftarrow> wr b (8 + 8 * j) (calc_mid_byte (bps c));
     b \<leftarrow> wr b (9 + 8 * j) (calc_low_byte (bps c));
     b \<leftarrow> wr b (10 + 8 * j) (dbit c);
     b \<leftarrow> wr b (11 + 8 * j) (ucast (sbit c));
     wr b (12 + 8 * j) (return_remote_odd_even (chk c)) }"

definition make_ack_get_uart_attr :: "dev \<Rightarrow> bytes \<Rightarrow> bytes \<Rightarrow> (nat \<times> bytes \<times> dev) option" where
  "make_ack_get_uart_attr d cmdbuf b = do {
     b \<leftarrow> make_ack_head b PROTOCOL_ACK_GET_UART_ATTR;
     s \<leftarrow> rd (sensors d) SENSOR_TYPE_UART;
     let d = d\<lparr>get_com_attr_max := take MAX_COM_PORT (con_com (g_conf_info d))\<rparr>;
     c4 \<leftarrow> rd cmdbuf 4;
     b \<leftarrow> wr b 4 c4;
     if sen_num s = 1 then do {
       b \<leftarrow> put_uart_attr s (get_com_attr_max d) 0 b;
       b \<leftarrow> wr b 13 (make_crc_num b 13);
       Some (14, b, d) }
     else if sen_num s = 2 then do {
       b \<leftarrow> for_to 2 (put_uart_attr s (get_com_attr_max d)) b;
       b \<leftarrow> wr b 21 (make_crc_num b 21);
       Some (22, b, d) }
     else do {
       b \<leftarrow> wrs b 5 (zeros 8);
       b \<leftarrow> wr b 13 (make_crc_num b 13);
       Some (14, b, d) } }"

text \<open>
  One element of \<open>make_ack_set_uart_attr\<close>: \<open>None\<close> inside the result is \<open>goto error\<close>, with the
  stores made so far in \<open>d\<close>. An accepted element is stored, saved and applied at once, before
  the next one is looked at.
\<close>

definition commit_uart :: "nat \<Rightarrow> u8 \<Rightarrow> CONFIG_COM \<Rightarrow> CONFIG_SENSOR \<Rightarrow> dev \<Rightarrow> bytes
    \<Rightarrow> ((CONFIG_SENSOR \<times> bytes) option \<times> dev) option" where
  "commit_uart j q c s d b = do {
     d \<leftarrow> (if com_id c = 0 then None else upd_com (unat (com_id c) - 1) c d);
     d \<leftarrow> upd_sensor SENSOR_TYPE_UART s d;
     d \<leftarrow> com_set c (config_save d);
     b \<leftarrow> wr b (5 + 2 * j) q;
     b \<leftarrow> wr b (6 + 2 * j) SET_UART_ATTR_PASS;
     Some (Some (s, b), d) }"

definition fill_uart :: "bytes \<Rightarrow> nat \<Rightarrow> CONFIG_COM \<Rightarrow> CONFIG_COM option" where
  "fill_uart cmdbuf j c = do {
     b7 \<leftarrow> rd cmdbuf (7 + 8 * j); b8 \<leftarrow> rd cmdbuf (8 + 8 * j); b9 \<leftarrow> rd cmdbuf (9 + 8 * j);
     b10 \<leftarrow> rd cmdbuf (10 + 8 * j); b11 \<leftarrow> rd cmdbuf (11 + 8 * j); b12 \<leftarrow> rd cmdbuf (12 + 8 * j);
     Some (c\<lparr>bps := calc_baud_rate b7 b8 b9, dbit := b10, sbit := ucast b11,
             chk := return_local_odd_even b12\<rparr>) }"

definition set_uart_elem :: "bytes \<Rightarrow> nat \<Rightarrow> CONFIG_SENSOR \<Rightarrow> dev \<Rightarrow> bytes
    \<Rightarrow> ((CONFIG_SENSOR \<times> bytes) option \<times> dev) option" where
  "set_uart_elem cmdbuf j s d b = do {
     q \<leftarrow> rd cmdbuf (5 + 8 * j);
     c \<leftarrow> rd (set_com_attr_max d) j;
     let c = c\<lparr>com_id := ucast (RESET_MSB q)\<rparr>;
     cs \<leftarrow> wr (set_com_attr_max d) j c;
     let d = d\<lparr>set_com_attr_max := cs\<rparr>;
     if com_id c > 2 then Some (None, d) else do {
       qs \<leftarrow> wr (seq_num s) j q;
       a \<leftarrow> rd cmdbuf (6 + 8 * j);
       as \<leftarrow> wr (sen_attr s) j a;
       let s = s\<lparr>seq_num := qs, sen_attr := as\<rparr>;
       c \<leftarrow> fill_uart cmdbuf j c;
       cs \<leftarrow> wr (set_com_attr_max d) j c;
       let d = d\<lparr>set_com_attr_max := cs\<rparr>;
       if is_good_uart c \<noteq> SET_UART_ATTR_PASS then Some (None, d) else commit_uart j q c s d b } }"

fun set_uart_loop :: "bytes \<Rightarrow> nat \<Rightarrow> nat \<Rightarrow> CONFIG_SENSOR \<Rightarrow> dev \<Rightarrow> bytes
    \<Rightarrow> ((CONFIG_SENSOR \<times> bytes) option \<times> dev) option" where
  "set_uart_loop cmdbuf j 0 s d b = Some (Some (s, b), d)"
| "set_uart_loop cmdbuf j (Suc n) s d b = do {
     (r, d) \<leftarrow> set_uart_elem cmdbuf j s d b;
     case r of None \<Rightarrow> Some (None, d) | Some (s, b) \<Rightarrow> set_uart_loop cmdbuf (Suc j) n s d b }"

text \<open>
  An element fails before it stores to the reply, and at most one element succeeded before it,
  which stored bytes 5 and 6; \<open>error:\<close> stores bytes 4 to 7. So the reply at \<open>error:\<close> does not
  depend on what the loop stored to it, and the model starts it from the head again.
\<close>

definition make_ack_set_uart_attr :: "dev \<Rightarrow> bytes \<Rightarrow> bytes \<Rightarrow> (nat \<times> bytes \<times> dev) option" where
  "make_ack_set_uart_attr d cmdbuf b = do {
     b \<leftarrow> make_ack_head b PROTOCOL_ACK_SET_UART_ATTR;
     s \<leftarrow> rd (sensors d) SENSOR_TYPE_UART;
     let d = d\<lparr>set_com_attr_max := con_com (g_conf_info d)\<rparr>;
     c4 \<leftarrow> rd cmdbuf 4;
     (r, d) \<leftarrow> (if 1 \<le> c4 \<and> unat c4 \<le> MAX_COM_PORT then do {
          let s = s\<lparr>sen_num := c4\<rparr>;
          b \<leftarrow> wr b 4 c4;
          set_uart_loop cmdbuf 0 (unat c4) s d b }
        else Some (None, d));
     case r of
       Some (_, b) \<Rightarrow> do {
         let n = unat c4;
         b \<leftarrow> wr b (5 + 2 * n) (make_crc_num b (5 + 2 * n));
         Some (5 + 2 * n + 1, b, d) }
     | None \<Rightarrow> do {
         b \<leftarrow> wr b 4 c4; b \<leftarrow> wr b 5 0; b \<leftarrow> wr b 6 SET_UART_ATTR_FAIL;
         b \<leftarrow> wr b 7 (make_crc_num b 7);
         Some (8, b, d) } }"

section \<open>Serial data\<close>

definition UART_RECV_BUF_SIZE :: nat where "UART_RECV_BUF_SIZE = 0x800"

definition make_ack_query_uart_sendbuf :: "dev \<Rightarrow> bytes \<Rightarrow> (nat \<times> bytes) option" where
  "make_ack_query_uart_sendbuf d b = do {
     b \<leftarrow> make_ack_head b PROTOCOL_ACK_QUERY_UART_SENDBUF;
     b \<leftarrow> wr b 4 (ucast (com_id (get_com_attr d) + 1));
     b \<leftarrow> wr b 5 0x08; b \<leftarrow> wr b 6 0;
     b \<leftarrow> wr b 7 (make_crc_num b 7);
     Some (8, b) }"

definition uart_send_data :: "bytes \<Rightarrow> dev \<Rightarrow> (int \<times> dev) option" where
  "uart_send_data b d = do {
     data \<leftarrow> rds b 7 (unat (g_uart_send_cnt d));
     (ret, d) \<leftarrow> SendNetDataToCom (unat (com_id (get_com_attr d))) data d;
     Some (if ret = -1 then 0 else ret, d) }"

definition put_u16 :: "nat \<Rightarrow> u16 \<Rightarrow> bytes \<Rightarrow> bytes option" where
  "put_u16 i v b = do {
     b \<leftarrow> wr b i (ucast (v div 0x100)); wr b (i + 1) (ucast (v mod 0x100)) }"

definition make_ack_uart_send_data :: "dev \<Rightarrow> bytes \<Rightarrow> (nat \<times> bytes \<times> dev) option" where
  "make_ack_uart_send_data d b = do {
     b \<leftarrow> make_ack_head b PROTOCOL_ACK_UART_SEND_DATA;
     let id = com_id (get_com_attr d);
     b \<leftarrow> wr b 4 (ucast (id + 1));
     (cnt, d) \<leftarrow> (if MAX_COM_PORT \<le> unat id \<or> g_uart_send_cnt d = 0 \<or> g_uart_send_cnt d > 0x800
        then Some (0, d)
        else do { (r, d) \<leftarrow> uart_send_data (cbuf d) d; Some (of_int r :: u16, d) });
     b \<leftarrow> put_u16 5 cnt b;
     b \<leftarrow> wr b 7 (make_crc_num b 7);
     Some (8, b, d) }"

text \<open>
  The reply to a query of received data. The port number comes from the global \<open>buf\<close>, the
  second port's reply copies as many bytes as the first port has.
\<close>

definition make_ack_query_uart_recv_data :: "dev \<Rightarrow> bytes \<Rightarrow> (nat \<times> bytes) option" where
  "make_ack_query_uart_recv_data d b = do {
     b \<leftarrow> make_ack_head b PROTOCOL_ACK_QUERY_UART_RECV_DATA;
     b4 \<leftarrow> rd (cbuf d) 4;
     let id = wire_id b4;
     b \<leftarrow> wr b 4 (ucast (id + 1));
     (recv_size, b) \<leftarrow>
       (if id = 0 then do {
          b \<leftarrow> put_u16 5 (uart1_cnt d) b;
          t \<leftarrow> rds (uart1_recv_buf d) 0 (unat (uart1_cnt d));
          b \<leftarrow> wrs b 7 t;
          Some (unat (uart1_cnt d), b) }
        else if id = 1 then do {
          b \<leftarrow> put_u16 5 (uart2_cnt d) b;
          t \<leftarrow> rds (uart2_recv_buf d) 0 (unat (uart1_cnt d));
          b \<leftarrow> wrs b 7 t;
          Some (unat (uart2_cnt d), b) }
        else do {
          b \<leftarrow> wrs b 5 [0, 0];
          Some (0, b) });
     b \<leftarrow> wr b (recv_size + 7) (make_crc_num b (recv_size + 7));
     Some (recv_size + 8, b) }"

text \<open>Buffering: the counter grows in any case, modulo 2^16; the second port stores at offset 0.\<close>

definition Protocol_SendComDataToNet_PollMode :: "nat \<Rightarrow> bytes \<Rightarrow> dev \<Rightarrow> dev option" where
  "Protocol_SendComDataToNet_PollMode n data d =
    (if n = 0 then do {
       let cnt1 = uart1_cnt d;
       let d = d\<lparr>uart1_cnt := uart1_cnt d + of_nat (length data)\<rparr>;
       if unat (uart1_cnt d) < UART_RECV_BUF_SIZE
       then do { b \<leftarrow> wrs (uart1_recv_buf d) (unat cnt1) data; Some (d\<lparr>uart1_recv_buf := b\<rparr>) }
       else Some d }
     else if n = 1 then do {
       let d = d\<lparr>uart2_cnt := uart2_cnt d + of_nat (length data)\<rparr>;
       if unat (uart2_cnt d) < UART_RECV_BUF_SIZE
       then do { b \<leftarrow> wrs (uart2_recv_buf d) 0 data; Some (d\<lparr>uart2_recv_buf := b\<rparr>) }
       else Some d }
     else Some d)"

text \<open>\<open>write (g_sockfd_client, buf_send, n)\<close>, whose result the callers only log.\<close>

definition client_write :: "nat \<Rightarrow> dev \<Rightarrow> dev option" where
  "client_write n d = do {
     t \<leftarrow> rds (cbuf_send d) 0 n;
     Some (emit (EvWrite (g_sockfd_client d) t) d) }"

definition Protocol_SendComDataToNet_IntMode :: "nat \<Rightarrow> bytes \<Rightarrow> dev \<Rightarrow> dev option" where
  "Protocol_SendComDataToNet_IntMode port data d = do {
     d \<leftarrow> Protocol_SendComDataToNet_PollMode port data d;
     (n, b) \<leftarrow> make_ack_query_uart_recv_data d (cbuf_send d);
     client_write n (d\<lparr>cbuf_send := b\<rparr>) }"

section \<open>Inputs, outputs, temperature\<close>

text \<open>What the handlers' uninitialised locals happen to hold.\<close>

record uninit =
  u_sensor :: CONFIG_SENSOR   \<comment> \<open>\<open>config_io_out\<close>, \<open>config_temp\<close>\<close>
  u_return :: nat             \<comment> \<open>the result of \<open>return;\<close> in an \<open>int\<close> function\<close>
  u_am2301 :: bytes           \<comment> \<open>\<open>am2301_buf\<close>, 30 bytes\<close>

definition IO_OUT_NUM :: nat where "IO_OUT_NUM = 4"
definition TEMP_NUM :: u8 where "TEMP_NUM = 1"

definition make_ack_get_io_num :: "bytes \<Rightarrow> (nat \<times> bytes) option" where
  "make_ack_get_io_num b = do {
     b \<leftarrow> make_ack_head b PROTOCOL_ACK_GET_IO_NUM;
     b \<leftarrow> wr b 4 (of_nat IO_OUT_NUM);
     b \<leftarrow> wr b 5 (make_crc_num b 5);
     Some (6, b) }"

definition output_line :: "u8 \<Rightarrow> gpio_num option" where
  "output_line q = (if q = 1 then Some OUTPUT_1 else if q = 2 then Some OUTPUT_2
     else if q = 3 then Some OUTPUT_3 else if q = 4 then Some OUTPUT_4 else None)"

text \<open>The guard \<open>num == 0 && num > IO_OUT_NUM\<close> never holds.\<close>

definition set_io_out :: "uninit \<Rightarrow> bytes \<Rightarrow> dev \<Rightarrow> dev option" where
  "set_io_out u cmdbuf d = do {
     n \<leftarrow> rd cmdbuf 4;
     let s = (u_sensor u)\<lparr>sen_type := of_nat SENSOR_TYPE_IO_OUT, sen_num := n\<rparr>;
     if n = 0 \<and> unat n > IO_OUT_NUM then Some d else do {
       (s, d) \<leftarrow> for_to (unat n) (\<lambda>j (s, d). do {
           q \<leftarrow> rd cmdbuf (5 + 3 * j); qs \<leftarrow> wr (seq_num s) j q;
           a \<leftarrow> rd cmdbuf (6 + 3 * j); as \<leftarrow> wr (sen_attr s) j a;
           let s = s\<lparr>seq_num := qs, sen_attr := as\<rparr>;
           case output_line q of None \<Rightarrow> Some (s, d)
           | Some line \<Rightarrow> do {
               v \<leftarrow> rd cmdbuf (7 + 3 * j);
               Some (s, snd (set_gpio line (unat v) d)) } }) (s, d);
       d \<leftarrow> upd_sensor SENSOR_TYPE_IO_OUT s d;
       Some (config_save d) } }"

definition make_ack_get_io_status :: "uninit \<Rightarrow> dev \<Rightarrow> bytes \<Rightarrow> bytes \<Rightarrow> (nat \<times> bytes) option" where
  "make_ack_get_io_status u d cmdbuf b = do {
     b \<leftarrow> make_ack_head b PROTOCOL_ACK_GET_IO_STATUS;
     n \<leftarrow> rd cmdbuf 4;
     b \<leftarrow> wr b 4 n;
     if n = 0 \<or> unat n > IO_OUT_NUM then Some (u_return u, b) else do {
       (_, b) \<leftarrow> for_to (unat n) (\<lambda>j (gs, b). do {
           q \<leftarrow> rd cmdbuf (5 + j);
           b \<leftarrow> wr b (5 + 2 * j) q;
           case output_line q of
             None \<Rightarrow> do { b \<leftarrow> wr b (6 + 2 * j) 0xff; Some (gs, b) }
           | Some line \<Rightarrow> do {
               let (_, gs) = get_gpio line gs d;
               b \<leftarrow> wr b (6 + 2 * j) (ucast gs);
               Some (gs, b) } }) (GS_LOW, b);
       b \<leftarrow> wr b (5 + 2 * unat n) (make_crc_num b (5 + 2 * unat n));
       Some (5 + 2 * unat n + 1, b) } }"

definition make_ack_get_temp_num :: "bytes \<Rightarrow> (nat \<times> bytes) option" where
  "make_ack_get_temp_num b = do {
     b \<leftarrow> make_ack_head b PROTOCOL_ACK_GET_TEMP_NUM;
     b \<leftarrow> wr b 4 TEMP_NUM;
     b \<leftarrow> wr b 5 (make_crc_num b 5);
     Some (6, b) }"

definition set_temp :: "uninit \<Rightarrow> bytes \<Rightarrow> dev \<Rightarrow> dev option" where
  "set_temp u cmdbuf d = do {
     n \<leftarrow> rd cmdbuf 4;
     let s = (u_sensor u)\<lparr>sen_type := of_nat SENSOR_TYPE_SINGLE_BUS, sen_num := n\<rparr>;
     if n = 0 \<and> n > TEMP_NUM then Some d else do {
       q \<leftarrow> rd cmdbuf 5; qs \<leftarrow> wr (seq_num s) 0 q;
       a \<leftarrow> rd cmdbuf 6; as \<leftarrow> wr (sen_attr s) 0 a;
       d \<leftarrow> upd_sensor SENSOR_TYPE_SINGLE_BUS (s\<lparr>seq_num := qs, sen_attr := as\<rparr>) d;
       Some (config_save d) } }"

text \<open>Three characters of the sensor's text as tenths: \<open>(c1 - '0') * 100 + (c2 - '0') * 10 + (c3 - '0')\<close>.\<close>

definition ascii_tenths :: "u8 \<Rightarrow> u8 \<Rightarrow> u8 \<Rightarrow> u16" where
  "ascii_tenths a b c = of_int ((uint a - 0x30) * 100 + (uint b - 0x30) * 10 + (uint c - 0x30))"

definition make_ack_get_temp_status :: "uninit \<Rightarrow> dev \<Rightarrow> bytes \<Rightarrow> (nat \<times> bytes) option" where
  "make_ack_get_temp_status u d b = do {
     p \<leftarrow> get_sensor (u_am2301 u) d;
     h100 \<leftarrow> rd p 7; h10 \<leftarrow> rd p 8; h1 \<leftarrow> rd p 10;
     t100 \<leftarrow> rd p 0; t10 \<leftarrow> rd p 1; t1 \<leftarrow> rd p 3;
     let hum = ascii_tenths h100 h10 h1;
     let temp = ascii_tenths t100 t10 t1;
     b \<leftarrow> make_ack_head b PROTOCOL_ACK_GET_TEMP_STATUS;
     b \<leftarrow> wr b 4 TEMP_NUM; b \<leftarrow> wr b 5 TEMP_NUM;
     b \<leftarrow> put_u16 6 hum b;
     b \<leftarrow> put_u16 8 temp b;
     b \<leftarrow> wr b 10 (make_crc_num b 10);
     Some (11, b) }"

section \<open>Dispatch\<close>

text \<open>Send what a builder made: the buffer is \<open>buf_send\<close>, the descriptor the server's.\<close>

definition reply :: "dev \<Rightarrow> (nat \<times> bytes) option \<Rightarrow> dev option" where
  "reply d r = do { (n, b) \<leftarrow> r; client_write n (d\<lparr>cbuf_send := b\<rparr>) }"

definition reply_dev :: "(nat \<times> bytes \<times> dev) option \<Rightarrow> dev option" where
  "reply_dev r = do { (n, b, d) \<leftarrow> r; client_write n (d\<lparr>cbuf_send := b\<rparr>) }"

definition checked :: "int option \<Rightarrow> dev \<Rightarrow> dev option \<Rightarrow> dev option" where
  "checked c d act = do { r \<leftarrow> c; if r = 0 then act else Some d }"

text \<open>The \<open>switch (buf[2])\<close> of \<open>client_process\<close>; \<open>num\<close> is \<open>num_read_from_socket\<close> as a byte.\<close>

definition client_dispatch :: "uninit \<Rightarrow> u8 \<Rightarrow> dev \<Rightarrow> dev option" where
  "client_dispatch u num d = do {
     let buf = cbuf d;
     let out = cbuf_send d;
     c \<leftarrow> rd buf 2;
     if c = proto_code PROTOCOL_GET_DEVICE_ATTR then
       checked (check_for_get_device_attr buf num) d (reply d (make_ack_get_device_attr d out))
     else if c = proto_code PROTOCOL_SET_DEVICE_ATTR then
       checked (check_for_set_device_attr buf num) d (do {
         d \<leftarrow> set_alarmin_device_attr buf d;
         reply d (make_ack_set_device_attr d out) })
     else if c = proto_code PROTOCOL_GET_ALARM_STATUS then
       checked (check_for_get_alarm_status buf num) d
         (reply d (make_ack_get_alarm_status d (g_alarm_in d) out))
     else if c = proto_code PROTOCOL_GET_TIME then Some d
     else if c = proto_code PROTOCOL_SET_TIME then
       checked (check_for_set_time buf num) d (reply d (make_ack_set_time out))
     else if c = proto_code PROTOCOL_SET_HEARTBEAT then do {
       (r, d) \<leftarrow> check_for_set_heartbeat buf num d;
       checked (Some r) d (do {
         d \<leftarrow> reply d (make_ack_set_heartbeat (heartbeat_s d) out);
         b4 \<leftarrow> rd buf 4;
         Some (led_ctrl LED_D3_ALARM_SERVER_STATUS LED_ON (set_heartbeat HEARTBEAT_ONLINE b4 d)) }) }
     else if c = proto_code PROTOCOL_GET_UART_QTY then
       checked (check_for_get_uart_qty buf num) d (reply d (make_ack_get_uart_qty out))
     else if c = proto_code PROTOCOL_GET_UART_ATTR then
       checked (check_for_get_uart_attr buf num) d (reply_dev (make_ack_get_uart_attr d buf out))
     else if c = proto_code PROTOCOL_SET_UART_ATTR then
       checked (check_for_set_uart_attr buf num) d (reply_dev (make_ack_set_uart_attr d buf out))
     else if c = proto_code PROTOCOL_QUERY_UART_SENDBUF then do {
       (r, d) \<leftarrow> check_for_query_uart_sendbuf buf num d;
       checked (Some r) d (reply d (make_ack_query_uart_sendbuf d out)) }
     else if c = proto_code PROTOCOL_UART_SEND_DATA then do {
       (r, d) \<leftarrow> check_for_uart_send_data buf num d;
       checked (Some r) d (reply_dev (make_ack_uart_send_data d out)) }
     else if c = proto_code PROTOCOL_SET_UART_RECV_ATTR then do {
       (_, d) \<leftarrow> check_for_set_uart_recv_attr buf num d;
       Some d }
     else if c = proto_code PROTOCOL_QUERY_UART_RECV_DATA then
       checked (check_for_query_uart_recv_data buf num) d (reply d (make_ack_query_uart_recv_data d out))
     else if c = proto_code PROTOCOL_GET_IO_NUM then
       checked (check_for_get_io_num buf num) d (reply d (make_ack_get_io_num out))
     else if c = proto_code PROTOCOL_SET_IO then
       checked (check_for_set_io buf num) d (set_io_out u buf d)
     else if c = proto_code PROTOCOL_GET_IO_STATUS then
       checked (check_for_get_io_status buf num) d (reply d (make_ack_get_io_status u d buf out))
     else if c = proto_code PROTOCOL_GET_TEMP_NUM then
       checked (check_for_get_temp_num buf num) d (reply d (make_ack_get_temp_num out))
     else if c = proto_code PROTOCOL_SET_TEMP then set_temp u buf d
     else if c = proto_code PROTOCOL_GET_TEMP_STATUS then
       checked (check_for_get_temp_status buf num) d (reply d (make_ack_get_temp_status u d out))
     else Some d }"

end
