(* ===== verification/Client_Facts.thy ===== *)
theory Client_Facts
  imports Client
begin

text \<open>
  What the commands of the alarm-server protocol do: the exact bytes of every reply, what each
  command changes, and that the dispatcher keeps the device well formed. A reply is always a
  \<open>frame\<close>: the head, the body and the checksum byte, which is 0.
\<close>

definition frame :: "protocol_id \<Rightarrow> bytes \<Rightarrow> bytes" where
  "frame pid body = [PROTOCOL_HEAD_1, PROTOCOL_HEAD_2, proto_code pid, ALARM_DEVICE_ID] @ body @ [0]"

lemma length_frame [simp]: "length (frame pid body) = 5 + length body"
  by (simp add: frame_def)

section \<open>Checks\<close>

definition is_cmd :: "protocol_id \<Rightarrow> bytes \<Rightarrow> bool" where
  "is_cmd pid b \<longleftrightarrow> take 4 b = [PROTOCOL_HEAD_1, PROTOCOL_HEAD_2, proto_code pid, ALARM_DEVICE_ID]"

lemma len4: "4 \<le> length b \<Longrightarrow> \<exists>x0 x1 x2 x3 r. b = x0 # x1 # x2 # x3 # r"
  by (auto simp: numeral_eq_Suc Suc_le_length_iff)

lemma check_protocol_head_eq:
  assumes "4 \<le> length b"
  shows "check_protocol_head b (proto_code pid) = Some (if is_cmd pid b then 0 else -1)"
  using len4 [OF assms]
  by (auto simp: check_protocol_head_def check_head_def mem_simps is_cmd_def)

lemma check_cmd_eq:
  "4 \<le> length b \<Longrightarrow> check_cmd least pid b num = Some
     (if num < least then check_code ERROR_NUM_IS_NOT_ENOUGH
      else if is_cmd pid b then 0 else check_code ERROR_HEAD_OR_DEVICE_ID)"
  by (simp add: check_cmd_def check_protocol_head_eq check_for_crc_def)

lemmas check_defs =
  check_for_get_device_attr_def check_for_set_device_attr_def check_for_get_alarm_status_def
  check_for_set_time_def check_for_get_uart_qty_def check_for_get_uart_attr_def
  check_for_set_uart_attr_def check_for_query_uart_recv_data_def check_for_get_io_num_def
  check_for_set_io_def check_for_get_io_status_def check_for_get_temp_num_def
  check_for_get_temp_status_def

section \<open>Loops that fill a message\<close>

lemma for_from_filled:
  assumes "\<And>j pre. k \<le> j \<Longrightarrow> j < k + n \<Longrightarrow> length pre = base + w * j \<Longrightarrow>
      body j (filled pre b) = Some (filled (pre @ g j) b)"
    and "\<And>j. k \<le> j \<Longrightarrow> j < k + n \<Longrightarrow> length (g j) = w"
    and "length pre = base + w * k"
  shows "for_from k n body (filled pre b) = Some (filled (pre @ concat (map g [k ..< k + n])) b)"
  using assms
proof (induction n arbitrary: k pre)
  case 0
  then show ?case by simp
next
  case (Suc n)
  have "body k (filled pre b) = Some (filled (pre @ g k) b)" using Suc.prems by simp
  moreover have "for_from (Suc k) n body (filled (pre @ g k) b)
      = Some (filled ((pre @ g k) @ concat (map g [Suc k ..< Suc k + n])) b)"
    using Suc.prems by (intro Suc.IH) auto
  moreover have "[k ..< k + Suc n] = k # [Suc k ..< Suc k + n]" by (simp add: upt_rec)
  ultimately show ?case by simp
qed

lemma for_from_inv:
  assumes "for_from k n body s = Some s'" "P s"
    and "\<And>j s s'. body j s = Some s' \<Longrightarrow> P s \<Longrightarrow> P s'"
  shows "P s'"
  using assms(1,2)
proof (induction n arbitrary: k s)
  case (Suc n)
  then obtain t where "body k s = Some t" "for_from (Suc k) n body t = Some s'"
    by (auto simp: bind_eq_Some_conv)
  with Suc assms(3) show ?case by blast
qed simp

lemma for_from_Some:
  assumes "\<And>j s. k \<le> j \<Longrightarrow> j < k + n \<Longrightarrow> P s \<Longrightarrow> \<exists>s'. body j s = Some s' \<and> P s'" "P s"
  shows "\<exists>s'. for_from k n body s = Some s' \<and> P s'"
  using assms
proof (induction n arbitrary: k s)
  case (Suc n)
  then obtain t where "body k s = Some t" "P t" by force
  with Suc.IH [of "Suc k" t] Suc.prems show ?case by auto
qed simp

lemma length_concat_pairs [simp]: "length (concat (map (\<lambda>j. [f j, g j]) xs)) = 2 * length xs"
  by (induction xs) auto

section \<open>Builders\<close>

lemma make_ack_head_eq [ack_simps]:
  assumes "4 \<le> length b"
  shows "make_ack_head b pid
     = Some (filled [PROTOCOL_HEAD_1, PROTOCOL_HEAD_2, proto_code pid, ALARM_DEVICE_ID] b)"
  using len4 [OF assms] by (auto simp: make_ack_head_def ack_simps)

text \<open>A sensor group as the protocol lists it.\<close>

definition sensor_pairs :: "CONFIG_SENSOR \<Rightarrow> bytes" where
  "sensor_pairs s = (if sen_num s = 0 then [0, 0]
     else concat (map (\<lambda>j. [seq_num s ! j, sen_attr s ! j]) [0 ..< unat (sen_num s)]))"

definition sensor_bytes :: "CONFIG_SENSOR \<Rightarrow> bytes" where
  "sensor_bytes s = [ucast (sen_type s), sen_num s] @ sensor_pairs s"

text \<open>What every reader of a sensor group needs: the count fits the arrays.\<close>

definition sensor_ok :: "CONFIG_SENSOR \<Rightarrow> bool" where
  "sensor_ok s \<longleftrightarrow> ok_CONFIG_SENSOR s \<and> unat (sen_num s) \<le> SINGLE_SENSOR_MAX_NUM"

lemma sensor_okD: "sensor_ok s \<Longrightarrow> length (seq_num s) = 8 \<and> length (sen_attr s) = 8 \<and> unat (sen_num s) \<le> 8"
  by (simp add: sensor_ok_def ok_CONFIG_SENSOR_def SINGLE_SENSOR_MAX_NUM_def)

lemma length_sensor_bytes: "sensor_ok s \<Longrightarrow> length (sensor_bytes s) = (if sen_num s = 0 then 4 else 2 + 2 * unat (sen_num s))"
  by (simp add: sensor_bytes_def sensor_pairs_def)

lemma length_sensor_bytes_le: "sensor_ok s \<Longrightarrow> 4 \<le> length (sensor_bytes s) \<and> length (sensor_bytes s) \<le> 18"
  using sensor_okD [of s] unat_gt_0 [of "sen_num s"] by (auto simp: length_sensor_bytes)

lemma get_one_sensor_buf_eq [ack_simps]:
  assumes "sensor_ok s" "off = length pre" "off + length (sensor_bytes s) \<le> length b"
  shows "get_one_sensor_buf s off (filled pre b)
     = Some (length (sensor_bytes s), filled (pre @ sensor_bytes s) b)"
proof (cases "sen_num s = 0")
  case True
  with assms show ?thesis
    by (simp add: get_one_sensor_buf_def ack_simps sensor_bytes_def sensor_pairs_def)
next
  case False
  let ?n = "unat (sen_num s)"
  let ?body = "\<lambda>j b. do { q \<leftarrow> rd (seq_num s) j; b \<leftarrow> wr b (off + 2 + 2 * j) q;
              a \<leftarrow> rd (sen_attr s) j; wr b (off + 3 + 2 * j) a }"
  note s = sensor_okD [OF assms(1)]
  have l: "off + 2 + 2 * ?n \<le> length b" using assms False by (simp add: length_sensor_bytes)
  have "for_from 0 ?n ?body (filled (pre @ [ucast (sen_type s), sen_num s]) b)
      = Some (filled ((pre @ [ucast (sen_type s), sen_num s]) @
          concat (map (\<lambda>j. [seq_num s ! j, sen_attr s ! j]) [0 ..< 0 + ?n])) b)"
    by (rule for_from_filled [where base = "off + 2" and w = 2])
      (use s l assms(2) in \<open>simp_all add: rd_in ack_simps\<close>)
  with False assms l show ?thesis
    by (simp add: get_one_sensor_buf_def ack_simps sensor_bytes_def sensor_pairs_def)
qed

definition sensors_ok :: "dev \<Rightarrow> bool" where
  "sensors_ok d \<longleftrightarrow> length (sensors d) = 4 \<and> (\<forall>s \<in> set (sensors d). sensor_ok s)"

definition all_sensor_bytes :: "dev \<Rightarrow> bytes" where
  "all_sensor_bytes d = concat (map sensor_bytes (sensors d))"

lemma sensors_ok_cases:
  assumes "sensors_ok d"
  obtains a b c e where "sensors d = [a, b, c, e]" "sensor_ok a" "sensor_ok b" "sensor_ok c" "sensor_ok e"
  using assms by (auto simp: sensors_ok_def numeral_eq_Suc length_Suc_conv)

lemma length_all_sensor_bytes: "sensors_ok d \<Longrightarrow> length (all_sensor_bytes d) \<le> 72"
  by (erule sensors_ok_cases) (auto simp: all_sensor_bytes_def dest!: length_sensor_bytes_le)

lemma get_all_sensor_buf_eq [ack_simps]:
  assumes "sensors_ok d" "off = length pre" "off + length (all_sensor_bytes d) \<le> length b"
  shows "get_all_sensor_buf d off (filled pre b)
     = Some (length (all_sensor_bytes d), filled (pre @ all_sensor_bytes d) b)"
  using assms(1)
proof (rule sensors_ok_cases)
  fix s0 s1 s2 s3
  assume "sensors d = [s0, s1, s2, s3]" "sensor_ok s0" "sensor_ok s1" "sensor_ok s2" "sensor_ok s3"
  with assms(2,3) show ?thesis
    by (simp add: get_all_sensor_buf_def sensor_types rd_in ack_simps all_sensor_bytes_def)
qed

lemma wr_filled_same:
  "i < length pre \<Longrightarrow> pre ! i = v \<Longrightarrow> wr (filled pre b) i v = Some (filled pre b)"
  by (simp add: wr_filled_inside list_update_same_conv [THEN iffD2])

lemma make_ack_get_device_attr_eq:
  assumes "sensors_ok d" "length b = 1024"
  shows "make_ack_get_device_attr d b =
    (let f = frame PROTOCOL_ACK_GET_DEVICE_ATTR (4 # all_sensor_bytes d)
     in Some (length f, filled f b))"
  using assms length_all_sensor_bytes [OF assms(1)]
  by (simp add: make_ack_get_device_attr_def ack_simps SENSOR_TYPE_NUM_def make_crc_num_def frame_def
      wr_filled_same nth_append nth_Cons')

lemma make_ack_set_device_attr_eq:
  assumes "sensors_ok d" "length b = 1024"
  shows "make_ack_set_device_attr d b =
    (let s = sensors d ! SENSOR_TYPE_IO_IN;
         f = frame PROTOCOL_ACK_SET_DEVICE_ATTR (sen_num s # sensor_pairs s)
     in Some (length f, filled f b))"
  using assms(1)
proof (rule sensors_ok_cases)
  fix s0 s1 s2 s3
  assume s: "sensors d = [s0, s1, s2, s3]" "sensor_ok s1"
  note l = length_sensor_bytes_le [OF s(2)]
  have g: "get_one_sensor_buf s1 0 (zeros 100)
      = Some (length (sensor_bytes s1), filled (sensor_bytes s1) (zeros 100))"
    using get_one_sensor_buf_eq [OF s(2), of 0 "[]" "zeros 100"] l by (simp add: ack_simps)
  have u: "unat (of_nat (length (sensor_bytes s1)) :: u8) = length (sensor_bytes s1)"
    using l by (simp add: unat_of_nat take_bit_nat_eq_self)
  have p: "sensor_bytes s1 = ucast (sen_type s1) # sen_num s1 # sensor_pairs s1"
    by (simp add: sensor_bytes_def)
  have r: "rds (filled (sen_type s1 # sen_num s1 # sensor_pairs s1) (zeros 100)) (Suc 0)
      (Suc (length (sensor_pairs s1))) = Some (sen_num s1 # sensor_pairs s1)"
    using l by (simp add: rds_def filled_def p)
  show ?thesis
    using assms(2) s(1) l
    by (simp add: make_ack_set_device_attr_def ack_simps sensor_types rd_in g u make_crc_num_def frame_def)
      (simp add: p r ack_simps)
qed

text \<open>The alarm inputs as the reply lists them: sequence number, level.\<close>

definition alarm_pairs :: "CONFIG_SENSOR \<Rightarrow> bytes \<Rightarrow> bytes" where
  "alarm_pairs s a = concat (map (\<lambda>j. [seq_num s ! j, a ! j]) [0 ..< unat (sen_num s)])"

lemma make_ack_get_alarm_status_eq:
  assumes "sensors_ok d" "length b = 1024" "length a = 8"
  shows "make_ack_get_alarm_status d a b =
    (let s = sensors d ! SENSOR_TYPE_IO_IN;
         f = frame PROTOCOL_ACK_GET_ALARM_STATUS (sen_num s # alarm_pairs s a)
     in Some (length f, filled f b))"
  using assms(1)
proof (rule sensors_ok_cases)
  fix s0 s1 s2 s3
  assume s: "sensors d = [s0, s1, s2, s3]" "sensor_ok s1"
  note l = sensor_okD [OF s(2)]
  let ?n = "unat (sen_num s1)"
  let ?pre = "[PROTOCOL_HEAD_1, PROTOCOL_HEAD_2, proto_code PROTOCOL_ACK_GET_ALARM_STATUS,
      ALARM_DEVICE_ID, sen_num s1]"
  have "for_to ?n (\<lambda>j b. do { q \<leftarrow> rd (seq_num s1) j; b \<leftarrow> wr b (5 + 2 * j) q;
            v \<leftarrow> rd a j; wr b (6 + 2 * j) v }) (filled ?pre b)
      = Some (filled (?pre @ concat (map (\<lambda>j. [seq_num s1 ! j, a ! j]) [0 ..< 0 + ?n])) b)"
    by (rule for_from_filled [where base = 5 and w = 2])
      (use l assms in \<open>simp_all add: rd_in ack_simps\<close>)
  then show ?thesis
    using assms s(1) l
    by (simp add: make_ack_get_alarm_status_def ack_simps sensor_types rd_in make_crc_num_def frame_def
        alarm_pairs_def Let_def)
qed

lemma fixed_reply_eqs:
  assumes "length b = 1024"
  shows "make_ack_set_time b = Some (5, filled (frame PROTOCOL_SET_TIME []) b)"
    "make_get_time b = Some (5, filled (frame PROTOCOL_GET_TIME []) b)"
    "make_ack_set_heartbeat t b = Some (6, filled (frame PROTOCOL_ACK_SET_HEARTBEAT [t]) b)"
    "make_ack_get_uart_qty b = Some (6, filled (frame PROTOCOL_ACK_UART_QTY [2]) b)"
    "make_ack_get_io_num b = Some (6, filled (frame PROTOCOL_ACK_GET_IO_NUM [4]) b)"
    "make_ack_get_temp_num b = Some (6, filled (frame PROTOCOL_ACK_GET_TEMP_NUM [1]) b)"
    "make_ack_query_uart_sendbuf d b =
       Some (8, filled (frame PROTOCOL_ACK_QUERY_UART_SENDBUF [ucast (com_id (get_com_attr d) + 1), 8, 0]) b)"
  using assms
  by (simp_all add: make_ack_set_time_def make_get_time_def make_ack_set_heartbeat_def
      make_ack_get_uart_qty_def make_ack_get_io_num_def make_ack_get_temp_num_def
      make_ack_query_uart_sendbuf_def ack_simps make_crc_num_def frame_def MAX_COM_PORT_def
      IO_OUT_NUM_def TEMP_NUM_def)

section \<open>Sending\<close>

definition sent :: "bytes \<Rightarrow> dev \<Rightarrow> dev" where
  "sent f d = emit (EvWrite (g_sockfd_client d) f) (d\<lparr>cbuf_send := filled f (cbuf_send d)\<rparr>)"

lemma client_write_filled:
  "length f \<le> length b \<Longrightarrow> n = length f \<Longrightarrow>
     client_write n (d\<lparr>cbuf_send := filled f b\<rparr>)
       = Some (emit (EvWrite (g_sockfd_client d) f) (d\<lparr>cbuf_send := filled f b\<rparr>))"
  by (simp add: client_write_def ack_simps)

lemma reply_sent:
  "r = Some (n, filled f (cbuf_send d)) \<Longrightarrow> n = length f \<Longrightarrow> length f \<le> 1024 \<Longrightarrow>
     length (cbuf_send d) = 1024 \<Longrightarrow> reply d r = Some (sent f d)"
  by (simp add: reply_def client_write_filled sent_def)

lemma sent_fields [simp]:
  "g_conf_info (sent f d) = g_conf_info d" "trace (sent f d) = trace d @ [EvWrite (g_sockfd_client d) f]"
  "cbuf (sent f d) = cbuf d" "flash (sent f d) = flash d" "flash_writable (sent f d) = flash_writable d"
  "g_sockfd_client (sent f d) = g_sockfd_client d" "tty_attr (sent f d) = tty_attr d"
  "gcomfd (sent f d) = gcomfd d" "pins (sent f d) = pins d" "heartbeat_s (sent f d) = heartbeat_s d"
  "heartbeat_timeout (sent f d) = heartbeat_timeout d" "g_reconnect_flag (sent f d) = g_reconnect_flag d"
  "uart1_cnt (sent f d) = uart1_cnt d" "uart1_recv_buf (sent f d) = uart1_recv_buf d"
  "uart2_cnt (sent f d) = uart2_cnt d" "uart2_recv_buf (sent f d) = uart2_recv_buf d"
  "rs_type (sent f d) = rs_type d" "am2301 (sent f d) = am2301 d" "g_alarm_in (sent f d) = g_alarm_in d"
  by (simp_all add: sent_def)

lemma ok_dev_sent: "ok_dev d \<Longrightarrow> length f \<le> 1024 \<Longrightarrow> ok_dev (sent f d)"
  by (simp add: sent_def ok_dev_def length_filled)

lemma ok_dev_bufs: "ok_dev d \<Longrightarrow> length (cbuf d) = 2097152 \<and> length (cbuf_send d) = 1024"
  by (simp add: ok_dev_def)

lemma is_cmd_rd: "is_cmd pid b \<Longrightarrow> 4 \<le> length b \<Longrightarrow> rd b 2 = Some (proto_code pid)"
  using len4 [of b] by (auto simp: is_cmd_def rd_def)

section \<open>Baud rates on the wire\<close>

lemma unat_calc_baud_rate:
  "unat (calc_baud_rate a b c) = unat a * 65536 + unat b * 256 + unat c"
proof -
  have "unat a < 256" "unat b < 256" "unat c < 256"
    using unsigned_less [of a] unsigned_less [of b] unsigned_less [of c] by simp_all
  then show ?thesis
    by (simp add: calc_baud_rate_def unat_word_ariths unsigned_ucast_eq take_bit_eq_mod)
qed

lemma baud_bytes:
  "calc_high_byte (calc_baud_rate a b c) = a" "calc_mid_byte (calc_baud_rate a b c) = b"
  "calc_low_byte (calc_baud_rate a b c) = c"
proof -
  have l: "unat a < 256" "unat b < 256" "unat c < 256"
    using unsigned_less [of a] unsigned_less [of b] unsigned_less [of c] by simp_all
  have m: "(unat a * 65536 + unat b * 256 + unat c) mod 65536 = unat b * 256 + unat c"
    using l by (simp only: add.assoc mod_mult_self3) simp
  show "calc_high_byte (calc_baud_rate a b c) = a"
    by (rule word_unat_eq_iff [THEN iffD2])
      (use l in \<open>simp add: calc_high_byte_def unsigned_ucast_eq take_bit_eq_mod unat_div unat_calc_baud_rate\<close>)
  show "calc_mid_byte (calc_baud_rate a b c) = b"
    by (rule word_unat_eq_iff [THEN iffD2])
      (use l in \<open>simp add: calc_mid_byte_def m unsigned_ucast_eq take_bit_eq_mod unat_div unat_mod unat_calc_baud_rate\<close>)
  show "calc_low_byte (calc_baud_rate a b c) = c"
    by (rule word_unat_eq_iff [THEN iffD2])
      (use l in \<open>simp add: calc_low_byte_def m unsigned_ucast_eq take_bit_eq_mod unat_div unat_mod unat_calc_baud_rate\<close>)
qed

section \<open>Reading the port attributes\<close>

text \<open>The eight bytes of one port in the reply.\<close>

definition com_wire :: "CONFIG_COM \<Rightarrow> bytes" where
  "com_wire c = [calc_high_byte (bps c), calc_mid_byte (bps c), calc_low_byte (bps c), dbit c,
     ucast (sbit c), return_remote_odd_even (chk c)]"

definition port_index :: "CONFIG_SENSOR \<Rightarrow> nat \<Rightarrow> nat" where
  "port_index s j = unat (RESET_MSB (seq_num s ! j) - 1)"

definition uart_entry :: "CONFIG_SENSOR \<Rightarrow> CONFIG_COM list \<Rightarrow> nat \<Rightarrow> bytes" where
  "uart_entry s coms j = RESET_MSB (seq_num s ! j) # (sen_attr s ! j) # com_wire (coms ! port_index s j)"

lemma length_uart_entry [simp]: "length (uart_entry s coms j) = 8"
  by (simp add: uart_entry_def com_wire_def)

lemma put_uart_attr_eq:
  assumes "ok_CONFIG_SENSOR s" "j < 8" "port_index s j < length coms"
    and "length pre = 5 + 8 * j" "13 + 8 * j \<le> length b"
  shows "put_uart_attr s coms j (filled pre b) = Some (filled (pre @ uart_entry s coms j) b)"
  using assms
  by (simp add: put_uart_attr_def ok_CONFIG_SENSOR_def rd_in ack_simps uart_entry_def com_wire_def
      port_index_def Let_def)

text \<open>The UART group names one or two existing ports.\<close>

definition uart_ok :: "dev \<Rightarrow> bool" where
  "uart_ok d \<longleftrightarrow> (let s = sensors d ! SENSOR_TYPE_UART in
     (sen_num s = 1 \<or> sen_num s = 2) \<and> (\<forall>j < unat (sen_num s). port_index s j < 2))"

definition uart_attr_frame :: "dev \<Rightarrow> u8 \<Rightarrow> bytes" where
  "uart_attr_frame d c4 = (let s = sensors d ! SENSOR_TYPE_UART in
     frame PROTOCOL_ACK_GET_UART_ATTR
       (c4 # concat (map (uart_entry s (con_com (g_conf_info d))) [0 ..< unat (sen_num s)])))"

lemma ok_dev_sensor: "ok_dev d \<Longrightarrow> i < 4 \<Longrightarrow> ok_CONFIG_SENSOR (sensors d ! i) \<and> length (sensors d) = 4"
  by (auto simp: ok_dev_def ok_CONFI_DATA_def list_all_length)

lemma ok_dev_com: "ok_dev d \<Longrightarrow> length (con_com (g_conf_info d)) = 2"
  by (auto simp: ok_dev_def ok_CONFI_DATA_def)

lemma make_ack_get_uart_attr_eq:
  assumes d: "ok_dev d" "uart_ok d" and b: "length b = 1024" and c: "rd cmdbuf 4 = Some c4"
  shows "make_ack_get_uart_attr d cmdbuf b =
    Some (length (uart_attr_frame d c4), filled (uart_attr_frame d c4) b,
      d\<lparr>get_com_attr_max := con_com (g_conf_info d)\<rparr>)"
proof -
  let ?s = "sensors d ! SENSOR_TYPE_UART"
  let ?coms = "con_com (g_conf_info d)"
  let ?pre = "[PROTOCOL_HEAD_1, PROTOCOL_HEAD_2, proto_code PROTOCOL_ACK_GET_UART_ATTR, ALARM_DEVICE_ID, c4]"
  have s: "ok_CONFIG_SENSOR ?s" "length (sensors d) = 4" "length ?coms = 2"
    using ok_dev_sensor [OF d(1), of SENSOR_TYPE_UART] ok_dev_com [OF d(1)] by (simp_all add: sensor_types)
  have entry: "put_uart_attr ?s ?coms j (filled pre b) = Some (filled (pre @ uart_entry ?s ?coms j) b)"
    if "j < unat (sen_num ?s)" "length pre = 5 + 8 * j" for j pre
    using that d(2) s b by (intro put_uart_attr_eq) (auto simp: uart_ok_def Let_def)
  consider "sen_num ?s = 1" | "sen_num ?s = 2" using d(2) by (auto simp: uart_ok_def Let_def)
  then show ?thesis
  proof cases
    case 1
    then show ?thesis
      using s b c entry [of 0 ?pre]
      by (simp add: make_ack_get_uart_attr_def ack_simps rd_in sensor_types MAX_COM_PORT_def Let_def
          make_crc_num_def uart_attr_frame_def frame_def)
  next
    case 2
    have "for_to 2 (put_uart_attr ?s ?coms) (filled ?pre b)
        = Some (filled (?pre @ concat (map (uart_entry ?s ?coms) [0 ..< 0 + 2])) b)"
      using 2 entry by (intro for_from_filled [where base = 5 and w = 8]) auto
    moreover have "[0 ..< 2] = [0, Suc 0]" by (simp add: upt_rec)
    ultimately show ?thesis
      using 2 s b c
      by (simp add: make_ack_get_uart_attr_def ack_simps rd_in sensor_types MAX_COM_PORT_def Let_def
          make_crc_num_def uart_attr_frame_def frame_def)
  qed
qed

section \<open>Setting the port attributes\<close>

text \<open>A command's element as the client writes it.\<close>

record port_setting =
  p_seq :: u8
  p_attr :: u8
  p_rate :: "u8 \<times> u8 \<times> u8"
  p_dbit :: u8
  p_sbit :: u8
  p_parity :: u8

definition setting_bytes :: "port_setting \<Rightarrow> bytes" where
  "setting_bytes p = (case p_rate p of (h, m, l) \<Rightarrow>
     [p_seq p, p_attr p, h, m, l, p_dbit p, p_sbit p, p_parity p])"

definition setting_port :: "port_setting \<Rightarrow> nat" where
  "setting_port p = unat (RESET_MSB (p_seq p))"

text \<open>The port's configuration after the setting: the old one but for the transferred fields.\<close>

definition setting_com :: "port_setting \<Rightarrow> CONFIG_COM \<Rightarrow> CONFIG_COM" where
  "setting_com p c = c\<lparr>com_id := ucast (RESET_MSB (p_seq p)),
     bps := (case p_rate p of (h, m, l) \<Rightarrow> calc_baud_rate h m l),
     dbit := p_dbit p, sbit := ucast (p_sbit p), chk := return_local_odd_even (p_parity p)\<rparr>"

definition setting_sensor :: "nat \<Rightarrow> port_setting \<Rightarrow> CONFIG_SENSOR \<Rightarrow> CONFIG_SENSOR" where
  "setting_sensor j p s = s\<lparr>seq_num := (seq_num s)[j := p_seq p], sen_attr := (sen_attr s)[j := p_attr p]\<rparr>"

definition good_setting :: "port_setting \<Rightarrow> bool" where
  "good_setting p \<longleftrightarrow> setting_port p \<in> {1, 2} \<and> is_good_uart (setting_com p zero_COM) = SET_UART_ATTR_PASS"

lemma is_good_setting: "is_good_uart (setting_com p c) = is_good_uart (setting_com p c')"
  by (simp add: is_good_uart_def setting_com_def)

text \<open>What one accepted element does to the device.\<close>

definition apply_setting :: "nat \<Rightarrow> port_setting \<Rightarrow> CONFIG_SENSOR \<Rightarrow> dev \<Rightarrow> dev" where
  "apply_setting j p s d = (let
     c = setting_com p (set_com_attr_max d ! j);
     i = setting_port p - 1;
     conf = g_conf_info d\<lparr>con_com := (con_com (g_conf_info d))[i := c],
              con_sensor := (sensors d)[SENSOR_TYPE_UART := setting_sensor j p s]\<rparr>
   in com_para_set (gcomfd d ! i) c
        (config_save (d\<lparr>set_com_attr_max := (set_com_attr_max d)[j := c], g_conf_info := conf\<rparr>)))"

lemma rds_rd: "rds b i n = Some t \<Longrightarrow> k < n \<Longrightarrow> rd b (i + k) = Some (t ! k)"
  by (auto simp: rds_def rd_def split: if_splits)

lemma setting_reads:
  assumes "rds cmdbuf i 8 = Some (setting_bytes p)"
  shows "rd cmdbuf i = Some (p_seq p)" "rd cmdbuf (Suc i) = Some (p_attr p)"
    "rd cmdbuf (2 + i) = Some (fst (p_rate p))" "rd cmdbuf (3 + i) = Some (fst (snd (p_rate p)))"
    "rd cmdbuf (4 + i) = Some (snd (snd (p_rate p)))" "rd cmdbuf (5 + i) = Some (p_dbit p)"
    "rd cmdbuf (6 + i) = Some (p_sbit p)" "rd cmdbuf (7 + i) = Some (p_parity p)"
  using rds_rd [OF assms, of 0] rds_rd [OF assms, of 1] rds_rd [OF assms, of 2] rds_rd [OF assms, of 3]
    rds_rd [OF assms, of 4] rds_rd [OF assms, of 5] rds_rd [OF assms, of 6] rds_rd [OF assms, of 7]
  by (auto simp: setting_bytes_def split_beta add.commute)

lemma unat_com_id: "unat (ucast (RESET_MSB q) :: u32) = unat (RESET_MSB q)"
  using unsigned_less [of "RESET_MSB q", where ?'a = nat]
  by (simp add: unsigned_ucast_eq take_bit_nat_eq_self)

lemma setting_com_fields [simp]:
  "com_id (setting_com p c) = ucast (RESET_MSB (p_seq p))"
  "bps (setting_com p c) = (case p_rate p of (h, m, l) \<Rightarrow> calc_baud_rate h m l)"
  "dbit (setting_com p c) = p_dbit p" "sbit (setting_com p c) = ucast (p_sbit p)"
  "chk (setting_com p c) = return_local_odd_even (p_parity p)"
  "com_type (setting_com p c) = com_type c" "com_rsvd (setting_com p c) = com_rsvd c"
  by (simp_all add: setting_com_def)

lemma filled_update2:
  assumes "i = length pre" "k = Suc i" "k < length b"
  shows "(filled pre b)[i := x, k := y] = filled (pre @ [x, y]) b"
proof -
  have "wr (filled pre b) i x = Some ((filled pre b)[i := x])"
    using assms by (simp add: wr_in ack_simps)
  moreover have "wr (filled pre b) i x = Some (filled (pre @ [x]) b)" using assms by (simp add: ack_simps)
  moreover have "wr (filled (pre @ [x]) b) k y = Some ((filled (pre @ [x]) b)[k := y])"
    using assms by (simp add: wr_in ack_simps)
  moreover have "wr (filled (pre @ [x]) b) k y = Some (filled (pre @ [x, y]) b)"
    using assms by (simp add: ack_simps)
  ultimately show ?thesis by simp
qed

lemma set_uart_elem_good:
  assumes r: "rds cmdbuf (5 + 8 * j) 8 = Some (setting_bytes p)" and g: "good_setting p"
    and j: "j < 2" and d: "ok_dev d" and s: "ok_CONFIG_SENSOR s"
    and pre: "length pre = 5 + 2 * j" "length b = 1024"
  shows "set_uart_elem cmdbuf j s d (filled pre b) =
    Some (Some (setting_sensor j p s, filled (pre @ [p_seq p, SET_UART_ATTR_PASS]) b), apply_setting j p s d)"
proof -
  have l: "length (set_com_attr_max d) = 2" "length (gcomfd d) = 2" "length (con_com (g_conf_info d)) = 2"
    "length (sensors d) = 4" "length (seq_num s) = 8" "length (sen_attr s) = 8"
    using d s ok_dev_sensor [OF d, of 0] ok_dev_com [OF d] by (simp_all add: ok_dev_def ok_CONFIG_SENSOR_def)
  have port: "unat (RESET_MSB (p_seq p)) = 1 \<or> unat (RESET_MSB (p_seq p)) = 2"
    using g by (simp add: good_setting_def setting_port_def)
  then have id: "\<not> (ucast (RESET_MSB (p_seq p)) :: u32) > 2" "(ucast (RESET_MSB (p_seq p)) :: u32) \<noteq> 0"
    by (auto simp: word_less_nat_alt unat_com_id simp flip: unat_eq_0)
  have e: "setting_com p c = c\<lparr>com_id := ucast (RESET_MSB (p_seq p)),
      bps := calc_baud_rate (fst (p_rate p)) (fst (snd (p_rate p))) (snd (snd (p_rate p))),
      dbit := p_dbit p, sbit := ucast (p_sbit p), chk := return_local_odd_even (p_parity p)\<rparr>" for c
    by (simp add: setting_com_def split_beta)
  have good: "is_good_uart (setting_com p c) = SET_UART_ATTR_PASS" for c
    using g is_good_setting [of p c zero_COM] by (simp add: good_setting_def)
  have fd: "com_fd (unat (RESET_MSB (p_seq p))) d' = Some (gcomfd d ! (setting_port p - 1))"
    if "gcomfd d' = gcomfd d" for d'
    using that port l by (auto simp: com_fd_def rd_def setting_port_def)
  have up: "upd_com (setting_port p - 1) c d' = Some (d'\<lparr>g_conf_info := g_conf_info d'\<lparr>con_com :=
      (con_com (g_conf_info d'))[setting_port p - 1 := c]\<rparr>\<rparr>)" if "g_conf_info d' = g_conf_info d" for c d'
    using that port l by (auto simp: upd_com_def wr_def setting_port_def)
  note reads = setting_reads [OF r]
  show ?thesis
    using j l pre id good [unfolded e] up fd [of "config_save x" for x] reads
    by (simp add: set_uart_elem_def commit_uart_def fill_uart_def rd_in wr_in ack_simps Let_def add.commute [of _ "8 * j"] unat_com_id
        apply_setting_def com_set_def upd_sensor_def sensor_types setting_sensor_def e
        flip: setting_port_def)
      (use j pre in \<open>simp add: filled_update2\<close>)
qed

text \<open>The whole command: elements are stored, saved and applied one after the other.\<close>

fun apply_settings :: "nat \<Rightarrow> port_setting list \<Rightarrow> CONFIG_SENSOR \<Rightarrow> dev \<Rightarrow> dev" where
  "apply_settings j [] s d = d"
| "apply_settings j (p # ps) s d = apply_settings (Suc j) ps (setting_sensor j p s) (apply_setting j p s d)"

lemma ok_setting_sensor: "ok_CONFIG_SENSOR s \<Longrightarrow> ok_CONFIG_SENSOR (setting_sensor j p s)"
  by (simp add: ok_CONFIG_SENSOR_def setting_sensor_def)

lemma ok_setting_com: "ok_CONFIG_COM c \<Longrightarrow> ok_CONFIG_COM (setting_com p c)"
  by (simp add: ok_CONFIG_COM_def)

lemma list_all_update: "list_all P xs \<Longrightarrow> P x \<Longrightarrow> list_all P (xs[i := x])"
  by (auto simp: list_all_iff dest!: set_update_subset_insert [THEN subsetD])

lemma ok_dev_conf: "ok_CONFI_DATA c \<Longrightarrow> ok_dev d \<Longrightarrow> ok_dev (d\<lparr>g_conf_info := c\<rparr>)"
  by (simp add: ok_dev_def)

lemma ok_conf_coms:
  "ok_CONFI_DATA c \<Longrightarrow> list_all ok_CONFIG_COM cs \<Longrightarrow> length cs = 2 \<Longrightarrow> ok_CONFI_DATA (c\<lparr>con_com := cs\<rparr>)"
  by (simp add: ok_CONFI_DATA_def)

lemma ok_conf_sensors:
  "ok_CONFI_DATA c \<Longrightarrow> list_all ok_CONFIG_SENSOR ss \<Longrightarrow> length ss = 4 \<Longrightarrow> ok_CONFI_DATA (c\<lparr>con_sensor := ss\<rparr>)"
  by (simp add: ok_CONFI_DATA_def)

lemma ok_dev_parts:
  assumes "ok_dev d"
  shows "ok_CONFI_DATA (g_conf_info d)" "list_all ok_CONFIG_COM (con_com (g_conf_info d))"
    "length (con_com (g_conf_info d)) = 2" "list_all ok_CONFIG_SENSOR (sensors d)" "length (sensors d) = 4"
    "list_all ok_CONFIG_COM (set_com_attr_max d)" "length (set_com_attr_max d) = 2" "length (gcomfd d) = 2"
  using assms by (simp_all add: ok_dev_def ok_CONFI_DATA_def)

lemma ok_apply_setting:
  assumes "ok_dev d" "ok_CONFIG_SENSOR s" "j < 2"
  shows "ok_dev (apply_setting j p s d)"
proof -
  note d = ok_dev_parts [OF assms(1)]
  let ?c = "setting_com p (set_com_attr_max d ! j)"
  have c: "ok_CONFIG_COM ?c" using d assms(3) by (intro ok_setting_com) (simp add: list_all_length)
  have "ok_dev (d\<lparr>set_com_attr_max := (set_com_attr_max d)[j := ?c]\<rparr>)"
    using assms(1) d c by (simp add: ok_dev_def list_all_update)
  moreover have "ok_CONFI_DATA (g_conf_info d\<lparr>con_com := cs, con_sensor := ss\<rparr>)"
    if "list_all ok_CONFIG_COM cs" "length cs = 2" "list_all ok_CONFIG_SENSOR ss" "length ss = 4" for cs ss
    using that d by (intro ok_conf_sensors [OF ok_conf_coms]) auto
  ultimately show ?thesis
    using d c ok_setting_sensor [OF assms(2), of j p]
    by (simp add: apply_setting_def Let_def list_all_update ok_dev_conf)
qed

lemma set_uart_loop_good:
  assumes "\<forall>k < length ps. rds cmdbuf (5 + 8 * (j + k)) 8 = Some (setting_bytes (ps ! k))"
    and "list_all good_setting ps" "j + length ps \<le> 2" "ok_dev d" "ok_CONFIG_SENSOR s"
    and "length pre = 5 + 2 * j" "length b = 1024"
  shows "\<exists>s'. set_uart_loop cmdbuf j (length ps) s d (filled pre b) =
    Some (Some (s', filled (pre @ concat (map (\<lambda>p. [p_seq p, SET_UART_ATTR_PASS]) ps)) b),
      apply_settings j ps s d)"
  using assms
proof (induction ps arbitrary: j s d pre)
  case (Cons p ps)
  have e: "set_uart_elem cmdbuf j s d (filled pre b) = Some (Some (setting_sensor j p s,
      filled (pre @ [p_seq p, SET_UART_ATTR_PASS]) b), apply_setting j p s d)"
    using Cons.prems(1) [rule_format, of 0] Cons.prems by (intro set_uart_elem_good) auto
  have "\<forall>k < length ps. rds cmdbuf (5 + 8 * (Suc j + k)) 8 = Some (setting_bytes (ps ! k))"
    using Cons.prems(1) [rule_format, of "Suc k" for k] by auto
  with Cons.prems have "\<exists>s'. set_uart_loop cmdbuf (Suc j) (length ps) (setting_sensor j p s)
      (apply_setting j p s d) (filled (pre @ [p_seq p, SET_UART_ATTR_PASS]) b) =
    Some (Some (s', filled ((pre @ [p_seq p, SET_UART_ATTR_PASS])
        @ concat (map (\<lambda>p. [p_seq p, SET_UART_ATTR_PASS]) ps)) b),
      apply_settings (Suc j) ps (setting_sensor j p s) (apply_setting j p s d))"
    by (intro Cons.IH) (auto intro: ok_apply_setting ok_setting_sensor)
  with e show ?case by auto
qed simp

definition set_ports :: "port_setting list \<Rightarrow> dev \<Rightarrow> dev" where
  "set_ports ps d = apply_settings 0 ps ((sensors d ! SENSOR_TYPE_UART)\<lparr>sen_num := of_nat (length ps)\<rparr>)
     (d\<lparr>set_com_attr_max := con_com (g_conf_info d)\<rparr>)"

definition set_uart_frame :: "port_setting list \<Rightarrow> bytes" where
  "set_uart_frame ps = frame PROTOCOL_ACK_SET_UART_ATTR
     (of_nat (length ps) # concat (map (\<lambda>p. [p_seq p, SET_UART_ATTR_PASS]) ps))"

text \<open>The command's buffer holds the head, the number of elements and the elements.\<close>

definition holds_settings :: "port_setting list \<Rightarrow> bytes \<Rightarrow> bool" where
  "holds_settings ps cmdbuf \<longleftrightarrow> ps \<noteq> [] \<and> length ps \<le> 2 \<and> rd cmdbuf 4 = Some (of_nat (length ps)) \<and>
     (\<forall>k < length ps. rds cmdbuf (5 + 8 * k) 8 = Some (setting_bytes (ps ! k)))"

lemma ok_dev_start_set:
  "ok_dev d \<Longrightarrow> ok_dev (d\<lparr>set_com_attr_max := con_com (g_conf_info d)\<rparr>)"
  by (simp add: ok_dev_def ok_CONFI_DATA_def)

lemma make_ack_set_uart_attr_good:
  assumes h: "holds_settings ps cmdbuf" and g: "list_all good_setting ps" and d: "ok_dev d"
    and b: "length b = 1024"
  shows "make_ack_set_uart_attr d cmdbuf b =
    Some (length (set_uart_frame ps), filled (set_uart_frame ps) b, set_ports ps d)"
proof -
  let ?n = "length ps"
  let ?s = "(sensors d ! SENSOR_TYPE_UART)\<lparr>sen_num := of_nat ?n\<rparr>"
  let ?d = "d\<lparr>set_com_attr_max := con_com (g_conf_info d)\<rparr>"
  let ?pre = "[PROTOCOL_HEAD_1, PROTOCOL_HEAD_2, proto_code PROTOCOL_ACK_SET_UART_ATTR, ALARM_DEVICE_ID, of_nat ?n]"
  have s: "ok_CONFIG_SENSOR ?s" using ok_dev_sensor [OF d, of 0] by (simp add: sensor_types ok_CONFIG_SENSOR_def)
  have n2: "?n \<le> 2" "?n \<noteq> 0" using h by (simp_all add: holds_settings_def)
  then have n: "unat (of_nat ?n :: u8) = ?n" by (simp add: unat_of_nat take_bit_nat_eq_self)
  then have n1: "1 \<le> (of_nat ?n :: u8)" using n2 by (simp add: word_le_nat_alt Suc_le_eq)
  have rdc: "rd cmdbuf 4 = Some (of_nat ?n)" using h by (simp add: holds_settings_def)
  obtain s' where loop: "set_uart_loop cmdbuf 0 ?n ?s ?d (filled ?pre b) = Some (Some (s',
      filled (?pre @ concat (map (\<lambda>p. [p_seq p, SET_UART_ATTR_PASS]) ps)) b), apply_settings 0 ps ?s ?d)"
    using set_uart_loop_good [of ps cmdbuf 0 ?d ?s ?pre b] h g d b s ok_dev_start_set [OF d]
    by (auto simp: holds_settings_def)
  have l: "length (concat (map (\<lambda>p. [p_seq p, SET_UART_ATTR_PASS]) ps)) = 2 * ?n"
    by (induction ps) auto
  show ?thesis
    using rdc n n1 n2 loop l b ok_dev_parts(5) [OF d]
    by (simp add: make_ack_set_uart_attr_def ack_simps rd_in sensor_types Let_def
        MAX_COM_PORT_def make_crc_num_def set_uart_frame_def frame_def set_ports_def)
qed

text \<open>
  Every reading of the command that returns leaves the device well formed and sends a reply, also
  when an element is refused. The count and the elements may be anything.
\<close>

lemma com_set_frame:
  "com_set c d = Some d' \<Longrightarrow> g_conf_info d' = g_conf_info d \<and> gcomfd d' = gcomfd d \<and> ok_dev d' = ok_dev d"
  by (auto simp: com_set_def bind_eq_Some_conv)

lemma commit_uart_ok:
  assumes "commit_uart j q c s d b = Some (r, d')" "ok_dev d" "ok_CONFIG_SENSOR s" "ok_CONFIG_COM c"
  shows "ok_dev d' \<and> (\<exists>b'. r = Some (s, b') \<and> length b' = length b)"
proof -
  note dp = ok_dev_parts [OF assms(2)]
  have fin: "ok_dev (d\<lparr>g_conf_info := g_conf_info d\<lparr>con_com := (con_com (g_conf_info d))[i := c],
      con_sensor := (sensors d)[SENSOR_TYPE_UART := s]\<rparr>\<rparr>)" for i
    using assms dp by (intro ok_dev_conf ok_conf_sensors [OF ok_conf_coms]) (auto simp: list_all_update)
  show ?thesis
    using assms(1)
    by (auto simp: commit_uart_def bind_eq_Some_conv wr_Some_iff upd_com_def upd_sensor_def fin
        split: if_splits dest!: com_set_frame)
qed

lemma set_uart_elem_ok:
  assumes e: "set_uart_elem cmdbuf j s d b = Some (r, d')" and d: "ok_dev d" and s: "ok_CONFIG_SENSOR s"
  shows "ok_dev d' \<and> (\<forall>s' b'. r = Some (s', b') \<longrightarrow> ok_CONFIG_SENSOR s' \<and> length b' = length b)"
proof -
  note dp = ok_dev_parts [OF d]
  have c: "ok_dev (d\<lparr>set_com_attr_max := (set_com_attr_max d)[j := c]\<rparr>)" if "ok_CONFIG_COM c" for c
    using that d by (simp add: ok_dev_def list_all_update)
  have k: "ok_CONFIG_COM ((set_com_attr_max d ! j)\<lparr>com_id := v\<rparr>)" if "j < length (set_com_attr_max d)" for v
    using that dp(6) by (simp add: list_all_length ok_CONFIG_COM_def)
  have f: "ok_CONFIG_COM c'" if "fill_uart cmdbuf j c = Some c'" "ok_CONFIG_COM c" for c c'
    using that by (auto simp: fill_uart_def bind_eq_Some_conv ok_CONFIG_COM_def)
  have sn: "ok_CONFIG_SENSOR (s\<lparr>seq_num := (seq_num s)[i := q], sen_attr := (sen_attr s)[i := a]\<rparr>)" for i q a
    using s by (simp add: ok_CONFIG_SENSOR_def)
  show ?thesis
    using e
    by (simp add: set_uart_elem_def bind_eq_Some_conv wr_Some_iff rd_Some_iff Let_def split: if_splits)
      (auto simp: c k sn dest: f [OF _ k] dest!: commit_uart_ok)
qed

lemma set_uart_loop_ok:
  "set_uart_loop cmdbuf j n s d b = Some (r, d') \<Longrightarrow> ok_dev d \<Longrightarrow> ok_CONFIG_SENSOR s \<Longrightarrow>
     ok_dev d' \<and> (\<forall>s' b'. r = Some (s', b') \<longrightarrow> length b' = length b)"
proof (induction cmdbuf j n s d b arbitrary: r d' rule: set_uart_loop.induct)
  case (2 cmdbuf j n s d b)
  from "2.prems"(1) obtain r1 d1 where e: "set_uart_elem cmdbuf j s d b = Some (r1, d1)"
    and k: "(case r1 of None \<Rightarrow> Some (None, d1) | Some (s, b) \<Rightarrow> set_uart_loop cmdbuf (Suc j) n s d1 b) = Some (r, d')"
    by (auto simp: bind_eq_Some_conv)
  note o = set_uart_elem_ok [OF e "2.prems"(2,3)]
  show ?case
  proof (cases r1)
    case None
    with k o show ?thesis by auto
  next
    case (Some sb)
    obtain s1 b1 where sb: "sb = (s1, b1)" by fastforce
    with Some k o e "2.IH" [OF e refl Some [unfolded sb] refl] show ?thesis by auto
  qed
qed simp

lemma make_ack_head_length: "make_ack_head b pid = Some b' \<Longrightarrow> length b' = length b"
  by (auto simp: make_ack_head_def bind_eq_Some_conv wr_Some_iff)

lemma ok_sensor_num: "ok_CONFIG_SENSOR (s\<lparr>sen_num := n\<rparr>) = ok_CONFIG_SENSOR s"
  by (simp add: ok_CONFIG_SENSOR_def)

lemma make_ack_set_uart_attr_ok:
  assumes "make_ack_set_uart_attr d cmdbuf b = Some (n, b', d')" "ok_dev d"
  shows "ok_dev d' \<and> length b' = length b"
proof -
  have s: "ok_CONFIG_SENSOR s" if "rd (sensors d) i = Some s" for s i
    using that ok_dev_parts(4) [OF assms(2)] by (auto simp: rd_Some_iff list_all_length)
  note d0 = ok_dev_start_set [OF assms(2)]
  have loop: "ok_dev d1 \<and> (\<forall>s' b'. r = Some (s', b') \<longrightarrow> length b' = length b1)"
    if "set_uart_loop cmdbuf 0 k (s\<lparr>sen_num := v\<rparr>) (d\<lparr>set_com_attr_max := con_com (g_conf_info d)\<rparr>) b1
      = Some (r, d1)" "ok_CONFIG_SENSOR s" for k s v b1 r d1
    using set_uart_loop_ok [OF that(1) d0] that(2) by (simp add: ok_sensor_num)
  have loop2: "ok_dev d1 \<and> length b' = length b1"
    if "set_uart_loop cmdbuf 0 k (s\<lparr>sen_num := v\<rparr>) (d\<lparr>set_com_attr_max := con_com (g_conf_info d)\<rparr>) b1
      = Some (Some (s', b'), d1)" "ok_CONFIG_SENSOR s" for k s v b1 s' b' d1
    using loop [OF that] by simp
  show ?thesis
    using assms(1) d0
    by (auto simp: make_ack_set_uart_attr_def bind_eq_Some_conv wr_Some_iff Let_def
        split: if_splits option.splits dest!: make_ack_head_length s
        dest!: loop2 dest: loop)
qed

section \<open>Every command keeps the device well formed\<close>

text \<open>Builders change no size.\<close>

lemma for_from_length:
  assumes "for_from k n body (b :: 'a list) = Some b'"
    and "\<And>j b b'. body j b = Some b' \<Longrightarrow> length b' = length b"
  shows "length b' = length b"
  using for_from_inv [OF assms(1), of "\<lambda>x. length x = length b"] assms(2) by auto

lemma get_one_sensor_buf_length: "get_one_sensor_buf s off b = Some (n, b') \<Longrightarrow> length b' = length b"
  by (auto simp: get_one_sensor_buf_def bind_eq_Some_conv wr_Some_iff split: if_splits
      dest!: for_from_length)

lemma get_all_sensor_buf_length: "get_all_sensor_buf d off b = Some (n, b') \<Longrightarrow> length b' = length b"
  by (auto simp: get_all_sensor_buf_def bind_eq_Some_conv Let_def dest!: get_one_sensor_buf_length)

lemma put_u16_length: "put_u16 i v b = Some b' \<Longrightarrow> length b' = length b"
  by (auto simp: put_u16_def bind_eq_Some_conv wr_Some_iff)

lemma put_uart_attr_length: "put_uart_attr s c j b = Some b' \<Longrightarrow> length b' = length b"
  by (auto simp: put_uart_attr_def bind_eq_Some_conv wr_Some_iff Let_def)

lemma builder_lengths:
  "make_ack_get_device_attr d b = Some (n, b') \<Longrightarrow> length b' = length b"
  "make_ack_set_device_attr d b = Some (n, b') \<Longrightarrow> length b' = length b"
  "make_ack_get_alarm_status d a b = Some (n, b') \<Longrightarrow> length b' = length b"
  "make_ack_set_time b = Some (n, b') \<Longrightarrow> length b' = length b"
  "make_ack_set_heartbeat t b = Some (n, b') \<Longrightarrow> length b' = length b"
  "make_ack_get_uart_qty b = Some (n, b') \<Longrightarrow> length b' = length b"
  "make_ack_query_uart_sendbuf d b = Some (n, b') \<Longrightarrow> length b' = length b"
  "make_ack_query_uart_recv_data d b = Some (n, b') \<Longrightarrow> length b' = length b"
  "make_ack_get_io_num b = Some (n, b') \<Longrightarrow> length b' = length b"
  "make_ack_get_temp_num b = Some (n, b') \<Longrightarrow> length b' = length b"
  "make_ack_get_temp_status u d b = Some (n, b') \<Longrightarrow> length b' = length b"
  by (auto simp: make_ack_get_device_attr_def make_ack_set_device_attr_def make_ack_get_alarm_status_def
      make_ack_set_time_def make_ack_set_heartbeat_def make_ack_get_uart_qty_def
      make_ack_query_uart_sendbuf_def make_ack_query_uart_recv_data_def make_ack_get_io_num_def
      make_ack_get_temp_num_def make_ack_get_temp_status_def Let_def
      bind_eq_Some_conv wr_Some_iff split: if_splits
      dest!: make_ack_head_length get_all_sensor_buf_length put_u16_length wrs_Some_length for_from_length)

lemma make_ack_get_io_status_length:
  assumes "make_ack_get_io_status u d c b = Some (n, b')"
  shows "length b' = length b"
proof -
  have "length (snd x') = length (snd x)"
    if "(\<lambda>(gs, b). do { q \<leftarrow> rd c (5 + j); b \<leftarrow> wr b (5 + 2 * j) q;
           case output_line q of None \<Rightarrow> do { b \<leftarrow> wr b (6 + 2 * j) 0xff; Some (gs, b) }
           | Some line \<Rightarrow> do { let (_, gs) = get_gpio line gs d; b \<leftarrow> wr b (6 + 2 * j) (ucast gs); Some (gs, b) } })
        x = Some x'" for j x x'
    using that
    by (cases x, cases "get_gpio (the (output_line (c ! (5 + j)))) (fst x) d")
      (auto simp: bind_eq_Some_conv wr_Some_iff rd_Some_iff split: prod.splits option.splits)
  note step = for_from_inv [where P = "\<lambda>x. length (snd x) = length b", OF _ _ this [THEN trans]]
  show ?thesis
    using assms
    by (auto simp: make_ack_get_io_status_def bind_eq_Some_conv wr_Some_iff split: if_splits
        dest!: make_ack_head_length step)
qed

definition ok_uninit :: "uninit \<Rightarrow> bool" where
  "ok_uninit u \<longleftrightarrow> ok_CONFIG_SENSOR (u_sensor u) \<and> length (u_am2301 u) = 30"

lemma ok_dev_buf_send: "ok_dev d \<Longrightarrow> length b = 1024 \<Longrightarrow> ok_dev (d\<lparr>cbuf_send := b\<rparr>)"
  by (simp add: ok_dev_def)

lemma client_write_ok: "client_write n d = Some d' \<Longrightarrow> ok_dev d' = ok_dev d"
  by (auto simp: client_write_def bind_eq_Some_conv)

lemma reply_ok:
  assumes "reply d r = Some d'" "ok_dev d" "\<And>n b. r = Some (n, b) \<Longrightarrow> length b = length (cbuf_send d)"
  shows "ok_dev d'"
  using assms ok_dev_bufs [OF assms(2)]
  by (auto simp: reply_def bind_eq_Some_conv ok_dev_buf_send dest!: client_write_ok)

lemma reply_dev_ok:
  assumes "reply_dev r = Some d'" "\<And>n b d1. r = Some (n, b, d1) \<Longrightarrow> ok_dev d1 \<and> length b = 1024"
  shows "ok_dev d'"
  using assms by (auto simp: reply_dev_def bind_eq_Some_conv ok_dev_buf_send dest!: client_write_ok)

lemma checked_ok:
  "checked c d act = Some d' \<Longrightarrow> P d \<Longrightarrow> (act = Some d' \<Longrightarrow> P d') \<Longrightarrow> P d'"
  by (auto simp: checked_def bind_eq_Some_conv split: if_splits)

lemma upd_sensor_ok:
  "upd_sensor i s d = Some d' \<Longrightarrow> ok_dev d \<Longrightarrow> ok_CONFIG_SENSOR s \<Longrightarrow> ok_dev d'"
  using ok_dev_parts [of d]
  by (auto simp: upd_sensor_def bind_eq_Some_conv wr_Some_iff list_all_update
      intro!: ok_dev_conf ok_conf_sensors)

lemma upd_com_ok:
  "upd_com i c d = Some d' \<Longrightarrow> ok_dev d \<Longrightarrow> ok_CONFIG_COM c \<Longrightarrow> ok_dev d'"
  using ok_dev_parts [of d]
  by (auto simp: upd_com_def bind_eq_Some_conv wr_Some_iff list_all_update intro!: ok_dev_conf ok_conf_coms)

lemma rd_sensor_ok: "rd (sensors d) i = Some s \<Longrightarrow> ok_dev d \<Longrightarrow> ok_CONFIG_SENSOR s"
  using ok_dev_parts(4) [of d] by (auto simp: rd_Some_iff list_all_length)

lemma rd_com_ok: "rd (con_com (g_conf_info d)) i = Some c \<Longrightarrow> ok_dev d \<Longrightarrow> ok_CONFIG_COM c"
  using ok_dev_parts(2) [of d] by (auto simp: rd_Some_iff list_all_length)

lemma ok_sensor_upd:
  "ok_CONFIG_SENSOR s \<Longrightarrow> length qs = length (seq_num s) \<Longrightarrow> length as = length (sen_attr s) \<Longrightarrow>
     ok_CONFIG_SENSOR (s\<lparr>seq_num := qs, sen_attr := as\<rparr>)"
  by (simp add: ok_CONFIG_SENSOR_def)

lemma set_one_sensor_buf_ok:
  assumes "set_one_sensor_buf b off s = Some (r, s')" "ok_CONFIG_SENSOR s"
  shows "ok_CONFIG_SENSOR s'"
  using assms
  by (auto simp: set_one_sensor_buf_def bind_eq_Some_conv wr_Some_iff Let_def ok_sensor_num ok_sensor_upd
      split: if_splits elim!: for_from_inv [where P = ok_CONFIG_SENSOR])

lemma set_alarmin_device_attr_ok: "set_alarmin_device_attr b d = Some d' \<Longrightarrow> ok_dev d \<Longrightarrow> ok_dev d'"
  by (auto simp: set_alarmin_device_attr_def bind_eq_Some_conv
      dest!: upd_sensor_ok dest: set_one_sensor_buf_ok rd_sensor_ok)

lemma only_trace_ok: "only_trace d d' \<Longrightarrow> ok_dev d' = ok_dev d"
  by (auto simp: only_trace_def ok_dev_def)

lemma set_gpio_ok [simp]: "ok_dev (snd (set_gpio n v d)) = ok_dev d"
  by (rule only_trace_ok) simp

lemma set_io_out_ok:
  assumes "set_io_out u c d = Some d'" "ok_dev d" "ok_uninit u"
  shows "ok_dev d'"
proof -
  let ?P = "\<lambda>(s, d). ok_CONFIG_SENSOR s \<and> ok_dev d"
  have "?P x'" if "(\<lambda>(s, d). do {
           q \<leftarrow> rd c (5 + 3 * j); qs \<leftarrow> wr (seq_num s) j q;
           a \<leftarrow> rd c (6 + 3 * j); as \<leftarrow> wr (sen_attr s) j a;
           let s = s\<lparr>seq_num := qs, sen_attr := as\<rparr>;
           case output_line q of None \<Rightarrow> Some (s, d)
           | Some line \<Rightarrow> do { v \<leftarrow> rd c (7 + 3 * j); Some (s, snd (set_gpio line (unat v) d)) } }) x = Some x'"
    "?P x" for j x x'
    using that by (auto simp: bind_eq_Some_conv wr_Some_iff Let_def ok_sensor_upd split: option.splits)
  note step = for_from_inv [where P = ?P, OF _ _ this]
  have u: "ok_CONFIG_SENSOR ((u_sensor u)\<lparr>sen_type := t, sen_num := n\<rparr>)" for t n
    using assms(3) by (simp add: ok_uninit_def ok_CONFIG_SENSOR_def)
  show ?thesis
    using assms(1,2) u
    by (auto simp: set_io_out_def bind_eq_Some_conv Let_def split: if_splits dest!: step upd_sensor_ok)
qed

lemma set_temp_ok:
  assumes "set_temp u c d = Some d'" "ok_dev d" "ok_uninit u"
  shows "ok_dev d'"
proof -
  have u: "ok_CONFIG_SENSOR ((u_sensor u)\<lparr>sen_type := t, sen_num := n, seq_num := (seq_num (u_sensor u))[i := q],
      sen_attr := (sen_attr (u_sensor u))[i := a]\<rparr>)" for t n q a i
    using assms(3) by (simp add: ok_uninit_def ok_CONFIG_SENSOR_def)
  show ?thesis
    using assms(1,2) u
    by (auto simp: set_temp_def bind_eq_Some_conv wr_Some_iff Let_def split: if_splits dest!: upd_sensor_ok)
qed

lemma dev_self: "\<exists>sc t. d = d\<lparr>tty_script := sc, trace := t\<rparr>" for d :: dev
  by (rule exI [of _ "tty_script d"], rule exI [of _ "trace d"]) simp

lemma SendNetDataToCom_frame:
  "SendNetDataToCom n data d = Some (r, d') \<Longrightarrow>
     \<exists>sc t. d' = d\<lparr>tty_script := sc, trace := t\<rparr>"
  by (cases "writen (tty_script d) data"; cases "writen_rs485 (tty_script d) data")
    (auto simp: SendNetDataToCom_def bind_eq_Some_conv emit_def split: if_splits
      intro: dev_self)

lemma SendNetDataToCom_ok: "SendNetDataToCom n data d = Some (r, d') \<Longrightarrow> ok_dev d' = ok_dev d"
  by (auto simp: ok_dev_def dest!: SendNetDataToCom_frame)

lemma uart_send_data_ok: "uart_send_data b d = Some (r, d') \<Longrightarrow> ok_dev d' = ok_dev d"
  by (auto simp: uart_send_data_def bind_eq_Some_conv dest!: SendNetDataToCom_ok)

lemma make_ack_uart_send_data_ok:
  "make_ack_uart_send_data d b = Some (n, b', d') \<Longrightarrow> ok_dev d' = ok_dev d \<and> length b' = length b"
  by (auto simp: make_ack_uart_send_data_def bind_eq_Some_conv wr_Some_iff Let_def split: if_splits
      dest!: make_ack_head_length put_u16_length uart_send_data_ok)

lemma put_uart_loop_length: "for_from k n (put_uart_attr s c) b = Some b' \<Longrightarrow> length b' = length b"
  by (erule for_from_length) (rule put_uart_attr_length)

lemma make_ack_get_uart_attr_ok:
  assumes "make_ack_get_uart_attr d c b = Some (n, b', d')" "ok_dev d"
  shows "ok_dev d' \<and> length b' = length b"
proof -
  have k: "ok_dev (d\<lparr>get_com_attr_max := take MAX_COM_PORT (con_com (g_conf_info d))\<rparr>)"
    using assms(2) by (simp add: ok_dev_def ok_CONFI_DATA_def MAX_COM_PORT_def)
  show ?thesis
    using assms(1) k
    by (auto simp: make_ack_get_uart_attr_def bind_eq_Some_conv wr_Some_iff Let_def split: if_splits
        dest!: make_ack_head_length put_uart_attr_length put_uart_loop_length wrs_Some_length)
qed

lemma check_set_ok:
  "check_for_set_heartbeat b num d = Some (r, d') \<Longrightarrow> ok_dev d \<Longrightarrow> ok_dev d'"
  "check_for_query_uart_sendbuf b num d = Some (r, d') \<Longrightarrow> ok_dev d \<Longrightarrow> ok_dev d'"
  "check_for_uart_send_data b num d = Some (r, d') \<Longrightarrow> ok_dev d \<Longrightarrow> ok_dev d'"
  by (auto simp: check_for_set_heartbeat_def check_for_query_uart_sendbuf_def
      check_for_uart_send_data_def bind_eq_Some_conv Let_def ok_dev_def ok_CONFIG_COM_def split: if_splits)

lemma check_for_set_uart_recv_attr_ok:
  assumes "check_for_set_uart_recv_attr b num d = Some (r, d')" "ok_dev d"
  shows "ok_dev d'"
proof -
  have f: "ok_dev d1" if "upd_com i (c\<lparr>com_rsvd := (com_rsvd c)[0 := m]\<rparr>) d = Some d1"
    "rd (con_com (g_conf_info d)) i = Some c" for i c m d1
    using upd_com_ok [OF that(1) assms(2)] rd_com_ok [OF that(2) assms(2)] by (simp add: ok_CONFIG_COM_def)
  show ?thesis
    using assms
    by (auto simp: check_for_set_uart_recv_attr_def bind_eq_Some_conv wr_Some_iff Let_def
        split: if_splits dest: f)
qed

lemma set_heartbeat_ok [simp]: "ok_dev (set_heartbeat st t d) = ok_dev d"
  by (simp add: set_heartbeat_def ok_dev_def)

lemma led_ctrl_ok [simp]: "ok_dev (led_ctrl l v d) = ok_dev d"
  by (simp add: led_ctrl_def)

lemmas builder_ok =
  builder_lengths make_ack_get_io_status_length make_ack_set_uart_attr_ok make_ack_get_uart_attr_ok
  make_ack_uart_send_data_ok

lemma reply_builders_ok:
  assumes "ok_dev d1" "length b = 1024"
  shows "reply d1 (make_ack_get_device_attr d2 b) = Some d' \<Longrightarrow> ok_dev d'"
    "reply d1 (make_ack_set_device_attr d2 b) = Some d' \<Longrightarrow> ok_dev d'"
    "reply d1 (make_ack_get_alarm_status d2 a b) = Some d' \<Longrightarrow> ok_dev d'"
    "reply d1 (make_ack_set_time b) = Some d' \<Longrightarrow> ok_dev d'"
    "reply d1 (make_ack_set_heartbeat t b) = Some d' \<Longrightarrow> ok_dev d'"
    "reply d1 (make_ack_get_uart_qty b) = Some d' \<Longrightarrow> ok_dev d'"
    "reply d1 (make_ack_query_uart_sendbuf d2 b) = Some d' \<Longrightarrow> ok_dev d'"
    "reply d1 (make_ack_query_uart_recv_data d2 b) = Some d' \<Longrightarrow> ok_dev d'"
    "reply d1 (make_ack_get_io_num b) = Some d' \<Longrightarrow> ok_dev d'"
    "reply d1 (make_ack_get_temp_num b) = Some d' \<Longrightarrow> ok_dev d'"
    "reply d1 (make_ack_get_temp_status u d2 b) = Some d' \<Longrightarrow> ok_dev d'"
    "reply d1 (make_ack_get_io_status u d2 c b) = Some d' \<Longrightarrow> ok_dev d'"
    "reply_dev (make_ack_set_uart_attr d1 c b) = Some d' \<Longrightarrow> ok_dev d'"
    "reply_dev (make_ack_get_uart_attr d1 c b) = Some d' \<Longrightarrow> ok_dev d'"
    "reply_dev (make_ack_uart_send_data d1 b) = Some d' \<Longrightarrow> ok_dev d'"
  using assms ok_dev_bufs [OF assms(1)]
  by (auto elim!: reply_ok reply_dev_ok dest: builder_ok)

lemma if_Some_cases:
  "(if c then x else y) = Some r \<Longrightarrow> (x = Some r \<Longrightarrow> P) \<Longrightarrow> (y = Some r \<Longrightarrow> P) \<Longrightarrow> P"
  by (auto split: if_splits)

lemma client_dispatch_ok:
  assumes "client_dispatch u num d = Some d'" "ok_dev d" "ok_uninit u"
  shows "ok_dev d'"
proof -
  have L: "length (cbuf_send d) = 1024" using ok_dev_bufs [OF assms(2)] by simp
  note q = reply_builders_ok [OF _ L, rotated]
  note fin = checked_ok [where P = ok_dev, OF _ assms(2)]
  have leafs:
    "do { d \<leftarrow> set_alarmin_device_attr b d; reply d (make_ack_set_device_attr d (cbuf_send d0)) } = Some d' \<Longrightarrow>
       d0 = d \<Longrightarrow> ok_dev d'"
    "do { (r, d) \<leftarrow> check_for_set_heartbeat b num d;
       checked (Some r) d (do {
         d \<leftarrow> reply d (make_ack_set_heartbeat (heartbeat_s d) (cbuf_send d0));
         b4 \<leftarrow> rd b 4;
         Some (led_ctrl LED_D3_ALARM_SERVER_STATUS LED_ON (set_heartbeat HEARTBEAT_ONLINE b4 d)) }) } = Some d' \<Longrightarrow>
       d0 = d \<Longrightarrow> ok_dev d'"
    "do { (r, d) \<leftarrow> check_for_query_uart_sendbuf b num d;
       checked (Some r) d (reply d (make_ack_query_uart_sendbuf d (cbuf_send d0))) } = Some d' \<Longrightarrow>
       d0 = d \<Longrightarrow> ok_dev d'"
    "do { (r, d) \<leftarrow> check_for_uart_send_data b num d;
       checked (Some r) d (reply_dev (make_ack_uart_send_data d (cbuf_send d0))) } = Some d' \<Longrightarrow>
       d0 = d \<Longrightarrow> ok_dev d'"
    "do { (_, d) \<leftarrow> check_for_set_uart_recv_attr b num d; Some d } = Some d' \<Longrightarrow> ok_dev d'" for b d0
    using assms(2) L
    by (auto simp: bind_eq_Some_conv dest!: set_alarmin_device_attr_ok check_set_ok
        check_for_set_uart_recv_attr_ok elim!: checked_ok [where P = ok_dev] dest!: q)
  have bindE: "x \<bind> f = Some r \<Longrightarrow> (\<And>y. x = Some y \<Longrightarrow> f y = Some r \<Longrightarrow> P) \<Longrightarrow> P" for x :: "u8 option" and f r P
    by (auto simp: bind_eq_Some_conv)
  show ?thesis
    using assms(1)
    unfolding client_dispatch_def Let_def
    apply -
    apply (erule bindE)
    apply (elim if_Some_cases)
    apply ((erule fin)?, ((erule q, rule assms) | (erule leafs, rule refl) | erule leafs |
        (erule set_io_out_ok, rule assms, rule assms) | (erule set_temp_ok, rule assms, rule assms) |
        (use assms(2) in simp)))+
    done
qed

section \<open>Storing sensor settings\<close>

lemma for_from_spec:
  assumes "\<And>j. k \<le> j \<Longrightarrow> j < k + n \<Longrightarrow> body j (S j) = Some (S (Suc j))"
  shows "for_from k n body (S k) = Some (S (k + n))"
  using assms
proof (induction n arbitrary: k)
  case (Suc n)
  then have "body k (S k) = Some (S (Suc k))" by simp
  moreover have "for_from (Suc k) n body (S (Suc k)) = Some (S (Suc k + n))"
    using Suc.prems by (intro Suc.IH) auto
  ultimately show ?case by simp
qed simp

text \<open>An array whose first \<open>j\<close> elements have been stored.\<close>

definition stored :: "(nat \<Rightarrow> 'a) \<Rightarrow> nat \<Rightarrow> 'a list \<Rightarrow> 'a list" where
  "stored f j xs = map f [0 ..< j] @ drop j xs"

lemma stored_0 [simp]: "stored f 0 xs = xs"
  by (simp add: stored_def)

lemma length_stored [simp]: "j \<le> length xs \<Longrightarrow> length (stored f j xs) = length xs"
  by (simp add: stored_def)

lemma wr_stored: "j < length xs \<Longrightarrow> v = f j \<Longrightarrow> wr (stored f j xs) j v = Some (stored f (Suc j) xs)"
  by (simp add: wr_def stored_def list_update_append Cons_nth_drop_Suc [symmetric])

lemma nth_stored: "i < j \<Longrightarrow> stored f j xs ! i = f i"
  by (simp add: stored_def nth_append)

text \<open>The sensor group a message at \<open>off\<close> (count, then pairs) describes.\<close>

definition wire_sensor :: "bytes \<Rightarrow> nat \<Rightarrow> CONFIG_SENSOR \<Rightarrow> CONFIG_SENSOR" where
  "wire_sensor b off s = (let n = unat (b ! off) in
     if n = 0 then s\<lparr>sen_num := 0, seq_num := (seq_num s)[0 := 0], sen_attr := (sen_attr s)[0 := 0]\<rparr>
     else s\<lparr>sen_num := b ! off, seq_num := stored (\<lambda>j. b ! (off + 1 + 2 * j)) n (seq_num s),
            sen_attr := stored (\<lambda>j. b ! (off + 2 + 2 * j)) n (sen_attr s)\<rparr>)"

lemma set_one_sensor_buf_eq:
  assumes "ok_CONFIG_SENSOR s" "off + 16 < length b" "unat (b ! off) \<le> SINGLE_SENSOR_MAX_NUM"
  shows "set_one_sensor_buf b off s = Some (0, wire_sensor b off s)"
proof (cases "b ! off = 0")
  case True
  with assms show ?thesis
    by (simp add: set_one_sensor_buf_def rd_in wr_in wire_sensor_def ok_CONFIG_SENSOR_def Let_def)
next
  case False
  let ?n = "unat (b ! off)"
  let ?S = "\<lambda>j. s\<lparr>sen_num := b ! off, seq_num := stored (\<lambda>j. b ! (off + 1 + 2 * j)) j (seq_num s),
      sen_attr := stored (\<lambda>j. b ! (off + 2 + 2 * j)) j (sen_attr s)\<rparr>"
  have l: "length (seq_num s) = 8" "length (sen_attr s) = 8" "?n \<le> 8"
    using assms by (simp_all add: ok_CONFIG_SENSOR_def SINGLE_SENSOR_MAX_NUM_def)
  have "for_from 0 ?n (\<lambda>j s. do {
              q \<leftarrow> rd b (off + 1 + 2 * j); qs \<leftarrow> wr (seq_num s) j q;
              a \<leftarrow> rd b (off + 2 + 2 * j); as \<leftarrow> wr (sen_attr s) j a;
              Some (s\<lparr>seq_num := qs, sen_attr := as\<rparr>) }) (?S 0) = Some (?S (0 + ?n))"
    by (rule for_from_spec) (use l assms(2) in \<open>simp add: rd_in wr_stored\<close>)
  then show ?thesis
    using False assms l
    by (simp add: set_one_sensor_buf_def rd_in Let_def wire_sensor_def unat_eq_0)
qed

lemma set_one_sensor_buf_overload:
  assumes "off < length b" "unat (b ! off) > SINGLE_SENSOR_MAX_NUM"
  shows "set_one_sensor_buf b off s = Some (-1, s\<lparr>sen_num := b ! off\<rparr>)"
proof -
  have "b ! off \<noteq> 0" using assms(2) by (auto simp: SINGLE_SENSOR_MAX_NUM_def)
  with assms show ?thesis by (simp add: set_one_sensor_buf_def rd_in Let_def)
qed

lemma ok_wire_sensor: "ok_CONFIG_SENSOR s \<Longrightarrow> unat (b ! off) \<le> 8 \<Longrightarrow> ok_CONFIG_SENSOR (wire_sensor b off s)"
  by (simp add: wire_sensor_def ok_CONFIG_SENSOR_def Let_def)

text \<open>The configuration with another sensor group.\<close>

definition with_sensor :: "nat \<Rightarrow> CONFIG_SENSOR \<Rightarrow> dev \<Rightarrow> dev" where
  "with_sensor i s d = d\<lparr>g_conf_info := g_conf_info d\<lparr>con_sensor := (sensors d)[i := s]\<rparr>\<rparr>"

lemma upd_sensor_eq: "i < length (sensors d) \<Longrightarrow> upd_sensor i s d = Some (with_sensor i s d)"
  by (simp add: upd_sensor_def wr_in with_sensor_def)

lemma with_sensor_fields [simp]:
  "sensors (with_sensor i s d) = (sensors d)[i := s]" "con_com (g_conf_info (with_sensor i s d)) = con_com (g_conf_info d)"
  "cbuf (with_sensor i s d) = cbuf d" "cbuf_send (with_sensor i s d) = cbuf_send d"
  "trace (with_sensor i s d) = trace d" "flash_writable (with_sensor i s d) = flash_writable d"
  "g_sockfd_client (with_sensor i s d) = g_sockfd_client d" "g_alarm_in (with_sensor i s d) = g_alarm_in d"
  "con_usr (g_conf_info (with_sensor i s d)) = con_usr (g_conf_info d)"
  by (simp_all add: with_sensor_def)

lemma ok_with_sensor: "ok_dev d \<Longrightarrow> ok_CONFIG_SENSOR s \<Longrightarrow> ok_dev (with_sensor i s d)"
  using ok_dev_parts [of d]
  by (auto simp: with_sensor_def list_all_update intro!: ok_dev_conf ok_conf_sensors)

lemma set_alarmin_device_attr_eq:
  assumes "ok_dev d" "20 < length b" "unat (b ! 4) \<le> SINGLE_SENSOR_MAX_NUM"
  shows "set_alarmin_device_attr b d = Some (config_save (with_sensor SENSOR_TYPE_IO_IN
     (wire_sensor b 4 (sensors d ! SENSOR_TYPE_IO_IN)) d))"
  using assms ok_dev_sensor [OF assms(1), of SENSOR_TYPE_IO_IN]
  by (simp add: set_alarmin_device_attr_def rd_in sensor_types set_one_sensor_buf_eq upd_sensor_eq)

section \<open>Leaving defined behaviour\<close>

lemma for_from_None:
  assumes "\<And>s. body m s = None" "k \<le> m" "m < k + n"
  shows "for_from k n body s = None"
  using assms(2,3)
proof (induction n arbitrary: k s)
  case (Suc n)
  show ?case
  proof (cases "k = m")
    case True
    then show ?thesis by (simp add: assms(1))
  next
    case False
    then have "for_from (Suc k) n body t = None" for t using Suc by simp
    then show ?thesis by (simp add: bind_eq_None_conv)
  qed
qed simp

lemma get_one_sensor_buf_overload:
  assumes "ok_CONFIG_SENSOR s" "8 < unat (sen_num s)"
  shows "get_one_sensor_buf s off b = None"
proof -
  have "sen_num s \<noteq> 0" using assms(2) by auto
  moreover have "rd (seq_num s) 8 = None" using assms(1) by (simp add: ok_CONFIG_SENSOR_def rd_out)
  then have "for_to (unat (sen_num s)) (\<lambda>j b. do {
       q \<leftarrow> rd (seq_num s) j; b \<leftarrow> wr b (off + 2 + 2 * j) q;
       a \<leftarrow> rd (sen_attr s) j; wr b (off + 3 + 2 * j) a }) x = None" for x
    using assms(2) by (intro for_from_None [where m = 8]) simp_all
  ultimately show ?thesis by (simp add: get_one_sensor_buf_def bind_eq_None_conv)
qed

section \<open>A setting read back\<close>

lemma parity_roundtrip:
  "return_local_odd_even r \<in> {1, 2, 3} \<Longrightarrow> return_remote_odd_even (return_local_odd_even r) = r"
  by (auto simp: return_local_odd_even_def return_remote_odd_even_def split: if_splits)

lemma good_settingD:
  assumes "good_setting p"
  shows "setting_port p = 1 \<or> setting_port p = 2" "return_local_odd_even (p_parity p) \<in> {1, 2, 3}"
    "5 \<le> p_dbit p \<and> p_dbit p \<le> 8" "ucast (p_sbit p) = (1 :: u32) \<or> ucast (p_sbit p) = (2 :: u32)"
    "unat (case p_rate p of (h, m, l) \<Rightarrow> calc_baud_rate h m l) \<in> set baud_rates"
  using assms
  by (auto simp: good_setting_def is_good_uart_def SET_UART_ATTR_PASS_def SET_UART_ATTR_FAIL_def split: if_splits)

lemma ucast_up_down: "(ucast (ucast b :: u32) :: u8) = b"
  by (rule bit_word_eqI) (simp add: bit_simps)

lemma com_wire_setting:
  assumes "good_setting p"
  shows "com_wire (setting_com p c)
    = (case p_rate p of (h, m, l) \<Rightarrow> [h, m, l]) @ [p_dbit p, p_sbit p, p_parity p]"
  using good_settingD(2) [OF assms]
  by (cases "p_rate p") (simp add: com_wire_def baud_bytes parity_roundtrip ucast_up_down)

lemma port_index_setting:
  assumes "setting_port p = 1 \<or> setting_port p = 2" "seq_num s ! j = p_seq p"
  shows "port_index s j = setting_port p - 1"
proof -
  have "1 \<le> RESET_MSB (p_seq p)" using assms(1) by (auto simp: setting_port_def word_le_nat_alt)
  then show ?thesis using assms(2) by (simp add: port_index_def setting_port_def unat_sub)
qed

text \<open>The bytes of a setting as the device reports it: the top bit of the port number cleared.\<close>

definition report_bytes :: "port_setting \<Rightarrow> bytes" where
  "report_bytes p = RESET_MSB (p_seq p) # tl (setting_bytes p)"

lemma uart_entry_setting:
  assumes "good_setting p" "seq_num s ! j = p_seq p" "sen_attr s ! j = p_attr p"
    and "coms ! (setting_port p - 1) = setting_com p c"
  shows "uart_entry s coms j = report_bytes p"
  using assms port_index_setting [OF good_settingD(1) [OF assms(1)] assms(2)]
  by (cases "p_rate p") (simp add: uart_entry_def com_wire_setting report_bytes_def setting_bytes_def)

lemma apply_setting_fields:
  "sensors (apply_setting j p s d) = (sensors d)[SENSOR_TYPE_UART := setting_sensor j p s]"
  "con_com (g_conf_info (apply_setting j p s d)) =
     (con_com (g_conf_info d))[setting_port p - 1 := setting_com p (set_com_attr_max d ! j)]"
  "cbuf (apply_setting j p s d) = cbuf d" "gcomfd (apply_setting j p s d) = gcomfd d"
  "trace (apply_setting j p s d) = trace d"
  by (simp_all add: apply_setting_def Let_def)

lemma com_para_set_more:
  "set_com_attr_max (com_para_set fd c d) = set_com_attr_max d"
  "cbuf_send (com_para_set fd c d) = cbuf_send d" "g_sockfd_client (com_para_set fd c d) = g_sockfd_client d"
proof -
  obtain t y where e: "com_para_set fd c d = d\<lparr>tty_attr := t, rs_type := y\<rparr>"
    using com_para_set_frame by blast
  show "set_com_attr_max (com_para_set fd c d) = set_com_attr_max d"
    "cbuf_send (com_para_set fd c d) = cbuf_send d" "g_sockfd_client (com_para_set fd c d) = g_sockfd_client d"
    by (simp_all add: e)
qed

lemma apply_setting_others:
  "set_com_attr_max (apply_setting j p s d) = (set_com_attr_max d)[j := setting_com p (set_com_attr_max d ! j)]"
  "cbuf_send (apply_setting j p s d) = cbuf_send d" "g_sockfd_client (apply_setting j p s d) = g_sockfd_client d"
  by (simp_all add: apply_setting_def Let_def com_para_set_more)

text \<open>After one or two settings for different ports, the device reports them.\<close>

lemma set_ports_report:
  assumes "ok_dev d" "ps \<noteq> []" "length ps \<le> 2" "list_all good_setting ps" "distinct (map setting_port ps)"
  defines "S \<equiv> sensors (set_ports ps d) ! SENSOR_TYPE_UART"
    and "C \<equiv> con_com (g_conf_info (set_ports ps d))"
  shows "map (uart_entry S C) [0 ..< length ps] = map report_bytes ps"
    and "\<forall>j < length ps. port_index S j < 2" and "sen_num S = of_nat (length ps)"
proof -
  have s: "length (sensors d) = 4" "length (seq_num (sensors d ! 0)) = 8" "length (sen_attr (sensors d ! 0)) = 8"
    using ok_dev_sensor [OF assms(1), of 0] by (simp_all add: ok_CONFIG_SENSOR_def)
  have c: "length (con_com (g_conf_info d)) = 2" by (rule ok_dev_com [OF assms(1)])
  consider p where "ps = [p]" | p q where "ps = [p, q]"
    using assms(2,3) by (cases ps; cases "tl ps") (auto simp: Suc_le_eq)
  then have "map (uart_entry S C) [0 ..< length ps] = map report_bytes ps \<and>
      (\<forall>j < length ps. port_index S j < 2) \<and> sen_num S = of_nat (length ps)"
  proof cases
    case 1
    note g = good_settingD(1) [of p]
    have g: "setting_port p = 1 \<or> setting_port p = 2" "good_setting p"
      using good_settingD(1) [of p] 1 assms(4) by auto
    have S: "seq_num S ! 0 = p_seq p" "sen_attr S ! 0 = p_attr p" "sen_num S = 1"
      using 1 s by (simp_all add: S_def set_ports_def apply_setting_fields sensor_types setting_sensor_def)
    have C: "C ! (setting_port p - 1) = setting_com p (con_com (g_conf_info d) ! 0)"
      using 1 c g(1) by (auto simp: C_def set_ports_def apply_setting_fields)
    show ?thesis
      using 1 S(3) uart_entry_setting [OF g(2) S(1,2) C] port_index_setting [OF g(1) S(1)] g(1) by auto
  next
    case 2
    have g: "setting_port p = 1 \<or> setting_port p = 2" "setting_port q = 1 \<or> setting_port q = 2"
      "setting_port p \<noteq> setting_port q" "good_setting p" "good_setting q"
      using good_settingD(1) [of p] good_settingD(1) [of q] 2 assms(4,5) by auto
    have S: "seq_num S ! 0 = p_seq p" "seq_num S ! Suc 0 = p_seq q" "sen_attr S ! 0 = p_attr p"
      "sen_attr S ! Suc 0 = p_attr q" "sen_num S = 2"
      using 2 s by (simp_all add: S_def set_ports_def apply_setting_fields sensor_types setting_sensor_def)
    have C: "C ! (setting_port p - 1) = setting_com p (con_com (g_conf_info d) ! 0)"
      "C ! (setting_port q - 1) = setting_com q (con_com (g_conf_info d) ! 1)"
      using 2 c g(1-3) by (auto simp: C_def set_ports_def apply_setting_fields apply_setting_others)
    have u: "uart_entry S C 0 = report_bytes p" "uart_entry S C (Suc 0) = report_bytes q"
      using uart_entry_setting [OF g(4) S(1,3) C(1)] uart_entry_setting [OF g(5) S(2,4) C(2)] .
    have i: "port_index S 0 < 2" "port_index S (Suc 0) < 2"
      using port_index_setting [OF g(1) S(1)] port_index_setting [OF g(2) S(2)] g by auto
    show ?thesis unfolding 2 using S(5) u i by (auto simp: less_Suc_eq)
  qed
  then show "map (uart_entry S C) [0 ..< length ps] = map report_bytes ps"
    "\<forall>j < length ps. port_index S j < 2" "sen_num S = of_nat (length ps)" by auto
qed

lemma set_ports_frame:
  "trace (set_ports ps d) = trace d" "cbuf_send (set_ports ps d) = cbuf_send d"
  "g_sockfd_client (set_ports ps d) = g_sockfd_client d"
proof -
  have "trace (apply_settings j ps s d) = trace d \<and> cbuf_send (apply_settings j ps s d) = cbuf_send d \<and>
      g_sockfd_client (apply_settings j ps s d) = g_sockfd_client d" for j s d
    by (induction ps arbitrary: j s d) (simp_all add: apply_setting_others apply_setting_fields)
  then show "trace (set_ports ps d) = trace d" "cbuf_send (set_ports ps d) = cbuf_send d"
    "g_sockfd_client (set_ports ps d) = g_sockfd_client d" by (simp_all add: set_ports_def)
qed

lemma length_set_uart_frame: "length (set_uart_frame ps) = 6 + 2 * length ps"
  by (induction ps) (simp_all add: set_uart_frame_def)

section \<open>Buffered serial data\<close>

text \<open>The blocks \<open>com_proc\<close> read from one port, handed over in order.\<close>

fun poll_all :: "nat \<Rightarrow> bytes list \<Rightarrow> dev \<Rightarrow> dev option" where
  "poll_all n [] d = Some d"
| "poll_all n (c # cs) d = do { d \<leftarrow> Protocol_SendComDataToNet_PollMode n c d; poll_all n cs d }"

lemma unat_of_nat_u16: "k < 65536 \<Longrightarrow> unat (of_nat k :: u16) = k"
  by (simp add: unat_of_nat take_bit_nat_eq_self)

lemma poll_port1:
  assumes "uart1_cnt d = of_nat k" "take k (uart1_recv_buf d) = t" "length (uart1_recv_buf d) = 2048"
    "k + length c < 2048"
  shows "\<exists>d'. Protocol_SendComDataToNet_PollMode 0 c d = Some d' \<and> uart1_cnt d' = of_nat (k + length c) \<and>
     take (k + length c) (uart1_recv_buf d') = t @ c \<and> length (uart1_recv_buf d') = 2048 \<and>
     cbuf d' = cbuf d \<and> uart2_cnt d' = uart2_cnt d \<and> uart2_recv_buf d' = uart2_recv_buf d"
proof -
  have "unat (of_nat k :: u16) = k" "unat (of_nat (k + length c) :: u16) = k + length c"
    using assms(4) by (simp_all add: unat_of_nat_u16 del: of_nat_add)
  moreover have "length t = k" using assms(2-4) by auto
  ultimately show ?thesis
    using assms
    by (simp add: Protocol_SendComDataToNet_PollMode_def UART_RECV_BUF_SIZE_def wrs_def Let_def)
qed

lemma poll_all_port1:
  assumes "uart1_cnt d = of_nat k" "take k (uart1_recv_buf d) = t" "length (uart1_recv_buf d) = 2048"
    "k + length (concat cs) < 2048"
  shows "\<exists>d'. poll_all 0 cs d = Some d' \<and> uart1_cnt d' = of_nat (k + length (concat cs)) \<and>
     take (k + length (concat cs)) (uart1_recv_buf d') = t @ concat cs \<and> length (uart1_recv_buf d') = 2048 \<and>
     cbuf d' = cbuf d"
  using assms
proof (induction cs arbitrary: d k t)
  case (Cons c cs)
  then obtain d1 where d1: "Protocol_SendComDataToNet_PollMode 0 c d = Some d1"
    "uart1_cnt d1 = of_nat (k + length c)" "take (k + length c) (uart1_recv_buf d1) = t @ c"
    "length (uart1_recv_buf d1) = 2048" "cbuf d1 = cbuf d"
    using poll_port1 [of d k t c] by auto
  with Cons.IH [OF d1(2,3,4)] Cons.prems(4) show ?case by (auto simp: add.assoc)
qed simp

text \<open>The reply that carries \<open>data\<close> as the received data of port \<open>p\<close>.\<close>

definition recv_frame :: "u8 \<Rightarrow> u16 \<Rightarrow> bytes \<Rightarrow> bytes" where
  "recv_frame p n data = frame PROTOCOL_ACK_QUERY_UART_RECV_DATA
     (p # ucast (n div 0x100) # ucast (n mod 0x100) # data)"

lemma make_ack_query_recv_port1:
  assumes "cbuf d ! 4 = 1" "4 < length (cbuf d)" "length (uart1_recv_buf d) = 2048"
    "unat (uart1_cnt d) \<le> 1016" "length b = 1024"
  shows "make_ack_query_uart_recv_data d b =
    (let f = recv_frame 1 (uart1_cnt d) (take (unat (uart1_cnt d)) (uart1_recv_buf d))
     in Some (length f, filled f b))"
  using assms
  by (simp add: make_ack_query_uart_recv_data_def rd_in wire_id_def ack_simps put_u16_def rds_def
      make_crc_num_def recv_frame_def frame_def Let_def)

end
