(* ===== verification/Users.thy ===== *)
theory Users
  imports Config
begin

text \<open>
  The user table \<open>con_usr\<close>: lookup, add, delete, rename and set-password of \<open>config.c\<close>, login
  of \<open>web_net.c\<close>. A slot is free when its name is empty. The interface \<open>user_table\<close> is the
  contract the management handlers rely on, a map from names to passwords; the 16-slot array
  with C strings interprets it while names are unique.
\<close>

section \<open>Operations\<close>

text \<open>The \<open>FOR (i, MAX_USR_NUM)\<close> search: the first index whose test holds.\<close>

fun find_idx :: "('a \<Rightarrow> bool option) \<Rightarrow> 'a list \<Rightarrow> nat \<Rightarrow> nat option option" where
  "find_idx p [] i = Some None"
| "find_idx p (x # xs) i = (case p x of None \<Rightarrow> None
     | Some b \<Rightarrow> if b then Some (Some i) else find_idx p xs (Suc i))"

abbreviation (input) users :: "dev \<Rightarrow> USR_INFO list" where
  "users d \<equiv> con_usr (g_conf_info d)"

definition get_usr_info :: "bytes \<Rightarrow> dev \<Rightarrow> nat option option" where
  "get_usr_info name d = find_idx (\<lambda>u. streq name (usr_name u)) (users d) 0"

definition upd_usr :: "nat \<Rightarrow> USR_INFO \<Rightarrow> dev \<Rightarrow> dev" where
  "upd_usr i u d = d\<lparr>g_conf_info := g_conf_info d\<lparr>con_usr := (users d)[i := u]\<rparr>\<rparr>"

definition sys_usr_add :: "bytes \<Rightarrow> bytes \<Rightarrow> dev \<Rightarrow> (int \<times> dev) option" where
  "sys_usr_add name psw d = do {
     r \<leftarrow> find_idx (\<lambda>u. map_option (\<lambda>c. c = 0) (rd (usr_name u) 0)) (users d) 0;
     case r of None \<Rightarrow> Some (cmd_code USR_ADD_FAILED, d)
     | Some i \<Rightarrow> do {
         let u = users d ! i;
         nm \<leftarrow> strcpy (usr_name u) name;
         pw \<leftarrow> strcpy (usr_passwd u) psw;
         Some (cmd_code USR_ADD_OK, config_save (upd_usr i (u\<lparr>usr_name := nm, usr_passwd := pw\<rparr>) d)) } }"

definition sys_usr_del :: "bytes \<Rightarrow> dev \<Rightarrow> (int \<times> dev) option" where
  "sys_usr_del name d = do {
     r \<leftarrow> get_usr_info name d;
     case r of None \<Rightarrow> Some (cmd_code USR_DEL_FAILED, d)
     | Some i \<Rightarrow> Some (cmd_code USR_DEL_OK,
         config_save (upd_usr i ((users d ! i)\<lparr>usr_name := zeros 24\<rparr>) d)) }"

definition set_usr_name :: "bytes \<Rightarrow> bytes \<Rightarrow> dev \<Rightarrow> (int \<times> dev) option" where
  "set_usr_name oname nname d = do {
     r \<leftarrow> get_usr_info oname d;
     case r of None \<Rightarrow> Some (cmd_code USR_MODIFY_FAILED, d)
     | Some i \<Rightarrow> do {
         nm \<leftarrow> strcpy (zeros 24) nname;
         Some (cmd_code USR_MODIFY_OK,
           config_save (upd_usr i ((users d ! i)\<lparr>usr_name := nm\<rparr>) d)) } }"

definition set_usr_psw :: "bytes \<Rightarrow> bytes \<Rightarrow> dev \<Rightarrow> (int \<times> dev) option" where
  "set_usr_psw name psw d = do {
     r \<leftarrow> get_usr_info name d;
     case r of None \<Rightarrow> Some (cmd_code USR_MODIFY_FAILED, d)
     | Some i \<Rightarrow> do {
         pw \<leftarrow> strcpy (zeros 24) psw;
         Some (cmd_code USR_MODIFY_OK,
           config_save (upd_usr i ((users d ! i)\<lparr>usr_passwd := pw\<rparr>) d)) } }"

definition sys_usr_login :: "bytes \<Rightarrow> bytes \<Rightarrow> dev \<Rightarrow> int option" where
  "sys_usr_login name psw d = do {
     r \<leftarrow> get_usr_info name d;
     case r of None \<Rightarrow> Some (cmd_code NO_USER)
     | Some i \<Rightarrow> do {
         same \<leftarrow> streq psw (usr_passwd (users d ! i));
         Some (if same then cmd_code LOGIN_OK else cmd_code ERROR_PSW) } }"

text \<open>\<open>get_usr_id\<close>: the index as a byte, 16 when there is no such user.\<close>

definition get_usr_id :: "bytes \<Rightarrow> dev \<Rightarrow> u8 option" where
  "get_usr_id name d = do {
     r \<leftarrow> get_usr_info name d;
     Some (case r of None \<Rightarrow> 16 | Some i \<Rightarrow> of_nat i) }"

section \<open>The table as a map\<close>

definition uname :: "USR_INFO \<Rightarrow> bytes" where
  "uname u = (case cstring (usr_name u) of None \<Rightarrow> [] | Some s \<Rightarrow> s)"

definition upass :: "USR_INFO \<Rightarrow> bytes" where
  "upass u = (case cstring (usr_passwd u) of None \<Rightarrow> [] | Some s \<Rightarrow> s)"

definition accounts :: "dev \<Rightarrow> bytes \<Rightarrow> bytes option" where
  "accounts d n = (if n = [] then None else map_option upass (find (\<lambda>u. uname u = n) (users d)))"

text \<open>Names and passwords are terminated strings, and no two slots share a non-empty name.\<close>

definition slot_ok :: "USR_INFO \<Rightarrow> bool" where
  "slot_ok u \<longleftrightarrow> length (usr_name u) = 24 \<and> length (usr_passwd u) = 24 \<and>
     0 \<in> set (usr_name u) \<and> 0 \<in> set (usr_passwd u)"

definition users_ok :: "dev \<Rightarrow> bool" where
  "users_ok d \<longleftrightarrow> (\<forall>u \<in> set (users d). slot_ok u) \<and>
     (\<forall>i < length (users d). \<forall>j < length (users d).
        uname (users d ! i) = uname (users d ! j) \<longrightarrow> uname (users d ! i) \<noteq> [] \<longrightarrow> i = j)"

text \<open>What fits a name or password field: no NUL, at most 23 bytes.\<close>

definition fits :: "bytes \<Rightarrow> bool" where
  "fits s \<longleftrightarrow> 0 \<notin> set s \<and> length s < 24"

section \<open>The interface\<close>

locale user_table =
  fixes view :: "'s \<Rightarrow> bytes \<Rightarrow> bytes option"
    and inv :: "'s \<Rightarrow> bool"
    and valid :: "bytes \<Rightarrow> bool"
    and add :: "bytes \<Rightarrow> bytes \<Rightarrow> 's \<Rightarrow> (int \<times> 's) option"
    and del :: "bytes \<Rightarrow> 's \<Rightarrow> (int \<times> 's) option"
    and set_psw :: "bytes \<Rightarrow> bytes \<Rightarrow> 's \<Rightarrow> (int \<times> 's) option"
    and login :: "bytes \<Rightarrow> bytes \<Rightarrow> 's \<Rightarrow> int option"
  assumes add_law: "inv s \<Longrightarrow> valid n \<Longrightarrow> n \<noteq> [] \<Longrightarrow> valid p \<Longrightarrow> view s n = None \<Longrightarrow>
        \<exists>r s'. add n p s = Some (r, s') \<and> inv s' \<and>
          (r = cmd_code USR_ADD_OK \<and> view s' = (view s)(n \<mapsto> p) \<or> r = cmd_code USR_ADD_FAILED \<and> s' = s)"
    and del_law: "inv s \<Longrightarrow> valid n \<Longrightarrow> n \<noteq> [] \<Longrightarrow>
        \<exists>r s'. del n s = Some (r, s') \<and> inv s' \<and> view s' = (view s)(n := None) \<and>
          r = (if view s n = None then cmd_code USR_DEL_FAILED else cmd_code USR_DEL_OK)"
    and set_psw_law: "inv s \<Longrightarrow> valid n \<Longrightarrow> n \<noteq> [] \<Longrightarrow> valid p \<Longrightarrow>
        \<exists>r s'. set_psw n p s = Some (r, s') \<and> inv s' \<and>
          (if view s n = None then r = cmd_code USR_MODIFY_FAILED \<and> s' = s
           else r = cmd_code USR_MODIFY_OK \<and> view s' = (view s)(n \<mapsto> p))"
    and login_law: "inv s \<Longrightarrow> valid n \<Longrightarrow> n \<noteq> [] \<Longrightarrow> valid p \<Longrightarrow>
        login n p s = Some (case view s n of None \<Rightarrow> cmd_code NO_USER
          | Some q \<Rightarrow> if p = q then cmd_code LOGIN_OK else cmd_code ERROR_PSW)"
begin

lemma login_iff:
  "inv s \<Longrightarrow> valid n \<Longrightarrow> n \<noteq> [] \<Longrightarrow> valid p \<Longrightarrow>
     login n p s = Some (cmd_code LOGIN_OK) \<longleftrightarrow> view s n = Some p"
  by (auto simp: login_law inj_cmd_code split: option.splits)

lemma add_then_login:
  assumes "inv s" "valid n" "n \<noteq> []" "valid p" "view s n = None"
    and a: "add n p s = Some (cmd_code USR_ADD_OK, s')" and q: "valid q"
  shows "login n q s' = Some (if q = p then cmd_code LOGIN_OK else cmd_code ERROR_PSW)"
proof -
  from add_law [OF assms(1-5)] a have "inv s'" "view s' = (view s)(n \<mapsto> p)"
    by (auto simp: inj_cmd_code)
  then show ?thesis using q assms by (auto simp: login_law)
qed

lemma add_frame:
  assumes "inv s" "valid n" "n \<noteq> []" "valid p" "view s n = None" "add n p s = Some (r, s')"
    and "m \<noteq> n" "valid m" "m \<noteq> []" "valid q"
  shows "login m q s' = login m q s"
  using add_law [OF assms(1-5)] assms by (auto simp: login_law)

lemma del_then_login:
  assumes "inv s" "valid n" "n \<noteq> []" "del n s = Some (r, s')" "valid q"
  shows "login n q s' = Some (cmd_code NO_USER)"
  using del_law [OF assms(1-3)] assms by (auto simp: login_law)

lemma set_psw_then_login:
  assumes "inv s" "valid n" "n \<noteq> []" "valid p" "view s n \<noteq> None"
    and "set_psw n p s = Some (r, s')" "valid q"
  shows "login n q s' = Some (if q = p then cmd_code LOGIN_OK else cmd_code ERROR_PSW)"
  using set_psw_law [OF assms(1-4)] assms by (auto simp: login_law)

end


section \<open>The array implements the interface\<close>

fun first_idx :: "('a \<Rightarrow> bool) \<Rightarrow> 'a list \<Rightarrow> nat \<Rightarrow> nat option" where
  "first_idx q [] i = None"
| "first_idx q (x # xs) i = (if q x then Some i else first_idx q xs (Suc i))"

lemma find_idx_total:
  "(\<And>x. x \<in> set xs \<Longrightarrow> p x = Some (q x)) \<Longrightarrow> find_idx p xs k = Some (first_idx q xs k)"
  by (induction xs arbitrary: k) auto

lemma first_idx_SomeD:
  "first_idx q xs k = Some i \<Longrightarrow>
     k \<le> i \<and> i - k < length xs \<and> q (xs ! (i - k)) \<and> (\<forall>j < i - k. \<not> q (xs ! j))"
proof (induction xs arbitrary: k)
  case Nil
  then show ?case by simp
next
  case (Cons x xs)
  show ?case
  proof (cases "q x")
    case True
    with Cons.prems show ?thesis by simp
  next
    case False
    with Cons.prems have "first_idx q xs (Suc k) = Some i" by simp
    from Cons.IH [OF this] have i: "Suc k \<le> i" "i - Suc k < length xs" "q (xs ! (i - Suc k))"
      "\<forall>j < i - Suc k. \<not> q (xs ! j)" by auto
    from i(1) have e: "i - k = Suc (i - Suc k)" by simp
    show ?thesis using i False unfolding e by (auto simp: less_Suc_eq_0_disj)
  qed
qed

lemma first_idx_0: "first_idx q xs 0 = Some i \<Longrightarrow> i < length xs \<and> q (xs ! i) \<and> (\<forall>j < i. \<not> q (xs ! j))"
  using first_idx_SomeD [of q xs 0 i] by simp

lemma first_idx_None: "first_idx q xs k = None \<longleftrightarrow> (\<forall>x \<in> set xs. \<not> q x)"
  by (induction xs arbitrary: k) auto

lemma find_first_idx: "find q xs = map_option (\<lambda>i. xs ! (i - k)) (first_idx q xs k)"
proof (induction xs arbitrary: k)
  case (Cons x xs)
  show ?case
  proof (cases "q x")
    case False
    have "map_option (\<lambda>i. xs ! (i - Suc k)) (first_idx q xs (Suc k))
        = map_option (\<lambda>i. (x # xs) ! (i - k)) (first_idx q xs (Suc k))"
    proof (cases "first_idx q xs (Suc k)")
      case (Some i)
      then have "Suc k \<le> i" using first_idx_SomeD [of q xs "Suc k" i] by blast
      then have "i - k = Suc (i - Suc k)" by (rule Suc_diff_Suc [OF Suc_le_lessD, symmetric])
      with Some show ?thesis by simp
    qed simp
    with False Cons.IH [of "Suc k"] show ?thesis by simp
  qed simp
qed simp

lemma find_update_other:
  "\<not> P (xs ! i) \<Longrightarrow> \<not> P u \<Longrightarrow> find P (xs[i := u]) = find P xs"
  by (induction xs arbitrary: i) (auto split: nat.splits)

lemma find_update_hit:
  "i < length xs \<Longrightarrow> \<forall>j < i. \<not> P (xs ! j) \<Longrightarrow> P u \<Longrightarrow> find P (xs[i := u]) = Some u"
proof (induction xs arbitrary: i)
  case (Cons x xs)
  then show ?case
    by (cases i) (auto simp: All_less_Suc2)
qed simp

lemma find_none_idx: "find P xs = None \<longleftrightarrow> (\<forall>i < length xs. \<not> P (xs ! i))"
  by (auto simp: find_None_iff in_set_conv_nth)

lemma cstring_ex: "0 \<in> set a \<Longrightarrow> \<exists>s. cstring a = Some s"
  by (induction a) auto

lemma slot_cstring:
  assumes "slot_ok u"
  shows "cstring (usr_name u) = Some (uname u)" "cstring (usr_passwd u) = Some (upass u)"
  using assms cstring_ex [of "usr_name u"] cstring_ex [of "usr_passwd u"]
  by (auto simp: slot_ok_def uname_def upass_def)

lemma streq_slot:
  assumes "slot_ok u" "cstring a = Some n"
  shows "streq a (usr_name u) = Some (uname u = n)" "streq a (usr_passwd u) = Some (upass u = n)"
  using streq_cstring [OF assms(2) slot_cstring(1) [OF assms(1)]]
    streq_cstring [OF assms(2) slot_cstring(2) [OF assms(1)]] by auto

lemma slot_free:
  assumes "slot_ok u"
  shows "map_option (\<lambda>c. c = 0) (rd (usr_name u) 0) = Some (uname u = [])"
  using assms slot_cstring(1) [OF assms]
  by (cases "usr_name u") (auto simp: slot_ok_def rd_def split: if_splits)

lemma get_usr_info_eq:
  assumes "users_ok d" "cstring a = Some n"
  shows "get_usr_info a d = Some (first_idx (\<lambda>u. uname u = n) (users d) 0)"
  unfolding get_usr_info_def
  using assms by (intro find_idx_total) (auto simp: users_ok_def streq_slot)

lemma accounts_eq:
  "accounts d n = (if n = [] then None
     else map_option (\<lambda>i. upass (users d ! i)) (first_idx (\<lambda>u. uname u = n) (users d) 0))"
  by (simp add: accounts_def find_first_idx [of _ _ 0] option.map_comp comp_def)

lemma strcpy_fits:
  assumes "fits s" "length dst = 24"
  obtains r where "strcpy dst (s @ [0]) = Some (s @ 0 # r)" "length (s @ 0 # r) = 24"
  using assms by (auto simp: strcpy_def fits_def cstring_append wrs_def)

lemma uname_update [simp]:
  "0 \<notin> set s \<Longrightarrow> uname (u\<lparr>usr_name := s @ 0 # r\<rparr>) = s"
  "0 \<notin> set s \<Longrightarrow> uname (u\<lparr>usr_name := s @ 0 # r, usr_passwd := p\<rparr>) = s"
  "uname (u\<lparr>usr_passwd := p\<rparr>) = uname u" "upass (u\<lparr>usr_name := p\<rparr>) = upass u"
  "0 \<notin> set s \<Longrightarrow> upass (u\<lparr>usr_passwd := s @ 0 # r\<rparr>) = s"
  "uname (u\<lparr>usr_name := zeros 24\<rparr>) = []"
  by (simp_all add: uname_def upass_def cstring_append zeros_def numeral_eq_Suc)

lemma config_save_users [simp]: "users (config_save d) = users d"
  by (simp add: config_save_def)

lemma users_ok_config_save [simp]: "users_ok (config_save d) = users_ok d"
  by (simp add: users_ok_def)

lemma accounts_config_save [simp]: "accounts (config_save d) = accounts d"
  by (simp add: accounts_def fun_eq_iff)

lemma users_upd_usr [simp]: "users (upd_usr i u d) = (users d)[i := u]"
  by (simp add: upd_usr_def)

text \<open>Writing a slot whose new name is free or unused keeps the table well formed.\<close>

lemma users_ok_upd:
  assumes "users_ok d" "slot_ok u" "i < length (users d)"
    and "\<And>j. j < length (users d) \<Longrightarrow> j \<noteq> i \<Longrightarrow> uname u \<noteq> [] \<Longrightarrow> uname (users d ! j) \<noteq> uname u"
  shows "users_ok (upd_usr i u d)"
  unfolding users_ok_def users_upd_usr
proof (intro conjI allI impI ballI)
  fix x assume "x \<in> set ((users d)[i := u])"
  then show "slot_ok x" using assms(1,2) set_update_subset_insert [of "users d" i u]
    by (auto simp: users_ok_def)
next
  fix k j
  assume "k < length ((users d)[i := u])" "j < length ((users d)[i := u])"
    "uname ((users d)[i := u] ! k) = uname ((users d)[i := u] ! j)"
    "uname ((users d)[i := u] ! k) \<noteq> []"
  then show "k = j" using assms(1,3) assms(4) [of j] assms(4) [of k]
    by (cases "k = i"; cases "j = i") (auto simp: users_ok_def)
qed

lemma first_idx_unique:
  assumes "users_ok d" "first_idx (\<lambda>u. uname u = n) (users d) 0 = Some i" "n \<noteq> []"
  shows "i < length (users d)" "uname (users d ! i) = n"
    and "\<And>j. j < length (users d) \<Longrightarrow> j \<noteq> i \<Longrightarrow> uname (users d ! j) \<noteq> n"
  using assms first_idx_0 [OF assms(2)] unfolding users_ok_def by auto

lemma slot_ok_nth: "users_ok d \<Longrightarrow> i < length (users d) \<Longrightarrow> slot_ok (users d ! i)"
  by (simp add: users_ok_def)


lemma accounts_upd_other:
  assumes "m \<noteq> uname (users d ! i)" "m \<noteq> uname u"
  shows "accounts (upd_usr i u d) m = accounts d m"
  using assms by (auto simp: accounts_def find_update_other)

lemma accounts_upd_name:
  assumes "users_ok d" "i < length (users d)" "uname u = n" "n \<noteq> []"
    and "\<And>j. j < length (users d) \<Longrightarrow> j \<noteq> i \<Longrightarrow> uname (users d ! j) \<noteq> n"
  shows "accounts (upd_usr i u d) n = Some (upass u)"
  using assms by (simp add: accounts_def find_update_hit)

lemma accounts_upd_gone:
  assumes "uname u = []" "n \<noteq> []"
    and "\<And>j. j < length (users d) \<Longrightarrow> j \<noteq> i \<Longrightarrow> uname (users d ! j) \<noteq> n"
  shows "accounts (upd_usr i u d) n = None"
proof -
  have "uname ((users d)[i := u] ! j) \<noteq> n" if "j < length (users d)" for j
    using assms that by (cases "j = i") auto
  then show ?thesis using assms(2) by (simp add: accounts_def find_none_idx)
qed

lemma accounts_None_iff:
  "n \<noteq> [] \<Longrightarrow> accounts d n = None \<longleftrightarrow> (\<forall>j < length (users d). uname (users d ! j) \<noteq> n)"
  by (simp add: accounts_def find_none_idx)

lemma cstring_fits: "fits n \<Longrightarrow> cstring (n @ [0]) = Some n"
  by (simp add: fits_def cstring_append)

lemma slot_ok_simps:
  "length a = 24 \<Longrightarrow> 0 \<in> set a \<Longrightarrow> slot_ok u \<Longrightarrow> slot_ok (u\<lparr>usr_name := a\<rparr>)"
  "length a = 24 \<Longrightarrow> 0 \<in> set a \<Longrightarrow> slot_ok u \<Longrightarrow> slot_ok (u\<lparr>usr_passwd := a\<rparr>)"
  by (simp_all add: slot_ok_def)

lemma add_meets_law:
  assumes ok: "users_ok d" and n: "fits n" "n \<noteq> []" and p: "fits p" and new: "accounts d n = None"
  shows "\<exists>r d'. sys_usr_add (n @ [0]) (p @ [0]) d = Some (r, d') \<and> users_ok d' \<and>
     (r = cmd_code USR_ADD_OK \<and> accounts d' = (accounts d)(n \<mapsto> p) \<or>
      r = cmd_code USR_ADD_FAILED \<and> d' = d)"
proof -
  have f: "find_idx (\<lambda>u. map_option (\<lambda>c. c = 0) (rd (usr_name u) 0)) (users d) 0
      = Some (first_idx (\<lambda>u. uname u = []) (users d) 0)"
    using ok by (intro find_idx_total) (auto simp: users_ok_def slot_free)
  show ?thesis
  proof (cases "first_idx (\<lambda>u. uname u = []) (users d) 0")
    case None
    with f ok show ?thesis by (simp add: sys_usr_add_def)
  next
    case (Some i)
    let ?u = "users d ! i"
    from first_idx_0 [OF Some] have i: "i < length (users d)" "uname ?u = []" by auto
    then have s: "slot_ok ?u" using ok slot_ok_nth by blast
    obtain r1 where r1: "strcpy (usr_name ?u) (n @ [0]) = Some (n @ 0 # r1)" "length (n @ 0 # r1) = 24"
      using strcpy_fits [OF n(1), of "usr_name ?u"] s by (auto simp: slot_ok_def)
    obtain r2 where r2: "strcpy (usr_passwd ?u) (p @ [0]) = Some (p @ 0 # r2)" "length (p @ 0 # r2) = 24"
      using strcpy_fits [OF p(1), of "usr_passwd ?u"] s by (auto simp: slot_ok_def)
    define u where "u = ?u\<lparr>usr_name := n @ 0 # r1, usr_passwd := p @ 0 # r2\<rparr>"
    have u: "slot_ok u" "uname u = n" "upass u = p"
      using s r1 r2 n p by (simp_all add: u_def slot_ok_def fits_def upass_def cstring_append)
    have fresh: "uname (users d ! j) \<noteq> n" if "j < length (users d)" for j
      using new that n(2) by (simp add: accounts_None_iff)
    have "sys_usr_add (n @ [0]) (p @ [0]) d
        = Some (cmd_code USR_ADD_OK, config_save (upd_usr i u d))"
      using f Some r1 r2 by (simp add: sys_usr_add_def u_def)
    moreover have "users_ok (upd_usr i u d)"
      using ok u i fresh by (intro users_ok_upd) auto
    moreover have "accounts (upd_usr i u d) m = ((accounts d)(n \<mapsto> p)) m" for m
    proof (cases "m = n")
      case True
      then show ?thesis using accounts_upd_name [OF ok i(1) u(2) n(2)] fresh u(3) by simp
    next
      case False
      show ?thesis
      proof (cases "m = []")
        case True
        with False show ?thesis by (simp add: accounts_def)
      next
        case mn: False
        with False i(2) u(2) show ?thesis by (simp add: accounts_upd_other)
      qed
    qed
    ultimately show ?thesis by auto
  qed
qed

lemma del_meets_law:
  assumes ok: "users_ok d" and n: "fits n" "n \<noteq> []"
  shows "\<exists>r d'. sys_usr_del (n @ [0]) d = Some (r, d') \<and> users_ok d' \<and>
     accounts d' = (accounts d)(n := None) \<and>
     r = (if accounts d n = None then cmd_code USR_DEL_FAILED else cmd_code USR_DEL_OK)"
proof (cases "first_idx (\<lambda>u. uname u = n) (users d) 0")
  case None
  then have "accounts d n = None" by (simp add: accounts_eq)
  then show ?thesis
    using None ok get_usr_info_eq [OF ok cstring_fits [OF n(1)]]
    by (simp add: sys_usr_del_def fun_upd_idem)
next
  case (Some i)
  note i = first_idx_unique [OF ok Some n(2)]
  define u where "u = (users d ! i)\<lparr>usr_name := zeros 24\<rparr>"
  have u: "slot_ok u" "uname u = []"
    using slot_ok_nth [OF ok i(1)] by (simp_all add: u_def slot_ok_def set_zeros)
  have a: "accounts d n \<noteq> None" using Some n(2) by (simp add: accounts_eq)
  have "sys_usr_del (n @ [0]) d = Some (cmd_code USR_DEL_OK, config_save (upd_usr i u d))"
    using Some get_usr_info_eq [OF ok cstring_fits [OF n(1)]] by (simp add: sys_usr_del_def u_def)
  moreover have "users_ok (upd_usr i u d)" using ok u i by (intro users_ok_upd) auto
  moreover have "accounts (upd_usr i u d) m = ((accounts d)(n := None)) m" for m
  proof (cases "m = n \<or> m = []")
    case True
    then show ?thesis using accounts_upd_gone [of u n d i] u(2) n(2) i(3) by (auto simp: accounts_def)
  next
    case False
    then show ?thesis using u(2) i(2) by (simp add: accounts_upd_other)
  qed
  ultimately show ?thesis using a by auto
qed

lemma set_psw_meets_law:
  assumes ok: "users_ok d" and n: "fits n" "n \<noteq> []" and p: "fits p"
  shows "\<exists>r d'. set_usr_psw (n @ [0]) (p @ [0]) d = Some (r, d') \<and> users_ok d' \<and>
     (if accounts d n = None then r = cmd_code USR_MODIFY_FAILED \<and> d' = d
      else r = cmd_code USR_MODIFY_OK \<and> accounts d' = (accounts d)(n \<mapsto> p))"
proof (cases "first_idx (\<lambda>u. uname u = n) (users d) 0")
  case None
  then have "accounts d n = None" by (simp add: accounts_eq)
  then show ?thesis
    using None ok get_usr_info_eq [OF ok cstring_fits [OF n(1)]] by (simp add: set_usr_psw_def)
next
  case (Some i)
  note i = first_idx_unique [OF ok Some n(2)]
  obtain r where r: "strcpy (zeros 24) (p @ [0]) = Some (p @ 0 # r)" "length (p @ 0 # r) = 24"
    using strcpy_fits [OF p, of "zeros 24"] by auto
  define u where "u = (users d ! i)\<lparr>usr_passwd := p @ 0 # r\<rparr>"
  have u: "slot_ok u" "uname u = n" "upass u = p"
    using slot_ok_nth [OF ok i(1)] i(2) r p by (simp_all add: u_def slot_ok_def fits_def)
  have a: "accounts d n \<noteq> None" using Some n(2) by (simp add: accounts_eq)
  have "set_usr_psw (n @ [0]) (p @ [0]) d = Some (cmd_code USR_MODIFY_OK, config_save (upd_usr i u d))"
    using Some r get_usr_info_eq [OF ok cstring_fits [OF n(1)]] by (simp add: set_usr_psw_def u_def)
  moreover have "users_ok (upd_usr i u d)" using ok u i by (intro users_ok_upd) auto
  moreover have "accounts (upd_usr i u d) m = ((accounts d)(n \<mapsto> p)) m" for m
  proof (cases "m = n")
    case True
    then show ?thesis using accounts_upd_name [OF ok i(1) u(2) n(2) i(3)] u(3) by simp
  next
    case False
    then show ?thesis using u(2) i(2) by (simp add: accounts_upd_other)
  qed
  ultimately show ?thesis using a by auto
qed

lemma login_meets_law:
  assumes ok: "users_ok d" and n: "fits n" "n \<noteq> []" and p: "fits p"
  shows "sys_usr_login (n @ [0]) (p @ [0]) d = Some (case accounts d n of None \<Rightarrow> cmd_code NO_USER
     | Some q \<Rightarrow> if p = q then cmd_code LOGIN_OK else cmd_code ERROR_PSW)"
proof (cases "first_idx (\<lambda>u. uname u = n) (users d) 0")
  case None
  then show ?thesis using get_usr_info_eq [OF ok cstring_fits [OF n(1)]]
    by (simp add: sys_usr_login_def accounts_eq)
next
  case (Some i)
  note i = first_idx_unique [OF ok Some n(2)]
  have "streq (p @ [0]) (usr_passwd (users d ! i)) = Some (upass (users d ! i) = p)"
    by (rule streq_slot(2) [OF slot_ok_nth [OF ok i(1)] cstring_fits [OF p]])
  then show ?thesis using Some n get_usr_info_eq [OF ok cstring_fits [OF n(1)]]
    by (auto simp: sys_usr_login_def accounts_eq)
qed

interpretation ut: user_table accounts users_ok fits
  "\<lambda>n p. sys_usr_add (n @ [0]) (p @ [0])" "\<lambda>n. sys_usr_del (n @ [0])"
  "\<lambda>n p. set_usr_psw (n @ [0]) (p @ [0])" "\<lambda>n p. sys_usr_login (n @ [0]) (p @ [0])"
  using add_meets_law del_meets_law set_psw_meets_law login_meets_law
  by unfold_locales blast+

end
