(* ===== verification/Examples.thy ===== *)
theory Examples
  imports Client_Facts Users
begin

text \<open>
  A concrete device for the examples that instantiate the theorems: a factory-like
  configuration, buffers of the declared sizes, every pin exported and low, the alarm server
  connected on descriptor 5, the serial ports on 3 and 4. \<open>demo msg\<close> has just received \<open>msg\<close>.
\<close>

definition pad :: "nat \<Rightarrow> bytes \<Rightarrow> bytes" where
  "pad n s = s @ zeros (n - length s)"

lemma length_pad [simp]: "length s \<le> n \<Longrightarrow> length (pad n s) = n"
  by (simp add: pad_def)

definition demo_conf :: CONFI_DATA where
  "demo_conf = \<lparr>
     con_sys = \<lparr>host_name = zeros 32, host_pos = zeros 32, host_sn = zeros 32, sw_ver = zeros 32,
        hw_ver = zeros 32, host_id = zeros 32, description = zeros 32, sys_rsvd = zeros 32\<rparr>,
     con_net = \<lparr>dev_ip = 0xa601a8c0, dev_nm = 0xffffff, dev_gw = 0x0101a8c0, dev_dhcp = 0, dhcp_id = 0,
        dns = [0x0101a8c0, 0], dev_mac = [0x88, 0x5c, 0x47, 0, 0, 1], net_rsvd = zeros 26\<rparr>,
     con_vlan = \<lparr>vlan_enable = 0, vlan_id = 0, vlan_rsvd = zeros 8\<rparr>,
     con_com = [default_com 0, default_com 1], con_mode = [default_mode 0, default_mode 1],
     con_lim = [default_lim 0, default_lim 1],
     con_usr = (default_usr 0)\<lparr>usr_name := pad 24 (bytes_of ''root''), usr_passwd := pad 24 (bytes_of ''pw''),
        usr_auth := USR_ROOT\<rparr> # map default_usr [1 ..< 16],
     con_server = \<lparr>server_ip = 0x6c01a8c0, server_port = 8888, dns_str = pad 50 (bytes_of SERVER_DNS)\<rparr>,
     con_gpio = \<lparr>alarm = [0, 0, 0], alarm_on_off = [1, 1, 1], gpio_output = zeros 4, sensor = zeros 30\<rparr>,
     con_sensor = default_sensors\<rparr>"

definition demo :: "bytes \<Rightarrow> dev" where
  "demo msg = \<lparr>g_conf_info = demo_conf, flash = Some [], flash_writable = True, flash_script = [],
     gcomfd = [3, 4], rs_type = 0, tty_script = [],
     tty_attr = (\<lambda>_. \<lparr>c_iflag = {}, c_oflag = {}, c_cflag = {}, c_lflag = {}, c_size = 8, c_ispeed = 9600,
        c_ospeed = 9600, c_vtime = 0, c_vmin = 0\<rparr>),
     tty_set_ok = True, pins = (\<lambda>_. Some [48, 10]), am2301 = Some (pad 30 (bytes_of ''25.3C  61.2'')),
     g_alarm_in = zeros 8, get_com_attr = zero_COM, get_com_attr_max = [zero_COM, zero_COM],
     set_com_attr_max = [zero_COM, zero_COM], heartbeat_s = 10, heartbeat_timeout = 0,
     g_sockfd_client = 5, g_reconnect_flag = RECONNECT_OFF, g_sockfd_client_status = SOCKFD_CLIENT_OK,
     cbuf = msg @ zeros (2097152 - length msg), cbuf_send = zeros 1024, g_uart_send_cnt = 0,
     uart1_recv_buf = zeros 2048, uart1_cnt = 0, uart2_recv_buf = zeros 2048, uart2_cnt = 0, trace = []\<rparr>"

definition demo_uninit :: uninit where
  "demo_uninit = \<lparr>u_sensor = sensor_of 0 0 [] [], u_return = 0, u_am2301 = zeros 30\<rparr>"

lemma ok_demo_conf: "ok_CONFI_DATA demo_conf"
  by (simp add: demo_conf_def ok_CONFI_DATA_def ok_CONFIG_SYS_def ok_CONFIG_NET_def ok_CONFIG_VLAN_def
      ok_CONFIG_COM_def ok_CONFIG_MODE_def ok_CONFIG_SESSION_def ok_CONFIG_LIMIT_def ok_USR_INFO_def
      ok_CONFIG_SERVER_def ok_CONFIG_GPIO_def ok_CONFIG_SENSOR_def default_com_def zero_COM_def
      default_mode_def zero_SESSION_def default_lim_def default_usr_def default_sensors_def sensor_of_def
      SERVER_DNS_def list_all_iff)

lemma ok_demo: "length msg \<le> 2097152 \<Longrightarrow> ok_dev (demo msg)"
  using ok_demo_conf by (simp add: demo_def ok_dev_def ok_CONFIG_COM_def zero_COM_def)

lemma ok_demo_uninit: "ok_uninit demo_uninit"
  by (simp add: ok_uninit_def demo_uninit_def sensor_of_def ok_CONFIG_SENSOR_def)

lemma demo_fields [simp]:
  "g_conf_info (demo msg) = demo_conf" "cbuf (demo msg) = msg @ zeros (2097152 - length msg)"
  "cbuf_send (demo msg) = zeros 1024" "flash_writable (demo msg)" "trace (demo msg) = []"
  "g_sockfd_client (demo msg) = 5" "gcomfd (demo msg) = [3, 4]" "tty_set_ok (demo msg)"
  "g_alarm_in (demo msg) = zeros 8" "con_sensor demo_conf = default_sensors"
  "con_com demo_conf = [default_com 0, default_com 1]"
  by (simp_all add: demo_def demo_conf_def)

lemma sensors_ok_demo: "sensors_ok (demo msg)"
  by (simp add: sensors_ok_def default_sensors_def sensor_of_def sensor_ok_def ok_CONFIG_SENSOR_def
      SINGLE_SENSOR_MAX_NUM_def)

lemma is_cmd_Cons: "is_cmd pid (a # b # c # e # r) \<longleftrightarrow> a = 0x55 \<and> b = 0xaa \<and> c = proto_code pid \<and> e = 1"
  by (auto simp: is_cmd_def PROTOCOL_HEAD_1_def PROTOCOL_HEAD_2_def ALARM_DEVICE_ID_def)

lemmas demo_simps = ok_demo sensors_ok_demo ok_demo_uninit default_sensors_def sensor_of_def
  sensor_bytes_def sensor_pairs_def frame_def sensor_types upt_rec PROTOCOL_HEAD_1_def
  PROTOCOL_HEAD_2_def ALARM_DEVICE_ID_def is_cmd_Cons nth_append

end
