(* ===== verification/Client_Props.thy ===== *)
theory Client_Props
  imports Examples
begin

text \<open>The properties of the alarm-server protocol, each with an example.\<close>

lemma four_bytes: "ok_dev d \<Longrightarrow> 4 \<le> length (cbuf d)"
  by (simp add: ok_dev_def)

lemma check_cmd_ok: "ok_dev d \<Longrightarrow> is_cmd pid (cbuf d) \<Longrightarrow> \<not> num < least \<Longrightarrow> check_cmd least pid (cbuf d) num = Some 0"
  by (simp add: check_cmd_eq four_bytes)

lemmas dispatch_simps = client_dispatch_def is_cmd_rd four_bytes check_defs check_cmd_ok checked_def Let_def

lemma get_device_attr_dispatch:
  assumes "ok_dev d" "sensors_ok d" "is_cmd PROTOCOL_GET_DEVICE_ATTR (cbuf d)" "5 \<le> num"
  shows "client_dispatch u num d
    = Some (sent (frame PROTOCOL_ACK_GET_DEVICE_ATTR (4 # all_sensor_bytes d)) d)"
  using assms length_all_sensor_bytes [OF assms(2)] ok_dev_bufs [OF assms(1)]
  by (simp add: dispatch_simps make_ack_get_device_attr_eq reply_sent not_less)

section \<open>Device attributes\<close>

text \<open>GET_DEVICE_ATTR is answered with the four sensor groups of the configuration, each as
  type, count and the pairs of sequence number and attribute, and changes nothing but the send
  buffer.\<close>

theorem get_device_attr_reply:
  assumes "ok_dev d" "sensors_ok d" "is_cmd PROTOCOL_GET_DEVICE_ATTR (cbuf d)" "5 \<le> num"
  shows "client_dispatch u num d = Some (sent (frame PROTOCOL_ACK_GET_DEVICE_ATTR
     (4 # concat (map sensor_bytes (con_sensor (g_conf_info d))))) d)"
  using get_device_attr_dispatch [OF assms] by (simp add: all_sensor_bytes_def)

theorem get_device_attr_reply_witness:
  "client_dispatch demo_uninit 5 (demo [0x55, 0xaa, 1, 1, 0]) = Some (sent
     [0x55, 0xaa, 2, 1, 4, 0, 2, 1, 0, 2, 1, 1, 3, 1, 0, 2, 0, 3, 0, 2, 2, 1, 0, 2, 0, 3, 1, 1, 0, 0]
     (demo [0x55, 0xaa, 1, 1, 0]))"
  using get_device_attr_reply [of "demo [0x55, 0xaa, 1, 1, 0]" 5 demo_uninit] by (simp add: demo_simps)

text \<open>SET_DEVICE_ATTR with a count of at most 8 stores the count and the pairs of the message in
  the alarm-input group, saves the configuration so that it survives a restart, and answers with
  the group now stored.\<close>

theorem set_device_attr_stores:
  assumes "ok_dev d" "sensors_ok d" "is_cmd PROTOCOL_SET_DEVICE_ATTR (cbuf d)" "7 \<le> num"
    and "unat (cbuf d ! 4) \<le> 8" and "flash_writable d" and "ok_CONFI_DATA junk"
  shows "\<exists>d'. client_dispatch u num d = Some d' \<and> ok_dev d' \<and>
     con_sensor (g_conf_info d') = (con_sensor (g_conf_info d))
       [SENSOR_TYPE_IO_IN := wire_sensor (cbuf d) 4 (con_sensor (g_conf_info d) ! SENSOR_TYPE_IO_IN)] \<and>
     g_conf_info (restart junk d') = g_conf_info d' \<and>
     trace d' = trace d @ [EvWrite (g_sockfd_client d) (frame PROTOCOL_ACK_SET_DEVICE_ATTR
       (let s = con_sensor (g_conf_info d') ! SENSOR_TYPE_IO_IN in sen_num s # sensor_pairs s))]"
proof -
  let ?s = "wire_sensor (cbuf d) 4 (sensors d ! SENSOR_TYPE_IO_IN)"
  let ?d = "config_save (with_sensor SENSOR_TYPE_IO_IN ?s d)"
  have l: "20 < length (cbuf d)" "length (cbuf_send d) = 1024" using ok_dev_bufs [OF assms(1)] by simp_all
  have s: "ok_CONFIG_SENSOR (sensors d ! SENSOR_TYPE_IO_IN)" "length (sensors d) = 4"
    using ok_dev_sensor [OF assms(1), of SENSOR_TYPE_IO_IN] by (simp_all add: sensor_types)
  have num: "unat (sen_num ?s) \<le> 8" using assms(5) by (simp add: wire_sensor_def Let_def)
  have ok: "ok_CONFIG_SENSOR ?s" using ok_wire_sensor [OF s(1), of "cbuf d" 4] assms(5) by simp
  then have so: "sensor_ok ?s" using num by (simp add: sensor_ok_def SINGLE_SENSOR_MAX_NUM_def)
  have d: "ok_dev ?d" using ok_with_sensor [OF assms(1) ok] by simp
  have ds: "sensors_ok ?d"
    using assms(2) so s set_update_subset_insert [of "sensors d" SENSOR_TYPE_IO_IN ?s]
    by (auto simp: sensors_ok_def)
  let ?f = "frame PROTOCOL_ACK_SET_DEVICE_ATTR (sen_num ?s # sensor_pairs ?s)"
  have f: "length ?f \<le> 1024" using length_sensor_bytes_le [OF so] by (simp add: sensor_bytes_def)
  have b: "make_ack_set_device_attr ?d (cbuf_send d) = Some (length ?f, filled ?f (cbuf_send d))"
    using make_ack_set_device_attr_eq [OF ds l(2)] s by (simp add: sensor_types Let_def)
  have "client_dispatch u num d = Some (sent ?f ?d)"
    using assms l b f
    by (simp add: dispatch_simps not_less set_alarmin_device_attr_eq SINGLE_SENSOR_MAX_NUM_def reply_sent)
  moreover have "restart junk (sent ?f ?d) = (restart junk ?d)\<lparr>cbuf_send := cbuf_send (sent ?f ?d), trace := trace (sent ?f ?d)\<rparr>"
    by (simp add: restart_def config_load_def sent_def emit_def split: option.splits prod.splits)
  moreover have "g_conf_info (restart junk ?d) = g_conf_info ?d"
    using ok_dev_parts(1) [OF d] assms(6,7) by (intro store.restart_after [OF refl]) simp_all
  ultimately show ?thesis
    using d f s ok_dev_sent [OF d f] by (auto simp: sensor_types Let_def)
qed

theorem set_device_attr_stores_witness:
  "\<exists>d'. client_dispatch demo_uninit 9 (demo [0x55, 0xaa, 3, 1, 1, 4, 1, 0]) = Some d' \<and>
     g_conf_info (restart demo_conf d') = g_conf_info d' \<and>
     trace d' = [EvWrite 5 [0x55, 0xaa, 4, 1, 1, 4, 1, 0]]"
  using set_device_attr_stores [of "demo [0x55, 0xaa, 3, 1, 1, 4, 1, 0]" 9 demo_conf demo_uninit]
  by (force simp: demo_simps ok_demo_conf wire_sensor_def stored_def Let_def)

text \<open>C14: a count above 8 is stored and saved before it is refused; the handler then leaves the
  defined behaviour of C when it builds the reply, and so does a later GET_DEVICE_ATTR, also
  after a restart from the saved file.\<close>

theorem set_device_attr_overload:
  assumes "ok_dev d" "is_cmd PROTOCOL_SET_DEVICE_ATTR (cbuf d)" "7 \<le> num" "8 < unat (cbuf d ! 4)"
  shows "\<exists>d'. set_alarmin_device_attr (cbuf d) d = Some d' \<and> ok_dev d' \<and>
     sen_num (con_sensor (g_conf_info d') ! SENSOR_TYPE_IO_IN) = cbuf d ! 4 \<and>
     (flash_writable d \<longrightarrow> flash d' = Some (enc_CONFI_DATA (g_conf_info d'))) \<and>
     client_dispatch u num d = None \<and> make_ack_get_device_attr d' (cbuf_send d') = None"
proof -
  let ?s = "(sensors d ! SENSOR_TYPE_IO_IN)\<lparr>sen_num := cbuf d ! 4\<rparr>"
  let ?d = "config_save (with_sensor SENSOR_TYPE_IO_IN ?s d)"
  have l: "4 < length (cbuf d)" using ok_dev_bufs [OF assms(1)] by simp
  have s: "ok_CONFIG_SENSOR ?s" "length (sensors d) = 4"
    using ok_dev_sensor [OF assms(1), of SENSOR_TYPE_IO_IN]
    by (simp_all add: sensor_types ok_CONFIG_SENSOR_def)
  have set: "set_alarmin_device_attr (cbuf d) d = Some ?d"
    using s l assms(4)
    by (simp add: set_alarmin_device_attr_def rd_in sensor_types upd_sensor_eq
        set_one_sensor_buf_overload SINGLE_SENSOR_MAX_NUM_def)
  have ok: "ok_dev ?d" using ok_with_sensor [OF assms(1) s(1)] by simp
  have at: "sensors ?d ! SENSOR_TYPE_IO_IN = ?s" "rd (sensors ?d) SENSOR_TYPE_IO_IN = Some ?s"
    using s by (simp_all add: sensor_types rd_in)
  have none: "get_one_sensor_buf ?s off b = None" for off b
    using get_one_sensor_buf_overload [OF s(1)] assms(4) by simp
  have "client_dispatch u num d = None"
    using assms set at none l
    by (simp add: dispatch_simps not_less reply_def make_ack_set_device_attr_def bind_eq_None_conv)
  moreover have "make_ack_get_device_attr ?d b = None" for b
    using at none by (auto simp: make_ack_get_device_attr_def get_all_sensor_buf_def bind_eq_None_conv Let_def)
  moreover have "flash ?d = Some (enc_CONFI_DATA (g_conf_info ?d))" if "flash_writable d"
    using that ok_dev_parts(1) [OF ok_with_sensor [OF assms(1) s(1)]] by (simp add: config_save_flash)
  ultimately show ?thesis using set ok at by (intro exI [of _ ?d]) simp
qed

theorem set_device_attr_overload_witness:
  "client_dispatch demo_uninit 9 (demo [0x55, 0xaa, 3, 1, 9]) = None"
  using set_device_attr_overload [of "demo [0x55, 0xaa, 3, 1, 9]" 9 demo_uninit]
  by (auto simp: demo_simps)

section \<open>Serial port attributes\<close>

lemma set_uart_dispatch:
  assumes "ok_dev d" "is_cmd PROTOCOL_SET_UART_ATTR (cbuf d)" "14 \<le> num" "holds_settings ps (cbuf d)"
    "list_all good_setting ps"
  shows "client_dispatch u num d = Some (sent (set_uart_frame ps) (set_ports ps d))"
proof -
  have l: "length (cbuf_send d) = 1024" using ok_dev_bufs [OF assms(1)] by simp
  have n: "length (set_uart_frame ps) \<le> 1024"
    using assms(4) by (simp add: length_set_uart_frame holds_settings_def)
  show ?thesis
    using assms l n
    by (simp add: dispatch_simps not_less make_ack_set_uart_attr_good reply_dev_def client_write_filled
        sent_def set_ports_frame)
qed

text \<open>C3: SET_UART_ATTR with one or two acceptable settings for different ports is answered with a
  pass for each of them, and a GET_UART_ATTR that follows reports exactly the settings sent (port
  numbers without their top bit).\<close>

theorem uart_attr_round_trip:
  assumes "ok_dev d" "is_cmd PROTOCOL_SET_UART_ATTR (cbuf d)" "14 \<le> num" "holds_settings ps (cbuf d)"
    and "list_all good_setting ps" "distinct (map setting_port ps)" "rd cmdbuf 4 = Some c4"
  shows "\<exists>d'. client_dispatch u num d = Some d' \<and>
     trace d' = trace d @ [EvWrite (g_sockfd_client d) (set_uart_frame ps)] \<and>
     (let f = frame PROTOCOL_ACK_GET_UART_ATTR (c4 # concat (map report_bytes ps))
      in make_ack_get_uart_attr d' cmdbuf (cbuf_send d') =
           Some (length f, filled f (cbuf_send d'), d'\<lparr>get_com_attr_max := con_com (g_conf_info d')\<rparr>))"
proof -
  let ?d = "sent (set_uart_frame ps) (set_ports ps d)"
  have disp: "client_dispatch u num d = Some ?d" for u by (rule set_uart_dispatch) (use assms in simp_all)
  have ok: "ok_dev ?d" by (rule client_dispatch_ok [OF disp assms(1) ok_demo_uninit])
  have n: "ps \<noteq> []" "length ps \<le> 2" "unat (of_nat (length ps) :: u8) = length ps"
    using assms(4) by (simp_all add: holds_settings_def unat_of_nat take_bit_nat_eq_self)
  note r = set_ports_report [OF assms(1) n(1,2) assms(5,6)]
  have "length ps \<noteq> 0" using n(1) by simp
  then have "length ps = 1 \<or> length ps = 2" using n(2) by linarith
  then have "uart_ok ?d" using r n(3) by (auto simp: uart_ok_def Let_def)
  moreover have "uart_attr_frame ?d c4 = frame PROTOCOL_ACK_GET_UART_ATTR (c4 # concat (map report_bytes ps))"
    using r n(3) by (simp add: uart_attr_frame_def Let_def)
  ultimately show ?thesis
    using disp make_ack_get_uart_attr_eq [OF ok _ _ assms(7), of "cbuf_send ?d"] ok_dev_bufs [OF ok]
    by (simp add: set_ports_frame Let_def)
qed

theorem uart_attr_round_trip_witness:
  "\<exists>d'. client_dispatch demo_uninit 14 (demo [0x55, 0xaa, 15, 1, 1, 0x82, 1, 0, 0x25, 0x80, 8, 1, 0, 0]) = Some d' \<and>
     (\<exists>b. make_ack_get_uart_attr d' [0x55, 0xaa, 13, 1, 1, 0, 0] (cbuf_send d') = Some (14, b, d'\<lparr>get_com_attr_max := con_com (g_conf_info d')\<rparr>) \<and>
       take 14 b = [0x55, 0xaa, 14, 1, 1, 2, 1, 0, 0x25, 0x80, 8, 1, 0, 0])"
  using uart_attr_round_trip [of "demo [0x55, 0xaa, 15, 1, 1, 0x82, 1, 0, 0x25, 0x80, 8, 1, 0, 0]" 14
      "[\<lparr>p_seq = 0x82, p_attr = 1, p_rate = (0, 0x25, 0x80), p_dbit = 8, p_sbit = 1, p_parity = 0\<rparr>]"
      "[0x55, 0xaa, 13, 1, 1, 0, 0]" 1 demo_uninit]
  by (force simp: demo_simps holds_settings_def setting_bytes_def good_setting_def setting_port_def
      RESET_MSB_def is_good_uart_def setting_com_def calc_baud_rate_def baud_rates_def
      return_local_odd_even_def SET_UART_ATTR_PASS_def rd_def rds_def report_bytes_def Let_def take_filled)

section \<open>Serial data\<close>

text \<open>In poll mode the blocks read from the first serial port are collected in order, and a
  query for that port is answered with all of them, as long as they fit the reply buffer.\<close>

theorem poll_mode_collects:
  assumes "ok_dev d" "uart1_cnt d = 0" "length (concat cs) \<le> 1016" "cbuf d ! 4 = 1" "length b = 1024"
  shows "\<exists>d'. poll_all 0 cs d = Some d' \<and> make_ack_query_uart_recv_data d' b =
    Some (8 + length (concat cs), filled (recv_frame 1 (of_nat (length (concat cs))) (concat cs)) b)"
proof -
  have l: "length (uart1_recv_buf d) = 2048" "4 < length (cbuf d)" using assms(1) by (simp_all add: ok_dev_def)
  obtain d' where d': "poll_all 0 cs d = Some d'" "uart1_cnt d' = of_nat (length (concat cs))"
    "take (length (concat cs)) (uart1_recv_buf d') = concat cs" "length (uart1_recv_buf d') = 2048" "cbuf d' = cbuf d"
    using poll_all_port1 [of d 0 "[]" cs] assms(2,3) l by auto
  have "unat (uart1_cnt d') = length (concat cs)"
    unfolding d'(2) using assms(3) by (intro unat_of_nat_u16) simp
  then show ?thesis
    using d' assms(3-5) l make_ack_query_recv_port1 [of d' b]
    by (simp add: recv_frame_def Let_def)
qed

theorem poll_mode_collects_witness:
  "\<exists>d'. poll_all 0 [[104, 101], [108], [108, 111]] (demo [0x55, 0xaa, 22, 1, 1, 0]) = Some d' \<and>
     make_ack_query_uart_recv_data d' (zeros 1024) =
       Some (13, filled [0x55, 0xaa, 23, 1, 1, 0, 5, 104, 101, 108, 108, 111, 0] (zeros 1024))"
  using poll_mode_collects [of "demo [0x55, 0xaa, 22, 1, 1, 0]" "[[104, 101], [108], [108, 111]]" "zeros 1024"]
  by (simp add: demo_simps recv_frame_def) (simp add: demo_def)

text \<open>The second serial port does not collect. Every block is stored at the start of the
  buffer while the counter grows by its length, so after two blocks the counter says both are
  there and the first one has been overwritten.\<close>

theorem poll_mode_port2_overwrites:
  assumes "ok_dev d" "uart2_cnt d = 0" "length a + length c < 2048"
  shows "\<exists>d'. poll_all 1 [a, c] d = Some d' \<and> uart2_cnt d' = of_nat (length a + length c) \<and>
     take (length c) (uart2_recv_buf d') = c \<and>
     drop (length c) (uart2_recv_buf d') = drop (length c) (a @ drop (length a) (uart2_recv_buf d))"
proof -
  have l: "length (uart2_recv_buf d) = 2048" using assms(1) by (simp add: ok_dev_def)
  have u: "unat (of_nat (length a) :: u16) = length a"
    "unat (of_nat (length a) + of_nat (length c) :: u16) = length a + length c"
    using assms(3) unat_of_nat_u16 [of "length a"] unat_of_nat_u16 [of "length a + length c"] by simp_all
  show ?thesis
    using assms l u
    by (simp add: Protocol_SendComDataToNet_PollMode_def UART_RECV_BUF_SIZE_def wrs_def Let_def)
qed

theorem poll_mode_port2_overwrites_witness:
  "\<exists>d'. poll_all 1 [[1, 2, 3], [9]] (demo []) = Some d' \<and> uart2_cnt d' = 4 \<and> take 1 (uart2_recv_buf d') = [9]"
  using poll_mode_port2_overwrites [of "demo []" "[1, 2, 3]" "[9]"] by (auto simp: demo_simps) (auto simp: demo_def)

text \<open>The counter is never reset. Once it is past the buffer, a block that carries it over
  2^16 back below the buffer size is stored at the old, far larger offset: outside the buffer.\<close>

theorem poll_counter_wraps_out_of_bounds:
  assumes "ok_dev d" "2048 \<le> unat (uart1_cnt d)" "65536 \<le> unat (uart1_cnt d) + length data"
    and "unat (uart1_cnt d) + length data < 65536 + 2048"
  shows "Protocol_SendComDataToNet_PollMode 0 data d = None"
proof -
  have "unat (uart1_cnt d + of_nat (length data)) = (unat (uart1_cnt d) + length data) mod 65536"
    by (simp add: unat_word_ariths unat_of_nat take_bit_eq_mod mod_add_right_eq)
  also have "\<dots> < 2048"
  proof -
    obtain k where "unat (uart1_cnt d) + length data = 65536 + k" using assms(3) le_Suc_ex by blast
    then show ?thesis using assms(4) by simp
  qed
  finally show ?thesis
    using assms(1-3)
    by (simp add: Protocol_SendComDataToNet_PollMode_def UART_RECV_BUF_SIZE_def wrs_def Let_def ok_dev_def)
qed

theorem poll_counter_wraps_out_of_bounds_witness:
  "Protocol_SendComDataToNet_PollMode 0 (replicate 100 7) ((demo [])\<lparr>uart1_cnt := 65500\<rparr>) = None"
  using poll_counter_wraps_out_of_bounds [of "(demo [])\<lparr>uart1_cnt := 65500\<rparr>" "replicate 100 7"] ok_demo [of "[]"]
  by (simp add: ok_dev_def)

text \<open>UART_SEND_DATA writes to the serial port the number of bytes the message names, taken from
  the receive buffer after the message's seven header bytes, and reports that number. The number
  of bytes actually received is not looked at, so a message that promises more than it carries
  sends what earlier messages left in the buffer.\<close>

theorem uart_send_data_forwards:
  assumes "ok_dev d" "is_cmd PROTOCOL_UART_SEND_DATA (cbuf d)" "8 \<le> num"
    and "cbuf d ! 4 = 1 \<or> cbuf d ! 4 = 2"
    and "n = (ucast (cbuf d ! 5) * 0x100 + ucast (cbuf d ! 6) :: u16)" "0 < n" "n \<le> 0x800"
    and "rs_type d = com_type_code RS232" "tty_script d = []"
  shows "\<exists>d'. client_dispatch u num d = Some d' \<and> trace d' = trace d @
     [EvUart (gcomfd d ! (unat (cbuf d ! 4) - 1)) [Out (take (unat n) (drop 7 (cbuf d)))],
      EvWrite (g_sockfd_client d) (frame PROTOCOL_ACK_UART_SEND_DATA
        [cbuf d ! 4, ucast (n div 0x100), ucast (n mod 0x100)])]"
proof -
  let ?d = "d\<lparr>get_com_attr := (get_com_attr d)\<lparr>com_id := wire_id (cbuf d ! 4)\<rparr>, g_uart_send_cnt := n\<rparr>"
  have l: "length (cbuf d) = 2097152" "length (cbuf_send d) = 1024" "length (gcomfd d) = 2"
    using ok_dev_bufs [OF assms(1)] assms(1) by (simp_all add: ok_dev_def)
  have n: "0 < unat n" "unat n \<le> 2048"
    using assms(6,7) by (simp_all add: word_le_nat_alt word_less_nat_alt)
  have t: "length (take (unat n) (drop 7 (cbuf d))) = unat n" "take (unat n) (drop 7 (cbuf d)) \<noteq> []"
    using l n by auto
  have check: "check_for_uart_send_data (cbuf d) num d = Some (0, ?d)"
    using assms(2,3,5) l check_protocol_head_eq [of "cbuf d" PROTOCOL_UART_SEND_DATA]
    by (simp add: check_for_uart_send_data_def not_less check_for_crc_def rd_in Let_def)
  have id: "unat (wire_id (cbuf d ! 4)) = unat (cbuf d ! 4) - 1" "ucast (wire_id (cbuf d ! 4) + 1) = cbuf d ! 4"
    "unat (wire_id (cbuf d ! 4)) < 2"
    using assms(4) by (auto simp: wire_id_def)
  have pos: "uint n \<noteq> -1" using unsigned_greater_eq [of n, where ?'a = int] by linarith
  have send: "uart_send_data (cbuf d) ?d = Some (int (unat n),
      emit (EvUart (gcomfd d ! (unat (cbuf d ! 4) - 1)) [Out (take (unat n) (drop 7 (cbuf d)))]) ?d)"
    using assms(8,9) l n id t pos
    by (simp add: uart_send_data_def rds_def SendNetDataToCom_all rd_in)
  have small: "\<not> 0x800 < n" using assms(7) by simp
  have "make_ack_uart_send_data ?d (cbuf_send d) = Some (8, filled (frame PROTOCOL_ACK_UART_SEND_DATA
        [cbuf d ! 4, ucast (n div 0x100), ucast (n mod 0x100)]) (cbuf_send d),
      emit (EvUart (gcomfd d ! (unat (cbuf d ! 4) - 1)) [Out (take (unat n) (drop 7 (cbuf d)))]) ?d)"
    using send small id l order.strict_implies_not_eq [OF assms(6)] id(3)[unfolded not_le [symmetric]]
    by (simp add: make_ack_uart_send_data_def ack_simps put_u16_def MAX_COM_PORT_def make_crc_num_def
        frame_def Let_def)
  then show ?thesis
    using assms(2) check l
    by (simp add: dispatch_simps reply_dev_def client_write_filled)
qed

theorem uart_send_data_forwards_witness:
  "\<exists>d'. client_dispatch demo_uninit 9 (demo [0x55, 0xaa, 19, 1, 2, 0, 3, 65, 66]) = Some d' \<and>
     trace d' = [EvUart 4 [Out [65, 66, 0]], EvWrite 5 [0x55, 0xaa, 20, 1, 2, 0, 3, 0]]"
  using uart_send_data_forwards [of "demo [0x55, 0xaa, 19, 1, 2, 0, 3, 65, 66]" 9 3 demo_uninit]
  by (simp add: demo_simps) (simp add: demo_def zeros_def take_replicate)

section \<open>Heartbeat\<close>

text \<open>SET_HEARTBEAT is answered with the interval, which becomes the new limit; the timer starts
  again, the link counts as alive and the server LED is switched on.\<close>

theorem set_heartbeat_restarts:
  assumes "ok_dev d" "is_cmd PROTOCOL_SET_HEARTBEAT (cbuf d)" "6 \<le> num" "t = cbuf d ! 4"
    and "pins d (gpio_code LED_D3_ALARM_SERVER_STATUS) \<noteq> None"
  shows "\<exists>d'. client_dispatch u num d = Some d' \<and> heartbeat_s d' = t \<and> heartbeat_timeout d' = 0 \<and>
     g_reconnect_flag d' = HEARTBEAT_ONLINE \<and>
     trace d' = trace d @ [EvWrite (g_sockfd_client d) (frame PROTOCOL_ACK_SET_HEARTBEAT [t]), EvGpio 34 [48]]"
proof -
  have l: "4 < length (cbuf d)" "length (cbuf_send d) = 1024" using ok_dev_bufs [OF assms(1)] by simp_all
  have "check_for_set_heartbeat (cbuf d) num d = Some (0, d\<lparr>heartbeat_s := t\<rparr>)"
    using assms(2-4) l check_protocol_head_eq [of "cbuf d" PROTOCOL_SET_HEARTBEAT]
    by (simp add: check_for_set_heartbeat_def not_less check_for_crc_def rd_in Let_def)
  moreover have "rd (cbuf d) 4 = Some t" using l assms(4) by (simp add: rd_in)
  ultimately show ?thesis
    using assms(1,2,3,5) l
    by (simp add: dispatch_simps fixed_reply_eqs reply_def client_write_filled set_heartbeat_def
        led_ctrl_def set_gpio_def LED_ON_def decimal.simps digit_def)
qed

theorem set_heartbeat_restarts_witness:
  "\<exists>d'. client_dispatch demo_uninit 6 (demo [0x55, 0xaa, 9, 1, 30, 0]) = Some d' \<and> heartbeat_s d' = 30 \<and>
     trace d' = [EvWrite 5 [0x55, 0xaa, 10, 1, 30, 0], EvGpio 34 [48]]"
  using set_heartbeat_restarts [of "demo [0x55, 0xaa, 9, 1, 30, 0]" 6 30 demo_uninit]
  by (auto simp: demo_simps) (auto simp: demo_def)

section \<open>The dispatcher\<close>



end
