(* ===== verification/Device_Props.thy ===== *)
theory Device_Props
  imports Examples Com
begin

text \<open>The properties of the configuration, the user table, the pins and the serial ports.\<close>

section \<open>Addresses and complete writes\<close>

text \<open>The string \<open>sys_ip2str_static\<close> leaves in its 16-byte buffer fits it with its terminator, and
  \<open>sys_str2ip\<close> reads the same address back from it.\<close>

theorem address_text_round_trip:
  "\<exists>t. sys_ip2str_static ip = Some t \<and> length t = 16 \<and> 0 \<in> set t \<and> sys_str2ip t = Some ip"
  using length_ip_text [of ip] by (simp add: sys_ip2str_static_eq str2ip_ip_text)

text \<open>C13: \<open>writen\<close> and \<open>writen_rs485\<close>, whatever the kernel takes per call, either write the whole buffer in order
  and return its length, or return the negative result of the failing call after a strict prefix;
  the RS485 form holds its lock from before the first byte until after the last in both cases.\<close>

theorem writen_complete_or_error:
  "\<exists>out r sc'. writen sc ptr = (r, out, sc') \<and> writen_rs485 sc ptr = (r, Lock # map Out out @ [Unlock], sc') \<and>
     (r = int (length ptr) \<and> concat out = ptr \<or>
      r < 0 \<and> (\<exists>lost. ptr = concat out @ lost \<and> 0 < length lost))"
proof -
  obtain r out sc' where w: "writen sc ptr = (r, out, sc')" by (metis prod_cases3)
  then have "writen_rs485 sc ptr = (r, Lock # map Out out @ [Unlock], sc')"
    by (auto simp: writen_def writen_rs485_def split: prod.splits)
  with w show ?thesis using writen_result [OF w] by auto
qed

section \<open>Configuration\<close>

text \<open>C6: the memory image of a configuration is 1860 bytes long and decodes to the configuration, so
  what a save writes, \<open>fwrite\<close> taking any number of bytes per call, is what the next start loads.\<close>

theorem configuration_survives_restart:
  assumes "ok_CONFI_DATA (g_conf_info d)" "flash_writable d" "ok_CONFI_DATA junk"
  shows "length (enc_CONFI_DATA (g_conf_info d)) = 1860 \<and>
     flash (config_save d) = Some (enc_CONFI_DATA (g_conf_info d)) \<and>
     g_conf_info (restart junk (config_save d)) = g_conf_info d"
  using assms cDATA.enc_length [OF assms(1)]
  by (simp add: config_save_flash store.restart_save)

theorem configuration_survives_restart_witness:
  "g_conf_info (restart demo_conf (config_save ((demo [])\<lparr>flash_script := [3, 1000]\<rparr>))) = demo_conf"
  using configuration_survives_restart [of "(demo [])\<lparr>flash_script := [3, 1000]\<rparr>" demo_conf] ok_demo_conf
  by simp

text \<open>The image on which \<open>config_makedefault\<close> ends.\<close>

lemma default_gpio:
  "alarm_on_off_all \<lparr>alarm = [0, 0, 0], alarm_on_off = zeros 3, gpio_output = zeros 4, sensor = zeros 30\<rparr>
    = Some \<lparr>alarm = [0, 0, 0], alarm_on_off = [1, 1, 1], gpio_output = [1, 1, 1, 1], sensor = 1 # zeros 29\<rparr>"
  by (subst alarm_on_off_all_eq) (simp_all add: ok_CONFIG_GPIO_def zeros_def numeral_eq_Suc)

lemma bytes_of_no_nul: "list_all (\<lambda>c. (of_char c :: u8) \<noteq> 0) s \<Longrightarrow> 0 \<notin> set (bytes_of s)"
  by (auto simp: bytes_of_def list_all_iff)

lemma strcpy_Some:
  "0 \<notin> set s \<Longrightarrow> length s < length dst \<Longrightarrow> strcpy dst (s @ [0]) = Some (s @ 0 # drop (Suc (length s)) dst)"
  by (simp add: strcpy_def cstring_append wrs_def)

definition ok_stamp :: "bytes \<Rightarrow> bytes \<Rightarrow> (bytes \<Rightarrow> bytes \<Rightarrow> bytes) \<Rightarrow> bool" where
  "ok_stamp date time crypt \<longleftrightarrow> length date = 11 \<and> length time = 8 \<and> 0 \<notin> set date \<and> 0 \<notin> set time \<and>
     fits (crypt (bytes_of ''123456'') (bytes_of USR_SALT))"

lemma default_conf_parts:
  assumes "ok_stamp date time crypt"
  shows "\<exists>c. default_conf date time crypt = Some c \<and> ok_CONFI_DATA c \<and>
     con_usr c = (default_usr 0)\<lparr>usr_name := pad 24 (bytes_of ''root''),
        usr_passwd := pad 24 (crypt (bytes_of ''123456'') (bytes_of USR_SALT)), usr_auth := USR_ROOT\<rparr>
        # map default_usr [1 ..< 16] \<and>
     con_com c = map default_com [0, 1] \<and> con_sensor c = default_sensors \<and>
     gpio_output (con_gpio c) = [1, 1, 1, 1] \<and> dev_ip (con_net c) = 0xa601a8c0 \<and>
     dev_mac (con_net c) = [0x88, 0x5c, 0x47, 0, 0, 0]"
proof -
  let ?pw = "crypt (bytes_of ''123456'') (bytes_of USR_SALT)"
  have pw: "0 \<notin> set ?pw" "length ?pw < 24" using assms by (simp_all add: ok_stamp_def fits_def)
  have st: "length date = 11" "length time = 8" "0 \<notin> set date" "0 \<notin> set time"
    using assms by (simp_all add: ok_stamp_def)
  have sw: "\<exists>v. strcpy (zeros 32) (bytes_of PROGRAM_VERSION @ [32, 32] @ date @ [32, 32] @ time @ [0]) = Some v \<and> length v = 32"
    using strcpy_Some [of "bytes_of PROGRAM_VERSION @ [32, 32] @ date @ [32, 32] @ time" "zeros 32"] st
    by (simp add: PROGRAM_VERSION_def bytes_of_def)
  then obtain v where v: "strcpy (zeros 32) (bytes_of PROGRAM_VERSION @ [32, 32] @ date @ [32, 32] @ time @ [0]) = Some v"
    "length v = 32" by blast
  have lit: "0 \<notin> set (bytes_of PRODUCT_NAME)" "0 \<notin> set (bytes_of HW_VERSION)" "0 \<notin> set (bytes_of HW_SN)"
    "0 \<notin> set (bytes_of ''root'')" "0 \<notin> set (bytes_of SERVER_DNS)"
    by (simp_all add: PRODUCT_NAME_def HW_VERSION_def HW_SN_def SERVER_DNS_def bytes_of_def)
  have len: "length PRODUCT_NAME = 4" "length HW_VERSION = 4" "length HW_SN = 20" "length SERVER_DNS = 13"
    by (simp_all add: PRODUCT_NAME_def HW_VERSION_def HW_SN_def SERVER_DNS_def)
  have n: "n - m = k \<Longrightarrow> drop m (zeros n) = zeros k" for n m k by (auto simp: zeros_def)
  obtain hn where hn: "strcpy (zeros 32) (bytes_of PRODUCT_NAME @ [0]) = Some hn" "length hn = 32"
    using lit len by (simp add: strcpy_Some)
  obtain hw where hw: "strcpy (zeros 32) (bytes_of HW_VERSION @ [0]) = Some hw" "length hw = 32"
    using lit len by (simp add: strcpy_Some)
  obtain sn where sn: "strcpy (zeros 32) (bytes_of HW_SN @ [0]) = Some sn" "length sn = 32"
    using lit len by (simp add: strcpy_Some)
  have rn: "strcpy (zeros 24) (bytes_of ''root'' @ [0]) = Some (pad 24 (bytes_of ''root''))"
    using lit by (simp add: strcpy_Some pad_def n) (simp add: zeros_def numeral_eq_Suc)
  have rp: "strcpy (zeros 24) (?pw @ [0]) = Some (pad 24 ?pw)"
    using pw by (simp add: strcpy_Some pad_def zeros_def Cons_replicate_eq Suc_diff_Suc)
  obtain dn where dn: "strcpy (zeros 50) (bytes_of SERVER_DNS @ [0]) = Some dn" "length dn = 50"
    using lit len by (simp add: strcpy_Some)
  note eqs = hn(1) hw(1) sn(1) v(1) rn rp dn(1) default_gpio default_net_def default_server_def
  show ?thesis
    unfolding default_conf_def eqs str_ip_defaults Option.bind.bind_lunit Let_def
    using hn(2) hw(2) sn(2) v(2) dn(2) pw(2)
    by (auto simp add: eqs str_ip_defaults ok_CONFI_DATA_def ok_CONFIG_SYS_def ok_CONFIG_NET_def ok_CONFIG_VLAN_def
        ok_CONFIG_COM_def ok_CONFIG_MODE_def ok_CONFIG_SESSION_def ok_CONFIG_LIMIT_def ok_USR_INFO_def
        ok_CONFIG_SERVER_def ok_CONFIG_GPIO_def ok_CONFIG_SENSOR_def default_com_def zero_COM_def
        default_mode_def zero_SESSION_def default_lim_def default_usr_def default_sensors_def sensor_of_def
        list_all_iff)
qed

text \<open>The first start, without a configuration file, writes the defaults to the file; every later
  start, from any memory content, finds the same configuration (the hardware address of the
  interface in both) and leaves the file alone.\<close>

theorem first_start_sets_defaults:
  assumes "flash d = None" "flash_writable d" "ok_stamp date time crypt" "length hwaddr = 6" "ok_CONFI_DATA junk"
  shows "\<exists>c d1 d2. default_conf date time crypt = Some c \<and>
     config_init date time crypt hwaddr d = Some d1 \<and> flash d1 = Some (enc_CONFI_DATA c) \<and>
     g_conf_info d1 = c\<lparr>con_net := con_net c\<lparr>dev_mac := hwaddr\<rparr>\<rparr> \<and>
     config_init date time crypt hwaddr (d1\<lparr>g_conf_info := junk\<rparr>) = Some d2 \<and>
     g_conf_info d2 = g_conf_info d1 \<and> flash d2 = flash d1"
proof -
  obtain c where c: "default_conf date time crypt = Some c" "ok_CONFI_DATA c" "dev_mac (con_net c) = [0x88, 0x5c, 0x47, 0, 0, 0]"
    using default_conf_parts [OF assms(3)] by blast
  have mac: "length (dev_mac (con_net c)) = 6" by (simp add: c(3))
  let ?d = "config_save (d\<lparr>g_conf_info := c\<rparr>)"
  obtain t where t: "config_net_set (con_net c) ?d = Some (?d\<lparr>trace := t\<rparr>)"
    using config_net_set_eq [OF mac, of ?d] by blast
  have f: "flash ?d = Some (enc_CONFI_DATA c)" using c(2) assms(2) by (simp add: config_save_flash)
  define d1 where "d1 = get_mac_init hwaddr (?d\<lparr>trace := t\<rparr>)"
  have d1: "config_init date time crypt hwaddr d = Some d1" "flash d1 = Some (enc_CONFI_DATA c)"
    "g_conf_info d1 = c\<lparr>con_net := con_net c\<lparr>dev_mac := hwaddr\<rparr>\<rparr>"
    using t f assms(1,4) c(1) by (simp_all add: config_init_def config_makedefault_def d1_def get_mac_init_def)
  let ?e = "d1\<lparr>g_conf_info := c\<rparr>"
  obtain t2 where t2: "config_net_set (con_net c) ?e = Some (?e\<lparr>trace := t2\<rparr>)"
    using config_net_set_eq [OF mac, of ?e] by blast
  have "config_init date time crypt hwaddr (d1\<lparr>g_conf_info := junk\<rparr>) = Some (get_mac_init hwaddr (?e\<lparr>trace := t2\<rparr>))"
    using t2 d1(2) c(2) config_load_image [of "d1\<lparr>g_conf_info := junk\<rparr>" c] by (simp add: config_init_def)
  then show ?thesis
    using c(1) d1 assms(4)
    by - (rule exI [of _ c], rule exI [of _ d1], rule exI, (rule conjI, assumption)+, auto simp: get_mac_init_def)
qed

definition demo_crypt :: "bytes \<Rightarrow> bytes \<Rightarrow> bytes" where
  "demo_crypt key salt = map (\<lambda>b. b OR 0x40) (take 13 (salt @ key))"

lemma ok_stamp_demo: "ok_stamp (bytes_of ''Nov 18 2025'') (bytes_of ''22:00:00'') demo_crypt"
  by (simp add: ok_stamp_def bytes_of_def fits_def demo_crypt_def USR_SALT_def)

theorem first_start_sets_defaults_witness:
  "\<exists>c d1 d2. default_conf (bytes_of ''Nov 18 2025'') (bytes_of ''22:00:00'') demo_crypt = Some c \<and>
     config_init (bytes_of ''Nov 18 2025'') (bytes_of ''22:00:00'') demo_crypt [1, 2, 3, 4, 5, 6] ((demo [])\<lparr>flash := None\<rparr>) = Some d1 \<and>
     flash d1 = Some (enc_CONFI_DATA c) \<and>
     config_init (bytes_of ''Nov 18 2025'') (bytes_of ''22:00:00'') demo_crypt [1, 2, 3, 4, 5, 6] (d1\<lparr>g_conf_info := demo_conf\<rparr>) = Some d2 \<and>
     g_conf_info d2 = g_conf_info d1"
  using first_start_sets_defaults [OF _ _ ok_stamp_demo _ ok_demo_conf, of "(demo [])\<lparr>flash := None\<rparr>" "[1, 2, 3, 4, 5, 6]"]
  by auto



section \<open>Alarm inputs\<close>

text \<open>The thread over time: before each turn the pins take new levels; \<open>v\<close> is the uninitialised local
  of that turn.\<close>

fun alarm_watch :: "(u32 \<times> (nat \<Rightarrow> bytes option)) list \<Rightarrow> alarm_state \<times> dev \<Rightarrow> alarm_state \<times> dev" where
  "alarm_watch [] st = st"
| "alarm_watch ((v, p) # ps) st = alarm_watch ps (alarm_turn v (fst st) ((snd st)\<lparr>pins := p\<rparr>))"

definition levels :: "(u32 \<times> (nat \<Rightarrow> bytes option)) list \<Rightarrow> bytes list" where
  "levels ps = map (\<lambda>(v, p). get_alarm v ((demo [])\<lparr>pins := p\<rparr>)) ps"

lemma get_lines_pins: "pins d = pins e \<Longrightarrow> get_lines ns v d = get_lines ns v e"
  by (induction ns arbitrary: v) (simp_all add: get_gpio_def)

lemma alarm_watch_run:
  "alarm_watch ps st = (a, d) \<Longrightarrow> alarm_run (levels ps) (fst st, g_alarm_in (snd st)) = (a, g_alarm_in d)"
proof (induction ps arbitrary: st)
  case (Cons x ps)
  obtain v p where x: "x = (v, p)" by fastforce
  have g: "get_alarm v ((snd st)\<lparr>pins := p\<rparr>) = get_alarm v ((demo [])\<lparr>pins := p\<rparr>)"
    unfolding get_alarm_def by (rule get_lines_pins) simp
  from Cons.IH [of "alarm_turn v (fst st) ((snd st)\<lparr>pins := p\<rparr>)"] Cons.prems show ?case
    by (simp add: x levels_def alarm_turn_def g split_beta Let_def)
qed (simp add: levels_def)

lemma since_change_recent:
  "(\<exists>k < m. since_change s ini us = Some k) \<longleftrightarrow>
     (\<exists>j < length us. length us \<le> j + m \<and> us ! j \<noteq> (ini # us) ! j) \<or> (\<exists>k. s = Some k \<and> k + length us < m)"
proof (induction us arbitrary: s ini)
  case (Cons u us)
  show ?case
    by (simp add: Cons.IH Suc_le_eq Ex_less_Suc2 del: Ex_less_Suc) auto
qed auto

text \<open>C5: the alarm flag of an input is on exactly when its level has changed between two successive
  turns within the last 300 turns (30 seconds); the counters, 32 bits wide, never make an old
  change count again.\<close>

theorem alarm_flag_window:
  assumes "i < 8" "g_alarm_in d ! i = ALARM_OFF" "alarm_watch ps (a, d) = (a', d')"
  shows "g_alarm_in d' ! i = (if \<exists>j < length ps. length ps \<le> j + 300 \<and>
       levels ps ! j ! i \<noteq> (alarm_init a # levels ps) ! j ! i then ALARM_ON else ALARM_OFF)"
proof -
  let ?us = "map (\<lambda>u. u ! i) (levels ps)"
  have l: "length (levels ps) = length ps" by (simp add: levels_def)
  have "flag_ok None (alarm_off_count a ! i, g_alarm_in d ! i)" using assms(2) by (simp add: flag_ok_def)
  from channel_run_flag_ok [OF this, of "alarm_init a ! i" ?us] alarm_run_nth [OF assms(1), of "levels ps" "(a, g_alarm_in d)"]
    alarm_watch_run [OF assms(3)]
  have f: "flag_ok (since_change None (alarm_init a ! i) ?us) (alarm_off_count a' ! i, g_alarm_in d' ! i)" by simp
  have w: "(\<exists>k < 300. since_change None (alarm_init a ! i) ?us = Some k) \<longleftrightarrow>
      (\<exists>j < length ps. length ps \<le> j + 300 \<and> levels ps ! j ! i \<noteq> (alarm_init a # levels ps) ! j ! i)"
    using l by (simp add: since_change_recent nth_Cons' cong: conj_cong)
  show ?thesis using f unfolding w [symmetric] by (auto simp: flag_ok_def split: option.splits if_splits)
qed

theorem alarm_flag_window_witness:
  "\<exists>a' d'. alarm_watch [(0, \<lambda>_. Some [48]), (0, (\<lambda>_. Some [48])(54 := Some [49])), (0, \<lambda>_. Some [49])]
     (\<lparr>alarm_init = zeros 8, alarm_off_count = replicate 8 0\<rparr>, demo []) = (a', d') \<and> g_alarm_in d' ! 1 = ALARM_ON"
proof -
  let ?ps = "[(0, \<lambda>_. Some [48]), (0, (\<lambda>_. Some [48])(54 := Some [49])), (0, \<lambda>_. Some [49])]"
  let ?a = "\<lparr>alarm_init = zeros 8, alarm_off_count = replicate 8 (0 :: u32)\<rparr>"
  obtain a' d' where w: "alarm_watch ?ps (?a, demo []) = (a', d')" by fastforce
  have "levels ?ps ! 2 ! 1 \<noteq> (alarm_init ?a # levels ?ps) ! 2 ! 1"
    by (simp add: levels_def get_alarm_def alarm_lines_def get_gpio_def Let_def)
  then show ?thesis using alarm_flag_window [OF _ _ w, of 1] w
    by (auto simp: zeros_def ALARM_OFF_def)
qed

section \<open>The reset key\<close>

text \<open>C11: the factory reset runs exactly when the reset key reads low and still reads low three seconds
  later; a key that is high, or released in between, changes nothing in the device.\<close>

theorem reset_key_needs_two_reads:
  assumes "pins d (gpio_code CFG_KEY) = Some (c1 # r1)" "later (gpio_code CFG_KEY) = Some (c2 # r2)"
    and "c1 = 48 \<or> c1 = 49" "c2 = 48 \<or> c2 = 49" "v = GS_LOW \<or> v = GS_HIGH"
  shows "cfg_key_turn later v d =
     (if c1 = 49 then Some (GS_HIGH, d)
      else let e = (emit (EvSleep 3) d)\<lparr>pins := later\<rparr>
           in if c2 = 49 then Some (GS_HIGH, e) else map_option (\<lambda>d. (GS_LOW, d)) (reconfig e))"
proof -
  have g: "v = 0 \<or> v = 1" using assms(5) by (simp add: GS_LOW_def GS_HIGH_def)
  have r1: "get_gpio CFG_KEY v d = (0, if c1 = 49 then GS_HIGH else GS_LOW)"
    using get_gpio_level [OF assms(1,3) g] assms(3) by (auto simp: GS_LOW_def GS_HIGH_def)
  have r2: "get_gpio CFG_KEY GS_LOW ((emit (EvSleep 3) d)\<lparr>pins := later\<rparr>) = (0, if c2 = 49 then GS_HIGH else GS_LOW)"
    using get_gpio_level [of "(emit (EvSleep 3) d)\<lparr>pins := later\<rparr>" CFG_KEY c2 r2 GS_LOW] assms(2,4)
    by (auto simp: GS_LOW_def GS_HIGH_def)
  have ne: "GS_HIGH \<noteq> GS_LOW" by (simp add: GS_LOW_def GS_HIGH_def)
  show ?thesis
  proof (cases "c1 = 49")
    case False
    let ?e = "(emit (EvSleep 3) d)\<lparr>pins := later\<rparr>"
    have "cfg_key_turn later v d = (if c2 = 49 then Some (GS_HIGH, ?e)
        else do { d \<leftarrow> reconfig ?e; Some (GS_LOW, d) })"
      using False r1 r2 ne by (simp add: cfg_key_turn_def Let_def)
    with False show ?thesis by (cases "reconfig ?e") (simp_all add: Let_def)
  qed (use r1 ne in \<open>simp add: cfg_key_turn_def\<close>)
qed

theorem reset_key_needs_two_reads_witness:
  "cfg_key_turn (\<lambda>_. Some [49]) GS_HIGH (demo []) = Some (GS_HIGH, (emit (EvSleep 3) (demo []))\<lparr>pins := \<lambda>_. Some [49]\<rparr>)"
  using reset_key_needs_two_reads [of "demo []" 48 "[10]" "\<lambda>_. Some [49]" 49 "[]" GS_HIGH]
  by (simp add: demo_def)

section \<open>Serial line settings\<close>

text \<open>C12: a legal port setting (5 to 8 data bits, parity 1 to 3, 1 or 2 stop bits) gives the terminal
  of the port that line format and speed, raw and with the receiver on; a speed that is not in the
  table becomes 115200. An illegal one leaves every terminal as it was. The transceiver type,
  one variable for both ports, is switched in both cases.\<close>

theorem port_setting_reaches_the_line:
  assumes "ok_dev d" "com_id c = 1 \<or> com_id c = 2" "0 < gcomfd d ! (unat (com_id c) - 1)" "tty_set_ok d"
  shows "\<exists>d'. com_set c d = Some d' \<and> rs_type d' = com_type c \<and>
     (if legal_com (dbit c) (chk c) (sbit c)
      then \<exists>t. tty_attr d' = (tty_attr d)(gcomfd d ! (unat (com_id c) - 1) := t) \<and>
        line_format t = (baud (bps c), unat (dbit c), (chk c \<noteq> 3, chk c = 2), sbit c = 2) \<and>
        c_ispeed t = baud (bps c) \<and> {CLOCAL, CREAD} \<subseteq> c_cflag t \<and> c_lflag t \<inter> {ICANON, ECHO, ECHOE, ISIG} = {}
      else tty_attr d' = tty_attr d)"
proof -
  let ?fd = "gcomfd d ! (unat (com_id c) - 1)"
  have fd: "com_fd (unat (com_id c)) d = Some ?fd" using assms(1,2) by (auto simp: com_fd_def rd_in ok_dev_def)
  show ?thesis
  proof (cases "legal_com (dbit c) (chk c) (sbit c)")
    case True
    from setTTY_legal [OF assms(3) True assms(4), of "bps c"] obtain t where
      "setTTY ?fd (bps c) (dbit c) (chk c) (sbit c) d = (1, d\<lparr>tty_attr := (tty_attr d)(?fd := t)\<rparr>)"
      "line_format t = (baud (bps c), unat (dbit c), (chk c \<noteq> 3, chk c = 2), sbit c = 2)"
      "c_ispeed t = baud (bps c)" "{CLOCAL, CREAD} \<subseteq> c_cflag t" "c_lflag t \<inter> {ICANON, ECHO, ECHOE, ISIG} = {}"
      by blast
    with True fd assms(3) show ?thesis by (auto simp: com_set_def com_para_set_def)
  next
    case False
    with fd assms(3) show ?thesis by (simp add: com_set_def com_para_set_def setTTY_illegal(2))
  qed
qed

theorem port_setting_reaches_the_line_witness:
  "\<exists>d' t. com_set (default_com 1) (demo []) = Some d' \<and> tty_attr d' = (tty_attr (demo []))(4 := t) \<and>
     line_format t = (9600, 8, (False, False), False)"
  using port_setting_reaches_the_line [of "demo []" "default_com 1"]
  by (auto simp: ok_demo default_com_def zero_COM_def legal_com_def baud_def baud_rates_def)

section \<open>Users\<close>


lemma demo_users: "users (demo msg) = (default_usr 0)\<lparr>usr_name := pad 24 (bytes_of ''root''),
   usr_passwd := pad 24 (bytes_of ''pw''), usr_auth := USR_ROOT\<rparr> # map default_usr [1 ..< 16]"
  by (simp add: demo_conf_def)

lemma zeros_Suc: "zeros (n + 1) = 0 # zeros n"
  by (simp add: zeros_def)

lemma demo_names: "uname ((default_usr 0)\<lparr>usr_name := pad 24 (bytes_of ''root''), usr_passwd := p, usr_auth := a\<rparr>) = bytes_of ''root''"
  "uname (default_usr i) = []"
  using cstring_append [of "bytes_of ''root''" "zeros 19"] cstring_append [of "[]" "zeros 23"]
  by (simp_all add: uname_def default_usr_def pad_def zeros_Suc [of 19, simplified] zeros_Suc [of 23, simplified] bytes_of_def)

lemma users_ok_demo: "users_ok (demo msg)"
proof -
  have "slot_ok u" if "u \<in> set (users (demo msg))" for u
    using that unfolding demo_users by (auto simp: slot_ok_def default_usr_def set_zeros pad_def bytes_of_def)
  moreover have "uname (users (demo msg) ! i) = []" if "i \<noteq> 0" "i < 16" for i
    using that unfolding demo_users by (simp add: nth_Cons' demo_names)
  moreover have "length (users (demo msg)) = 16" unfolding demo_users by simp
  ultimately show ?thesis unfolding users_ok_def by metis
qed

lemma fits_demo: "fits [117, 49]" "fits [112, 50]" "fits (bytes_of ''root'')"
  by (simp_all add: fits_def bytes_of_def)

lemma accounts_demo: "accounts (demo msg) [117, 49] = None"
proof -
  have "uname (users (demo msg) ! j) \<noteq> [117, 49]" if "j < 16" for j
  proof (cases j)
    case 0
    then show ?thesis unfolding demo_users by (simp only: nth_Cons_0 demo_names) (simp add: bytes_of_def)
  next
    case (Suc k)
    with that show ?thesis unfolding demo_users by (simp add: demo_names)
  qed
  moreover have "length (users (demo msg)) = 16" unfolding demo_users by simp
  ultimately show ?thesis by (simp add: accounts_None_iff)
qed


lemma first_idx_here:
  "i < length xs \<Longrightarrow> q (xs ! i) \<Longrightarrow> \<forall>j < i. \<not> q (xs ! j) \<Longrightarrow> first_idx q xs k = Some (k + i)"
proof (induction xs arbitrary: i k)
  case (Cons x xs)
  then show ?case by (cases i) (auto simp: All_less_Suc2)
qed simp

lemma get_usr_info_here:
  assumes "users_ok d" "cstring a = Some n" "i < length (users d)" "uname (users d ! i) = n"
    and "\<forall>j < i. uname (users d ! j) \<noteq> n"
  shows "get_usr_info a d = Some (Some i)"
  using get_usr_info_eq [OF assms(1,2)] first_idx_here [of i "users d" "\<lambda>u. uname u = n" 0] assms(3-5) by simp

text \<open>C15: a deleted user's slot keeps its authority. When it is the first free slot, the next user
  added gets it: an account added after an administrator was deleted is an administrator.\<close>

theorem reused_slot_keeps_authority:
  assumes "users_ok d" "fits n" "n \<noteq> []" "fits m" "m \<noteq> []" "fits p"
    and "i < length (users d)" "uname (users d ! i) = n" "\<forall>j < i. uname (users d ! j) \<noteq> []"
    and "\<forall>u \<in> set (users d). uname u \<noteq> m"
  shows "\<exists>d1 d2. sys_usr_del (n @ [0]) d = Some (cmd_code USR_DEL_OK, d1) \<and>
     sys_usr_add (m @ [0]) (p @ [0]) d1 = Some (cmd_code USR_ADD_OK, d2) \<and>
     get_usr_info (m @ [0]) d2 = Some (Some i) \<and> usr_auth (users d2 ! i) = usr_auth (users d ! i)"
proof -
  have nd: "uname (users d ! j) \<noteq> n" if "j < i" for j
    using assms(1,3,7,8) that unfolding users_ok_def by (metis less_trans less_irrefl)
  let ?u = "(users d ! i)\<lparr>usr_name := zeros 24\<rparr>"
  let ?d1 = "config_save (upd_usr i ?u d)"
  have del: "sys_usr_del (n @ [0]) d = Some (cmd_code USR_DEL_OK, ?d1)"
    using get_usr_info_here [OF assms(1) cstring_fits [OF assms(2)] assms(7,8)] nd by (simp add: sys_usr_del_def)
  have su: "slot_ok ?u" using slot_ok_nth [OF assms(1,7)] by (simp add: slot_ok_def set_zeros)
  have ok1: "users_ok ?d1"
    using users_ok_upd [OF assms(1) su assms(7)] by simp
  have "find_idx (\<lambda>u. map_option (\<lambda>c. c = 0) (rd (usr_name u) 0)) (users ?d1) 0
      = Some (first_idx (\<lambda>u. uname u = []) (users ?d1) 0)"
    using ok1 by (intro find_idx_total) (auto simp: users_ok_def slot_free)
  also have "first_idx (\<lambda>u. uname u = []) (users ?d1) 0 = Some i"
    using first_idx_here [of i "users ?d1" "\<lambda>u. uname u = []" 0] assms(7,9) by simp
  finally have free: "find_idx (\<lambda>u. map_option (\<lambda>c. c = 0) (rd (usr_name u) 0)) (users ?d1) 0 = Some (Some i)" .
  obtain r1 where r1: "strcpy (usr_name ?u) (m @ [0]) = Some (m @ 0 # r1)" "length (m @ 0 # r1) = 24"
    using strcpy_fits [OF assms(4), of "usr_name ?u"] by auto
  obtain r2 where r2: "strcpy (usr_passwd ?u) (p @ [0]) = Some (p @ 0 # r2)" "length (p @ 0 # r2) = 24"
    using strcpy_fits [OF assms(6), of "usr_passwd ?u"] su by (auto simp: slot_ok_def)
  define v where "v = ?u\<lparr>usr_name := m @ 0 # r1, usr_passwd := p @ 0 # r2\<rparr>"
  have v: "slot_ok v" "uname v = m" "usr_auth v = usr_auth (users d ! i)"
    using su r1 r2 assms(4,6) by (simp_all add: v_def slot_ok_def fits_def)
  let ?d2 = "config_save (upd_usr i v ?d1)"
  have add: "sys_usr_add (m @ [0]) (p @ [0]) ?d1 = Some (cmd_code USR_ADD_OK, ?d2)"
    using free r1(1) r2(1) assms(7) by (simp add: sys_usr_add_def v_def)
  have new: "uname (users ?d1 ! j) \<noteq> m" if "j < length (users ?d1)" "j \<noteq> i" for j
    using assms(10) that by simp
  have ok2: "users_ok ?d2"
    using users_ok_upd [OF ok1 v(1), of i] assms(7) v(2) new by simp
  have "get_usr_info (m @ [0]) ?d2 = Some (Some i)"
    using assms(7) v(2) new by (intro get_usr_info_here [OF ok2 cstring_fits [OF assms(4)]]) auto
  then show ?thesis using del add v(3) assms(7) by auto
qed

definition two_users :: dev where
  "two_users = upd_usr 1 ((default_usr 1)\<lparr>usr_name := [97] @ 0 # zeros 22, usr_auth := USR_ROOT\<rparr>) (demo [])"

lemma users_ok_two: "users_ok two_users"
proof -
  let ?u = "(default_usr 1)\<lparr>usr_name := [97] @ 0 # zeros 22, usr_auth := USR_ROOT\<rparr>"
  have "uname ?u = [97]" using cstring_append [of "[97]" "zeros 22"] by (simp add: uname_def)
  moreover have "uname (users (demo []) ! j) \<noteq> [97]" if "j < 16" for j
    using that unfolding demo_users by (cases j) (simp_all only: nth_Cons_0 demo_names, auto simp: bytes_of_def demo_names)
  moreover have "length (users (demo [])) = 16" unfolding demo_users by simp
  ultimately show ?thesis unfolding two_users_def
    by (intro users_ok_upd [OF users_ok_demo]) (auto simp: slot_ok_def default_usr_def set_zeros)
qed

theorem reused_slot_keeps_authority_witness:
  "\<exists>d1 d2. sys_usr_del [97, 0] two_users = Some (cmd_code USR_DEL_OK, d1) \<and>
     sys_usr_add [98, 0] [99, 0] d1 = Some (cmd_code USR_ADD_OK, d2) \<and> usr_auth (users d2 ! 1) = USR_ROOT"
proof -
  let ?u = "(default_usr 1)\<lparr>usr_name := [97] @ 0 # zeros 22, usr_auth := USR_ROOT\<rparr>"
  have l: "length (users (demo [])) = 16" unfolding demo_users by simp
  have u: "uname ?u = [97]" using cstring_append [of "[97]" "zeros 22"] by (simp add: uname_def)
  have one: "users two_users ! 1 = ?u" using l by (simp add: two_users_def)
  have zero: "uname (users two_users ! 0) = bytes_of ''root''"
    unfolding two_users_def users_upd_usr demo_users by (simp add: demo_names)
  have others: "\<forall>u \<in> set (users two_users). uname u \<noteq> [98]"
    unfolding two_users_def users_upd_usr demo_users using u
    by (auto simp: demo_names dest!: set_mp [OF set_update_subset_insert]) (simp add: bytes_of_def)
  have ne: "bytes_of ''root'' \<noteq> []" by (simp add: bytes_of_def)
  have "length (users two_users) = 16" using l by (simp add: two_users_def)
  with reused_slot_keeps_authority [OF users_ok_two, of "[97]" "[98]" "[99]" 1] one u zero others ne
  show ?thesis by (auto simp: fits_def)
qed

text \<open>An empty name is the name of the first free slot, and the password of that slot, empty
  unless a deleted user left one, logs in with it.\<close>

theorem empty_name_logs_in:
  assumes "users_ok d" "i < length (users d)" "uname (users d ! i) = []" "\<forall>j < i. uname (users d ! j) \<noteq> []"
  shows "sys_usr_login (0 # r) (upass (users d ! i) @ 0 # r') d = Some (cmd_code LOGIN_OK)"
proof -
  have "get_usr_info (0 # r) d = Some (Some i)" using assms(2-4) by (intro get_usr_info_here [OF assms(1)]) auto
  moreover have "0 \<notin> set (upass (users d ! i))"
    using cstring_SomeD slot_cstring(2) [OF slot_ok_nth [OF assms(1,2)]] by blast
  then have "streq (upass (users d ! i) @ 0 # r') (usr_passwd (users d ! i)) = Some True"
    using streq_slot(2) [OF slot_ok_nth [OF assms(1,2)], of "upass (users d ! i) @ 0 # r'" "upass (users d ! i)"]
    by (simp add: cstring_append)
  ultimately show ?thesis by (simp add: sys_usr_login_def)
qed

theorem empty_name_logs_in_witness:
  "sys_usr_login (zeros 24) (zeros 24) (demo []) = Some (cmd_code LOGIN_OK)"
proof -
  have z: "zeros 24 = 0 # zeros 23" using zeros_Suc [of 23] by simp
  have u: "users (demo []) ! 1 = default_usr 1" "users (demo []) ! 0 = hd (users (demo []))"
    unfolding demo_users by simp_all
  have "uname (users (demo []) ! 0) = bytes_of ''root''" unfolding demo_users by (simp add: demo_names)
  moreover have "upass (default_usr 1) = []" by (simp add: upass_def default_usr_def z)
  moreover have "length (users (demo [])) = 16" unfolding demo_users by simp
  moreover have "bytes_of ''root'' \<noteq> []" by (simp add: bytes_of_def)
  ultimately show ?thesis
    using empty_name_logs_in [OF users_ok_demo, of 1 "[]" "zeros 23" "zeros 23"] u unfolding z
    by (simp add: demo_names)
qed

end
