(* ===== verification/WebConn.thy ===== *)
theory WebConn
  imports Config
begin

text \<open>
  Connections of the management server, \<open>nc600-2.0/src/web_net.c\<close> and \<open>itsip.c\<close>: receiving and
  sending with \<open>select\<close>, time limits and partial transfers.

  The network is a script in the connection: \<open>rx\<close> and \<open>tx\<close> are the outcomes of the successive
  turns of the receive and send loops, \<open>inp\<close> the bytes the peer has sent and the server has not
  read, \<open>starts\<close> the clock readings at the start of the calls. A used-up receive script is a peer
  that has closed the connection; a used-up send script is a socket that takes everything.
\<close>

section \<open>Network outcomes\<close>

text \<open>One turn of the receive loop: \<open>select\<close> interrupted, failed, or timed out (with the clock
  reading after it); \<open>recv\<close> failed (\<open>True\<close>: connection reset) or returned up to \<open>n\<close> bytes (with the
  two clock readings that follow).\<close>

datatype rx_ev = RxIntr | RxSelErr | RxIdle u64 | RxErr bool | RxGot nat u64 u64

datatype tx_ev = TxIntr | TxSelErr | TxIdle u64 | TxErr | TxSent nat u64

record NET_CONN_INFO =
  conn_idx :: int
  client_conn :: int
  file_type :: u8
  idle :: u8
  clientip :: bytes
  rx :: "rx_ev list"
  inp :: bytes
  tx :: "tx_ev list"
  starts :: "u64 list"

definition TIMEOUT_CNT :: u64 where "TIMEOUT_CNT = 2000"

definition timed_out :: "u64 \<Rightarrow> u64 \<Rightarrow> bool" where
  "timed_out ms1 ms2 \<longleftrightarrow> ms1 < ms2 \<and> TIMEOUT_CNT \<le> ms2 - ms1"

definition start_time :: "NET_CONN_INFO \<Rightarrow> u64 \<times> NET_CONN_INFO" where
  "start_time c = (case starts c of [] \<Rightarrow> (0, c) | t # ts \<Rightarrow> (t, c\<lparr>starts := ts\<rparr>))"

section \<open>Closing, receiving\<close>

definition net_conn_close :: "NET_CONN_INFO \<Rightarrow> dev \<Rightarrow> NET_CONN_INFO \<times> dev" where
  "net_conn_close c d = (if 0 < client_conn c
     then (c\<lparr>client_conn := -1, file_type := 0xff\<rparr>, emit (EvClose (client_conn c)) d) else (c, d))"

definition recv_fail :: "bytes \<Rightarrow> NET_CONN_INFO \<Rightarrow> dev \<Rightarrow> int \<times> bytes \<times> NET_CONN_INFO \<times> dev" where
  "recv_fail acc c d = (let (c, d) = net_conn_close c d in (FAILURE, acc, c, d))"

text \<open>The loop of \<open>web_conn_recv\<close>: \<open>want\<close> bytes are still wanted, \<open>acc\<close> has been stored.\<close>

fun recv_loop :: "rx_ev list \<Rightarrow> u64 \<Rightarrow> nat \<Rightarrow> bytes \<Rightarrow> NET_CONN_INFO \<Rightarrow> dev
    \<Rightarrow> int \<times> bytes \<times> NET_CONN_INFO \<times> dev" where
  "recv_loop [] ms1 want acc c d = recv_fail acc (c\<lparr>rx := []\<rparr>) d"
| "recv_loop (RxIntr # sc) ms1 want acc c d = recv_loop sc ms1 want acc c d"
| "recv_loop (RxSelErr # sc) ms1 want acc c d = recv_fail acc (c\<lparr>rx := sc\<rparr>) d"
| "recv_loop (RxIdle ms2 # sc) ms1 want acc c d =
     (if timed_out ms1 ms2 then recv_fail acc (c\<lparr>rx := sc\<rparr>) d else recv_loop sc ms1 want acc c d)"
| "recv_loop (RxErr reset # sc) ms1 want acc c d =
     (if reset then recv_fail acc (c\<lparr>rx := sc\<rparr>) d else (FAILURE, acc, c\<lparr>rx := sc\<rparr>, d))"
| "recv_loop (RxGot n t1 t3 # sc) ms1 want acc c d = (let
     recv_cnt = min n (min want (length (inp c)));
     acc = acc @ take recv_cnt (inp c);
     c = c\<lparr>inp := drop recv_cnt (inp c)\<rparr>
   in if recv_cnt = 0 then recv_fail acc (c\<lparr>rx := sc\<rparr>) d
      else if want - recv_cnt = 0 then (SUCCESS, acc, c\<lparr>rx := sc\<rparr>, d)
      else if timed_out t1 t3 then recv_fail acc (c\<lparr>rx := sc\<rparr>) d
      else recv_loop sc t1 (want - recv_cnt) acc c d)"

definition web_conn_recv :: "nat \<Rightarrow> NET_CONN_INFO \<Rightarrow> dev \<Rightarrow> int \<times> bytes \<times> NET_CONN_INFO \<times> dev" where
  "web_conn_recv len c d = (if client_conn c \<le> 0 then (FAILURE, [], c, d)
     else let (ms1, c) = start_time c in recv_loop (rx c) ms1 len [] c d)"

section \<open>Sending\<close>

definition send_fail :: "NET_CONN_INFO \<Rightarrow> dev \<Rightarrow> int \<times> NET_CONN_INFO \<times> dev" where
  "send_fail c d = (let (c, d) = net_conn_close c d in (FAILURE, c, d))"

fun send_loop :: "tx_ev list \<Rightarrow> u64 \<Rightarrow> bytes \<Rightarrow> NET_CONN_INFO \<Rightarrow> dev \<Rightarrow> int \<times> NET_CONN_INFO \<times> dev" where
  "send_loop [] ms1 p c d = (if p = [] then send_fail (c\<lparr>tx := []\<rparr>) d
     else (SUCCESS, c\<lparr>tx := []\<rparr>, emit (EvWrite (client_conn c) p) d))"
| "send_loop (TxIntr # sc) ms1 p c d = send_loop sc ms1 p c d"
| "send_loop (TxSelErr # sc) ms1 p c d = send_fail (c\<lparr>tx := sc\<rparr>) d"
| "send_loop (TxIdle ms2 # sc) ms1 p c d =
     (if timed_out ms1 ms2 then send_fail (c\<lparr>tx := sc\<rparr>) d else send_loop sc ms1 p c d)"
| "send_loop (TxErr # sc) ms1 p c d = send_fail (c\<lparr>tx := sc\<rparr>) d"
| "send_loop (TxSent n t3 # sc) ms1 p c d = (let
     send_cnt = min n (length p)
   in if send_cnt = 0 then send_fail (c\<lparr>tx := sc\<rparr>) d
      else let d = emit (EvWrite (client_conn c) (take send_cnt p)) d
      in if length p - send_cnt = 0 then (SUCCESS, c\<lparr>tx := sc\<rparr>, d)
      else if timed_out ms1 t3 then send_fail (c\<lparr>tx := sc\<rparr>) d
      else send_loop sc ms1 (drop send_cnt p) c d)"

definition net_conn_send_pkt :: "bytes \<Rightarrow> NET_CONN_INFO \<Rightarrow> dev \<Rightarrow> int \<times> NET_CONN_INFO \<times> dev" where
  "net_conn_send_pkt p c d = (if client_conn c \<le> 0 then (FAILURE, c, d)
     else let (ms1, c) = start_time (c\<lparr>idle := 0\<rparr>) in send_loop (tx c) ms1 p c d)"

definition MAX_LENGTH :: nat where "MAX_LENGTH = 1024"

text \<open>
  \<open>net_conn_send\<close> takes an address and a length, and sends \<open>MAX_LENGTH\<close> bytes from the address
  whenever the length is not 0. The model takes \<open>mem\<close>, what lies from the address on; memory that
  ends before \<open>MAX_LENGTH\<close> bytes is an out-of-bounds read. The lock is the connection's own and
  only this thread takes it.
\<close>

definition net_conn_send :: "ITSIP \<Rightarrow> bytes option \<Rightarrow> nat \<Rightarrow> NET_CONN_INFO \<Rightarrow> dev
    \<Rightarrow> (int \<times> NET_CONN_INFO \<times> dev) option" where
  "net_conn_send net_head net_data len c d = (let
     (ret, c, d) = net_conn_send_pkt (enc_ITSIP net_head) c d
   in case net_data of None \<Rightarrow> Some (ret, c, d)
      | Some mem \<Rightarrow> if 0 < len then do { p \<leftarrow> rds mem 0 MAX_LENGTH; Some (net_conn_send_pkt p c d) }
                   else Some (ret, c, d))"

section \<open>Packet heads (itsip.c)\<close>

definition ITSIP_VERSION :: u8 where "ITSIP_VERSION = 1"
definition ITSIP_THLEN :: u8 where "ITSIP_THLEN = 8"

text \<open>\<open>itsip_pack\<close>: all its callers pass \<open>data = NULL\<close>.\<close>

definition itsip_pack :: "ITS_CMD \<Rightarrow> nat \<Rightarrow> u8 \<Rightarrow> ITSIP \<Rightarrow> ITSIP" where
  "itsip_pack c n dt pkt = pkt\<lparr>itsip_head := its_code ITS_HEAD, itsip_cmd := its_code c, itsip_ver := ITSIP_VERSION,
     itsip_thl := ITSIP_THLEN, itsip_extlen := of_nat n, itsip_dev_t := dt\<rparr>"

definition set_data0 :: "int \<Rightarrow> ITSIP \<Rightarrow> ITSIP option" where
  "set_data0 ret h = do { x \<leftarrow> wr (itsip_data h) 0 (of_int ret); Some (h\<lparr>itsip_data := x\<rparr>) }"

section \<open>Lemmas: receiving\<close>

text \<open>What arrives is a prefix of what the peer sent, and success means all that was asked for.\<close>

lemma recv_fail_fields:
  "recv_fail acc c d = (r, got, c', d') \<Longrightarrow> r = FAILURE \<and> got = acc \<and> inp c' = inp c \<and> g_conf_info d' = g_conf_info d"
  by (auto simp: recv_fail_def net_conn_close_def Let_def split: if_splits)

lemma recv_loop_prefix:
  "recv_loop sc ms1 want acc c d = (r, got, c', d') \<Longrightarrow>
     \<exists>k. got = acc @ take k (inp c) \<and> inp c' = drop k (inp c) \<and> k \<le> want \<and> k \<le> length (inp c) \<and>
       (r = SUCCESS \<longrightarrow> k = want \<and> d' = d \<and> client_conn c' = client_conn c) \<and> (r = SUCCESS \<or> r = FAILURE) \<and>
       g_conf_info d' = g_conf_info d"
proof (induction sc ms1 want acc c d arbitrary: got c' d' rule: recv_loop.induct)
  case (6 n t1 t3 sc ms1 want acc c d)
  define k where "k = min n (min want (length (inp c)))"
  let ?c = "c\<lparr>inp := drop k (inp c)\<rparr>"
  have k: "k \<le> want" "k \<le> length (inp c)" by (simp_all add: k_def)
  have step: "(if k = 0 then recv_fail (acc @ take k (inp c)) (?c\<lparr>rx := sc\<rparr>) d
      else if want - k = 0 then (SUCCESS, acc @ take k (inp c), ?c\<lparr>rx := sc\<rparr>, d)
      else if timed_out t1 t3 then recv_fail (acc @ take k (inp c)) (?c\<lparr>rx := sc\<rparr>) d
      else recv_loop sc t1 (want - k) (acc @ take k (inp c)) ?c d) = (r, got, c', d')"
    using "6.prems" by (simp only: recv_loop.simps Let_def k_def)
  show ?case
  proof (cases "k \<noteq> 0 \<and> want - k \<noteq> 0 \<and> \<not> timed_out t1 t3")
    case True
    with step have rec: "recv_loop sc t1 (want - k) (acc @ take k (inp c)) ?c d = (r, got, c', d')" by simp
    from "6.IH" [OF k_def refl refl _ _ _ rec] True obtain j where
      j: "got = (acc @ take k (inp c)) @ take j (drop k (inp c))" "inp c' = drop j (drop k (inp c))"
        "j \<le> want - k" "j \<le> length (drop k (inp c))"
        "r = SUCCESS \<longrightarrow> j = want - k \<and> d' = d \<and> client_conn c' = client_conn c"
        "r = SUCCESS \<or> r = FAILURE" "g_conf_info d' = g_conf_info d"
      by (auto simp del: append_assoc)
    have "got = acc @ take (k + j) (inp c)" using j(1) by (simp only: take_add append_assoc)
    moreover have "inp c' = drop (k + j) (inp c)" using j(2) by (simp add: add.commute)
    moreover have "k + j \<le> want" "k + j \<le> length (inp c)" using j(3,4) k by auto
    ultimately show ?thesis using j(5-7) k by (intro exI [of _ "k + j"]) auto
  next
    case False
    with step k show ?thesis
      by (intro exI [of _ k]) (auto dest!: recv_fail_fields split: if_splits)
  qed
qed (auto dest!: recv_fail_fields split: if_splits intro: exI [of _ 0])

text \<open>Scripts under which a receive of \<open>want\<close> bytes completes: interruptions and short waits, then
  data, in pieces of any size, none of them late.\<close>

fun patient :: "rx_ev list \<Rightarrow> u64 \<Rightarrow> nat \<Rightarrow> bool" where
  "patient (RxIntr # sc) ms1 want = patient sc ms1 want"
| "patient (RxIdle ms2 # sc) ms1 want \<longleftrightarrow> \<not> timed_out ms1 ms2 \<and> patient sc ms1 want"
| "patient (RxGot n t1 t3 # sc) ms1 want \<longleftrightarrow>
     0 < n \<and> (want \<le> n \<or> \<not> timed_out t1 t3 \<and> patient sc t1 (want - n))"
| "patient _ ms1 want = False"

lemma recv_loop_complete:
  "patient sc ms1 want \<Longrightarrow> 0 < want \<Longrightarrow> want \<le> length (inp c) \<Longrightarrow>
     \<exists>sc'. recv_loop sc ms1 want acc c d =
       (SUCCESS, acc @ take want (inp c), c\<lparr>inp := drop want (inp c), rx := sc'\<rparr>, d)"
proof (induction sc ms1 want acc c d rule: recv_loop.induct)
  case (6 n t1 t3 sc ms1 want acc c d)
  define k where "k = min n (min want (length (inp c)))"
  let ?c = "c\<lparr>inp := drop k (inp c)\<rparr>"
  have k: "k = min n want" "0 < k" using "6.prems" by (auto simp: k_def)
  have step: "recv_loop (RxGot n t1 t3 # sc) ms1 want acc c d =
     (if want - k = 0 then (SUCCESS, acc @ take k (inp c), ?c\<lparr>rx := sc\<rparr>, d)
      else if timed_out t1 t3 then recv_fail (acc @ take k (inp c)) (?c\<lparr>rx := sc\<rparr>) d
      else recv_loop sc t1 (want - k) (acc @ take k (inp c)) ?c d)"
  proof -
    have "k \<noteq> 0" using k(2) by simp
    then show ?thesis
      by (simp only: recv_loop.simps Let_def k_def [symmetric] if_False)
  qed
  show ?case
  proof (cases "want \<le> n")
    case True
    with k step show ?thesis by auto
  next
    case False
    with k have kn: "k = n" by simp
    with False "6.prems" have p: "\<not> timed_out t1 t3" "patient sc t1 (want - k)" "0 < want - k"
      "want - k \<le> length (inp ?c)" by auto
    have "k \<noteq> 0" using k(2) by simp
    from "6.IH" [OF k_def refl refl this _ p(1) p(2-4)] p(3) obtain sc' where
      "recv_loop sc t1 (want - k) (acc @ take k (inp c)) ?c d = (SUCCESS, (acc @ take k (inp c)) @
         take (want - k) (drop k (inp c)), c\<lparr>inp := drop (want - k) (drop k (inp c)), rx := sc'\<rparr>, d)" by auto
    moreover have "take k (inp c) @ take (want - k) (drop k (inp c)) = take want (inp c)"
      using p(3) by (simp flip: take_add)
    moreover have "drop (want - k) (drop k (inp c)) = drop want (inp c)" using p(3) by simp
    ultimately show ?thesis using p step by auto
  qed
qed auto

text \<open>
  The interface of a byte channel: what a receive stores is taken from the front of what the peer
  has sent, and a receive that succeeds stores all it was asked for.
\<close>

locale byte_channel =
  fixes recv :: "nat \<Rightarrow> 'c \<Rightarrow> 'd \<Rightarrow> int \<times> bytes \<times> 'c \<times> 'd"
    and unread :: "'c \<Rightarrow> bytes"
  assumes recv_prefix: "recv n c d = (r, got, c', d') \<Longrightarrow>
      \<exists>k \<le> n. got = take k (unread c) \<and> unread c' = drop k (unread c) \<and> k \<le> length (unread c) \<and>
        (r = SUCCESS \<longrightarrow> k = n)"
begin

lemma recv_exact:
  "recv n c d = (SUCCESS, got, c', d') \<Longrightarrow>
     got = take n (unread c) \<and> length got = n \<and> unread c' = drop n (unread c)"
  by (drule recv_prefix) auto

lemma recv_bounded: "recv n c d = (r, got, c', d') \<Longrightarrow> length got \<le> n"
  by (drule recv_prefix) auto

lemma recv_in_order:
  assumes "recv n c d = (SUCCESS, h, c1, d1)" "recv m c1 d2 = (SUCCESS, b, c2, d3)"
  shows "h @ b = take (n + m) (unread c)"
  using recv_exact [OF assms(1)] recv_exact [OF assms(2)] by (auto simp: take_add)

end

lemma start_time_fields:
  "start_time c = (t, c') \<Longrightarrow> inp c' = inp c \<and> client_conn c' = client_conn c \<and> rx c' = rx c \<and> tx c' = tx c"
  by (auto simp: start_time_def split: list.splits)

interpretation web_channel: byte_channel web_conn_recv inp
proof
  fix n c d r got c' d'
  assume "web_conn_recv n c d = (r, got, c', d')"
  then show "\<exists>k \<le> n. got = take k (inp c) \<and> inp c' = drop k (inp c) \<and> k \<le> length (inp c) \<and>
        (r = SUCCESS \<longrightarrow> k = n)"
    by (cases "start_time c")
      (auto simp: web_conn_recv_def Let_def dest!: recv_loop_prefix start_time_fields split: if_splits)
qed

lemma web_conn_recv_conf: "web_conn_recv n c d = (r, got, c', d') \<Longrightarrow>
    g_conf_info d' = g_conf_info d \<and> (r = SUCCESS \<longrightarrow> d' = d \<and> client_conn c' = client_conn c) \<and> (r = SUCCESS \<or> r = FAILURE)"
  by (cases "start_time c")
    (auto simp: web_conn_recv_def Let_def dest!: recv_loop_prefix start_time_fields split: if_splits)

section \<open>Lemmas: sending\<close>

lemma send_loop_chunks:
  "send_loop sc ms1 p c d = (r, c', d') \<Longrightarrow>
     (r = SUCCESS \<or> r = FAILURE) \<and> inp c' = inp c \<and> rx c' = rx c \<and> g_conf_info d' = g_conf_info d \<and>
     (r = SUCCESS \<longrightarrow> client_conn c' = client_conn c \<and>
        (\<exists>chunks. concat chunks = p \<and> d' = d\<lparr>trace := trace d @ map (EvWrite (client_conn c)) chunks\<rparr>))"
proof (induction sc ms1 p c d arbitrary: c' d' rule: send_loop.induct)
  case (1 ms1 p c d)
  then show ?case
    by (auto simp: send_fail_def net_conn_close_def emit_def split: if_splits intro!: exI [of _ "[p]"])
next
  case (6 n t3 sc ms1 p c d)
  define k where "k = min n (length p)"
  let ?d = "emit (EvWrite (client_conn c) (take k p)) d"
  have step: "(if k = 0 then send_fail (c\<lparr>tx := sc\<rparr>) d
      else if length p - k = 0 then (SUCCESS, c\<lparr>tx := sc\<rparr>, ?d)
      else if timed_out ms1 t3 then send_fail (c\<lparr>tx := sc\<rparr>) ?d
      else send_loop sc ms1 (drop k p) c ?d) = (r, c', d')"
    using "6.prems" by (simp only: send_loop.simps Let_def k_def)
  show ?case
  proof (cases "k \<noteq> 0 \<and> length p - k \<noteq> 0 \<and> \<not> timed_out ms1 t3")
    case True
    with step have rec: "send_loop sc ms1 (drop k p) c ?d = (r, c', d')" by simp
    have ih: "(r = SUCCESS \<or> r = FAILURE) \<and> inp c' = inp c \<and> rx c' = rx c \<and> g_conf_info d' = g_conf_info ?d \<and>
     (r = SUCCESS \<longrightarrow> client_conn c' = client_conn c \<and>
        (\<exists>chunks. concat chunks = drop k p \<and> d' = ?d\<lparr>trace := trace ?d @ map (EvWrite (client_conn c)) chunks\<rparr>))"
      using "6.IH" [OF k_def _ refl _ _ rec] True by simp
    have "\<exists>chunks. concat chunks = p \<and> d' = d\<lparr>trace := trace d @ map (EvWrite (client_conn c)) chunks\<rparr>"
      if "r = SUCCESS"
    proof -
      from ih that obtain chunks where "concat chunks = drop k p"
        "d' = ?d\<lparr>trace := trace ?d @ map (EvWrite (client_conn c)) chunks\<rparr>" by auto
      then show ?thesis by (intro exI [of _ "take k p # chunks"]) (simp add: emit_def)
    qed
    with ih show ?thesis by simp
  next
    case False
    have "take k p = p" if "length p - k = 0" using that by simp
    with False step show ?thesis
      by (auto simp: send_fail_def net_conn_close_def Let_def emit_def split: if_splits intro!: exI [of _ "[p]"])
  qed
qed (auto simp: send_fail_def net_conn_close_def Let_def split: if_splits)

end
