(* ===== verification/WebCmd.thy ===== *)
theory WebCmd
  imports WebConn Users Gpio Com
begin

text \<open>
  The commands of the management protocol, \<open>nc600-2.0/src/web_net.c\<close>: users, configuration
  queries and settings, and the dispatch \<open>web_cmd_proc\<close> on the command byte of the head.
\<close>

text \<open>
  Memory the code sends or reads before writing it: \<open>e_pak\<close> the reply head, \<open>e_extdat\<close> the array
  for user data, \<open>e_gpio\<close> and \<open>e_server\<close> the local structs of two queries with the stack behind
  them, \<open>e_after\<close> what follows \<open>g_conf_info\<close>.
\<close>

record env =
  e_pak :: ITSIP
  e_extdat :: bytes
  e_gpio :: CONFIG_GPIO
  e_stack :: bytes
  e_server :: bytes
  e_after :: bytes

definition ok_env :: "env \<Rightarrow> bool" where
  "ok_env e \<longleftrightarrow> ok_ITSIP (e_pak e) \<and> length (e_extdat e) = 112 \<and> ok_CONFIG_GPIO (e_gpio e) \<and>
     1024 \<le> length (e_stack e) \<and> 1024 \<le> length (e_server e) \<and> 1024 \<le> length (e_after e)"

text \<open>Memory from byte \<open>off\<close> of \<open>g_conf_info\<close> on.\<close>

definition conf_mem :: "env \<Rightarrow> nat \<Rightarrow> dev \<Rightarrow> bytes" where
  "conf_mem e off d = drop off (enc_CONFI_DATA (g_conf_info d) @ e_after e)"

definition off_sys :: nat where "off_sys = 0"
definition off_net :: nat where "off_net = 256"
definition off_vlan :: nat where "off_vlan = 316"
definition off_com :: nat where "off_com = 332"
definition off_mode :: nat where "off_mode = 388"
definition off_lim :: nat where "off_lim = 716"
definition off_usr :: nat where "off_usr = 784"
definition off_server :: nat where "off_server = 1680"
definition off_gpio :: nat where "off_gpio = 1736"

text \<open>A reply without data: the head with a result in \<open>itsip_data[0]\<close>.\<close>

definition ack :: "ITSIP \<Rightarrow> int \<Rightarrow> NET_CONN_INFO \<Rightarrow> dev \<Rightarrow> (int \<times> NET_CONN_INFO \<times> dev) option" where
  "ack h ret c d = do { h \<leftarrow> set_data0 ret h; net_conn_send h None 0 c d }"

section \<open>Users\<close>

definition sys_usr_query :: "env \<Rightarrow> NET_CONN_INFO \<Rightarrow> dev \<Rightarrow> (int \<times> NET_CONN_INFO \<times> dev) option" where
  "sys_usr_query e c d =
     net_conn_send (itsip_pack ITS_ACK_USER_QUERY 896 0 (e_pak e)) (Some (conf_mem e off_usr d)) 896 c d"

text \<open>
  \<open>sys_usr_set\<close>. The receive stores into the 112 bytes of \<open>extdat\<close> however many bytes the head
  announces, and its result is not looked at. The two failure tests of \<open>USER_MODIFY\<close> compare with
  \<open>FAILURE\<close>, which the functions never return.
\<close>

definition usr_modify :: "bytes \<Rightarrow> USR_INFO \<Rightarrow> dev \<Rightarrow> (int \<times> dev) option" where
  "usr_modify oname new d = do {
     c0 \<leftarrow> rd (usr_name new) 0;
     if c0 \<noteq> 0 then do {
       (r, d) \<leftarrow> set_usr_name oname (usr_name new) d;
       if r = FAILURE then Some (cmd_code USR_MODIFY_FAILED, d) else do {
         (r, d) \<leftarrow> set_usr_psw (usr_name new) (usr_passwd new) d;
         Some (if r = FAILURE then cmd_code USR_MODIFY_FAILED else cmd_code USR_MODIFY_OK, d) } }
     else do {
       (r, d) \<leftarrow> set_usr_psw oname (usr_passwd new) d;
       Some (if r = FAILURE then cmd_code USR_MODIFY_FAILED else cmd_code USR_MODIFY_OK, d) } }"

definition sys_usr_set :: "env \<Rightarrow> ITSIP \<Rightarrow> NET_CONN_INFO \<Rightarrow> dev
    \<Rightarrow> (int \<times> NET_CONN_INFO \<times> dev) option" where
  "sys_usr_set e h c d = do {
     set_flag \<leftarrow> rd (itsip_data h) 0;
     r \<leftarrow> get_usr_info (itsip_user h) d;
     case r of None \<Rightarrow> Some (cmd_code RC_NOUSR, c, d)
     | Some i \<Rightarrow> if usr_auth (users d ! i) \<noteq> USR_ROOT then Some (cmd_code RC_NORIGHT, c, d) else do {
         let (_, got, c, d) = web_conn_recv (unat (itsip_extlen h)) c d;
         mem \<leftarrow> wrs (e_extdat e) 0 got;
         (ext, _) \<leftarrow> dec_list dec_USR_INFO 2 mem;
         u0 \<leftarrow> rd ext 0; u1 \<leftarrow> rd ext 1;
         if set_flag = user_set_code USER_ADD then do {
           r \<leftarrow> get_usr_info (usr_name u0) d;
           case r of None \<Rightarrow> do { (r, d) \<leftarrow> sys_usr_add (usr_name u0) (usr_passwd u0) d; Some (r, c, d) }
           | Some _ \<Rightarrow> Some (cmd_code RC_USREXIST, c, d) }
         else if set_flag = user_set_code USER_DEL then do {
           r \<leftarrow> get_usr_info (usr_name u0) d;
           case r of None \<Rightarrow> Some (cmd_code RC_NOUSR, c, d)
           | Some _ \<Rightarrow> do {
               root \<leftarrow> streq (usr_name u0) (bytes_of ''root'' @ [0]);
               if root then Some (cmd_code USR_DEL_FAILED, c, d)
               else do { (r, d) \<leftarrow> sys_usr_del (usr_name u0) d; Some (r, c, d) } } }
         else if set_flag = user_set_code USER_MODIFY then do {
           (r, d) \<leftarrow> usr_modify (usr_name u0) u1 d;
           Some (r, c, d) }
         else Some (cmd_code RC_NOUSR, c, d) } }"

section \<open>Permissions\<close>

definition ENABLED :: u8 where "ENABLED = 1"
definition DISABLED :: u8 where "DISABLED = 0"

text \<open>The condition of the queries and settings of a port: its limits are off, or the user may.\<close>

definition permitted :: "(CONFIG_LIMIT \<Rightarrow> bytes) \<Rightarrow> u8 \<Rightarrow> ITSIP \<Rightarrow> dev \<Rightarrow> bool option" where
  "permitted sel port h d = do {
     l \<leftarrow> rd (con_lim (g_conf_info d)) (unat port);
     if lim_enable l = DISABLED then Some True
     else if lim_enable l = ENABLED then do {
       id \<leftarrow> get_usr_id (itsip_user h) d;
       if unat id < 16 then do { v \<leftarrow> rd (sel l) (unat id); Some (v = ENABLED) } else Some False }
     else Some False }"

definition is_root :: "ITSIP \<Rightarrow> dev \<Rightarrow> bool option" where
  "is_root h d = do {
     id \<leftarrow> get_usr_id (itsip_user h) d;
     u \<leftarrow> rd (users d) (unat id);
     Some (usr_auth u = USR_ROOT) }"

section \<open>Queries\<close>

text \<open>A refused query: the head with 1 in \<open>itsip_data[0]\<close>. A granted one sends the data as well.\<close>

definition query_refused :: "env \<Rightarrow> NET_CONN_INFO \<Rightarrow> dev \<Rightarrow> (int \<times> NET_CONN_INFO \<times> dev) option" where
  "query_refused e c d = ack (itsip_pack ITS_ACK_CONF_QUERY 0 0 (e_pak e)) 1 c d"

definition query_data :: "env \<Rightarrow> nat \<Rightarrow> bytes \<Rightarrow> NET_CONN_INFO \<Rightarrow> dev \<Rightarrow> (int \<times> NET_CONN_INFO \<times> dev) option" where
  "query_data e n mem c d = do {
     h \<leftarrow> set_data0 0 (itsip_pack ITS_ACK_CONF_QUERY n 0 (e_pak e));
     net_conn_send h (Some mem) n c d }"

definition gpio_snapshot :: "env \<Rightarrow> dev \<Rightarrow> CONFIG_GPIO" where
  "gpio_snapshot e d = (e_gpio e)\<lparr>alarm := map ucast (take 3 (g_alarm_in d)),
     alarm_on_off := take 3 (alarm_on_off (con_gpio (g_conf_info d))),
     gpio_output := take 4 (gpio_output (con_gpio (g_conf_info d)))\<rparr>"

definition sys_conf_query :: "env \<Rightarrow> ITSIP \<Rightarrow> NET_CONN_INFO \<Rightarrow> dev
    \<Rightarrow> (int \<times> NET_CONN_INFO \<times> dev) option" where
  "sys_conf_query e h c d = do {
     kind \<leftarrow> rd (itsip_data h) 0;
     port \<leftarrow> rd (itsip_data h) 1;
     if kind = conf_kind_code CONF_COM then do {
       ok \<leftarrow> permitted lim_read port h d;
       if ok then query_data e 28 (conf_mem e (off_com + 28 * unat port) d) c d else query_refused e c d }
     else if kind = conf_kind_code CONF_MODE then do {
       ok \<leftarrow> permitted lim_read port h d;
       if ok then query_data e 164 (conf_mem e (off_mode + 164 * unat port) d) c d else query_refused e c d }
     else if kind = conf_kind_code CONF_LIMIT then do {
       root \<leftarrow> is_root h d;
       if root then net_conn_send (itsip_pack ITS_ACK_CONF_QUERY 34 0 (e_pak e))
                      (if unat port < length (con_lim (g_conf_info d))
                       then Some (conf_mem e (off_lim + 34 * unat port) d) else Some []) 34 c d
       else query_refused e c d }
     else if kind = conf_kind_code CONF_GPIO then
       query_data e 52 (enc_CONFIG_GPIO (gpio_snapshot e d) @ e_stack e) c d
     else if kind = conf_kind_code CONF_SERVER then query_data e 56 (e_server e) c d
     else Some (0, c, d) }"

section \<open>Settings\<close>

text \<open>
  The settings receive the new part of the configuration, store and save it. \<open>recv_struct\<close> is the
  common start: a failed receive returns \<open>fail\<close> with nothing stored.
\<close>

definition recv_struct :: "nat \<Rightarrow> (bytes \<Rightarrow> ('a \<times> bytes) option) \<Rightarrow> int \<Rightarrow> NET_CONN_INFO \<Rightarrow> dev
    \<Rightarrow> ('a \<Rightarrow> NET_CONN_INFO \<Rightarrow> dev \<Rightarrow> (int \<times> NET_CONN_INFO \<times> dev) option)
    \<Rightarrow> (int \<times> NET_CONN_INFO \<times> dev) option" where
  "recv_struct n decode fail c d k = (let (r, got, c, d) = web_conn_recv n c d in
     if r = FAILURE then Some (fail, c, d) else do { (x, _) \<leftarrow> decode got; k x c d })"

definition set_conf :: "(CONFI_DATA \<Rightarrow> CONFI_DATA) \<Rightarrow> dev \<Rightarrow> dev" where
  "set_conf f d = d\<lparr>g_conf_info := f (g_conf_info d)\<rparr>"

definition sys_sysinfo_set :: "NET_CONN_INFO \<Rightarrow> dev \<Rightarrow> (int \<times> NET_CONN_INFO \<times> dev) option" where
  "sys_sysinfo_set c d = recv_struct 256 dec_CONFIG_SYS (cmd_code SYS_SET_FAILED) c d
     (\<lambda>x c d. Some (cmd_code SYS_SET_OK, c, config_save (set_conf (con_sys_update (\<lambda>_. x)) d)))"

definition sys_server_set :: "NET_CONN_INFO \<Rightarrow> dev \<Rightarrow> (int \<times> NET_CONN_INFO \<times> dev) option" where
  "sys_server_set c d = recv_struct 56 dec_CONFIG_SERVER (cmd_code SERVER_SET_FAILED) c d
     (\<lambda>x c d. Some (cmd_code SERVER_SET_OK, c, config_save (set_conf (con_server_update (\<lambda>_. x)) d)))"

definition sys_netinfo_set :: "NET_CONN_INFO \<Rightarrow> dev \<Rightarrow> (int \<times> NET_CONN_INFO \<times> dev) option" where
  "sys_netinfo_set c d = recv_struct 60 dec_CONFIG_NET (cmd_code NET_SET_FAILED) c d
     (\<lambda>x c d. do {
        d \<leftarrow> config_net_set x (config_save (set_conf (con_net_update (\<lambda>_. x)) d));
        Some (cmd_code NET_SET_OK, c, d) })"

definition sys_gpio_set :: "NET_CONN_INFO \<Rightarrow> dev \<Rightarrow> (int \<times> NET_CONN_INFO \<times> dev) option" where
  "sys_gpio_set c d = recv_struct 52 dec_CONFIG_GPIO (cmd_code NET_SET_FAILED) c d
     (\<lambda>x c d. do {
        let d = set_conf (con_gpio_update (\<lambda>_. x)) d;
        o0 \<leftarrow> rd (gpio_output x) 0; o1 \<leftarrow> rd (gpio_output x) 1;
        o2 \<leftarrow> rd (gpio_output x) 2; o3 \<leftarrow> rd (gpio_output x) 3;
        let d = set_gpios [(OUTPUT_1, unat o0), (OUTPUT_2, unat o1), (OUTPUT_3, unat o2), (OUTPUT_4, unat o3)] d;
        Some (cmd_code GPIO_SET_OK, c, config_save d) })"

definition sys_vlan_set :: "NET_CONN_INFO \<Rightarrow> dev \<Rightarrow> (int \<times> NET_CONN_INFO \<times> dev) option" where
  "sys_vlan_set c d = recv_struct 16 dec_CONFIG_VLAN (cmd_code VLAN_SET_FAILED) c d
     (\<lambda>x c d. Some (cmd_code VLAN_SET_OK, c, config_save (set_conf (con_vlan_update (\<lambda>_. x)) d)))"

definition sys_factory_set :: "NET_CONN_INFO \<Rightarrow> dev \<Rightarrow> (int \<times> NET_CONN_INFO \<times> dev) option" where
  "sys_factory_set c d = do {
     d \<leftarrow> reconfig d;
     d \<leftarrow> config_net_set (con_net (g_conf_info d)) d;
     Some (cmd_code FACTORY_SET_OK, c, d) }"

text \<open>The fields \<open>CONF_COM\<close> copies to every port when \<open>all\<close> is 1.\<close>

definition com_common :: "CONFIG_COM \<Rightarrow> CONFIG_COM \<Rightarrow> CONFIG_COM" where
  "com_common x c = c\<lparr>bps := bps x, dbit := dbit x, chk := chk x, sbit := sbit x, com_type := com_type x,
     isloop := isloop x\<rparr>"

text \<open>A refused \<open>CONF_COM\<close> returns \<open>COM_SET_OK\<close>, as a granted one.\<close>

definition sys_conf_set :: "ITSIP \<Rightarrow> NET_CONN_INFO \<Rightarrow> dev \<Rightarrow> (int \<times> NET_CONN_INFO \<times> dev) option" where
  "sys_conf_set h c d = do {
     kind \<leftarrow> rd (itsip_data h) 0;
     port \<leftarrow> rd (itsip_data h) 1;
     if kind = conf_kind_code CONF_COM then
       recv_struct 28 dec_CONFIG_COM (cmd_code RECV_FAILED) c d (\<lambda>x c d. do {
         ok \<leftarrow> permitted lim_modify port h d;
         if \<not> ok then Some (cmd_code COM_SET_OK, c, d) else do {
           coms \<leftarrow> (if com_all x \<noteq> 1 then wr (con_com (g_conf_info d)) (unat port) x
                    else Some (map (com_common x) (con_com (g_conf_info d))));
           let d = config_save (set_conf (con_com_update (\<lambda>_. coms)) d);
           com \<leftarrow> rd (con_com (g_conf_info d)) (unat port);
           d \<leftarrow> com_set com d;
           Some (cmd_code COM_SET_OK, c, d) } })
     else if kind = conf_kind_code CONF_MODE then
       recv_struct 164 dec_CONFIG_MODE (cmd_code RECV_FAILED) c d (\<lambda>x c d. do {
         ok \<leftarrow> permitted lim_modify port h d;
         if \<not> ok then Some (cmd_code MODE_SET_FAILED, c, d) else do {
           modes \<leftarrow> wr (con_mode (g_conf_info d)) (unat port) x;
           Some (cmd_code MODE_SET_OK, c, config_save (set_conf (con_mode_update (\<lambda>_. modes)) d)) } })
     else if kind = conf_kind_code CONF_LIMIT then
       recv_struct 34 dec_CONFIG_LIMIT (cmd_code RECV_FAILED) c d (\<lambda>x c d. do {
         root \<leftarrow> is_root h d;
         if \<not> root then Some (cmd_code LIMIT_SET_FAILED, c, d) else do {
           lims \<leftarrow> wr (con_lim (g_conf_info d)) (unat port) x;
           Some (cmd_code LIMIT_SET_OK, c, config_save (set_conf (con_lim_update (\<lambda>_. lims)) d)) } })
     else Some (cmd_code COM_SET_FAILED, c, d) }"

section \<open>Dispatch\<close>

text \<open>\<open>con_gpio.alarm[i] = g_alarm_in[i]\<close> for i < 8: \<open>alarm\<close> has three words, the others land behind it.\<close>

definition store_alarms :: "bytes \<Rightarrow> CONFIG_GPIO \<Rightarrow> CONFIG_GPIO option" where
  "store_alarms a g = do {
     a0 \<leftarrow> rd a 0; g \<leftarrow> gpio_poke g 0 (enc32 (ucast a0)); a1 \<leftarrow> rd a 1; g \<leftarrow> gpio_poke g 4 (enc32 (ucast a1));
     a2 \<leftarrow> rd a 2; g \<leftarrow> gpio_poke g 8 (enc32 (ucast a2)); a3 \<leftarrow> rd a 3; g \<leftarrow> gpio_poke g 12 (enc32 (ucast a3));
     a4 \<leftarrow> rd a 4; g \<leftarrow> gpio_poke g 16 (enc32 (ucast a4)); a5 \<leftarrow> rd a 5; g \<leftarrow> gpio_poke g 20 (enc32 (ucast a5));
     a6 \<leftarrow> rd a 6; g \<leftarrow> gpio_poke g 24 (enc32 (ucast a6)); a7 \<leftarrow> rd a 7; gpio_poke g 28 (enc32 (ucast a7)) }"

type_synonym web = "NET_CONN_INFO \<times> dev"

definition fin :: "(int \<times> NET_CONN_INFO \<times> dev) option \<Rightarrow> web option" where
  "fin r = map_option snd r"

text \<open>A setting: its result goes into the reply.\<close>

definition answer :: "env \<Rightarrow> ITS_CMD \<Rightarrow> (int \<times> NET_CONN_INFO \<times> dev) option \<Rightarrow> web option" where
  "answer e a r = do { (ret, c, d) \<leftarrow> r; fin (ack (itsip_pack a 0 0 (e_pak e)) ret c d) }"

text \<open>A query of a whole part of the configuration.\<close>

definition show_part :: "env \<Rightarrow> ITS_CMD \<Rightarrow> nat \<Rightarrow> nat \<Rightarrow> NET_CONN_INFO \<Rightarrow> dev \<Rightarrow> web option" where
  "show_part e a off n c d = fin (net_conn_send (itsip_pack a n 0 (e_pak e)) (Some (conf_mem e off d)) n c d)"

definition web_cmd_proc :: "env \<Rightarrow> ITSIP \<Rightarrow> NET_CONN_INFO \<Rightarrow> dev \<Rightarrow> web option" where
  "web_cmd_proc e h c d =
    (let cmd = itsip_cmd h in
     if client_conn c < 1 then Some (c, d)
     else if itsip_head h \<noteq> its_code ITS_HEAD then Some (c, d)
     else if cmd = its_code ITS_LOGIN then do {
       ret \<leftarrow> sys_usr_login (itsip_user h) (itsip_data h) d;
       fin (ack (itsip_pack ITS_ACK_LOGIN 0 0 (e_pak e)) ret c d) }
     else if cmd = its_code ITS_USER_QUERY then fin (sys_usr_query e c d)
     else if cmd = its_code ITS_USER_SET then do {
       (ret, c, d) \<leftarrow> sys_usr_set e h c d;
       fin (ack (e_pak e) ret c d) }
     else if cmd = its_code ITS_SYSINFO_QUERY then do {
       v \<leftarrow> strcpy (sw_ver (con_sys (g_conf_info d))) (bytes_of PROGRAM_VERSION @ [0]);
       show_part e ITS_ACK_SYSINFO_QUERY off_sys 256 c
         (set_conf (con_sys_update (\<lambda>s. s\<lparr>sw_ver := v\<rparr>)) d) }
     else if cmd = its_code ITS_SYSINFO_SET then answer e ITS_ACK_SYSINFO_SET (sys_sysinfo_set c d)
     else if cmd = its_code ITS_CONF_QUERY then fin (sys_conf_query e h c d)
     else if cmd = its_code ITS_CONF_SET then answer e ITS_ACK_CONF_SET (sys_conf_set h c d)
     else if cmd = its_code ITS_NETINFO_QUERY then show_part e ITS_ACK_NETINFO_QUERY off_net 60 c d
     else if cmd = its_code ITS_NETINFO_SET then answer e ITS_ACK_NETINFO_SET (sys_netinfo_set c d)
     else if cmd = its_code ITS_VLAN_QUERY then show_part e ITS_ACK_VLAN_QUERY off_vlan 16 c d
     else if cmd = its_code ITS_VLAN_SET then answer e ITS_ACK_VLAN_SET (sys_vlan_set c d)
     else if cmd = its_code ITS_FACTORY_SET then answer e ITS_ACK_FACTORY_SET (sys_factory_set c d)
     else if cmd = its_code ITS_SERVER_QUERY then do {
       _ \<leftarrow> cstring (dns_str (con_server (g_conf_info d)));
       show_part e ITS_ACK_SERVER_QUERY off_server 56 c d }
     else if cmd = its_code ITS_SERVER_SET then do {
       (ret, c, d) \<leftarrow> sys_server_set c d;
       (c, d) \<leftarrow> answer e ITS_ACK_SERVER_SET (Some (ret, c, d));
       Some (c, if ret = cmd_code SERVER_SET_OK then d\<lparr>g_reconnect_flag := RECONNECT_ON\<rparr> else d) }
     else if cmd = its_code ITS_GPIO_QUERY then do {
       g \<leftarrow> store_alarms (g_alarm_in d) (con_gpio (g_conf_info d));
       s \<leftarrow> get_sensor (sensor g) d;
       show_part e ITS_ACK_GPIO_QUERY off_gpio 52 c
         (set_conf (con_gpio_update (\<lambda>_. g\<lparr>sensor := s\<rparr>)) d) }
     else if cmd = its_code ITS_GPIO_SET then answer e ITS_ACK_GPIO_SET (sys_gpio_set c d)
     else Some (c, d))"

text \<open>\<open>web_svr_proc\<close>: a head, then its command.\<close>

definition web_svr_proc :: "env \<Rightarrow> NET_CONN_INFO \<Rightarrow> dev \<Rightarrow> web option" where
  "web_svr_proc e c d = (if client_conn c < 1 then Some (c, d)
     else let (r, got, c, d) = web_conn_recv 56 c d in
       if r = FAILURE then Some (c, d)
       else do { (h, _) \<leftarrow> dec_ITSIP got; web_cmd_proc e h c d })"

end
