(* ===== verification/WebServer.thy ===== *)
theory WebServer
  imports WebCmd
begin

text \<open>
  The management server's connection table and main loop, \<open>web_init\<close> and \<open>web_process\<close> of
  \<open>nc600-2.0/src/web_net.c\<close>.
\<close>

definition MAX_TCP_CONN :: nat where "MAX_TCP_CONN = 9"
definition WEB_PORT :: u16 where "WEB_PORT = 32000"

record server =
  g_client_conn :: "NET_CONN_INFO list"
  g_listen_conn :: int
  m_max_sock :: int
  m_max_i :: nat

text \<open>\<open>web_init\<close>, with the descriptor \<open>web_svr_start\<close> got (or -1); the sockets start with no traffic.\<close>

definition fresh_conn :: NET_CONN_INFO where
  "fresh_conn = \<lparr>conn_idx = -1, client_conn = -1, file_type = 0xff, idle = 0, clientip = zeros 16,
     rx = [], inp = [], tx = [], starts = []\<rparr>"

definition web_init :: "int \<Rightarrow> server" where
  "web_init listen_fd = \<lparr>g_client_conn = replicate MAX_TCP_CONN fresh_conn, g_listen_conn = listen_fd,
     m_max_sock = listen_fd, m_max_i = 0\<rparr>"

text \<open>
  What one turn of \<open>web_process\<close> meets: \<open>select\<close> interrupted, or failed, or the descriptors that are
  readable with the connection \<open>accept\<close> returned (its descriptor, the peer's address text, its
  traffic). \<open>select\<close> has no time limit, so the result 0 does not occur; the code's test for it
  returns like an interruption.
\<close>

record accepted =
  a_fd :: int
  a_ip :: bytes
  a_conn :: NET_CONN_INFO   \<comment> \<open>only its traffic fields are used\<close>

datatype select_ev = SelIntr | SelErr | SelReady "int set" "accepted option"

text \<open>The first slot whose descriptor is negative takes the connection.\<close>

fun free_slot :: "NET_CONN_INFO list \<Rightarrow> nat \<Rightarrow> nat option" where
  "free_slot [] i = None"
| "free_slot (c # cs) i = (if client_conn c < 0 then Some i else free_slot cs (Suc i))"

definition admit :: "accepted \<Rightarrow> server \<times> dev \<Rightarrow> (server \<times> dev) option" where
  "admit a sd = (let (s, d) = sd in
     if a_fd a \<le> 0 then Some (s, d)
     else case free_slot (g_client_conn s) 0 of
       None \<Rightarrow> Some (s, emit (EvClose (a_fd a)) d)
     | Some i \<Rightarrow> do {
         ip \<leftarrow> strcpy (clientip (g_client_conn s ! i)) (a_ip a @ [0]);
         let c = (g_client_conn s ! i)\<lparr>conn_idx := int i, client_conn := a_fd a, idle := 0, clientip := ip,
               rx := rx (a_conn a), inp := inp (a_conn a), tx := tx (a_conn a), starts := starts (a_conn a)\<rparr>;
         Some (s\<lparr>g_client_conn := (g_client_conn s)[i := c], m_max_i := max i (m_max_i s),
                 m_max_sock := max (a_fd a) (m_max_sock s)\<rparr>, d) })"

text \<open>Serve the readable connections among the slots \<open>i\<close> to \<open>m_max_i\<close>.\<close>

fun serve :: "env \<Rightarrow> int set \<Rightarrow> nat list \<Rightarrow> server \<times> dev \<Rightarrow> (server \<times> dev) option" where
  "serve e ready [] sd = Some sd"
| "serve e ready (i # is) sd = (let (s, d) = sd in do {
     c \<leftarrow> rd (g_client_conn s) i;
     if client_conn c < 0 then serve e ready is (s, d)
     else if client_conn c \<in> ready then do {
       (c, d) \<leftarrow> web_svr_proc e (c\<lparr>idle := 0\<rparr>) d;
       serve e ready is (s\<lparr>g_client_conn := (g_client_conn s)[i := c]\<rparr>, d) }
     else serve e ready is (s, d) })"

text \<open>After a failed \<open>select\<close> every connection is closed.\<close>

fun close_all :: "NET_CONN_INFO list \<Rightarrow> dev \<Rightarrow> NET_CONN_INFO list \<times> dev" where
  "close_all [] d = ([], d)"
| "close_all (c # cs) d = (let (c, d) = net_conn_close c d; (cs, d) = close_all cs d in (c # cs, d))"

definition web_process :: "env \<Rightarrow> select_ev \<Rightarrow> server \<times> dev \<Rightarrow> (server \<times> dev) option" where
  "web_process e ev sd = (let (s, d) = sd in
     case ev of
       SelIntr \<Rightarrow> Some (s, d)
     | SelErr \<Rightarrow> (let (cs, d) = close_all (g_client_conn s) d in Some (s\<lparr>g_client_conn := cs\<rparr>, d))
     | SelReady ready acc \<Rightarrow> do {
         (s, d) \<leftarrow> (if g_listen_conn s \<in> ready
                   then case acc of Some a \<Rightarrow> admit a (s, d) | None \<Rightarrow> Some (s, d)
                   else Some (s, d));
         serve e ready [0 ..< Suc (m_max_i s)] (s, d) })"

end
