(* ===== verification/Web_Facts.thy ===== *)
theory Web_Facts
  imports WebServer Examples
begin

text \<open>
  Lemmas on the management server: what the transfers leave alone, the replies as packets, and
  that every command keeps the device well formed.
\<close>

section \<open>Transfers touch the trace only\<close>

lemma only_trace_ok_dev: "only_trace d d' \<Longrightarrow> ok_dev d' = ok_dev d"
  by (auto simp: only_trace_def ok_dev_def)

lemma close_only_trace: "net_conn_close c d = (c', d') \<Longrightarrow> only_trace d d'"
  by (auto simp: net_conn_close_def split: if_splits)

lemma recv_loop_only_trace: "recv_loop sc ms1 want acc c d = (r, got, c', d') \<Longrightarrow> only_trace d d'"
  by (induction sc ms1 want acc c d arbitrary: got c' d' rule: recv_loop.induct)
    (auto simp: recv_fail_def Let_def split: if_splits prod.splits dest: close_only_trace)

lemma web_conn_recv_only_trace: "web_conn_recv n c d = (r, got, c', d') \<Longrightarrow> only_trace d d'"
  by (auto simp: web_conn_recv_def Let_def split: if_splits prod.splits dest: recv_loop_only_trace)

lemma send_loop_only_trace: "send_loop sc ms1 p c d = (r, c', d') \<Longrightarrow> only_trace d d'"
proof (induction sc ms1 p c d arbitrary: c' d' rule: send_loop.induct)
  case (6 n t3 sc ms1 p c d)
  let ?d = "emit (EvWrite (client_conn c) (take (min n (length p)) p)) d"
  have "only_trace ?d d'" if "min n (length p) \<noteq> 0"
    using "6.prems" "6.IH" [OF refl that refl] that
    by (auto simp: send_fail_def Let_def split: if_splits prod.splits dest: close_only_trace)
  moreover have "only_trace d d'" if "min n (length p) = 0"
    using "6.prems" that by (auto simp: send_fail_def Let_def split: prod.splits dest: close_only_trace)
  ultimately show ?case using only_trace_trans [OF only_trace_emit] by blast
qed (auto simp: send_fail_def Let_def split: if_splits prod.splits dest: close_only_trace)

lemma send_loop_fail:
  "send_loop sc ms1 p c d = (FAILURE, c', d') \<Longrightarrow> 0 < client_conn c \<Longrightarrow>
     client_conn c' = -1 \<and> (\<exists>t. trace d' = t @ [EvClose (client_conn c)])"
proof (induction sc ms1 p c d arbitrary: c' d' rule: send_loop.induct)
  case (6 n t3 sc ms1 p c d)
  define k where "k = min n (length p)"
  let ?d = "emit (EvWrite (client_conn c) (take k p)) d"
  have step: "(if k = 0 then send_fail (c\<lparr>tx := sc\<rparr>) d
      else if length p - k = 0 then (SUCCESS, c\<lparr>tx := sc\<rparr>, ?d)
      else if timed_out ms1 t3 then send_fail (c\<lparr>tx := sc\<rparr>) ?d
      else send_loop sc ms1 (drop k p) c ?d) = (FAILURE, c', d')"
    using "6.prems"(1) by (simp only: send_loop.simps Let_def k_def)
  show ?case
  proof (cases "k \<noteq> 0 \<and> length p - k \<noteq> 0 \<and> \<not> timed_out ms1 t3")
    case True
    with step have "send_loop sc ms1 (drop k p) c ?d = (FAILURE, c', d')" by simp
    with "6.IH" [OF k_def _ refl _ _ this "6.prems"(2)] True show ?thesis by simp
  next
    case False
    with step "6.prems"(2) show ?thesis
      by (auto simp: send_fail_def net_conn_close_def split: if_splits)
  qed
qed (auto simp: send_fail_def net_conn_close_def split: if_splits)

lemma send_pkt_only_trace: "net_conn_send_pkt p c d = (r, c', d') \<Longrightarrow> only_trace d d'"
  by (auto simp: net_conn_send_pkt_def Let_def split: if_splits prod.splits dest: send_loop_only_trace)

lemma net_conn_send_only_trace: "net_conn_send h m n c d = Some (r, c', d') \<Longrightarrow> only_trace d d'"
  by (auto simp: net_conn_send_def Let_def bind_eq_Some_conv split: if_splits prod.splits option.splits
      dest!: send_pkt_only_trace intro: only_trace_trans)

lemma ack_only_trace: "ack h ret c d = Some (r, c', d') \<Longrightarrow> only_trace d d'"
  by (auto simp: ack_def bind_eq_Some_conv dest: net_conn_send_only_trace)

lemma query_data_only_trace: "query_data e n m c d = Some (r, c', d') \<Longrightarrow> only_trace d d'"
  by (auto simp: query_data_def bind_eq_Some_conv dest: net_conn_send_only_trace)

lemma fin_Some: "fin r = Some (c, d) \<longleftrightarrow> (\<exists>x. r = Some (x, c, d))"
  by (auto simp: fin_def)

lemma show_part_only_trace: "show_part e a off n c d = Some (c', d') \<Longrightarrow> only_trace d d'"
  by (auto simp: show_part_def fin_Some dest: net_conn_send_only_trace)

section \<open>Packets\<close>

lemma ok_itsip_pack [simp]: "ok_ITSIP (itsip_pack a n t p) = ok_ITSIP p"
  by (simp add: itsip_pack_def ok_ITSIP_def)

text \<open>The head of a reply.\<close>

definition reply_head :: "env \<Rightarrow> ITS_CMD \<Rightarrow> nat \<Rightarrow> int \<Rightarrow> ITSIP" where
  "reply_head e a n ret = (itsip_pack a n 0 (e_pak e))\<lparr>itsip_data := (itsip_data (e_pak e))[0 := of_int ret]\<rparr>"

lemma set_data0_eq: "ok_ITSIP h \<Longrightarrow> set_data0 ret h = Some (h\<lparr>itsip_data := (itsip_data h)[0 := of_int ret]\<rparr>)"
  by (simp add: set_data0_def ok_ITSIP_def wr_in)

lemma set_data0_pack:
  "ok_env e \<Longrightarrow> set_data0 ret (itsip_pack a n 0 (e_pak e)) = Some (reply_head e a n ret)"
  by (subst set_data0_eq) (simp_all add: ok_env_def ok_ITSIP_def reply_head_def itsip_pack_def)

lemma net_conn_send_head: "net_conn_send h None n c d = Some (net_conn_send_pkt (enc_ITSIP h) c d)"
  by (simp add: net_conn_send_def Let_def split: prod.splits)

lemma ack_pack:
  "ok_env e \<Longrightarrow> ack (itsip_pack a 0 0 (e_pak e)) ret c d = Some (net_conn_send_pkt (enc_ITSIP (reply_head e a 0 ret)) c d)"
  by (simp add: ack_def set_data0_pack net_conn_send_head)

lemma answer_eq:
  "ok_env e \<Longrightarrow> answer e a (Some (ret, c, d)) = Some (snd (net_conn_send_pkt (enc_ITSIP (reply_head e a 0 ret)) c d))"
  by (simp add: answer_def ack_pack fin_def)

lemma answer_None [simp]: "answer e a None = None"
  by (simp add: answer_def)

text \<open>A connection whose socket takes everything.\<close>

lemma tx_idem: "tx c = [] \<Longrightarrow> c\<lparr>idle := 0, starts := ts, tx := []\<rparr> = c\<lparr>idle := 0, starts := ts\<rparr>"
  by (cases c) simp

lemma start_time_starts: "start_time c = (t, c') \<Longrightarrow> \<exists>ts. c' = c\<lparr>starts := ts\<rparr>"
  by (cases c) (auto simp: start_time_def split: list.splits)

lemma send_pkt_open:
  assumes "0 < client_conn c" "tx c = []" "p \<noteq> []"
  shows "\<exists>ts. net_conn_send_pkt p c d = (SUCCESS, c\<lparr>idle := 0, starts := ts\<rparr>, emit (EvWrite (client_conn c) p) d)"
proof -
  obtain t c1 where s: "start_time (c\<lparr>idle := 0\<rparr>) = (t, c1)" by fastforce
  then obtain ts where "c1 = c\<lparr>idle := 0, starts := ts\<rparr>" using start_time_starts by blast
  with s assms tx_idem [OF assms(2), of ts] show ?thesis
    by (intro exI [of _ ts]) (simp add: net_conn_send_pkt_def Let_def)
qed

lemma enc_ITSIP_nonempty: "enc_ITSIP h \<noteq> []"
  by (simp add: enc_ITSIP_def enc8_def)

lemma net_conn_send_open:
  assumes "0 < client_conn c" "tx c = []" "0 < n" "MAX_LENGTH \<le> length mem"
  shows "\<exists>ts. net_conn_send h (Some mem) n c d = Some (SUCCESS, c\<lparr>idle := 0, starts := ts\<rparr>,
     emit (EvWrite (client_conn c) (take MAX_LENGTH mem)) (emit (EvWrite (client_conn c) (enc_ITSIP h)) d))"
proof -
  obtain ts where h: "net_conn_send_pkt (enc_ITSIP h) c d =
      (SUCCESS, c\<lparr>idle := 0, starts := ts\<rparr>, emit (EvWrite (client_conn c) (enc_ITSIP h)) d)"
    using send_pkt_open [OF assms(1,2) enc_ITSIP_nonempty] by blast
  have m: "take MAX_LENGTH mem \<noteq> []" using assms(4) by (auto simp: MAX_LENGTH_def)
  obtain us where "net_conn_send_pkt (take MAX_LENGTH mem) (c\<lparr>idle := 0, starts := ts\<rparr>) (emit (EvWrite (client_conn c) (enc_ITSIP h)) d)
     = (SUCCESS, c\<lparr>idle := 0, starts := us\<rparr>,
     emit (EvWrite (client_conn c) (take MAX_LENGTH mem)) (emit (EvWrite (client_conn c) (enc_ITSIP h)) d))"
    using send_pkt_open [of "c\<lparr>idle := 0, starts := ts\<rparr>", OF _ _ m] assms(1,2) by auto
  with h assms show ?thesis by (intro exI [of _ us]) (simp add: net_conn_send_def rds_def)
qed

text \<open>A connection on which the next \<open>n\<close> bytes arrive in time.\<close>

definition ready_for :: "nat \<Rightarrow> NET_CONN_INFO \<Rightarrow> bool" where
  "ready_for n c \<longleftrightarrow> 0 < client_conn c \<and> patient (rx c) (fst (start_time c)) n \<and> n \<le> length (inp c)"

lemma recv_ready:
  assumes "ready_for n c" "0 < n"
  shows "\<exists>c'. web_conn_recv n c d = (SUCCESS, take n (inp c), c', d) \<and> inp c' = drop n (inp c) \<and>
     client_conn c' = client_conn c \<and> tx c' = tx c"
proof -
  obtain t c1 where s: "start_time c = (t, c1)" by fastforce
  note f = start_time_fields [OF s]
  have "patient (rx c1) t n" "n \<le> length (inp c1)" using assms(1) f s by (simp_all add: ready_for_def)
  from recv_loop_complete [OF this(1) assms(2) this(2), of "[]" d] obtain sc' where
    "recv_loop (rx c1) t n [] c1 d = (SUCCESS, take n (inp c1), c1\<lparr>inp := drop n (inp c1), rx := sc'\<rparr>, d)" by auto
  with assms(1) s f show ?thesis by (simp add: web_conn_recv_def ready_for_def)
qed

section \<open>Every command keeps the device well formed\<close>

lemma ok_set_conf: "ok_dev d \<Longrightarrow> ok_CONFI_DATA (f (g_conf_info d)) \<Longrightarrow> ok_dev (set_conf f d)"
  by (simp add: ok_dev_def set_conf_def)

lemma ok_upd_usr: "ok_dev d \<Longrightarrow> ok_USR_INFO u \<Longrightarrow> ok_dev (upd_usr i u d)"
  by (simp add: ok_dev_def upd_usr_def ok_CONFI_DATA_def list_all_update)

lemma ok_usr_nth: "ok_dev d \<Longrightarrow> i < length (users d) \<Longrightarrow> ok_USR_INFO (users d ! i)"
  by (simp add: ok_dev_def ok_CONFI_DATA_def list_all_length)

lemma find_idx_range: "find_idx p xs k = Some (Some i) \<Longrightarrow> k \<le> i \<and> i < k + length xs"
  by (induction xs arbitrary: k) (fastforce split: option.splits if_splits)+

lemma get_usr_info_range: "get_usr_info n d = Some (Some i) \<Longrightarrow> i < length (users d)"
  by (auto simp: get_usr_info_def dest: find_idx_range)

lemma ok_usr_upds:
  assumes "ok_USR_INFO u"
  shows "length a = 24 \<Longrightarrow> ok_USR_INFO (u\<lparr>usr_name := a\<rparr>)" "length b = 24 \<Longrightarrow> ok_USR_INFO (u\<lparr>usr_passwd := b\<rparr>)"
    "length a = 24 \<Longrightarrow> length b = 24 \<Longrightarrow> ok_USR_INFO (u\<lparr>usr_name := a, usr_passwd := b\<rparr>)"
    "length (usr_name u) = 24" "length (usr_passwd u) = 24"
  using assms by (simp_all add: ok_USR_INFO_def)

lemma ok_user_ops:
  assumes "ok_dev d"
  shows "sys_usr_add n p d = Some (r, d') \<Longrightarrow> ok_dev d'" "sys_usr_del n d = Some (r, d') \<Longrightarrow> ok_dev d'"
    "set_usr_name n m d = Some (r, d') \<Longrightarrow> ok_dev d'" "set_usr_psw n p d = Some (r, d') \<Longrightarrow> ok_dev d'"
  using assms
  by (auto simp: sys_usr_add_def sys_usr_del_def set_usr_name_def set_usr_psw_def bind_eq_Some_conv Let_def
      split: option.splits dest!: strcpy_length get_usr_info_range find_idx_range intro!: ok_upd_usr ok_usr_upds ok_usr_nth
      simp: ok_usr_upds(4,5) [OF ok_usr_nth])

lemma ok_usr_modify: "usr_modify n u d = Some (r, d') \<Longrightarrow> ok_dev d \<Longrightarrow> ok_dev d'"
  by (auto simp: usr_modify_def bind_eq_Some_conv split: if_splits dest: ok_user_ops)

lemma sys_usr_set_ok: "sys_usr_set e h c d = Some (r, c', d') \<Longrightarrow> ok_dev d \<Longrightarrow> ok_dev d'"
  by (auto simp: sys_usr_set_def bind_eq_Some_conv Let_def split: option.splits if_splits prod.splits
      dest!: web_conn_recv_only_trace [THEN only_trace_ok_dev] dest: ok_user_ops ok_usr_modify)

lemma recv_struct_ok:
  assumes "recv_struct n dec fail c d k = Some (r, c', d')" "ok_dev d"
    and "\<And>b x rest c1 d1. dec b = Some (x, rest) \<Longrightarrow> ok_dev d1 \<Longrightarrow> k x c1 d1 = Some (r, c', d') \<Longrightarrow> ok_dev d'"
  shows "ok_dev d'"
  using assms
  by (auto simp: recv_struct_def Let_def bind_eq_Some_conv split: prod.splits if_splits
      dest!: web_conn_recv_only_trace [THEN only_trace_ok_dev])

lemma ok_set_parts:
  assumes "ok_dev d"
  shows "ok_CONFIG_SYS x1 \<Longrightarrow> ok_dev (set_conf (con_sys_update (\<lambda>_. x1)) d)"
    "ok_CONFIG_NET x2 \<Longrightarrow> ok_dev (set_conf (con_net_update (\<lambda>_. x2)) d)"
    "ok_CONFIG_VLAN x3 \<Longrightarrow> ok_dev (set_conf (con_vlan_update (\<lambda>_. x3)) d)"
    "list_all ok_CONFIG_COM x4 \<Longrightarrow> length x4 = 2 \<Longrightarrow> ok_dev (set_conf (con_com_update (\<lambda>_. x4)) d)"
    "list_all ok_CONFIG_MODE x5 \<Longrightarrow> length x5 = 2 \<Longrightarrow> ok_dev (set_conf (con_mode_update (\<lambda>_. x5)) d)"
    "list_all ok_CONFIG_LIMIT x6 \<Longrightarrow> length x6 = 2 \<Longrightarrow> ok_dev (set_conf (con_lim_update (\<lambda>_. x6)) d)"
    "ok_CONFIG_SERVER x7 \<Longrightarrow> ok_dev (set_conf (con_server_update (\<lambda>_. x7)) d)"
    "ok_CONFIG_GPIO x8 \<Longrightarrow> ok_dev (set_conf (con_gpio_update (\<lambda>_. x8)) d)"
  using assms by (simp_all add: ok_dev_def set_conf_def ok_CONFI_DATA_def)

lemma ok_parts:
  assumes "ok_dev d"
  shows "list_all ok_CONFIG_COM (con_com (g_conf_info d))" "length (con_com (g_conf_info d)) = 2"
    "list_all ok_CONFIG_MODE (con_mode (g_conf_info d))" "length (con_mode (g_conf_info d)) = 2"
    "list_all ok_CONFIG_LIMIT (con_lim (g_conf_info d))" "length (con_lim (g_conf_info d)) = 2"
    "ok_CONFIG_SYS (con_sys (g_conf_info d))" "ok_CONFIG_NET (con_net (g_conf_info d))"
    "ok_CONFIG_GPIO (con_gpio (g_conf_info d))" "length (users d) = 16" "list_all ok_USR_INFO (users d)"
  using assms by (simp_all add: ok_dev_def ok_CONFI_DATA_def)

lemma ok_simple_sets:
  shows "sys_sysinfo_set c d = Some (r, c', d') \<Longrightarrow> ok_dev d \<Longrightarrow> ok_dev d'"
    "sys_server_set c d = Some (r, c', d') \<Longrightarrow> ok_dev d \<Longrightarrow> ok_dev d'"
    "sys_vlan_set c d = Some (r, c', d') \<Longrightarrow> ok_dev d \<Longrightarrow> ok_dev d'"
  unfolding sys_sysinfo_set_def sys_server_set_def sys_vlan_set_def
  by (erule recv_struct_ok, assumption, auto dest!: cSYS.dec_ok cSRV.dec_ok cVLAN.dec_ok simp: ok_set_parts)+

lemma ok_config_net_set: "config_net_set n d = Some d' \<Longrightarrow> ok_dev d \<Longrightarrow> ok_dev d'"
  by (auto simp: config_net_set_def sys_cmd_def bind_eq_Some_conv)

lemma ok_netinfo_set: "sys_netinfo_set c d = Some (r, c', d') \<Longrightarrow> ok_dev d \<Longrightarrow> ok_dev d'"
  unfolding sys_netinfo_set_def
  by (erule recv_struct_ok) (auto simp: bind_eq_Some_conv ok_set_parts dest!: cNET.dec_ok ok_config_net_set)

lemma ok_set_gpios: "ok_dev (set_gpios l d) = ok_dev d"
  using only_trace_ok_dev [OF only_trace_set_gpios [of d l]] .

lemma ok_gpio_set: "sys_gpio_set c d = Some (r, c', d') \<Longrightarrow> ok_dev d \<Longrightarrow> ok_dev d'"
  unfolding sys_gpio_set_def
  by (erule recv_struct_ok) (auto simp: bind_eq_Some_conv Let_def ok_set_gpios ok_set_parts dest!: cGPIO.dec_ok)

lemma ok_reconfig: "reconfig d = Some d' \<Longrightarrow> ok_dev d \<Longrightarrow> ok_dev d'"
  by (auto simp: reconfig_def default_net_def default_server_def bind_eq_Some_conv Let_def ok_dev_def ok_CONFI_DATA_def
      ok_CONFIG_NET_def ok_CONFIG_SERVER_def ok_CONFIG_GPIO_def alarm_on_off_all_eq dest!: strcpy_length)

lemma ok_factory_set: "sys_factory_set c d = Some (r, c', d') \<Longrightarrow> ok_dev d \<Longrightarrow> ok_dev d'"
  by (auto simp: sys_factory_set_def bind_eq_Some_conv dest: ok_reconfig ok_config_net_set)

lemma ok_com_set: "com_set x d = Some d' \<Longrightarrow> ok_dev d' = ok_dev d"
  by (auto simp: com_set_def bind_eq_Some_conv)

lemma ok_com_common: "ok_CONFIG_COM (com_common x c) = ok_CONFIG_COM c"
  by (simp add: com_common_def ok_CONFIG_COM_def)

lemma ok_set_elems:
  assumes "ok_dev d"
  shows "ok_CONFIG_COM x1 \<Longrightarrow> ok_dev (set_conf (con_com_update (\<lambda>_. (con_com (g_conf_info d))[i := x1])) d)"
    "ok_dev (set_conf (con_com_update (\<lambda>_. map (com_common y) (con_com (g_conf_info d)))) d)"
    "ok_CONFIG_MODE x2 \<Longrightarrow> ok_dev (set_conf (con_mode_update (\<lambda>_. (con_mode (g_conf_info d))[i := x2])) d)"
    "ok_CONFIG_LIMIT x3 \<Longrightarrow> ok_dev (set_conf (con_lim_update (\<lambda>_. (con_lim (g_conf_info d))[i := x3])) d)"
  using ok_parts(1-6) [OF assms]
  by (auto intro!: ok_set_parts assms list_all_update simp: ok_com_common list_all_length)

lemma ok_conf_set: "sys_conf_set h c d = Some (r, c', d') \<Longrightarrow> ok_dev d \<Longrightarrow> ok_dev d'"
  unfolding sys_conf_set_def
  by (auto simp: bind_eq_Some_conv split: if_splits elim!: recv_struct_ok dest!: cCOM.dec_ok cMODE.dec_ok cLIM.dec_ok)
    (auto simp: ok_set_elems wr_Some_iff Let_def bind_eq_Some_conv dest!: ok_com_set split: if_splits)

lemma store_alarms_ok: "store_alarms a g = Some g' \<Longrightarrow> ok_CONFIG_GPIO g \<Longrightarrow> ok_CONFIG_GPIO g'"
  by (auto simp: store_alarms_def bind_eq_Some_conv) (blast intro: gpio_poke_image)

lemma ok_query_confs: "sys_conf_query e h c d = Some (r, c', d') \<Longrightarrow> only_trace d d'"
  by (auto simp: sys_conf_query_def query_refused_def bind_eq_Some_conv split: if_splits
      dest: net_conn_send_only_trace ack_only_trace query_data_only_trace)

lemma get_sensor_length: "get_sensor p d = Some q \<Longrightarrow> length q = length p"
  by (auto simp: get_sensor_def bind_eq_Some_conv split: option.splits dest: wrs_Some_length)

text \<open>A reply keeps what the command left.\<close>

lemma answer_ok:
  assumes "answer e a r = Some (c', d')" "\<And>x c1 d1. r = Some (x, c1, d1) \<Longrightarrow> ok_dev d1"
  shows "ok_dev d'"
  using assms by (auto simp: answer_def fin_Some bind_eq_Some_conv dest!: ack_only_trace [THEN only_trace_ok_dev])

lemma show_part_ok: "show_part e a off n c d = Some (c', d') \<Longrightarrow> ok_dev d \<Longrightarrow> ok_dev d'"
  by (drule show_part_only_trace) (simp add: only_trace_ok_dev)

lemma sysinfo_query_ok:
  assumes "ok_dev d" "strcpy (sw_ver (con_sys (g_conf_info d))) x = Some v"
  shows "ok_dev (set_conf (con_sys_update (\<lambda>s. s\<lparr>sw_ver := v\<rparr>)) d)"
  using assms strcpy_length [OF assms(2)] ok_parts(7) [OF assms(1)]
  by (simp add: ok_dev_def set_conf_def ok_CONFI_DATA_def ok_CONFIG_SYS_def)

lemma gpio_query_ok:
  assumes "ok_dev d" "store_alarms a (con_gpio (g_conf_info d)) = Some g" "get_sensor (sensor g) d = Some s"
  shows "ok_dev (set_conf (con_gpio_update (\<lambda>_. g\<lparr>sensor := s\<rparr>)) d)"
  using store_alarms_ok [OF assms(2)] ok_parts(9) [OF assms(1)] get_sensor_length [OF assms(3)]
  by (intro ok_set_parts assms(1)) (simp add: ok_CONFIG_GPIO_def)

lemma ok_dev_reconnect [simp]: "ok_dev (d\<lparr>g_reconnect_flag := f\<rparr>) = ok_dev d"
  by (simp add: ok_dev_def)

lemmas command_ok = sys_usr_set_ok ok_simple_sets ok_conf_set ok_netinfo_set ok_factory_set ok_gpio_set

lemma answer_set_ok: "answer e a (Some (r, c, d)) = Some (c', d') \<Longrightarrow> ok_dev d \<Longrightarrow> ok_dev d'"
  by (erule answer_ok) simp

lemmas traced_ok = ack_only_trace [THEN only_trace_ok_dev] net_conn_send_only_trace [THEN only_trace_ok_dev]
  ok_query_confs [THEN only_trace_ok_dev]

lemma web_cmd_proc_ok: "web_cmd_proc e h c d = Some (c', d') \<Longrightarrow> ok_dev d \<Longrightarrow> ok_dev d'"
  unfolding web_cmd_proc_def Let_def
  by (auto simp: bind_eq_Some_conv fin_Some sys_usr_query_def split: if_splits
      dest!: traced_ok elim!: answer_ok dest: command_ok answer_set_ok show_part_ok sysinfo_query_ok gpio_query_ok)

lemma web_svr_proc_ok: "web_svr_proc e c d = Some (c', d') \<Longrightarrow> ok_dev d \<Longrightarrow> ok_dev d'"
  by (auto simp: web_svr_proc_def bind_eq_Some_conv Let_def split: if_splits prod.splits
      dest!: web_conn_recv_only_trace [THEN only_trace_ok_dev] dest: web_cmd_proc_ok)

section \<open>Users, by the strings in their arrays\<close>

lemma cstring_terminated: "cstring a = Some s \<Longrightarrow> cstring a = cstring (s @ [0])"
  by (auto dest!: cstring_SomeD simp: cstring_append)

lemma cstring_field_fits: "cstring a = Some s \<Longrightarrow> length a \<le> 24 \<Longrightarrow> fits s"
  by (auto dest!: cstring_SomeD simp: fits_def)

lemma strcpy_by_cstring: "cstring a = cstring b \<Longrightarrow> strcpy dst a = strcpy dst b"
  by (simp add: strcpy_def)

lemma add_by_cstring:
  "cstring a = cstring a' \<Longrightarrow> cstring b = cstring b' \<Longrightarrow> sys_usr_add a b d = sys_usr_add a' b' d"
  by (simp only: sys_usr_add_def strcpy_by_cstring [of a a'] strcpy_by_cstring [of b b'])

lemma login_by_cstring:
  assumes "users_ok d" "cstring a = Some n" "n \<noteq> []" "cstring b = Some p" "length a \<le> 24" "length b \<le> 24"
  shows "sys_usr_login a b d = Some (case accounts d n of None \<Rightarrow> cmd_code NO_USER
     | Some q \<Rightarrow> if p = q then cmd_code LOGIN_OK else cmd_code ERROR_PSW)"
proof -
  have n: "fits n" "fits p" using assms cstring_field_fits by blast+
  have "sys_usr_login a b d = sys_usr_login (n @ [0]) (p @ [0]) d"
  proof -
    have i: "get_usr_info a d = get_usr_info (n @ [0]) d"
      using assms(1,2) get_usr_info_eq [OF assms(1)] cstring_fits [OF n(1)] by simp
    have s: "streq b (usr_passwd u) = streq (p @ [0]) (usr_passwd u)" if "slot_ok u" for u
      using streq_slot(2) [OF that assms(4)] streq_slot(2) [OF that cstring_fits [OF n(2)]] by simp
    show ?thesis
    proof (cases "get_usr_info (n @ [0]) d")
      case (Some r)
      then show ?thesis
        using s [OF slot_ok_nth [OF assms(1)]] by (cases r) (simp_all add: sys_usr_login_def i get_usr_info_range)
    qed (simp add: sys_usr_login_def i)
  qed
  then show ?thesis using ut.login_law [OF assms(1) n(1) assms(3) n(2)] by simp
qed

lemma get_usr_info_by_name:
  assumes "users_ok d" "cstring a = Some n" "n \<noteq> []"
  shows "get_usr_info a d = Some None \<longleftrightarrow> accounts d n = None"
  using get_usr_info_eq [OF assms(1,2)] assms(3) by (simp add: accounts_eq)

lemma usr_of_name:
  assumes "users_ok d" "cstring a = Some n" "get_usr_info a d = Some (Some i)"
  shows "i < length (users d)" "uname (users d ! i) = n"
  using assms get_usr_info_eq [OF assms(1,2)] first_idx_0 [of "\<lambda>u. uname u = n" "users d" i] by auto

end
