(* ===== verification/Web_Table.thy ===== *)
theory Web_Table
  imports Web_Facts
begin

text \<open>
  The connection table of the management server: what a command can do to its connection, the
  invariant of the table, and the states the server reaches.
\<close>

section \<open>A command keeps its connection or closes it\<close>

definition kept :: "NET_CONN_INFO \<Rightarrow> NET_CONN_INFO \<Rightarrow> bool" where
  "kept c c' \<longleftrightarrow> (client_conn c' = client_conn c \<or> client_conn c' = -1) \<and> clientip c' = clientip c"

lemma kept_refl [simp]: "kept c c"
  by (simp add: kept_def)

lemma kept_trans: "kept a b \<Longrightarrow> kept b c \<Longrightarrow> kept a c"
  by (auto simp: kept_def)

lemma kept_upd [simp]:
  "kept (c\<lparr>rx := r\<rparr>) c' = kept c c'" "kept (c\<lparr>tx := t\<rparr>) c' = kept c c'" "kept (c\<lparr>inp := i\<rparr>) c' = kept c c'"
  "kept (c\<lparr>idle := z\<rparr>) c' = kept c c'" "kept c (c\<lparr>rx := r\<rparr>)" "kept c (c\<lparr>tx := t\<rparr>)"
  "kept c (c\<lparr>inp := i, rx := r\<rparr>)"
  by (simp_all add: kept_def)

lemma close_kept: "net_conn_close c d = (c', d') \<Longrightarrow> kept c c'"
  by (auto simp: net_conn_close_def kept_def split: if_splits)

lemma recv_loop_kept: "recv_loop sc ms1 want acc c d = (r, got, c', d') \<Longrightarrow> kept c c'"
  by (induction sc ms1 want acc c d arbitrary: got c' d' rule: recv_loop.induct)
    (auto simp: recv_fail_def Let_def split: if_splits prod.splits dest: close_kept)

lemma start_time_kept: "start_time c = (t, c1) \<Longrightarrow> kept c1 c' = kept c c'"
  by (drule start_time_starts) (auto simp: kept_def)

lemma web_conn_recv_kept: "web_conn_recv n c d = (r, got, c', d') \<Longrightarrow> kept c c'"
  by (auto simp: web_conn_recv_def Let_def split: if_splits prod.splits dest!: recv_loop_kept simp: start_time_kept)

lemma send_fail_kept: "send_fail c d = (r, c', d') \<Longrightarrow> kept c c'"
  by (auto simp: send_fail_def Let_def split: prod.splits dest: close_kept)

lemma send_loop_kept: "send_loop sc ms1 p c d = (r, c', d') \<Longrightarrow> kept c c'"
proof (induction sc ms1 p c d arbitrary: c' d' rule: send_loop.induct)
  case (6 n t3 sc ms1 p c d)
  define k where "k = min n (length p)"
  let ?d = "emit (EvWrite (client_conn c) (take k p)) d"
  have step: "(if k = 0 then send_fail (c\<lparr>tx := sc\<rparr>) d
      else if length p - k = 0 then (SUCCESS, c\<lparr>tx := sc\<rparr>, ?d)
      else if timed_out ms1 t3 then send_fail (c\<lparr>tx := sc\<rparr>) ?d
      else send_loop sc ms1 (drop k p) c ?d) = (r, c', d')"
    using "6.prems"(1) by (simp only: send_loop.simps Let_def k_def)
  show ?case
  proof (cases "k \<noteq> 0 \<and> length p - k \<noteq> 0 \<and> \<not> timed_out ms1 t3")
    case True
    with step have "send_loop sc ms1 (drop k p) c ?d = (r, c', d')" by simp
    with "6.IH" [OF k_def _ refl _ _ this] True show ?thesis by simp
  next
    case False
    with step show ?thesis by (auto split: if_splits dest: send_fail_kept)
  qed
qed (auto split: if_splits dest: send_fail_kept)

lemma send_pkt_kept: "net_conn_send_pkt p c d = (r, c', d') \<Longrightarrow> kept c c'"
  by (auto simp: net_conn_send_pkt_def Let_def start_time_kept split: if_splits prod.splits dest!: send_loop_kept)

lemma net_conn_send_kept: "net_conn_send h m n c d = Some (r, c', d') \<Longrightarrow> kept c c'"
  by (auto simp: net_conn_send_def Let_def bind_eq_Some_conv split: if_splits prod.splits option.splits
      dest!: send_pkt_kept intro: kept_trans)

lemma ack_kept: "ack h ret c d = Some (r, c', d') \<Longrightarrow> kept c c'"
  by (auto simp: ack_def bind_eq_Some_conv dest: net_conn_send_kept)

lemma sys_usr_set_kept: "sys_usr_set e h c d = Some (r, c', d') \<Longrightarrow> kept c c'"
  by (auto simp: sys_usr_set_def bind_eq_Some_conv Let_def split: option.splits if_splits prod.splits
      dest!: web_conn_recv_kept)

lemma recv_struct_kept:
  assumes "recv_struct n dec fail c d k = Some (r, c', d')"
    and "\<And>x c1 d1. k x c1 d1 = Some (r, c', d') \<Longrightarrow> c' = c1"
  shows "kept c c'"
  using assms by (auto simp: recv_struct_def Let_def bind_eq_Some_conv split: prod.splits if_splits
      dest!: web_conn_recv_kept)

lemma settings_kept:
  "sys_sysinfo_set c d = Some (r, c', d') \<Longrightarrow> kept c c'" "sys_server_set c d = Some (r, c', d') \<Longrightarrow> kept c c'"
  "sys_netinfo_set c d = Some (r, c', d') \<Longrightarrow> kept c c'" "sys_gpio_set c d = Some (r, c', d') \<Longrightarrow> kept c c'"
  "sys_vlan_set c d = Some (r, c', d') \<Longrightarrow> kept c c'" "sys_factory_set c d = Some (r, c', d') \<Longrightarrow> kept c c'"
  unfolding sys_sysinfo_set_def sys_server_set_def sys_netinfo_set_def sys_gpio_set_def sys_vlan_set_def sys_factory_set_def
  by (erule recv_struct_kept, auto simp: bind_eq_Some_conv Let_def)+

lemma sys_conf_set_kept: "sys_conf_set h c d = Some (r, c', d') \<Longrightarrow> kept c c'"
  unfolding sys_conf_set_def
  by (auto simp: bind_eq_Some_conv Let_def split: if_splits elim!: recv_struct_kept)

lemma sys_conf_query_kept: "sys_conf_query e h c d = Some (r, c', d') \<Longrightarrow> kept c c'"
  by (auto simp: sys_conf_query_def query_refused_def query_data_def bind_eq_Some_conv split: if_splits
      dest: net_conn_send_kept ack_kept)

lemma answer_kept:
  "answer e a r = Some (c', d') \<Longrightarrow> (\<And>x c1 d1. r = Some (x, c1, d1) \<Longrightarrow> kept c c1) \<Longrightarrow> kept c c'"
  by (auto simp: answer_def fin_Some bind_eq_Some_conv dest!: ack_kept intro: kept_trans)

lemma show_part_kept: "show_part e a off n c d = Some (c', d') \<Longrightarrow> kept c c'"
  by (auto simp: show_part_def fin_Some dest: net_conn_send_kept)

lemma web_cmd_proc_kept: "web_cmd_proc e h c d = Some (c', d') \<Longrightarrow> kept c c'"
  unfolding web_cmd_proc_def Let_def
  by (auto simp: bind_eq_Some_conv fin_Some sys_usr_query_def split: if_splits
      elim!: answer_kept dest!: ack_kept net_conn_send_kept sys_usr_set_kept show_part_kept
      dest: settings_kept sys_conf_set_kept sys_conf_query_kept intro: kept_trans)

lemma web_svr_proc_kept: "web_svr_proc e c d = Some (c', d') \<Longrightarrow> kept c c'"
  by (auto simp: web_svr_proc_def bind_eq_Some_conv Let_def split: if_splits prod.splits
      dest!: web_conn_recv_kept web_cmd_proc_kept intro: kept_trans)

section \<open>The table\<close>

text \<open>Nine slots, free ones marked -1, no descriptor in two of them, and none in use above \<open>m_max_i\<close>,
  the last one the main loop looks at.\<close>

definition table_ok :: "server \<Rightarrow> bool" where
  "table_ok s \<longleftrightarrow> length (g_client_conn s) = MAX_TCP_CONN \<and> m_max_i s < MAX_TCP_CONN \<and>
     (\<forall>i < MAX_TCP_CONN. client_conn (g_client_conn s ! i) = -1 \<or> 0 < client_conn (g_client_conn s ! i)) \<and>
     (\<forall>i < MAX_TCP_CONN. \<forall>j < MAX_TCP_CONN. i \<noteq> j \<longrightarrow> 0 < client_conn (g_client_conn s ! i) \<longrightarrow>
        client_conn (g_client_conn s ! i) \<noteq> client_conn (g_client_conn s ! j)) \<and>
     (\<forall>i < MAX_TCP_CONN. m_max_i s < i \<longrightarrow> client_conn (g_client_conn s ! i) = -1) \<and>
     (\<forall>i < MAX_TCP_CONN. length (clientip (g_client_conn s ! i)) = 16)"

lemma table_ok_slots:
  assumes "table_ok s"
  shows "length (g_client_conn s) = 9"
    "\<forall>i < 9. \<forall>j < 9. i \<noteq> j \<longrightarrow> 0 < client_conn (g_client_conn s ! i) \<longrightarrow>
        client_conn (g_client_conn s ! i) \<noteq> client_conn (g_client_conn s ! j)"
    "\<forall>i < 9. 0 < client_conn (g_client_conn s ! i) \<longrightarrow> i \<le> m_max_i s"
proof -
  have "i \<le> m_max_i s" if "i < MAX_TCP_CONN" "0 < client_conn (g_client_conn s ! i)" for i
    using assms that unfolding table_ok_def by (metis less_le_not_le neg_0_le_iff_le not_le not_one_le_zero)
  then show "length (g_client_conn s) = 9"
    "\<forall>i < 9. \<forall>j < 9. i \<noteq> j \<longrightarrow> 0 < client_conn (g_client_conn s ! i) \<longrightarrow>
        client_conn (g_client_conn s ! i) \<noteq> client_conn (g_client_conn s ! j)"
    "\<forall>i < 9. 0 < client_conn (g_client_conn s ! i) \<longrightarrow> i \<le> m_max_i s"
    using assms unfolding table_ok_def MAX_TCP_CONN_def by blast+
qed

text \<open>Descriptors the operating system hands out are not open already, and an address text fits.\<close>

definition fresh_accept :: "select_ev \<Rightarrow> server \<Rightarrow> bool" where
  "fresh_accept ev s \<longleftrightarrow> (case ev of SelReady _ (Some a) \<Rightarrow>
     0 \<notin> set (a_ip a) \<and> length (a_ip a) < 16 \<and> (\<forall>c \<in> set (g_client_conn s). client_conn c \<noteq> a_fd a) | _ \<Rightarrow> True)"

lemma table_ok_init: "table_ok (web_init fd)"
  by (simp add: table_ok_def web_init_def fresh_conn_def MAX_TCP_CONN_def)

text \<open>Changing connections by operations that keep or close them.\<close>

lemma table_ok_kept:
  assumes "table_ok s" "length cs = length (g_client_conn s)" "\<forall>i < length cs. kept (g_client_conn s ! i) (cs ! i)"
  shows "table_ok (s\<lparr>g_client_conn := cs\<rparr>)"
proof -
  have k: "client_conn (cs ! i) = client_conn (g_client_conn s ! i) \<or> client_conn (cs ! i) = -1"
    "clientip (cs ! i) = clientip (g_client_conn s ! i)" if "i < MAX_TCP_CONN" for i
    using assms that by (auto simp: kept_def table_ok_def)
  have "client_conn (cs ! j) \<noteq> client_conn (cs ! i)"
    if "j < MAX_TCP_CONN" "i < MAX_TCP_CONN" "j \<noteq> i" "0 < client_conn (cs ! j)" for i j
    using k(1) [OF that(1)] k(1) [OF that(2)] that assms(1) unfolding table_ok_def
    by (metis less_le_not_le neg_0_le_iff_le not_one_le_zero)
  moreover have "client_conn (cs ! i) = -1 \<or> 0 < client_conn (cs ! i)" if "i < MAX_TCP_CONN" for i
    using k(1) [OF that] that assms(1) by (auto simp: table_ok_def)
  moreover have "client_conn (cs ! i) = -1" if "i < MAX_TCP_CONN" "m_max_i s < i" for i
    using k(1) [OF that(1)] that assms(1) by (auto simp: table_ok_def)
  ultimately show ?thesis using k(2) assms(1,2) by (simp add: table_ok_def)
qed

lemma table_ok_replace:
  assumes "table_ok s" "kept (g_client_conn s ! i) c"
  shows "table_ok (s\<lparr>g_client_conn := (g_client_conn s)[i := c]\<rparr>)"
proof -
  have "kept (g_client_conn s ! j) ((g_client_conn s)[i := c] ! j)" if "j < length (g_client_conn s)" for j
    using assms(2) that by (cases "j = i") auto
  with assms(1) show ?thesis by (intro table_ok_kept) auto
qed

lemma serve_ok:
  "serve e ready is (s, d) = Some (s', d') \<Longrightarrow> table_ok s \<Longrightarrow> \<forall>i \<in> set is. i < MAX_TCP_CONN \<Longrightarrow> ok_dev d \<Longrightarrow>
     table_ok s' \<and> ok_dev d'"
proof (induction "is" arbitrary: s d)
  case (Cons i "is")
  let ?c = "g_client_conn s ! i"
  have i: "i < MAX_TCP_CONN" and l: "i < length (g_client_conn s)" using Cons.prems(2,3) by (auto simp: table_ok_def)
  show ?case
  proof (cases "\<not> client_conn ?c < 0 \<and> client_conn ?c \<in> ready")
    case True
    then obtain c1 d1 where svr: "web_svr_proc e (?c\<lparr>idle := 0\<rparr>) d = Some (c1, d1)"
      and rest: "serve e ready is (s\<lparr>g_client_conn := (g_client_conn s)[i := c1]\<rparr>, d1) = Some (s', d')"
      using Cons.prems(1) l by (auto simp: rd_in bind_eq_Some_conv)
    have "kept ?c c1" using web_svr_proc_kept [OF svr] by simp
    from table_ok_replace [OF Cons.prems(2) this] Cons.IH [OF rest] Cons.prems(3) web_svr_proc_ok [OF svr Cons.prems(4)]
    show ?thesis by simp
  next
    case False
    then have "serve e ready is (s, d) = Some (s', d')"
      using Cons.prems(1) l by (auto simp: rd_in split: if_splits)
    from Cons.IH [OF this] Cons.prems show ?thesis by simp
  qed
qed simp

lemma free_slot_Some:
  "free_slot cs k = Some i \<Longrightarrow> k \<le> i \<and> i < k + length cs \<and> client_conn (cs ! (i - k)) < 0"
proof (induction cs arbitrary: k)
  case (Cons c cs)
  then show ?case by (cases "client_conn c < 0") (fastforce simp: nth_Cons' Suc_le_eq)+
qed simp

lemma free_slot_None: "free_slot cs k = None \<longleftrightarrow> (\<forall>c \<in> set cs. \<not> client_conn c < 0)"
  by (induction cs arbitrary: k) auto

lemma admit_ok:
  assumes "admit a (s, d) = Some (s', d')" "table_ok s" "ok_dev d" "\<forall>c \<in> set (g_client_conn s). client_conn c \<noteq> a_fd a"
  shows "table_ok s' \<and> ok_dev d'"
proof (cases "a_fd a \<le> 0 \<or> free_slot (g_client_conn s) 0 = None")
  case True
  then show ?thesis using assms(1-3) by (auto simp: admit_def split: if_splits)
next
  case False
  then obtain i where i: "free_slot (g_client_conn s) 0 = Some i" by auto
  have l: "length (g_client_conn s) = MAX_TCP_CONN" using assms(2) by (simp add: table_ok_def)
  have r: "i < MAX_TCP_CONN" using free_slot_Some [OF i] l by simp
  obtain ip c where ip: "strcpy (clientip (g_client_conn s ! i)) (a_ip a @ [0]) = Some ip"
    and d: "d' = d" and cs: "g_client_conn s' = (g_client_conn s)[i := c]" "m_max_i s' = max i (m_max_i s)"
    and c: "client_conn c = a_fd a" "clientip c = ip"
    using assms(1) False i by (auto simp: admit_def bind_eq_Some_conv)
  have ip16: "length ip = 16" using strcpy_length [OF ip] assms(2) r by (simp add: table_ok_def)
  have new: "client_conn (g_client_conn s ! j) \<noteq> a_fd a" if "j < MAX_TCP_CONN" for j
    using assms(4) that l nth_mem [of j "g_client_conn s"] by simp
  have at: "g_client_conn s' ! j = (if j = i then c else g_client_conn s ! j)" if "j < MAX_TCP_CONN" for j
    using cs(1) l that by (simp add: nth_list_update)
  have fd: "0 < a_fd a" using False by simp
  have "length (g_client_conn s') = MAX_TCP_CONN" using cs(1) l by simp
  moreover have "m_max_i s' < MAX_TCP_CONN" using cs(2) r assms(2) by (simp add: table_ok_def)
  moreover have "client_conn (g_client_conn s' ! j) = -1 \<or> 0 < client_conn (g_client_conn s' ! j)" if "j < MAX_TCP_CONN" for j
    using at [OF that] c(1) fd assms(2) that by (auto simp: table_ok_def)
  moreover have "client_conn (g_client_conn s' ! j) \<noteq> client_conn (g_client_conn s' ! k)"
    if "j < MAX_TCP_CONN" "k < MAX_TCP_CONN" "j \<noteq> k" "0 < client_conn (g_client_conn s' ! j)" for j k
    using at [OF that(1)] at [OF that(2)] c(1) new [OF that(1)] new [OF that(2)] assms(2) that
    unfolding table_ok_def by (cases "j = i"; cases "k = i") auto
  moreover have "client_conn (g_client_conn s' ! j) = -1" if "j < MAX_TCP_CONN" "m_max_i s' < j" for j
    using at [OF that(1)] cs(2) assms(2) that by (auto simp: table_ok_def)
  moreover have "length (clientip (g_client_conn s' ! j)) = 16" if "j < MAX_TCP_CONN" for j
    using at [OF that] c(2) ip16 assms(2) that by (auto simp: table_ok_def)
  ultimately show ?thesis using d assms(3) by (simp add: table_ok_def)
qed

lemma close_all_spec:
  "close_all cs d = (cs', d') \<Longrightarrow> length cs' = length cs \<and> (ok_dev d' = ok_dev d) \<and> (\<forall>i < length cs. kept (cs ! i) (cs' ! i))"
proof (induction cs arbitrary: d cs' d')
  case (Cons c cs)
  obtain c1 d1 where c1: "net_conn_close c d = (c1, d1)" by fastforce
  obtain cs2 d2 where r: "close_all cs d1 = (cs2, d2)" by fastforce
  have "cs' = c1 # cs2" "d' = d2" using Cons.prems c1 r by auto
  with Cons.IH [OF r] close_kept [OF c1] only_trace_ok_dev [OF close_only_trace [OF c1]] show ?case
    by (auto simp: nth_Cons' less_Suc_eq_0_disj)
qed simp

lemma web_process_ok:
  assumes "web_process e ev (s, d) = Some (s', d')" "table_ok s" "ok_dev d" "fresh_accept ev s"
  shows "table_ok s' \<and> ok_dev d'"
proof (cases ev)
  case SelIntr
  then show ?thesis using assms by (simp add: web_process_def)
next
  case SelErr
  obtain cs d1 where c: "close_all (g_client_conn s) d = (cs, d1)" by fastforce
  then have "s' = s\<lparr>g_client_conn := cs\<rparr>" "d' = d1" using assms(1) SelErr by (auto simp: web_process_def)
  then show ?thesis using close_all_spec [OF c] table_ok_kept [OF assms(2)] assms(3) by simp
next
  case (SelReady ready acc)
  define adm where "adm = (if g_listen_conn s \<in> ready
     then case acc of Some a \<Rightarrow> admit a (s, d) | None \<Rightarrow> Some (s, d) else Some (s, d))"
  obtain s1 d1 where a: "adm = Some (s1, d1)" and v: "serve e ready [0 ..< Suc (m_max_i s1)] (s1, d1) = Some (s', d')"
    using assms(1) SelReady by (auto simp: web_process_def adm_def bind_eq_Some_conv simp del: upt_Suc)
  have ok1: "table_ok s1 \<and> ok_dev d1"
    using a assms(2-4) admit_ok [of _ s d s1 d1] SelReady
    by (auto simp: adm_def fresh_accept_def split: if_splits option.splits)
  then have "\<forall>i \<in> set [0 ..< Suc (m_max_i s1)]. i < MAX_TCP_CONN" by (auto simp: table_ok_def)
  with serve_ok [OF v] ok1 show ?thesis by blast
qed

text \<open>The states the server reaches from its start, for one well-formed device.\<close>

inductive server_reach :: "env \<Rightarrow> server \<times> dev \<Rightarrow> bool" for e where
  start: "ok_dev d \<Longrightarrow> server_reach e (web_init fd, d)"
| turn: "server_reach e sd \<Longrightarrow> fresh_accept ev (fst sd) \<Longrightarrow> web_process e ev sd = Some sd' \<Longrightarrow> server_reach e sd'"

inductive_cases server_reachE: "server_reach e sd"

lemma server_reach_ok: "server_reach e sd \<Longrightarrow> table_ok (fst sd) \<and> ok_dev (snd sd)"
proof (induction rule: server_reach.induct)
  case (turn sd ev sd')
  then show ?case using web_process_ok [of e ev "fst sd" "snd sd" "fst sd'" "snd sd'"] by simp
qed (simp add: table_ok_init)

end
