(* ===== verification/Web_Props.thy ===== *)
theory Web_Props
  imports Web_Facts Device_Props
begin

text \<open>The properties of the management server, each with an example.\<close>

section \<open>Transfers\<close>

text \<open>C8: a receive that is interrupted, waits, and gets its bytes in pieces of any size, none of them
  late, stores exactly the next bytes of the stream, leaves the rest unread and changes nothing else.\<close>

theorem receive_reassembles:
  assumes "ready_for n c" "0 < n"
  shows "\<exists>c'. web_conn_recv n c d = (SUCCESS, take n (inp c), c', d) \<and> inp c' = drop n (inp c) \<and>
     client_conn c' = client_conn c"
  using recv_ready [OF assms, of d] by blast

definition demo_conn :: "bytes \<Rightarrow> NET_CONN_INFO" where
  "demo_conn s = fresh_conn\<lparr>conn_idx := 0, client_conn := 7, rx := [RxIntr, RxGot 3 0 1, RxIdle 500, RxGot 1000 600 600], inp := s\<rparr>"

lemma demo_conn_fields [simp]:
  "client_conn (demo_conn s) = 7" "inp (demo_conn s) = s" "tx (demo_conn s) = []"
  by (simp_all add: demo_conn_def fresh_conn_def)

lemma ready_demo: "n \<le> 1003 \<Longrightarrow> n \<le> length s \<Longrightarrow> ready_for n (demo_conn s)"
  by (simp add: ready_for_def demo_conn_def fresh_conn_def start_time_def timed_out_def TIMEOUT_CNT_def word_le_nat_alt) linarith

theorem receive_reassembles_witness:
  "\<exists>c'. web_conn_recv 5 (demo_conn [1, 2, 3, 4, 5, 6]) (demo []) = (SUCCESS, [1, 2, 3, 4, 5], c', demo []) \<and> inp c' = [6]"
  using receive_reassembles [of 5 "demo_conn [1, 2, 3, 4, 5, 6]" "demo []"] by (simp add: ready_demo) blast

text \<open>C9: a send either reports success, and then exactly the packet has been written to the socket,
  in order, in some pieces, with nothing else done; or it reports failure and the connection is closed.\<close>

theorem send_all_or_close:
  assumes "net_conn_send_pkt p c d = (r, c', d')" "0 < client_conn c"
  shows "r = SUCCESS \<and> client_conn c' = client_conn c \<and>
       (\<exists>chunks. concat chunks = p \<and> d' = d\<lparr>trace := trace d @ map (EvWrite (client_conn c)) chunks\<rparr>) \<or>
     r = FAILURE \<and> client_conn c' = -1 \<and> (\<exists>t. trace d' = t @ [EvClose (client_conn c)])"
proof -
  obtain t c1 where s: "start_time (c\<lparr>idle := 0\<rparr>) = (t, c1)" by fastforce
  then have c1: "client_conn c1 = client_conn c" using start_time_fields [OF s] by simp
  have run: "send_loop (tx c1) t p c1 d = (r, c', d')"
    using assms s by (simp add: net_conn_send_pkt_def)
  show ?thesis using send_loop_chunks [OF run] send_loop_fail [of _ _ _ c1] run c1 assms(2) by auto
qed

theorem send_all_or_close_witness:
  "client_conn (fst (snd (net_conn_send_pkt [1, 2] ((demo_conn [])\<lparr>tx := [TxIntr, TxSent 1 0, TxErr]\<rparr>) (demo [])))) = -1"
proof -
  let ?c = "(demo_conn [])\<lparr>tx := [TxIntr, TxSent 1 0, TxErr]\<rparr>"
  obtain r c' d' where e: "net_conn_send_pkt [1, 2] ?c (demo []) = (r, c', d')" by (metis prod_cases3)
  then have "r = FAILURE"
    by (auto simp: net_conn_send_pkt_def start_time_def demo_conn_def fresh_conn_def send_fail_def timed_out_def Let_def split: prod.splits)
  then show ?thesis using send_all_or_close [OF e] e by simp
qed

section \<open>Login and users\<close>

definition request :: "ITS_CMD \<Rightarrow> bytes \<Rightarrow> bytes \<Rightarrow> nat \<Rightarrow> ITSIP" where
  "request cmd user data n = \<lparr>itsip_head = its_code ITS_HEAD, itsip_cmd = its_code cmd, itsip_ver = 1, itsip_thl = 8,
     itsip_extlen = of_nat n, itsip_dev_t = 0, itsip_rsvd = 0, itsip_user = pad 24 user, itsip_data = pad 24 data\<rparr>"

definition demo_env :: env where
  "demo_env = \<lparr>e_pak = request ITS_LOGIN [] [] 0, e_extdat = zeros 112,
     e_gpio = \<lparr>alarm = [0, 0, 0], alarm_on_off = zeros 3, gpio_output = zeros 4, sensor = zeros 30\<rparr>,
     e_stack = zeros 1024, e_server = zeros 1024, e_after = zeros 1024\<rparr>"

lemma ok_demo_env: "ok_env demo_env"
  by (simp add: ok_env_def demo_env_def request_def ok_ITSIP_def ok_CONFIG_GPIO_def)

lemma request_fields [simp]:
  "itsip_head (request cmd u x n) = its_code ITS_HEAD" "itsip_cmd (request cmd u x n) = its_code cmd"
  "itsip_user (request cmd u x n) = pad 24 u" "itsip_data (request cmd u x n) = pad 24 x"
  "itsip_extlen (request cmd u x n) = of_nat n"
  by (simp_all add: request_def)

lemma cstring_pad:
  assumes "0 \<notin> set s" "length s < 24"
  shows "cstring (pad 24 s) = Some s"
proof -
  obtain k where "24 - length s = Suc k" using assms(2) Suc_diff_Suc [of "length s" 24] by metis
  then have "pad 24 s = s @ 0 # zeros k" by (simp add: pad_def zeros_def)
  then show ?thesis using assms(1) by (simp add: cstring_append)
qed

text \<open>A login request is answered with the verdict of the user table on its name and password, no
  such user, wrong password or success, sent over the connection; the device itself is not changed.\<close>

theorem login_reply:
  assumes "ok_env e" "users_ok d" "0 < client_conn c" "ok_ITSIP h"
    and "itsip_head h = its_code ITS_HEAD" "itsip_cmd h = its_code ITS_LOGIN"
    and "cstring (itsip_user h) = Some n" "n \<noteq> []" "cstring (itsip_data h) = Some p"
  shows "web_cmd_proc e h c d = Some (snd (net_conn_send_pkt (enc_ITSIP (reply_head e ITS_ACK_LOGIN 0
     (case accounts d n of None \<Rightarrow> cmd_code NO_USER
      | Some q \<Rightarrow> if p = q then cmd_code LOGIN_OK else cmd_code ERROR_PSW))) c d))"
proof -
  have "sys_usr_login (itsip_user h) (itsip_data h) d = Some (case accounts d n of None \<Rightarrow> cmd_code NO_USER
      | Some q \<Rightarrow> if p = q then cmd_code LOGIN_OK else cmd_code ERROR_PSW)"
    using assms by (intro login_by_cstring) (simp_all add: ok_ITSIP_def)
  with assms show ?thesis
    by (simp add: web_cmd_proc_def Let_def ack_pack fin_def)
qed

theorem login_reply_witness:
  "web_cmd_proc demo_env (request ITS_LOGIN [117, 49] [112, 50] 0) (demo_conn []) (demo []) =
     Some (snd (net_conn_send_pkt (enc_ITSIP (reply_head demo_env ITS_ACK_LOGIN 0 (cmd_code NO_USER))) (demo_conn []) (demo [])))"
  using login_reply [OF ok_demo_env users_ok_demo, of "demo_conn []" "request ITS_LOGIN [117, 49] [112, 50] 0" "[117, 49]" "[112, 50]"]
  by (simp add: cstring_pad accounts_demo ok_ITSIP_def)

text \<open>C7: a request to change the users from anybody but an administrator is refused before anything of
  it is read: with no such user or no right, and with the connection and the device unchanged.\<close>

theorem user_changes_need_root:
  assumes "users_ok d" "ok_ITSIP h" "cstring (itsip_user h) = Some n"
    and "\<forall>u \<in> set (users d). uname u = n \<longrightarrow> usr_auth u \<noteq> USR_ROOT"
  shows "sys_usr_set e h c d = Some (cmd_code (if n \<in> uname ` set (users d) then RC_NORIGHT else RC_NOUSR), c, d)"
proof -
  have r: "rd (itsip_data h) 0 = Some (itsip_data h ! 0)" using assms(2) by (simp add: ok_ITSIP_def rd_in)
  show ?thesis
  proof (cases "first_idx (\<lambda>u. uname u = n) (users d) 0")
    case None
    then have "n \<notin> uname ` set (users d)" by (auto simp: first_idx_None)
    with None show ?thesis using r get_usr_info_eq [OF assms(1,3)] by (simp add: sys_usr_set_def)
  next
    case (Some i)
    from first_idx_0 [OF this] have "i < length (users d)" "uname (users d ! i) = n" by auto
    moreover from this have "n \<in> uname ` set (users d)" by auto
    ultimately show ?thesis using r Some get_usr_info_eq [OF assms(1,3)] assms(4)
      by (simp add: sys_usr_set_def)
  qed
qed

theorem user_changes_need_root_witness:
  "sys_usr_set demo_env (request ITS_USER_SET [117, 49] [0] 112) (demo_conn []) (demo []) =
     Some (cmd_code RC_NOUSR, demo_conn [], demo [])"
proof -
  have "[117, 49] \<notin> uname ` set (users (demo []))"
    using accounts_demo [of "[]"] by (auto simp: accounts_None_iff in_set_conv_nth)
  then show ?thesis
    using user_changes_need_root [OF users_ok_demo, of "request ITS_USER_SET [117, 49] [0] 112" "[117, 49]" "[]" demo_env "demo_conn []"]
    by (force simp: cstring_pad ok_ITSIP_def)
qed

text \<open>The data an administrator sends with a user request: the two user records.\<close>

definition user_request :: "USR_INFO \<Rightarrow> USR_INFO \<Rightarrow> bytes" where
  "user_request u v = enc_list enc_USR_INFO [u, v]"

lemma user_request_length: "ok_USR_INFO u \<Longrightarrow> ok_USR_INFO v \<Longrightarrow> length (user_request u v) = 112"
  using cUSRs.enc_length [of "[u, v]" 2] by (simp add: user_request_def)

lemma user_request_received:
  assumes "ok_env e" "ok_USR_INFO u" "ok_USR_INFO v"
  shows "wrs (e_extdat e) 0 (user_request u v) = Some (user_request u v)"
    "dec_list dec_USR_INFO 2 (user_request u v) = Some ([u, v], [])"
  using assms user_request_length [OF assms(2,3)] cUSRs.dec_enc [of "[u, v]" 2 "[]"]
  by (simp_all add: ok_env_def wrs_def user_request_def)

definition admin :: "ITSIP \<Rightarrow> dev \<Rightarrow> bool" where
  "admin h d \<longleftrightarrow> (\<exists>i. get_usr_info (itsip_user h) d = Some (Some i) \<and> usr_auth (users d ! i) = USR_ROOT)"

lemma sys_usr_set_admin:
  assumes "ok_ITSIP h" "admin h d" "unat (itsip_extlen h) = n" "0 < n" "ready_for n c"
    and "wrs (e_extdat e) 0 (take n (inp c)) = Some mem" "dec_list dec_USR_INFO 2 mem = Some ([u, v], q)"
  shows "\<exists>c'. client_conn c' = client_conn c \<and> tx c' = tx c \<and> inp c' = drop n (inp c) \<and> sys_usr_set e h c d =
    (let f = itsip_data h ! 0 in
     if f = user_set_code USER_ADD then do {
       r \<leftarrow> get_usr_info (usr_name u) d;
       case r of None \<Rightarrow> do { (r, d) \<leftarrow> sys_usr_add (usr_name u) (usr_passwd u) d; Some (r, c', d) }
       | Some _ \<Rightarrow> Some (cmd_code RC_USREXIST, c', d) }
     else if f = user_set_code USER_DEL then do {
       r \<leftarrow> get_usr_info (usr_name u) d;
       case r of None \<Rightarrow> Some (cmd_code RC_NOUSR, c', d)
       | Some _ \<Rightarrow> do {
           root \<leftarrow> streq (usr_name u) (bytes_of ''root'' @ [0]);
           if root then Some (cmd_code USR_DEL_FAILED, c', d)
           else do { (r, d) \<leftarrow> sys_usr_del (usr_name u) d; Some (r, c', d) } } }
     else if f = user_set_code USER_MODIFY then do {
       (r, d) \<leftarrow> usr_modify (usr_name u) v d; Some (r, c', d) }
     else Some (cmd_code RC_NOUSR, c', d))"
proof -
  obtain c' where c': "web_conn_recv n c d = (SUCCESS, take n (inp c), c', d)" "inp c' = drop n (inp c)"
    "client_conn c' = client_conn c" "tx c' = tx c"
    using recv_ready [OF assms(5,4), of d] by auto
  obtain i where i: "get_usr_info (itsip_user h) d = Some (Some i)" "usr_auth (users d ! i) = USR_ROOT"
    using assms(2) by (auto simp: admin_def)
  have r: "rd (itsip_data h) 0 = Some (itsip_data h ! 0)" using assms(1) by (simp add: ok_ITSIP_def rd_in)
  show ?thesis using c' i r assms(3,6,7)
    by (intro exI [of _ c']) (simp add: sys_usr_set_def rd_in Let_def)
qed

text \<open>An administrator's request to add a new user, once its data has arrived.\<close>

lemma administrator_adds_user:
  assumes "ok_ITSIP h" "ok_dev d" "users_ok d" "admin h d" "unat (itsip_extlen h) = k" "0 < k" "itsip_data h ! 0 = user_set_code USER_ADD"
    and "ready_for k c" "wrs (e_extdat e) 0 (take k (inp c)) = Some mem" "dec_list dec_USR_INFO 2 mem = Some ([u, v], q)" "ok_USR_INFO u"
    and "cstring (usr_name u) = Some n" "n \<noteq> []" "cstring (usr_passwd u) = Some p" "accounts d n = None"
    and "flash_writable d" "ok_CONFI_DATA junk"
  shows "\<exists>r c' d'. sys_usr_set e h c d = Some (r, c', d') \<and> client_conn c' = client_conn c \<and> tx c' = tx c \<and> trace d' = trace d \<and>
     (r = cmd_code USR_ADD_FAILED \<and> d' = d \<or>
      r = cmd_code USR_ADD_OK \<and> accounts d' = (accounts d)(n \<mapsto> p) \<and> users_ok d' \<and>
        g_conf_info (restart junk d') = g_conf_info d')"
proof -
  have f: "fits n" "fits p" using assms(11,12,14) cstring_field_fits by (auto simp: ok_USR_INFO_def)
  have eq: "sys_usr_add (usr_name u) (usr_passwd u) d = sys_usr_add (n @ [0]) (p @ [0]) d"
    using assms(12,14) cstring_fits [OF f(1)] cstring_fits [OF f(2)] by (intro add_by_cstring) simp_all
  obtain r d' where a: "sys_usr_add (n @ [0]) (p @ [0]) d = Some (r, d')" "users_ok d'"
    "r = cmd_code USR_ADD_OK \<and> accounts d' = (accounts d)(n \<mapsto> p) \<or> r = cmd_code USR_ADD_FAILED \<and> d' = d"
    using ut.add_law [OF assms(3) f(1) assms(13) f(2) assms(15)] by blast
  have saved: "g_conf_info (restart junk d') = g_conf_info d' \<and> trace d' = trace d" if "r = cmd_code USR_ADD_OK"
  proof -
    have "\<exists>i u. d' = config_save (upd_usr i u d)" using a(1) that
      by (auto simp: sys_usr_add_def bind_eq_Some_conv Let_def inj_cmd_code split: option.splits) blast
    then obtain e' where e': "d' = config_save e'" "flash_writable e' = flash_writable d" "trace e' = trace d"
      by (auto simp: upd_usr_def)
    have "ok_dev d'" using ok_user_ops(1) [OF assms(2) a(1)] .
    then show ?thesis using assms(16,17) e'
      by (intro conjI store.restart_after [OF e'(1)]) (simp_all add: ok_dev_def)
  qed
  have "get_usr_info (usr_name u) d = Some None"
    using get_usr_info_by_name [OF assms(3,12,13)] assms(15) by simp
  with sys_usr_set_admin [where e = e, OF assms(1,4,5,6,8-10)] a saved eq assms(7) show ?thesis
    by (auto simp: Let_def)
qed

definition new_user :: "bytes \<Rightarrow> bytes \<Rightarrow> USR_INFO" where
  "new_user n p = (default_usr 0)\<lparr>usr_name := pad 24 n, usr_passwd := pad 24 p\<rparr>"

lemma ok_new_user: "length n \<le> 24 \<Longrightarrow> length p \<le> 24 \<Longrightarrow> ok_USR_INFO (new_user n p)"
  by (simp add: new_user_def default_usr_def ok_USR_INFO_def)

lemma admin_demo: "admin (request cmd (bytes_of ''root'') x n) (demo msg)"
proof -
  have r: "cstring (pad 24 (bytes_of ''root'')) = Some (bytes_of ''root'')" by (rule cstring_pad) (simp_all add: bytes_of_def)
  have "uname (users (demo msg) ! 0) = bytes_of ''root''" "usr_auth (users (demo msg) ! 0) = USR_ROOT"
    unfolding demo_users by (simp_all add: demo_names)
  then show ?thesis using get_usr_info_here [OF users_ok_demo r, of 0] unfolding admin_def demo_users
    by (intro exI [of _ 0]) simp
qed

text \<open>The length in the head of an administrator's request is not checked: when it exceeds the 112
  bytes of the two user records and the bytes arrive, they are stored beyond the array.\<close>

theorem user_request_overruns:
  assumes "ok_env e" "ok_ITSIP h" "admin h d" "112 < unat (itsip_extlen h)" "ready_for (unat (itsip_extlen h)) c"
  shows "sys_usr_set e h c d = None"
proof -
  obtain c' where "web_conn_recv (unat (itsip_extlen h)) c d = (SUCCESS, take (unat (itsip_extlen h)) (inp c), c', d)"
    using recv_ready [OF assms(5), of d] assms(4) by auto
  moreover obtain i where "get_usr_info (itsip_user h) d = Some (Some i)" "usr_auth (users d ! i) = USR_ROOT"
    using assms(3) by (auto simp: admin_def)
  moreover have "length (take (unat (itsip_extlen h)) (inp c)) = unat (itsip_extlen h)"
    using assms(5) by (simp add: ready_for_def)
  ultimately show ?thesis
    using assms(1,2,4) by (simp add: sys_usr_set_def rd_in ok_ITSIP_def ok_env_def wrs_def)
qed

theorem user_request_overruns_witness:
  "sys_usr_set demo_env (request ITS_USER_SET (bytes_of ''root'') [0] 113) (demo_conn (zeros 113)) (demo []) = None"
  using user_request_overruns [OF ok_demo_env _ admin_demo, of ITS_USER_SET "[0]" 113 "demo_conn (zeros 113)" "[]"]
  by (simp add: ok_ITSIP_def ready_demo)

text \<open>A request to change a user that does not exist changes nothing and is answered with success.\<close>

theorem modify_unknown_user_reports_success:
  assumes "ok_env e" "ok_ITSIP h" "users_ok d" "admin h d" "unat (itsip_extlen h) = 112"
    and "itsip_data h ! 0 = user_set_code USER_MODIFY"
    and "ready_for 112 c" "take 112 (inp c) = user_request u v" "ok_USR_INFO u" "ok_USR_INFO v"
    and "cstring (usr_name u) = Some n" "n \<noteq> []" "accounts d n = None"
    and "cstring (usr_name v) = Some m" "m = [] \<or> accounts d m = None"
  shows "\<exists>c'. sys_usr_set e h c d = Some (cmd_code USR_MODIFY_OK, c', d)"
proof -
  have u: "get_usr_info (usr_name u) d = Some None"
    using get_usr_info_by_name [OF assms(3,11,12)] assms(13) by simp
  have v: "get_usr_info (usr_name v) d = Some None" if "m \<noteq> []"
    using get_usr_info_by_name [OF assms(3,14) that] assms(15) that by simp
  have m: "rd (usr_name v) 0 = Some (usr_name v ! 0)" "usr_name v ! 0 = 0 \<longleftrightarrow> m = []"
    using assms(10,14) by (cases "usr_name v"; auto simp: ok_USR_INFO_def rd_in split: if_splits)+
  have "usr_modify (usr_name u) v d = Some (cmd_code USR_MODIFY_OK, d)"
    using u v m by (simp add: usr_modify_def set_usr_name_def set_usr_psw_def)
  moreover have "wrs (e_extdat e) 0 (take 112 (inp c)) = Some (user_request u v)" "dec_list dec_USR_INFO 2 (user_request u v) = Some ([u, v], [])"
    using user_request_received [OF assms(1,9,10)] assms(8) by simp_all
  from sys_usr_set_admin [where e = e, OF assms(2,4,5) _ assms(7) this] obtain c' where
    "sys_usr_set e h c d = (do { (r, d) \<leftarrow> usr_modify (usr_name u) v d; Some (r, c', d) })" using assms(6) by (auto simp: Let_def)
  ultimately show ?thesis by auto
qed

theorem modify_unknown_user_reports_success_witness:
  "\<exists>c'. sys_usr_set demo_env (request ITS_USER_SET (bytes_of ''root'') [2] 112)
     (demo_conn (user_request (new_user [117, 49] [112, 50]) (new_user [] []))) (demo []) = Some (cmd_code USR_MODIFY_OK, c', demo [])"
proof -
  let ?u = "new_user [117, 49] [112, 50]" and ?v = "new_user [] []"
  have ok: "ok_USR_INFO ?u" "ok_USR_INFO ?v" by (simp_all add: ok_new_user)
  have c: "cstring (usr_name ?u) = Some [117, 49]" "cstring (usr_name ?v) = Some []"
    by (simp_all add: new_user_def cstring_pad)
  let ?h = "request ITS_USER_SET (bytes_of ''root'') [2] 112"
  have h: "ok_ITSIP ?h" "itsip_data ?h ! 0 = user_set_code USER_MODIFY" by (simp_all add: ok_ITSIP_def pad_def)
  show ?thesis
    using modify_unknown_user_reports_success [OF ok_demo_env h(1) users_ok_demo admin_demo _ h(2) ready_demo _ ok c(1) _ accounts_demo c(2)]
      user_request_length [OF ok] by simp
qed

end
