(* ===== verification/Server_Props.thy ===== *)
theory Server_Props
  imports Web_Table Web_Props
begin

text \<open>The properties of the management server's settings, queries and connection table.\<close>

section \<open>The connection table\<close>

text \<open>In every state the server reaches, whatever arrives on its connections, its table has nine
  slots, no descriptor is in two of them, none is in use beyond the last slot the main loop serves,
  and the device is well formed.\<close>

theorem reachable_server_is_well_formed:
  assumes "server_reach e (s, d)"
  shows "length (g_client_conn s) = 9 \<and> ok_dev d \<and>
     (\<forall>i < 9. \<forall>j < 9. i \<noteq> j \<longrightarrow> 0 < client_conn (g_client_conn s ! i) \<longrightarrow>
        client_conn (g_client_conn s ! i) \<noteq> client_conn (g_client_conn s ! j)) \<and>
     (\<forall>i < 9. 0 < client_conn (g_client_conn s ! i) \<longrightarrow> i \<le> m_max_i s)"
  using server_reach_ok [OF assms] table_ok_slots [of s] by simp

theorem reachable_server_is_well_formed_witness:
  "\<exists>s. web_process demo_env (SelReady {3} (Some \<lparr>a_fd = 8, a_ip = bytes_of ''10.0.0.2'', a_conn = fresh_conn\<rparr>)) (web_init 3, demo []) = Some (s, demo []) \<and>
     length (g_client_conn s) = 9 \<and> 0 < client_conn (g_client_conn s ! 0)"
proof -
  let ?a = "\<lparr>a_fd = 8, a_ip = bytes_of ''10.0.0.2'', a_conn = fresh_conn\<rparr>"
  let ?ev = "SelReady {3} (Some ?a)"
  have f: "fresh_accept ?ev (web_init 3)"
    by (simp add: fresh_accept_def web_init_def fresh_conn_def MAX_TCP_CONN_def bytes_of_def)
  have free: "free_slot (replicate 9 fresh_conn) 0 = Some 0" by (simp add: numeral_eq_Suc fresh_conn_def)
  have ip: "\<exists>ip. strcpy (clientip (replicate 9 fresh_conn ! 0)) (bytes_of ''10.0.0.2'' @ [0]) = Some ip"
    by (simp add: strcpy_def fresh_conn_def cstring_append bytes_of_def wrs_def)
  obtain s where s: "admit ?a (web_init 3, demo []) = Some (s, demo [])" "m_max_i s = 0"
    "client_conn (g_client_conn s ! 0) = 8"
    using free ip by (auto simp: admit_def web_init_def MAX_TCP_CONN_def)
  have len: "length (g_client_conn s) = 9"
    using s(1) free ip by (auto simp: admit_def web_init_def MAX_TCP_CONN_def)
  have w: "web_process demo_env ?ev (web_init 3, demo []) = Some (s, demo [])"
    using s len by (simp add: web_process_def rd_in web_init_def)
  have "server_reach demo_env (s, demo [])"
    using server_reach.turn [OF server_reach.start [OF ok_demo, of "[]" demo_env 3] _ w] f by simp
  from reachable_server_is_well_formed [OF this] w s(3) show ?thesis by auto
qed

text \<open>When all nine slots are taken a tenth connection is closed at once and the table stays as it is.\<close>

theorem full_table_closes_newcomer:
  assumes "\<forall>c \<in> set (g_client_conn s). 0 < client_conn c" "0 < a_fd a"
  shows "admit a (s, d) = Some (s, emit (EvClose (a_fd a)) d)"
proof -
  have "free_slot (g_client_conn s) 0 = None" using assms(1) unfolding free_slot_None by force
  with assms(2) show ?thesis by (simp add: admit_def)
qed

theorem full_table_closes_newcomer_witness:
  "admit \<lparr>a_fd = 8, a_ip = [], a_conn = fresh_conn\<rparr> ((web_init 3)\<lparr>g_client_conn := replicate 9 (demo_conn [])\<rparr>, demo [])
     = Some ((web_init 3)\<lparr>g_client_conn := replicate 9 (demo_conn [])\<rparr>, emit (EvClose 8) (demo []))"
  using full_table_closes_newcomer [of "(web_init 3)\<lparr>g_client_conn := replicate 9 (demo_conn [])\<rparr>"
      "\<lparr>a_fd = 8, a_ip = [], a_conn = fresh_conn\<rparr>" "demo []"] by simp

section \<open>Settings\<close>

lemma set_conf_fields [simp]:
  "g_conf_info (set_conf f d) = f (g_conf_info d)" "flash_writable (set_conf f d) = flash_writable d"
  "trace (set_conf f d) = trace d" "gcomfd (set_conf f d) = gcomfd d" "tty_attr (set_conf f d) = tty_attr d"
  "tty_set_ok (set_conf f d) = tty_set_ok d"
  by (simp_all add: set_conf_def)

lemma recv_struct_ready:
  assumes "ready_for n c" "0 < n" "dec (take n (inp c)) = Some (x, r)"
  obtains c' where "client_conn c' = client_conn c" "tx c' = tx c" "\<And>fail k. recv_struct n dec fail c d k = k x c' d"
proof -
  obtain c' where "web_conn_recv n c d = (SUCCESS, take n (inp c), c', d)" "client_conn c' = client_conn c" "tx c' = tx c"
    using recv_ready [OF assms(1,2), of d] by blast
  with assms(3) show ?thesis by (intro that [of c']) (simp_all add: recv_struct_def)
qed

lemma restart_saved:
  assumes "ok_dev d" "flash_writable d" "ok_CONFI_DATA junk"
  shows "g_conf_info (restart junk (config_save d)) = g_conf_info d"
  using assms by (intro trans [OF store.restart_after [OF refl]]) (simp_all add: ok_dev_def)

lemma restart_trace: "g_conf_info (restart junk (d\<lparr>trace := t\<rparr>)) = g_conf_info (restart junk d)"
  by (simp add: restart_def config_load_def split: option.splits prod.splits)

text \<open>Network settings are stored, survive a restart, and are put into force by the \<open>ifconfig\<close> and \<open>route\<close>
  commands for them, each of which fits its 64-byte buffer; the rest of the configuration stays.\<close>

definition net_commands :: "CONFIG_NET \<Rightarrow> bytes \<Rightarrow> bytes list" where
  "net_commands x mac = [bytes_of ''ifconfig eth0 '' @ ip_text (dev_ip x) @ bytes_of '' netmask '' @ ip_text (dev_nm x),
     bytes_of ''ifconfig eth0 hw ether '' @ mac,
     bytes_of ''route add -host 255.255.255.255 dev eth0'',
     bytes_of ''route add default gw '' @ ip_text (dev_gw x) @ bytes_of '' eth0'',
     bytes_of ''route add -net 192.168.102.0/24 gw 172.16.136.251'',
     bytes_of ''route'']"

lemma network_settings_take_effect:
  assumes "ok_dev d" "flash_writable d" "ok_CONFIG_NET x" "ok_CONFI_DATA junk"
  shows "\<exists>d' mac. config_net_set x (config_save (set_conf (con_net_update (\<lambda>_. x)) d)) = Some d' \<and> ok_dev d' \<and>
     g_conf_info d' = (g_conf_info d)\<lparr>con_net := x\<rparr> \<and> g_conf_info (restart junk d') = g_conf_info d' \<and>
     trace d' = trace d @ map EvSystem (net_commands x mac)"
proof -
  let ?d = "config_save (set_conf (con_net_update (\<lambda>_. x)) d)"
  have ok: "ok_dev (set_conf (con_net_update (\<lambda>_. x)) d)" using assms(1,3) by (simp add: ok_set_parts)
  obtain mac where m:
    "config_net_set x ?d = Some (?d\<lparr>trace := trace ?d @ map EvSystem (net_commands x mac)\<rparr>)"
    using config_net_set_eq [of x ?d] assms(3) unfolding net_commands_def by (auto simp: ok_CONFIG_NET_def)
  have "g_conf_info (restart junk ?d) = (g_conf_info d)\<lparr>con_net := x\<rparr>"
    using restart_saved [OF ok _ assms(4)] assms(2) by simp
  moreover have "ok_dev (?d\<lparr>trace := t\<rparr>)" for t using ok by (simp add: ok_dev_def)
  ultimately show ?thesis using m
    by (intro exI [of _ mac] exI [of _ "?d\<lparr>trace := _\<rparr>"]) (simp add: restart_trace)
qed

lemma ok_demo_net: "ok_CONFIG_NET (con_net demo_conf)"
  using ok_demo_conf by (simp add: ok_CONFI_DATA_def)

text \<open>Serial settings for a port whose limits do not let the user change it are received and dropped.\<close>

lemma refused_port_setting_reports_success:
  assumes "ok_dev d" "users_ok d" "ok_ITSIP h" "itsip_data h ! 0 = conf_kind_code CONF_COM" "unat (itsip_data h ! 1) < 2"
    and "ready_for 28 c" "take 28 (inp c) = enc_CONFIG_COM x" "ok_CONFIG_COM x"
    and "l = con_lim (g_conf_info d) ! unat (itsip_data h ! 1)" "lim_enable l = ENABLED"
    and "get_usr_info (itsip_user h) d = Some r" "case r of None \<Rightarrow> True | Some i \<Rightarrow> lim_modify l ! i \<noteq> ENABLED"
  shows "\<exists>c'. sys_conf_set h c d = Some (cmd_code COM_SET_OK, c', d) \<and> client_conn c' = client_conn c \<and> tx c' = tx c"
proof -
  have dec: "dec_CONFIG_COM (take 28 (inp c)) = Some (x, [])" using cCOM.dec_enc_exact [OF assms(8)] assms(7) by simp
  have h: "rd (itsip_data h) 0 = Some (itsip_data h ! 0)" "rd (itsip_data h) 1 = Some (itsip_data h ! 1)"
    using assms(3) by (simp_all add: ok_ITSIP_def rd_in)
  have l: "rd (con_lim (g_conf_info d)) (unat (itsip_data h ! 1)) = Some l" "length (lim_modify l) = 16"
    using ok_parts(5,6) [OF assms(1)] assms(5,9) by (auto simp: rd_in list_all_length ok_CONFIG_LIMIT_def)
  have "permitted lim_modify (itsip_data h ! 1) h d = Some False"
  proof (cases r)
    case None
    then show ?thesis using l assms(10,11) by (simp add: permitted_def get_usr_id_def ENABLED_def DISABLED_def)
  next
    case (Some i)
    have i: "i < 16" using get_usr_info_range assms(11) Some ok_parts(10) [OF assms(1)] by force
    then have "unat (of_nat i :: u8) = i" by (simp add: unat_of_nat take_bit_nat_eq_self)
    then show ?thesis using l assms(10-12) Some i
      by (simp add: permitted_def get_usr_id_def ENABLED_def DISABLED_def rd_in)
  qed
  moreover obtain c' where "client_conn c' = client_conn c" "tx c' = tx c" "\<And>fail k. recv_struct 28 dec_CONFIG_COM fail c d k = k x c' d"
    by (rule recv_struct_ready [where dec = dec_CONFIG_COM and d = d, OF assms(6) _ dec]) auto
  ultimately show ?thesis using h assms(4) by (intro exI [of _ c']) (simp add: sys_conf_set_def)
qed

definition limited :: dev where
  "limited = set_conf (con_lim_update (\<lambda>_. [(default_lim 0)\<lparr>lim_enable := ENABLED\<rparr>, default_lim 1])) (demo [])"

lemma ok_limited: "ok_dev limited" "users_ok limited" "users limited = users (demo [])"
  using ok_demo [of "[]"] users_ok_demo [of "[]"]
  by (auto simp: limited_def users_ok_def default_lim_def ok_CONFIG_LIMIT_def intro!: ok_set_parts)

section \<open>Queries\<close>

lemma usr_image:
  assumes "ok_CONFI_DATA c"
  obtains pre where "length pre = 784" "enc_CONFI_DATA c = pre @ enc_list enc_USR_INFO (con_usr c) @
     enc_CONFIG_SERVER (con_server c) @ enc_CONFIG_GPIO (con_gpio c) @ enc_list enc_CONFIG_SENSOR (con_sensor c)"
    and "take 60 (drop 256 pre) = enc_CONFIG_NET (con_net c)"
proof -
  let ?pre = "enc_CONFIG_SYS (con_sys c) @ enc_CONFIG_NET (con_net c) @ enc_CONFIG_VLAN (con_vlan c) @
    enc_list enc_CONFIG_COM (con_com c) @ enc_list enc_CONFIG_MODE (con_mode c) @ enc_list enc_CONFIG_LIMIT (con_lim c)"
  have l: "length (enc_CONFIG_SYS (con_sys c)) = 256" "length (enc_CONFIG_NET (con_net c)) = 60"
    "length (enc_CONFIG_VLAN (con_vlan c)) = 16" "length (enc_list enc_CONFIG_COM (con_com c)) = 56"
    "length (enc_list enc_CONFIG_MODE (con_mode c)) = 328" "length (enc_list enc_CONFIG_LIMIT (con_lim c)) = 68"
    using assms cSYS.enc_length cNET.enc_length cVLAN.enc_length cCOMs.enc_length [of "con_com c" 2]
      cMODEs.enc_length [of "con_mode c" 2] cLIMs.enc_length [of "con_lim c" 2]
    by (simp_all add: ok_CONFI_DATA_def)
  show ?thesis by (rule that [of ?pre]) (simp_all add: l enc_CONFI_DATA_def)
qed

text \<open>The beginning of an array image decodes to the beginning of the array.\<close>

lemma dec_users_prefix:
  assumes "list_all ok_USR_INFO us" "length us = 16"
  shows "\<exists>r. dec_list dec_USR_INFO 8 (take 496 (enc_list enc_USR_INFO us @ rest)) = Some (take 8 us, r)"
proof -
  have u: "enc_list enc_USR_INFO us = enc_list enc_USR_INFO (take 8 us) @ enc_list enc_USR_INFO (drop 8 us)"
    by (simp add: enc_list_def flip: concat_append map_append)
  have ok: "list_all ok_USR_INFO (take 8 us)" "length (take 8 us) = 8"
    using assms by (auto simp: list_all_iff dest: in_set_takeD)
  have "length (enc_list enc_USR_INFO (take 8 us)) = 448" using cUSRs.enc_length [of "take 8 us" 8] ok by simp
  then have "take 496 (enc_list enc_USR_INFO us @ rest)
      = enc_list enc_USR_INFO (take 8 us) @ take 48 (enc_list enc_USR_INFO (drop 8 us) @ rest)"
    unfolding u by simp
  then show ?thesis using cUSRs.dec_enc [of "take 8 us" 8] ok by auto
qed

text \<open>C16: the reply to a query of the network settings, which needs no login, carries 1024 bytes of the
  configuration instead of the 60 asked for. They hold the settings, and 528 bytes on the first
  eight users with their names and passwords.\<close>

theorem network_query_discloses_passwords:
  assumes "ok_env e" "ok_dev d" "0 < client_conn c" "tx c = []"
    and "itsip_head h = its_code ITS_HEAD" "itsip_cmd h = its_code ITS_NETINFO_QUERY"
  shows "\<exists>c' d' data r r'. web_cmd_proc e h c d = Some (c', d') \<and>
     trace d' = trace d @ [EvWrite (client_conn c) (enc_ITSIP (itsip_pack ITS_ACK_NETINFO_QUERY 60 0 (e_pak e))), EvWrite (client_conn c) data] \<and>
     length data = 1024 \<and> dec_CONFIG_NET data = Some (con_net (g_conf_info d), r) \<and>
     dec_list dec_USR_INFO 8 (drop 528 data) = Some (take 8 (con_usr (g_conf_info d)), r')"
proof -
  have c: "ok_CONFI_DATA (g_conf_info d)" using assms(2) by (simp add: ok_dev_def)
  obtain pre where pre: "length pre = 784" "enc_CONFI_DATA (g_conf_info d) = pre @ enc_list enc_USR_INFO (con_usr (g_conf_info d)) @
     enc_CONFIG_SERVER (con_server (g_conf_info d)) @ enc_CONFIG_GPIO (con_gpio (g_conf_info d)) @
     enc_list enc_CONFIG_SENSOR (con_sensor (g_conf_info d))"
    "take 60 (drop 256 pre) = enc_CONFIG_NET (con_net (g_conf_info d))"
    using usr_image [OF c] by metis
  let ?mem = "conf_mem e off_net d"
  let ?data = "take MAX_LENGTH ?mem"
  obtain rest where mem: "?mem = drop 256 pre @ enc_list enc_USR_INFO (con_usr (g_conf_info d)) @ rest"
    using pre(1) by (simp add: conf_mem_def off_net_def pre(2))
  have l: "MAX_LENGTH \<le> length ?mem" using cDATA.enc_length [OF c] assms(1)
    by (simp add: conf_mem_def off_net_def MAX_LENGTH_def ok_env_def)
  obtain ts where run: "net_conn_send (itsip_pack ITS_ACK_NETINFO_QUERY 60 0 (e_pak e)) (Some ?mem) 60 c d =
      Some (SUCCESS, c\<lparr>idle := 0, starts := ts\<rparr>, emit (EvWrite (client_conn c) ?data)
        (emit (EvWrite (client_conn c) (enc_ITSIP (itsip_pack ITS_ACK_NETINFO_QUERY 60 0 (e_pak e)))) d))"
    using net_conn_send_open [OF assms(3,4) _ l, of 60] by auto
  have d1: "drop 256 pre = enc_CONFIG_NET (con_net (g_conf_info d)) @ drop 316 pre"
    using append_take_drop_id [of 60 "drop 256 pre"] pre(3) by simp
  have net: "\<exists>r. dec_CONFIG_NET ?data = Some (con_net (g_conf_info d), r)"
    using cNET.dec_enc cNET.enc_length c by (simp add: mem d1 MAX_LENGTH_def ok_CONFI_DATA_def)
  have "drop 528 ?data = take 496 (enc_list enc_USR_INFO (con_usr (g_conf_info d)) @ rest)"
    using pre(1) by (simp add: mem MAX_LENGTH_def drop_take)
  then obtain r' where "dec_list dec_USR_INFO 8 (drop 528 ?data) = Some (take 8 (con_usr (g_conf_info d)), r')"
    using dec_users_prefix [of "con_usr (g_conf_info d)" rest] c by (auto simp: ok_CONFI_DATA_def)
  moreover have "length ?data = 1024" using l by (simp add: MAX_LENGTH_def)
  moreover have "web_cmd_proc e h c d = fin (net_conn_send (itsip_pack ITS_ACK_NETINFO_QUERY 60 0 (e_pak e)) (Some ?mem) 60 c d)"
    using assms(3,5,6) by (simp add: web_cmd_proc_def show_part_def Let_def)
  ultimately show ?thesis using net run by (auto simp: fin_def)
qed

theorem network_query_discloses_passwords_witness:
  "\<exists>c' d' data r'. web_cmd_proc demo_env (request ITS_NETINFO_QUERY [] [] 0) (demo_conn []) (demo []) = Some (c', d') \<and>
     last (trace d') = EvWrite 7 data \<and>
     dec_list dec_USR_INFO 8 (drop 528 data) = Some (take 8 (con_usr demo_conf), r')"
  using network_query_discloses_passwords [OF ok_demo_env ok_demo [of "[]"], of "demo_conn []" "request ITS_NETINFO_QUERY [] [] 0"]
  by force

lemma gpio_poke_eqI:
  assumes "ok_CONFIG_GPIO g'" "wrs (enc_CONFIG_GPIO g) off bs = Some (enc_CONFIG_GPIO g')"
  shows "gpio_poke g off bs = Some g'"
  using assms cGPIO.dec_enc [OF assms(1), of "[]"] by (simp add: gpio_poke_def)

lemma enc32_byte: "enc32 (ucast (a :: u8)) = [a, 0, 0, 0]"
proof -
  have "(ucast (ucast a :: u32) :: u8) = a" by (rule bit_word_eqI) (simp add: bit_simps)
  moreover have "(ucast (drop_bit k (ucast a :: u32)) :: u8) = 0" if "8 \<le> k" for k
    using that by (intro bit_word_eqI) (auto simp: bit_simps dest: bit_imp_le_length)
  ultimately show ?thesis by (simp add: enc32_def)
qed

definition gpio_of :: "u32 list \<Rightarrow> bytes \<Rightarrow> bytes \<Rightarrow> bytes \<Rightarrow> CONFIG_GPIO" where
  "gpio_of al on out sen = \<lparr>alarm = al, alarm_on_off = on, gpio_output = out, sensor = sen\<rparr>"

lemma gpio_of_image: "enc_CONFIG_GPIO (gpio_of [x, y, z] on out sen) = enc32 x @ enc32 y @ enc32 z @ on @ out @ sen @ zeros 3"
  by (simp add: gpio_of_def enc_CONFIG_GPIO_def enc_list_def)

lemma ok_gpio_of: "ok_CONFIG_GPIO (gpio_of [x, y, z] on out sen) \<longleftrightarrow> length on = 3 \<and> length out = 4 \<and> length sen = 30"
  by (simp add: gpio_of_def ok_CONFIG_GPIO_def)

lemma length_enc32 [simp]: "length (enc32 w) = 4"
  by (simp add: enc32_def)

text \<open>A store of four bytes into the words, over the array of switches, over the outputs, into the text.\<close>

lemma gpio_pokes:
  assumes "length on = 3" "length sen = 30"
  shows "length out = 4 \<Longrightarrow> gpio_poke (gpio_of [x, y, z] on out sen) 0 (enc32 w) = Some (gpio_of [w, y, z] on out sen)"
    "length out = 4 \<Longrightarrow> gpio_poke (gpio_of [x, y, z] on out sen) 4 (enc32 w) = Some (gpio_of [x, w, z] on out sen)"
    "length out = 4 \<Longrightarrow> gpio_poke (gpio_of [x, y, z] on out sen) 8 (enc32 w) = Some (gpio_of [x, y, w] on out sen)"
    "gpio_poke (gpio_of [x, y, z] on [o0, o1, o2, o3] sen) 12 [b0, b1, b2, b3] = Some (gpio_of [x, y, z] [b0, b1, b2] [b3, o1, o2, o3] sen)"
    "gpio_poke (gpio_of [x, y, z] on [o0, o1, o2, o3] sen) 16 [b0, b1, b2, b3] = Some (gpio_of [x, y, z] on [o0, b0, b1, b2] (b3 # drop 1 sen))"
  using assms
  by (auto intro!: gpio_poke_eqI simp: ok_gpio_of gpio_of_image wrs_def eval_nat_numeral)

lemma gpio_poke_sensor:
  assumes "length on = 3" "length out = 4" "length p + length r = 30" "off = 19 + length p" "4 \<le> length r"
  shows "gpio_poke (gpio_of [x, y, z] on out (p @ r)) off [b0, b1, b2, b3] = Some (gpio_of [x, y, z] on out (p @ [b0, b1, b2, b3] @ drop 4 r))"
  using assms by (intro gpio_poke_eqI) (auto simp: ok_gpio_of gpio_of_image wrs_def add.commute)

text \<open>Where the eight alarm levels land: three words, then whatever follows them in the struct.\<close>

lemma store_alarms_eq:
  assumes "ok_CONFIG_GPIO g" "a = [a0, a1, a2, a3, a4, a5, a6, a7]"
  shows "store_alarms a g = Some (gpio_of [ucast a0, ucast a1, ucast a2] [a3, 0, 0] [0, a4, 0, 0]
     ([0, a5, 0, 0, 0, a6, 0, 0, 0, a7, 0, 0, 0] @ drop 13 (sensor g)))"
proof -
  obtain x y z where al: "alarm g = [x, y, z]" using assms(1)
    by (auto simp: ok_CONFIG_GPIO_def numeral_3_eq_3 length_Suc_conv)
  have "length (gpio_output g) = Suc (Suc (Suc (Suc 0)))" using assms(1) by (simp add: ok_CONFIG_GPIO_def)
  then obtain s t u v where out: "gpio_output g = [s, t, u, v]" by (auto simp: length_Suc_conv)
  have g: "g = gpio_of [x, y, z] (alarm_on_off g) [s, t, u, v] (sensor g)"
    using al out by (cases g) (simp add: gpio_of_def)
  have l: "length (alarm_on_off g) = 3" "length (sensor g) = 30" using assms(1) by (simp_all add: ok_CONFIG_GPIO_def)
  let ?al = "[ucast a0, ucast a1, ucast a2]"
  note w = gpio_pokes(1-3) [OF l, of "[s, t, u, v]", simplified] and p4 = gpio_pokes(4) [OF l, of _ _ _ s t u v a3 0 0 0]
  have p5: "gpio_poke (gpio_of ?al [a3, 0, 0] [0, t, u, v] (sensor g)) 16 [a4, 0, 0, 0] =
      Some (gpio_of ?al [a3, 0, 0] [0, a4, 0, 0] ([0] @ drop 1 (sensor g)))"
    using gpio_pokes(5) [of "[a3, 0, 0]" "sensor g"] l by simp
  have poke: "gpio_poke (gpio_of ?al [a3, 0, 0] [0, a4, 0, 0] (p @ r)) off [b, 0, 0, 0] =
      Some (gpio_of ?al [a3, 0, 0] [0, a4, 0, 0] q)"
    if "length p + length r = 30" "off = 19 + length p" "4 \<le> length r" "q = p @ [b, 0, 0, 0] @ drop 4 r" for p r off b q
    unfolding that(4) by (rule gpio_poke_sensor) (use that in simp_all)
  have p6: "gpio_poke (gpio_of ?al [a3, 0, 0] [0, a4, 0, 0] ([0] @ drop 1 (sensor g))) 20 [a5, 0, 0, 0] =
      Some (gpio_of ?al [a3, 0, 0] [0, a4, 0, 0] ([0, a5, 0, 0, 0] @ drop 5 (sensor g)))"
    by (rule poke) (simp_all add: l)
  have p7: "gpio_poke (gpio_of ?al [a3, 0, 0] [0, a4, 0, 0] ([0, a5, 0, 0, 0] @ drop 5 (sensor g))) 24 [a6, 0, 0, 0] =
      Some (gpio_of ?al [a3, 0, 0] [0, a4, 0, 0] ([0, a5, 0, 0, 0, a6, 0, 0, 0] @ drop 9 (sensor g)))"
    by (rule poke) (simp_all add: l)
  have p8: "gpio_poke (gpio_of ?al [a3, 0, 0] [0, a4, 0, 0] ([0, a5, 0, 0, 0, a6, 0, 0, 0] @ drop 9 (sensor g))) 28 [a7, 0, 0, 0] =
      Some (gpio_of ?al [a3, 0, 0] [0, a4, 0, 0] ([0, a5, 0, 0, 0, a6, 0, 0, 0, a7, 0, 0, 0] @ drop 13 (sensor g)))"
    by (rule poke) (simp_all add: l)
  have r: "rd a 0 = Some a0" "rd a 1 = Some a1" "rd a 2 = Some a2" "rd a 3 = Some a3" "rd a 4 = Some a4"
    "rd a 5 = Some a5" "rd a 6 = Some a6" "rd a 7 = Some a7"
    by (simp_all add: assms(2) rd_in)
  have "store_alarms a (gpio_of [x, y, z] (alarm_on_off g) [s, t, u, v] (sensor g)) = Some (gpio_of ?al [a3, 0, 0] [0, a4, 0, 0]
     ([0, a5, 0, 0, 0, a6, 0, 0, 0, a7, 0, 0, 0] @ drop 13 (sensor g)))"
    unfolding store_alarms_def
    by (simp only: r Option.bind.bind_lunit w) (simp only: enc32_byte p4 p5 p6 p7 p8 Option.bind.bind_lunit)
  then show ?thesis using g by simp
qed

text \<open>A query of the alarm inputs changes the configuration: the eight levels are stored into an array
  of three words, so that levels 4 to 8 end up in the alarm switches, the outputs and the sensor text.
  The device that reads the inputs this way has the first switch set from input 4, the two other
  switches off, and output 2 set from input 5.\<close>

theorem gpio_query_overwrites_switches:
  assumes "ok_env e" "ok_dev d" "0 < client_conn c" "tx c = []" "am2301 d = Some t" "length t = 30" "0 \<in> set t"
    and "g_alarm_in d = [a0, a1, a2, a3, a4, a5, a6, a7]"
    and "itsip_head h = its_code ITS_HEAD" "itsip_cmd h = its_code ITS_GPIO_QUERY"
  shows "\<exists>c' d'. web_cmd_proc e h c d = Some (c', d') \<and>
     g_conf_info d' = (g_conf_info d)\<lparr>con_gpio := \<lparr>alarm = [ucast a0, ucast a1, ucast a2], alarm_on_off = [a3, 0, 0],
       gpio_output = [0, a4, 0, 0], sensor = t\<rparr>\<rparr>"
proof -
  let ?g = "\<lparr>alarm = [ucast a0, ucast a1, ucast a2], alarm_on_off = [a3, 0, 0], gpio_output = [0, a4, 0, 0], sensor = t\<rparr>"
  let ?d = "set_conf (con_gpio_update (\<lambda>_. ?g)) d"
  have g: "ok_CONFIG_GPIO (con_gpio (g_conf_info d))" using ok_parts(9) [OF assms(2)] by simp
  have st: "cstring t \<noteq> None" using split_list_first [OF assms(7)] by (auto simp: cstring_append)
  have ok: "ok_dev ?d" using ok_set_parts assms(2,6) by (simp add: ok_CONFIG_GPIO_def)
  have l: "MAX_LENGTH \<le> length (conf_mem e off_gpio ?d)" using assms(1) cDATA.enc_length [of "g_conf_info ?d"] ok
    by (simp add: conf_mem_def off_gpio_def ok_env_def ok_dev_def MAX_LENGTH_def)
  obtain ts where run: "net_conn_send (itsip_pack ITS_ACK_GPIO_QUERY 52 0 (e_pak e)) (Some (conf_mem e off_gpio ?d)) 52 c ?d =
      Some (SUCCESS, c\<lparr>idle := 0, starts := ts\<rparr>, emit (EvWrite (client_conn c) (take MAX_LENGTH (conf_mem e off_gpio ?d)))
        (emit (EvWrite (client_conn c) (enc_ITSIP (itsip_pack ITS_ACK_GPIO_QUERY 52 0 (e_pak e)))) ?d))"
    using net_conn_send_open [OF assms(3,4) _ l, of 52] by auto
  have sen: "get_sensor s d = Some t" if "length s = 30" for s
    using that assms(5,6) st by (auto simp: get_sensor_def wrs_def)
  have "web_cmd_proc e h c d = fin (net_conn_send (itsip_pack ITS_ACK_GPIO_QUERY 52 0 (e_pak e)) (Some (conf_mem e off_gpio ?d)) 52 c ?d)"
    using assms(3,9,10) store_alarms_eq [OF g assms(8)] g
    by (simp add: web_cmd_proc_def show_part_def sen gpio_of_def ok_CONFIG_GPIO_def Let_def)
  with run show ?thesis by (auto simp: fin_def)
qed

theorem gpio_query_overwrites_switches_witness:
  "\<exists>c' d'. web_cmd_proc demo_env (request ITS_GPIO_QUERY [] [] 0) (demo_conn []) (demo []) = Some (c', d') \<and>
     alarm_on_off (con_gpio demo_conf) = [1, 1, 1] \<and> alarm_on_off (con_gpio (g_conf_info d')) = [0, 0, 0]"
proof -
  let ?t = "pad 30 (bytes_of ''25.3C  61.2'')"
  have t: "am2301 (demo []) = Some ?t" by (simp add: demo_def)
  have l: "length ?t = 30" "0 \<in> set ?t" by (simp_all add: pad_def zeros_def)
  have a: "g_alarm_in (demo []) = [0, 0, 0, 0, 0, 0, 0, 0]" by (simp add: zeros_def eval_nat_numeral)
  from gpio_query_overwrites_switches [OF ok_demo_env ok_demo [of "[]"], of "demo_conn []", OF _ _ _ t l a, of "request ITS_GPIO_QUERY [] [] 0"]
  show ?thesis by (auto simp: demo_conf_def)
qed

end
