(* ===== verification/Dns.thy ===== *)
theory Dns
  imports Config
begin

text \<open>
  Name resolution, \<open>nc600-2.0/src/client.c\<close>: the query packet, the scan of the reply, and
  \<open>dns_resolution\<close>, which finds the address of the alarm server. The network is a record: the
  descriptor \<open>socket\<close> returns, the result of \<open>select\<close>, and the datagram \<open>recv\<close> delivers. Arrays
  the code leaves uninitialised are parameters. \<open>gethostbyname\<close>, which the code calls only for a
  text that is an address already, is a parameter too.
\<close>

section \<open>The query\<close>

definition MAX_SIZE_DNS :: nat where "MAX_SIZE_DNS = 1024"
definition SERVER_PORT_DNS :: u16 where "SERVER_PORT_DNS = 53"

text \<open>Stores at successive places.\<close>

fun wr_all :: "bytes \<Rightarrow> (nat \<times> u8) list \<Rightarrow> bytes option" where
  "wr_all b [] = Some b"
| "wr_all b ((i, v) # s) = do { b \<leftarrow> wr b i v; wr_all b s }"

definition setHead :: "bytes \<Rightarrow> bytes option" where
  "setHead b = wr_all b [(0, 0), (1, 0), (2, 1), (3, 0), (4, 0), (5, 1), (6, 0), (7, 0),
     (11, 0), (10, 0), (9, 0), (8, 0)]"

definition setQuery :: "bytes \<Rightarrow> bytes \<Rightarrow> nat \<Rightarrow> bytes option" where
  "setQuery name b len = do {
     n \<leftarrow> rds name 0 len;
     b \<leftarrow> wrs b 12 n;
     let pos = len + 12;
     wr_all b [(pos, 0), (pos + 1, 1), (pos + 2, 0), (pos + 3, 1)] }"

text \<open>
  The loop of \<open>changeDN\<close>, from the end of the name to its start: the character at \<open>i\<close> goes to
  \<open>i + 1\<close>, a dot becomes the number \<open>k\<close> of characters since the last one.
\<close>

fun changeDN_loop :: "bytes \<Rightarrow> nat \<Rightarrow> nat \<Rightarrow> bytes \<Rightarrow> (nat \<times> bytes) option" where
  "changeDN_loop DN 0 k name = Some (k, name)"
| "changeDN_loop DN (Suc i) k name = do {
     c \<leftarrow> rd DN i;
     if c = 46 then do { name \<leftarrow> wr name (Suc i) (of_nat k); changeDN_loop DN i 0 name }
     else do { name \<leftarrow> wr name (Suc i) c; changeDN_loop DN i (Suc k) name } }"

definition changeDN :: "bytes \<Rightarrow> bytes \<Rightarrow> (nat \<times> bytes) option" where
  "changeDN DN name = do {
     s \<leftarrow> cstring DN;
     name \<leftarrow> wr name (length s + 1) 0;
     (k, name) \<leftarrow> changeDN_loop DN (length s) 0 name;
     name \<leftarrow> wr name 0 (of_nat k);
     Some (length s + 2, name) }"

section \<open>The exchange\<close>

record dns_env =
  q_fd :: int             \<comment> \<open>\<open>socket\<close>\<close>
  q_select :: int         \<comment> \<open>\<open>select\<close>, two seconds\<close>
  q_recv :: "bytes option" \<comment> \<open>the datagram, \<open>None\<close> when \<open>recv\<close> fails\<close>
  q_buf :: bytes          \<comment> \<open>\<open>buf\<close>, \<open>name\<close>, \<open>recvMsg\<close> of \<open>its_dns\<close>, 1024 bytes each, before the call\<close>
  q_name :: bytes
  q_msg :: bytes

text \<open>\<open>FD_SET\<close> of a negative descriptor writes outside the set.\<close>

definition sendDNSPacket :: "dns_env \<Rightarrow> bytes \<Rightarrow> nat \<Rightarrow> bytes \<Rightarrow> u32 \<Rightarrow> dev \<Rightarrow> (int \<times> bytes \<times> dev) option" where
  "sendDNSPacket q b len recvMsg dns_ip d = do {
     packet \<leftarrow> rds b 0 len;
     if q_fd q < 0 then None else do {
       let d = emit (EvSendTo (q_fd q) dns_ip SERVER_PORT_DNS packet) (emit (EvSocket (q_fd q)) d);
       (ret, recvMsg) \<leftarrow>
         (if q_select q = -1 \<or> q_select q = 0 then Some (0, recvMsg)
          else case q_recv q of None \<Rightarrow> Some (-1, recvMsg)
            | Some g \<Rightarrow> do {
                let g = take MAX_SIZE_DNS g;
                recvMsg \<leftarrow> wrs recvMsg 0 g;
                Some (int (length g), recvMsg) });
       Some (ret, recvMsg, emit (EvClose (q_fd q)) d) } }"

text \<open>
  \<open>resolve\<close>: from record to record of the reply. A record of type 1 (an address) whose name is
  a pointer to \<open>cnt\<close> ends the scan; one of type 5 (an alias) makes its data the name to look for.
\<close>

definition quad_text :: "u8 \<Rightarrow> u8 \<Rightarrow> u8 \<Rightarrow> u8 \<Rightarrow> bytes" where
  "quad_text a b c e = decimal (unat a) @ 46 # decimal (unat b) @ 46 # decimal (unat c) @ 46 # decimal (unat e)"

function resolve_loop :: "bytes \<Rightarrow> nat \<Rightarrow> nat \<Rightarrow> int \<Rightarrow> bytes \<Rightarrow> (CMD_CODE \<times> bytes) option" where
  "resolve_loop recvMsg pos cnt n ip =
    (if \<not> int pos < n then Some (DNS_FAILED, ip)
     else do {
       now_pos \<leftarrow> rd recvMsg (pos + 1);
       retype \<leftarrow> rd recvMsg (pos + 3);
       reclass \<leftarrow> rd recvMsg (pos + 5);
       off \<leftarrow> rd recvMsg (pos + 11);
       if retype = 1 \<and> unat now_pos = cnt \<and> reclass = 1 then do {
         a \<leftarrow> rd recvMsg (pos + 12); b \<leftarrow> rd recvMsg (pos + 13);
         c \<leftarrow> rd recvMsg (pos + 14); e \<leftarrow> rd recvMsg (pos + 15);
         ip \<leftarrow> wrs ip 0 (quad_text a b c e @ [0]);
         Some (DNS_OK, ip) }
       else resolve_loop recvMsg (pos + 12 + unat off) (if retype = 5 then pos + 12 else cnt) n ip })"
  by pat_completeness auto
termination by (relation "measure (\<lambda>(recvMsg, pos, cnt, n, ip). nat (n - int pos))") (auto intro: less_le_trans [OF _ uint_ge_0])

declare resolve_loop.simps [simp del]

definition resolve :: "bytes \<Rightarrow> nat \<Rightarrow> int \<Rightarrow> bytes \<Rightarrow> (CMD_CODE \<times> bytes) option" where
  "resolve recvMsg len len_recvMsg ip = resolve_loop recvMsg len 12 len_recvMsg ip"

definition its_dns :: "dns_env \<Rightarrow> bytes \<Rightarrow> u32 \<Rightarrow> bytes \<Rightarrow> dev \<Rightarrow> (CMD_CODE \<times> bytes \<times> dev) option" where
  "its_dns q www dns_ip ip d = do {
     (len, name) \<leftarrow> changeDN www (q_name q);
     b \<leftarrow> setHead (q_buf q);
     b \<leftarrow> setQuery name b len;
     let len = len + 16;
     (len_recvMsg, recvMsg, d) \<leftarrow> sendDNSPacket q b len (q_msg q) dns_ip d;
     (ret, ip) \<leftarrow> resolve recvMsg len len_recvMsg ip;
     Some (ret, ip, d) }"

section \<open>Addresses as text\<close>

text \<open>
  \<open>ip_check\<close>: the loop over the text with its four counters. \<open>result\<close>, which the code computes
  and never reads, is left out. An end of the array before a NUL is an access outside of it.
\<close>

fun ip_check_loop :: "bytes \<Rightarrow> nat \<Rightarrow> nat \<Rightarrow> nat \<Rightarrow> nat \<Rightarrow> int option" where
  "ip_check_loop [] d dotNum dNum char_exit = None"
| "ip_check_loop (c # s) d dotNum dNum char_exit =
    (if is_digit c then
       (let d = 10 * d + (unat c - 48)
        in if 255 < d then Some 0 else ip_check_loop s d dotNum (dNum + 1) (char_exit + 1))
     else if c = 46 then
       (let dotNum = dotNum + 1
        in if dNum < dotNum then Some 0
           else if char_exit = 0 then Some (-1)
           else ip_check_loop s 0 dotNum dNum 0)
     else if c = 0 then Some (if dotNum \<noteq> 3 \<or> char_exit = 0 then 0 else 1)
     else Some 0)"

definition ip_check :: "bytes \<Rightarrow> int option" where
  "ip_check ip = ip_check_loop ip 0 0 0 0"

section \<open>The server's address\<close>

text \<open>
  \<open>dns_resolution\<close>. A null result of \<open>gethostbyname\<close> is dereferenced. The text a caller passes may
  be the configuration's own; copying it onto itself leaves it as it is.
\<close>

definition set_server :: "(CONFIG_SERVER \<Rightarrow> CONFIG_SERVER) \<Rightarrow> dev \<Rightarrow> dev" where
  "set_server f d = d\<lparr>g_conf_info := con_server_update f (g_conf_info d)\<rparr>"

definition dns_resolution ::
    "(bytes \<Rightarrow> u32 option) \<Rightarrow> dns_env \<Rightarrow> bytes \<Rightarrow> dev \<Rightarrow> (CMD_CODE \<times> dev) option" where
  "dns_resolution gethostbyname q s d = do {
     ok \<leftarrow> ip_check s;
     if ok = 1 then do {
       t \<leftarrow> cstring s;
       h \<leftarrow> gethostbyname t;
       ip \<leftarrow> sys_str2ip (ip_text h @ [0]);
       let d = set_server (\<lambda>c. c\<lparr>server_ip := ip\<rparr>) d;
       t \<leftarrow> strcpy (dns_str (con_server (g_conf_info d))) s;
       Some (DNS_OK, set_server (\<lambda>c. c\<lparr>dns_str := t\<rparr>) d) }
     else do {
       t \<leftarrow> cstring (dns_str (con_server (g_conf_info d)));
       if t \<noteq> [] then do {
         dns_ip \<leftarrow> rd (dns (con_net (g_conf_info d))) 0;
         (r, ip_dest, d) \<leftarrow> its_dns q s dns_ip (zeros 16) d;
         if r = DNS_OK then do {
           ip \<leftarrow> sys_str2ip ip_dest;
           Some (DNS_OK, set_server (\<lambda>c. c\<lparr>server_ip := ip\<rparr>) d) }
         else Some (DNS_FAILED, d) }
       else Some (DNS_FAILED, d) } }"

section \<open>Lemmas: the name in the query\<close>

text \<open>The parts of a text between separators, the labels of a dotted name, and what the name section of a
  query says of them.\<close>

fun split_on :: "u8 \<Rightarrow> bytes \<Rightarrow> bytes list" where
  "split_on x [] = [[]]"
| "split_on x (c # s) = (if c = x then [] # split_on x s
     else (case split_on x s of [] \<Rightarrow> [[c]] | l # ls \<Rightarrow> (c # l) # ls))"

abbreviation labels :: "bytes \<Rightarrow> bytes list" where
  "labels \<equiv> split_on 46"

definition enc_label :: "bytes \<Rightarrow> bytes" where
  "enc_label l = of_nat (length l) # l"

definition qname :: "bytes list \<Rightarrow> bytes" where
  "qname ls = concat (map enc_label ls) @ [0]"

text \<open>How a name server reads it: a length and that many characters, until the length 0.\<close>

function dec_name :: "bytes \<Rightarrow> (bytes list \<times> bytes) option" where
  "dec_name [] = None"
| "dec_name (n # r) = (if n = 0 then Some ([], r)
     else if length r < unat n then None
     else map_option (\<lambda>(ls, r'). (take (unat n) r # ls, r')) (dec_name (drop (unat n) r)))"
  by pat_completeness auto
termination by (relation "measure length") auto

lemma dec_name_qname:
  assumes "\<forall>l \<in> set ls. l \<noteq> [] \<and> length l < 256"
  shows "dec_name (qname ls @ r) = Some (ls, r)"
  using assms
proof (induction ls)
  case Nil
  then show ?case by (simp add: qname_def)
next
  case (Cons l ls)
  have u: "unat (of_nat (length l) :: u8) = length l"
    using Cons.prems by (simp add: unat_of_nat take_bit_nat_eq_self)
  then have "(of_nat (length l) :: u8) \<noteq> 0" using Cons.prems by (auto simp: word_unat_eq_iff)
  with Cons u show ?case by (simp add: qname_def enc_label_def)
qed

text \<open>The number of characters before the first dot, and the name after its first length byte.\<close>

definition len0 :: "bytes \<Rightarrow> nat" where
  "len0 s = length (takeWhile (\<lambda>c. c \<noteq> 46) s)"

fun name_body :: "bytes \<Rightarrow> bytes" where
  "name_body [] = []"
| "name_body (c # s) = (if c = 46 then of_nat (len0 s) else c) # name_body s"

lemma length_name_body [simp]: "length (name_body s) = length s"
  by (induction s) auto

lemma labels_body: "\<exists>l ls. labels s = l # ls \<and> length l = len0 s \<and> l @ concat (map enc_label ls) = name_body s"
proof (induction s)
  case Nil
  then show ?case by (simp add: len0_def)
next
  case (Cons c s)
  then obtain l ls where "labels s = l # ls" "length l = len0 s" "l @ concat (map enc_label ls) = name_body s" by blast
  then show ?case by (cases "c = 46") (auto simp: len0_def enc_label_def [abs_def])
qed

lemma qname_body: "qname (labels s) = of_nat (len0 s) # name_body s @ [0]"
proof -
  obtain l ls where l: "labels s = l # ls" "length l = len0 s" "l @ concat (map enc_label ls) = name_body s"
    using labels_body by blast
  have "qname (labels s) = of_nat (length l) # (l @ concat (map enc_label ls)) @ [0]"
    by (simp add: qname_def enc_label_def l(1))
  then show ?thesis by (simp only: l(2,3))
qed

lemma name_body_nth:
  "i < length s \<Longrightarrow> name_body s ! i = (if s ! i = 46 then of_nat (len0 (drop (Suc i) s)) else s ! i)"
proof (induction s arbitrary: i)
  case (Cons c s)
  then show ?case by (cases i) auto
qed simp

lemma len0_drop:
  assumes "i < length s"
  shows "len0 (drop i s) = (if s ! i = 46 then 0 else Suc (len0 (drop (Suc i) s)))"
  by (simp add: len0_def flip: Cons_nth_drop_Suc [OF assms])

lemma changeDN_loop_body:
  assumes "i \<le> length s" "length s + 1 < length name"
  shows "changeDN_loop (s @ r) i (len0 (drop i s)) name
     = Some (len0 s, take 1 name @ take i (name_body s) @ drop (Suc i) name)"
  using assms
proof (induction i arbitrary: name)
  case 0
  then show ?case by simp
next
  case (Suc i)
  then have i: "i < length s" by simp
  let ?v = "name_body s ! i"
  have t: "take (Suc i) (name_body s) = take i (name_body s) @ [?v]" by (simp add: take_Suc_conv_app_nth i)
  have n: "take 1 (name[Suc i := ?v]) = take 1 name" "drop (Suc i) (name[Suc i := ?v]) = ?v # drop (Suc (Suc i)) name"
    using Suc.prems i by (simp_all add: drop_update_swap flip: Cons_nth_drop_Suc)
  have "changeDN_loop (s @ r) (Suc i) (len0 (drop (Suc i) s)) name
      = changeDN_loop (s @ r) i (len0 (drop i s)) (name[Suc i := ?v])"
    using i Suc.prems by (simp add: rd_in wr_in nth_append name_body_nth len0_drop [OF i])
  also have "\<dots> = Some (len0 s, take 1 name @ take i (name_body s) @ ?v # drop (Suc (Suc i)) name)"
    using Suc.IH [of "name[Suc i := ?v]"] Suc.prems n by simp
  finally show ?case by (simp add: t)
qed

lemma changeDN_eq:
  assumes "cstring DN = Some s" "length s + 2 \<le> length name"
  shows "changeDN DN name = Some (length s + 2, qname (labels s) @ drop (length s + 2) name)"
proof -
  obtain r where DN: "DN = s @ 0 # r" using cstring_SomeD [OF assms(1)] by blast
  let ?name = "name[Suc (length s) := 0]"
  have l: "changeDN_loop DN (length s) 0 ?name = Some (len0 s, take 1 ?name @ name_body s @ drop (Suc (length s)) ?name)"
    using changeDN_loop_body [of "length s" s ?name "0 # r"] assms(2) by (simp add: DN len0_def)
  obtain x xs where name: "name = x # xs" using assms(2) by (cases name) auto
  have e: "take (Suc 0) name = [x]" "drop (Suc (length s)) ?name = 0 # drop (length s + 2) name"
    using assms(2) by (simp_all add: name drop_update_swap flip: Cons_nth_drop_Suc)
  show ?thesis using assms l by (simp add: changeDN_def wr_in e qname_body)
qed

section \<open>Lemmas: the packet and the reply\<close>

definition query_packet :: "bytes \<Rightarrow> bytes" where
  "query_packet s = [0, 0, 1, 0, 0, 1, 0, 0, 0, 0, 0, 0] @ qname (labels s) @ [0, 1, 0, 1]"

lemma length_qname: "length (qname (labels s)) = length s + 2"
  by (simp add: qname_body)

lemma setHead_eq:
  assumes "12 \<le> length b"
  shows "setHead b = Some ([0, 0, 1, 0, 0, 1, 0, 0, 0, 0, 0, 0] @ drop 12 b)"
proof -
  obtain b0 b1 b2 b3 b4 b5 b6 b7 b8 b9 b10 b11 r where "b = b0 # b1 # b2 # b3 # b4 # b5 # b6 # b7 # b8 # b9 # b10 # b11 # r"
    using assms by (auto simp: numeral_eq_Suc Suc_le_length_iff)
  then show ?thesis by (simp add: setHead_def wr_in)
qed

lemma list4: "length xs = 4 \<Longrightarrow> \<exists>a b c e. xs = [a, b, c, e]"
  by (auto simp: numeral_eq_Suc length_Suc_conv)

lemma wr_all_tail:
  "length p = k \<Longrightarrow> wr_all (p @ x0 # x1 # x2 # x3 # t) [(k, 0), (k + 1, 1), (k + 2, 0), (k + 3, 1)] = Some (p @ [0, 1, 0, 1] @ t)"
  by (auto simp: wr_in list_update_append)

lemma setQuery_eq:
  assumes "length p = 12" "n = length q" "length q + 4 \<le> length r"
  shows "setQuery (q @ rest) (p @ r) n = Some (p @ q @ [0, 1, 0, 1] @ drop (length q + 4) r)"
proof -
  obtain x0 x1 x2 x3 where x: "take 4 (drop (length q) r) = [x0, x1, x2, x3]"
    using list4 [of "take 4 (drop (length q) r)"] assms(3) by auto
  then have t: "drop (length q) r = x0 # x1 # x2 # x3 # drop (length q + 4) r"
    using append_take_drop_id [of 4 "drop (length q) r"] by (simp add: add.commute)
  have "wrs (p @ r) 12 q = Some ((p @ q) @ x0 # x1 # x2 # x3 # drop (length q + 4) r)"
    using assms(1,3) t by (simp add: wrs_def add.commute)
  then show ?thesis using assms(1,2) wr_all_tail [of "p @ q" "n + 12" x0 x1 x2 x3 "drop (length q + 4) r"]
    by (simp add: setQuery_def rds_def add.commute)
qed

lemma length_query_packet [simp]: "length (query_packet s) = length s + 18"
  by (simp add: query_packet_def length_qname)

text \<open>\<open>its_dns\<close> for a name that fits its buffers.\<close>

lemma its_dns_packet:
  assumes "cstring www = Some s" "length s + 18 \<le> 1024" "length (q_buf q) = 1024" "length (q_name q) = 1024"
  shows "its_dns q www dns_ip ip d = do {
     (n, m, d) \<leftarrow> sendDNSPacket q (query_packet s @ drop (length s + 18) (q_buf q)) (length s + 18) (q_msg q) dns_ip d;
     (ret, ip) \<leftarrow> resolve m (length s + 18) n ip;
     Some (ret, ip, d) }"
proof -
  let ?p = "[0, 0, 1, 0, 0, 1, 0, 0, 0, 0, 0, 0] :: bytes" and ?q = "qname (labels s)"
  have c: "changeDN www (q_name q) = Some (length s + 2, ?q @ drop (length s + 2) (q_name q))"
    using changeDN_eq [OF assms(1)] assms(2,4) by simp
  have "drop (length ?q + 4) (drop 12 (q_buf q)) = drop (length s + 18) (q_buf q)"
    by (simp add: length_qname add.commute)
  then have b: "setQuery (?q @ drop (length s + 2) (q_name q)) (?p @ drop 12 (q_buf q)) (length s + 2)
      = Some (query_packet s @ drop (length s + 18) (q_buf q))"
    using setQuery_eq [of ?p "length s + 2" ?q "drop 12 (q_buf q)"] assms(2,3) length_qname [of s]
    by (simp only: query_packet_def append_assoc) simp
  have "setHead (q_buf q) = Some (?p @ drop 12 (q_buf q))" using setHead_eq [of "q_buf q"] assms(3) by simp
  moreover have "length s + 2 + 16 = length s + 18" by simp
  ultimately show ?thesis by (simp only: its_dns_def c b Option.bind.bind_lunit prod.case Let_def)
qed

lemma sendDNSPacket_reply:
  assumes "0 \<le> q_fd q" "0 < q_select q" "q_recv q = Some g" "length g \<le> length m" "length m = 1024" "length p = n"
  shows "sendDNSPacket q (p @ r) n m dns_ip d = Some (int (length g), g @ drop (length g) m,
     emit (EvClose (q_fd q)) (emit (EvSendTo (q_fd q) dns_ip SERVER_PORT_DNS p) (emit (EvSocket (q_fd q)) d)))"
  using assms by (simp add: sendDNSPacket_def rds_def wrs_def MAX_SIZE_DNS_def)

text \<open>The records of a reply, as far as the code looks at them, and which of them \<open>resolve\<close> picks.\<close>

record rr =
  rr_ptr :: u8      \<comment> \<open>where the name is, the low byte of the pointer\<close>
  rr_type :: u8
  rr_class :: u8
  rr_ttl :: u32
  rr_data :: bytes

definition enc_rr :: "rr \<Rightarrow> bytes" where
  "enc_rr r = [0xc0, rr_ptr r, 0, rr_type r, 0, rr_class r] @ enc32 (rr_ttl r) @ [0, of_nat (length (rr_data r))] @ rr_data r"

definition ok_rr :: "rr \<Rightarrow> bool" where
  "ok_rr r \<longleftrightarrow> length (rr_data r) < 256 \<and> (rr_type r = 1 \<longrightarrow> length (rr_data r) = 4)"

fun pick :: "rr list \<Rightarrow> nat \<Rightarrow> nat \<Rightarrow> bytes option" where
  "pick [] pos cnt = None"
| "pick (r # rs) pos cnt =
     (if rr_type r = 1 \<and> unat (rr_ptr r) = cnt \<and> rr_class r = 1 then Some (rr_data r)
      else pick rs (pos + 12 + length (rr_data r)) (if rr_type r = 5 then pos + 12 else cnt))"

lemma length_quad_text: "length (quad_text a b c e) \<le> 15"
  using length_dec_byte [of a] length_dec_byte [of b] length_dec_byte [of c] length_dec_byte [of e]
  by (simp add: quad_text_def)

lemma rd_tail: "rd (p @ xs) (length p + k) = rd xs k"
  by (simp add: rd_def nth_append)

text \<open>One record of a reply.\<close>

lemma resolve_loop_rr:
  assumes "ok_rr r" "int (length p) < n" "length ip = 16"
  shows "resolve_loop (p @ enc_rr r @ t) (length p) cnt n ip =
    (if rr_type r = 1 \<and> unat (rr_ptr r) = cnt \<and> rr_class r = 1
     then Some (DNS_OK, quad_text (rr_data r ! 0) (rr_data r ! 1) (rr_data r ! 2) (rr_data r ! 3) @ [0] @
       drop (length (quad_text (rr_data r ! 0) (rr_data r ! 1) (rr_data r ! 2) (rr_data r ! 3)) + 1) ip)
     else resolve_loop (p @ enc_rr r @ t) (length p + length (enc_rr r)) (if rr_type r = 5 then length p + 12 else cnt) n ip)"
proof -
  let ?x = "enc_rr r @ t" and ?l = "length (rr_data r)"
  have u: "unat (of_nat ?l :: u8) = ?l" using assms(1) by (simp add: ok_rr_def unat_of_nat take_bit_nat_eq_self)
  obtain a b c e where e32: "enc32 (rr_ttl r) = [a, b, c, e]" by (simp add: enc32_def)
  have x: "?x = [0xc0, rr_ptr r, 0, rr_type r, 0, rr_class r, a, b, c, e, 0, of_nat ?l] @ rr_data r @ t"
    by (simp add: enc_rr_def e32)
  have head: "rd (p @ ?x) (length p + 1) = Some (rr_ptr r)" "rd (p @ ?x) (length p + 3) = Some (rr_type r)"
    "rd (p @ ?x) (length p + 5) = Some (rr_class r)" "rd (p @ ?x) (length p + 11) = Some (of_nat ?l)"
    unfolding rd_tail x by (simp_all add: rd_def)
  have data: "rd (p @ ?x) (length p + (12 + k)) = Some (rr_data r ! k)" if "k < ?l" for k
    unfolding rd_tail x using that by (simp add: rd_def nth_append)
  have len: "length p + 12 + ?l = length p + length (enc_rr r)" by (simp add: enc_rr_def e32)
  show ?thesis
  proof (cases "rr_type r = 1 \<and> unat (rr_ptr r) = cnt \<and> rr_class r = 1")
    case True
    then have "?l = 4" using assms(1) by (simp add: ok_rr_def)
    then have d: "rd (p @ ?x) (length p + 12) = Some (rr_data r ! 0)" "rd (p @ ?x) (length p + 13) = Some (rr_data r ! 1)"
      "rd (p @ ?x) (length p + 14) = Some (rr_data r ! 2)" "rd (p @ ?x) (length p + 15) = Some (rr_data r ! 3)"
      using data [of 0] data [of 1] data [of 2] data [of 3] by simp_all
    have w: "wrs ip 0 (s @ [0]) = Some (s @ [0] @ drop (length s + 1) ip)" if "length s \<le> 15" for s
      using that assms(3) by (simp add: wrs_def)
    show ?thesis using True assms(2)
      by (subst resolve_loop.simps) (simp only: head d Option.bind.bind_lunit w [OF length_quad_text] not_not if_True if_False simp_thms)
  next
    case False
    then show ?thesis using assms(2)
      by (subst resolve_loop.simps) (simp only: head Option.bind.bind_lunit if_False not_not u len if_True simp_thms)
  qed
qed

text \<open>The scan of a reply is a search through its records.\<close>

lemma resolve_loop_pick:
  assumes "\<forall>r \<in> set rs. ok_rr r" "length ip = 16" "n = int (length p + length (concat (map enc_rr rs)))"
  shows "resolve_loop (p @ concat (map enc_rr rs) @ t) (length p) cnt n ip =
    Some (case pick rs (length p) cnt of None \<Rightarrow> (DNS_FAILED, ip)
      | Some v \<Rightarrow> (DNS_OK, quad_text (v ! 0) (v ! 1) (v ! 2) (v ! 3) @ [0] @ drop (length (quad_text (v ! 0) (v ! 1) (v ! 2) (v ! 3)) + 1) ip))"
  using assms
proof (induction rs arbitrary: p cnt)
  case Nil
  then show ?case by (simp add: resolve_loop.simps)
next
  case (Cons r rs)
  have l: "length (enc_rr r) = 12 + length (rr_data r)" by (simp add: enc_rr_def enc32_def)
  have lt: "int (length p) < n" and r: "ok_rr r" using Cons.prems l by simp_all
  have step: "resolve_loop (p @ concat (map enc_rr (r # rs)) @ t) (length p) cnt n ip =
    (if rr_type r = 1 \<and> unat (rr_ptr r) = cnt \<and> rr_class r = 1
     then Some (DNS_OK, quad_text (rr_data r ! 0) (rr_data r ! 1) (rr_data r ! 2) (rr_data r ! 3) @ [0] @
       drop (length (quad_text (rr_data r ! 0) (rr_data r ! 1) (rr_data r ! 2) (rr_data r ! 3)) + 1) ip)
     else resolve_loop ((p @ enc_rr r) @ concat (map enc_rr rs) @ t) (length (p @ enc_rr r)) (if rr_type r = 5 then length p + 12 else cnt) n ip)"
    using resolve_loop_rr [OF r lt Cons.prems(2), of "concat (map enc_rr rs) @ t" cnt] by simp
  show ?case
  proof (cases "rr_type r = 1 \<and> unat (rr_ptr r) = cnt \<and> rr_class r = 1")
    case True
    then show ?thesis using step by simp
  next
    case False
    have "length (p @ enc_rr r) = length p + 12 + length (rr_data r)" by (simp add: l)
    then show ?thesis using step False Cons.IH [of "p @ enc_rr r" "if rr_type r = 5 then length p + 12 else cnt"] Cons.prems
      by (simp only: if_False pick.simps) (simp add: add.assoc)
  qed
qed

section \<open>Lemmas: addresses as text\<close>

definition is_octet :: "bytes \<Rightarrow> bool" where
  "is_octet l \<longleftrightarrow> l \<noteq> [] \<and> (\<forall>c \<in> set l. is_digit c) \<and> atoi_digits l 0 \<le> 255"

text \<open>Four groups of digits with dots between them, each of a value up to 255.\<close>

definition is_dotted_quad :: "bytes \<Rightarrow> bool" where
  "is_dotted_quad s \<longleftrightarrow> length (labels s) = 4 \<and> (\<forall>l \<in> set (labels s). is_octet l)"

lemma atoi_digits_ge: "d \<le> atoi_digits l d"
proof (induction l arbitrary: d)
  case (Cons c l)
  show ?case using Cons [of "10 * d + (unat c - 48)"] by simp
qed simp

lemma labels_ne: "labels s \<noteq> []"
  using labels_body [of s] by auto

lemma ip_check_loop_iff:
  assumes "0 \<notin> set s" "d \<le> 255" "dotNum + (if 0 < char_exit then 1 else 0) \<le> dNum"
  shows "ip_check_loop (s @ 0 # r) d dotNum dNum char_exit = Some 1 \<longleftrightarrow>
    (\<forall>c \<in> set (hd (labels s)). is_digit c) \<and> atoi_digits (hd (labels s)) d \<le> 255 \<and>
    (0 < char_exit \<or> hd (labels s) \<noteq> []) \<and> (\<forall>l \<in> set (tl (labels s)). is_octet l) \<and>
    dotNum + length (tl (labels s)) = 3"
  using assms
proof (induction s arbitrary: d dotNum dNum char_exit)
  case Nil
  then show ?case by (auto simp: is_digit_def word_le_nat_alt)
next
  case (Cons c s)
  obtain l ls where l: "labels s = l # ls" using labels_ne [of s] by (cases "labels s") auto
  consider (digit) "is_digit c" | (dot) "c = 46" | (other) "\<not> is_digit c" "c \<noteq> 46" by blast
  then show ?case
  proof cases
    case digit
    let ?d = "10 * d + (unat c - 48)"
    have c: "c \<noteq> 46" using is_digit_not_special [OF digit] by simp
    show ?thesis
    proof (cases "255 < ?d")
      case True
      then have "\<not> atoi_digits l ?d \<le> 255" using atoi_digits_ge [of ?d l] by linarith
      with True digit c l show ?thesis by simp
    next
      case False
      have "dotNum + (if 0 < char_exit + 1 then 1 else 0) \<le> dNum + 1" using Cons.prems(3) by (simp split: if_splits)
      with Cons.IH [of ?d dotNum "char_exit + 1" "dNum + 1"] Cons.prems(1) False digit c l show ?thesis by simp
    qed
  next
    case dot
    then have nd: "\<not> is_digit c" by (simp add: is_digit_def word_le_nat_alt)
    show ?thesis
    proof (cases "char_exit = 0")
      case True
      with dot nd l show ?thesis by simp
    next
      case False
      then have "dotNum + 1 + (if 0 < (0::nat) then 1 else 0) \<le> dNum" using Cons.prems(3) by simp
      with Cons.IH [of 0 "dotNum + 1" 0 dNum] Cons.prems False dot nd l show ?thesis
        by (auto simp: is_octet_def)
    qed
  next
    case other
    with Cons.prems(1) l show ?thesis by simp
  qed
qed

lemma ip_check_iff:
  assumes "cstring ip = Some s"
  shows "ip_check ip = Some 1 \<longleftrightarrow> is_dotted_quad s"
proof -
  obtain r where ip: "ip = s @ 0 # r" "0 \<notin> set s" using cstring_SomeD [OF assms] by blast
  obtain l ls where l: "labels s = l # ls" using labels_ne [of s] by (cases "labels s") auto
  show ?thesis using ip_check_loop_iff [OF ip(2), of 0 0 0 0 r]
    by (auto simp: ip_check_def ip(1) l is_dotted_quad_def is_octet_def)
qed

lemma ip_check_total: "0 \<notin> set s \<Longrightarrow> \<exists>x \<in> {-1, 0, 1}. ip_check_loop (s @ 0 # r) d a b c = Some x"
  by (induction s arbitrary: d a b c) (auto simp: is_digit_def word_le_nat_alt Let_def)

text \<open>The address such a text stands for, and what \<open>sys_str2ip\<close> makes of it.\<close>

lemma octets_word: "\<exists>w. ip_byte w 0 = a \<and> ip_byte w 1 = b \<and> ip_byte w 2 = c \<and> ip_byte w 3 = e"
proof -
  let ?w = "ucast a OR push_bit 8 (ucast b) OR push_bit 16 (ucast c) OR push_bit 24 (ucast e) :: u32"
  have n: "bit x (8 + n) \<longleftrightarrow> False" "bit x (16 + n) \<longleftrightarrow> False" "bit x (24 + n) \<longleftrightarrow> False" for x :: u8 and n
    using bit_imp_le_length [of x] by fastforce+
  have "ip_byte ?w 0 = a" "ip_byte ?w 1 = b" "ip_byte ?w 2 = c" "ip_byte ?w 3 = e"
    by (rule bit_word_eqI; auto simp: bit_ip_byte bit_simps n dest: bit_imp_le_length)+
  then show ?thesis by blast
qed

lemma atoi_octet: "is_octet l \<Longrightarrow> \<not> is_digit c \<Longrightarrow> atoi_byte (l @ c # r) = of_nat (atoi_digits l 0)"
proof -
  assume l: "is_octet l" and c: "\<not> is_digit c"
  then obtain x xs where x: "l = x # xs" "is_digit x" by (cases l) (auto simp: is_octet_def)
  have d: "atoi_digits (ys @ c # r) k = atoi_digits ys k" if "\<forall>y \<in> set ys. is_digit y" for ys k
    using that c by (induction ys arbitrary: k) auto
  show ?thesis using x l is_digit_not_special [OF x(2)] d [of l 0]
    by (simp add: atoi_byte_def atoi_def is_octet_def)
qed

lemma labels_join: "s = concat (map (\<lambda>l. l @ [46]) (butlast (labels s))) @ last (labels s)"
proof (induction s)
  case (Cons c s)
  obtain l ls where "labels s = l # ls" using labels_ne [of s] by (cases "labels s") auto
  with Cons show ?case by (cases ls) auto
qed simp

lemma dotted_quad_value:
  assumes "is_dotted_quad s"
  shows "\<exists>w. sys_str2ip (s @ 0 # r) = Some w \<and> map (\<lambda>i. unat (ip_byte w i)) [0, 1, 2, 3] = map (\<lambda>l. atoi_digits l 0) (labels s)"
proof -
  obtain l0 l1 l2 l3 where l: "labels s = [l0, l1, l2, l3]" using list4 [of "labels s"] assms by (auto simp: is_dotted_quad_def)
  have o: "is_octet l0" "is_octet l1" "is_octet l2" "is_octet l3" using assms l by (simp_all add: is_dotted_quad_def)
  have s: "s = l0 @ 46 # l1 @ 46 # l2 @ 46 # l3" using labels_join [of s] by (simp add: l)
  let ?b = "\<lambda>l. of_nat (atoi_digits l 0) :: u8"
  obtain w where w: "ip_byte w 0 = ?b l0" "ip_byte w 1 = ?b l1" "ip_byte w 2 = ?b l2" "ip_byte w 3 = ?b l3"
    using octets_word by blast
  have skip: "str2ip_loop (l @ t) j ip = str2ip_loop t j ip" if "is_octet l" for l t j ip
    using that is_digit_not_special by (intro str2ip_loop_skip) (auto simp: is_octet_def)
  have "sys_str2ip (s @ 0 # r) = Some (ucast (?b l0) + push_bit 8 (ucast (?b l1)) + push_bit 16 (ucast (?b l2)) + push_bit 24 (ucast (?b l3)))"
    by (simp add: sys_str2ip_def s skip o atoi_octet)
  moreover have "unat (?b l) = atoi_digits l 0" if "is_octet l" for l
    using that by (simp add: is_octet_def unat_of_nat take_bit_nat_eq_self)
  ultimately show ?thesis using ip_bytes_sum [of w] o w by (intro exI [of _ w]) (simp add: l)
qed

section \<open>Lemmas: resolution as a whole\<close>

lemma quad_text_ip: "enc32 w = [a, b, c, e] \<Longrightarrow> quad_text a b c e = ip_text w"
proof -
  assume w: "enc32 w = [a, b, c, e]"
  have m: "(0xff :: u32) = mask 8" by (simp add: mask_eq_exp_minus_1)
  have "ip_byte w i = ucast (drop_bit (8 * i) w)" for i
    by (rule bit_word_eqI) (auto simp: ip_byte_def m bit_simps)
  with w show ?thesis by (simp add: quad_text_def ip_text_def enc32_def)
qed

text \<open>Records that are not picked are skipped.\<close>

lemma resolve_loop_skip:
  assumes "\<forall>r \<in> set rs. ok_rr r" "length ip = 16" "pick rs (length p) cnt = None"
    "int (length p + length (concat (map enc_rr rs))) \<le> n"
  shows "\<exists>cnt'. resolve_loop (p @ concat (map enc_rr rs) @ t) (length p) cnt n ip =
    resolve_loop (p @ concat (map enc_rr rs) @ t) (length p + length (concat (map enc_rr rs))) cnt' n ip"
  using assms
proof (induction rs arbitrary: p cnt)
  case Nil
  then show ?case by (intro exI [of _ cnt]) simp
next
  case (Cons r rs)
  have l: "length (enc_rr r) = 12 + length (rr_data r)" by (simp add: enc_rr_def enc32_def)
  have lt: "int (length p) < n" and r: "ok_rr r" using Cons.prems l by simp_all
  have no: "\<not> (rr_type r = 1 \<and> unat (rr_ptr r) = cnt \<and> rr_class r = 1)"
    and pk: "pick rs (length (p @ enc_rr r)) (if rr_type r = 5 then length p + 12 else cnt) = None"
    using Cons.prems(3) l by (auto split: if_splits simp: add.assoc)
  obtain cnt' where "resolve_loop ((p @ enc_rr r) @ concat (map enc_rr rs) @ t) (length (p @ enc_rr r)) (if rr_type r = 5 then length p + 12 else cnt) n ip =
    resolve_loop ((p @ enc_rr r) @ concat (map enc_rr rs) @ t) (length (p @ enc_rr r) + length (concat (map enc_rr rs))) cnt' n ip"
    using Cons.IH [OF _ Cons.prems(2) pk] Cons.prems(1,4) by auto
  then show ?case using resolve_loop_rr [OF r lt Cons.prems(2), of "concat (map enc_rr rs) @ t" cnt] no
    by (intro exI [of _ cnt']) (simp add: add.assoc)
qed

text \<open>What an exchange with the name server leaves in the trace.\<close>

definition asked :: "dns_env \<Rightarrow> u32 \<Rightarrow> bytes \<Rightarrow> dev \<Rightarrow> dev" where
  "asked q dns_ip s d = d\<lparr>trace := trace d @ [EvSocket (q_fd q), EvSendTo (q_fd q) dns_ip SERVER_PORT_DNS (query_packet s), EvClose (q_fd q)]\<rparr>"

definition ok_dns_env :: "dns_env \<Rightarrow> bool" where
  "ok_dns_env q \<longleftrightarrow> 0 \<le> q_fd q \<and> length (q_buf q) = 1024 \<and> length (q_name q) = 1024 \<and> length (q_msg q) = 1024"

lemma asked_eq: "emit (EvClose (q_fd q)) (emit (EvSendTo (q_fd q) dns_ip SERVER_PORT_DNS (query_packet s)) (emit (EvSocket (q_fd q)) d)) = asked q dns_ip s d"
  by (simp add: asked_def emit_def)

lemma its_dns_reply:
  assumes "ok_dns_env q" "cstring www = Some s" "length s + 18 \<le> 1024" "0 < q_select q" "q_recv q = Some (h @ concat (map enc_rr rs))"
    "length h = length s + 18" "length (h @ concat (map enc_rr rs)) \<le> 1024" "\<forall>r \<in> set rs. ok_rr r" "length ip = 16"
  shows "its_dns q www dns_ip ip d = Some (case pick rs (length s + 18) 12 of None \<Rightarrow> (DNS_FAILED, ip, asked q dns_ip s d)
    | Some v \<Rightarrow> (DNS_OK, quad_text (v ! 0) (v ! 1) (v ! 2) (v ! 3) @ [0] @ drop (length (quad_text (v ! 0) (v ! 1) (v ! 2) (v ! 3)) + 1) ip, asked q dns_ip s d))"
proof -
  let ?g = "h @ concat (map enc_rr rs)"
  have m: "length (q_msg q) = 1024" using assms(1) by (simp add: ok_dns_env_def)
  have s: "sendDNSPacket q (query_packet s @ drop (length s + 18) (q_buf q)) (length s + 18) (q_msg q) dns_ip d
     = Some (int (length ?g), ?g @ drop (length ?g) (q_msg q), asked q dns_ip s d)"
    using sendDNSPacket_reply [of q ?g "q_msg q" "query_packet s" "length s + 18"] assms(1,4,5,7) m
    by (simp add: ok_dns_env_def asked_eq)
  have "resolve (?g @ drop (length ?g) (q_msg q)) (length s + 18) (int (length ?g)) ip =
    Some (case pick rs (length s + 18) 12 of None \<Rightarrow> (DNS_FAILED, ip)
      | Some v \<Rightarrow> (DNS_OK, quad_text (v ! 0) (v ! 1) (v ! 2) (v ! 3) @ [0] @ drop (length (quad_text (v ! 0) (v ! 1) (v ! 2) (v ! 3)) + 1) ip))"
    using resolve_loop_pick [OF assms(8,9), of "int (length ?g)" h "drop (length ?g) (q_msg q)" 12] assms(6)
    by (simp add: resolve_def)
  then show ?thesis
    using its_dns_packet [of www s q dns_ip ip d, OF assms(2,3)] assms(1)
    unfolding ok_dns_env_def by (auto simp: s split: option.splits)
qed

lemma pick_length: "pick rs pos cnt = Some v \<Longrightarrow> \<forall>r \<in> set rs. ok_rr r \<Longrightarrow> length v = 4"
  by (induction rs pos cnt rule: pick.induct) (auto simp: ok_rr_def split: if_splits)

end
