(* ===== verification/Link.thy ===== *)
theory Link
  imports Client Dns
begin

text \<open>
  The connection to the alarm server, \<open>nc600-2.0/src/client.c\<close>: connecting with a time limit,
  reconnecting until it succeeds, and the main loop of the client thread with its heartbeat
  counter. One attempt to connect meets a \<open>conn_env\<close>, one turn of the loop a \<open>turn_env\<close>.
\<close>

section \<open>Connecting\<close>

datatype connect_ev = Connected | InProgress | ConnectErr

record conn_env =
  c_fd :: int              \<comment> \<open>\<open>socket\<close>\<close>
  c_dns :: dns_env
  c_fcntl :: bool          \<comment> \<open>\<open>F_SETFL\<close> succeeded\<close>
  c_connect :: connect_ev  \<comment> \<open>\<open>ConnectErr\<close>: -1 with an \<open>errno\<close> other than \<open>EINPROGRESS\<close>\<close>
  c_poll :: int
  c_hup :: bool            \<comment> \<open>\<open>revents\<close> has one of the error bits\<close>
  c_soerr :: bool          \<comment> \<open>\<open>getsockopt\<close> failed or reported an error\<close>

text \<open>The closing of the connection, the same statements at three places.\<close>

definition drop_link :: "dev \<Rightarrow> dev" where
  "drop_link d = (if 0 < g_sockfd_client d
     then (emit (EvClose (g_sockfd_client d)) d)\<lparr>g_sockfd_client_status := SOCKFD_CLIENT_NULL, g_sockfd_client := -1\<rparr>
     else d)"

text \<open>The label \<open>err\<close> of \<open>client_connect_server\<close>.\<close>

definition connect_err :: "dev \<Rightarrow> int \<times> dev" where
  "connect_err d = (FAILURE, drop_link (d\<lparr>g_reconnect_flag := RECONNECT_ON\<rparr>))"

text \<open>The tests that jump there once \<open>connect\<close> has been called, in their order.\<close>

definition connect_failed :: "conn_env \<Rightarrow> bool" where
  "connect_failed e \<longleftrightarrow> c_connect e = ConnectErr \<or> c_poll e = 0 \<or> c_poll e = -1 \<or> c_hup e \<or> c_soerr e"

definition client_connect_server :: "(bytes \<Rightarrow> u32 option) \<Rightarrow> conn_env \<Rightarrow> dev \<Rightarrow> (int \<times> dev) option" where
  "client_connect_server gethostbyname e d = do {
     let d = d\<lparr>g_sockfd_client := c_fd e\<rparr>;
     if c_fd e < 0 then Some (FAILURE, d)
     else do {
       (ret, d) \<leftarrow> dns_resolution gethostbyname (c_dns e) (dns_str (con_server (g_conf_info d))) (emit (EvSocket (c_fd e)) d);
       if ret = DNS_FAILED then Some (FAILURE, d)
       else if \<not> c_fcntl e then Some (connect_err d)
       else do {
         let srv = con_server (g_conf_info d);
         let d = emit (EvConnect (c_fd e) (server_ip srv) (server_port srv)) d;
         Some (if connect_failed e then connect_err d else (SUCCESS, d)) } } }"

text \<open>
  The loop of \<open>client_reconnect\<close>. It has no limit; where the script of attempts ends it is still
  trying, the result \<open>False\<close>.
\<close>

definition CLIENT_RECONNECT_DURATION :: nat where "CLIENT_RECONNECT_DURATION = 10"

fun reconnect_loop :: "(bytes \<Rightarrow> u32 option) \<Rightarrow> conn_env list \<Rightarrow> dev \<Rightarrow> (bool \<times> dev) option" where
  "reconnect_loop gethostbyname [] d = Some (False, d)"
| "reconnect_loop gethostbyname (e # es) d = do {
     (r, d) \<leftarrow> client_connect_server gethostbyname e d;
     if r = FAILURE then reconnect_loop gethostbyname es (emit (EvSleep CLIENT_RECONNECT_DURATION) (drop_link d))
     else Some (True, d) }"

definition client_reconnect :: "(bytes \<Rightarrow> u32 option) \<Rightarrow> conn_env list \<Rightarrow> dev \<Rightarrow> (bool \<times> dev) option" where
  "client_reconnect gethostbyname es d =
     reconnect_loop gethostbyname es (led_ctrl LED_D3_ALARM_SERVER_STATUS LED_OFF (drop_link d))"

section \<open>The client thread\<close>

record turn_env =
  t_attempts :: "conn_env list"   \<comment> \<open>for a reconnection in this turn\<close>
  t_select :: int
  t_read :: "bytes option"        \<comment> \<open>what has arrived; \<open>None\<close>: \<open>read\<close> fails, \<open>[]\<close>: the peer has closed\<close>
  t_uninit :: uninit

text \<open>The part of a turn after \<open>select\<close>: up to 100 bytes over the start of the buffer.\<close>

definition client_serve :: "turn_env \<Rightarrow> dev \<Rightarrow> dev option" where
  "client_serve t d =
    (if t_select t \<le> 0 then Some d
     else case t_read t of None \<Rightarrow> Some d
       | Some data \<Rightarrow> do {
           let got = take 100 data;
           b \<leftarrow> wrs (cbuf d) 0 got;
           let d = d\<lparr>cbuf := b\<rparr>;
           if got = [] then Some d else do {
             h \<leftarrow> check_head b;
             if h = -1 then Some d
             else client_dispatch (t_uninit t) (of_nat (length got)) (d\<lparr>g_sockfd_client_status := SOCKFD_CLIENT_OK\<rparr>) } })"

text \<open>One turn of \<open>client_process\<close>; \<open>False\<close>: it is still inside \<open>client_reconnect\<close>.\<close>

definition client_turn :: "(bytes \<Rightarrow> u32 option) \<Rightarrow> turn_env \<Rightarrow> dev \<Rightarrow> (bool \<times> dev) option" where
  "client_turn gethostbyname t d = do {
     let d = d\<lparr>heartbeat_timeout := heartbeat_timeout d + 1\<rparr>;
     let d = (if unat (heartbeat_s d) < unat (heartbeat_timeout d) then set_heartbeat HEARTBEAT_OFFLINE HEARTBEAT_TIMEOUT d else d);
     let d = emit (EvSleep 1) d;
     (back, d) \<leftarrow> (if g_reconnect_flag d = RECONNECT_ON \<or> g_reconnect_flag d = HEARTBEAT_OFFLINE
       then do {
         (back, d) \<leftarrow> client_reconnect gethostbyname (t_attempts t) d;
         Some (back, if back then d\<lparr>g_reconnect_flag := RECONNECT_OFF\<rparr> else d) }
       else Some (True, d));
     if \<not> back then Some (False, d)
     else if g_sockfd_client d \<le> 0 then Some (True, d\<lparr>g_reconnect_flag := RECONNECT_ON\<rparr>)
     else do { d \<leftarrow> client_serve t d; Some (True, d) } }"

fun client_run :: "(bytes \<Rightarrow> u32 option) \<Rightarrow> turn_env list \<Rightarrow> dev \<Rightarrow> (bool \<times> dev) option" where
  "client_run gethostbyname [] d = Some (True, d)"
| "client_run gethostbyname (t # ts) d = do {
     (back, d) \<leftarrow> client_turn gethostbyname t d;
     if back then client_run gethostbyname ts d else Some (False, d) }"

section \<open>Lemmas: descriptors\<close>

text \<open>The descriptors that are open after a trace, starting from those open before it.\<close>

fun held_step :: "event \<Rightarrow> int set \<Rightarrow> int set" where
  "held_step (EvSocket fd) H = insert fd H"
| "held_step (EvClose fd) H = H - {fd}"
| "held_step _ H = H"

definition held :: "event list \<Rightarrow> int set" where
  "held tr = fold held_step tr {}"

lemma held_append [simp]: "held (tr @ es) = fold held_step es (held tr)"
  by (simp add: held_def)

lemma held_Nil [simp]: "held [] = {}"
  by (simp add: held_def)

text \<open>
  The client owns the descriptor \<open>fd\<close>, or none when \<open>fd\<close> is not positive; a socket for a query is
  gone when the query is over.
\<close>

definition linked :: "int \<Rightarrow> dev \<Rightarrow> bool" where
  "linked fd d \<longleftrightarrow> g_sockfd_client d = fd \<and> held (trace d) = (if 0 < fd then {fd} else {})"

definition link_held :: "dev \<Rightarrow> bool" where
  "link_held d \<longleftrightarrow> held (trace d) = (if 0 < g_sockfd_client d then {g_sockfd_client d} else {})"

lemma link_held_linked: "link_held d \<longleftrightarrow> linked (g_sockfd_client d) d"
  by (simp add: link_held_def linked_def)

lemma set_server_fields [simp]:
  "trace (set_server f d) = trace d" "g_sockfd_client (set_server f d) = g_sockfd_client d"
  "g_reconnect_flag (set_server f d) = g_reconnect_flag d" "heartbeat_s (set_server f d) = heartbeat_s d"
  "heartbeat_timeout (set_server f d) = heartbeat_timeout d"
  by (simp_all add: set_server_def)

lemma sendDNSPacket_dev:
  "sendDNSPacket q b n m ip d = Some (r, m', d') \<Longrightarrow>
     \<exists>p. 0 \<le> q_fd q \<and> d' = emit (EvClose (q_fd q)) (emit (EvSendTo (q_fd q) ip SERVER_PORT_DNS p) (emit (EvSocket (q_fd q)) d))"
  by (auto simp: sendDNSPacket_def Let_def bind_eq_Some_conv split: if_splits)

lemma its_dns_dev:
  "its_dns q w ip b d = Some (r, b', d') \<Longrightarrow>
     \<exists>p. 0 \<le> q_fd q \<and> d' = emit (EvClose (q_fd q)) (emit (EvSendTo (q_fd q) ip SERVER_PORT_DNS p) (emit (EvSocket (q_fd q)) d))"
  by (auto simp: its_dns_def Let_def bind_eq_Some_conv dest: sendDNSPacket_dev)

text \<open>What resolution leaves of the device: its own exchange in the trace, and the server's address.\<close>

definition resolved :: "dns_env \<Rightarrow> dev \<Rightarrow> dev \<Rightarrow> bool" where
  "resolved q d d' \<longleftrightarrow> (\<exists>f x. d' = set_server f (d\<lparr>trace := trace d @ x\<rparr>) \<and>
    (x = [] \<or> (\<exists>ip p. 0 \<le> q_fd q \<and> x = [EvSocket (q_fd q), EvSendTo (q_fd q) ip SERVER_PORT_DNS p, EvClose (q_fd q)])))"

lemma set_server_comp: "set_server f (set_server g d) = set_server (f \<circ> g) d"
  by (simp add: set_server_def)

lemma resolved_refl: "resolved q d d"
  unfolding resolved_def by (intro exI [of _ "\<lambda>c. c"] exI [of _ "[]"]) (simp add: set_server_def)

lemma resolved_set: "resolved q d d' \<Longrightarrow> resolved q d (set_server f d')"
  unfolding resolved_def using set_server_comp by (metis comp_apply)

lemma resolved_its:
  assumes "its_dns q w ip b d = Some (r, b', d')"
  shows "resolved q d d'"
proof -
  obtain p where q: "0 \<le> q_fd q" "d' = emit (EvClose (q_fd q)) (emit (EvSendTo (q_fd q) ip SERVER_PORT_DNS p) (emit (EvSocket (q_fd q)) d))"
    using its_dns_dev [OF assms] by blast
  then have "d' = set_server (\<lambda>c. c) (d\<lparr>trace := trace d @ [EvSocket (q_fd q), EvSendTo (q_fd q) ip SERVER_PORT_DNS p, EvClose (q_fd q)]\<rparr>)"
    by (simp add: set_server_def emit_def)
  with q(1) show ?thesis unfolding resolved_def by blast
qed

lemma dns_resolution_dev: "dns_resolution g q s d = Some (r, d') \<Longrightarrow> resolved q d d'"
  by (auto simp: dns_resolution_def bind_eq_Some_conv Let_def split: if_splits intro!: resolved_set resolved_refl dest: resolved_its)

lemma resolved_fields:
  assumes "resolved q d d'"
  shows "g_sockfd_client d' = g_sockfd_client d" "g_reconnect_flag d' = g_reconnect_flag d"
    "heartbeat_s d' = heartbeat_s d" "heartbeat_timeout d' = heartbeat_timeout d"
  using assms by (auto simp: resolved_def)

lemma resolved_held:
  assumes "resolved q d d'" "q_fd q \<notin> held (trace d)"
  shows "held (trace d') = held (trace d)"
  using assms by (auto simp: resolved_def held_def)

text \<open>The operating system hands out positive descriptors that are not in use.\<close>

definition fresh_conn_env :: "conn_env \<Rightarrow> bool" where
  "fresh_conn_env e \<longleftrightarrow> c_fd e \<noteq> 0 \<and> q_fd (c_dns e) \<noteq> c_fd e"

lemma drop_link_held: "link_held d \<Longrightarrow> g_sockfd_client (drop_link d) \<le> 0 \<and> link_held (drop_link d)"
  by (auto simp: link_held_def drop_link_def)

lemma led_ctrl_held: "link_held (led_ctrl l v d) = link_held d" "g_sockfd_client (led_ctrl l v d) = g_sockfd_client d"
  by (auto simp: link_held_def led_ctrl_def set_gpio_def)

lemma client_connect_held:
  assumes "client_connect_server g e d = Some (r, d')" "g_sockfd_client d \<le> 0" "link_held d" "fresh_conn_env e"
  shows "link_held d' \<and> (r = SUCCESS \<longrightarrow> g_sockfd_client d' = c_fd e \<and> 0 < c_fd e) \<and> (r = SUCCESS \<or> r = FAILURE)"
proof (cases "c_fd e < 0")
  case True
  then show ?thesis using assms by (auto simp: client_connect_server_def link_held_def)
next
  case False
  then have fd: "0 < c_fd e" using assms(4) by (simp add: fresh_conn_env_def)
  let ?d = "emit (EvSocket (c_fd e)) (d\<lparr>g_sockfd_client := c_fd e\<rparr>)"
  have h: "held (trace ?d) = {c_fd e}" using assms(2,3) by (simp add: link_held_def)
  obtain s d1 where r1: "dns_resolution g (c_dns e) (dns_str (con_server (g_conf_info d))) ?d = Some (s, d1)"
    using assms(1) False by (auto simp: client_connect_server_def bind_eq_Some_conv)
  have res: "resolved (c_dns e) ?d d1" by (rule dns_resolution_dev [OF r1])
  have "q_fd (c_dns e) \<notin> held (trace ?d)" unfolding h using assms(4) by (simp add: fresh_conn_env_def)
  from resolved_held [OF res this] have d1: "g_sockfd_client d1 = c_fd e" "held (trace d1) = {c_fd e}"
    using resolved_fields(1) [OF res] h by simp_all
  let ?c = "emit (EvConnect (c_fd e) (server_ip (con_server (g_conf_info d1))) (server_port (con_server (g_conf_info d1)))) d1"
  have "Some (r, d') = Some (if s = DNS_FAILED then (FAILURE, d1) else if \<not> c_fcntl e then connect_err d1
      else if connect_failed e then connect_err ?c else (SUCCESS, ?c))"
    using assms(1) r1 False by (auto simp: client_connect_server_def Let_def split: if_splits)
  then consider "r = FAILURE" "d' = d1" | "(r, d') = connect_err d1" | "(r, d') = connect_err ?c" | "r = SUCCESS" "d' = ?c"
    by (auto split: if_splits)
  then show ?thesis
    using d1 fd by cases (simp_all add: connect_err_def drop_link_def link_held_def)
qed

lemma reconnect_loop_held:
  "reconnect_loop g es d = Some (b, d') \<Longrightarrow> g_sockfd_client d \<le> 0 \<Longrightarrow> link_held d \<Longrightarrow> list_all fresh_conn_env es \<Longrightarrow>
     link_held d' \<and> (b \<longrightarrow> 0 < g_sockfd_client d')"
proof (induction es arbitrary: d)
  case Nil
  then show ?case by simp
next
  case (Cons e es)
  then obtain r d1 where r: "client_connect_server g e d = Some (r, d1)" by (auto simp: bind_eq_Some_conv)
  then have c: "link_held d1" "r = SUCCESS \<longrightarrow> 0 < g_sockfd_client d1" "r = SUCCESS \<or> r = FAILURE"
    using client_connect_held Cons.prems(2-4) by fastforce+
  show ?case
  proof (cases "r = FAILURE")
    case True
    let ?d = "emit (EvSleep CLIENT_RECONNECT_DURATION) (drop_link d1)"
    have "link_held ?d" "g_sockfd_client ?d \<le> 0" using drop_link_held [OF c(1)] by (simp_all add: link_held_def)
    with Cons.IH [of ?d] Cons.prems r True show ?thesis by simp
  next
    case False
    with c r Cons.prems(1) show ?thesis by auto
  qed
qed

lemma client_reconnect_held:
  assumes "client_reconnect g es d = Some (b, d')" "link_held d" "list_all fresh_conn_env es"
  shows "link_held d' \<and> (b \<longrightarrow> 0 < g_sockfd_client d')"
  using assms reconnect_loop_held drop_link_held [OF assms(2)] by (simp add: client_reconnect_def led_ctrl_held)

section \<open>Lemmas: the heartbeat\<close>

text \<open>Turns in which the server is silent and the counter stays within the limit.\<close>

definition tick :: "dev \<Rightarrow> dev" where
  "tick d = emit (EvSleep 1) (d\<lparr>heartbeat_timeout := heartbeat_timeout d + 1\<rparr>)"

lemma silent_turn:
  assumes "g_reconnect_flag d \<noteq> RECONNECT_ON" "g_reconnect_flag d \<noteq> HEARTBEAT_OFFLINE" "0 < g_sockfd_client d" "t_select t \<le> 0"
    "unat (heartbeat_timeout d + 1) \<le> unat (heartbeat_s d)"
  shows "client_turn g t d = Some (True, tick d)"
  using assms by (simp add: client_turn_def client_serve_def tick_def not_less)

lemma tick_pow:
  "(tick ^^ n) d = d\<lparr>heartbeat_timeout := heartbeat_timeout d + of_nat n, trace := trace d @ replicate n (EvSleep 1)\<rparr>"
  by (induction n) (simp_all add: tick_def emit_def algebra_simps replicate_append_same)

lemma silent_run:
  assumes "g_reconnect_flag d \<noteq> RECONNECT_ON" "g_reconnect_flag d \<noteq> HEARTBEAT_OFFLINE" "0 < g_sockfd_client d"
    "\<forall>t \<in> set ts. t_select t \<le> 0" "unat (heartbeat_timeout d) + length ts \<le> unat (heartbeat_s d)"
  shows "client_run g ts d = Some (True, (tick ^^ length ts) d)"
  using assms
proof (induction ts arbitrary: d)
  case (Cons t ts)
  have "unat (heartbeat_s d) < 256" using unsigned_less [of "heartbeat_s d"] by simp
  then have u: "unat (heartbeat_timeout d + 1) = unat (heartbeat_timeout d) + 1"
    using Cons.prems(5) by (simp add: unat_word_ariths)
  then have "client_turn g t d = Some (True, tick d)" using Cons.prems by (intro silent_turn) auto
  moreover have "client_run g ts (tick d) = Some (True, (tick ^^ length ts) (tick d))"
    using Cons.prems u by (intro Cons.IH) (simp_all add: tick_def)
  ultimately show ?case by (simp add: funpow_swap1)
qed simp

text \<open>A connection that can be made, to a server configured by its address.\<close>

definition reachable_env :: "conn_env \<Rightarrow> bool" where
  "reachable_env e \<longleftrightarrow> 0 < c_fd e \<and> c_fcntl e \<and> \<not> connect_failed e"

lemma strcpy_self: "cstring a = Some s \<Longrightarrow> strcpy a a = Some a"
  using cstring_SomeD [of a s] by (auto simp: strcpy_def wrs_def)

lemma dns_resolution_address:
  assumes "cstring (dns_str (con_server (g_conf_info d))) = Some s" "is_dotted_quad s" "g s = Some w"
  shows "dns_resolution g q (dns_str (con_server (g_conf_info d))) d = Some (DNS_OK, set_server (\<lambda>c. c\<lparr>server_ip := w\<rparr>) d)"
proof -
  have "ip_check (dns_str (con_server (g_conf_info d))) = Some 1" using ip_check_iff [OF assms(1)] assms(2) by simp
  then show ?thesis using assms strcpy_self [OF assms(1)] str2ip_ip_text [of w "[]"]
    by (simp add: dns_resolution_def set_server_def)
qed

lemma client_connect_reachable:
  assumes "reachable_env e" "cstring (dns_str (con_server (g_conf_info d))) = Some s" "is_dotted_quad s" "g s = Some w"
  shows "client_connect_server g e d = Some (SUCCESS,
    emit (EvConnect (c_fd e) w (server_port (con_server (g_conf_info d))))
      (set_server (\<lambda>c. c\<lparr>server_ip := w\<rparr>) (emit (EvSocket (c_fd e)) (d\<lparr>g_sockfd_client := c_fd e\<rparr>))))"
  using assms dns_resolution_address [of "emit (EvSocket (c_fd e)) (d\<lparr>g_sockfd_client := c_fd e\<rparr>)" s g w "c_dns e"]
  by (simp add: client_connect_server_def reachable_env_def Let_def set_server_def)

text \<open>The turn in which the counter passes the limit: the old connection goes, a new one is made.\<close>

lemma timeout_turn:
  assumes "unat (heartbeat_timeout d + 1) > unat (heartbeat_s d)" "0 < g_sockfd_client d" "t_select t \<le> 0"
    "t_attempts t = e # es" "reachable_env e"
    "cstring (dns_str (con_server (g_conf_info d))) = Some s" "is_dotted_quad s" "g s = Some w"
  shows "\<exists>d' l. client_turn g t d = Some (True, d') \<and> g_sockfd_client d' = c_fd e \<and> g_reconnect_flag d' = RECONNECT_OFF \<and>
    heartbeat_timeout d' = 0 \<and> heartbeat_s d' = HEARTBEAT_TIMEOUT \<and>
    trace d' = trace d @ EvSleep 1 # EvClose (g_sockfd_client d) # l @
      [EvSocket (c_fd e), EvConnect (c_fd e) w (server_port (con_server (g_conf_info d)))]"
proof -
  let ?d1 = "emit (EvSleep 1) (set_heartbeat HEARTBEAT_OFFLINE HEARTBEAT_TIMEOUT (d\<lparr>heartbeat_timeout := heartbeat_timeout d + 1\<rparr>))"
  let ?d2 = "led_ctrl LED_D3_ALARM_SERVER_STATUS LED_OFF (drop_link ?d1)"
  let ?d3 = "emit (EvConnect (c_fd e) w (server_port (con_server (g_conf_info d))))
      (set_server (\<lambda>c. c\<lparr>server_ip := w\<rparr>) (emit (EvSocket (c_fd e)) (?d2\<lparr>g_sockfd_client := c_fd e\<rparr>)))"
  obtain l where d2: "?d2 = (drop_link ?d1)\<lparr>trace := trace (drop_link ?d1) @ l\<rparr>"
    using only_trace_led [of "drop_link ?d1" LED_D3_ALARM_SERVER_STATUS LED_OFF] unfolding only_trace_def by blast
  have c2: "g_conf_info ?d2 = g_conf_info d" unfolding d2 by (simp add: drop_link_def set_heartbeat_def)
  have "client_connect_server g e ?d2 = Some (SUCCESS, ?d3)"
    using client_connect_reachable [of e ?d2 s g w] assms(5-8) unfolding c2 by blast
  then have "client_reconnect g (t_attempts t) ?d1 = Some (True, ?d3)"
    by (simp add: client_reconnect_def assms(4))
  then have "client_turn g t d = Some (True, ?d3\<lparr>g_reconnect_flag := RECONNECT_OFF\<rparr>)"
    using assms(1,3,5) unfolding client_turn_def Let_def
    by (simp add: set_heartbeat_def client_serve_def reachable_env_def)
  moreover have "heartbeat_timeout ?d2 = 0" "heartbeat_s ?d2 = HEARTBEAT_TIMEOUT"
    "trace ?d2 = trace d @ EvSleep 1 # EvClose (g_sockfd_client d) # l"
    using assms(2) unfolding d2 by (simp_all add: drop_link_def set_heartbeat_def)
  ultimately show ?thesis
    by (intro exI [of _ "?d3\<lparr>g_reconnect_flag := RECONNECT_OFF\<rparr>"] exI [of _ l]) simp
qed

lemma client_run_snoc:
  "client_run g (ts @ [t]) d = do { (b, d) \<leftarrow> client_run g ts d; if b then client_run g [t] d else Some (False, d) }"
proof (induction ts arbitrary: d)
  case (Cons t' ts)
  then show ?case by (auto intro!: Option.bind_cong split: prod.splits)
qed simp

end
