(* ===== verification/Link_Facts.thy ===== *)
theory Link_Facts
  imports Link Client_Facts
begin

text \<open>
  No command of the alarm server opens or closes a descriptor: every operation behind
  \<open>client_dispatch\<close> keeps \<open>linked\<close>, and with it a whole turn of the client thread.
\<close>

lemma linked_emit [simp]:
  "linked fd (emit (EvWrite x b) d) = linked fd d" "linked fd (emit (EvUart x u) d) = linked fd d"
  "linked fd (emit (EvGpio n b) d) = linked fd d" "linked fd (emit (EvSleep n) d) = linked fd d"
  "linked fd (emit (EvSystem b) d) = linked fd d"
  by (simp_all add: linked_def)

lemma linked_eqI: "g_sockfd_client d' = g_sockfd_client d \<Longrightarrow> trace d' = trace d \<Longrightarrow> linked fd d' = linked fd d"
  by (simp add: linked_def)

lemma linked_upd [simp]:
  "linked fd (d\<lparr>cbuf_send := b\<rparr>) = linked fd d" "linked fd (d\<lparr>cbuf := b\<rparr>) = linked fd d"
  "linked fd (d\<lparr>g_conf_info := c\<rparr>) = linked fd d" "linked fd (d\<lparr>get_com_attr := a\<rparr>) = linked fd d"
  "linked fd (d\<lparr>get_com_attr_max := as\<rparr>) = linked fd d" "linked fd (d\<lparr>set_com_attr_max := as\<rparr>) = linked fd d"
  "linked fd (d\<lparr>heartbeat_s := t\<rparr>) = linked fd d" "linked fd (d\<lparr>heartbeat_timeout := w\<rparr>) = linked fd d"
  "linked fd (d\<lparr>g_uart_send_cnt := w\<rparr>) = linked fd d" "linked fd (d\<lparr>g_reconnect_flag := f\<rparr>) = linked fd d"
  "linked fd (d\<lparr>g_sockfd_client_status := st\<rparr>) = linked fd d" "linked fd (d\<lparr>tty_script := sc\<rparr>) = linked fd d"
  "linked fd (config_save d) = linked fd d" "linked fd (com_para_set x cc d) = linked fd d"
proof -
  obtain t y where "com_para_set x cc d = d\<lparr>tty_attr := t, rs_type := y\<rparr>" using com_para_set_frame by blast
  then show "linked fd (com_para_set x cc d) = linked fd d" by (simp add: linked_def)
qed (simp_all add: linked_def config_save_def)

lemma linked_gpio [simp]: "linked fd (snd (set_gpio n v d)) = linked fd d" "linked fd (led_ctrl l v d) = linked fd d"
  by (simp_all add: led_ctrl_def set_gpio_def)

lemma linked_heartbeat [simp]: "linked fd (set_heartbeat s t d) = linked fd d"
  by (simp add: set_heartbeat_def)

lemma linked_write: "client_write n d = Some d' \<Longrightarrow> linked fd d' = linked fd d"
  by (auto simp: client_write_def bind_eq_Some_conv)

lemma linked_reply:
  "reply d r = Some d' \<Longrightarrow> linked fd d' = linked fd d"
  "reply_dev r1 = Some d' \<Longrightarrow> (\<And>n b d1. r1 = Some (n, b, d1) \<Longrightarrow> linked fd d1) \<Longrightarrow> linked fd d'"
  by (auto simp: reply_def reply_dev_def bind_eq_Some_conv dest!: linked_write)

lemma linked_upds:
  "upd_sensor i s d = Some d' \<Longrightarrow> linked fd d' = linked fd d" "upd_com j c d = Some d' \<Longrightarrow> linked fd d' = linked fd d"
  "com_set c d = Some d' \<Longrightarrow> linked fd d' = linked fd d"
  by (auto simp: upd_sensor_def upd_com_def com_set_def bind_eq_Some_conv)

lemma linked_set_attr: "set_alarmin_device_attr b d = Some d' \<Longrightarrow> linked fd d \<Longrightarrow> linked fd d'"
  by (auto simp: set_alarmin_device_attr_def bind_eq_Some_conv dest!: linked_upds)

lemma linked_checks:
  "check_for_set_heartbeat b num d = Some (r, d') \<Longrightarrow> linked fd d \<Longrightarrow> linked fd d'"
  "check_for_query_uart_sendbuf b num d = Some (r, d') \<Longrightarrow> linked fd d \<Longrightarrow> linked fd d'"
  "check_for_uart_send_data b num d = Some (r, d') \<Longrightarrow> linked fd d \<Longrightarrow> linked fd d'"
  "check_for_set_uart_recv_attr b num d = Some (r, d') \<Longrightarrow> linked fd d \<Longrightarrow> linked fd d'"
  by (auto simp: check_for_set_heartbeat_def check_for_query_uart_sendbuf_def check_for_uart_send_data_def
      check_for_set_uart_recv_attr_def bind_eq_Some_conv Let_def split: if_splits dest: linked_upds)

lemma linked_SendNet:
  assumes "SendNetDataToCom n data d = Some (r, d')"
  shows "linked fd d' = linked fd d"
proof -
  have "\<exists>x out sc. d' = emit (EvUart x out) (d\<lparr>tty_script := sc\<rparr>) \<or> d' = d"
    using assms by (cases "writen (tty_script d) data"; cases "writen_rs485 (tty_script d) data")
      (auto simp: SendNetDataToCom_def bind_eq_Some_conv split: if_splits)
  then show ?thesis by auto
qed

lemma bind_SomeE: "x \<bind> f = Some r \<Longrightarrow> (\<And>y. x = Some y \<Longrightarrow> f y = Some r \<Longrightarrow> P) \<Longrightarrow> P"
  by (auto simp: bind_eq_Some_conv)

lemma linked_commit: "commit_uart j q c s d b = Some (r, d') \<Longrightarrow> linked fd d \<Longrightarrow> linked fd d'"
  by (auto simp: commit_uart_def bind_eq_Some_conv split: if_splits dest!: linked_upds)

lemma linked_elem: "set_uart_elem cb j s d b = Some (r, d') \<Longrightarrow> linked fd d \<Longrightarrow> linked fd d'"
  unfolding set_uart_elem_def Let_def
  by (elim bind_SomeE if_Some_cases) (auto dest: linked_commit)

lemma linked_loop: "set_uart_loop cb j n s d b = Some (r, d') \<Longrightarrow> linked fd d \<Longrightarrow> linked fd d'"
proof (induction cb j n s d b arbitrary: r d' rule: set_uart_loop.induct)
  case (2 cb j n s d b)
  then obtain r1 d1 where r1: "set_uart_elem cb j s d b = Some (r1, d1)"
    and k: "(case r1 of None \<Rightarrow> Some (None, d1) | Some (s, b) \<Rightarrow> set_uart_loop cb (Suc j) n s d1 b) = Some (r, d')"
    by (auto simp: bind_eq_Some_conv)
  have "linked fd d1" using linked_elem [OF r1 "2.prems"(2)] .
  then show ?case using k "2.IH" [OF r1 refl] by (cases r1) auto
qed simp

lemma linked_makers:
  "make_ack_set_uart_attr d cb b = Some (n, b', d') \<Longrightarrow> linked fd d \<Longrightarrow> linked fd d'"
  "make_ack_get_uart_attr d cb b = Some (n, b', d') \<Longrightarrow> linked fd d \<Longrightarrow> linked fd d'"
  "make_ack_uart_send_data d b = Some (n, b', d') \<Longrightarrow> linked fd d \<Longrightarrow> linked fd d'"
  by (auto simp: make_ack_set_uart_attr_def make_ack_get_uart_attr_def make_ack_uart_send_data_def uart_send_data_def
      bind_eq_Some_conv Let_def split: if_splits option.splits dest!: linked_loop linked_SendNet)

lemma linked_set_io_out:
  assumes "set_io_out u c d = Some d'" "linked fd d"
  shows "linked fd d'"
proof -
  let ?P = "\<lambda>(s, d). linked fd d"
  have "?P x'" if "(\<lambda>(s, d). do {
           q \<leftarrow> rd c (5 + 3 * j); qs \<leftarrow> wr (seq_num s) j q;
           a \<leftarrow> rd c (6 + 3 * j); as \<leftarrow> wr (sen_attr s) j a;
           let s = s\<lparr>seq_num := qs, sen_attr := as\<rparr>;
           case output_line q of None \<Rightarrow> Some (s, d)
           | Some line \<Rightarrow> do { v \<leftarrow> rd c (7 + 3 * j); Some (s, snd (set_gpio line (unat v) d)) } }) x = Some x'"
    "?P x" for j x x'
    using that by (auto simp: bind_eq_Some_conv Let_def split: option.splits)
  note step = for_from_inv [where P = ?P, OF _ _ this]
  show ?thesis using assms
    by (auto simp: set_io_out_def bind_eq_Some_conv Let_def split: if_splits dest!: step linked_upds)
qed

lemma linked_set_temp: "set_temp u c d = Some d' \<Longrightarrow> linked fd d \<Longrightarrow> linked fd d'"
  by (auto simp: set_temp_def bind_eq_Some_conv Let_def split: if_splits dest!: linked_upds)

lemma linked_dispatch:
  assumes "client_dispatch u num d = Some d'" "linked fd d"
  shows "linked fd d'"
proof -
  note fin = checked_ok [where P = "linked fd", OF _ assms(2)]
  have leafs:
    "do { d \<leftarrow> set_alarmin_device_attr b d; reply d (make_ack_set_device_attr d (cbuf_send d0)) } = Some d' \<Longrightarrow> linked fd d'"
    "do { (r, d) \<leftarrow> check_for_set_heartbeat b num d;
       checked (Some r) d (do {
         d \<leftarrow> reply d (make_ack_set_heartbeat (heartbeat_s d) (cbuf_send d0));
         b4 \<leftarrow> rd b 4;
         Some (led_ctrl LED_D3_ALARM_SERVER_STATUS LED_ON (set_heartbeat HEARTBEAT_ONLINE b4 d)) }) } = Some d' \<Longrightarrow> linked fd d'"
    "do { (r, d) \<leftarrow> check_for_query_uart_sendbuf b num d;
       checked (Some r) d (reply d (make_ack_query_uart_sendbuf d (cbuf_send d0))) } = Some d' \<Longrightarrow> linked fd d'"
    "do { (r, d) \<leftarrow> check_for_uart_send_data b num d;
       checked (Some r) d (reply_dev (make_ack_uart_send_data d (cbuf_send d0))) } = Some d' \<Longrightarrow> linked fd d'"
    "do { (_, d) \<leftarrow> check_for_set_uart_recv_attr b num d; Some d } = Some d' \<Longrightarrow> linked fd d'" for b d0
    using assms(2)
    by (auto simp: bind_eq_Some_conv dest!: linked_set_attr linked_checks elim!: checked_ok [where P = "linked fd"]
        dest!: linked_reply(1) dest: linked_makers elim: linked_reply(2))
  show ?thesis
    using assms(1) unfolding client_dispatch_def Let_def
    apply -
    apply (erule bind_SomeE)
    apply (elim if_Some_cases)
    apply ((erule fin)?, ((erule linked_reply(1) [THEN iffD2], rule assms) | (erule linked_reply(2), erule linked_makers, rule assms) | erule leafs |
        (erule linked_set_io_out, rule assms) | (erule linked_set_temp, rule assms) | (use assms(2) in simp)))+
    done
qed

section \<open>A turn of the client thread\<close>

lemma linked_serve: "client_serve t d = Some d' \<Longrightarrow> linked fd d \<Longrightarrow> linked fd d'"
  unfolding client_serve_def Let_def
  by (auto simp: bind_eq_Some_conv split: if_splits option.splits dest: linked_dispatch)

text \<open>Before \<open>client_serve\<close>: the counter, the sleep, and a reconnection when one is due.\<close>

lemma client_turn_linked:
  assumes "client_turn g t d = Some (b, d')" "link_held d" "list_all fresh_conn_env (t_attempts t)"
  shows "link_held d' \<and> (b \<longrightarrow> 0 < g_sockfd_client d' \<or> g_reconnect_flag d' = RECONNECT_ON)"
proof -
  let ?fd = "g_sockfd_client d"
  let ?d1 = "d\<lparr>heartbeat_timeout := heartbeat_timeout d + 1\<rparr>"
  let ?d2 = "emit (EvSleep 1) (if unat (heartbeat_s ?d1) < unat (heartbeat_timeout ?d1) then set_heartbeat HEARTBEAT_OFFLINE HEARTBEAT_TIMEOUT ?d1 else ?d1)"
  have "linked ?fd ?d2" using assms(2) by (simp add: link_held_linked)
  then have l2: "link_held ?d2" by (auto simp: link_held_linked linked_def)
  obtain ok d3 where r: "(if g_reconnect_flag ?d2 = RECONNECT_ON \<or> g_reconnect_flag ?d2 = HEARTBEAT_OFFLINE
       then do { (ok, d) \<leftarrow> client_reconnect g (t_attempts t) ?d2; Some (ok, if ok then d\<lparr>g_reconnect_flag := RECONNECT_OFF\<rparr> else d) }
       else Some (True, ?d2)) = Some (ok, d3)"
    and k: "(if \<not> ok then Some (False, d3)
     else if g_sockfd_client d3 \<le> 0 then Some (True, d3\<lparr>g_reconnect_flag := RECONNECT_ON\<rparr>)
     else do { d \<leftarrow> client_serve t d3; Some (True, d) }) = Some (b, d')"
    using assms(1) unfolding client_turn_def Let_def by (elim bind_SomeE) (auto split: prod.splits)
  have l3: "link_held d3"
    using r l2 client_reconnect_held [OF _ l2 assms(3)]
    by (fastforce simp: link_held_linked bind_eq_Some_conv split: if_splits)
  show ?thesis
  proof (cases "ok \<and> 0 < g_sockfd_client d3")
    case True
    then obtain d4 where s: "client_serve t d3 = Some d4" "b" "d' = d4" using k by (auto simp: bind_eq_Some_conv)
    then have "linked (g_sockfd_client d3) d4" using linked_serve l3 by (simp add: link_held_linked)
    then have "link_held d4" "g_sockfd_client d4 = g_sockfd_client d3" by (auto simp: linked_def link_held_def)
    with s True show ?thesis by simp
  next
    case False
    with k l3 show ?thesis by (auto simp: link_held_linked split: if_splits)
  qed
qed

text \<open>The states between the turns of the client thread.\<close>

inductive link_reach :: "(bytes \<Rightarrow> u32 option) \<Rightarrow> dev \<Rightarrow> bool" for g where
  link_start: "g_sockfd_client d = -1 \<Longrightarrow> trace d = [] \<Longrightarrow> link_reach g d"
| link_turn: "link_reach g d \<Longrightarrow> list_all fresh_conn_env (t_attempts t) \<Longrightarrow> client_turn g t d = Some (True, d') \<Longrightarrow> link_reach g d'"

lemma link_reach_held: "link_reach g d \<Longrightarrow> link_held d"
  by (induction rule: link_reach.induct) (auto simp: link_held_def dest: client_turn_linked)

end
