(* ===== verification/Dns_Props.thy ===== *)
theory Dns_Props
  imports Dns Examples
begin

text \<open>The properties of name resolution.\<close>

text \<open>C19: \<open>ip_check\<close> accepts a text exactly if it is four groups of digits with dots between them, none of
  them empty or above 255. \<open>sys_str2ip\<close> reads the four bytes of the address from such a text, and
  stays within what C defines.\<close>

theorem address_check_is_exact:
  assumes "cstring ip = Some s"
  shows "(ip_check ip = Some 1 \<longleftrightarrow> is_dotted_quad s) \<and> ip_check ip \<in> {Some (-1), Some 0, Some 1} \<and>
    (ip_check ip = Some 1 \<longrightarrow> (\<exists>w. sys_str2ip ip = Some w \<and>
       map (\<lambda>i. unat (ip_byte w i)) [0, 1, 2, 3] = map (\<lambda>l. atoi_digits l 0) (labels s)))"
proof -
  obtain r where ip: "ip = s @ 0 # r" "0 \<notin> set s" using cstring_SomeD [OF assms] by blast
  show ?thesis using ip_check_iff [OF assms] ip_check_total [OF ip(2), of r 0 0 0 0] dotted_quad_value [of s r]
    by (auto simp: ip(1) ip_check_def)
qed

theorem address_check_is_exact_witness:
  "ip_check (bytes_of ''192.168.01.7'' @ [0]) = Some 1 \<and> ip_check (bytes_of ''192.168.1'' @ [0]) \<noteq> Some 1 \<and>
   ip_check (bytes_of ''1.2.3.256'' @ [0]) \<noteq> Some 1"
proof -
  have c: "ip_check (s @ [0]) = Some 1 \<longleftrightarrow> is_dotted_quad s" if "0 \<notin> set s" for s
    using address_check_is_exact [OF cstring_append [OF that, of "[]"]] by blast
  show ?thesis using c [of "bytes_of ''192.168.01.7''"] c [of "bytes_of ''192.168.1''"] c [of "bytes_of ''1.2.3.256''"]
    by (simp add: bytes_of_def is_dotted_quad_def is_octet_def is_digit_def word_le_nat_alt)
qed

text \<open>C20: a server given by name is looked up by one query to the first configured name server on a
  descriptor that is closed again; the query's question is the name with its labels, class and type
  IN A. The address of the reply's first address record for the name, or for the alias the records
  before it lead to, becomes the address of the server, and nothing else changes.\<close>

theorem server_name_resolves:
  assumes "ok_dev d" "ok_dns_env q" "cstring (dns_str (con_server (g_conf_info d))) = Some s" "s \<noteq> []" "\<not> is_dotted_quad s"
    and "\<forall>l \<in> set (labels s). l \<noteq> [] \<and> length l < 64"
    and "0 < q_select q" "q_recv q = Some (h @ concat (map enc_rr rs))" "length h = length s + 18"
    and "length (h @ concat (map enc_rr rs)) \<le> 1024" "\<forall>r \<in> set rs. ok_rr r" "pick rs (length s + 18) 12 = Some (enc32 w)"
  shows "\<exists>packet. dns_resolution gethostbyname q (dns_str (con_server (g_conf_info d))) d = Some (DNS_OK,
      (set_server (\<lambda>c. c\<lparr>server_ip := w\<rparr>) d)\<lparr>trace := trace d @ [EvSocket (q_fd q),
         EvSendTo (q_fd q) (dns (con_net (g_conf_info d)) ! 0) SERVER_PORT_DNS packet, EvClose (q_fd q)]\<rparr>) \<and>
    take 12 packet = [0, 0, 1, 0, 0, 1, 0, 0, 0, 0, 0, 0] \<and> dec_name (drop 12 packet) = Some (labels s, [0, 1, 0, 1])"
proof -
  let ?ip = "dns (con_net (g_conf_info d)) ! 0"
  obtain a b c e where v: "enc32 w = [a, b, c, e]" by (simp add: enc32_def)
  have q: "quad_text a b c e = ip_text w" using quad_text_ip [OF v] .
  have no: "\<exists>x. ip_check (dns_str (con_server (g_conf_info d))) = Some x \<and> x \<noteq> 1"
  proof -
    obtain r where r: "dns_str (con_server (g_conf_info d)) = s @ 0 # r" "0 \<notin> set s" using cstring_SomeD [OF assms(3)] by blast
    show ?thesis using ip_check_total [OF r(2), of r 0 0 0 0] ip_check_iff [OF assms(3)] assms(5)
      by (auto simp: ip_check_def r(1))
  qed
  have dns: "rd (dns (con_net (g_conf_info d))) 0 = Some ?ip"
    using assms(1) by (simp add: ok_dev_def ok_CONFI_DATA_def ok_CONFIG_NET_def rd_in)
  have ask: "its_dns q (dns_str (con_server (g_conf_info d))) ?ip (zeros 16) d = Some (DNS_OK,
      ip_text w @ [0] @ drop (length (ip_text w) + 1) (zeros 16), asked q ?ip s d)"
    using its_dns_reply [OF assms(2,3) _ assms(7-11), of "zeros 16" ?ip d] assms(9,10,12) by (simp add: v q)
  have "dns_resolution gethostbyname q (dns_str (con_server (g_conf_info d))) d
      = Some (DNS_OK, set_server (\<lambda>c. c\<lparr>server_ip := w\<rparr>) (asked q ?ip s d))"
    using no assms(3,4) ask dns str2ip_ip_text [of w] by (auto simp: dns_resolution_def)
  moreover have "dec_name (drop 12 (query_packet s)) = Some (labels s, [0, 1, 0, 1])"
    using dec_name_qname [of "labels s" "[0, 1, 0, 1]"] assms(6) by (fastforce simp: query_packet_def)
  ultimately show ?thesis
    by (intro exI [of _ "query_packet s"]) (simp add: set_server_def asked_def query_packet_def)
qed

definition demo_dns :: dns_env where
  "demo_dns = \<lparr>q_fd = 6, q_select = 1, q_recv = Some (zeros 22 @ concat (map enc_rr
     [\<lparr>rr_ptr = 12, rr_type = 5, rr_class = 1, rr_ttl = 60, rr_data = [1, 120, 0xc0, 14]\<rparr>,
      \<lparr>rr_ptr = 34, rr_type = 1, rr_class = 1, rr_ttl = 60, rr_data = enc32 0x0400a8c0\<rparr>])),
     q_buf = zeros 1024, q_name = zeros 1024, q_msg = zeros 1024\<rparr>"

definition named :: dev where
  "named = set_server (\<lambda>c. c\<lparr>dns_str := pad 50 (bytes_of ''a.bc'')\<rparr>) (demo [])"

lemma ok_named: "ok_dev named" "cstring (dns_str (con_server (g_conf_info named))) = Some (bytes_of ''a.bc'')"
  "dns (con_net (g_conf_info named)) = [0x0101a8c0, 0]"
proof -
  show "ok_dev named" using ok_demo [of "[]"]
    by (simp add: named_def set_server_def ok_dev_def ok_CONFI_DATA_def ok_CONFIG_SERVER_def bytes_of_def)
  show "dns (con_net (g_conf_info named)) = [0x0101a8c0, 0]" by (simp add: named_def set_server_def demo_conf_def)
  have "pad 50 (bytes_of ''a.bc'') = bytes_of ''a.bc'' @ 0 # zeros 45"
    by (simp add: pad_def zeros_def bytes_of_def flip: replicate_Suc)
  then show "cstring (dns_str (con_server (g_conf_info named))) = Some (bytes_of ''a.bc'')"
    using cstring_append [of "bytes_of ''a.bc''" "zeros 45"] by (simp add: named_def set_server_def bytes_of_def)
qed

theorem server_name_resolves_witness:
  "\<exists>d' packet. dns_resolution (\<lambda>_. None) demo_dns (dns_str (con_server (g_conf_info named))) named = Some (DNS_OK, d') \<and>
     server_ip (con_server (g_conf_info d')) = 0x0400a8c0 \<and> trace d' = [EvSocket 6, EvSendTo 6 0x0101a8c0 53 packet, EvClose 6]"
proof -
  let ?rs = "[\<lparr>rr_ptr = 12, rr_type = 5, rr_class = 1, rr_ttl = 60, rr_data = [1, 120, 0xc0, 14]\<rparr>,
      \<lparr>rr_ptr = 34, rr_type = 1, rr_class = 1, rr_ttl = 60, rr_data = enc32 0x0400a8c0\<rparr>]"
  have ip: "dns (con_net demo_conf) ! 0 = 0x0101a8c0" by (simp add: demo_conf_def)
  have "ok_dns_env demo_dns" by (simp add: ok_dns_env_def demo_dns_def)
  from server_name_resolves [OF ok_named(1) this ok_named(2), where h = "zeros 22" and rs = ?rs and w = "0x0400a8c0" and gethostbyname = "\<lambda>_. None"]
  show ?thesis
    by (auto simp: demo_dns_def bytes_of_def is_dotted_quad_def enc_rr_def enc32_def ok_rr_def ok_named(3) SERVER_PORT_DNS_def set_server_def named_def ip)
qed


definition other_rr :: rr where
  "other_rr = \<lparr>rr_ptr = 12, rr_type = 28, rr_class = 1, rr_ttl = 60, rr_data = []\<rparr>"

lemma pick_other: "pick (replicate n other_rr) pos cnt = None"
  by (induction n arbitrary: pos cnt) (simp_all add: other_rr_def)

lemma length_other: "length (concat (map enc_rr (replicate n other_rr))) = n * 12"
  by (induction n) (simp_all add: other_rr_def enc_rr_def enc32_def)


text \<open>The demonstration device is configured with its server's address as text.\<close>

lemma demo_server: "cstring (dns_str (con_server demo_conf)) = Some (bytes_of SERVER_DNS)" "is_dotted_quad (bytes_of SERVER_DNS)"
proof -
  have "dns_str (con_server demo_conf) = bytes_of SERVER_DNS @ 0 # zeros 36"
    by (simp add: demo_conf_def pad_def zeros_def bytes_of_def SERVER_DNS_def flip: replicate_Suc)
  then show "cstring (dns_str (con_server demo_conf)) = Some (bytes_of SERVER_DNS)"
    by (simp add: cstring_append bytes_of_def SERVER_DNS_def)
  show "is_dotted_quad (bytes_of SERVER_DNS)"
    by (simp add: bytes_of_def SERVER_DNS_def is_dotted_quad_def is_octet_def is_digit_def word_le_nat_alt)
qed

end
