(* ===== verification/Link_Props.thy ===== *)
theory Link_Props
  imports Link_Facts Dns_Props
begin

text \<open>The properties of the connection to the alarm server.\<close>

text \<open>C17: between any two turns of the client thread, whatever fails while connecting, at most one descriptor
  is open, the one in \<open>g_sockfd_client\<close>; once a turn has been made a missing connection is marked for
  reconnecting.\<close>

theorem client_holds_one_descriptor:
  assumes "link_reach g d" "list_all fresh_conn_env (t_attempts t)" "client_turn g t d = Some (True, d')"
  shows "held (trace d') = (if 0 < g_sockfd_client d' then {g_sockfd_client d'} else {}) \<and>
    (g_sockfd_client d' \<le> 0 \<longrightarrow> g_reconnect_flag d' = RECONNECT_ON)"
  using client_turn_linked [OF assms(3) link_reach_held [OF assms(1)] assms(2)] by (auto simp: link_held_def)

definition demo_conn_env :: conn_env where
  "demo_conn_env = \<lparr>c_fd = 8, c_dns = demo_dns, c_fcntl = True, c_connect = InProgress, c_poll = 1, c_hup = False, c_soerr = False\<rparr>"

lemma reachable_demo: "reachable_env demo_conn_env" "fresh_conn_env demo_conn_env" "c_fd demo_conn_env = 8"
  by (simp_all add: reachable_env_def connect_failed_def fresh_conn_env_def demo_conn_env_def demo_dns_def)


definition silent :: turn_env where
  "silent = \<lparr>t_attempts = [demo_conn_env], t_select = 0, t_read = None, t_uninit = demo_uninit\<rparr>"


theorem client_holds_one_descriptor_witness:
  "\<exists>d'. client_turn (\<lambda>_. Some 0x6c01a8c0) silent ((demo [])\<lparr>g_sockfd_client := -1\<rparr>) = Some (True, d') \<and>
     held (trace d') = {} \<and> g_reconnect_flag d' = RECONNECT_ON"
proof -
  let ?d = "(demo [])\<lparr>g_sockfd_client := -1\<rparr>"
  have f: "heartbeat_s (demo []) = 10" "heartbeat_timeout (demo []) = 0" "g_reconnect_flag (demo []) = RECONNECT_OFF"
    by (simp_all add: demo_def)
  then obtain d' where t: "client_turn (\<lambda>_. Some 0x6c01a8c0) silent ?d = Some (True, d')" "g_sockfd_client d' = -1"
    by (auto simp: client_turn_def)
  have "link_reach (\<lambda>_. Some 0x6c01a8c0) ?d" by (rule link_start) simp_all
  from client_holds_one_descriptor [OF this _ t(1)] t reachable_demo show ?thesis by (simp add: silent_def)
qed

end
