(* ===== verification/Sessions.thy ===== *)
theory Sessions
  imports Link_Facts
begin

text \<open>
  The session layer, \<open>nc600-2.0/src/mode.c\<close>, and the reader of a serial port, \<open>com_proc\<close> of
  \<open>com.c\<close>: each of the six sessions of a port is a thread that keeps a TCP client, a TCP server or
  a UDP socket open as its configuration says and forwards what arrives to the port; what the port
  sends goes to every session.
\<close>

section \<open>Sockets\<close>

text \<open>The results of the socket calls of one opening.\<close>

record sock_env =
  so_fd :: int
  so_reuse :: bool
  so_rcvbuf :: bool
  so_connect :: bool
  so_bind :: bool
  so_listen :: bool

definition got_socket :: "int \<Rightarrow> dev \<Rightarrow> dev" where
  "got_socket fd d = (if 0 \<le> fd then emit (EvSocket fd) d else d)"

text \<open>A socket whose receive buffer cannot be set is not closed.\<close>

definition socket_cli_init :: "sock_env \<Rightarrow> u32 \<Rightarrow> u32 \<Rightarrow> dev \<Rightarrow> int \<times> dev" where
  "socket_cli_init e ip port d = (let fd = so_fd e; d = got_socket fd d in
     if fd < 0 then (fd, d)
     else if \<not> so_rcvbuf e then (-1, d)
     else let d = emit (EvConnect fd ip (ucast port)) d
          in if so_connect e then (fd, d) else (-1, emit (EvClose fd) d))"

definition socket_init :: "sock_env \<Rightarrow> u32 \<Rightarrow> u8 \<Rightarrow> dev \<Rightarrow> int \<times> dev" where
  "socket_init e port max_conn d = (let fd = so_fd e; d = got_socket fd d in
     if fd \<le> 0 then (-1, d)
     else if \<not> so_reuse e \<or> \<not> so_rcvbuf e then (-1, d)
     else let d = emit (EvBind fd (ucast port)) d in
       if \<not> so_bind e then (-1, emit (EvClose fd) d)
       else let d = emit (EvListen fd (ucast max_conn)) d
            in if \<not> so_listen e then (-1, emit (EvClose fd) d) else (fd, d))"

text \<open>Errors of \<open>socket\<close> and \<open>bind\<close> are printed and ignored.\<close>

definition init_udp_socket :: "sock_env \<Rightarrow> u32 \<Rightarrow> dev \<Rightarrow> int \<times> dev" where
  "init_udp_socket e port d = (so_fd e, emit (EvBind (so_fd e) (ucast port)) (got_socket (so_fd e) d))"

section \<open>A session\<close>

definition MAX_SESSION :: nat where "MAX_SESSION = 6"
definition NET_RECV_BUF_MAX :: nat where "NET_RECV_BUF_MAX = 65536"
definition COM_RECV_BUF_MAX :: nat where "COM_RECV_BUF_MAX = 131072"

text \<open>\<open>MODECONFIG\<close>; the pointer \<open>session\<close> is the index of the session within \<open>con_mode[id]\<close>.\<close>

record MODECONFIG =
  md_id :: nat
  md_fd :: int
  sfd :: "int list"
  md_ses :: nat

definition md_mode :: "MODECONFIG \<Rightarrow> dev \<Rightarrow> CONFIG_MODE option" where
  "md_mode md d = rd (con_mode (g_conf_info d)) (md_id md)"

definition md_session :: "MODECONFIG \<Rightarrow> dev \<Rightarrow> CONFIG_SESSION option" where
  "md_session md d = do { m \<leftarrow> md_mode md d; rd (session m) (md_ses md) }"

text \<open>\<open>mode_init\<close>: the table of the sessions of both ports, all fields zero but these two.\<close>

definition mode_init :: "MODECONFIG list list" where
  "mode_init = map (\<lambda>i. map (\<lambda>j. \<lparr>md_id = i, md_fd = 0, sfd = replicate MAX_SESSION 0, md_ses = j\<rparr>) [0 ..< MAX_SESSION]) [0 ..< MAX_COM_PORT]"

section \<open>From the port to the network\<close>

fun send_each :: "int list \<Rightarrow> bytes \<Rightarrow> dev \<Rightarrow> dev" where
  "send_each [] data d = d"
| "send_each (f # fs) data d = send_each fs data (if f \<noteq> 0 then emit (EvWrite f data) d else d)"

definition send_session :: "MODECONFIG \<Rightarrow> bytes \<Rightarrow> dev \<Rightarrow> dev option" where
  "send_session md data d = do {
     s \<leftarrow> md_session md d;
     Some (if protocol s = tcp_ptl_code TCP_CLI then
             (if md_fd md \<noteq> 0 then emit (EvWrite (md_fd md) data) d else d)
           else if protocol s = tcp_ptl_code TCP_SRV then send_each (sfd md) data d
           else if protocol s = tcp_ptl_code TCP_UDP then
             (if md_fd md \<noteq> 0 then emit (EvSendTo (md_fd md) (ses_ip s) (ucast (dport s)) data) d else d)
           else d) }"

fun send_sessions :: "MODECONFIG list \<Rightarrow> bytes \<Rightarrow> dev \<Rightarrow> dev option" where
  "send_sessions [] data d = Some d"
| "send_sessions (md # mds) data d = do { d \<leftarrow> send_session md data d; send_sessions mds data d }"

definition SendComDataToNet :: "MODECONFIG list list \<Rightarrow> nat \<Rightarrow> bytes \<Rightarrow> dev \<Rightarrow> dev option" where
  "SendComDataToNet modes n data d = do { mds \<leftarrow> rd modes n; send_sessions mds data d }"

text \<open>
  One turn of \<open>com_proc\<close> for the port of \<open>con_com\<close>, whose number is \<open>n\<close>; \<open>r\<close> is what \<open>read\<close>
  returns, \<open>None\<close> for an error. In RS485 mode the turn holds the lock of the port's writers.
\<close>

definition com_turn :: "MODECONFIG list list \<Rightarrow> nat \<Rightarrow> bytes option \<Rightarrow> dev \<Rightarrow> dev option" where
  "com_turn modes n r d = do {
     _ \<leftarrow> com_fd n d;
     let data = (case r of None \<Rightarrow> [] | Some g \<Rightarrow> take COM_RECV_BUF_MAX g);
     if data = [] then Some d
     else if rs_type d = com_type_code RS232 then do {
       d \<leftarrow> SendComDataToNet modes (n - 1) data d;
       c \<leftarrow> rd (con_com (g_conf_info d)) (n - 1);
       m \<leftarrow> rd (com_rsvd c) 0;
       if m = UART_RECV_POLL_MODE then Protocol_SendComDataToNet_PollMode (n - 1) data d
       else if m = UART_RECV_INT_MODE then Protocol_SendComDataToNet_IntMode (n - 1) data d
       else Some d }
     else if rs_type d = com_type_code RS485 then SendComDataToNet modes (n - 1) data d
     else Some d }"

section \<open>From the network to the port\<close>

text \<open>Where the thread of a session stands: at the label \<open>AGAIN\<close>, or in its loop with the copy \<open>tmp\<close>.\<close>

datatype md_pc = Again | Serving CONFIG_SESSION

definition open_with :: "(dev \<Rightarrow> int \<times> dev) \<Rightarrow> CONFIG_SESSION \<Rightarrow> MODECONFIG \<Rightarrow> dev \<Rightarrow> md_pc \<times> MODECONFIG \<times> dev" where
  "open_with opn s md d = (let (fd, d) = opn d; md = md\<lparr>md_fd := fd\<rparr> in
     if fd \<le> 0 then (Again, md, emit (EvSleep 5) d) else (Serving s, md, d))"

definition mode_again :: "sock_env \<Rightarrow> MODECONFIG \<Rightarrow> dev \<Rightarrow> (md_pc \<times> MODECONFIG \<times> dev) option" where
  "mode_again e md d = do {
     m \<leftarrow> md_mode md d;
     s \<leftarrow> md_session md d;
     Some (if work_mode m = WORK_NO \<or> protocol s = tcp_ptl_code TCP_NO then (Again, md, emit (EvSleep 1) d)
       else if protocol s = tcp_ptl_code TCP_CLI then open_with (socket_cli_init e (ses_ip s) (dport s)) s md d
       else if protocol s = tcp_ptl_code TCP_SRV then open_with (socket_init e (lport s) (max_num s)) s md d
       else if protocol s = tcp_ptl_code TCP_UDP then open_with (init_udp_socket e (lport s)) s md d
       else (Again, md, emit (EvSleep 1) d)) }"

text \<open>
  What a turn of the loop meets: the result of \<open>select\<close> and its set, what \<open>accept\<close> returns, and what
  \<open>recv\<close> returns for each descriptor, \<open>None\<close> for an error. The length -1 of an error is passed on;
  \<open>writen\<close> writes nothing for it.
\<close>

record md_env =
  me_select :: int
  me_ready :: "int set"
  me_accept :: int
  me_recv :: "int \<Rightarrow> bytes option"

definition got :: "bytes option \<Rightarrow> bytes" where
  "got r = (case r of None \<Rightarrow> [] | Some g \<Rightarrow> take NET_RECV_BUF_MAX g)"

fun close_each :: "int list \<Rightarrow> dev \<Rightarrow> dev" where
  "close_each [] d = d"
| "close_each (f # fs) d = close_each fs (if f \<noteq> 0 then emit (EvClose f) d else d)"

fun zero_slot :: "int list \<Rightarrow> nat option" where
  "zero_slot [] = None"
| "zero_slot (f # fs) = (if f = 0 then Some 0 else map_option Suc (zero_slot fs))"

definition srv_accept :: "md_env \<Rightarrow> MODECONFIG \<Rightarrow> dev \<Rightarrow> MODECONFIG \<times> dev" where
  "srv_accept e md d = (if md_fd md \<in> me_ready e then
       (let c = me_accept e; d = got_socket c d in
        case zero_slot (sfd md) of
          None \<Rightarrow> (md, emit (EvClose c) d)
        | Some i \<Rightarrow> (md\<lparr>sfd := (sfd md)[i := c]\<rparr>, d))
     else (md, d))"

fun srv_recv :: "md_env \<Rightarrow> nat \<Rightarrow> int list \<Rightarrow> dev \<Rightarrow> (int list \<times> dev) option" where
  "srv_recv e n [] d = Some ([], d)"
| "srv_recv e n (f # fs) d =
    (if 0 < f \<and> f \<in> me_ready e then
       if me_recv e f = Some [] then do { (fs, d) \<leftarrow> srv_recv e n fs (emit (EvClose f) d); Some (0 # fs, d) }
       else do {
         (_, d) \<leftarrow> SendNetDataToCom n (got (me_recv e f)) d;
         (fs, d) \<leftarrow> srv_recv e n fs d;
         Some (f # fs, d) }
     else do { (fs, d) \<leftarrow> srv_recv e n fs d; Some (f # fs, d) })"

definition mode_loop :: "md_env \<Rightarrow> CONFIG_SESSION \<Rightarrow> MODECONFIG \<Rightarrow> dev \<Rightarrow> (md_pc \<times> MODECONFIG \<times> dev) option" where
  "mode_loop e tmp md d = do {
     m \<leftarrow> md_mode md d;
     s \<leftarrow> md_session md d;
     if work_mode m = WORK_NO \<or> s \<noteq> tmp then
       Some (Again, md\<lparr>md_fd := 0, sfd := map (\<lambda>_. 0) (sfd md)\<rparr>, close_each (md_fd md # sfd md) d)
     else if protocol s = tcp_ptl_code TCP_CLI then
       if me_select e \<le> 0 then Some (Serving tmp, md, d)
       else if me_recv e (md_fd md) = Some [] then Some (Again, md\<lparr>md_fd := 0\<rparr>, emit (EvClose (md_fd md)) d)
       else do { (_, d) \<leftarrow> SendNetDataToCom (md_id md) (got (me_recv e (md_fd md))) d; Some (Serving tmp, md, d) }
     else if protocol s = tcp_ptl_code TCP_SRV then do {
       let (md, d) = srv_accept e md d;
       (fs, d) \<leftarrow> srv_recv e (md_id md) (sfd md) d;
       Some (Serving tmp, md\<lparr>sfd := fs\<rparr>, d) }
     else if protocol s = tcp_ptl_code TCP_UDP then
       if me_select e \<le> 0 then Some (Serving tmp, md, d)
       else do { (_, d) \<leftarrow> SendNetDataToCom (md_id md) (got (me_recv e (md_fd md))) d; Some (Serving tmp, md, d) }
     else Some (Serving tmp, md, d) }"

text \<open>One step of \<open>mode_proc\<close>.\<close>

definition mode_step :: "sock_env \<Rightarrow> md_env \<Rightarrow> md_pc \<Rightarrow> MODECONFIG \<Rightarrow> dev \<Rightarrow> (md_pc \<times> MODECONFIG \<times> dev) option" where
  "mode_step so e pc md d = (case pc of Again \<Rightarrow> mode_again so md d | Serving tmp \<Rightarrow> mode_loop e tmp md d)"

end
