(* ===== verification/Session_Facts.thy ===== *)
theory Session_Facts
  imports Sessions
begin

text \<open>
  Who owns which descriptor: in every state the session threads reach, whatever the network does,
  no two slots hold the same open descriptor.
\<close>

section \<open>Open descriptors\<close>

definition live :: "dev \<Rightarrow> int set" where
  "live d = {f \<in> held (trace d). 0 < f}"

lemma live_emit [simp]:
  "live (emit (EvSocket f) d) = (if 0 < f then insert f (live d) else live d)" "live (emit (EvClose f) d) = live d - {f}"
  "live (emit (EvWrite x b) d) = live d" "live (emit (EvUart x u) d) = live d" "live (emit (EvSleep n) d) = live d"
  "live (emit (EvConnect x i p) d) = live d" "live (emit (EvBind x p) d) = live d" "live (emit (EvListen x m) d) = live d"
  "live (emit (EvSendTo x i p b) d) = live d"
  by (auto simp: live_def)

lemma live_positive: "f \<in> live d \<Longrightarrow> 0 < f"
  by (simp add: live_def)

lemma live_eqI: "trace d' = trace d \<Longrightarrow> live d' = live d"
  by (simp add: live_def)

lemma live_got_socket [simp]: "live (got_socket f d) = (if 0 < f then insert f (live d) else live d)"
  by (simp add: got_socket_def)

lemma live_close_each [simp]: "live (close_each fs d) = live d - set fs"
  by (induction fs arbitrary: d) (auto dest: live_positive)

lemma live_SendNet: "SendNetDataToCom n data d = Some (r, d') \<Longrightarrow> live d' = live d"
proof -
  assume "SendNetDataToCom n data d = Some (r, d')"
  then have "\<exists>x out sc. d' = emit (EvUart x out) (d\<lparr>tty_script := sc\<rparr>) \<or> d' = d"
    by (cases "writen (tty_script d) data"; cases "writen_rs485 (tty_script d) data")
      (auto simp: SendNetDataToCom_def bind_eq_Some_conv split: if_splits)
  moreover have "live (d\<lparr>tty_script := sc\<rparr>) = live d" for sc by (rule live_eqI) simp
  ultimately show ?thesis by auto
qed

section \<open>One thread\<close>

lemma no_pos: "set fs \<subseteq> {0 :: int} \<Longrightarrow> filter (\<lambda>f. 0 < f) fs = []"
  by (auto simp: filter_empty_conv)


definition owned :: "MODECONFIG \<Rightarrow> int set" where
  "owned md = {f. 0 < f \<and> (f = md_fd md \<or> f \<in> set (sfd md))}"

definition own_distinct :: "MODECONFIG \<Rightarrow> bool" where
  "own_distinct md \<longleftrightarrow> distinct (filter (\<lambda>f. 0 < f) (md_fd md # sfd md))"

definition thr_ok :: "md_pc \<Rightarrow> MODECONFIG \<Rightarrow> bool" where
  "thr_ok pc md \<longleftrightarrow> length (sfd md) = MAX_SESSION \<and> own_distinct md \<and>
     (case pc of Again \<Rightarrow> md_fd md \<le> 0 \<and> set (sfd md) \<subseteq> {0}
      | Serving s \<Rightarrow> 0 < md_fd md \<and> (protocol s \<noteq> tcp_ptl_code TCP_SRV \<longrightarrow> set (sfd md) \<subseteq> {0}))"

definition same_place :: "MODECONFIG \<Rightarrow> MODECONFIG \<Rightarrow> bool" where
  "same_place md md' \<longleftrightarrow> md_id md' = md_id md \<and> md_ses md' = md_ses md"

text \<open>What a step with fresh descriptors \<open>F\<close> may do to the descriptors.\<close>

definition fair :: "int set \<Rightarrow> MODECONFIG \<Rightarrow> dev \<Rightarrow> MODECONFIG \<Rightarrow> dev \<Rightarrow> bool" where
  "fair F md d md' d' \<longleftrightarrow> owned md' \<subseteq> owned md \<union> F \<and> owned md' \<subseteq> live d' \<and>
     live d - owned md \<subseteq> live d' \<and> live d' \<subseteq> live d \<union> F \<and> same_place md md'"

definition opened :: "sock_env \<Rightarrow> dev \<Rightarrow> int \<times> dev \<Rightarrow> bool" where
  "opened e d r \<longleftrightarrow> live d \<subseteq> live (snd r) \<and> live (snd r) \<subseteq> live d \<union> {so_fd e} \<and>
     (0 < fst r \<longrightarrow> fst r = so_fd e \<and> so_fd e \<in> live (snd r))"

lemma opened_sockets:
  assumes "so_fd e \<notin> live d"
  shows "opened e d (socket_cli_init e ip port d)" "opened e d (socket_init e port' m d)" "opened e d (init_udp_socket e port' d)"
  using assms by (auto simp: opened_def socket_cli_init_def socket_init_def init_udp_socket_def Let_def dest: live_positive)

lemma open_with_fair:
  assumes "opened e d (opn d)" "open_with opn s md d = (pc', md', d')" "thr_ok Again md"
  shows "thr_ok pc' md' \<and> fair {so_fd e} md d md' d'"
proof -
  obtain fd d1 where o: "opn d = (fd, d1)" by (cases "opn d")
  have z: "set (sfd md) \<subseteq> {0}" "md_fd md \<le> 0" "length (sfd md) = MAX_SESSION" using assms(3) by (simp_all add: thr_ok_def)
  have own: "owned (md\<lparr>md_fd := x\<rparr>) = (if 0 < x then {x} else {})" for x using z(1) by (auto simp: owned_def)
  have none: "owned md = {}" using z by (auto simp: owned_def)
  have dis: "own_distinct (md\<lparr>md_fd := x\<rparr>)" for x using no_pos [OF z(1)] by (simp add: own_distinct_def)
  show ?thesis
  proof (cases "fd \<le> 0")
    case True
    then show ?thesis using assms(1,2) o z dis
      by (auto simp: open_with_def thr_ok_def fair_def own none opened_def same_place_def)
  next
    case False
    then show ?thesis using assms(1,2) o z dis
      by (auto simp: open_with_def thr_ok_def fair_def own none opened_def same_place_def)
  qed
qed

lemma mode_again_fair:
  assumes "mode_again e md d = Some (pc', md', d')" "thr_ok Again md" "so_fd e \<notin> live d"
  shows "thr_ok pc' md' \<and> fair {so_fd e} md d md' d'"
proof -
  have stay: "fair {so_fd e} md d md (emit (EvSleep n) d)" for n
    using assms(2) by (auto simp: fair_def same_place_def thr_ok_def owned_def)
  obtain m s where ms: "md_mode md d = Some m" "md_session md d = Some s"
    using assms(1) by (auto simp: mode_again_def bind_eq_Some_conv)
  consider "pc' = Again" "md' = md" "d' = emit (EvSleep 1) d" | "open_with (socket_cli_init e (ses_ip s) (dport s)) s md d = (pc', md', d')"
    | "open_with (socket_init e (lport s) (max_num s)) s md d = (pc', md', d')" | "open_with (init_udp_socket e (lport s)) s md d = (pc', md', d')"
    using assms(1) ms by (auto simp: mode_again_def split: if_splits)
  then show ?thesis
  proof cases
    case 1
    then show ?thesis using assms(2) stay by simp
  next
    case 2
    show ?thesis by (rule open_with_fair [where opn = "socket_cli_init e (ses_ip s) (dport s)", OF opened_sockets(1) [OF assms(3)] 2 assms(2)])
  next
    case 3
    show ?thesis by (rule open_with_fair [where opn = "socket_init e (lport s) (max_num s)", OF opened_sockets(2) [OF assms(3)] 3 assms(2)])
  next
    case 4
    show ?thesis by (rule open_with_fair [where opn = "init_udp_socket e (lport s)", OF opened_sockets(3) [OF assms(3)] 4 assms(2)])
  qed
qed

section \<open>The loop of a thread\<close>

lemma owned_sub_live: "thr_ok pc md \<Longrightarrow> owned md \<subseteq> live d \<Longrightarrow> 0 < md_fd md \<Longrightarrow> md_fd md \<notin> set (sfd md)"
  by (auto simp: thr_ok_def own_distinct_def)

lemma zero_slot_Some: "zero_slot fs = Some i \<Longrightarrow> i < length fs \<and> fs ! i = 0"
  by (induction fs arbitrary: i) (auto split: if_splits)

lemma filter_pos_update:
  assumes "i < length fs" "fs ! i = 0" "distinct (filter (\<lambda>f. 0 < f) (x # fs))" "0 < c \<Longrightarrow> c \<notin> set (x # fs)"
  shows "distinct (filter (\<lambda>f. 0 < f) (x # fs[i := c :: int]))"
proof -
  have "fs = take i fs @ 0 # drop (Suc i) fs" using id_take_nth_drop [OF assms(1)] assms(2) by simp
  then have f: "filter (\<lambda>f. 0 < f) fs = filter (\<lambda>f. 0 < f) (take i fs) @ filter (\<lambda>f. 0 < f) (drop (Suc i) fs)"
    by (metis filter.simps(2) filter_append less_irrefl)
  have "set (take i fs) \<subseteq> set fs" "set (drop (Suc i) fs) \<subseteq> set fs" by (simp_all add: set_take_subset set_drop_subset)
  then show ?thesis using assms(3,4) unfolding filter.simps f upd_conv_take_nth_drop [OF assms(1)] filter_append
    by (auto split: if_splits)
qed

lemma srv_accept_spec:
  assumes "srv_accept e md d = (md', d')" "own_distinct md" "owned md \<subseteq> live d" "me_accept e \<notin> live d"
  shows "own_distinct md' \<and> fair {me_accept e} md d md' d' \<and> md_fd md' = md_fd md \<and> length (sfd md') = length (sfd md)"
proof -
  let ?c = "me_accept e"
  have id: "fair {?c} md d md d" using assms(3) by (auto simp: fair_def same_place_def)
  have c: "0 < ?c \<Longrightarrow> ?c \<notin> set (md_fd md # sfd md)" using assms(3,4) by (auto simp: owned_def)
  show ?thesis
  proof (cases "md_fd md \<in> me_ready e")
    case False
    then show ?thesis using assms(1,2) id by (simp add: srv_accept_def)
  next
    case True
    show ?thesis
    proof (cases "zero_slot (sfd md)")
      case None
      then have "md' = md" "d' = emit (EvClose ?c) (got_socket ?c d)" using assms(1) True by (simp_all add: srv_accept_def Let_def)
      then show ?thesis using assms(2-4) by (auto simp: fair_def same_place_def)
    next
      case (Some i)
      then have i: "i < length (sfd md)" "sfd md ! i = 0" using zero_slot_Some by auto
      have m: "md' = md\<lparr>sfd := (sfd md)[i := ?c]\<rparr>" "d' = got_socket ?c d" using assms(1) True Some by (simp_all add: srv_accept_def Let_def)
      have "own_distinct md'" using filter_pos_update [OF i _ c] assms(2) by (simp add: own_distinct_def m)
      moreover have "owned md' \<subseteq> insert ?c (owned md)" "0 < ?c \<or> owned md' \<subseteq> owned md"
        using set_update_subset_insert [of "sfd md" i ?c] by (auto simp: owned_def m)
      ultimately show ?thesis using assms(3) by (auto simp: fair_def same_place_def m)
    qed
  qed
qed

text \<open>What \<open>srv_recv\<close> leaves of the slots: each as it was, or closed and zero.\<close>

lemma srv_recv_spec:
  assumes "srv_recv e n fs d = Some (fs', d')" "distinct (filter (\<lambda>f. 0 < f) fs)"
  shows "length fs' = length fs \<and> set fs' \<subseteq> insert 0 (set fs) \<and> distinct (filter (\<lambda>f. 0 < f) fs') \<and>
    live d' = live d - {f \<in> set fs. 0 < f \<and> f \<notin> set fs'}"
  using assms
proof (induction fs arbitrary: d fs' d')
  case Nil
  then show ?case by simp
next
  case (Cons f fs)
  have dis: "distinct (filter (\<lambda>f. 0 < f) fs)" "0 < f \<Longrightarrow> f \<notin> set fs" using Cons.prems(2) by (auto split: if_splits)
  consider (closed) gs d1 where "0 < f" "srv_recv e n fs (emit (EvClose f) d) = Some (gs, d1)" "fs' = 0 # gs" "d' = d1"
    | (kept) d0 gs d1 where "live d0 = live d" "srv_recv e n fs d0 = Some (gs, d1)" "fs' = f # gs" "d' = d1"
    using Cons.prems(1) by (auto simp: bind_eq_Some_conv split: if_splits dest!: live_SendNet)
  then show ?case
  proof cases
    case closed
    from Cons.IH [OF closed(2) dis(1)] closed dis(2) show ?thesis by auto
  next
    case kept
    from Cons.IH [OF kept(2) dis(1)] kept dis(2) show ?thesis by (auto split: if_splits)
  qed
qed

lemma fair_refl: "owned md \<subseteq> live d \<Longrightarrow> live d' = live d \<Longrightarrow> fair F md d md d'"
  by (auto simp: fair_def same_place_def)

lemma mode_loop_cases:
  assumes "mode_loop e tmp md d = Some (pc', md', d')"
  obtains (reset) "pc' = Again" "md' = md\<lparr>md_fd := 0, sfd := map (\<lambda>_. 0) (sfd md)\<rparr>" "d' = close_each (md_fd md # sfd md) d"
    | (closed) "protocol tmp = tcp_ptl_code TCP_CLI" "pc' = Again" "md' = md\<lparr>md_fd := 0\<rparr>" "d' = emit (EvClose (md_fd md)) d"
    | (same) "pc' = Serving tmp" "md' = md" "live d' = live d"
    | (srv) md1 d1 fs where "protocol tmp = tcp_ptl_code TCP_SRV" "pc' = Serving tmp" "srv_accept e md d = (md1, d1)"
        "srv_recv e (md_id md1) (sfd md1) d1 = Some (fs, d')" "md' = md1\<lparr>sfd := fs\<rparr>"
proof -
  obtain m s where ms: "md_mode md d = Some m" "md_session md d = Some s"
    using assms(1) by (auto simp: mode_loop_def bind_eq_Some_conv)
  have stay: thesis if "mode_loop e tmp md d = Some (Serving tmp, md, d)" using that assms same by simp
  have fwd: thesis if "do { (_, d) \<leftarrow> SendNetDataToCom (md_id md) (got (me_recv e (md_fd md))) d; Some (Serving tmp, md, d) } = mode_loop e tmp md d"
    using that assms same by (auto simp: bind_eq_Some_conv dest: live_SendNet)
  show thesis
  proof (cases "work_mode m = WORK_NO \<or> s \<noteq> tmp")
    case True
    then show thesis using assms ms reset by (simp add: mode_loop_def)
  next
    case False
    then have s: "s = tmp" "work_mode m \<noteq> WORK_NO" by simp_all
    consider "protocol tmp = tcp_ptl_code TCP_CLI" | "protocol tmp = tcp_ptl_code TCP_SRV" | "protocol tmp = tcp_ptl_code TCP_UDP"
      | "protocol tmp \<notin> {tcp_ptl_code TCP_CLI, tcp_ptl_code TCP_SRV, tcp_ptl_code TCP_UDP}" by auto
    then show thesis
    proof cases
      case 1
      have eq: "mode_loop e tmp md d = (if me_select e \<le> 0 then Some (Serving tmp, md, d)
          else if me_recv e (md_fd md) = Some [] then Some (Again, md\<lparr>md_fd := 0\<rparr>, emit (EvClose (md_fd md)) d)
          else do { (_, d) \<leftarrow> SendNetDataToCom (md_id md) (got (me_recv e (md_fd md))) d; Some (Serving tmp, md, d) })"
        using 1 ms s by (simp add: mode_loop_def)
      show thesis
      proof (cases "\<not> me_select e \<le> 0 \<and> me_recv e (md_fd md) = Some []")
        case True
        then show thesis using assms 1 by (intro closed) (simp_all add: eq)
      next
        case False
        then show thesis by (cases "me_select e \<le> 0"; intro stay fwd) (simp_all add: eq)
      qed
    next
      case 2
      then show thesis using assms ms s srv by (auto simp: mode_loop_def bind_eq_Some_conv split: prod.splits)
    next
      case 3
      then have eq: "mode_loop e tmp md d = (if me_select e \<le> 0 then Some (Serving tmp, md, d)
          else do { (_, d) \<leftarrow> SendNetDataToCom (md_id md) (got (me_recv e (md_fd md))) d; Some (Serving tmp, md, d) })"
        using ms s by (simp add: mode_loop_def)
      show thesis by (cases "me_select e \<le> 0"; intro stay fwd) (simp_all add: eq)
    next
      case 4
      then show thesis using assms ms s same by (simp add: mode_loop_def)
    qed
  qed
qed

text \<open>A turn of a server: what it accepts it owns, and what it closes it does not.\<close>

lemma srv_turn_fair:
  assumes "srv_accept e md d = (md1, d1)" "srv_recv e (md_id md1) (sfd md1) d1 = Some (fs, d')"
    and "thr_ok (Serving tmp) md" "owned md \<subseteq> live d" "me_accept e \<notin> live d" "protocol tmp = tcp_ptl_code TCP_SRV"
  shows "thr_ok (Serving tmp) (md1\<lparr>sfd := fs\<rparr>) \<and> fair {me_accept e} md d (md1\<lparr>sfd := fs\<rparr>) d'"
proof -
  let ?md' = "md1\<lparr>sfd := fs\<rparr>"
  have fd: "0 < md_fd md" "length (sfd md) = MAX_SESSION" "own_distinct md" using assms(3) by (simp_all add: thr_ok_def)
  have a: "own_distinct md1" "fair {me_accept e} md d md1 d1" "md_fd md1 = md_fd md" "length (sfd md1) = length (sfd md)"
    using srv_accept_spec [OF assms(1) fd(3) assms(4,5)] by simp_all
  have dis: "distinct (filter (\<lambda>f. 0 < f) (sfd md1))" "md_fd md \<notin> set (sfd md1)"
    using a(1,3) fd(1) by (auto simp: own_distinct_def)
  have f: "length fs = length (sfd md1)" "set fs \<subseteq> insert 0 (set (sfd md1))" "distinct (filter (\<lambda>f. 0 < f) fs)"
    "live d' = live d1 - {f \<in> set (sfd md1). 0 < f \<and> f \<notin> set fs}"
    using srv_recv_spec [OF assms(2) dis(1)] by simp_all
  have own: "owned ?md' \<subseteq> owned md1" "owned ?md' \<subseteq> live d'" "live d1 - owned md1 \<subseteq> live d'" "live d' \<subseteq> live d1"
    using f(2,4) a(2,3) dis(2) by (auto simp: owned_def fair_def)
  have out: "owned md1 \<subseteq> owned md \<union> {me_accept e}" "same_place md md1" "live d - owned md \<subseteq> live d1" "live d1 \<subseteq> live d \<union> {me_accept e}"
    using a(2) by (simp_all add: fair_def)
  have "thr_ok (Serving tmp) ?md'" using fd(1,2) a(3,4) f dis(2) assms(6) by (auto simp: thr_ok_def own_distinct_def)
  moreover have "live d - owned md \<subseteq> live d'" using own(3) out(1,3) assms(5) by blast
  ultimately show ?thesis using own out by (auto simp: fair_def same_place_def)
qed

lemma mode_loop_fair:
  assumes "mode_loop e tmp md d = Some (pc', md', d')" "thr_ok (Serving tmp) md" "owned md \<subseteq> live d" "me_accept e \<notin> live d"
  shows "thr_ok pc' md' \<and> fair {me_accept e} md d md' d'"
proof -
  have fd: "0 < md_fd md" "length (sfd md) = MAX_SESSION" "own_distinct md" "protocol tmp \<noteq> tcp_ptl_code TCP_SRV \<longrightarrow> set (sfd md) \<subseteq> {0}"
    using assms(2) by (simp_all add: thr_ok_def)
  show ?thesis using assms(1)
  proof (cases rule: mode_loop_cases)
    case reset
    have z: "owned md' = {}" "own_distinct md'" by (auto simp: reset(2) owned_def own_distinct_def filter_empty_conv)
    have "live d' = live d - owned md" by (auto simp: reset(3) owned_def dest: live_positive)
    with z fd(2) show ?thesis by (auto simp: reset(1) thr_ok_def fair_def same_place_def reset(2))
  next
    case closed
    have z: "owned md' = {}" "own_distinct md'" using fd(4) closed(1) no_pos [of "sfd md"] by (auto simp: closed(3) owned_def own_distinct_def)
    moreover have "live d' = live d - owned md" using fd(4) closed(1) by (auto simp: closed(4) owned_def dest: live_positive)
    ultimately show ?thesis using fd(2,4) closed(1) by (auto simp: closed(2,3) thr_ok_def fair_def same_place_def)
  next
    case same
    then show ?thesis using assms(2,3) fair_refl by simp
  next
    case (srv md1 d1 fs)
    then show ?thesis using srv_turn_fair [OF srv(3,4) assms(2-4)] by simp
  qed
qed

lemma fair_mono: "fair F md d md' d' \<Longrightarrow> F \<subseteq> G \<Longrightarrow> fair G md d md' d'"
  unfolding fair_def by blast

lemma mode_step_fair:
  assumes "mode_step so e pc md d = Some (pc', md', d')" "thr_ok pc md" "owned md \<subseteq> live d" "so_fd so \<notin> live d" "me_accept e \<notin> live d"
  shows "thr_ok pc' md' \<and> fair {so_fd so, me_accept e} md d md' d'"
proof (cases pc)
  case Again
  then have "thr_ok pc' md' \<and> fair {so_fd so} md d md' d'" using mode_again_fair assms(1,2,4) by (simp add: mode_step_def)
  then show ?thesis using fair_mono by fastforce
next
  case (Serving tmp)
  then have "thr_ok pc' md' \<and> fair {me_accept e} md d md' d'" using mode_loop_fair assms(1-3,5) by (simp add: mode_step_def)
  then show ?thesis using fair_mono by fastforce
qed

section \<open>All threads\<close>

text \<open>
  The session threads, the readers of the two ports and changes of the configuration interleave in
  any order; the kernel hands out descriptors that are not open.
\<close>

type_synonym threads = "(md_pc \<times> MODECONFIG) list"

definition start_threads :: threads where
  "start_threads = map (Pair Again) (concat mode_init)"

definition modes_of :: "threads \<Rightarrow> MODECONFIG list list" where
  "modes_of ts = [map snd (take MAX_SESSION ts), map snd (drop MAX_SESSION ts)]"

inductive sess_reach :: "threads \<Rightarrow> dev \<Rightarrow> bool" where
  sess_start: "trace d = [] \<Longrightarrow> sess_reach start_threads d"
| sess_step: "sess_reach ts d \<Longrightarrow> i < length ts \<Longrightarrow> so_fd so \<notin> held (trace d) \<Longrightarrow> me_accept e \<notin> held (trace d) \<Longrightarrow>
    mode_step so e (fst (ts ! i)) (snd (ts ! i)) d = Some (pc', md', d') \<Longrightarrow> sess_reach (ts[i := (pc', md')]) d'"
| sess_com: "sess_reach ts d \<Longrightarrow> com_turn (modes_of ts) n r d = Some d' \<Longrightarrow> sess_reach ts d'"
| sess_conf: "sess_reach ts d \<Longrightarrow> sess_reach ts (d\<lparr>g_conf_info := c\<rparr>)"

definition sess_ok :: "threads \<Rightarrow> dev \<Rightarrow> bool" where
  "sess_ok ts d \<longleftrightarrow> length ts = 12 \<and>
     (\<forall>i < 12. thr_ok (fst (ts ! i)) (snd (ts ! i)) \<and> owned (snd (ts ! i)) \<subseteq> live d \<and>
        md_id (snd (ts ! i)) = i div 6 \<and> md_ses (snd (ts ! i)) = i mod 6) \<and>
     (\<forall>i < 12. \<forall>j < 12. i \<noteq> j \<longrightarrow> owned (snd (ts ! i)) \<inter> owned (snd (ts ! j)) = {})"

lemma start_threads_nth:
  "length start_threads = 12"
  "i < 12 \<Longrightarrow> start_threads ! i = (Again, \<lparr>md_id = i div 6, md_fd = 0, sfd = replicate MAX_SESSION 0, md_ses = i mod 6\<rparr>)"
proof -
  have l: "[0 ..< MAX_SESSION] = [0, 1, 2, 3, 4, 5]" "[0 ..< MAX_COM_PORT] = [0, 1]"
    by (simp_all add: MAX_SESSION_def MAX_COM_PORT_def upt_rec)
  let ?md = "\<lambda>i j. \<lparr>md_id = i, md_fd = 0, sfd = replicate MAX_SESSION 0, md_ses = j\<rparr>"
  have ts: "start_threads = map (Pair Again) [?md 0 0, ?md 0 1, ?md 0 2, ?md 0 3, ?md 0 4, ?md 0 5, ?md 1 0, ?md 1 1, ?md 1 2, ?md 1 3, ?md 1 4, ?md 1 5]"
    by (simp add: start_threads_def mode_init_def l)
  show "length start_threads = 12" by (simp add: ts)
  show "start_threads ! i = (Again, ?md (i div 6) (i mod 6))" if "i < 12"
  proof -
    have "i \<in> {0, 1, 2, 3, 4, 5, 6, 7, 8, 9, 10, 11}" using that by (simp, presburger)
    then show ?thesis unfolding ts by auto
  qed
qed

lemma sess_ok_start: "sess_ok start_threads d"
proof -
  have ok: "thr_ok Again \<lparr>md_id = i, md_fd = 0, sfd = replicate MAX_SESSION 0, md_ses = j\<rparr>"
    "owned \<lparr>md_id = i, md_fd = 0, sfd = replicate MAX_SESSION 0, md_ses = j\<rparr> = {}" for i j
    by (auto simp: thr_ok_def own_distinct_def owned_def MAX_SESSION_def)
  then show ?thesis by (simp add: sess_ok_def start_threads_nth)
qed

lemma live_sub_held: "f \<notin> held (trace d) \<Longrightarrow> f \<notin> live d"
  by (simp add: live_def)

lemma sess_ok_step:
  assumes "sess_ok ts d" "i < length ts" "so_fd so \<notin> held (trace d)" "me_accept e \<notin> held (trace d)"
    "mode_step so e (fst (ts ! i)) (snd (ts ! i)) d = Some (pc', md', d')"
  shows "sess_ok (ts[i := (pc', md')]) d'"
proof -
  let ?F = "{so_fd so, me_accept e}" and ?md = "\<lambda>j. snd (ts ! j)"
  have n: "length ts = 12" "i < 12" using assms(1,2) by (simp_all add: sess_ok_def)
  have old: "thr_ok (fst (ts ! j)) (?md j)" "owned (?md j) \<subseteq> live d" "md_id (?md j) = j div 6" "md_ses (?md j) = j mod 6" if "j < 12" for j
    using assms(1) that by (simp_all add: sess_ok_def)
  have dis: "owned (?md j) \<inter> owned (?md k) = {}" if "j < 12" "k < 12" "j \<noteq> k" for j k
    using assms(1) that by (simp add: sess_ok_def)
  have F: "?F \<inter> live d = {}" using assms(3,4) by (auto simp: live_def)
  have st: "thr_ok pc' md'" "fair ?F (?md i) d md' d'"
    using mode_step_fair [OF assms(5) old(1,2) [OF n(2)]] F by auto
  have own: "owned md' \<subseteq> owned (?md i) \<union> ?F" "owned md' \<subseteq> live d'" "live d - owned (?md i) \<subseteq> live d'" "same_place (?md i) md'"
    using st(2) by (simp_all add: fair_def)
  have other: "owned (?md j) \<subseteq> live d' \<and> owned (?md j) \<inter> owned md' = {}" if "j < 12" "j \<noteq> i" for j
    using old(2) [OF that(1)] dis [OF that(1) n(2) that(2)] own(1,3) F by blast
  show ?thesis unfolding sess_ok_def
  proof (intro conjI allI impI)
    show "length (ts[i := (pc', md')]) = 12" using n by simp
  next
    fix j :: nat
    assume "j < 12"
    then show "thr_ok (fst (ts[i := (pc', md')] ! j)) (snd (ts[i := (pc', md')] ! j))" "owned (snd (ts[i := (pc', md')] ! j)) \<subseteq> live d'"
      "md_id (snd (ts[i := (pc', md')] ! j)) = j div 6" "md_ses (snd (ts[i := (pc', md')] ! j)) = j mod 6"
      using old [of j] other [of j] own st(1) n by (cases "j = i"; simp add: same_place_def)+
  next
    fix j k :: nat
    assume "j < 12" "k < 12" "j \<noteq> k"
    then show "owned (snd (ts[i := (pc', md')] ! j)) \<inter> owned (snd (ts[i := (pc', md')] ! k)) = {}"
      using other [of j] other [of k] dis [of j k] n by (cases "j = i"; cases "k = i"; simp add: Int_commute)
  qed
qed

lemma sess_ok_live: "sess_ok ts d \<Longrightarrow> live d' = live d \<Longrightarrow> sess_ok ts d'"
  by (simp add: sess_ok_def)

lemma live_send_each [simp]: "live (send_each fs data d) = live d"
  by (induction fs arbitrary: d) auto

lemma live_send_sessions: "send_sessions mds data d = Some d' \<Longrightarrow> live d' = live d"
  by (induction mds arbitrary: d) (auto simp: bind_eq_Some_conv send_session_def split: if_splits)

lemma live_fields [simp]:
  "live (d\<lparr>uart1_cnt := w\<rparr>) = live d" "live (d\<lparr>uart1_recv_buf := b\<rparr>) = live d" "live (d\<lparr>uart2_cnt := w\<rparr>) = live d"
  "live (d\<lparr>uart2_recv_buf := b\<rparr>) = live d" "live (d\<lparr>cbuf_send := b\<rparr>) = live d" "live (d\<lparr>g_conf_info := c\<rparr>) = live d"
  by (simp_all add: live_def)

lemma live_poll: "Protocol_SendComDataToNet_PollMode n data d = Some d' \<Longrightarrow> live d' = live d"
  unfolding Protocol_SendComDataToNet_PollMode_def Let_def
  by (elim if_Some_cases bind_SomeE; drule option.inject [THEN iffD1]; hypsubst; simp only: live_fields)

lemma live_write: "client_write n d = Some d' \<Longrightarrow> live d' = live d"
  by (auto simp: client_write_def bind_eq_Some_conv)

lemma live_int:
  assumes "Protocol_SendComDataToNet_IntMode n data d = Some d'"
  shows "live d' = live d"
proof -
  obtain d1 m b where "Protocol_SendComDataToNet_PollMode n data d = Some d1" "client_write m (d1\<lparr>cbuf_send := b\<rparr>) = Some d'"
    using assms unfolding Protocol_SendComDataToNet_IntMode_def by (elim bind_SomeE) (auto split: prod.splits)
  then show ?thesis using live_poll live_write live_fields(5) by metis
qed

lemma live_com_turn: "com_turn modes n r d = Some d' \<Longrightarrow> live d' = live d"
  by (auto simp: com_turn_def SendComDataToNet_def Let_def bind_eq_Some_conv split: if_splits dest!: live_poll live_int live_send_sessions)

lemma sess_reach_ok: "sess_reach ts d \<Longrightarrow> sess_ok ts d"
proof (induction rule: sess_reach.induct)
  case (sess_start d)
  show ?case by (rule sess_ok_start)
next
  case (sess_step ts d i so e pc' md' d')
  show ?case by (rule sess_ok_step [OF sess_step.IH sess_step.hyps(2-5)])
next
  case (sess_com ts d n r d')
  then show ?case using sess_ok_live live_com_turn by blast
next
  case (sess_conf ts d c)
  show ?case by (rule sess_ok_live [OF sess_conf.IH]) simp
qed

section \<open>What the port sends\<close>

definition deliver :: "CONFIG_SESSION \<Rightarrow> MODECONFIG \<Rightarrow> bytes \<Rightarrow> event list" where
  "deliver s md data =
     (if protocol s = tcp_ptl_code TCP_CLI then (if md_fd md \<noteq> 0 then [EvWrite (md_fd md) data] else [])
      else if protocol s = tcp_ptl_code TCP_SRV then map (\<lambda>f. EvWrite f data) (filter (\<lambda>f. f \<noteq> 0) (sfd md))
      else if protocol s = tcp_ptl_code TCP_UDP then (if md_fd md \<noteq> 0 then [EvSendTo (md_fd md) (ses_ip s) (ucast (dport s)) data] else [])
      else [])"

lemma send_each_eq: "send_each fs data d = d\<lparr>trace := trace d @ map (\<lambda>f. EvWrite f data) (filter (\<lambda>f. f \<noteq> 0) fs)\<rparr>"
  by (induction fs arbitrary: d) (simp_all add: emit_def)

lemma send_session_eq: "md_session md d = Some s \<Longrightarrow> send_session md data d = Some (d\<lparr>trace := trace d @ deliver s md data\<rparr>)"
  by (simp add: send_session_def deliver_def send_each_eq emit_def)

lemma md_session_trace [simp]: "md_session md (d\<lparr>trace := t\<rparr>) = md_session md d"
  by (simp add: md_session_def md_mode_def)

lemma send_sessions_eq:
  "\<forall>md \<in> set mds. md_session md d \<noteq> None \<Longrightarrow>
     send_sessions mds data d = Some (d\<lparr>trace := trace d @ concat (map (\<lambda>md. deliver (the (md_session md d)) md data) mds)\<rparr>)"
proof (induction mds arbitrary: d)
  case (Cons md mds)
  then obtain s where s: "md_session md d = Some s" by auto
  let ?d = "d\<lparr>trace := trace d @ deliver s md data\<rparr>"
  show ?case using Cons.IH [of ?d] Cons.prems s by (simp add: send_session_eq [OF s])
qed simp

text \<open>The connections a session has to its peers.\<close>

definition peers :: "CONFIG_SESSION \<Rightarrow> MODECONFIG \<Rightarrow> int set" where
  "peers s md = {f. 0 < f \<and> (protocol s = tcp_ptl_code TCP_SRV \<and> f \<in> set (sfd md) \<or> protocol s = tcp_ptl_code TCP_CLI \<and> f = md_fd md)}"

lemma count_writes: "count_list (map (\<lambda>f. EvWrite f data) fs) (EvWrite f data) = count_list fs f"
  by (induction fs) auto

lemma count_filter_pos: "0 < f \<Longrightarrow> distinct (filter (\<lambda>f. 0 < f) fs) \<Longrightarrow> count_list (filter (\<lambda>f. f \<noteq> 0) fs) f = (if f \<in> set fs then 1 else 0)" for f :: int
  by (induction fs) (auto split: if_splits simp: count_list_0_iff)

lemma count_deliver:
  assumes "0 < f" "own_distinct md"
  shows "count_list (deliver s md data) (EvWrite f data) = (if f \<in> peers s md then 1 else 0)"
proof -
  have "distinct (filter (\<lambda>f. 0 < f) (sfd md))" using assms(2) by (auto simp: own_distinct_def split: if_splits)
  from count_filter_pos [OF assms(1) this] show ?thesis using assms(1)
    by (auto simp: deliver_def peers_def count_writes)
qed

lemma peers_owned: "peers s md \<subseteq> owned md"
  by (auto simp: peers_def owned_def)

lemma count_concat_once:
  assumes "j < length xs" "count_list (xs ! j) a = 1" "\<And>k. k < length xs \<Longrightarrow> k \<noteq> j \<Longrightarrow> count_list (xs ! k) a = 0"
  shows "count_list (concat xs) a = 1"
  using assms
proof (induction xs arbitrary: j)
  case (Cons x xs)
  show ?case
  proof (cases j)
    case 0
    have "a \<notin> set y" if y: "y \<in> set xs" for y
    proof -
      obtain k where "k < length xs" "y = xs ! k" using y by (auto simp: in_set_conv_nth)
      then show ?thesis using Cons.prems(3) [of "Suc k"] 0 by (simp add: count_list_0_iff)
    qed
    then have "count_list (concat xs) a = 0" by (auto simp: count_list_0_iff)
    with 0 Cons.prems(2) show ?thesis by simp
  next
    case (Suc i)
    have "count_list x a = 0" using Cons.prems(3) [of 0] Suc by simp
    moreover have "count_list (concat xs) a = 1"
      using Cons.prems(1,2) Cons.prems(3) [of "Suc k" for k] Suc by (intro Cons.IH [of i]) auto
    ultimately show ?thesis by simp
  qed
qed simp

lemma modes_nth:
  assumes "sess_ok ts d" "n < 2" "j < 6"
  shows "length (modes_of ts ! n) = 6" "modes_of ts ! n ! j = snd (ts ! (6 * n + j))"
  using assms by (auto simp: modes_of_def sess_ok_def MAX_SESSION_def less_2_cases_iff)

lemma sess_session:
  assumes "sess_ok ts d" "ok_dev d" "n < 2" "j < 6"
  shows "\<exists>s. md_session (modes_of ts ! n ! j) d = Some s"
proof -
  have "md_id (modes_of ts ! n ! j) = n" "md_ses (modes_of ts ! n ! j) = j"
    using assms(1,3,4) unfolding modes_nth(2) [OF assms(1,3,4)] sess_ok_def by auto
  moreover have "length (con_mode (g_conf_info d)) = 2" "ok_CONFIG_MODE (con_mode (g_conf_info d) ! n)"
    using assms(2,3) by (simp_all add: ok_dev_def ok_CONFI_DATA_def list_all_length)
  ultimately show ?thesis using assms(3,4) by (simp add: md_session_def md_mode_def rd_in ok_CONFIG_MODE_def)
qed

end
