(* ===== verification/Session_Props.thy ===== *)
theory Session_Props
  imports Session_Facts Examples
begin

text \<open>The properties of the session layer.\<close>

text \<open>C22: whatever the threads of the sessions, the readers of the ports and the configuration do in whatever
  order, no two slots of the session table hold the same open descriptor, every open one in the table
  is one the system still has open, and a thread that has gone back to \<open>AGAIN\<close> holds none.\<close>

theorem sessions_share_no_descriptor:
  assumes "sess_reach ts d"
  shows "length ts = 12 \<and>
    (\<forall>i < 12. \<forall>j < 12. i \<noteq> j \<longrightarrow> owned (snd (ts ! i)) \<inter> owned (snd (ts ! j)) = {}) \<and>
    (\<forall>i < 12. length (sfd (snd (ts ! i))) = 6 \<and> own_distinct (snd (ts ! i)) \<and> owned (snd (ts ! i)) \<subseteq> held (trace d) \<and>
       (fst (ts ! i) = Again \<longrightarrow> owned (snd (ts ! i)) = {}))"
proof -
  have ok: "sess_ok ts d" by (rule sess_reach_ok [OF assms])
  have "owned md = {}" if "thr_ok Again md" for md using that by (auto simp: thr_ok_def owned_def)
  with ok show ?thesis unfolding sess_ok_def by (auto simp: thr_ok_def MAX_SESSION_def live_def)
qed

text \<open>A session of the first port serving TCP.\<close>

definition tcp_server :: CONFIG_SESSION where
  "tcp_server = zero_SESSION\<lparr>protocol := tcp_ptl_code TCP_SRV, lport := 4001, max_num := 6\<rparr>"

definition serving_conf :: CONFI_DATA where
  "serving_conf = demo_conf\<lparr>con_mode := [(default_mode 0)\<lparr>work_mode := WORK_SOCKET, session := tcp_server # replicate 5 zero_SESSION\<rparr>, default_mode 1]\<rparr>"

definition serving :: dev where
  "serving = (demo [])\<lparr>g_conf_info := serving_conf\<rparr>"

definition demo_sock :: sock_env where
  "demo_sock = \<lparr>so_fd = 8, so_reuse = True, so_rcvbuf = True, so_connect = True, so_bind = True, so_listen = True\<rparr>"

definition demo_md_env :: md_env where
  "demo_md_env = \<lparr>me_select = 1, me_ready = {8}, me_accept = 9, me_recv = (\<lambda>_. None)\<rparr>"

text \<open>The device after the server socket has been opened and one client accepted.\<close>

definition opened_dev :: dev where
  "opened_dev = emit (EvListen 8 6) (emit (EvBind 8 4001) (emit (EvSocket 8) serving))"

definition served_thread :: "md_pc \<times> MODECONFIG" where
  "served_thread = (Serving tcp_server, \<lparr>md_id = 0, md_fd = 8, sfd = [9, 0, 0, 0, 0, 0], md_ses = 0\<rparr>)"

lemma served_reach: "sess_reach (start_threads[0 := served_thread]) (emit (EvSocket 9) opened_dev)"
proof -
  let ?md = "\<lambda>fd s. \<lparr>md_id = 0, md_fd = fd, sfd = s, md_ses = 0\<rparr>"
  have z: "replicate MAX_SESSION (0 :: int) = [0, 0, 0, 0, 0, 0]" by (simp add: MAX_SESSION_def eval_nat_numeral)
  have s0: "start_threads ! 0 = (Again, ?md 0 [0, 0, 0, 0, 0, 0])" and l: "length start_threads = 12"
    using start_threads_nth by (simp_all add: z)
  have ses: "md_session (?md fd s) d = Some tcp_server" "md_mode (?md fd s) d = Some ((default_mode 0)\<lparr>work_mode := WORK_SOCKET, session := tcp_server # replicate 5 zero_SESSION\<rparr>)"
    if "g_conf_info d = serving_conf" for fd s d
    using that by (simp_all add: md_session_def md_mode_def serving_conf_def rd_in)
  have conf: "g_conf_info serving = serving_conf" "g_conf_info opened_dev = serving_conf" "trace serving = []"
    by (simp_all add: serving_def opened_dev_def)
  have tcp: "protocol tcp_server = 2" "lport tcp_server = 4001" "max_num tcp_server = 6" by (simp_all add: tcp_server_def)
  have again: "mode_again demo_sock (?md 0 [0, 0, 0, 0, 0, 0]) serving
      = Some (open_with (socket_init demo_sock 4001 6) tcp_server (?md 0 [0, 0, 0, 0, 0, 0]) serving)"
    by (simp add: mode_again_def ses conf tcp WORK_NO_def WORK_SOCKET_def)
  have sock: "socket_init demo_sock 4001 6 serving = (8, opened_dev)"
    by (simp add: socket_init_def demo_sock_def got_socket_def opened_dev_def)
  have r0: "sess_reach start_threads serving" by (rule sess_start) (simp add: conf)
  have "mode_step demo_sock demo_md_env Again (?md 0 [0, 0, 0, 0, 0, 0]) serving = Some (Serving tcp_server, ?md 8 [0, 0, 0, 0, 0, 0], opened_dev)"
    by (simp add: mode_step_def again open_with_def sock)
  then have r1: "sess_reach (start_threads[0 := (Serving tcp_server, ?md 8 [0, 0, 0, 0, 0, 0])]) opened_dev"
    using sess_step [OF r0, of 0 demo_sock demo_md_env] by (simp add: s0 l conf)
  have "mode_step (demo_sock\<lparr>so_fd := -1\<rparr>) demo_md_env (Serving tcp_server) (?md 8 [0, 0, 0, 0, 0, 0]) opened_dev
      = Some (Serving tcp_server, ?md 8 [9, 0, 0, 0, 0, 0], emit (EvSocket 9) opened_dev)"
    by (simp add: mode_step_def mode_loop_def ses conf tcp srv_accept_def demo_md_env_def got_socket_def WORK_NO_def WORK_SOCKET_def)
  moreover have h: "held (trace opened_dev) = {8}" "me_accept demo_md_env = 9" by (simp_all add: opened_dev_def conf held_def demo_md_env_def)
  ultimately have "sess_reach ((start_threads[0 := (Serving tcp_server, ?md 8 [0, 0, 0, 0, 0, 0])])[0 := (Serving tcp_server, ?md 8 [9, 0, 0, 0, 0, 0])]) (emit (EvSocket 9) opened_dev)"
    using sess_step [OF r1, of 0 "demo_sock\<lparr>so_fd := -1\<rparr>" demo_md_env] by (simp add: l h)
  then show ?thesis by (simp add: served_thread_def)
qed

theorem sessions_share_no_descriptor_witness:
  "owned (snd ((start_threads[0 := served_thread]) ! 0)) = {8, 9} \<and> {8, 9} \<subseteq> held (trace (emit (EvSocket 9) opened_dev))"
proof -
  have z: "(start_threads[0 := served_thread]) ! 0 = served_thread" by (simp add: start_threads_nth)
  have "owned (snd ((start_threads[0 := served_thread]) ! 0)) \<subseteq> held (trace (emit (EvSocket 9) opened_dev))"
    using sessions_share_no_descriptor [OF served_reach, THEN conjunct2, THEN conjunct2, rule_format, of 0] by simp
  moreover have "owned (snd ((start_threads[0 := served_thread]) ! 0)) = {8, 9}"
    unfolding z by (auto simp: served_thread_def owned_def)
  ultimately show ?thesis by simp
qed


lemma ok_serving: "ok_dev serving"
proof -
  have "ok_CONFI_DATA serving_conf" using ok_demo_conf
    by (simp add: serving_conf_def ok_CONFI_DATA_def ok_CONFIG_MODE_def ok_CONFIG_SESSION_def default_mode_def tcp_server_def zero_SESSION_def list_all_iff)
  then show ?thesis using ok_demo [of "[]"] by (simp add: serving_def ok_dev_def)
qed


text \<open>When the settings of a session change, or its port is switched off, the next turn of its thread
  closes everything it holds and goes back to \<open>AGAIN\<close> with an empty table.\<close>

theorem changed_session_restarts:
  assumes "thr_ok (Serving tmp) md" "owned md \<subseteq> held (trace d)" "md_mode md d = Some m" "md_session md d = Some s"
    and "work_mode m = WORK_NO \<or> s \<noteq> tmp"
  shows "\<exists>md' d'. mode_step so e (Serving tmp) md d = Some (Again, md', d') \<and> md_fd md' = 0 \<and> sfd md' = replicate 6 0 \<and>
    owned md \<inter> held (trace d') = {} \<and> (\<forall>f > 0. f \<notin> owned md \<longrightarrow> (f \<in> held (trace d') \<longleftrightarrow> f \<in> held (trace d)))"
proof -
  let ?d = "close_each (md_fd md # sfd md) d"
  have "live ?d = live d - owned md" by (auto simp: owned_def dest: live_positive)
  then have l: "f \<in> held (trace ?d) \<longleftrightarrow> f \<in> held (trace d) \<and> f \<notin> owned md" if "0 < f" for f
    using that unfolding live_def by blast
  have z: "map (\<lambda>_. 0 :: int) (sfd md) = replicate 6 0" using assms(1) by (simp add: thr_ok_def MAX_SESSION_def map_replicate_const)
  have pos: "0 < f" if "f \<in> owned md" for f using that by (simp add: owned_def)
  show ?thesis using assms(3-5) l pos
    by (intro exI [of _ "md\<lparr>md_fd := 0, sfd := map (\<lambda>_. 0) (sfd md)\<rparr>"] exI [of _ ?d]) (auto simp: mode_step_def mode_loop_def z)
qed

theorem changed_session_restarts_witness:
  "\<exists>md' d'. mode_step demo_sock demo_md_env (Serving tcp_server) (snd served_thread) ((emit (EvSocket 9) opened_dev)\<lparr>g_conf_info := demo_conf\<rparr>)
     = Some (Again, md', d') \<and> held (trace d') \<inter> {8, 9} = {}"
proof -
  let ?d = "(emit (EvSocket 9) opened_dev)\<lparr>g_conf_info := demo_conf\<rparr>" and ?md = "snd served_thread"
  have t: "thr_ok (Serving tcp_server) ?md" by (simp add: thr_ok_def served_thread_def own_distinct_def tcp_server_def MAX_SESSION_def)
  have o: "owned ?md = {8, 9}" by (auto simp: served_thread_def owned_def)
  have h: "held (trace ?d) = {8, 9}" by (auto simp: opened_dev_def serving_def held_def)
  have m: "md_mode ?md ?d = Some (default_mode 0)" "md_session ?md ?d = Some zero_SESSION"
    by (simp_all add: md_session_def md_mode_def served_thread_def demo_conf_def default_mode_def rd_in)
  have "zero_SESSION \<noteq> tcp_server" by (simp add: tcp_server_def zero_SESSION_def)
  from changed_session_restarts [OF t _ m, of demo_sock demo_md_env] this show ?thesis unfolding o h by (auto simp: Int_commute)
qed

end
