(* ===== verification/Report.thy ===== *)
theory Report
  imports Dns Com
begin

text \<open>
  The discovery service, \<open>report_proc\<close> and its helpers in \<open>nc600-2.0/src/mode.c\<close>: a PC tool asks a
  multicast group for devices with "hello" and sets the one whose address it names with a text of
  fields between bars.

  Every path of \<open>update\<close> uses a pointer it never sets, so the model of a datagram that contains
  "update" is undefined behaviour. \<open>report_start\<close> is \<open>report_proc\<close> up to its loop, \<open>report_turn\<close> one
  turn of the loop.
\<close>

section \<open>Texts\<close>

text \<open>The fields \<open>strtok\<close> finds in a text: the parts between separators that are not empty.\<close>

definition tokens :: "u8 \<Rightarrow> bytes \<Rightarrow> bytes list" where
  "tokens x s = filter (\<lambda>l. l \<noteq> []) (split_on x s)"

text \<open>A step that is made only when \<open>strtok\<close> has found a field number \<open>k\<close>.\<close>

definition with_tok :: "bytes list \<Rightarrow> nat \<Rightarrow> (bytes \<Rightarrow> 'a \<Rightarrow> 'a option) \<Rightarrow> 'a \<Rightarrow> 'a option" where
  "with_tok ts k f x = (if k < length ts then f (ts ! k) x else Some x)"

text \<open>
  \<open>str2hex\<close>: the value of hexadecimal digits, -1 at any other character or for a null pointer. A
  value beyond \<open>int\<close> is an overflow C leaves undefined.
\<close>

definition hex_value :: "u8 \<Rightarrow> nat option" where
  "hex_value c = (if 48 \<le> c \<and> c \<le> 57 then Some (unat c - 48)
     else if 65 \<le> c \<and> c \<le> 70 then Some (unat c - 55)
     else if 97 \<le> c \<and> c \<le> 102 then Some (unat c - 87) else None)"

fun str2hex_loop :: "bytes \<Rightarrow> int \<Rightarrow> int option" where
  "str2hex_loop [] result = Some result"
| "str2hex_loop (c # s) result = (case hex_value c of None \<Rightarrow> Some (-1)
     | Some v \<Rightarrow> let result = result * 16 + int v
                in if 2147483647 < result then None else str2hex_loop s result)"

definition str2hex :: "bytes option \<Rightarrow> int option" where
  "str2hex str = (case str of None \<Rightarrow> Some (-1) | Some s \<Rightarrow> str2hex_loop s 0)"

section \<open>The device's own report\<close>

text \<open>\<open>pc_get_dev_info\<close>: the arrays it copies to are large enough for all but the stored texts.\<close>

definition bar :: "bytes \<Rightarrow> bytes \<Rightarrow> bytes" where
  "bar a b = a @ 124 # b"

definition pc_get_dev_info :: "dev \<Rightarrow> bytes \<Rightarrow> bytes option" where
  "pc_get_dev_info d info = do {
     let n = con_net (g_conf_info d);
     let s = con_server (g_conf_info d);
     ip \<leftarrow> ip2str (dev_ip n);
     nm \<leftarrow> ip2str (dev_nm n);
     gw \<leftarrow> ip2str (dev_gw n);
     a1 \<leftarrow> rd (dns n) 0; dns1 \<leftarrow> ip2str a1;
     a2 \<leftarrow> rd (dns n) 1; dns2 \<leftarrow> ip2str a2;
     str \<leftarrow> strcpy (zeros 50) (dns_str s); name \<leftarrow> cstring str;
     mac \<leftarrow> mac_text (dev_mac n);
     sn \<leftarrow> strcpy (zeros 32) (host_sn (con_sys (g_conf_info d))); serial \<leftarrow> cstring sn;
     strcpy info (bar ip (bar nm (bar gw (bar dns1 (bar dns2 (bar name (bar (decimal (unat (server_port s)))
       (bar mac (bar (bytes_of PROGRAM_VERSION) serial)))))))) @ [0]) }"

section \<open>Settings from the PC tool\<close>

text \<open>The bytes of the hardware address: \<open>dev_mac[i++] = str2hex (q)\<close> for the parts of the text.\<close>

fun store_mac :: "bytes list \<Rightarrow> nat \<Rightarrow> bytes \<Rightarrow> bytes option" where
  "store_mac [] i m = Some m"
| "store_mac (q # qs) i m = do { v \<leftarrow> str2hex (Some q); m \<leftarrow> wr m i (of_int v); store_mac qs (Suc i) m }"

definition set_mac :: "bytes \<Rightarrow> bytes \<Rightarrow> bytes option" where
  "set_mac mac m = (case tokens 58 mac of
       [] \<Rightarrow> do { v \<leftarrow> str2hex None; wr m 0 (of_int v) }
     | qs \<Rightarrow> store_mac qs 0 m)"

definition net_fields :: "bytes list \<Rightarrow> CONFIG_NET \<Rightarrow> CONFIG_NET option" where
  "net_fields ts n = do {
     n \<leftarrow> with_tok ts 1 (\<lambda>p n. do { ip \<leftarrow> sys_str2ip (p @ [0]); Some (n\<lparr>dev_ip := ip\<rparr>) }) n;
     n \<leftarrow> with_tok ts 2 (\<lambda>p n. do { ip \<leftarrow> sys_str2ip (p @ [0]); Some (n\<lparr>dev_nm := ip\<rparr>) }) n;
     n \<leftarrow> with_tok ts 3 (\<lambda>p n. do { ip \<leftarrow> sys_str2ip (p @ [0]); Some (n\<lparr>dev_gw := ip\<rparr>) }) n;
     n \<leftarrow> with_tok ts 4 (\<lambda>p n. do { ip \<leftarrow> sys_str2ip (p @ [0]); l \<leftarrow> wr (dns n) 0 ip; Some (n\<lparr>dns := l\<rparr>) }) n;
     with_tok ts 5 (\<lambda>p n. do { ip \<leftarrow> sys_str2ip (p @ [0]); l \<leftarrow> wr (dns n) 1 ip; Some (n\<lparr>dns := l\<rparr>) }) n }"

definition server_fields :: "bytes list \<Rightarrow> CONFIG_SERVER \<Rightarrow> CONFIG_SERVER option" where
  "server_fields ts s = do {
     s \<leftarrow> with_tok ts 6 (\<lambda>p s. do { t \<leftarrow> strcpy (dns_str s) (p @ [0]); Some (s\<lparr>dns_str := t\<rparr>) }) s;
     with_tok ts 7 (\<lambda>p s. Some (s\<lparr>server_port := of_int (atoi p)\<rparr>)) s }"

text \<open>
  \<open>pc_set_dev_info\<close>. A text without any field has no address to compare, and is obeyed. The
  configuration is saved and the device reboots.
\<close>

definition pc_set_dev_info ::
    "(bytes \<Rightarrow> u32 option) \<Rightarrow> dns_env \<Rightarrow> bytes \<Rightarrow> dev \<Rightarrow> dev option" where
  "pc_set_dev_info gethostbyname q recv_str d = do {
     s \<leftarrow> cstring recv_str;
     let ts = tokens 124 s;
     me \<leftarrow> (if ts = [] then Some True else do { ip \<leftarrow> sys_str2ip (ts ! 0 @ [0]); Some (dev_ip (con_net (g_conf_info d)) = ip) });
     if \<not> me then Some d
     else do {
       conf_net \<leftarrow> net_fields ts (con_net (g_conf_info d));
       con_server \<leftarrow> server_fields ts (con_server (g_conf_info d));
       mac \<leftarrow> with_tok ts 8 (\<lambda>p m. strcpy m (p @ [0])) (zeros 20);
       con_sys \<leftarrow> with_tok ts 9 (\<lambda>p c. do { t \<leftarrow> strcpy (host_sn c) (p @ [0]); Some (c\<lparr>host_sn := t\<rparr>) }) (con_sys (g_conf_info d));
       m \<leftarrow> cstring mac;
       a \<leftarrow> set_mac m (dev_mac conf_net);
       let d = d\<lparr>g_conf_info := (g_conf_info d)\<lparr>con_net := conf_net\<lparr>dev_mac := a\<rparr>, con_server := con_server\<rparr>\<rparr>;
       d \<leftarrow> config_net_set (con_net (g_conf_info d)) d;
       (_, d) \<leftarrow> dns_resolution gethostbyname q (dns_str con_server) d;
       let d = config_save (d\<lparr>g_conf_info := (g_conf_info d)\<lparr>con_sys := con_sys\<rparr>\<rparr>);
       Some (emit (EvSystem (bytes_of ''reboot'')) (emit (EvSleep 1) d)) } }"

section \<open>The service\<close>

definition BUFLEN :: nat where "BUFLEN = 255"
definition GROUP_IP :: u32 where "GROUP_IP = 0x640000ef"
definition GROUP_PORT :: u16 where "GROUP_PORT = 31000"

text \<open>What the system answers while the socket is set up: \<open>None\<close> as the result is a thread that has ended.\<close>

record report_env =
  r_fd :: int       \<comment> \<open>\<open>socket\<close>\<close>
  r_group :: bool   \<comment> \<open>\<open>gethostbyname\<close> of the group's address finds it\<close>
  r_member :: bool  \<comment> \<open>joining the group succeeds\<close>
  r_bind :: bool

definition report_start :: "report_env \<Rightarrow> dev \<Rightarrow> int option \<times> dev" where
  "report_start e d = (let d = emit (EvSocket (r_fd e)) d in
     if r_fd e < 0 then (None, d)
     else if \<not> r_group e then (None, d)
     else if \<not> r_member e then (None, d)
     else if \<not> r_bind e then (None, d)
     else (Some (r_fd e), emit (EvBind (r_fd e) GROUP_PORT) d))"

text \<open>\<open>strstr\<close> over the text of a C string.\<close>

fun contains :: "bytes \<Rightarrow> bytes \<Rightarrow> bool" where
  "contains p [] = (p = [])"
| "contains p (c # s) = (take (length p) (c # s) = p \<or> contains p s)"

text \<open>
  One datagram. The result of \<open>recvfrom\<close> goes into an unsigned number: an error is a length of
  \<open>2^32 - 1\<close>, and the terminator is stored that far behind the array.
\<close>

definition report_turn ::
    "(bytes \<Rightarrow> u32 option) \<Rightarrow> dns_env \<Rightarrow> int \<Rightarrow> bytes option \<Rightarrow> bytes \<Rightarrow> dev \<Rightarrow> (bytes \<times> dev) option" where
  "report_turn gethostbyname q fd r sendmsg d = (case r of
       None \<Rightarrow> None
     | Some g \<Rightarrow> (let g = take BUFLEN g; recmsg = g @ zeros (BUFLEN + 1 - length g) in
         if g = [] then Some (sendmsg, d)
         else do {
           hello \<leftarrow> streq recmsg (bytes_of ''hello'' @ [0]);
           if hello then do {
             sendmsg \<leftarrow> pc_get_dev_info d sendmsg;
             t \<leftarrow> cstring sendmsg;
             Some (sendmsg, emit (EvSendTo fd GROUP_IP GROUP_PORT t) d) }
           else do {
             s \<leftarrow> cstring recmsg;
             if contains (bytes_of ''update'') s then None
             else do { d \<leftarrow> pc_set_dev_info gethostbyname q recmsg d; Some (sendmsg, d) } } }))"

section \<open>Lemmas: fields of a text\<close>

lemma split_on_plain: "x \<notin> set a \<Longrightarrow> split_on x a = [a]"
  by (induction a) auto

lemma split_on_app: "x \<notin> set a \<Longrightarrow> split_on x (a @ x # b) = a # split_on x b"
  by (induction a) auto

lemma tokens_app: "x \<notin> set a \<Longrightarrow> a \<noteq> [] \<Longrightarrow> tokens x (a @ x # b) = a # tokens x b"
  by (simp add: tokens_def split_on_app)

lemma tokens_bar: "124 \<notin> set a \<Longrightarrow> a \<noteq> [] \<Longrightarrow> tokens 124 (bar a b) = a # tokens 124 b"
  by (simp add: bar_def tokens_app)

lemma tokens_plain: "x \<notin> set a \<Longrightarrow> a \<noteq> [] \<Longrightarrow> tokens x a = [a]"
  by (simp add: tokens_def split_on_plain)

lemma digits_no_sep: "124 \<notin> set (decimal n)" "0 \<notin> set (decimal n)"
  by (auto dest!: dec_digits simp: is_digit_def word_le_nat_alt)

lemma ip_text_field: "124 \<notin> set (ip_text ip)" "ip_text ip \<noteq> []"
  using digits_no_sep by (auto simp: ip_text_def)

section \<open>Lemmas: hardware addresses\<close>

lemma hex_digit_facts:
  assumes "n < 16"
  shows "hex_value (hex_digit n) = Some n" "hex_digit n \<noteq> 58" "hex_digit n \<noteq> 124" "hex_digit n \<noteq> 0"
proof -
  have u: "unat (of_nat k :: u8) = k" if "k < 256" for k using that by (simp add: unat_of_nat take_bit_nat_eq_self)
  have v: "unat (hex_digit n) = (if n < 10 then 48 + n else 87 + n)"
    using assms u [of "48 + n"] u [of "87 + n"] by (simp add: hex_digit_def del: of_nat_add)
  show "hex_value (hex_digit n) = Some n" using assms by (simp add: hex_value_def word_le_nat_alt v)
  have "hex_digit n \<noteq> c" if "unat c \<noteq> unat (hex_digit n)" for c using that by blast
  then show "hex_digit n \<noteq> 58" "hex_digit n \<noteq> 124" "hex_digit n \<noteq> 0" using assms by (auto simp: v)
qed

lemma byte_nibbles: "unat (b :: u8) div 16 < 16" "unat (b :: u8) mod 16 < 16"
proof -
  have "unat b < 256" using unsigned_less [of b] by simp
  then show "unat b div 16 < 16" "unat b mod 16 < 16" by (simp_all add: less_mult_imp_div_less)
qed

lemma hex2_facts: "58 \<notin> set (hex2 b)" "124 \<notin> set (hex2 b)" "0 \<notin> set (hex2 b)" "hex2 b \<noteq> []"
  using hex_digit_facts [OF byte_nibbles(1) [of b]] hex_digit_facts [OF byte_nibbles(2) [of b]] by (auto simp: hex2_def)

lemma str2hex_hex2: "str2hex (Some (hex2 b)) = Some (int (unat b))"
proof -
  let ?h = "unat b div 16" and ?l = "unat b mod 16"
  have e: "int ?h * 16 + int ?l = int (unat b)" unfolding zdiv_int zmod_int by simp
  have "unat b < 256" using unsigned_less [of b] by simp
  then have "int (unat b) \<le> 2147483647" "int ?h \<le> 2147483647" using byte_nibbles(1) [of b] by linarith+
  with e show ?thesis
    using hex_digit_facts(1) [OF byte_nibbles(1) [of b]] hex_digit_facts(1) [OF byte_nibbles(2) [of b]]
    by (simp add: str2hex_def hex2_def)
qed

lemma set_mac_text:
  assumes "length m = 6" "length m' = 6"
  shows "\<exists>t. mac_text m = Some t \<and> length t = 17 \<and> set_mac t m' = Some m \<and> 124 \<notin> set t \<and> 0 \<notin> set t \<and> t \<noteq> []"
proof -
  obtain a b c e f g where m: "m = [a, b, c, e, f, g]" using assms(1) by (auto simp: numeral_eq_Suc length_Suc_conv)
  obtain a' b' c' e' f' g' where m': "m' = [a', b', c', e', f', g']" using assms(2) by (auto simp: numeral_eq_Suc length_Suc_conv)
  let ?t = "hex2 a @ 58 # hex2 b @ 58 # hex2 c @ 58 # hex2 e @ 58 # hex2 f @ 58 # hex2 g"
  have "tokens 58 ?t = [hex2 a, hex2 b, hex2 c, hex2 e, hex2 f, hex2 g]"
    by (simp add: tokens_app tokens_plain hex2_facts)
  then have "set_mac ?t m' = Some m"
    by (simp add: set_mac_def str2hex_hex2 m m' wr_in)
  moreover have "mac_text m = Some ?t" by (simp add: m mac_text_def rd_in)
  moreover have "length ?t = 17" "124 \<notin> set ?t" "0 \<notin> set ?t" "?t \<noteq> []" using hex2_facts by auto
  ultimately show ?thesis by blast
qed

end
