(* ===== verification/Report_Props.thy ===== *)
theory Report_Props
  imports Report Link Dns_Props
begin

text \<open>The properties of the discovery service.\<close>

lemma strcpy_field:
  assumes "cstring a = Some s" "length a \<le> length b"
  shows "\<exists>c. strcpy b a = Some c \<and> cstring c = Some s \<and> length c = length b"
proof -
  obtain r where a: "a = s @ 0 # r" "0 \<notin> set s" using cstring_SomeD [OF assms(1)] by blast
  then have "strcpy b a = Some (s @ 0 # drop (length s + 1) b)"
    using assms by (simp add: strcpy_def wrs_def)
  with a assms(2) show ?thesis by (simp add: cstring_append)
qed

lemma length_decimal_word: "length (decimal (unat (w :: u16))) \<le> 5"
proof -
  have "unat w < 65536" using unsigned_less [of w] by simp
  then show ?thesis
    by (simp add: decimal.simps [of "unat w"] decimal.simps [of "unat w div 10"] decimal.simps [of "unat w div 10 div 10"]
        decimal.simps [of "unat w div 10 div 10 div 10"] decimal.simps [of "unat w div 10 div 10 div 10 div 10"])
qed

text \<open>The fields of the report, in the order of the reply.\<close>

definition report_fields :: "dev \<Rightarrow> bytes \<Rightarrow> bytes \<Rightarrow> bytes \<Rightarrow> bytes list" where
  "report_fields d name mac serial = (let n = con_net (g_conf_info d) in
     [ip_text (dev_ip n), ip_text (dev_nm n), ip_text (dev_gw n), ip_text (dns n ! 0), ip_text (dns n ! 1), name,
      decimal (unat (server_port (con_server (g_conf_info d)))), mac, bytes_of PROGRAM_VERSION, serial])"

definition plain :: "bytes \<Rightarrow> bool" where
  "plain s \<longleftrightarrow> s \<noteq> [] \<and> 124 \<notin> set s \<and> 0 \<notin> set s"

lemma plain_fields:
  assumes "plain name" "plain mac" "plain serial" "f \<in> set (report_fields d name mac serial)"
  shows "plain f"
proof -
  have "plain (ip_text i)" "plain (decimal k)" "plain (bytes_of PROGRAM_VERSION)" for i k
    using ip_text_field ip_text_no_nul digits_no_sep by (auto simp: plain_def PROGRAM_VERSION_def bytes_of_def)
  with assms show ?thesis by (auto simp: report_fields_def Let_def)
qed

lemma tokens_joined:
  assumes "\<forall>f \<in> set fs. plain f" "plain l"
  shows "tokens 124 (foldr bar fs l) = fs @ [l]" "0 \<notin> set (foldr bar fs l)"
proof -
  show "tokens 124 (foldr bar fs l) = fs @ [l]" using assms by (induction fs) (simp_all add: tokens_bar tokens_plain plain_def)
  show "0 \<notin> set (foldr bar fs l)" using assms by (induction fs) (simp_all add: bar_def plain_def)
qed

lemma report_text:
  assumes "ok_dev d" "cstring (dns_str (con_server (g_conf_info d))) = Some name" "cstring (host_sn (con_sys (g_conf_info d))) = Some serial"
    "mac_text (dev_mac (con_net (g_conf_info d))) = Some mac" "length mac = 17" "plain name" "plain mac" "plain serial" "length info = 256"
  shows "\<exists>r. pc_get_dev_info d info = Some r \<and> cstring r = Some (foldr bar (butlast (report_fields d name mac serial)) serial)"
proof -
  let ?n = "con_net (g_conf_info d)" and ?t = "foldr bar (butlast (report_fields d name mac serial)) serial"
  have c: "length (dns_str (con_server (g_conf_info d))) = 50" "length (host_sn (con_sys (g_conf_info d))) = 32" "length (dns ?n) = 2"
    using assms(1) by (simp_all add: ok_dev_def ok_CONFI_DATA_def ok_CONFIG_SERVER_def ok_CONFIG_SYS_def ok_CONFIG_NET_def)
  obtain st sn where copies: "strcpy (zeros 50) (dns_str (con_server (g_conf_info d))) = Some st" "cstring st = Some name"
    "strcpy (zeros 32) (host_sn (con_sys (g_conf_info d))) = Some sn" "cstring sn = Some serial"
    using strcpy_field [OF assms(2), of "zeros 50"] strcpy_field [OF assms(3), of "zeros 32"] c by auto
  have "0 \<notin> set ?t" by (rule tokens_joined(2)) (use plain_fields [OF assms(6-8)] assms(8) in \<open>auto dest: in_set_butlastD\<close>)
  moreover have "length name < 50" "length serial < 32" using cstring_SomeD [OF assms(2)] cstring_SomeD [OF assms(3)] c by auto
  then have "length ?t + 1 \<le> 256"
    using length_ip_text [of "dev_ip ?n"] length_ip_text [of "dev_nm ?n"] length_ip_text [of "dev_gw ?n"] length_ip_text [of "dns ?n ! 0"]
      length_ip_text [of "dns ?n ! 1"] length_decimal_word [of "server_port (con_server (g_conf_info d))"] assms(5)
    by (simp add: report_fields_def Let_def bar_def bytes_of_def PROGRAM_VERSION_def)
  ultimately have w: "strcpy info (?t @ [0]) = Some (?t @ 0 # drop (length ?t + 1) info)"
    using assms(9) cstring_append [of ?t "[]"] by (simp add: strcpy_def wrs_def)
  have "pc_get_dev_info d info = strcpy info (?t @ [0])"
    using c(3) by (simp add: pc_get_dev_info_def ip2str_eq rd_in copies assms(4) report_fields_def Let_def)
  with w \<open>0 \<notin> set ?t\<close> show ?thesis by (simp add: cstring_append)
qed

section \<open>Setting a device\<close>

lemma restart_emit: "g_conf_info (restart junk (emit e d)) = g_conf_info (restart junk d)"
  by (simp add: restart_def config_load_def emit_def split: option.splits prod.splits)

text \<open>The PC tool's message: the address of the device meant, then the fields of a report but its version.\<close>

definition settings_message :: "u32 \<Rightarrow> bytes list \<Rightarrow> bytes" where
  "settings_message ip ts = foldr bar (ip_text ip # take 8 ts) (ts ! 9)"

lemma dotted_plain:
  assumes "is_dotted_quad s" "0 \<notin> set s"
  shows "plain s"
proof -
  obtain l0 l1 l2 l3 where l: "labels s = [l0, l1, l2, l3]" using list4 [of "labels s"] assms by (auto simp: is_dotted_quad_def)
  have "\<not> is_digit 124" by (simp add: is_digit_def word_le_nat_alt)
  then have o: "124 \<notin> set l" if "l \<in> set (labels s)" for l
    using assms(1) that unfolding is_dotted_quad_def is_octet_def by blast
  have s: "s = l0 @ 46 # l1 @ 46 # l2 @ 46 # l3" using labels_join [of s] by (simp add: l)
  show ?thesis using o assms(2) by (simp add: l plain_def) (simp add: s)
qed

lemma fields_of_message:
  assumes "plain name" "plain mac" "plain serial"
  shows "tokens 124 (settings_message ip (report_fields d name mac serial)) = ip_text ip # take 8 (report_fields d name mac serial) @ [serial]"
    "0 \<notin> set (settings_message ip (report_fields d name mac serial))"
proof -
  have f: "\<forall>f \<in> set (ip_text ip # take 8 (report_fields d name mac serial)). plain f"
    using plain_fields [OF assms] ip_text_field [of ip] ip_text_no_nul [of ip] by (auto simp: plain_def dest: in_set_takeD)
  show "tokens 124 (settings_message ip (report_fields d name mac serial)) = ip_text ip # take 8 (report_fields d name mac serial) @ [serial]"
    "0 \<notin> set (settings_message ip (report_fields d name mac serial))"
    using tokens_joined [OF f assms(3)] by (simp_all add: settings_message_def report_fields_def Let_def)
qed

lemma net_fields_report:
  assumes "ok_CONFIG_NET n" "length (dns (con_net (g_conf_info d))) = 2"
  shows "net_fields (ip_text ip # take 8 (report_fields d name mac serial) @ [serial]) n = Some (n\<lparr>dev_ip := dev_ip (con_net (g_conf_info d)),
     dev_nm := dev_nm (con_net (g_conf_info d)), dev_gw := dev_gw (con_net (g_conf_info d)), dns := dns (con_net (g_conf_info d))\<rparr>)"
proof -
  obtain a b where a: "dns (con_net (g_conf_info d)) = [a, b]" using assms(2) by (auto simp: numeral_eq_Suc length_Suc_conv)
  obtain x y where x: "dns n = [x, y]" using assms(1) by (auto simp: ok_CONFIG_NET_def numeral_eq_Suc length_Suc_conv)
  have ip: "sys_str2ip (ip_text i @ [0]) = Some i" for i using str2ip_ip_text [of i "[]"] by simp
  show ?thesis by (simp add: net_fields_def with_tok_def report_fields_def Let_def ip a x wr_in)
qed

lemma server_fields_report:
  assumes "length name < length (dns_str s)" "0 \<notin> set name"
  shows "\<exists>st. server_fields (ip_text ip # take 8 (report_fields d name mac serial) @ [serial]) s
    = Some (s\<lparr>dns_str := st, server_port := server_port (con_server (g_conf_info d))\<rparr>) \<and> cstring st = Some name \<and> length st = length (dns_str s)"
proof -
  obtain st where "strcpy (dns_str s) (name @ [0]) = Some st" "cstring st = Some name" "length st = length (dns_str s)"
    using strcpy_field [of "name @ [0]" name "dns_str s"] cstring_append [of name "[]"] assms by auto
  then show ?thesis using atoi_dec [of "[]" "unat (server_port (con_server (g_conf_info d)))"]
    by (intro exI [of _ st]) (simp add: server_fields_def with_tok_def report_fields_def Let_def)
qed

text \<open>A message whose fields are read as \<open>n\<close>, \<open>s\<close>, \<open>a\<close> and \<open>y\<close>, and that names this device or none, is obeyed.\<close>

lemma settings_obeyed:
  assumes "ok_dev d" "flash_writable d" "ok_CONFI_DATA junk"
    and msg: "cstring msg = Some m" "tokens 124 m = ts" "ts = [] \<or> sys_str2ip (ts ! 0 @ [0]) = Some (dev_ip (con_net (g_conf_info d)))"
    and net: "net_fields ts (con_net (g_conf_info d)) = Some n" "ok_CONFIG_NET n"
    and srv: "server_fields ts (con_server (g_conf_info d)) = Some s" "ok_CONFIG_SERVER s"
    and mac: "with_tok ts 8 (\<lambda>p m. strcpy m (p @ [0])) (zeros 20) = Some mc" "cstring mc = Some mt" "set_mac mt (dev_mac n) = Some a" "length a = 6"
    and sys: "with_tok ts 9 (\<lambda>p c. do { t \<leftarrow> strcpy (host_sn c) (p @ [0]); Some (c\<lparr>host_sn := t\<rparr>) }) (con_sys (g_conf_info d)) = Some y"
      "ok_CONFIG_SYS y"
    and name: "cstring (dns_str s) = Some name" "is_dotted_quad name" "g name = Some w"
  shows "\<exists>d'. pc_set_dev_info g q msg d = Some d' \<and>
    g_conf_info d' = (g_conf_info d)\<lparr>con_net := n\<lparr>dev_mac := a\<rparr>, con_server := s\<lparr>server_ip := w\<rparr>, con_sys := y\<rparr> \<and>
    last (trace d') = EvSystem (bytes_of ''reboot'') \<and> g_conf_info (restart junk d') = g_conf_info d'"
proof -
  let ?c = "g_conf_info d" and ?n = "n\<lparr>dev_mac := a\<rparr>"
  let ?d1 = "d\<lparr>g_conf_info := ?c\<lparr>con_net := ?n, con_server := s\<rparr>\<rparr>"
  have okn: "ok_CONFIG_NET ?n" using net(2) mac(4) by (simp add: ok_CONFIG_NET_def)
  obtain tr where run: "config_net_set ?n ?d1 = Some (?d1\<lparr>trace := tr\<rparr>)"
    using config_net_set_eq [of ?n ?d1] okn by (auto simp: ok_CONFIG_NET_def)
  let ?d2 = "?d1\<lparr>trace := tr\<rparr>"
  let ?d3 = "?d2\<lparr>g_conf_info := ?c\<lparr>con_net := ?n, con_server := s\<lparr>server_ip := w\<rparr>\<rparr>\<rparr>"
  let ?conf = "?c\<lparr>con_net := ?n, con_server := s\<lparr>server_ip := w\<rparr>, con_sys := y\<rparr>"
  let ?d' = "emit (EvSystem (bytes_of ''reboot'')) (emit (EvSleep 1) (config_save (?d3\<lparr>g_conf_info := ?conf\<rparr>)))"
  have "set_server (\<lambda>c. c\<lparr>server_ip := w\<rparr>) ?d2 = ?d3" by (cases d; cases "g_conf_info d") (simp add: set_server_def)
  then have res: "dns_resolution g q (dns_str s) ?d2 = Some (DNS_OK, ?d3)"
    using dns_resolution_address [of ?d2 name g w q] name by simp
  have me: "(if ts = [] then Some True
      else do { ip \<leftarrow> sys_str2ip (ts ! 0 @ [0]); Some (dev_ip (con_net (g_conf_info d)) = ip) }) = Some True"
    using msg(3) by auto
  have "pc_set_dev_info g q msg d = Some ?d'"
    using run res by (simp add: pc_set_dev_info_def msg(1,2) me net(1) srv(1) mac(1-3) sys(1))
  moreover have "ok_CONFI_DATA ?conf" using assms(1) okn srv(2) sys(2)
    by (simp add: ok_dev_def ok_CONFI_DATA_def ok_CONFIG_SERVER_def)
  then have "g_conf_info (restart junk (config_save (?d3\<lparr>g_conf_info := ?conf\<rparr>))) = ?conf"
    using store.restart_save [of "?d3\<lparr>g_conf_info := ?conf\<rparr>" junk] assms(2,3) by simp
  then have "g_conf_info (restart junk ?d') = ?conf" by (rule trans [OF restart_emit trans [OF restart_emit]])
  ultimately show ?thesis by (intro exI [of _ ?d']) simp
qed

text \<open>The parts of the transfer: the report read by its receiver, and the message made of it obeyed.\<close>

lemma report_read:
  assumes "ok_dev d" "length info = 256" "cstring (dns_str (con_server (g_conf_info d))) = Some name" "plain name"
    and "mac_text (dev_mac (con_net (g_conf_info d))) = Some mac" "length mac = 17" "plain mac"
    and "cstring (host_sn (con_sys (g_conf_info d))) = Some serial" "plain serial"
  obtains r t where "pc_get_dev_info d info = Some r" "cstring r = Some t" "tokens 124 t = report_fields d name mac serial"
proof -
  let ?fs = "report_fields d name mac serial"
  obtain r where r: "pc_get_dev_info d info = Some r" "cstring r = Some (foldr bar (butlast ?fs) serial)"
    using report_text [OF assms(1,3,8,5,6,4,7,9,2)] by blast
  have "tokens 124 (foldr bar (butlast ?fs) serial) = butlast ?fs @ [serial]"
    by (rule tokens_joined(1)) (use plain_fields [OF assms(4,7,9)] assms(9) in \<open>auto dest: in_set_butlastD\<close>)
  then have "tokens 124 (foldr bar (butlast ?fs) serial) = ?fs" by (simp add: report_fields_def Let_def)
  with r show thesis by (rule that)
qed

lemma report_obeyed:
  assumes "ok_dev dA" "ok_dev dB" "flash_writable dB" "ok_CONFI_DATA junk"
    and "cstring (dns_str (con_server (g_conf_info dA))) = Some name" "is_dotted_quad name" "g name = Some w" "plain name"
    and "length mac = 17" "plain mac" "set_mac mac (dev_mac (con_net (g_conf_info dB))) = Some (dev_mac (con_net (g_conf_info dA)))"
    and "plain serial" "length serial < 32"
  obtains d' st sc where
    "pc_set_dev_info g q (settings_message (dev_ip (con_net (g_conf_info dB))) (report_fields dA name mac serial) @ [0]) dB = Some d'"
    "last (trace d') = EvSystem (bytes_of ''reboot'')" "g_conf_info (restart junk d') = g_conf_info d'"
    "g_conf_info d' = (g_conf_info dB)\<lparr>con_net := ((con_net (g_conf_info dB))\<lparr>dev_ip := dev_ip (con_net (g_conf_info dA)), dev_nm := dev_nm (con_net (g_conf_info dA)),
         dev_gw := dev_gw (con_net (g_conf_info dA)), dns := dns (con_net (g_conf_info dA)), dev_mac := dev_mac (con_net (g_conf_info dA))\<rparr>),
       con_server := (con_server (g_conf_info dB))\<lparr>dns_str := st, server_port := server_port (con_server (g_conf_info dA)), server_ip := w\<rparr>,
       con_sys := (con_sys (g_conf_info dB))\<lparr>host_sn := sc\<rparr>\<rparr>"
    "cstring st = Some name" "cstring sc = Some serial"
proof -
  let ?A = "g_conf_info dA" and ?B = "g_conf_info dB" and ?ip = "dev_ip (con_net (g_conf_info dB))"
  have len: "length (dev_mac (con_net ?A)) = 6" "length (dns (con_net ?A)) = 2" "length (dns_str (con_server ?B)) = 50" "length (host_sn (con_sys ?B)) = 32"
    and okB: "ok_CONFIG_NET (con_net ?B)" "ok_CONFI_DATA ?B" and nm: "0 \<notin> set name" "length name < 50"
    using assms(1,2) cstring_SomeD [OF assms(5)]
    by (auto simp: ok_dev_def ok_CONFI_DATA_def ok_CONFIG_SERVER_def ok_CONFIG_SYS_def ok_CONFIG_NET_def)
  let ?fs = "report_fields dA name mac serial"
  let ?ts = "ip_text ?ip # take 8 ?fs @ [serial]"
  let ?msg = "settings_message ?ip ?fs @ [0]"
  have m: "cstring ?msg = Some (settings_message ?ip ?fs)" "tokens 124 (settings_message ?ip ?fs) = ?ts"
    using fields_of_message [OF assms(8,10,12), of ?ip dA] cstring_append [of _ "[]"] by auto
  let ?n = "(con_net ?B)\<lparr>dev_ip := dev_ip (con_net ?A), dev_nm := dev_nm (con_net ?A), dev_gw := dev_gw (con_net ?A), dns := dns (con_net ?A)\<rparr>"
  have net: "net_fields ?ts (con_net ?B) = Some ?n" by (rule net_fields_report [OF okB(1) len(2)])
  obtain st where srv: "server_fields ?ts (con_server ?B) = Some ((con_server ?B)\<lparr>dns_str := st, server_port := server_port (con_server ?A)\<rparr>)"
    "cstring st = Some name" "length st = 50"
    using server_fields_report [of name "con_server ?B" ?ip dA mac serial] nm len(3) by auto
  let ?s1 = "(con_server ?B)\<lparr>dns_str := st, server_port := server_port (con_server ?A)\<rparr>"
  have tok: "length ?ts = 10" "?ts ! 0 = ip_text ?ip" "?ts ! 8 = mac" "?ts ! 9 = serial" "?ts \<noteq> []"
    by (simp_all add: report_fields_def Let_def)
  obtain mc where mc: "strcpy (zeros 20) (mac @ [0]) = Some mc" "cstring mc = Some mac"
    using strcpy_field [of "mac @ [0]" mac "zeros 20"] cstring_append [of mac "[]"] assms(9,10) by (auto simp: plain_def)
  obtain sc where sc: "strcpy (host_sn (con_sys ?B)) (serial @ [0]) = Some sc" "cstring sc = Some serial" "length sc = 32"
    using strcpy_field [of "serial @ [0]" serial "host_sn (con_sys ?B)"] cstring_append [of serial "[]"] assms(12,13) len(4) by (auto simp: plain_def)
  have sys: "with_tok ?ts 9 (\<lambda>p c. do { t \<leftarrow> strcpy (host_sn c) (p @ [0]); Some (c\<lparr>host_sn := t\<rparr>) }) (con_sys ?B) = Some ((con_sys ?B)\<lparr>host_sn := sc\<rparr>)"
    and macf: "with_tok ?ts 8 (\<lambda>p m. strcpy m (p @ [0])) (zeros 20) = Some mc"
    unfolding with_tok_def tok by (simp_all add: sc(1) mc(1))
  have oks: "ok_CONFIG_NET ?n" "ok_CONFIG_SERVER ?s1" "ok_CONFIG_SYS ((con_sys ?B)\<lparr>host_sn := sc\<rparr>)"
    using okB len(2) srv(3) sc(3) by (simp_all add: ok_CONFI_DATA_def ok_CONFIG_NET_def ok_CONFIG_SERVER_def ok_CONFIG_SYS_def)
  have ip: "sys_str2ip (?ts ! 0 @ [0]) = Some ?ip" using str2ip_ip_text [of ?ip "[]"] tok(2) by simp
  have "set_mac mac (dev_mac ?n) = Some (dev_mac (con_net ?A))" "cstring (dns_str ?s1) = Some name" using assms(11) srv(2) by simp_all
  from settings_obeyed [where g = g and q = q, OF assms(2,3,4) m disjI2 [OF ip] net oks(1) srv(1) oks(2) macf mc(2) this(1) len(1) sys oks(3) this(2) assms(6,7)]
  obtain d' where d': "pc_set_dev_info g q ?msg dB = Some d'" "last (trace d') = EvSystem (bytes_of ''reboot'')" "g_conf_info (restart junk d') = g_conf_info d'"
    "g_conf_info d' = ?B\<lparr>con_net := ?n\<lparr>dev_mac := dev_mac (con_net ?A)\<rparr>, con_server := ?s1\<lparr>server_ip := w\<rparr>, con_sys := (con_sys ?B)\<lparr>host_sn := sc\<rparr>\<rparr>" by blast
  show thesis by (rule that [OF d'(1-3) _ srv(2) sc(2)]) (simp add: d'(4))
qed

text \<open>C25: a device that is sent the report of another one under its own address takes over its network
  settings, hardware address, server and serial number, keeps the rest of its configuration, has it
  again after the restart it makes at the end, and finds the server by its address.\<close>

theorem report_transfers_settings:
  assumes "ok_dev dA" "ok_dev dB" "length info = 256" "flash_writable dB" "ok_CONFI_DATA junk"
    and "cstring (dns_str (con_server (g_conf_info dA))) = Some name" "is_dotted_quad name" "g name = Some w"
    and "cstring (host_sn (con_sys (g_conf_info dA))) = Some serial" "serial \<noteq> []" "124 \<notin> set serial"
  shows "\<exists>r t d' c n s. pc_get_dev_info dA info = Some r \<and> cstring r = Some t \<and> length (tokens 124 t) = 10 \<and>
    pc_set_dev_info g q (settings_message (dev_ip (con_net (g_conf_info dB))) (tokens 124 t) @ [0]) dB = Some d' \<and>
    g_conf_info d' = (g_conf_info dB)\<lparr>con_net := n, con_server := s, con_sys := c\<rparr> \<and>
    g_conf_info (restart junk d') = g_conf_info d' \<and> last (trace d') = EvSystem (bytes_of ''reboot'') \<and>
    n = (con_net (g_conf_info dA))\<lparr>dev_dhcp := dev_dhcp (con_net (g_conf_info dB)), dhcp_id := dhcp_id (con_net (g_conf_info dB)),
           net_rsvd := net_rsvd (con_net (g_conf_info dB))\<rparr> \<and>
    server_ip s = w \<and> server_port s = server_port (con_server (g_conf_info dA)) \<and> cstring (dns_str s) = Some name \<and>
    cstring (host_sn c) = Some serial"
proof -
  let ?A = "g_conf_info dA" and ?B = "g_conf_info dB" and ?ip = "dev_ip (con_net (g_conf_info dB))"
  have len: "length (dev_mac (con_net ?A)) = 6" "length (dev_mac (con_net ?B)) = 6" "length (dns (con_net ?A)) = 2"
    "length (dns_str (con_server ?A)) = 50" "length (dns_str (con_server ?B)) = 50" "length (host_sn (con_sys ?A)) = 32" "length (host_sn (con_sys ?B)) = 32"
    and okB: "ok_CONFIG_NET (con_net ?B)" "ok_CONFI_DATA ?B"
    using assms(1,2) by (simp_all add: ok_dev_def ok_CONFI_DATA_def ok_CONFIG_SERVER_def ok_CONFIG_SYS_def ok_CONFIG_NET_def)
  obtain mac where mac: "mac_text (dev_mac (con_net ?A)) = Some mac" "length mac = 17" "plain mac"
    "set_mac mac (dev_mac (con_net ?B)) = Some (dev_mac (con_net ?A))"
    using set_mac_text [OF len(1,2)] by (auto simp: plain_def)
  have nm: "0 \<notin> set name" "length name < 50" using cstring_SomeD [OF assms(6)] len(4) by auto
  have sn: "0 \<notin> set serial" "length serial < 32" using cstring_SomeD [OF assms(9)] len(6) by auto
  have p: "plain name" "plain serial" using dotted_plain [OF assms(7) nm(1)] assms(10,11) sn by (simp_all add: plain_def)
  obtain r t where r: "pc_get_dev_info dA info = Some r" "cstring r = Some t" "tokens 124 t = report_fields dA name mac serial"
    using report_read [OF assms(1,3,6) p(1) mac(1-3) assms(9) p(2)] by blast
  obtain d' st sc where d': "pc_set_dev_info g q (settings_message ?ip (tokens 124 t) @ [0]) dB = Some d'"
    "last (trace d') = EvSystem (bytes_of ''reboot'')" "g_conf_info (restart junk d') = g_conf_info d'"
    "g_conf_info d' = ?B\<lparr>con_net := ((con_net (g_conf_info dB))\<lparr>dev_ip := dev_ip (con_net (g_conf_info dA)), dev_nm := dev_nm (con_net (g_conf_info dA)),
         dev_gw := dev_gw (con_net (g_conf_info dA)), dns := dns (con_net (g_conf_info dA)), dev_mac := dev_mac (con_net (g_conf_info dA))\<rparr>),
       con_server := (con_server ?B)\<lparr>dns_str := st, server_port := server_port (con_server ?A), server_ip := w\<rparr>, con_sys := (con_sys ?B)\<lparr>host_sn := sc\<rparr>\<rparr>"
    "cstring st = Some name" "cstring sc = Some serial"
    unfolding r(3) by (rule report_obeyed [where g = g and q = q, OF assms(1,2,4,5,6,7,8) p(1) mac(2-4) p(2) sn(2)])
  have "length (tokens 124 t) = 10" by (simp add: r(3) report_fields_def Let_def)
  with d' r show ?thesis
    by (intro exI [of _ r] exI [of _ t] exI [of _ d'] exI [of _ "(con_sys ?B)\<lparr>host_sn := sc\<rparr>"] exI [of _ "((con_net (g_conf_info dB))\<lparr>dev_ip := dev_ip (con_net (g_conf_info dA)), dev_nm := dev_nm (con_net (g_conf_info dA)),
         dev_gw := dev_gw (con_net (g_conf_info dA)), dns := dns (con_net (g_conf_info dA)), dev_mac := dev_mac (con_net (g_conf_info dA))\<rparr>)"]
        exI [of _ "(con_server ?B)\<lparr>dns_str := st, server_port := server_port (con_server ?A), server_ip := w\<rparr>"]) simp
qed

definition numbered :: dev where
  "numbered = (demo [])\<lparr>g_conf_info := demo_conf\<lparr>con_sys := (con_sys demo_conf)\<lparr>host_sn := pad 32 (bytes_of ''SN1'')\<rparr>\<rparr>\<rparr>"

lemma numbered_facts:
  "ok_dev numbered" "con_server (g_conf_info numbered) = con_server demo_conf" "cstring (host_sn (con_sys (g_conf_info numbered))) = Some (bytes_of ''SN1'')"
proof -
  show "ok_dev numbered" using ok_demo [of "[]"]
    by (simp add: numbered_def ok_dev_def ok_CONFI_DATA_def ok_CONFIG_SYS_def bytes_of_def)
  show "con_server (g_conf_info numbered) = con_server demo_conf" by (simp add: numbered_def)
  have "pad 32 (bytes_of ''SN1'') = bytes_of ''SN1'' @ 0 # zeros 28"
    by (simp add: pad_def zeros_def bytes_of_def flip: replicate_Suc)
  then show "cstring (host_sn (con_sys (g_conf_info numbered))) = Some (bytes_of ''SN1'')"
    by (simp add: numbered_def cstring_append bytes_of_def)
qed

theorem report_transfers_settings_witness:
  "\<exists>t d'. pc_get_dev_info numbered (zeros 256) \<noteq> None \<and>
     pc_set_dev_info (\<lambda>_. Some 0x6c01a8c0) demo_dns (settings_message 0xa601a8c0 (tokens 124 t) @ [0]) (demo []) = Some d' \<and>
     cstring (host_sn (con_sys (g_conf_info d'))) = Some (bytes_of ''SN1'') \<and> last (trace d') = EvSystem (bytes_of ''reboot'')"
proof -
  have ip: "dev_ip (con_net demo_conf) = 0xa601a8c0" by (simp add: demo_conf_def)
  have sn: "bytes_of ''SN1'' \<noteq> []" "124 \<notin> set (bytes_of ''SN1'')" by (simp_all add: bytes_of_def)
  have w: "flash_writable (demo [])" "length (zeros 256) = 256" by simp_all
  have dns: "cstring (dns_str (con_server (g_conf_info numbered))) = Some (bytes_of SERVER_DNS)" using numbered_facts(2) demo_server(1) by simp
  have ok: "ok_dev (demo [])" by (rule ok_demo) simp
  have c: "dev_ip (con_net (g_conf_info (demo []))) = 0xa601a8c0" using ip by simp
  obtain r t d' c n s where r: "pc_get_dev_info numbered (zeros 256) = Some r"
    and d': "pc_set_dev_info (\<lambda>_. Some 0x6c01a8c0) demo_dns
      (settings_message (dev_ip (con_net (g_conf_info (demo [])))) (tokens 124 t) @ [0]) (demo []) = Some d'"
      "g_conf_info d' = (g_conf_info (demo []))\<lparr>con_net := n, con_server := s, con_sys := c\<rparr>"
      "last (trace d') = EvSystem (bytes_of ''reboot'')" "cstring (host_sn c) = Some (bytes_of ''SN1'')"
    using report_transfers_settings [OF numbered_facts(1) ok w(2,1) ok_demo_conf dns demo_server(2) _ numbered_facts(3) sn, of "\<lambda>_. Some 0x6c01a8c0" "0x6c01a8c0" demo_dns]
    by blast
  show ?thesis using r d' unfolding c by (intro exI [of _ t] exI [of _ d']) simp
qed

text \<open>A message without any field, such as one that begins with a NUL byte, addresses no device and is obeyed
  by every one: the first byte of the hardware address becomes 255, and the device saves it and reboots.\<close>

theorem nameless_message_obeyed:
  assumes "ok_dev d" "flash_writable d" "ok_CONFI_DATA junk" "cstring msg = Some s" "tokens 124 s = []"
    and "cstring (dns_str (con_server (g_conf_info d))) = Some name" "is_dotted_quad name" "g name = Some w"
  shows "\<exists>d'. pc_set_dev_info g q msg d = Some d' \<and> last (trace d') = EvSystem (bytes_of ''reboot'') \<and>
    dev_mac (con_net (g_conf_info d')) = (dev_mac (con_net (g_conf_info d)))[0 := 255] \<and> g_conf_info (restart junk d') = g_conf_info d'"
proof -
  let ?n = "con_net (g_conf_info d)"
  have ok: "ok_CONFIG_NET ?n" "length (dev_mac ?n) = 6" "ok_CONFIG_SERVER (con_server (g_conf_info d))" "ok_CONFIG_SYS (con_sys (g_conf_info d))"
    using assms(1) by (simp_all add: ok_dev_def ok_CONFI_DATA_def ok_CONFIG_NET_def)
  have z: "cstring (zeros 20) = Some []" by (simp add: zeros_def numeral_eq_Suc)
  have ff: "(- 1 :: u8) = 255" by simp
  have m: "set_mac [] (dev_mac ?n) = Some ((dev_mac ?n)[0 := 255])"
    using ok(2) by (simp add: set_mac_def tokens_def str2hex_def wr_in ff)
  have "net_fields [] ?n = Some ?n" "server_fields [] (con_server (g_conf_info d)) = Some (con_server (g_conf_info d))"
    by (simp_all add: net_fields_def server_fields_def with_tok_def)
  from settings_obeyed [where g = g and q = q, OF assms(1-5) disjI1 [OF refl] this(1) ok(1) this(2) ok(3) _ z m _ _ ok(4) assms(6-8)] ok(2)
  show ?thesis by (auto simp: with_tok_def)
qed

theorem nameless_message_obeyed_witness:
  "\<exists>d'. pc_set_dev_info (\<lambda>_. Some 0x6c01a8c0) demo_dns (zeros 256) (demo []) = Some d' \<and>
     dev_mac (con_net (g_conf_info d')) = [255, 0x5c, 0x47, 0, 0, 1]"
proof -
  have z: "cstring (zeros 256) = Some []" using cstring_append [of "[]" "zeros 255"] by (simp add: zeros_def flip: replicate_Suc)
  have m: "dev_mac (con_net demo_conf) = [0x88, 0x5c, 0x47, 0, 0, 1]" by (simp add: demo_conf_def)
  have ok: "ok_dev (demo [])" by (rule ok_demo) simp
  show ?thesis
    using nameless_message_obeyed [OF ok _ ok_demo_conf z _ _ demo_server(2), of "\<lambda>_. Some 0x6c01a8c0" "0x6c01a8c0" demo_dns] demo_server(1)
    by (auto simp: m tokens_def)
qed

end
