(* ===== verification/ItsNet.thy ===== *)
theory ItsNet
  imports WebServer
begin

text \<open>
  The network part of the client library, \<open>itslib/src/net.c\<close>: the management programs use it to
  talk to the daemon. It is a process of its own; \<open>lib\<close> holds the local connection of one call and
  what the operating system will answer.
\<close>

section \<open>State\<close>

text \<open>One receive: \<open>select\<close> failed or gave up after three seconds, \<open>recv\<close> failed, or up to \<open>n\<close> bytes.\<close>

datatype lrx_ev = LrxNone | LrxErr | LrxGot nat

record lib =
  l_fd :: int               \<comment> \<open>\<open>client_conn\<close>\<close>
  l_file :: u8              \<comment> \<open>\<open>file_type\<close>\<close>
  l_idle :: u8
  l_socket :: int           \<comment> \<open>what \<open>socket\<close> returns\<close>
  l_connect :: bool
  l_tx :: "tx_ev list"
  l_starts :: "u64 list"
  l_rx :: "lrx_ev list"
  l_inp :: bytes            \<comment> \<open>what the daemon has sent\<close>
  l_trace :: "event list"

definition lemit :: "event \<Rightarrow> lib \<Rightarrow> lib" where
  "lemit e l = l\<lparr>l_trace := l_trace l @ [e]\<rparr>"

definition WEB_IP :: u32 where "WEB_IP = 0x0100007f"

section \<open>Operations\<close>

definition lib_conn_close :: "lib \<Rightarrow> lib" where
  "lib_conn_close l = (if 0 < l_fd l
     then (lemit (EvClose (l_fd l)) l)\<lparr>l_fd := -1, l_file := 0xff\<rparr> else l)"

definition net_conn_connect :: "lib \<Rightarrow> int \<times> lib" where
  "net_conn_connect l = (let l = l\<lparr>l_fd := l_socket l\<rparr> in
     if l_fd l < 0 then (FAILURE, l)
     else let l = lemit (EvConnect (l_fd l) WEB_IP WEB_PORT) (lemit (EvSocket (l_fd l)) l) in
       if \<not> l_connect l then (FAILURE, lemit (EvClose (l_fd l)) l) else (SUCCESS, l))"

text \<open>The loop of \<open>net_conn_send_pkt\<close>; the outcomes of its turns are those of the daemon's.\<close>

definition lib_fail :: "lib \<Rightarrow> int \<times> lib" where
  "lib_fail l = (FAILURE, lib_conn_close l)"

fun lib_send_loop :: "tx_ev list \<Rightarrow> u64 \<Rightarrow> bytes \<Rightarrow> lib \<Rightarrow> int \<times> lib" where
  "lib_send_loop [] ms1 p l = (if p = [] then lib_fail (l\<lparr>l_tx := []\<rparr>)
     else (SUCCESS, lemit (EvWrite (l_fd l) p) (l\<lparr>l_tx := []\<rparr>)))"
| "lib_send_loop (TxIntr # sc) ms1 p l = lib_send_loop sc ms1 p l"
| "lib_send_loop (TxSelErr # sc) ms1 p l = lib_fail (l\<lparr>l_tx := sc\<rparr>)"
| "lib_send_loop (TxIdle ms2 # sc) ms1 p l =
     (if timed_out ms1 ms2 then lib_fail (l\<lparr>l_tx := sc\<rparr>) else lib_send_loop sc ms1 p l)"
| "lib_send_loop (TxErr # sc) ms1 p l = lib_fail (l\<lparr>l_tx := sc\<rparr>)"
| "lib_send_loop (TxSent n t3 # sc) ms1 p l = (let
     send_cnt = min n (length p)
   in if send_cnt = 0 then lib_fail (l\<lparr>l_tx := sc\<rparr>)
      else let l = lemit (EvWrite (l_fd l) (take send_cnt p)) l
      in if length p - send_cnt = 0 then (SUCCESS, l\<lparr>l_tx := sc\<rparr>)
      else if timed_out ms1 t3 then lib_fail (l\<lparr>l_tx := sc\<rparr>)
      else lib_send_loop sc ms1 (drop send_cnt p) l)"

definition lib_start :: "lib \<Rightarrow> u64 \<times> lib" where
  "lib_start l = (case l_starts l of [] \<Rightarrow> (0, l) | t # ts \<Rightarrow> (t, l\<lparr>l_starts := ts\<rparr>))"

definition lib_send_pkt :: "bytes \<Rightarrow> lib \<Rightarrow> int \<times> lib" where
  "lib_send_pkt p l = (if l_fd l \<le> 0 then (FAILURE, l)
     else let (ms1, l) = lib_start (l\<lparr>l_idle := 0\<rparr>) in lib_send_loop (l_tx l) ms1 p l)"

text \<open>
  \<open>net_conn_send\<close>: whatever the length, \<open>MAX_LENGTH\<close> bytes are sent from the address. As in the
  daemon the argument is what lies in memory from there on.
\<close>

definition lib_send :: "ITSIP \<Rightarrow> bytes option \<Rightarrow> nat \<Rightarrow> lib \<Rightarrow> (int \<times> lib) option" where
  "lib_send net_head net_data len l = (let (ret, l) = lib_send_pkt (enc_ITSIP net_head) l
   in case net_data of None \<Rightarrow> Some (ret, l)
      | Some mem \<Rightarrow> if 0 < len then do { p \<leftarrow> rds mem 0 MAX_LENGTH; Some (lib_send_pkt p l) }
                   else Some (ret, l))"

text \<open>
  \<open>net_conn_recv\<close>: one \<open>recv\<close>, a failure unless it delivers all \<open>len\<close> bytes at once. What it delivers
  is stored at \<open>dst\<close>, outside of which the model does not go.
\<close>

definition net_conn_recv :: "bytes \<Rightarrow> nat \<Rightarrow> lib \<Rightarrow> (int \<times> bytes \<times> lib) option" where
  "net_conn_recv dst len l = (if l_fd l < 0 then None else case l_rx l of
       [] \<Rightarrow> Some (FAILURE, dst, l)
     | LrxNone # sc \<Rightarrow> Some (FAILURE, dst, l\<lparr>l_rx := sc\<rparr>)
     | LrxErr # sc \<Rightarrow> Some (FAILURE, dst, l\<lparr>l_rx := sc\<rparr>)
     | LrxGot n # sc \<Rightarrow> do {
         let got = take (min n len) (l_inp l);
         dst \<leftarrow> wrs dst 0 got;
         Some (if length got \<noteq> len then FAILURE else SUCCESS, dst,
           l\<lparr>l_rx := sc, l_inp := drop (length got) (l_inp l)\<rparr>) })"

end
