(* ===== verification/ItsCmd.thy ===== *)
theory ItsCmd
  imports ItsNet
begin

text \<open>
  The calls of the client library, \<open>itslib/src/itscmd.c\<close>. \<open>pak\<close> is the head of the packet on the
  stack before \<open>itsip_pack\<close>: the fields a call does not set are sent as they are. \<open>mem\<close> is the
  memory behind the structure a call is given.
\<close>

section \<open>What the calls share\<close>

text \<open>Connect, send, receive the head of the reply: an error code with the connection closed, or the head.\<close>

definition its_request :: "ITSIP \<Rightarrow> bytes option \<Rightarrow> nat \<Rightarrow> int \<Rightarrow> lib \<Rightarrow> ((int + ITSIP) \<times> lib) option" where
  "its_request pak data n bad l = do {
     let (r, l) = net_conn_connect l;
     if r = FAILURE then Some (Inl (cmd_code CONN_FAILED), l) else do {
       (r, l) \<leftarrow> lib_send pak data n l;
       if r = FAILURE then Some (Inl (cmd_code SEND_FAILED), lib_conn_close l) else do {
         (r, b, l) \<leftarrow> net_conn_recv (enc_ITSIP pak) 56 l;
         if r = FAILURE then Some (Inl bad, lib_conn_close l) else do {
           (h, _) \<leftarrow> dec_ITSIP b;
           Some (Inr h, l) } } } }"

text \<open>A setting: the first data byte of the reply is the result.\<close>

definition its_set :: "ITSIP \<Rightarrow> bytes option \<Rightarrow> nat \<Rightarrow> lib \<Rightarrow> (int \<times> lib) option" where
  "its_set pak data n l = do {
     (r, l) \<leftarrow> its_request pak data n (cmd_code RECV_FAILED) l;
     case r of Inl code \<Rightarrow> Some (code, l)
     | Inr h \<Rightarrow> do { v \<leftarrow> rd (itsip_data h) 0; Some (uint v, lib_conn_close l) } }"

text \<open>A query: as many bytes as the reply announces go to the structure whose image is \<open>img\<close>.\<close>

definition its_query :: "ITSIP \<Rightarrow> int \<Rightarrow> bytes \<Rightarrow> (bytes \<Rightarrow> ('a \<times> bytes) option) \<Rightarrow> lib \<Rightarrow> (int \<times> 'a \<times> lib) option" where
  "its_query pak bad img dec l = do {
     (r, l) \<leftarrow> its_request pak None 0 bad l;
     case r of Inl code \<Rightarrow> do { (x, _) \<leftarrow> dec img; Some (code, x, l) }
     | Inr h \<Rightarrow> do {
         (r, b, l) \<leftarrow> net_conn_recv img (unat (itsip_extlen h)) l;
         (x, _) \<leftarrow> dec b;
         Some (if r = FAILURE then cmd_code RECV_FAILED else cmd_code QUERY_OK, x, lib_conn_close l) } }"

definition with_user :: "bytes \<Rightarrow> ITSIP \<Rightarrow> ITSIP option" where
  "with_user name pak = do { u \<leftarrow> strcpy (itsip_user pak) name; Some (pak\<lparr>itsip_user := u\<rparr>) }"

definition with_data :: "nat \<Rightarrow> u8 \<Rightarrow> ITSIP \<Rightarrow> ITSIP option" where
  "with_data i x pak = do { b \<leftarrow> wr (itsip_data pak) i x; Some (pak\<lparr>itsip_data := b\<rparr>) }"

section \<open>Login and users\<close>

definition user_login :: "(bytes \<Rightarrow> bytes \<Rightarrow> bytes) \<Rightarrow> bytes \<Rightarrow> bytes \<Rightarrow> ITSIP \<Rightarrow> lib \<Rightarrow> (int \<times> lib) option" where
  "user_login crypt name psw pak l = do {
     pak \<leftarrow> with_user name (itsip_pack ITS_LOGIN 0 0 pak);
     p \<leftarrow> cstring psw;
     x \<leftarrow> strcpy (itsip_data pak) (crypt p (bytes_of USR_SALT) @ [0]);
     its_set (pak\<lparr>itsip_data := x\<rparr>) None 0 l }"

definition its_user_query :: "bytes \<Rightarrow> USR_INFO list \<Rightarrow> ITSIP \<Rightarrow> lib \<Rightarrow> (int \<times> USR_INFO list \<times> lib) option" where
  "its_user_query name us pak l = do {
     pak \<leftarrow> with_user name (itsip_pack ITS_USER_QUERY 0 0 pak);
     its_query pak (cmd_code RECV_FAILED) (enc_list enc_USR_INFO us) (dec_list dec_USR_INFO (length us)) l }"

text \<open>The changes of users leave the connection open when they have their reply.\<close>

definition its_user_set :: "USER_SET \<Rightarrow> nat \<Rightarrow> bytes \<Rightarrow> bytes \<Rightarrow> ITSIP \<Rightarrow> lib \<Rightarrow> (int \<times> lib) option" where
  "its_user_set kind n name us pak l = do {
     pak \<leftarrow> with_user name (itsip_pack ITS_USER_SET n 0 pak);
     pak \<leftarrow> with_data 0 (user_set_code kind) pak;
     (r, l) \<leftarrow> its_request pak (Some us) n (cmd_code RECV_FAILED) l;
     case r of Inl code \<Rightarrow> Some (code, l)
     | Inr h \<Rightarrow> do { v \<leftarrow> rd (itsip_data h) 0; Some (uint v, l) } }"

definition its_user_add :: "bytes \<Rightarrow> USR_INFO \<Rightarrow> bytes \<Rightarrow> ITSIP \<Rightarrow> lib \<Rightarrow> (int \<times> lib) option" where
  "its_user_add name u mem pak l = its_user_set USER_ADD 56 name (enc_USR_INFO u @ mem) pak l"

definition its_user_del :: "bytes \<Rightarrow> USR_INFO \<Rightarrow> bytes \<Rightarrow> ITSIP \<Rightarrow> lib \<Rightarrow> (int \<times> lib) option" where
  "its_user_del name u mem pak l = its_user_set USER_DEL 56 name (enc_USR_INFO u @ mem) pak l"

definition its_user_modify :: "bytes \<Rightarrow> USR_INFO \<Rightarrow> USR_INFO \<Rightarrow> bytes \<Rightarrow> ITSIP \<Rightarrow> lib \<Rightarrow> (int \<times> lib) option" where
  "its_user_modify name old new mem pak l =
     its_user_set USER_MODIFY 112 name (enc_USR_INFO old @ enc_USR_INFO new @ mem) pak l"

section \<open>Parts of the configuration\<close>

text \<open>Four of the queries return \<open>FAILURE\<close> when the head of the reply does not arrive.\<close>

definition its_sysinfo_query :: "bytes \<Rightarrow> CONFIG_SYS \<Rightarrow> ITSIP \<Rightarrow> lib \<Rightarrow> (int \<times> CONFIG_SYS \<times> lib) option" where
  "its_sysinfo_query name x pak l = do {
     pak \<leftarrow> with_user name (itsip_pack ITS_SYSINFO_QUERY 0 0 pak);
     its_query pak FAILURE (enc_CONFIG_SYS x) dec_CONFIG_SYS l }"

definition its_sysinfo_set :: "CONFIG_SYS \<Rightarrow> bytes \<Rightarrow> ITSIP \<Rightarrow> lib \<Rightarrow> (int \<times> lib) option" where
  "its_sysinfo_set x mem pak l =
     its_set (itsip_pack ITS_SYSINFO_SET 256 0 pak) (Some (enc_CONFIG_SYS x @ mem)) 256 l"

definition its_netinfo_query :: "bytes \<Rightarrow> CONFIG_NET \<Rightarrow> ITSIP \<Rightarrow> lib \<Rightarrow> (int \<times> CONFIG_NET \<times> lib) option" where
  "its_netinfo_query name x pak l = do {
     pak \<leftarrow> with_user name (itsip_pack ITS_NETINFO_QUERY 0 0 pak);
     its_query pak FAILURE (enc_CONFIG_NET x) dec_CONFIG_NET l }"

definition its_netinfo_set :: "CONFIG_NET \<Rightarrow> bytes \<Rightarrow> ITSIP \<Rightarrow> lib \<Rightarrow> (int \<times> lib) option" where
  "its_netinfo_set x mem pak l =
     its_set (itsip_pack ITS_NETINFO_SET 60 0 pak) (Some (enc_CONFIG_NET x @ mem)) 60 l"

definition its_vlan_query :: "bytes \<Rightarrow> CONFIG_VLAN \<Rightarrow> ITSIP \<Rightarrow> lib \<Rightarrow> (int \<times> CONFIG_VLAN \<times> lib) option" where
  "its_vlan_query name x pak l = do {
     pak \<leftarrow> with_user name (itsip_pack ITS_VLAN_QUERY 0 0 pak);
     its_query pak FAILURE (enc_CONFIG_VLAN x) dec_CONFIG_VLAN l }"

definition its_vlan_set :: "CONFIG_VLAN \<Rightarrow> bytes \<Rightarrow> ITSIP \<Rightarrow> lib \<Rightarrow> (int \<times> lib) option" where
  "its_vlan_set x mem pak l =
     its_set (itsip_pack ITS_VLAN_SET 16 0 pak) (Some (enc_CONFIG_VLAN x @ mem)) 16 l"

definition its_factory_set :: "ITSIP \<Rightarrow> lib \<Rightarrow> (int \<times> lib) option" where
  "its_factory_set pak l = its_set (itsip_pack ITS_FACTORY_SET 0 0 pak) None 0 l"

definition its_conf_gpio_query :: "bytes \<Rightarrow> CONFIG_GPIO \<Rightarrow> ITSIP \<Rightarrow> lib \<Rightarrow> (int \<times> CONFIG_GPIO \<times> lib) option" where
  "its_conf_gpio_query name x pak l = do {
     pak \<leftarrow> with_user name (itsip_pack ITS_GPIO_QUERY 0 0 pak);
     pak \<leftarrow> with_data 0 (conf_kind_code CONF_GPIO) pak;
     its_query pak (cmd_code RECV_FAILED) (enc_CONFIG_GPIO x) dec_CONFIG_GPIO l }"

definition its_conf_gpio_set :: "CONFIG_GPIO \<Rightarrow> bytes \<Rightarrow> ITSIP \<Rightarrow> lib \<Rightarrow> (int \<times> lib) option" where
  "its_conf_gpio_set x mem pak l =
     its_set (itsip_pack ITS_GPIO_SET 52 0 pak) (Some (enc_CONFIG_GPIO x @ mem)) 52 l"

definition its_conf_server_query :: "bytes \<Rightarrow> CONFIG_SERVER \<Rightarrow> ITSIP \<Rightarrow> lib \<Rightarrow> (int \<times> CONFIG_SERVER \<times> lib) option" where
  "its_conf_server_query name x pak l = do {
     pak \<leftarrow> with_user name (itsip_pack ITS_SERVER_QUERY 0 0 pak);
     pak \<leftarrow> with_data 0 (conf_kind_code CONF_SERVER) pak;
     its_query pak FAILURE (enc_CONFIG_SERVER x) dec_CONFIG_SERVER l }"

definition its_conf_server_set :: "CONFIG_SERVER \<Rightarrow> bytes \<Rightarrow> ITSIP \<Rightarrow> lib \<Rightarrow> (int \<times> lib) option" where
  "its_conf_server_set x mem pak l =
     its_set (itsip_pack ITS_SERVER_SET 56 0 pak) (Some (enc_CONFIG_SERVER x @ mem)) 56 l"

section \<open>Ports\<close>

text \<open>The kind and the number of the port go into the data of the head; the number is cut to a byte.\<close>

definition with_port :: "CONF_KIND \<Rightarrow> u8 \<Rightarrow> ITSIP \<Rightarrow> ITSIP option" where
  "with_port kind i pak = do { pak \<leftarrow> with_data 0 (conf_kind_code kind) pak; with_data 1 i pak }"

definition its_conf_com_query :: "bytes \<Rightarrow> CONFIG_COM \<Rightarrow> ITSIP \<Rightarrow> lib \<Rightarrow> (int \<times> CONFIG_COM \<times> lib) option" where
  "its_conf_com_query name x pak l = do {
     pak \<leftarrow> with_user name (itsip_pack ITS_CONF_QUERY 0 0 pak);
     pak \<leftarrow> with_port CONF_COM (ucast (com_id x - 1)) pak;
     its_query pak (cmd_code RECV_FAILED) (enc_CONFIG_COM x) dec_CONFIG_COM l }"

definition its_conf_mode_query :: "bytes \<Rightarrow> CONFIG_MODE \<Rightarrow> ITSIP \<Rightarrow> lib \<Rightarrow> (int \<times> CONFIG_MODE \<times> lib) option" where
  "its_conf_mode_query name x pak l = do {
     pak \<leftarrow> with_user name (itsip_pack ITS_CONF_QUERY 0 0 pak);
     pak \<leftarrow> with_port CONF_MODE (ucast (mode_id x - 1)) pak;
     its_query pak (cmd_code RECV_FAILED) (enc_CONFIG_MODE x) dec_CONFIG_MODE l }"

definition its_conf_lim_query :: "bytes \<Rightarrow> CONFIG_LIMIT \<Rightarrow> ITSIP \<Rightarrow> lib \<Rightarrow> (int \<times> CONFIG_LIMIT \<times> lib) option" where
  "its_conf_lim_query name x pak l = do {
     pak \<leftarrow> with_user name (itsip_pack ITS_CONF_QUERY 0 0 pak);
     pak \<leftarrow> with_port CONF_LIMIT (lim_id x - 1) pak;
     its_query pak (cmd_code RECV_FAILED) (enc_CONFIG_LIMIT x) dec_CONFIG_LIMIT l }"

text \<open>The settings of a port take a name and do not send it.\<close>

definition its_conf_com_set :: "bytes \<Rightarrow> CONFIG_COM \<Rightarrow> u8 \<Rightarrow> bytes \<Rightarrow> ITSIP \<Rightarrow> lib \<Rightarrow> (int \<times> lib) option" where
  "its_conf_com_set name x flag mem pak l = do {
     pak \<leftarrow> with_port CONF_COM (ucast (com_id x - 1)) (itsip_pack ITS_CONF_SET 28 0 pak);
     pak \<leftarrow> with_data 2 flag pak;
     its_set pak (Some (enc_CONFIG_COM x @ mem)) 28 l }"

definition its_conf_mode_set :: "bytes \<Rightarrow> CONFIG_MODE \<Rightarrow> bytes \<Rightarrow> ITSIP \<Rightarrow> lib \<Rightarrow> (int \<times> lib) option" where
  "its_conf_mode_set name x mem pak l = do {
     pak \<leftarrow> with_port CONF_MODE (ucast (mode_id x - 1)) (itsip_pack ITS_CONF_SET 164 0 pak);
     its_set pak (Some (enc_CONFIG_MODE x @ mem)) 164 l }"

definition its_conf_lim_set :: "bytes \<Rightarrow> CONFIG_LIMIT \<Rightarrow> bytes \<Rightarrow> ITSIP \<Rightarrow> lib \<Rightarrow> (int \<times> lib) option" where
  "its_conf_lim_set name x mem pak l = do {
     pak \<leftarrow> with_port CONF_LIMIT (lim_id x - 1) (itsip_pack ITS_CONF_SET 34 0 pak);
     its_set pak (Some (enc_CONFIG_LIMIT x @ mem)) 34 l }"

end
