(* ===== verification/ItsWire.thy ===== *)
theory ItsWire
  imports ItsCmd Web_Facts
begin

text \<open>
  A call of the client library against the daemon: what one of them writes is what the other reads.
  The lemmas reduce a call to the daemon's command, for a connection on which nothing is late.
\<close>

section \<open>The library on an open socket\<close>

definition willing :: "lib \<Rightarrow> bool" where
  "willing l \<longleftrightarrow> 0 < l_socket l \<and> l_connect l \<and> l_tx l = [] \<and> l_trace l = [] \<and>
     (\<exists>sc. l_rx l = LrxGot 1024 # LrxGot 1024 # sc)"

lemma lemit_fields [simp]:
  "l_fd (lemit e l) = l_fd l" "l_socket (lemit e l) = l_socket l" "l_connect (lemit e l) = l_connect l" "l_tx (lemit e l) = l_tx l"
  "l_rx (lemit e l) = l_rx l" "l_inp (lemit e l) = l_inp l" "l_trace (lemit e l) = l_trace l @ [e]"
  by (simp_all add: lemit_def)

lemma lib_send_pkt_open:
  assumes "0 < l_fd l" "l_tx l = []" "p \<noteq> []"
  obtains l' where "lib_send_pkt p l = (SUCCESS, l')" "l_fd l' = l_fd l" "l_tx l' = []" "l_rx l' = l_rx l" "l_inp l' = l_inp l"
    "l_trace l' = l_trace l @ [EvWrite (l_fd l) p]"
  using assms by (intro that [of "snd (lib_send_pkt p l)"])
    (auto simp: lib_send_pkt_def lib_start_def lemit_def split: list.splits)

lemma net_conn_recv_all:
  assumes "0 \<le> l_fd l" "l_rx l = LrxGot n # sc" "len \<le> n" "len \<le> length (l_inp l)" "len \<le> length dst"
  shows "net_conn_recv dst len l = Some (SUCCESS, take len (l_inp l) @ drop len dst, l\<lparr>l_rx := sc, l_inp := drop len (l_inp l)\<rparr>)"
  using assms by (simp add: net_conn_recv_def wrs_def min_absorb2)

text \<open>The data of a call, and what is sent of it.\<close>

definition sendable :: "bytes option \<Rightarrow> nat \<Rightarrow> bool" where
  "sendable data n \<longleftrightarrow> (case data of None \<Rightarrow> True | Some mem \<Rightarrow> 0 < n \<and> MAX_LENGTH \<le> length mem)"

definition payload :: "bytes option \<Rightarrow> bytes" where
  "payload data = (case data of None \<Rightarrow> [] | Some mem \<Rightarrow> take MAX_LENGTH mem)"

lemma lib_send_open:
  assumes "0 < l_fd l" "l_tx l = []" "sendable data n"
  obtains l' where "lib_send pak data n l = Some (SUCCESS, l')" "l_fd l' = l_fd l" "l_rx l' = l_rx l" "l_inp l' = l_inp l"
    "l_trace l' = l_trace l @ EvWrite (l_fd l) (enc_ITSIP pak) # (if data = None then [] else [EvWrite (l_fd l) (payload data)])"
proof -
  obtain l1 where l1: "lib_send_pkt (enc_ITSIP pak) l = (SUCCESS, l1)" "l_fd l1 = l_fd l" "l_tx l1 = []" "l_rx l1 = l_rx l"
    "l_inp l1 = l_inp l" "l_trace l1 = l_trace l @ [EvWrite (l_fd l) (enc_ITSIP pak)]"
    by (rule lib_send_pkt_open [OF assms(1,2) enc_ITSIP_nonempty])
  show ?thesis
  proof (cases data)
    case None
    with l1 show ?thesis by (intro that [of l1]) (simp_all add: lib_send_def)
  next
    case (Some mem)
    with assms(3) have m: "0 < n" "MAX_LENGTH \<le> length mem" "take MAX_LENGTH mem \<noteq> []"
      by (auto simp: sendable_def MAX_LENGTH_def)
    obtain l2 where "lib_send_pkt (take MAX_LENGTH mem) l1 = (SUCCESS, l2)" "l_fd l2 = l_fd l1" "l_rx l2 = l_rx l1" "l_inp l2 = l_inp l1"
      "l_trace l2 = l_trace l1 @ [EvWrite (l_fd l1) (take MAX_LENGTH mem)]"
      by (rule lib_send_pkt_open [OF _ l1(3) m(3)]) (use l1(2) assms(1) in auto)
    with Some l1 m show ?thesis by (intro that [of l2]) (simp_all add: lib_send_def rds_def payload_def)
  qed
qed

text \<open>A request on a willing socket, answered with the head \<open>h\<close>.\<close>

lemma its_request_open:
  assumes "willing l" "ok_ITSIP pak" "sendable data n" "l_inp l = enc_ITSIP h @ r" "ok_ITSIP h"
  obtains l' sc where "its_request pak data n bad l = Some (Inr h, l')" "l_fd l' = l_socket l" "l_inp l' = r" "l_rx l' = LrxGot 1024 # sc"
    "l_trace l' = [EvSocket (l_socket l), EvConnect (l_socket l) WEB_IP WEB_PORT, EvWrite (l_socket l) (enc_ITSIP pak)] @
       (if data = None then [] else [EvWrite (l_socket l) (payload data)])"
proof -
  let ?l = "lemit (EvConnect (l_socket l) WEB_IP WEB_PORT) (lemit (EvSocket (l_socket l)) (l\<lparr>l_fd := l_socket l\<rparr>))"
  obtain sc where w: "0 < l_socket l" "l_connect l" "l_tx l = []" "l_trace l = []" "l_rx l = LrxGot 1024 # LrxGot 1024 # sc"
    using assms(1) by (auto simp: willing_def)
  then have c: "net_conn_connect l = (SUCCESS, ?l)" by (simp add: net_conn_connect_def Let_def)
  obtain l1 where l1: "lib_send pak data n ?l = Some (SUCCESS, l1)" "l_fd l1 = l_socket l" "l_rx l1 = l_rx l" "l_inp l1 = l_inp l"
    "l_trace l1 = l_trace ?l @ EvWrite (l_fd ?l) (enc_ITSIP pak) # (if data = None then [] else [EvWrite (l_fd ?l) (payload data)])"
    by (rule lib_send_open [of ?l data n pak]) (use w assms(3) in auto)
  have len: "length (enc_ITSIP pak) = 56" "length (enc_ITSIP h) = 56"
    using cITSIP.enc_length [OF assms(2)] cITSIP.enc_length [OF assms(5)] by simp_all
  have "net_conn_recv (enc_ITSIP pak) 56 l1 = Some (SUCCESS, take 56 (l_inp l1) @ drop 56 (enc_ITSIP pak),
      l1\<lparr>l_rx := LrxGot 1024 # sc, l_inp := drop 56 (l_inp l1)\<rparr>)"
    by (rule net_conn_recv_all) (use l1 w assms(4) len in auto)
  then show ?thesis using c l1 w assms(4) len cITSIP.dec_enc_exact [OF assms(5)]
    by (intro that [of "l1\<lparr>l_rx := LrxGot 1024 # sc, l_inp := r\<rparr>" sc]) (simp_all add: its_request_def)
qed

section \<open>The daemon on a prompt connection\<close>

definition prompt :: "NET_CONN_INFO \<Rightarrow> bool" where
  "prompt c \<longleftrightarrow> 0 < client_conn c \<and> tx c = [] \<and> starts c = [] \<and>
     (\<exists>sc. rx c = RxGot 1024 0 0 # RxGot 1024 0 0 # RxGot 1024 0 0 # sc)"

definition served :: "NET_CONN_INFO \<Rightarrow> bytes \<Rightarrow> NET_CONN_INFO" where
  "served c r = c\<lparr>rx := tl (rx c), inp := r\<rparr>"

lemma recv_prompt:
  assumes "0 < client_conn c" "starts c = []" "rx c = RxGot 1024 0 0 # sc" "0 < n" "n \<le> 1024" "n \<le> length (inp c)"
  shows "web_conn_recv n c d = (SUCCESS, take n (inp c), served c (drop n (inp c)), d)"
  using assms by (simp add: web_conn_recv_def start_time_def served_def min_absorb2 min_absorb1)

lemma web_svr_proc_head:
  assumes "0 < client_conn c" "starts c = []" "rx c = RxGot 1024 0 0 # sc" "inp c = enc_ITSIP h @ r" "ok_ITSIP h"
  shows "web_svr_proc e c d = web_cmd_proc e h (served c r) d"
proof -
  have len: "length (enc_ITSIP h) = 56" using cITSIP.enc_length [OF assms(5)] .
  have "web_conn_recv 56 c d = (SUCCESS, take 56 (inp c), served c (drop 56 (inp c)), d)"
    using assms(4) len by (intro recv_prompt [OF assms(1-3)]) simp_all
  then show ?thesis using assms(1,4) len cITSIP.dec_enc_exact [OF assms(5)]
    by (simp add: web_svr_proc_def)
qed

lemma served_fields [simp]:
  "client_conn (served c r) = client_conn c" "tx (served c r) = tx c" "starts (served c r) = starts c" "inp (served c r) = r"
  "rx (served c r) = tl (rx c)"
  by (simp_all add: served_def)

lemma web_svr_proc_prompt:
  assumes "prompt c" "inp c = enc_ITSIP h @ r" "ok_ITSIP h"
  shows "web_svr_proc e c d = web_cmd_proc e h (served c r) d"
  using assms unfolding prompt_def by (auto intro!: web_svr_proc_head)

lemma served_ready:
  assumes "prompt c" "0 < n" "n \<le> 1024" "n \<le> length r"
  shows "ready_for n (served c r)" "web_conn_recv n (served c r) d = (SUCCESS, take n r, served (served c r) (drop n r), d)"
proof -
  obtain sc where p: "rx c = RxGot 1024 0 0 # RxGot 1024 0 0 # sc" "0 < client_conn c" "starts c = []"
    using assms(1) by (auto simp: prompt_def)
  then show "ready_for n (served c r)" using assms by (simp add: ready_for_def start_time_def)
  show "web_conn_recv n (served c r) d = (SUCCESS, take n r, served (served c r) (drop n r), d)"
    using recv_prompt [of "served c r" _ n d] p assms by simp
qed

lemma recv_struct_prompt:
  assumes "prompt c" "0 < n" "n \<le> 1024" "n \<le> length r" "dec (take n r) = Some (x, q)"
  shows "recv_struct n dec fail (served c r) d k = k x (served (served c r) (drop n r)) d"
  using served_ready(2) [OF assms(1-4), of d] assms(5) by (simp add: recv_struct_def)

lemma send_prompt:
  assumes "0 < client_conn c" "tx c = []" "starts c = []" "p \<noteq> []"
  shows "net_conn_send_pkt p c d = (SUCCESS, c\<lparr>idle := 0\<rparr>, emit (EvWrite (client_conn c) p) d)"
  using assms tx_idem [of c "[]"] by (cases c) (simp add: net_conn_send_pkt_def start_time_def)

section \<open>Both together\<close>

text \<open>What was written to a descriptor.\<close>

fun wrote :: "int \<Rightarrow> event list \<Rightarrow> bytes" where
  "wrote fd [] = []"
| "wrote fd (EvWrite f b # es) = (if f = fd then b else []) @ wrote fd es"
| "wrote fd (_ # es) = wrote fd es"

lemma wrote_append [simp]: "wrote fd (a @ b) = wrote fd a @ wrote fd b"
  by (induction fd a rule: wrote.induct) simp_all

lemma wrote_systems [simp]: "wrote fd (map EvSystem cs) = []"
  by (induction cs) simp_all

text \<open>
  The library makes the call \<open>call\<close>; the daemon serves one turn of the connection \<open>c\<close>. Each reads
  what the other has written; the call returns \<open>r\<close>.
\<close>

definition remote :: "(lib \<Rightarrow> ('r \<times> lib) option) \<Rightarrow> env \<Rightarrow> lib \<Rightarrow> NET_CONN_INFO \<Rightarrow> dev \<Rightarrow> 'r \<Rightarrow> NET_CONN_INFO \<Rightarrow> dev \<Rightarrow> bool" where
  "remote call e l c d r c' d' \<longleftrightarrow> (\<exists>l'.
     call (l\<lparr>l_inp := wrote (client_conn c) (drop (length (trace d)) (trace d'))\<rparr>) = Some (r, l') \<and>
     web_svr_proc e (c\<lparr>inp := wrote (l_socket l) (l_trace l')\<rparr>) d = Some (c', d'))"

text \<open>The daemon has done \<open>es\<close> on top of \<open>d\<close>, none of it a write to \<open>fd\<close>.\<close>

definition silent_to :: "int \<Rightarrow> dev \<Rightarrow> dev \<Rightarrow> bool" where
  "silent_to fd d d' \<longleftrightarrow> (\<exists>es. trace d' = trace d @ es \<and> wrote fd es = [])"

lemma silent_to_refl [simp]: "silent_to fd d d"
  by (simp add: silent_to_def)

lemma silent_to_trace: "trace d' = trace d @ map EvSystem cs \<Longrightarrow> silent_to fd d d'" "trace d' = trace d \<Longrightarrow> silent_to fd d d'"
  by (auto simp: silent_to_def)

lemma willing_inp [simp]: "willing (l\<lparr>l_inp := s\<rparr>) = willing l"
  by (simp add: willing_def)

lemma prompt_inp [simp]: "prompt (c\<lparr>inp := s\<rparr>) = prompt c" "served (c\<lparr>inp := s\<rparr>) r = served c r"
  by (simp_all add: prompt_def served_def)

text \<open>The exchange of a request and the head of its reply.\<close>

lemma request_exchange:
  assumes "willing l" "prompt c" "ok_ITSIP pak" "sendable data n" "ok_ITSIP h" "silent_to (client_conn c) d d1"
    and "web_cmd_proc e pak (served c (payload data)) d = Some (c', emit (EvWrite (client_conn c) (enc_ITSIP h)) d1)"
  obtains l1 where "its_request pak data n (cmd_code RECV_FAILED)
      (l\<lparr>l_inp := wrote (client_conn c) (drop (length (trace d)) (trace (emit (EvWrite (client_conn c) (enc_ITSIP h)) d1)))\<rparr>) = Some (Inr h, l1)"
    "l_fd l1 = l_socket l"
    "web_svr_proc e (c\<lparr>inp := wrote (l_socket l) (l_trace l1)\<rparr>) d = Some (c', emit (EvWrite (client_conn c) (enc_ITSIP h)) d1)"
proof -
  let ?d' = "emit (EvWrite (client_conn c) (enc_ITSIP h)) d1" and ?fd = "l_socket l"
  have w: "wrote (client_conn c) (drop (length (trace d)) (trace ?d')) = enc_ITSIP h"
    using assms(6) by (auto simp: silent_to_def)
  let ?l = "l\<lparr>l_inp := enc_ITSIP h\<rparr>"
  obtain l1 sc where l1: "its_request pak data n (cmd_code RECV_FAILED) ?l = Some (Inr h, l1)" "l_fd l1 = ?fd"
    "l_trace l1 = [EvSocket ?fd, EvConnect ?fd WEB_IP WEB_PORT, EvWrite ?fd (enc_ITSIP pak)] @
       (if data = None then [] else [EvWrite ?fd (payload data)])"
    by (rule its_request_open [of ?l pak data n h "[]" "cmd_code RECV_FAILED"]) (use assms(1,3-5) in auto)
  then have t: "wrote ?fd (l_trace l1) = enc_ITSIP pak @ payload data" by (auto simp: payload_def)
  have "web_svr_proc e (c\<lparr>inp := enc_ITSIP pak @ payload data\<rparr>) d = Some (c', ?d')"
    using assms(2,3,7) web_svr_proc_prompt [of "c\<lparr>inp := enc_ITSIP pak @ payload data\<rparr>" pak "payload data"] by simp
  then show ?thesis using l1(1,2) by (intro that [of l1]) (simp_all only: w t)
qed

lemma reply_code: "ok_ITSIP h \<Longrightarrow> rd (itsip_data h) 0 = Some (itsip_data h ! 0)"
  by (simp add: ok_ITSIP_def rd_in)

lemma remote_set:
  assumes "willing l" "prompt c" "ok_ITSIP pak" "sendable data n" "ok_ITSIP h" "silent_to (client_conn c) d d1"
    and "web_cmd_proc e pak (served c (payload data)) d = Some (c', emit (EvWrite (client_conn c) (enc_ITSIP h)) d1)"
  shows "remote (its_set pak data n) e l c d (uint (itsip_data h ! 0)) c' (emit (EvWrite (client_conn c) (enc_ITSIP h)) d1)"
proof -
  from request_exchange [OF assms] obtain l1 where l1: "its_request pak data n (cmd_code RECV_FAILED)
      (l\<lparr>l_inp := wrote (client_conn c) (drop (length (trace d)) (trace (emit (EvWrite (client_conn c) (enc_ITSIP h)) d1)))\<rparr>) = Some (Inr h, l1)"
    "web_svr_proc e (c\<lparr>inp := wrote (l_socket l) (l_trace l1)\<rparr>) d = Some (c', emit (EvWrite (client_conn c) (enc_ITSIP h)) d1)" by blast
  have "wrote (l_socket l) (l_trace (lib_conn_close l1)) = wrote (l_socket l) (l_trace l1)" by (simp add: lib_conn_close_def)
  with l1 show ?thesis unfolding remote_def
    by (intro exI [of _ "lib_conn_close l1"]) (simp add: its_set_def reply_code [OF assms(5)])
qed

text \<open>A change of the users, whose connection stays open.\<close>

lemma remote_user_set:
  assumes "willing l" "prompt c" "ok_ITSIP pak" "sendable (Some x) n" "ok_ITSIP h" "silent_to (client_conn c) d d1"
    and "web_cmd_proc e pak (served c (payload (Some x))) d = Some (c', emit (EvWrite (client_conn c) (enc_ITSIP h)) d1)"
    and "with_user name (itsip_pack ITS_USER_SET n 0 pak0) = Some pak1" "with_data 0 (user_set_code kind) pak1 = Some pak"
  shows "remote (its_user_set kind n name x pak0) e l c d (uint (itsip_data h ! 0)) c' (emit (EvWrite (client_conn c) (enc_ITSIP h)) d1)"
proof -
  from request_exchange [OF assms(1-7)] obtain l1 where l1: "its_request pak (Some x) n (cmd_code RECV_FAILED)
      (l\<lparr>l_inp := wrote (client_conn c) (drop (length (trace d)) (trace (emit (EvWrite (client_conn c) (enc_ITSIP h)) d1)))\<rparr>) = Some (Inr h, l1)"
    "web_svr_proc e (c\<lparr>inp := wrote (l_socket l) (l_trace l1)\<rparr>) d = Some (c', emit (EvWrite (client_conn c) (enc_ITSIP h)) d1)" by blast
  then show ?thesis unfolding remote_def
    by (intro exI [of _ l1]) (simp add: its_user_set_def assms(8,9) reply_code [OF assms(5)])
qed

lemma remote_query:
  assumes "willing l" "prompt c" "ok_ITSIP pak" "ok_ITSIP h" "silent_to (client_conn c) d d1"
    and "web_cmd_proc e pak (served c []) d = Some (c', emit (EvWrite (client_conn c) (take MAX_LENGTH mem)) (emit (EvWrite (client_conn c) (enc_ITSIP h)) d1))"
    and "unat (itsip_extlen h) = length img" "length img \<le> MAX_LENGTH" "length img \<le> length mem" "dec (take (length img) mem) = Some (x, q)"
  shows "remote (\<lambda>l. map_option (\<lambda>(r, x, l). ((r, x), l)) (its_query pak bad img dec l)) e l c d (cmd_code QUERY_OK, x) c'
     (emit (EvWrite (client_conn c) (take MAX_LENGTH mem)) (emit (EvWrite (client_conn c) (enc_ITSIP h)) d1))"
proof -
  let ?d' = "emit (EvWrite (client_conn c) (take MAX_LENGTH mem)) (emit (EvWrite (client_conn c) (enc_ITSIP h)) d1)" and ?fd = "l_socket l"
  have w: "wrote (client_conn c) (drop (length (trace d)) (trace ?d')) = enc_ITSIP h @ take MAX_LENGTH mem"
    using assms(5) by (auto simp: silent_to_def)
  let ?l = "l\<lparr>l_inp := enc_ITSIP h @ take MAX_LENGTH mem\<rparr>"
  obtain l1 sc where l1: "its_request pak None 0 bad ?l = Some (Inr h, l1)" "l_fd l1 = ?fd" "l_inp l1 = take MAX_LENGTH mem" "l_rx l1 = LrxGot 1024 # sc"
    "l_trace l1 = [EvSocket ?fd, EvConnect ?fd WEB_IP WEB_PORT, EvWrite ?fd (enc_ITSIP pak)]"
    by (rule its_request_open [of ?l pak None 0 h "take MAX_LENGTH mem" bad]) (use assms(1,3,4) in \<open>auto simp: sendable_def\<close>)
  have fd: "0 < ?fd" using assms(1) by (simp add: willing_def)
  have "net_conn_recv img (length img) l1 = Some (SUCCESS, take (length img) (l_inp l1) @ drop (length img) img,
      l1\<lparr>l_rx := sc, l_inp := drop (length img) (l_inp l1)\<rparr>)"
    by (rule net_conn_recv_all) (use l1 fd assms(8,9) in \<open>auto simp: MAX_LENGTH_def\<close>)
  then have "its_query pak bad img dec ?l = Some (cmd_code QUERY_OK, x, lib_conn_close (l1\<lparr>l_rx := sc, l_inp := drop (length img) (l_inp l1)\<rparr>))"
    using l1(1,3) assms(7,8,10) by (simp add: its_query_def min_absorb1)
  moreover have "wrote ?fd (l_trace (lib_conn_close (l1\<lparr>l_rx := sc, l_inp := drop (length img) (l_inp l1)\<rparr>))) = enc_ITSIP pak"
    using l1(2,5) fd by (simp add: lib_conn_close_def)
  moreover have "web_svr_proc e (c\<lparr>inp := enc_ITSIP pak\<rparr>) d = Some (c', ?d')"
    using assms(2,3,6) web_svr_proc_prompt [of "c\<lparr>inp := enc_ITSIP pak\<rparr>" pak "[]"] by simp
  ultimately show ?thesis unfolding remote_def w by auto
qed

end
