(* ===== verification/ItsProps.thy ===== *)
theory ItsProps
  imports ItsWire Server_Props
begin

text \<open>The properties of the client library and of its calls to the daemon.\<close>

section \<open>What a call leaves behind\<close>

text \<open>The traces a call can leave: its connection is the first thing in it and closed by the last.\<close>

definition opened_by :: "int \<Rightarrow> event list" where
  "opened_by fd = [EvSocket fd, EvConnect fd WEB_IP WEB_PORT]"

definition writing :: "int \<Rightarrow> lib \<Rightarrow> bool" where
  "writing fd l \<longleftrightarrow> (\<exists>ps. l_trace l = opened_by fd @ map (EvWrite fd) ps \<and> l_fd l = fd)"

definition released :: "int \<Rightarrow> lib \<Rightarrow> bool" where
  "released fd l \<longleftrightarrow> (\<exists>ps. l_trace l = opened_by fd @ map (EvWrite fd) ps @ [EvClose fd])"

lemma writing_upd [simp]:
  "writing fd (l\<lparr>l_tx := a\<rparr>) = writing fd l" "writing fd (l\<lparr>l_idle := i\<rparr>) = writing fd l" "writing fd (l\<lparr>l_starts := b\<rparr>) = writing fd l"
  "writing fd (l\<lparr>l_rx := x\<rparr>) = writing fd l" "writing fd (l\<lparr>l_rx := x, l_inp := y\<rparr>) = writing fd l"
  "released fd (l\<lparr>l_tx := a\<rparr>) = released fd l"
  by (simp_all add: writing_def released_def)

lemma writing_write: "writing fd l \<Longrightarrow> writing fd (lemit (EvWrite (l_fd l) p) l)"
  by (force simp: writing_def lemit_def intro: exI [of _ "_ @ [p]"])

lemma close_released: "writing fd l \<Longrightarrow> 0 < fd \<Longrightarrow> released fd (lib_conn_close l) \<and> l_fd (lib_conn_close l) = -1"
  by (auto simp: writing_def released_def lib_conn_close_def)

lemma close_idle: "l_fd l \<le> 0 \<Longrightarrow> lib_conn_close l = l"
  by (simp add: lib_conn_close_def)

text \<open>A send leaves the connection open and reports success, or has closed it and reports failure.\<close>

definition send_ends :: "int \<Rightarrow> int \<times> lib \<Rightarrow> bool" where
  "send_ends fd rl \<longleftrightarrow> fst rl = SUCCESS \<and> writing fd (snd rl) \<or> fst rl = FAILURE \<and> released fd (snd rl) \<and> l_fd (snd rl) = -1"

lemma send_ends_simps [simp]:
  "send_ends fd (SUCCESS, l) \<longleftrightarrow> writing fd l" "send_ends fd (FAILURE, l) \<longleftrightarrow> released fd l \<and> l_fd l = -1"
  by (simp_all add: send_ends_def)

lemma lib_fail_sent: "writing fd l \<Longrightarrow> 0 < fd \<Longrightarrow> send_ends fd (lib_fail l)"
  using close_released by (simp add: lib_fail_def)

lemma lib_send_loop_sent: "writing fd l \<Longrightarrow> 0 < fd \<Longrightarrow> send_ends fd (lib_send_loop sc ms1 p l)"
proof (induction sc ms1 p l rule: lib_send_loop.induct)
  case (1 ms1 p l)
  then show ?case using writing_write [of fd "l\<lparr>l_tx := []\<rparr>" p]
    by (cases "p = []") (simp_all add: lib_fail_sent)
next
  case (6 n t3 sc ms1 p l)
  define k where "k = min n (length p)"
  let ?l = "lemit (EvWrite (l_fd l) (take k p)) l"
  have w: "writing fd ?l" by (rule writing_write [OF "6.prems"(1)])
  have "send_ends fd (lib_send_loop sc ms1 (drop k p) ?l)" if "k \<noteq> 0" "length p - k \<noteq> 0" "\<not> timed_out ms1 t3"
    using "6.IH" [OF k_def that(1) refl that(2,3) w "6.prems"(2)] .
  with w writing_write [OF "6.prems"(1), of p] "6.prems" show ?case by (auto simp: Let_def lib_fail_sent simp flip: k_def)
qed (simp_all add: lib_fail_sent)

lemma lib_send_pkt_sent:
  assumes "writing fd l" "0 < fd"
  shows "send_ends fd (lib_send_pkt p l)"
proof -
  have "l_fd l = fd" using assms(1) by (simp add: writing_def)
  then show ?thesis using assms lib_send_loop_sent
    by (auto simp: lib_send_pkt_def lib_start_def split: list.splits)
qed

lemma lib_send_pkt_closed: "l_fd l \<le> 0 \<Longrightarrow> lib_send_pkt p l = (FAILURE, l)"
  by (simp add: lib_send_pkt_def)

lemma lib_send_sent:
  assumes "lib_send pak data n l = Some rl" "writing fd l" "0 < fd"
  shows "send_ends fd rl"
proof -
  obtain r l1 where s: "lib_send_pkt (enc_ITSIP pak) l = (r, l1)" by fastforce
  have "send_ends fd (r, l1)" using lib_send_pkt_sent [OF assms(2,3), of "enc_ITSIP pak"] by (simp add: s)
  then have "send_ends fd (lib_send_pkt p l1)" for p
    using lib_send_pkt_sent [OF _ assms(3)] lib_send_pkt_closed by (auto simp: send_ends_def)
  with \<open>send_ends fd (r, l1)\<close> show ?thesis using assms(1)
    by (auto simp: lib_send_def s bind_eq_Some_conv split: option.splits if_splits)
qed

lemma net_conn_recv_writing: "net_conn_recv dst n l = Some (r, b, l') \<Longrightarrow> writing fd l \<Longrightarrow> writing fd l'"
  by (auto simp: net_conn_recv_def bind_eq_Some_conv Let_def split: if_splits list.splits lrx_ev.splits)

text \<open>A request ends with the connection released, or open with a reply.\<close>

lemma its_request_ends:
  assumes "its_request pak data n bad l = Some (r, l')" "l_trace l = []" "0 < l_socket l"
  shows "case r of Inl _ \<Rightarrow> released (l_socket l) l' | Inr _ \<Rightarrow> writing (l_socket l) l'"
proof -
  obtain r1 l1 where c: "net_conn_connect l = (r1, l1)" by fastforce
  then have c1: "r1 = FAILURE \<and> released (l_socket l) l1 \<or> r1 = SUCCESS \<and> writing (l_socket l) l1"
    using assms(2,3) by (force simp: net_conn_connect_def Let_def released_def writing_def opened_by_def split: if_splits)
  show ?thesis
  proof (cases "r1 = FAILURE")
    case True
    with assms(1) c c1 show ?thesis by (auto simp: its_request_def)
  next
    case False
    with c1 have w: "r1 = SUCCESS" "writing (l_socket l) l1" by auto
    with assms(1) c obtain r2 l2 where s: "lib_send pak data n l1 = Some (r2, l2)" by (auto simp: its_request_def bind_eq_Some_conv)
    have snt: "send_ends (l_socket l) (r2, l2)" by (rule lib_send_sent [OF s w(2) assms(3)])
    show ?thesis
    proof (cases "r2 = FAILURE")
      case True
      with assms(1) c w s snt show ?thesis by (auto simp: its_request_def close_idle)
    next
      case r2: False
      with snt have w2: "writing (l_socket l) l2" by (simp add: send_ends_def)
      with assms(1) c w s r2 obtain r3 b l3 where v: "net_conn_recv (enc_ITSIP pak) 56 l2 = Some (r3, b, l3)"
        by (auto simp: its_request_def bind_eq_Some_conv)
      have w3: "writing (l_socket l) l3" by (rule net_conn_recv_writing [OF v w2])
      show ?thesis using assms(1) c w s r2 v w3 close_released [OF w3 assms(3)]
        by (auto simp: its_request_def bind_eq_Some_conv split: if_splits)
    qed
  qed
qed

lemma its_set_released:
  assumes "its_set pak data n l = Some (r, l')" "l_trace l = []" "0 < l_socket l"
  shows "released (l_socket l) l'"
proof -
  obtain q l1 where q: "its_request pak data n (cmd_code RECV_FAILED) l = Some (q, l1)"
    using assms(1) by (auto simp: its_set_def bind_eq_Some_conv)
  have "(case q of Inl code \<Rightarrow> Some (code, l1)
     | Inr h \<Rightarrow> do { v \<leftarrow> rd (itsip_data h) 0; Some (uint v, lib_conn_close l1) }) = Some (r, l')"
    using assms(1) q by (simp add: its_set_def)
  then show ?thesis using its_request_ends [OF q assms(2,3)] assms(3) close_released [of "l_socket l" l1]
    by (cases q) (auto simp: bind_eq_Some_conv)
qed

lemma its_query_released:
  assumes "its_query pak bad img dec l = Some (r, x, l')" "l_trace l = []" "0 < l_socket l"
  shows "released (l_socket l) l'"
proof -
  obtain q l1 where q: "its_request pak None 0 bad l = Some (q, l1)"
    using assms(1) by (auto simp: its_query_def bind_eq_Some_conv)
  have "(case q of Inl code \<Rightarrow> do { (x, _) \<leftarrow> dec img; Some (code, x, l1) }
     | Inr h \<Rightarrow> do { (r, b, l) \<leftarrow> net_conn_recv img (unat (itsip_extlen h)) l1; (x, _) \<leftarrow> dec b;
         Some (if r = FAILURE then cmd_code RECV_FAILED else cmd_code QUERY_OK, x, lib_conn_close l) }) = Some (r, x, l')"
    using assms(1) q by (simp add: its_query_def)
  then show ?thesis using its_request_ends [OF q assms(2,3)] assms(3)
    by (cases q) (auto simp: bind_eq_Some_conv dest!: net_conn_recv_writing dest: close_released)
qed

lemma its_user_set_ends:
  assumes "its_user_set k n name x pak l = Some (r, l')" "l_trace l = []" "0 < l_socket l"
  shows "released (l_socket l) l' \<or> writing (l_socket l) l'"
proof -
  obtain pak' q l1 where q: "its_request pak' (Some x) n (cmd_code RECV_FAILED) l = Some (q, l1)"
    and e: "(case q of Inl code \<Rightarrow> Some (code, l1) | Inr h \<Rightarrow> do { v \<leftarrow> rd (itsip_data h) 0; Some (uint v, l1) }) = Some (r, l')"
    using assms(1) by (auto simp: its_user_set_def bind_eq_Some_conv)
  show ?thesis using its_request_ends [OF q assms(2,3)] e by (cases q) (auto simp: bind_eq_Some_conv)
qed

text \<open>The calls that log in, query or set, with any arguments; of a query only its code is kept.\<close>

definition code_of :: "(int \<times> 'a \<times> lib) option \<Rightarrow> (int \<times> lib) option" where
  "code_of r = map_option (\<lambda>(c, x, l). (c, l)) r"

inductive simple_call :: "(ITSIP \<Rightarrow> lib \<Rightarrow> (int \<times> lib) option) \<Rightarrow> bool" where
  "simple_call (user_login crypt name psw)"
| "simple_call (its_sysinfo_set x1 m)" | "simple_call (its_netinfo_set x2 m)" | "simple_call (its_vlan_set x3 m)"
| "simple_call its_factory_set" | "simple_call (its_conf_gpio_set x4 m)" | "simple_call (its_conf_server_set x5 m)"
| "simple_call (its_conf_com_set name x6 f m)" | "simple_call (its_conf_mode_set name x7 m)" | "simple_call (its_conf_lim_set name x8 m)"
| "simple_call (\<lambda>pak l. code_of (its_user_query name us pak l))"
| "simple_call (\<lambda>pak l. code_of (its_sysinfo_query name x1 pak l))"
| "simple_call (\<lambda>pak l. code_of (its_netinfo_query name x2 pak l))"
| "simple_call (\<lambda>pak l. code_of (its_vlan_query name x3 pak l))"
| "simple_call (\<lambda>pak l. code_of (its_conf_gpio_query name x4 pak l))"
| "simple_call (\<lambda>pak l. code_of (its_conf_server_query name x5 pak l))"
| "simple_call (\<lambda>pak l. code_of (its_conf_com_query name x6 pak l))"
| "simple_call (\<lambda>pak l. code_of (its_conf_mode_query name x7 pak l))"
| "simple_call (\<lambda>pak l. code_of (its_conf_lim_query name x8 pak l))"

lemmas set_call_defs = user_login_def its_sysinfo_set_def its_netinfo_set_def its_vlan_set_def its_factory_set_def its_conf_gpio_set_def
  its_conf_server_set_def its_conf_com_set_def its_conf_mode_set_def its_conf_lim_set_def

lemmas query_call_defs = its_user_query_def its_sysinfo_query_def its_netinfo_query_def its_vlan_query_def its_conf_gpio_query_def
  its_conf_server_query_def its_conf_com_query_def its_conf_mode_query_def its_conf_lim_query_def

lemma simple_call_released:
  assumes "simple_call call" "call pak l = Some (r, l')" "l_trace l = []" "0 < l_socket l"
  shows "released (l_socket l) l'"
  using assms(1,2)
  by cases (auto simp: set_call_defs query_call_defs code_of_def bind_eq_Some_conv
    dest: its_set_released [OF _ assms(3,4)] its_query_released [OF _ assms(3,4)])

text \<open>C26: whatever the network does, a call of the library that logs in, queries or sets opens one
  connection, writes only to it, and has closed it exactly once when it returns.\<close>

theorem library_calls_release:
  assumes "simple_call call" "call pak l = Some (r, l')" "l_trace l = []" "0 < l_socket l"
  shows "\<exists>ps. l_trace l' = [EvSocket (l_socket l), EvConnect (l_socket l) WEB_IP WEB_PORT] @
     map (EvWrite (l_socket l)) ps @ [EvClose (l_socket l)]"
  using simple_call_released [OF assms] by (simp add: released_def opened_by_def)

definition demo_lib :: lib where
  "demo_lib = \<lparr>l_fd = 0, l_file = 0, l_idle = 0, l_socket = 5, l_connect = True, l_tx = [], l_starts = [],
     l_rx = [LrxGot 1024, LrxGot 1024], l_inp = [], l_trace = []\<rparr>"

theorem library_calls_release_witness:
  "\<exists>r l'. its_factory_set (e_pak demo_env) (demo_lib\<lparr>l_tx := [TxIntr, TxErr]\<rparr>) = Some (r, l') \<and> last (l_trace l') = EvClose 5"
proof -
  let ?l = "demo_lib\<lparr>l_tx := [TxIntr, TxErr]\<rparr>"
  obtain r l' where c: "its_factory_set (e_pak demo_env) ?l = Some (r, l')"
    by (simp add: its_factory_set_def its_set_def its_request_def net_conn_connect_def demo_lib_def lib_send_def lib_send_pkt_def
        lib_start_def lib_conn_close_def lemit_def lib_fail_def)
  have "simple_call its_factory_set" by (rule simple_call.intros)
  from library_calls_release [OF this c] show ?thesis using c by (auto simp: demo_lib_def)
qed

end
