(* ===== verification/Remote_Props.thy ===== *)
theory Remote_Props
  imports ItsProps
begin

text \<open>The library and the daemon together: what the management programs can rely on.\<close>

section \<open>The packets\<close>

lemma ok_lib_pack [simp]: "ok_ITSIP (itsip_pack a n t p) = ok_ITSIP p" "itsip_head (itsip_pack a n t p) = its_code ITS_HEAD"
  "itsip_cmd (itsip_pack a n t p) = its_code a" "itsip_user (itsip_pack a n t p) = itsip_user p" "itsip_data (itsip_pack a n t p) = itsip_data p"
  "itsip_extlen (itsip_pack a n t p) = of_nat n"
  by (simp_all add: itsip_pack_def ok_ITSIP_def)

text \<open>A name in the head, and bytes in its data.\<close>

lemma with_user_name:
  assumes "fits n" "ok_ITSIP pak"
  obtains pak' where "with_user (n @ [0]) pak = Some pak'" "ok_ITSIP pak'" "cstring (itsip_user pak') = Some n"
    "itsip_head pak' = itsip_head pak" "itsip_cmd pak' = itsip_cmd pak" "itsip_data pak' = itsip_data pak" "itsip_extlen pak' = itsip_extlen pak"
proof -
  obtain r where "strcpy (itsip_user pak) (n @ [0]) = Some (n @ 0 # r)" "length (n @ 0 # r) = 24"
    using assms by (auto simp: ok_ITSIP_def elim: strcpy_fits)
  then show ?thesis using assms
    by (intro that [of "pak\<lparr>itsip_user := n @ 0 # r\<rparr>"]) (simp_all add: with_user_def ok_ITSIP_def fits_def cstring_append)
qed

lemma with_data_byte:
  assumes "i < 24" "ok_ITSIP pak"
  shows "with_data i x pak = Some (pak\<lparr>itsip_data := (itsip_data pak)[i := x]\<rparr>)"
  using assms by (simp add: with_data_def ok_ITSIP_def wr_in)

lemma ok_ITSIP_data [simp]: "ok_ITSIP (h\<lparr>itsip_data := (itsip_data h)[i := x]\<rparr>) = ok_ITSIP h"
  by (simp add: ok_ITSIP_def)

lemma code_byte: "uint (of_int (cmd_code c) :: u8) = cmd_code c"
  by (cases c) simp_all

lemma reply_facts:
  assumes "ok_env e"
  shows "ok_ITSIP (reply_head e a n (cmd_code r))" "uint (itsip_data (reply_head e a n (cmd_code r)) ! 0) = cmd_code r"
  using assms by (simp_all add: reply_head_def ok_env_def ok_ITSIP_def code_byte itsip_pack_def)

text \<open>A command that answers with a code, on a prompt connection.\<close>

lemma answer_prompt:
  assumes "ok_env e" "0 < client_conn c" "tx c = []" "starts c = []"
  shows "answer e a (Some (ret, c, d)) = Some (c\<lparr>idle := 0\<rparr>, emit (EvWrite (client_conn c) (enc_ITSIP (reply_head e a 0 ret))) d)"
  using answer_eq [OF assms(1)] send_prompt [OF assms(2-4) enc_ITSIP_nonempty] by simp

lemma prompt_fields: "prompt c \<Longrightarrow> 0 < client_conn c \<and> tx c = [] \<and> starts c = []"
  by (auto simp: prompt_def)

section \<open>Settings\<close>

lemma netinfo_set_served:
  assumes "ok_env e" "ok_dev d" "flash_writable d" "ok_CONFIG_NET x" "ok_CONFI_DATA junk" "prompt c"
    and "length r = 1024" "take 60 r = enc_CONFIG_NET x" "ok_ITSIP pak"
  obtains d1 where "web_cmd_proc e (itsip_pack ITS_NETINFO_SET 60 0 pak) (served c r) d
      = Some ((served (served c r) (drop 60 r))\<lparr>idle := 0\<rparr>, emit (EvWrite (client_conn c) (enc_ITSIP (reply_head e ITS_ACK_NETINFO_SET 0 (cmd_code NET_SET_OK)))) d1)"
    "ok_dev d1" "g_conf_info d1 = (g_conf_info d)\<lparr>con_net := x\<rparr>" "g_conf_info (restart junk d1) = g_conf_info d1" "silent_to (client_conn c) d d1"
proof -
  obtain d1 mac where d1: "config_net_set x (config_save (set_conf (con_net_update (\<lambda>_. x)) d)) = Some d1" "ok_dev d1"
    "g_conf_info d1 = (g_conf_info d)\<lparr>con_net := x\<rparr>" "g_conf_info (restart junk d1) = g_conf_info d1"
    "trace d1 = trace d @ map EvSystem (net_commands x mac)"
    using network_settings_take_effect [OF assms(2-5)] by blast
  have dec: "dec_CONFIG_NET (take 60 r) = Some (x, [])" using cNET.dec_enc_exact [OF assms(4)] assms(8) by simp
  let ?c = "served (served c r) (drop 60 r)"
  have s: "recv_struct 60 dec_CONFIG_NET fail (served c r) d k = k x ?c d" for fail k
    by (rule recv_struct_prompt [where dec = dec_CONFIG_NET and q = "[]", OF assms(6) _ _ _ dec]) (use assms(7) in auto)
  have "sys_netinfo_set (served c r) d = Some (cmd_code NET_SET_OK, ?c, d1)" using d1(1) by (simp add: sys_netinfo_set_def s)
  then have "web_cmd_proc e (itsip_pack ITS_NETINFO_SET 60 0 pak) (served c r) d
      = answer e ITS_ACK_NETINFO_SET (Some (cmd_code NET_SET_OK, ?c, d1))"
    using prompt_fields [OF assms(6)] by (simp add: web_cmd_proc_def Let_def)
  also have "\<dots> = Some (?c\<lparr>idle := 0\<rparr>, emit (EvWrite (client_conn c) (enc_ITSIP (reply_head e ITS_ACK_NETINFO_SET 0 (cmd_code NET_SET_OK)))) d1)"
    using answer_prompt [OF assms(1), of ?c] prompt_fields [OF assms(6)] by simp
  finally show ?thesis using that d1 silent_to_trace(1) [OF d1(5)] by blast
qed

lemma set_payload:
  assumes "length (enc x) = n" "1024 \<le> n + length mem" "0 < n" "n \<le> 1024"
  shows "sendable (Some (enc x @ mem)) n" "length (payload (Some (enc x @ mem))) = 1024"
    "take n (payload (Some (enc x @ mem))) = enc x" "drop n (payload (Some (enc x @ mem))) = take (1024 - n) mem"
  using assms by (simp_all add: sendable_def payload_def MAX_LENGTH_def min_absorb1 min_absorb2)

lemma netinfo_remote_set:
  assumes "ok_env e" "ok_dev d" "flash_writable d" "ok_CONFIG_NET x" "ok_CONFI_DATA junk" "prompt c" "willing l" "ok_ITSIP pak" "964 \<le> length mem"
  obtains d1 where "remote (its_netinfo_set x mem pak) e l c d (cmd_code NET_SET_OK)
      ((served (served c (enc_CONFIG_NET x @ take 964 mem)) (take 964 mem))\<lparr>idle := 0\<rparr>) d1"
    "ok_dev d1" "g_conf_info d1 = (g_conf_info d)\<lparr>con_net := x\<rparr>" "g_conf_info (restart junk d1) = g_conf_info d1"
proof -
  note p = set_payload [of enc_CONFIG_NET x 60 mem, OF cNET.enc_length [OF assms(4)]]
  let ?data = "Some (enc_CONFIG_NET x @ mem)" and ?pak = "itsip_pack ITS_NETINFO_SET 60 0 pak"
  have r: "payload ?data = enc_CONFIG_NET x @ take 964 mem"
    using p(3,4) assms(9) append_take_drop_id [of 60 "payload ?data"] by simp
  obtain d1 where d1: "web_cmd_proc e ?pak (served c (payload ?data)) d
      = Some ((served (served c (payload ?data)) (drop 60 (payload ?data)))\<lparr>idle := 0\<rparr>, emit (EvWrite (client_conn c) (enc_ITSIP (reply_head e ITS_ACK_NETINFO_SET 0 (cmd_code NET_SET_OK)))) d1)"
    "ok_dev d1" "g_conf_info d1 = (g_conf_info d)\<lparr>con_net := x\<rparr>" "g_conf_info (restart junk d1) = g_conf_info d1" "silent_to (client_conn c) d d1"
    by (rule netinfo_set_served [where pak = pak and r = "payload ?data", OF assms(1-6) p(2,3) assms(8)]) (use assms(9) in auto)
  let ?d' = "emit (EvWrite (client_conn c) (enc_ITSIP (reply_head e ITS_ACK_NETINFO_SET 0 (cmd_code NET_SET_OK)))) d1"
  have "remote (its_set ?pak ?data 60) e l c d (uint (itsip_data (reply_head e ITS_ACK_NETINFO_SET 0 (cmd_code NET_SET_OK)) ! 0))
     ((served (served c (payload ?data)) (drop 60 (payload ?data)))\<lparr>idle := 0\<rparr>) ?d'"
    by (rule remote_set [OF assms(7,6) _ p(1) reply_facts(1) [OF assms(1)] d1(5,1)]) (use assms(8,9) in auto)
  then have "remote (its_netinfo_set x mem pak) e l c d (cmd_code NET_SET_OK)
     ((served (served c (payload ?data)) (drop 60 (payload ?data)))\<lparr>idle := 0\<rparr>) ?d'"
    unfolding its_netinfo_set_def [abs_def] reply_facts(2) [OF assms(1)] .
  moreover have "ok_dev ?d'" "g_conf_info ?d' = (g_conf_info d)\<lparr>con_net := x\<rparr>" using d1(2,3) by simp_all
  moreover have "g_conf_info (restart junk ?d') = g_conf_info ?d'"
    using d1(4) restart_trace [where junk = junk and d = d1] by (simp add: emit_def)
  moreover have "drop 60 (payload ?data) = take 964 mem" using p(4) assms(9) by simp
  ultimately show ?thesis by (intro that [of ?d']) (simp_all only: r)
qed

section \<open>Queries\<close>

lemma net_image:
  assumes "ok_dev d" "ok_env e"
  shows "60 \<le> length (conf_mem e off_net d)" "MAX_LENGTH \<le> length (conf_mem e off_net d)"
    "take 60 (conf_mem e off_net d) = enc_CONFIG_NET (con_net (g_conf_info d))"
proof -
  have ok: "ok_CONFI_DATA (g_conf_info d)" using assms(1) by (simp add: ok_dev_def)
  obtain pre rest where p: "enc_CONFI_DATA (g_conf_info d) = pre @ rest" "length pre = 784" "take 60 (drop 256 pre) = enc_CONFIG_NET (con_net (g_conf_info d))"
    using usr_image [OF ok] by metis
  have l: "length (enc_CONFI_DATA (g_conf_info d)) = 1860" using cDATA.enc_length [OF ok] .
  then show "60 \<le> length (conf_mem e off_net d)" "MAX_LENGTH \<le> length (conf_mem e off_net d)"
    using assms(2) by (simp_all add: conf_mem_def off_net_def MAX_LENGTH_def)
  show "take 60 (conf_mem e off_net d) = enc_CONFIG_NET (con_net (g_conf_info d))"
    using p by (simp add: conf_mem_def off_net_def)
qed

lemma net_conn_send_prompt:
  assumes "0 < client_conn c" "tx c = []" "starts c = []" "0 < n" "MAX_LENGTH \<le> length mem"
  shows "net_conn_send h (Some mem) n c d = Some (SUCCESS, c\<lparr>idle := 0\<rparr>,
     emit (EvWrite (client_conn c) (take MAX_LENGTH mem)) (emit (EvWrite (client_conn c) (enc_ITSIP h)) d))"
proof -
  have m: "take MAX_LENGTH mem \<noteq> []" using assms(5) by (auto simp: MAX_LENGTH_def)
  show ?thesis using send_prompt [OF assms(1-3) enc_ITSIP_nonempty, of h d] send_prompt [OF _ _ _ m, of "c\<lparr>idle := 0\<rparr>"] assms
    by (simp add: net_conn_send_def rds_def)
qed

lemma netinfo_remote_query:
  assumes "ok_env e" "ok_dev d" "prompt c" "willing l" "ok_ITSIP pak" "fits n" "ok_CONFIG_NET y"
  obtains d1 where "remote (\<lambda>l. map_option (\<lambda>(r, x, l). ((r, x), l)) (its_netinfo_query (n @ [0]) y pak l)) e l c d
     (cmd_code QUERY_OK, con_net (g_conf_info d)) ((served c [])\<lparr>idle := 0\<rparr>) d1" "g_conf_info d1 = g_conf_info d" "ok_dev d1" "flash_writable d1 = flash_writable d"
proof -
  obtain pk where pk: "with_user (n @ [0]) (itsip_pack ITS_NETINFO_QUERY 0 0 pak) = Some pk" "ok_ITSIP pk"
    "itsip_head pk = its_code ITS_HEAD" "itsip_cmd pk = its_code ITS_NETINFO_QUERY"
    by (rule with_user_name [OF assms(6), of "itsip_pack ITS_NETINFO_QUERY 0 0 pak"]) (use assms(5) in auto)
  let ?h = "itsip_pack ITS_ACK_NETINFO_QUERY 60 0 (e_pak e)" and ?mem = "conf_mem e off_net d"
  have h: "ok_ITSIP ?h" "unat (itsip_extlen ?h) = 60" using assms(1) by (simp_all add: ok_env_def)
  note im = net_image [OF assms(2,1)]
  let ?d1 = "emit (EvWrite (client_conn c) (take MAX_LENGTH ?mem)) (emit (EvWrite (client_conn c) (enc_ITSIP ?h)) d)"
  have w: "web_cmd_proc e pk (served c []) d = Some ((served c [])\<lparr>idle := 0\<rparr>, ?d1)"
    using net_conn_send_prompt [of "served c []" 60 ?mem] im(2) prompt_fields [OF assms(3)]
    by (simp add: web_cmd_proc_def Let_def pk(3,4) show_part_def fin_def)
  have ok: "ok_CONFIG_NET (con_net (g_conf_info d))" using assms(2) by (simp add: ok_dev_def ok_CONFI_DATA_def)
  have len: "length (enc_CONFIG_NET y) = 60" using cNET.enc_length [OF assms(7)] .
  have "dec_CONFIG_NET (take 60 ?mem) = Some (con_net (g_conf_info d), [])" using cNET.dec_enc_exact [OF ok] im(3) by simp
  then have "remote (\<lambda>l. map_option (\<lambda>(r, x, l). ((r, x), l)) (its_query pk FAILURE (enc_CONFIG_NET y) dec_CONFIG_NET l)) e l c d
     (cmd_code QUERY_OK, con_net (g_conf_info d)) ((served c [])\<lparr>idle := 0\<rparr>) ?d1"
    using im(1) by (intro remote_query [OF assms(4,3) pk(2) h(1) silent_to_refl w]) (simp_all add: len h(2) MAX_LENGTH_def)
  then show ?thesis using assms(2) by (intro that [of ?d1]) (simp_all add: its_netinfo_query_def pk(1))
qed

section \<open>Properties\<close>

text \<open>Network settings sent through the library are stored by the daemon and survive its restart, and the
  library's query then returns exactly them, whatever is in the caller's packets and structures before.\<close>

theorem remote_settings_round_trip:
  assumes "ok_env e" "ok_dev d" "flash_writable d" "ok_CONFI_DATA junk" "ok_CONFIG_NET x"
    and "willing l" "prompt c" "ok_ITSIP pak" "964 \<le> length mem"
    and "willing l2" "prompt c2" "ok_ITSIP pak2" "fits name" "ok_CONFIG_NET y"
  shows "\<exists>c1 d1 c3 d3. remote (its_netinfo_set x mem pak) e l c d (cmd_code NET_SET_OK) c1 d1 \<and>
     g_conf_info d1 = (g_conf_info d)\<lparr>con_net := x\<rparr> \<and> g_conf_info (restart junk d1) = g_conf_info d1 \<and>
     remote (\<lambda>l. map_option (\<lambda>(r, x, l). ((r, x), l)) (its_netinfo_query (name @ [0]) y pak2 l)) e l2 c2 d1 (cmd_code QUERY_OK, x) c3 d3 \<and>
     g_conf_info d3 = g_conf_info d1"
proof -
  obtain c1 d1 where d1: "remote (its_netinfo_set x mem pak) e l c d (cmd_code NET_SET_OK) c1 d1" "ok_dev d1"
    "g_conf_info d1 = (g_conf_info d)\<lparr>con_net := x\<rparr>" "g_conf_info (restart junk d1) = g_conf_info d1"
    by (rule netinfo_remote_set [OF assms(1-3,5,4,7,6,8,9)]) blast
  obtain c3 d3 where "remote (\<lambda>l. map_option (\<lambda>(r, x, l). ((r, x), l)) (its_netinfo_query (name @ [0]) y pak2 l)) e l2 c2 d1
     (cmd_code QUERY_OK, con_net (g_conf_info d1)) c3 d3" "g_conf_info d3 = g_conf_info d1"
    by (rule netinfo_remote_query [OF assms(1) d1(2) assms(11,10,12-14)]) blast
  with d1 show ?thesis by (intro exI [of _ c1] exI [of _ d1] exI [of _ c3] exI [of _ d3]) simp
qed

lemma ok_demo_nil: "ok_dev (demo [])"
  by (rule ok_demo) simp

lemma willing_demo: "willing demo_lib"
  by (simp add: willing_def demo_lib_def)

definition prompt_conn :: NET_CONN_INFO where
  "prompt_conn = fresh_conn\<lparr>conn_idx := 0, client_conn := 7, rx := replicate 3 (RxGot 1024 0 0)\<rparr>"

lemma prompt_demo: "prompt prompt_conn"
  by (simp add: prompt_def prompt_conn_def fresh_conn_def numeral_3_eq_3)

lemma ok_demo_pak: "ok_ITSIP (e_pak demo_env)"
  using ok_demo_env by (simp add: ok_env_def)

theorem remote_settings_round_trip_witness:
  "\<exists>c1 d1 c3 d3. remote (its_netinfo_set ((con_net demo_conf)\<lparr>dev_ip := 7\<rparr>) (zeros 1000) (e_pak demo_env)) demo_env demo_lib prompt_conn (demo []) (cmd_code NET_SET_OK) c1 d1 \<and>
     remote (\<lambda>l. map_option (\<lambda>(r, x, l). ((r, x), l)) (its_netinfo_query ([117] @ [0]) (con_net demo_conf) (e_pak demo_env) l)) demo_env demo_lib prompt_conn d1
       (cmd_code QUERY_OK, (con_net demo_conf)\<lparr>dev_ip := 7\<rparr>) c3 d3"
proof -
  have x: "ok_CONFIG_NET ((con_net demo_conf)\<lparr>dev_ip := 7\<rparr>)" using ok_demo_net by (simp add: ok_CONFIG_NET_def)
  have f: "fits [117]" "964 \<le> length (zeros 1000)" "flash_writable (demo [])" by (simp_all add: fits_def)
  show ?thesis using remote_settings_round_trip [OF ok_demo_env ok_demo_nil f(3) ok_demo_conf x willing_demo prompt_demo ok_demo_pak f(2)
    willing_demo prompt_demo ok_demo_pak f(1) ok_demo_net] by blast
qed



end
