(* ===== verification/Remote_Users.thy ===== *)
theory Remote_Users
  imports Remote_Props
begin

text \<open>Users and ports managed through the library.\<close>

section \<open>Login\<close>

lemma login_remote:
  assumes "ok_env e" "users_ok d" "prompt c" "willing l" "ok_ITSIP pak" "fits n" "n \<noteq> []"
    and "cstring psw = Some p" "fits (crypt p (bytes_of USR_SALT))"
  obtains c1 d1 where "remote (user_login crypt (n @ [0]) psw pak) e l c d
     (cmd_code (case accounts d n of None \<Rightarrow> NO_USER | Some q \<Rightarrow> if crypt p (bytes_of USR_SALT) = q then LOGIN_OK else ERROR_PSW)) c1 d1"
    "g_conf_info d1 = g_conf_info d"
proof -
  let ?q = "crypt p (bytes_of USR_SALT)"
  let ?v = "case accounts d n of None \<Rightarrow> NO_USER | Some q \<Rightarrow> if ?q = q then LOGIN_OK else ERROR_PSW"
  obtain pk where pk: "with_user (n @ [0]) (itsip_pack ITS_LOGIN 0 0 pak) = Some pk" "ok_ITSIP pk" "cstring (itsip_user pk) = Some n"
    "itsip_head pk = its_code ITS_HEAD" "itsip_cmd pk = its_code ITS_LOGIN"
    by (rule with_user_name [OF assms(6), of "itsip_pack ITS_LOGIN 0 0 pak"]) (use assms(5) in auto)
  obtain r where r: "strcpy (itsip_data pk) (?q @ [0]) = Some (?q @ 0 # r)" "length (?q @ 0 # r) = 24"
    by (rule strcpy_fits [OF assms(9), of "itsip_data pk"]) (use pk(2) in \<open>auto simp: ok_ITSIP_def\<close>)
  let ?pk = "pk\<lparr>itsip_data := ?q @ 0 # r\<rparr>"
  have ok: "ok_ITSIP ?pk" using pk(2) r(2) by (simp add: ok_ITSIP_def)
  have "cstring (?q @ 0 # r) = Some ?q" using assms(9) by (simp add: fits_def cstring_append)
  then have "sys_usr_login (itsip_user ?pk) (itsip_data ?pk) d = Some (cmd_code ?v)"
    using login_by_cstring [OF assms(2) pk(3) assms(7), of "?q @ 0 # r"] pk(2) r(2)
    by (auto simp: ok_ITSIP_def split: option.splits)
  then have "web_cmd_proc e ?pk (served c (payload None)) d
      = fin (ack (itsip_pack ITS_ACK_LOGIN 0 0 (e_pak e)) (cmd_code ?v) (served c (payload None)) d)"
    using prompt_fields [OF assms(3)] pk(4,5) by (simp add: web_cmd_proc_def Let_def)
  also have "\<dots> = Some ((served c (payload None))\<lparr>idle := 0\<rparr>,
      emit (EvWrite (client_conn c) (enc_ITSIP (reply_head e ITS_ACK_LOGIN 0 (cmd_code ?v)))) d)"
    using send_prompt [OF _ _ _ enc_ITSIP_nonempty, of "served c (payload None)"] prompt_fields [OF assms(3)]
    by (simp add: ack_pack [OF assms(1)] fin_def)
  finally have "remote (its_set ?pk None 0) e l c d (uint (itsip_data (reply_head e ITS_ACK_LOGIN 0 (cmd_code ?v)) ! 0))
      ((served c (payload None))\<lparr>idle := 0\<rparr>) (emit (EvWrite (client_conn c) (enc_ITSIP (reply_head e ITS_ACK_LOGIN 0 (cmd_code ?v)))) d)"
    by (intro remote_set [OF assms(4,3) ok _ reply_facts(1) [OF assms(1)]]) (simp_all add: sendable_def)
  then have "remote (user_login crypt (n @ [0]) psw pak) e l c d (cmd_code ?v)
      ((served c (payload None))\<lparr>idle := 0\<rparr>) (emit (EvWrite (client_conn c) (enc_ITSIP (reply_head e ITS_ACK_LOGIN 0 (cmd_code ?v)))) d)"
    unfolding reply_facts(2) [OF assms(1)] user_login_def [abs_def] by (simp add: pk(1) assms(8) r(1))
  then show ?thesis by (rule that) simp
qed

section \<open>Adding a user\<close>

lemma dec_two_users:
  assumes "ok_USR_INFO u" "length rest = 56"
  obtains v q where "dec_list dec_USR_INFO 2 (enc_USR_INFO u @ rest) = Some ([u, v], q)"
proof -
  obtain v q where "dec_USR_INFO rest = Some (v, q)" using cUSR.dec_total [of rest] assms(2) by auto
  then have "dec_list dec_USR_INFO 2 (enc_USR_INFO u @ rest) = Some ([u, v], q)"
    using cUSR.dec_enc [OF assms(1), of rest] by (simp add: numeral_2_eq_2 dec_list.simps)
  then show ?thesis by (rule that)
qed

lemma user_add_remote:
  assumes "ok_env e" "ok_dev d" "users_ok d" "prompt c" "willing l" "ok_ITSIP pak" "968 \<le> length mem" "flash_writable d" "ok_CONFI_DATA junk"
    and "fits a" "get_usr_info (a @ [0]) d = Some (Some i)" "usr_auth (users d ! i) = USR_ROOT"
    and "ok_USR_INFO u" "cstring (usr_name u) = Some n" "n \<noteq> []" "cstring (usr_passwd u) = Some p" "accounts d n = None"
  obtains r c1 d1 where "remote (its_user_add (a @ [0]) u mem pak) e l c d r c1 d1"
    "r = cmd_code USR_ADD_FAILED \<and> g_conf_info d1 = g_conf_info d \<or>
     r = cmd_code USR_ADD_OK \<and> accounts d1 = (accounts d)(n \<mapsto> p) \<and> users_ok d1 \<and> g_conf_info (restart junk d1) = g_conf_info d1"
proof -
  obtain pk where pk: "with_user (a @ [0]) (itsip_pack ITS_USER_SET 56 0 pak) = Some pk" "ok_ITSIP pk" "cstring (itsip_user pk) = Some a"
    "itsip_head pk = its_code ITS_HEAD" "itsip_cmd pk = its_code ITS_USER_SET" "itsip_extlen pk = 56"
    by (rule with_user_name [OF assms(10), of "itsip_pack ITS_USER_SET 56 0 pak"]) (use assms(6) in auto)
  let ?pk = "pk\<lparr>itsip_data := (itsip_data pk)[0 := user_set_code USER_ADD]\<rparr>"
  have wd: "with_data 0 (user_set_code USER_ADD) pk = Some ?pk" by (rule with_data_byte [OF _ pk(2)]) simp
  have ok: "ok_ITSIP ?pk" "itsip_data ?pk ! 0 = user_set_code USER_ADD" using pk(2) by (simp_all add: ok_ITSIP_def)
  have "get_usr_info (itsip_user ?pk) d = get_usr_info (a @ [0]) d"
    using get_usr_info_eq [OF assms(3) pk(3)] get_usr_info_eq [OF assms(3) cstring_fits [OF assms(10)]] by simp
  then have adm: "admin ?pk d" using assms(11,12) by (simp add: admin_def)
  let ?data = "Some (enc_USR_INFO u @ mem)"
  note p = set_payload [of enc_USR_INFO u 56 mem, OF cUSR.enc_length [OF assms(13)]]
  have pay: "take 56 (payload ?data) = enc_USR_INFO u" "length (payload ?data) = 1024" "sendable ?data 56"
    using p assms(7) by simp_all
  have ext: "length (e_extdat e) = 112" using assms(1) by (simp add: ok_env_def)
  then obtain v q where v: "dec_list dec_USR_INFO 2 (enc_USR_INFO u @ drop 56 (e_extdat e)) = Some ([u, v], q)"
    by (elim dec_two_users [OF assms(13), of "drop 56 (e_extdat e)", rotated]) simp
  have ready: "ready_for 56 (served c (payload ?data))" by (rule served_ready(1) [OF assms(4)]) (use pay in auto)
  have st: "wrs (e_extdat e) 0 (take 56 (inp (served c (payload ?data)))) = Some (enc_USR_INFO u @ drop 56 (e_extdat e))"
    using ext pay(1) cUSR.enc_length [OF assms(13)] by (simp add: wrs_def)
  obtain r c' d' where d': "sys_usr_set e ?pk (served c (payload ?data)) d = Some (r, c', d')" "client_conn c' = client_conn c" "tx c' = tx c" "trace d' = trace d"
    "r = cmd_code USR_ADD_FAILED \<and> d' = d \<or> r = cmd_code USR_ADD_OK \<and> accounts d' = (accounts d)(n \<mapsto> p) \<and> users_ok d' \<and>
        g_conf_info (restart junk d') = g_conf_info d'"
    using administrator_adds_user [where e = e, OF ok(1) assms(2,3) adm _ _ ok(2) ready st v assms(13-17,8,9)] pk(6) by auto
  let ?h = "(e_pak e)\<lparr>itsip_data := (itsip_data (e_pak e))[0 := of_int r]\<rparr>"
  let ?d1 = "emit (EvWrite (client_conn c) (enc_ITSIP ?h)) d'"
  have he: "ok_ITSIP (e_pak e)" using assms(1) by (simp add: ok_env_def)
  obtain c1 where "net_conn_send_pkt (enc_ITSIP ?h) c' d' = (SUCCESS, c1, ?d1)"
    using send_pkt_open [OF _ _ enc_ITSIP_nonempty, of c' ?h d'] d'(2,3) prompt_fields [OF assms(4)] by auto
  then have "web_cmd_proc e ?pk (served c (payload ?data)) d = Some (c1, ?d1)"
    using prompt_fields [OF assms(4)] pk(4,5) d'(1) by (simp add: web_cmd_proc_def Let_def ack_def set_data0_eq [OF he] net_conn_send_head fin_def)
  then have "remote (its_user_set USER_ADD 56 (a @ [0]) (enc_USR_INFO u @ mem) pak) e l c d (uint (itsip_data ?h ! 0)) c1 ?d1"
    by (intro remote_user_set [OF assms(5,4) ok(1) pay(3) _ _ _ pk(1) wd]) (use he silent_to_trace(2) [OF d'(4)] in auto)
  moreover have "uint (itsip_data ?h ! 0) = r" using d'(5) he by (auto simp: ok_ITSIP_def code_byte)
  ultimately have "remote (its_user_add (a @ [0]) u mem pak) e l c d r c1 ?d1" by (simp add: its_user_add_def [abs_def])
  moreover have "accounts ?d1 = accounts d'" "users_ok ?d1 = users_ok d'" by (simp_all add: accounts_def users_ok_def fun_eq_iff)
  moreover have "g_conf_info (restart junk ?d1) = g_conf_info (restart junk d')"
    using restart_trace [where junk = junk and d = d'] by (simp add: emit_def)
  ultimately show ?thesis using d'(5) by (intro that [of r c1 ?d1]) auto
qed


lemma get_root: "get_usr_info (bytes_of ''root'' @ [0]) (demo []) = Some (Some 0)" "usr_auth (users (demo []) ! 0) = USR_ROOT"
proof -
  have u: "uname (users (demo []) ! 0) = bytes_of ''root''" "usr_auth (users (demo []) ! 0) = USR_ROOT" "0 < length (users (demo []))"
    unfolding demo_users by (simp_all add: demo_names)
  have "cstring (bytes_of ''root'' @ [0]) = Some (bytes_of ''root'')" by (simp add: bytes_of_def)
  from get_usr_info_here [OF users_ok_demo this u(3,1)] show "get_usr_info (bytes_of ''root'' @ [0]) (demo []) = Some (Some 0)" by simp
  show "usr_auth (users (demo []) ! 0) = USR_ROOT" by (rule u(2))
qed


section \<open>Serial settings\<close>

lemma com_set_pack:
  assumes "ok_ITSIP pak"
  obtains pk where "with_port CONF_COM i (itsip_pack ITS_CONF_SET 28 0 pak) = Some pk" "with_data 2 f pk = Some (pk\<lparr>itsip_data := (itsip_data pk)[2 := f]\<rparr>)"
    "ok_ITSIP pk" "itsip_data pk ! 0 = conf_kind_code CONF_COM" "itsip_data pk ! 1 = i" "itsip_user pk = itsip_user pak"
    "itsip_head pk = its_code ITS_HEAD" "itsip_cmd pk = its_code ITS_CONF_SET"
proof -
  let ?p0 = "itsip_pack ITS_CONF_SET 28 0 pak"
  let ?p1 = "?p0\<lparr>itsip_data := (itsip_data ?p0)[0 := conf_kind_code CONF_COM]\<rparr>"
  let ?p2 = "?p1\<lparr>itsip_data := (itsip_data ?p1)[1 := i]\<rparr>"
  have ok: "ok_ITSIP ?p0" "ok_ITSIP ?p1" "ok_ITSIP ?p2" using assms by (simp_all add: ok_ITSIP_def)
  have "with_port CONF_COM i ?p0 = Some ?p2"
    using with_data_byte [OF _ ok(1), of 0] with_data_byte [OF _ ok(2), of 1] by (simp add: with_port_def)
  then show ?thesis using with_data_byte [OF _ ok(3), of 2 f] ok(3) assms
    by (intro that [of ?p2]) (simp_all add: ok_ITSIP_def)
qed

text \<open>The library's call that sets a serial port takes a user name and does not send it: the daemon decides
  by whatever name lies in the caller's packet. If that is nobody who may set the port, nothing is set,
  whoever the caller names, and the call returns the code of success.\<close>

theorem port_setting_carries_no_user:
  assumes "ok_env e" "ok_dev d" "users_ok d" "prompt c" "willing l" "ok_ITSIP pak" "996 \<le> length mem" "ok_CONFIG_COM x"
    and "unat (ucast (com_id x - 1) :: u8) < 2" "lim = con_lim (g_conf_info d) ! unat (ucast (com_id x - 1) :: u8)" "lim_enable lim = ENABLED"
    and "get_usr_info (itsip_user pak) d = Some r" "case r of None \<Rightarrow> True | Some i \<Rightarrow> lim_modify lim ! i \<noteq> ENABLED"
  shows "\<exists>c1 d1. remote (its_conf_com_set name x f mem pak) e l c d (cmd_code COM_SET_OK) c1 d1 \<and> g_conf_info d1 = g_conf_info d"
proof -
  obtain pk where pk: "with_port CONF_COM (ucast (com_id x - 1)) (itsip_pack ITS_CONF_SET 28 0 pak) = Some pk"
    "with_data 2 f pk = Some (pk\<lparr>itsip_data := (itsip_data pk)[2 := f]\<rparr>)" "ok_ITSIP pk" "itsip_data pk ! 0 = conf_kind_code CONF_COM"
    "itsip_data pk ! 1 = ucast (com_id x - 1)" "itsip_user pk = itsip_user pak" "itsip_head pk = its_code ITS_HEAD" "itsip_cmd pk = its_code ITS_CONF_SET"
    by (rule com_set_pack [OF assms(6)])
  let ?pk = "pk\<lparr>itsip_data := (itsip_data pk)[2 := f]\<rparr>" and ?data = "Some (enc_CONFIG_COM x @ mem)"
  have h: "ok_ITSIP ?pk" "itsip_data ?pk ! 0 = conf_kind_code CONF_COM" "itsip_data ?pk ! 1 = ucast (com_id x - 1)"
    "itsip_user ?pk = itsip_user pak" using pk(3-6) by (simp_all add: ok_ITSIP_def)
  note p = set_payload [of enc_CONFIG_COM x 28 mem, OF cCOM.enc_length [OF assms(8)]]
  have pay: "take 28 (payload ?data) = enc_CONFIG_COM x" "length (payload ?data) = 1024" "sendable ?data 28" using p assms(7) by simp_all
  have ready: "ready_for 28 (served c (payload ?data))" by (rule served_ready(1) [OF assms(4)]) (use pay in auto)
  obtain c' where c': "sys_conf_set ?pk (served c (payload ?data)) d = Some (cmd_code COM_SET_OK, c', d)" "client_conn c' = client_conn c" "tx c' = tx c"
    using refused_port_setting_reports_success [OF assms(2,3) h(1,2) _ ready _ assms(8) _ assms(11) _ assms(13)] assms(9,10,12) h(3,4) pay(1) by auto
  let ?h = "reply_head e ITS_ACK_CONF_SET 0 (cmd_code COM_SET_OK)"
  let ?d1 = "emit (EvWrite (client_conn c) (enc_ITSIP ?h)) d"
  obtain c1 where "net_conn_send_pkt (enc_ITSIP ?h) c' d = (SUCCESS, c1, ?d1)"
    using send_pkt_open [OF _ _ enc_ITSIP_nonempty, of c' ?h d] c'(2,3) prompt_fields [OF assms(4)] by auto
  then have "web_cmd_proc e ?pk (served c (payload ?data)) d = Some (c1, ?d1)"
    using prompt_fields [OF assms(4)] pk(7,8) c'(1) by (simp add: web_cmd_proc_def Let_def answer_eq [OF assms(1)])
  then have "remote (its_set ?pk ?data 28) e l c d (uint (itsip_data ?h ! 0)) c1 ?d1"
    by (intro remote_set [OF assms(5,4) h(1) pay(3) reply_facts(1) [OF assms(1)]]) simp_all
  then have "remote (its_conf_com_set name x f mem pak) e l c d (cmd_code COM_SET_OK) c1 ?d1"
    unfolding reply_facts(2) [OF assms(1)] by (simp add: its_conf_com_set_def [abs_def] pk(1,2))
  then show ?thesis by (intro exI conjI) (assumption, simp)
qed

theorem port_setting_carries_no_user_witness:
  "\<exists>c1 d1. remote (its_conf_com_set [117, 49, 0] (default_com 0) 0 (zeros 1000) (request ITS_CONF_SET (bytes_of ''root'') [] 0)) demo_env demo_lib prompt_conn limited
     (cmd_code COM_SET_OK) c1 d1 \<and> g_conf_info d1 = g_conf_info limited"
proof -
  let ?h = "request ITS_CONF_SET (bytes_of ''root'') [] 0"
  have c: "ok_CONFIG_COM (default_com 0)" "com_id (default_com 0) = 1" by (simp_all add: ok_CONFIG_COM_def default_com_def zero_COM_def)
  have h: "ok_ITSIP ?h" "996 \<le> length (zeros 1000)" by (simp_all add: ok_ITSIP_def)
  have "get_usr_info (itsip_user ?h) limited = get_usr_info (itsip_user ?h) (demo [])"
    using ok_limited(3) by (simp add: get_usr_info_def)
  then obtain i where i: "get_usr_info (itsip_user ?h) limited = Some (Some i)" "i < 16"
    using admin_demo [of ITS_CONF_SET "[]" 0 "[]"] get_usr_info_range [of _ "demo []"] unfolding admin_def demo_users by auto
  have l: "con_lim (g_conf_info limited) ! 0 = (default_lim 0)\<lparr>lim_enable := ENABLED\<rparr>" by (simp add: limited_def)
  show ?thesis
    using port_setting_carries_no_user [OF ok_demo_env ok_limited(1,2) prompt_demo willing_demo h c(1) _ refl _ i(1), where name = "[117, 49, 0]" and f = 0] i(2)
    by (auto simp: c(2) l default_lim_def zeros_def ENABLED_def)
qed

end
