(* ===== verification/Cgic.thy ===== *)
theory Cgic
  imports Sys
begin

text \<open>
  What the management pages use of the form library, \<open>web/cgic/cgic.c\<close>: the method of the request,
  the decoding of its body into a list of entries, and the functions that read a field.

  A string in a buffer the library has allocated is its characters without the terminator; it ends
  at the first NUL that decoding puts into it. Memory is not exhausted. On the board a plain
  \<open>char\<close> is unsigned, so it is an index of \<open>cgiHexValue\<close>.
\<close>

section \<open>Entries\<close>

datatype cgiFormResultType =
    cgiFormSuccess | cgiFormTruncated | cgiFormBadType | cgiFormEmpty | cgiFormNotFound
  | cgiFormConstrained | cgiFormNoSuchChoice | cgiFormMemory | cgiFormNoFileName
  | cgiFormNoContentType | cgiFormNotAFile | cgiFormOpenFailed | cgiFormIO | cgiFormEOF

record cgiFormEntry =
  e_attr :: bytes
  e_value :: bytes

section \<open>Decoding\<close>

definition cgiHexValue :: "u8 \<Rightarrow> nat" where
  "cgiHexValue c = (if 48 \<le> c \<and> c \<le> 57 then unat c - 48
     else if 65 \<le> c \<and> c \<le> 70 then unat c - 55
     else if 97 \<le> c \<and> c \<le> 102 then unat c - 87 else 0)"

datatype cgiEscapeState = cgiEscapeRest | cgiEscapeFirst | cgiEscapeSecond

fun unescape_loop :: "cgiEscapeState \<Rightarrow> nat \<Rightarrow> bytes \<Rightarrow> bytes" where
  "unescape_loop st escapedValue [] = []"
| "unescape_loop cgiEscapeRest escapedValue (ch # cp) =
     (if ch = 37 then unescape_loop cgiEscapeFirst escapedValue cp
      else if ch = 43 then 32 # unescape_loop cgiEscapeRest escapedValue cp
      else ch # unescape_loop cgiEscapeRest escapedValue cp)"
| "unescape_loop cgiEscapeFirst escapedValue (ch # cp) =
     unescape_loop cgiEscapeSecond (cgiHexValue ch * 16) cp"
| "unescape_loop cgiEscapeSecond escapedValue (ch # cp) =
     of_nat (escapedValue + cgiHexValue ch) # unescape_loop cgiEscapeRest escapedValue cp"

definition cgiUnescapeChars :: "bytes \<Rightarrow> bytes" where
  "cgiUnescapeChars cp = takeWhile (\<lambda>c. c \<noteq> 0) (unescape_loop cgiEscapeRest 0 cp)"

text \<open>A scan for \<open>x\<close>: what is before it, and what is behind it if it was found.\<close>

fun scan_for :: "u8 \<Rightarrow> bytes \<Rightarrow> bytes \<times> bytes option" where
  "scan_for x [] = ([], None)"
| "scan_for x (c # s) = (if c = x then ([], Some s) else (let (a, r) = scan_for x s in (c # a, r)))"

lemma scan_for_shorter: "scan_for x s = (a, Some r) \<Longrightarrow> length r < length s"
  by (induction s arbitrary: a) (auto split: if_splits prod.splits simp: less_Suc_eq)

function cgiParseFormInput :: "bytes \<Rightarrow> cgiFormEntry list" where
  "cgiParseFormInput data = (if data = [] then [] else
     case scan_for 61 data of
       (_, None) \<Rightarrow> []
     | (a, Some r) \<Rightarrow> (case scan_for 38 r of
           (v, None) \<Rightarrow> [\<lparr>e_attr = cgiUnescapeChars a, e_value = cgiUnescapeChars v\<rparr>]
         | (v, Some r') \<Rightarrow> \<lparr>e_attr = cgiUnescapeChars a, e_value = cgiUnescapeChars v\<rparr> # cgiParseFormInput r'))"
  by pat_completeness auto
termination
  by (relation "measure length") (auto dest!: scan_for_shorter sym [of "(_, Some _)"])

declare cgiParseFormInput.simps [simp del]

section \<open>The request\<close>

text \<open>\<open>cgiIn\<close> is what can be read of the body; the strings are those of the environment.\<close>

record cgi_request =
  cgiRequestMethod :: bytes
  cgiContentType :: bytes
  cgiContentLength :: int
  cgiQueryString :: bytes
  cgiRemoteAddr :: bytes
  cgiIn :: bytes

text \<open>A failed parse, the entries, or an upload, which the other parser takes.\<close>

datatype cgi_parse = CgiFailed | CgiMultipart | CgiEntries "cgiFormEntry list"

definition cgi_lower :: "u8 \<Rightarrow> u8" where
  "cgi_lower c = (if 65 \<le> c \<and> c \<le> 90 then c + 32 else c)"

definition cgiStrEqNc :: "bytes \<Rightarrow> bytes \<Rightarrow> bool" where
  "cgiStrEqNc s1 s2 \<longleftrightarrow> map cgi_lower s1 = map cgi_lower s2"

text \<open>A negative length is more than can be allocated.\<close>

definition cgiParsePostFormInput :: "cgi_request \<Rightarrow> cgi_parse" where
  "cgiParsePostFormInput q = (if cgiContentLength q = 0 then CgiEntries []
     else if cgiContentLength q < 0 \<or> length (cgiIn q) < nat (cgiContentLength q) then CgiFailed
     else CgiEntries (cgiParseFormInput (take (nat (cgiContentLength q)) (cgiIn q))))"

definition cgi_main :: "cgi_request \<Rightarrow> cgi_parse" where
  "cgi_main q = (if cgiStrEqNc (cgiRequestMethod q) (bytes_of ''post'') then
       (if cgiStrEqNc (cgiContentType q) (bytes_of ''application/x-www-form-urlencoded'') then cgiParsePostFormInput q
        else if cgiStrEqNc (cgiContentType q) (bytes_of ''multipart/form-data'') then CgiMultipart
        else CgiEntries [])
     else if cgiStrEqNc (cgiRequestMethod q) (bytes_of ''get'') then CgiEntries (cgiParseFormInput (cgiQueryString q))
     else CgiEntries [])"

section \<open>Fields\<close>

definition cgiFormEntryFindFirst :: "bytes \<Rightarrow> cgiFormEntry list \<Rightarrow> cgiFormEntry option" where
  "cgiFormEntryFindFirst name es = List.find (\<lambda>e. e_attr e = name) es"

text \<open>
  The loop of \<open>cgiFormEntryString\<close>: \<open>len\<close> characters are in the result, which has room for \<open>avail\<close>.
  It returns what it adds and whether the value was cut.
\<close>

fun entry_string :: "bool \<Rightarrow> nat \<Rightarrow> nat \<Rightarrow> nat \<Rightarrow> nat \<Rightarrow> bytes \<Rightarrow> bytes \<times> bool" where
  "entry_string newlines avail crCount lfCount len [] =
     (let lfsAdd = (if newlines then max crCount lfCount else 0);
          k = min lfsAdd (avail - len)
      in (replicate k 10, k < lfsAdd))"
| "entry_string newlines avail crCount lfCount len (ch # sp) =
     (if ch = 13 then entry_string newlines avail (crCount + 1) lfCount len sp
      else if ch = 10 then entry_string newlines avail crCount (lfCount + 1) len sp
      else let lfsAdd = (if newlines then max crCount lfCount else 0);
               k = min lfsAdd (avail - len);
               len = len + k
           in if avail \<le> len then (replicate k 10, True)
              else let (out, truncated) = entry_string newlines avail 0 0 (len + 1) sp
                   in (replicate k 10 @ ch # out, truncated))"

definition cgiFormEntryString :: "cgiFormEntry \<Rightarrow> bytes \<Rightarrow> nat \<Rightarrow> bool \<Rightarrow> (cgiFormResultType \<times> bytes) option" where
  "cgiFormEntryString e result max_len newlines = do {
     let (out, truncated) = entry_string newlines (max_len - 1) 0 0 0 (e_value e);
     result \<leftarrow> wrs result 0 (out @ [0]);
     Some (if truncated then cgiFormTruncated else if out = [] then cgiFormEmpty else cgiFormSuccess, result) }"

definition cgiFormStringNoNewlines :: "bytes \<Rightarrow> bytes \<Rightarrow> nat \<Rightarrow> cgiFormEntry list \<Rightarrow> (cgiFormResultType \<times> bytes) option" where
  "cgiFormStringNoNewlines name result max_len es = (case cgiFormEntryFindFirst name es of
       None \<Rightarrow> do { result \<leftarrow> wrs result 0 [0]; Some (cgiFormNotFound, result) }
     | Some e \<Rightarrow> cgiFormEntryString e result max_len False)"

text \<open>\<open>atoi\<close> of a value outside of \<open>int\<close> is undefined.\<close>

definition atoi_int :: "bytes \<Rightarrow> int option" where
  "atoi_int s = (if - (2 ^ 31) \<le> atoi s \<and> atoi s < 2 ^ 31 then Some (atoi s) else None)"

definition cgiFirstNonspaceChar :: "bytes \<Rightarrow> u8" where
  "cgiFirstNonspaceChar s = (case dropWhile (\<lambda>c. c \<in> {32, 10, 13, 9}) s of [] \<Rightarrow> 0 | c # _ \<Rightarrow> c)"

definition cgiFormInteger :: "bytes \<Rightarrow> int \<Rightarrow> cgiFormEntry list \<Rightarrow> (cgiFormResultType \<times> int) option" where
  "cgiFormInteger name defaultV es = (case cgiFormEntryFindFirst name es of
       None \<Rightarrow> Some (cgiFormNotFound, defaultV)
     | Some e \<Rightarrow> if e_value e = [] then Some (cgiFormEmpty, defaultV)
         else let ch = cgiFirstNonspaceChar (e_value e)
              in if \<not> is_digit ch \<and> ch \<noteq> 45 \<and> ch \<noteq> 43 then Some (cgiFormBadType, defaultV)
                 else do { v \<leftarrow> atoi_int (e_value e); Some (cgiFormSuccess, v) })"

fun choice_index :: "bytes \<Rightarrow> nat \<Rightarrow> bytes list \<Rightarrow> nat option" where
  "choice_index v i [] = None"
| "choice_index v i (c # cs) = (if c = v then Some i else choice_index v (i + 1) cs)"

definition cgiFormSelectSingle :: "bytes \<Rightarrow> bytes list \<Rightarrow> nat \<Rightarrow> cgiFormEntry list \<Rightarrow> cgiFormResultType \<times> nat" where
  "cgiFormSelectSingle name choicesText defaultV es = (case cgiFormEntryFindFirst name es of
       None \<Rightarrow> (cgiFormNotFound, defaultV)
     | Some e \<Rightarrow> (case choice_index (e_value e) 0 choicesText of
           Some i \<Rightarrow> (cgiFormSuccess, i)
         | None \<Rightarrow> (cgiFormNoSuchChoice, defaultV)))"

definition cgiFormCheckboxSingle :: "bytes \<Rightarrow> cgiFormEntry list \<Rightarrow> cgiFormResultType" where
  "cgiFormCheckboxSingle name es =
     (case cgiFormEntryFindFirst name es of None \<Rightarrow> cgiFormNotFound | Some _ \<Rightarrow> cgiFormSuccess)"

end
