(* ===== verification/ItsDns.thy ===== *)
theory ItsDns
  imports Dns
begin

text \<open>
  The client library's name resolution at the end of \<open>itslib/src/itscmd.c\<close>. Its packets and texts
  are made by functions that read as those of \<open>client.c\<close> (\<open>setHead\<close>, \<open>setQuery\<close>, \<open>changeDN\<close>); what
  differs is the result of a scan that finds nothing. The events are those of the calling process.
\<close>

definition lib_sendDNSPacket :: "dns_env \<Rightarrow> bytes \<Rightarrow> nat \<Rightarrow> bytes \<Rightarrow> u32 \<Rightarrow> (int \<times> bytes \<times> event list) option" where
  "lib_sendDNSPacket q b len recvMsg dns_ip = do {
     packet \<leftarrow> rds b 0 len;
     if q_fd q < 0 then None else do {
       (ret, recvMsg) \<leftarrow>
         (if q_select q = -1 \<or> q_select q = 0 then Some (0, recvMsg)
          else case q_recv q of None \<Rightarrow> Some (-1, recvMsg)
            | Some g \<Rightarrow> do {
                let g = take MAX_SIZE_DNS g;
                recvMsg \<leftarrow> wrs recvMsg 0 g;
                Some (int (length g), recvMsg) });
       Some (ret, recvMsg, [EvSocket (q_fd q), EvSendTo (q_fd q) dns_ip SERVER_PORT_DNS packet, EvClose (q_fd q)]) } }"

function lib_resolve_loop :: "bytes \<Rightarrow> nat \<Rightarrow> nat \<Rightarrow> int \<Rightarrow> bytes \<Rightarrow> (int \<times> bytes) option" where
  "lib_resolve_loop recvMsg pos cnt n ip =
    (if \<not> int pos < n then Some (-1, ip)
     else do {
       now_pos \<leftarrow> rd recvMsg (pos + 1);
       retype \<leftarrow> rd recvMsg (pos + 3);
       reclass \<leftarrow> rd recvMsg (pos + 5);
       off \<leftarrow> rd recvMsg (pos + 11);
       if retype = 1 \<and> unat now_pos = cnt \<and> reclass = 1 then do {
         a \<leftarrow> rd recvMsg (pos + 12); b \<leftarrow> rd recvMsg (pos + 13);
         c \<leftarrow> rd recvMsg (pos + 14); e \<leftarrow> rd recvMsg (pos + 15);
         ip \<leftarrow> wrs ip 0 (quad_text a b c e @ [0]);
         Some (cmd_code DNS_OK, ip) }
       else lib_resolve_loop recvMsg (pos + 12 + unat off) (if retype = 5 then pos + 12 else cnt) n ip })"
  by pat_completeness auto
termination by (relation "measure (\<lambda>(recvMsg, pos, cnt, n, ip). nat (n - int pos))") (auto intro: less_le_trans [OF _ uint_ge_0])

declare lib_resolve_loop.simps [simp del]

definition lib_resolve :: "bytes \<Rightarrow> nat \<Rightarrow> int \<Rightarrow> bytes \<Rightarrow> (int \<times> bytes) option" where
  "lib_resolve recvMsg len len_recvMsg ip = lib_resolve_loop recvMsg len 12 len_recvMsg ip"

definition lib_its_dns :: "dns_env \<Rightarrow> bytes \<Rightarrow> u32 \<Rightarrow> bytes \<Rightarrow> (int \<times> bytes \<times> event list) option" where
  "lib_its_dns q www dns_ip ip = do {
     (len, name) \<leftarrow> changeDN www (q_name q);
     b \<leftarrow> setHead (q_buf q);
     b \<leftarrow> setQuery name b len;
     let len = len + 16;
     (len_recvMsg, recvMsg, es) \<leftarrow> lib_sendDNSPacket q b len (q_msg q) dns_ip;
     (ret, ip) \<leftarrow> lib_resolve recvMsg len len_recvMsg ip;
     Some (ret, ip, es) }"

text \<open>The copy finds what the daemon's resolver finds.\<close>

lemma lib_resolve_loop_eq:
  "lib_resolve_loop m pos cnt n ip =
     map_option (\<lambda>(r, ip). (if r = DNS_OK then cmd_code DNS_OK else -1, ip)) (resolve_loop m pos cnt n ip)"
proof (induction m pos cnt n ip rule: lib_resolve_loop.induct)
  case (1 m pos cnt n ip)
  have go: "lib_resolve_loop m (pos + 12 + unat f) (if t = 5 then pos + 12 else cnt) n ip =
      map_option (\<lambda>(r, ip). (if r = DNS_OK then cmd_code DNS_OK else -1, ip)) (resolve_loop m (pos + 12 + unat f) (if t = 5 then pos + 12 else cnt) n ip)"
    if "int pos < n" "rd m (pos + 1) = Some p" "rd m (pos + 3) = Some t" "rd m (pos + 5) = Some c" "rd m (pos + 11) = Some f"
      "\<not> (t = 1 \<and> unat p = cnt \<and> c = 1)" for p t c f
    using "1.IH" [OF _ that(2-6)] that(1) by simp
  note unfold = lib_resolve_loop.simps [of m pos cnt n ip] resolve_loop.simps [of m pos cnt n ip]
  show ?case
  proof (cases "int pos < n \<and> rd m (pos + 1) \<noteq> None \<and> rd m (pos + 3) \<noteq> None \<and> rd m (pos + 5) \<noteq> None \<and> rd m (pos + 11) \<noteq> None")
    case True
    then obtain p t c f where h: "int pos < n" "rd m (pos + 1) = Some p" "rd m (pos + 3) = Some t" "rd m (pos + 5) = Some c" "rd m (pos + 11) = Some f"
      by blast
    show ?thesis
    proof (cases "t = 1 \<and> unat p = cnt \<and> c = 1")
      case True
      with h show ?thesis unfolding unfold by (simp add: map_option_bind comp_def)
    next
      case False
      show ?thesis unfolding unfold by (simp only: h go [OF h False] False bind.simps not_True_eq_False if_False)
    qed
  next
    case False
    then show ?thesis unfolding unfold
      by (cases "rd m (pos + 1)"; cases "rd m (pos + 3)"; cases "rd m (pos + 5)"; cases "rd m (pos + 11)") auto
  qed
qed

end
