(* ===== verification/Forms.thy ===== *)
theory Forms
  imports Cgic ItsCmd ItsDns Report
begin

text \<open>
  The management pages, \<open>web/src\<close>: each is a program the web server runs for one request. It finds
  out who is logged in, asks the daemon for its settings, and, if its form was submitted, changes
  them by the fields and sends them back. The text of the pages is not modelled; what a page does
  with the settings, what it says of the submission, and what its fields show, is.

  The connections and packets of a run are \<open>calls\<close>, one for every call of the client library in
  their order; \<open>mem\<close> is the memory behind the settings, \<open>cleared\<close> the settings after \<open>bzero\<close>.
\<close>

section \<open>What the pages share\<close>

text \<open>\<open>file\<close>: the session's file, if it opens, which holds the name of the user; the path has room for 31 characters.\<close>

definition session_read :: "bytes \<Rightarrow> bytes option \<Rightarrow> bytes \<Rightarrow> (int \<times> bytes) option" where
  "session_read addr file name = (if 31 < length (bytes_of ''/tmp/nc_'' @ addr) then None
     else case file of None \<Rightarrow> Some (0, name)
       | Some c \<Rightarrow> do {
           let got = take 32 c;
           name \<leftarrow> wrs name 0 got;
           Some (if 0 < length got then 1 else 0, name) })"

text \<open>What a page says: nobody is logged in, the settings could not be read, or what became of the submission.\<close>

datatype page = NoSession int | NoSettings int | Untouched | Saved | Rejected int | Invalid string

type_synonym calls = "nat \<Rightarrow> ITSIP \<times> lib"

text \<open>A run with its settings and the connections it has used.\<close>

definition run_form :: "(nat \<Rightarrow> 'c \<Rightarrow> (int \<times> 'c \<times> lib) option) \<Rightarrow> (nat \<Rightarrow> 'c \<Rightarrow> (int \<times> lib) option) \<Rightarrow>
    ('c \<Rightarrow> (string + 'c) option) \<Rightarrow> CMD_CODE \<Rightarrow> 'c \<Rightarrow> bool \<Rightarrow> 'c \<Rightarrow> (page \<times> 'c \<times> lib list) option" where
  "run_form query store entered ok cleared clicked x = do {
     (ret, x, l0) \<leftarrow> query 0 x;
     if ret \<noteq> cmd_code QUERY_OK then Some (NoSettings ret, x, [l0])
     else if \<not> clicked then Some (Untouched, x, [l0])
     else do {
       f \<leftarrow> entered x;
       case f of Inl why \<Rightarrow> do { (_, x, l1) \<leftarrow> query 1 cleared; Some (Invalid why, x, [l0, l1]) }
       | Inr x \<Rightarrow> do {
           (ret, l1) \<leftarrow> store 1 x;
           if ret \<noteq> cmd_code ok then do { (_, x, l2) \<leftarrow> query 2 cleared; Some (Rejected ret, x, [l0, l1, l2]) }
           else Some (Saved, x, [l0, l1]) } } }"

definition clicked :: "string \<Rightarrow> cgiFormEntry list \<Rightarrow> bool" where
  "clicked button es \<longleftrightarrow> cgiFormCheckboxSingle (bytes_of button) es = cgiFormSuccess"

text \<open>\<open>get_host\<close>, \<open>get_input\<close>: the buffer is cleared for 32 bytes and takes up to 29 characters.\<close>

definition get_host :: "bytes \<Rightarrow> bytes \<Rightarrow> cgiFormEntry list \<Rightarrow> bytes option" where
  "get_host str dp es = do {
     dp \<leftarrow> wrs dp 0 (zeros 32);
     (_, dp) \<leftarrow> cgiFormStringNoNewlines str dp 30 es;
     Some dp }"

text \<open>The number of the choice a selection has; the first if it has none.\<close>

definition select_single :: "bytes \<Rightarrow> bytes list \<Rightarrow> cgiFormEntry list \<Rightarrow> nat" where
  "select_single name choices es = snd (cgiFormSelectSingle name choices 0 es)"

definition NO_YES :: "bytes list" where "NO_YES = [[183, 241], [202, 199]]"

section \<open>\<open>com.c\<close>\<close>

definition bps_choices :: "bytes list" where
  "bps_choices = map bytes_of [''300'', ''600'', ''1200'', ''2400'', ''4800'', ''9600'', ''19200'', ''38400'', ''57600'',
     ''115200'', ''230400'', ''460800'', ''576000'', ''921600'']"

definition get_bps :: "cgiFormEntry list \<Rightarrow> CONFIG_COM \<Rightarrow> CONFIG_COM option" where
  "get_bps es x = do { t \<leftarrow> rd bps_choices (select_single (bytes_of ''bps'') bps_choices es); Some (x\<lparr>bps := of_int (atoi t)\<rparr>) }"

definition dbit_choices :: "bytes list" where
  "dbit_choices = map bytes_of [''5'', ''6'', ''7'', ''8'']"

definition get_dbit :: "cgiFormEntry list \<Rightarrow> CONFIG_COM \<Rightarrow> CONFIG_COM option" where
  "get_dbit es x = do { t \<leftarrow> rd dbit_choices (select_single (bytes_of ''dbit'') dbit_choices es); Some (x\<lparr>dbit := of_int (atoi t)\<rparr>) }"

definition chk_choices :: "bytes list" where
  "chk_choices = [[197, 188, 208, 163, 209, 233], [198, 230, 208, 163, 209, 233], [206, 222, 208, 163, 209, 233]]"

definition get_chk :: "cgiFormEntry list \<Rightarrow> CONFIG_COM \<Rightarrow> CONFIG_COM" where
  "get_chk es x = x\<lparr>chk := of_nat (select_single (bytes_of ''chk'') chk_choices es + 1)\<rparr>"

definition sbit_choices :: "bytes list" where
  "sbit_choices = map bytes_of [''1'', ''2'']"

definition get_sbit :: "cgiFormEntry list \<Rightarrow> CONFIG_COM \<Rightarrow> CONFIG_COM option" where
  "get_sbit es x = do { t \<leftarrow> rd sbit_choices (select_single (bytes_of ''sbit'') sbit_choices es); Some (x\<lparr>sbit := of_int (atoi t)\<rparr>) }"

definition type_choices :: "bytes list" where
  "type_choices = map bytes_of [''RS232'', ''RS485'']"

definition get_type :: "cgiFormEntry list \<Rightarrow> CONFIG_COM \<Rightarrow> CONFIG_COM" where
  "get_type es x = x\<lparr>com_type := of_nat (select_single (bytes_of ''type'') type_choices es)\<rparr>"

definition get_loop :: "cgiFormEntry list \<Rightarrow> CONFIG_COM \<Rightarrow> CONFIG_COM" where
  "get_loop es x = x\<lparr>isloop := of_nat (select_single (bytes_of ''loop'') NO_YES es)\<rparr>"

definition getallYN :: "cgiFormEntry list \<Rightarrow> CONFIG_COM \<Rightarrow> CONFIG_COM" where
  "getallYN es x = x\<lparr>com_all := (if clicked ''checkbox'' es then 1 else 0)\<rparr>"

definition com_fields :: "cgiFormEntry list \<Rightarrow> CONFIG_COM \<Rightarrow> CONFIG_COM option" where
  "com_fields es x = do {
     x \<leftarrow> get_bps es x;
     x \<leftarrow> get_dbit es x;
     let x = get_chk es x;
     x \<leftarrow> get_sbit es x;
     Some (getallYN es (get_loop es (get_type es x))) }"

text \<open>The page: after a refusal the settings are cleared with their port's number, which the query then uses.\<close>

definition com_main :: "bytes \<Rightarrow> bytes option \<Rightarrow> bytes \<Rightarrow> cgiFormEntry list \<Rightarrow> bytes \<Rightarrow> calls \<Rightarrow> (page \<times> CONFIG_COM \<times> lib list) option" where
  "com_main addr file query es mem calls = do {
     (ret, name) \<leftarrow> session_read addr file (zeros 32);
     if ret \<noteq> 1 then Some (NoSession ret, zero_COM, []) else do {
       i \<leftarrow> atoi_int query;
       run_form (\<lambda>k x. its_conf_com_query name x (fst (calls k)) (snd (calls k)))
         (\<lambda>k x. its_conf_com_set name x (com_all x) mem (fst (calls k)) (snd (calls k)))
         (\<lambda>x. map_option Inr (com_fields es x)) COM_SET_OK zero_COM (clicked ''com'' es) (zero_COM\<lparr>com_id := of_int i\<rparr>) } }"

text \<open>What the fields of the page show: the choices, and which of them is marked.\<close>

definition show_bps :: "CONFIG_COM \<Rightarrow> (bytes \<times> bool) list" where
  "show_bps x = map (\<lambda>t. (t, (of_int (atoi t) :: u32) = bps x)) bps_choices"

definition show_dbit :: "CONFIG_COM \<Rightarrow> (bytes \<times> bool) list" where
  "show_dbit x = map (\<lambda>n. (decimal n, n = unat (dbit x))) [5, 6, 7, 8]"

definition show_chk :: "CONFIG_COM \<Rightarrow> (bytes \<times> bool) list" where
  "show_chk x = map (\<lambda>i. (chk_choices ! (i - 1), i = unat (chk x))) [1, 2, 3]"

definition show_sbit :: "CONFIG_COM \<Rightarrow> (bytes \<times> bool) list" where
  "show_sbit x = map (\<lambda>n. (decimal n, n = unat (sbit x))) [1, 2]"

definition show_type :: "CONFIG_COM \<Rightarrow> (bytes \<times> bool) list" where
  "show_type x = map (\<lambda>i. (type_choices ! i, i = unat (com_type x))) [0, 1]"

definition show_loop :: "CONFIG_COM \<Rightarrow> (bytes \<times> bool) list" where
  "show_loop x = map (\<lambda>i. (NO_YES ! i, i = unat (isloop x))) [0, 1]"

end
