(* ===== verification/Pages.thy ===== *)
theory Pages
  imports Forms
begin

text \<open>The other management pages of \<open>web/src\<close>, one section per program.\<close>

section \<open>\<open>mainFrame.c\<close> and \<open>top.c\<close>\<close>

text \<open>
  The session of an address is a file that holds the name of its user. It is written over what it
  held before and never emptied. \<open>opens\<close>: the file opens; otherwise the program exits.
\<close>

definition session_save :: "bytes \<Rightarrow> bytes option \<Rightarrow> bool \<Rightarrow> bytes \<Rightarrow> bytes option option" where
  "session_save addr file opens name = (if 63 < length (bytes_of ''/tmp/nc_'' @ addr) then None
     else if \<not> opens then Some file
     else do {
       n \<leftarrow> cstring name;
       let old = (case file of None \<Rightarrow> [] | Some c \<Rightarrow> c);
       Some (Some (n @ drop (length n) old)) })"

text \<open>The login page: its verdict and the session's file.\<close>

definition mainFrame_main :: "(bytes \<Rightarrow> bytes \<Rightarrow> bytes) \<Rightarrow> bytes \<Rightarrow> bytes option \<Rightarrow> bool \<Rightarrow> cgiFormEntry list \<Rightarrow> calls \<Rightarrow>
    (page \<times> bytes option \<times> lib list) option" where
  "mainFrame_main crypt addr file opens es calls = do {
     (_, name) \<leftarrow> cgiFormStringNoNewlines (bytes_of ''username'') (zeros 32) 32 es;
     (_, passwd) \<leftarrow> cgiFormStringNoNewlines (bytes_of ''password'') (zeros 32) 32 es;
     (ret, l) \<leftarrow> user_login crypt name passwd (fst (calls 0)) (snd (calls 0));
     if ret \<noteq> cmd_code LOGIN_OK then Some (Rejected ret, file, [l])
     else do { file \<leftarrow> session_save addr file opens name; Some (Saved, file, [l]) } }"

text \<open>The head of the frame greets whomever its query names, in a buffer of 32 bytes.\<close>

definition top_main :: "bytes \<Rightarrow> bytes option" where
  "top_main query = strcpy (zeros 32) (query @ [0])"

section \<open>\<open>mode.c\<close>\<close>

definition zero_MODE :: CONFIG_MODE where
  "zero_MODE = \<lparr>mode_id = 0, work_mode = 0, tcp_mode = 0, CR = 0, LF = 0, is_null = 0, attestation = 0, att = 0, reg = 0,
     mode_rsvd = zeros 5, session = replicate 6 zero_SESSION\<rparr>"

definition wmode_choices :: "bytes list" where
  "wmode_choices = [[185, 216, 177, 213], bytes_of ''TCP/UDP Socket'']"

definition get_workmode :: "cgiFormEntry list \<Rightarrow> CONFIG_MODE \<Rightarrow> CONFIG_MODE" where
  "get_workmode es x = x\<lparr>work_mode := of_nat (select_single (bytes_of ''workmode'') wmode_choices es)\<rparr>"

definition dmode_choices :: "bytes list" where
  "dmode_choices = map bytes_of [''raw'', ''telnet'']"

definition get_datamode :: "cgiFormEntry list \<Rightarrow> CONFIG_MODE \<Rightarrow> CONFIG_MODE" where
  "get_datamode es x = x\<lparr>tcp_mode := of_nat (select_single (bytes_of ''datamode'') dmode_choices es)\<rparr>"

definition ptl_choices :: "bytes list" where
  "ptl_choices = [[185, 216, 177, 213], bytes_of ''TCP Client'', bytes_of ''TCP Server'', bytes_of ''UDP'']"

text \<open>A field's name is its kind followed by the number of the session.\<close>

definition get_session :: "cgiFormEntry list \<Rightarrow> nat \<Rightarrow> CONFIG_MODE \<Rightarrow> CONFIG_MODE option" where
  "get_session es n x = do {
     s \<leftarrow> rd (session x) n;
     let s = s\<lparr>protocol := of_nat (select_single (bytes_of ''ptl'' @ decimal n) ptl_choices es)\<rparr>;
     str \<leftarrow> get_host (bytes_of ''ip'' @ decimal n) (zeros 32) es;
     ip \<leftarrow> sys_str2ip str;
     let s = s\<lparr>ses_ip := ip\<rparr>;
     str \<leftarrow> get_host (bytes_of ''lport'' @ decimal n) (zeros 32) es;
     t \<leftarrow> cstring str; v \<leftarrow> atoi_int t;
     let s = s\<lparr>lport := of_int v\<rparr>;
     str \<leftarrow> get_host (bytes_of ''dport'' @ decimal n) (zeros 32) es;
     t \<leftarrow> cstring str; v \<leftarrow> atoi_int t;
     let s = s\<lparr>dport := of_int v\<rparr>;
     ss \<leftarrow> wr (session x) n s;
     Some (x\<lparr>session := ss\<rparr>) }"

fun get_sessions :: "cgiFormEntry list \<Rightarrow> nat list \<Rightarrow> CONFIG_MODE \<Rightarrow> CONFIG_MODE option" where
  "get_sessions es [] x = Some x"
| "get_sessions es (n # ns) x = do { x \<leftarrow> get_session es n x; get_sessions es ns x }"

definition mode_fields :: "cgiFormEntry list \<Rightarrow> CONFIG_MODE \<Rightarrow> CONFIG_MODE option" where
  "mode_fields es x = get_sessions es [0..<6] (get_datamode es (get_workmode es x))"

definition mode_main :: "bytes \<Rightarrow> bytes option \<Rightarrow> bytes \<Rightarrow> cgiFormEntry list \<Rightarrow> bytes \<Rightarrow> calls \<Rightarrow> (page \<times> CONFIG_MODE \<times> lib list) option" where
  "mode_main addr file query es mem calls = do {
     (ret, name) \<leftarrow> session_read addr file (zeros 32);
     if ret \<noteq> 1 then Some (NoSession ret, zero_MODE, []) else do {
       i \<leftarrow> atoi_int query;
       run_form (\<lambda>k x. its_conf_mode_query name x (fst (calls k)) (snd (calls k)))
         (\<lambda>k x. its_conf_mode_set name x mem (fst (calls k)) (snd (calls k)))
         (\<lambda>x. map_option Inr (mode_fields es x))
         MODE_SET_OK (zero_MODE\<lparr>mode_id := of_int i\<rparr>) (clicked ''mode'' es) (zero_MODE\<lparr>mode_id := of_int i\<rparr>) } }"

text \<open>What the page shows: the choices with their marks, and the texts of a session; \<open>%d\<close> prints a word as signed.\<close>

definition show_workmode :: "CONFIG_MODE \<Rightarrow> (bytes \<times> bool) list" where
  "show_workmode x = map (\<lambda>i. (wmode_choices ! i, i = unat (work_mode x))) [0, 1]"

definition show_datamode :: "CONFIG_MODE \<Rightarrow> (bytes \<times> bool) list" where
  "show_datamode x = map (\<lambda>i. (dmode_choices ! i, i = unat (tcp_mode x))) [0, 1]"

definition show_protocol :: "CONFIG_SESSION \<Rightarrow> (bytes \<times> bool) list" where
  "show_protocol s = map (\<lambda>i. (ptl_choices ! i, i = unat (protocol s))) [0, 1, 2, 3]"

definition signed_text :: "u32 \<Rightarrow> bytes" where
  "signed_text w = (if sint w < 0 then 45 # decimal (nat (- sint w)) else decimal (nat (sint w)))"

definition show_session :: "nat \<Rightarrow> CONFIG_SESSION \<Rightarrow> (bytes \<times> bytes) list option" where
  "show_session n s = do {
     ip \<leftarrow> ip2str (ses_ip s);
     Some [(bytes_of ''ip'' @ decimal n, ip), (bytes_of ''lport'' @ decimal n, signed_text (lport s)),
       (bytes_of ''dport'' @ decimal n, signed_text (dport s))] }"

section \<open>\<open>net.c\<close>\<close>

definition zero_NET :: CONFIG_NET where
  "zero_NET = \<lparr>dev_ip = 0, dev_nm = 0, dev_gw = 0, dev_dhcp = 0, dhcp_id = 0, dns = [0, 0], dev_mac = zeros 6, net_rsvd = zeros 26\<rparr>"

definition MAC_STR_LEN :: nat where "MAC_STR_LEN = 17"

definition is_mac :: "u8 \<Rightarrow> bool" where
  "is_mac c \<longleftrightarrow> 48 \<le> c \<and> c \<le> 57 \<or> 97 \<le> c \<and> c \<le> 102 \<or> 65 \<le> c \<and> c \<le> 70"

fun mac_chars :: "nat \<Rightarrow> bytes \<Rightarrow> bool" where
  "mac_chars i [] = True"
| "mac_chars i (c # s) = ((if i mod 3 = 2 then c = 58 else is_mac c) \<and> mac_chars (i + 1) s)"

definition mac_str_check :: "bytes \<Rightarrow> int option" where
  "mac_str_check mac_str = do {
     s \<leftarrow> cstring mac_str;
     Some (if length s \<noteq> MAC_STR_LEN then -1 else if mac_chars 0 s then 0 else -1) }"

text \<open>\<open>get_mac\<close>: the parts between colons; \<open>strtok\<close> returns a null pointer when there are no more.\<close>

fun get_mac_loop :: "bytes list \<Rightarrow> nat list \<Rightarrow> bytes \<Rightarrow> (int \<times> bytes) option" where
  "get_mac_loop ts [] mac = Some (0, mac)"
| "get_mac_loop ts (i # is) mac = do {
     v \<leftarrow> str2hex (if i < length ts then Some (ts ! i) else None);
     if v < 0 then Some (-1, mac)
     else do { mac \<leftarrow> wr mac i (of_int v); get_mac_loop ts is mac } }"

definition get_mac :: "bytes \<Rightarrow> CONFIG_NET \<Rightarrow> (int \<times> CONFIG_NET) option" where
  "get_mac str x = do {
     s \<leftarrow> cstring str;
     let ts = tokens 58 s;
     v \<leftarrow> str2hex (if ts = [] then None else Some (ts ! 0));
     mac \<leftarrow> wr (dev_mac x) 0 (of_int v);
     if v < 0 then Some (-1, x\<lparr>dev_mac := mac\<rparr>) else do {
       (r, mac) \<leftarrow> get_mac_loop ts [1..<6] mac;
       Some (r, x\<lparr>dev_mac := mac\<rparr>) } }"

text \<open>A field with an address: it is refused only when \<open>ip_check\<close> returns \<open>FALSE\<close>.\<close>

definition net_addr :: "string \<Rightarrow> cgiFormEntry list \<Rightarrow> u32 option option" where
  "net_addr field es = do {
     str \<leftarrow> get_host (bytes_of field) (zeros 32) es;
     ok \<leftarrow> ip_check str;
     if ok = 0 then Some None else do { ip \<leftarrow> sys_str2ip str; Some (Some ip) } }"

text \<open>The fields in the order of the code; the first that is refused ends the submission.\<close>

fun addr_fields :: "(string \<times> (u32 \<Rightarrow> CONFIG_NET \<Rightarrow> CONFIG_NET)) list \<Rightarrow> cgiFormEntry list \<Rightarrow> CONFIG_NET \<Rightarrow> (string + CONFIG_NET) option" where
  "addr_fields [] es x = Some (Inr x)"
| "addr_fields ((field, upd) # fs) es x = do {
     a \<leftarrow> net_addr field es;
     case a of None \<Rightarrow> Some (Inl field) | Some ip \<Rightarrow> addr_fields fs es (upd ip x) }"

definition NET_ADDRS :: "(string \<times> (u32 \<Rightarrow> CONFIG_NET \<Rightarrow> CONFIG_NET)) list" where
  "NET_ADDRS = [(''host_ip'', \<lambda>ip x. x\<lparr>dev_ip := ip\<rparr>), (''host_netmask'', \<lambda>ip x. x\<lparr>dev_nm := ip\<rparr>),
     (''host_dev_gw'', \<lambda>ip x. x\<lparr>dev_gw := ip\<rparr>), (''host_dns0'', \<lambda>ip x. x\<lparr>dns := (dns x)[0 := ip]\<rparr>),
     (''host_dns1'', \<lambda>ip x. x\<lparr>dns := (dns x)[1 := ip]\<rparr>)]"

definition net_fields_entered :: "cgiFormEntry list \<Rightarrow> CONFIG_NET \<Rightarrow> (string + CONFIG_NET) option" where
  "net_fields_entered es x = do {
     a \<leftarrow> addr_fields NET_ADDRS es x;
     case a of Inl field \<Rightarrow> Some (Inl field)
     | Inr x \<Rightarrow> do {
         let x = x\<lparr>dev_dhcp := of_nat (select_single (bytes_of ''dev_dhcp'') NO_YES es)\<rparr>;
         str \<leftarrow> get_host (bytes_of ''dev_mac'') (zeros 32) es;
         ok \<leftarrow> mac_str_check str;
         if ok < 0 then Some (Inl ''dev_mac'') else do {
           (r, x) \<leftarrow> get_mac str x;
           Some (if r < 0 then Inl ''dev_mac'' else Inr x) } } }"

definition net_main :: "bytes \<Rightarrow> bytes option \<Rightarrow> cgiFormEntry list \<Rightarrow> bytes \<Rightarrow> calls \<Rightarrow> (page \<times> CONFIG_NET \<times> lib list) option" where
  "net_main addr file es mem calls = do {
     (ret, name) \<leftarrow> session_read addr file (zeros 32);
     if ret \<noteq> 1 then Some (NoSession ret, zero_NET, [])
     else run_form (\<lambda>k x. its_netinfo_query name x (fst (calls k)) (snd (calls k)))
            (\<lambda>k x. its_netinfo_set x mem (fst (calls k)) (snd (calls k)))
            (net_fields_entered es) NET_SET_OK zero_NET (clicked ''net'' es) zero_NET }"

text \<open>What the page shows in its text fields.\<close>

definition show_net :: "CONFIG_NET \<Rightarrow> (bytes \<times> bytes) list option" where
  "show_net x = do {
     ip \<leftarrow> ip2str (dev_ip x); nm \<leftarrow> ip2str (dev_nm x); gw \<leftarrow> ip2str (dev_gw x);
     a \<leftarrow> rd (dns x) 0; d0 \<leftarrow> ip2str a; a \<leftarrow> rd (dns x) 1; d1 \<leftarrow> ip2str a;
     mac \<leftarrow> mac_text (dev_mac x);
     Some [(bytes_of ''host_ip'', ip), (bytes_of ''host_netmask'', nm), (bytes_of ''host_dev_gw'', gw),
       (bytes_of ''host_dns0'', d0), (bytes_of ''host_dns1'', d1), (bytes_of ''dev_mac'', mac)] }"

definition show_dev_dhcp :: "CONFIG_NET \<Rightarrow> (bytes \<times> bool) list" where
  "show_dev_dhcp x = map (\<lambda>i. (NO_YES ! i, i = unat (dev_dhcp x))) [0, 1]"

section \<open>\<open>vlan.c\<close>\<close>

definition zero_VLAN :: CONFIG_VLAN where
  "zero_VLAN = \<lparr>vlan_enable = 0, vlan_id = 0, vlan_rsvd = zeros 8\<rparr>"

definition vlan_main :: "bytes \<Rightarrow> bytes option \<Rightarrow> cgiFormEntry list \<Rightarrow> bytes \<Rightarrow> calls \<Rightarrow> (page \<times> CONFIG_VLAN \<times> lib list) option" where
  "vlan_main addr file es mem calls = do {
     (ret, name) \<leftarrow> session_read addr file (zeros 32);
     if ret \<noteq> 1 then Some (NoSession ret, zero_VLAN, [])
     else run_form (\<lambda>k x. its_vlan_query name x (fst (calls k)) (snd (calls k)))
            (\<lambda>k x. its_vlan_set x mem (fst (calls k)) (snd (calls k)))
            (\<lambda>x. do {
               let x = x\<lparr>vlan_enable := of_nat (select_single (bytes_of ''enable'') NO_YES es)\<rparr>;
               str \<leftarrow> get_host (bytes_of ''id'') (zeros 32) es;
               t \<leftarrow> cstring str; v \<leftarrow> atoi_int t;
               Some (Inr (x\<lparr>vlan_id := of_int v\<rparr>)) })
            VLAN_SET_OK zero_VLAN (clicked ''vlan'' es) zero_VLAN }"

section \<open>\<open>host.c\<close>\<close>

definition zero_SYS :: CONFIG_SYS where
  "zero_SYS = \<lparr>host_name = zeros 32, host_pos = zeros 32, host_sn = zeros 32, sw_ver = zeros 32, hw_ver = zeros 32,
     host_id = zeros 32, description = zeros 32, sys_rsvd = zeros 32\<rparr>"

definition host_fields :: "cgiFormEntry list \<Rightarrow> CONFIG_SYS \<Rightarrow> CONFIG_SYS option" where
  "host_fields es x = do {
     v \<leftarrow> get_host (bytes_of ''host_name'') (host_name x) es;
     let x = x\<lparr>host_name := v\<rparr>;
     v \<leftarrow> get_host (bytes_of ''host_pos'') (host_pos x) es;
     let x = x\<lparr>host_pos := v\<rparr>;
     v \<leftarrow> get_host (bytes_of ''host_id'') (host_id x) es;
     let x = x\<lparr>host_id := v\<rparr>;
     v \<leftarrow> get_host (bytes_of ''description'') (description x) es;
     Some (x\<lparr>description := v\<rparr>) }"

definition host_main :: "bytes \<Rightarrow> bytes option \<Rightarrow> cgiFormEntry list \<Rightarrow> bytes \<Rightarrow> calls \<Rightarrow> (page \<times> CONFIG_SYS \<times> lib list) option" where
  "host_main addr file es mem calls = do {
     (ret, name) \<leftarrow> session_read addr file (zeros 32);
     if ret \<noteq> 1 then Some (NoSession ret, zero_SYS, [])
     else run_form (\<lambda>k x. its_sysinfo_query name x (fst (calls k)) (snd (calls k)))
            (\<lambda>k x. its_sysinfo_set x mem (fst (calls k)) (snd (calls k)))
            (\<lambda>x. map_option Inr (host_fields es x))
            SYS_SET_OK zero_SYS (clicked ''host'' es) zero_SYS }"

text \<open>The fields of the page; those of \<open>host_id\<close> and \<open>description\<close> are left out of its text.\<close>

definition show_host :: "CONFIG_SYS \<Rightarrow> (bytes \<times> bytes) list option" where
  "show_host x = do {
     n \<leftarrow> cstring (host_name x); p \<leftarrow> cstring (host_pos x); sn \<leftarrow> cstring (host_sn x);
     sw \<leftarrow> cstring (sw_ver x); hw \<leftarrow> cstring (hw_ver x);
     Some [(bytes_of ''host_name'', n), (bytes_of ''host_pos'', p), (bytes_of ''host_sn'', sn),
       (bytes_of ''sw_ver'', sw), (bytes_of ''web_ver'', hw)] }"

section \<open>\<open>gpio.c\<close> and \<open>gpio_set.c\<close>\<close>

definition zero_GPIO :: CONFIG_GPIO where
  "zero_GPIO = \<lparr>alarm = [0, 0, 0], alarm_on_off = zeros 3, gpio_output = zeros 4, sensor = zeros 30\<rparr>"

text \<open>The status page only shows what it is told.\<close>

definition gpio_main :: "bytes \<Rightarrow> bytes option \<Rightarrow> calls \<Rightarrow> (page \<times> CONFIG_GPIO \<times> lib list) option" where
  "gpio_main addr file calls = do {
     (ret, name) \<leftarrow> session_read addr file (zeros 32);
     if ret \<noteq> 1 then Some (NoSession ret, zero_GPIO, []) else do {
       (ret, x, l) \<leftarrow> its_conf_gpio_query name zero_GPIO (fst (calls 0)) (snd (calls 0));
       Some (if ret \<noteq> cmd_code QUERY_OK then NoSettings ret else Untouched, x, [l]) } }"

definition OUTPUTS :: "string list" where
  "OUTPUTS = [''output1'', ''output2'', ''output3'', ''output4'']"

fun get_outputs :: "cgiFormEntry list \<Rightarrow> nat \<Rightarrow> string list \<Rightarrow> CONFIG_GPIO \<Rightarrow> CONFIG_GPIO option" where
  "get_outputs es i [] x = Some x"
| "get_outputs es i (f # fs) x = do {
     out \<leftarrow> wr (gpio_output x) i (of_nat (select_single (bytes_of f) (map bytes_of [''0'', ''1'']) es));
     get_outputs es (i + 1) fs (x\<lparr>gpio_output := out\<rparr>) }"

definition gpio_set_main :: "bytes \<Rightarrow> bytes option \<Rightarrow> cgiFormEntry list \<Rightarrow> bytes \<Rightarrow> calls \<Rightarrow> (page \<times> CONFIG_GPIO \<times> lib list) option" where
  "gpio_set_main addr file es mem calls = do {
     (ret, name) \<leftarrow> session_read addr file (zeros 32);
     if ret \<noteq> 1 then Some (NoSession ret, zero_GPIO, [])
     else run_form (\<lambda>k x. its_conf_gpio_query name x (fst (calls k)) (snd (calls k)))
            (\<lambda>k x. its_conf_gpio_set x mem (fst (calls k)) (snd (calls k)))
            (\<lambda>x. map_option Inr (get_outputs es 0 OUTPUTS x))
            GPIO_SET_OK zero_GPIO (clicked ''setting'' es) zero_GPIO }"

text \<open>The fields of the page: of a switch only its present state is among the choices.\<close>

definition show_switch :: "nat \<Rightarrow> CONFIG_GPIO \<Rightarrow> (bytes \<times> bool) list option" where
  "show_switch num x = do {
     v \<leftarrow> rd (alarm_on_off x) (num - 1);
     Some (if v = 1 then [([191, 170, 198, 244], True)] else if v = 0 then [([185, 216, 177, 213], True)] else []) }"

definition show_output :: "nat \<Rightarrow> CONFIG_GPIO \<Rightarrow> (bytes \<times> bool) list option" where
  "show_output i x = do {
     v \<leftarrow> rd (gpio_output x) i;
     Some (map (\<lambda>n. (decimal n, n = unat v)) [0, 1]) }"

section \<open>\<open>server.c\<close>\<close>

definition zero_SERVER :: CONFIG_SERVER where
  "zero_SERVER = \<lparr>server_ip = 0, server_port = 0, dns_str = zeros 50\<rparr>"

text \<open>
  The address of the server by its text, with 14 bytes for the address of a name. \<open>gethostbyname\<close> is
  called for a text that is an address already, and what it returns is used unseen.
\<close>

definition server_addr :: "(bytes \<Rightarrow> u32 option) \<Rightarrow> dns_env \<Rightarrow> bytes \<Rightarrow> CONFIG_NET \<Rightarrow> CONFIG_SERVER \<Rightarrow> CONFIG_SERVER option option" where
  "server_addr gethostbyname q ip_str net x = do {
     ok \<leftarrow> ip_check ip_str;
     if ok = 1 then do {
       t \<leftarrow> cstring ip_str;
       h \<leftarrow> gethostbyname t;
       ip \<leftarrow> sys_str2ip (ip_text h @ [0]);
       t \<leftarrow> strcpy (dns_str x) ip_str;
       Some (Some (x\<lparr>server_ip := ip, dns_str := t\<rparr>)) }
     else do {
       dns_ip \<leftarrow> rd (dns net) 0;
       (r, ip_dest, _) \<leftarrow> lib_its_dns q ip_str dns_ip (zeros 14);
       if r = cmd_code DNS_OK then do {
         ip \<leftarrow> sys_str2ip ip_dest;
         t \<leftarrow> strcpy (dns_str x) ip_str;
         Some (Some (x\<lparr>server_ip := ip, dns_str := t\<rparr>)) }
       else Some None } }"

definition server_fields_entered :: "(bytes \<Rightarrow> u32 option) \<Rightarrow> dns_env \<Rightarrow> cgiFormEntry list \<Rightarrow> CONFIG_NET \<Rightarrow> CONFIG_SERVER \<Rightarrow> (string + CONFIG_SERVER) option" where
  "server_fields_entered gethostbyname q es net x = do {
     (_, ip_str) \<leftarrow> cgiFormStringNoNewlines (bytes_of ''dns_str'') (zeros 50) 50 es;
     a \<leftarrow> server_addr gethostbyname q ip_str net x;
     case a of None \<Rightarrow> Some (Inl ''dns_str'')
     | Some x \<Rightarrow> do {
         (_, port) \<leftarrow> cgiFormInteger (bytes_of ''server_port'') 8888 es;
         Some (if port \<le> 0 \<or> 65535 \<le> port then Inl ''server_port'' else Inr (x\<lparr>server_port := of_int port\<rparr>)) } }"

text \<open>The network settings are asked for when the form is submitted; whether that succeeds is not looked at.\<close>

definition server_main :: "(bytes \<Rightarrow> u32 option) \<Rightarrow> dns_env \<Rightarrow> bytes \<Rightarrow> bytes option \<Rightarrow> cgiFormEntry list \<Rightarrow> bytes \<Rightarrow> calls \<Rightarrow>
    (page \<times> CONFIG_SERVER \<times> lib list) option" where
  "server_main gethostbyname q addr file es mem calls = do {
     (ret, name) \<leftarrow> session_read addr file (zeros 32);
     if ret \<noteq> 1 then Some (NoSession ret, zero_SERVER, []) else do {
       let query = (\<lambda>k x. its_conf_server_query name x (fst (calls k)) (snd (calls k)));
       (ret, x, l0) \<leftarrow> query (0 :: nat) zero_SERVER;
       if ret \<noteq> cmd_code QUERY_OK then Some (NoSettings ret, x, [l0])
       else if \<not> clicked ''server'' es then Some (Untouched, x, [l0])
       else do {
         (_, net, l1) \<leftarrow> its_netinfo_query name zero_NET (fst (calls 1)) (snd (calls 1));
         f \<leftarrow> server_fields_entered gethostbyname q es net x;
         case f of Inl why \<Rightarrow> do { (_, x, l2) \<leftarrow> query 2 zero_SERVER; Some (Invalid why, x, [l0, l1, l2]) }
         | Inr x \<Rightarrow> do {
             (ret, l2) \<leftarrow> its_conf_server_set x mem (fst (calls 2)) (snd (calls 2));
             if ret \<noteq> cmd_code SERVER_SET_OK then do { (_, x, l3) \<leftarrow> query 3 zero_SERVER; Some (Rejected ret, x, [l0, l1, l2, l3]) }
             else Some (Saved, x, [l0, l1, l2]) } } } }"

section \<open>\<open>factory.c\<close>\<close>

definition factory_main :: "bytes \<Rightarrow> bytes option \<Rightarrow> cgiFormEntry list \<Rightarrow> calls \<Rightarrow> (page \<times> lib list) option" where
  "factory_main addr file es calls = do {
     (ret, name) \<leftarrow> session_read addr file (zeros 32);
     if ret \<noteq> 1 then Some (NoSession ret, [])
     else if \<not> clicked ''factory'' es then Some (Untouched, [])
     else do {
       (ret, l) \<leftarrow> its_factory_set (fst (calls 0)) (snd (calls 0));
       Some (if ret \<noteq> cmd_code FACTORY_SET_OK then Rejected ret else Saved, [l]) } }"

section \<open>\<open>upgrade.c\<close>\<close>

text \<open>
  An upload as the form library presents it: the name of the file, its size, whether its temporary
  file opens, and what can be read of that. \<open>write\<close> stores what it is given.
\<close>

datatype upgrade_ev = UpSystem bytes | UpSleep nat | UpReboot

record upload =
  up_name :: "bytes option"
  up_size :: int
  up_open :: bool
  up_data :: bytes

definition UPDATE_FILE_LEN_MAX :: int where "UPDATE_FILE_LEN_MAX = 8 * 1024 * 1024"

text \<open>
  The loop of \<open>writeFile\<close>: \<open>data\<close> is what is left to read, \<open>buffer\<close> keeps what an incomplete read does
  not overwrite. The comparison with \<open>sizeof\<close> is unsigned.
\<close>

function write_file_loop :: "int \<Rightarrow> bytes \<Rightarrow> bytes \<Rightarrow> bytes option" where
  "write_file_loop sz data buffer = (if data = [] then Some []
     else do {
       let got = take 1024 data;
       buffer \<leftarrow> wrs buffer 0 got;
       if 0 \<le> sz \<and> sz < 1024 then rds buffer 0 (nat sz)
       else do {
         b \<leftarrow> rds buffer 0 1024;
         rest \<leftarrow> write_file_loop (sz - 1024) (drop 1024 data) buffer;
         Some (b @ rest) } })"
  by pat_completeness auto
termination by (relation "measure (\<lambda>(sz, data, buffer). length data)") auto

declare write_file_loop.simps [simp del]

text \<open>\<open>opens\<close>: the destination opens. If it does not, the writes go nowhere and nobody notices.\<close>

definition writeFile :: "upload \<Rightarrow> bool \<Rightarrow> (int \<times> bytes option) option" where
  "writeFile u opens = (case up_name u of None \<Rightarrow> Some (-1, None)
     | Some name \<Rightarrow> if name \<noteq> bytes_of ''nand1-2.tar.gz'' \<or> UPDATE_FILE_LEN_MAX < up_size u \<or> \<not> up_open u then Some (-1, None)
         else do {
           out \<leftarrow> write_file_loop (up_size u) (up_data u) (zeros 1024);
           Some (0, if opens then Some out else None) })"

definition upgrade_main :: "bytes \<Rightarrow> bytes option \<Rightarrow> cgiFormEntry list \<Rightarrow> upload \<Rightarrow> bool \<Rightarrow> (page \<times> bytes option \<times> upgrade_ev list) option" where
  "upgrade_main addr file es u opens = do {
     (ret, _) \<leftarrow> session_read addr file (zeros 32);
     if ret \<noteq> 1 then Some (NoSession ret, None, [])
     else if clicked ''upgrade'' es then do {
       (ret, out) \<leftarrow> writeFile u opens;
       if ret = 0 then Some (Saved, out,
         [UpSystem (bytes_of ''/sbin/reboot -d 30 &''),
          UpSystem (bytes_of ''/bin/tar -xzf  /mnt/nand1-2/update.tar.gz  -C /mnt/nand1-2/ &''), UpSleep 20])
       else Some (Rejected ret, out, []) }
     else if clicked ''reboot'' es then Some (Untouched, None, [UpReboot])
     else Some (Untouched, None, []) }"

end
