(* ===== verification/Cgic_Facts.thy ===== *)
theory Cgic_Facts
  imports Cgic Report
begin

text \<open>
  Facts about the form library: what a browser sends of a form is decoded to the form's fields, and
  what the functions that read a field find in them.
\<close>

section \<open>What a browser sends\<close>

text \<open>
  The encoding of a form's body: letters, digits and a few marks stand for themselves, a blank is a
  plus, every other byte a per cent sign with two hexadecimal digits.
\<close>

definition url_digit :: "nat \<Rightarrow> u8" where
  "url_digit n = (if n < 10 then of_nat (48 + n) else of_nat (55 + n))"

definition url_plain :: "u8 \<Rightarrow> bool" where
  "url_plain c \<longleftrightarrow> is_digit c \<or> 65 \<le> c \<and> c \<le> 90 \<or> 97 \<le> c \<and> c \<le> 122 \<or> c \<in> {42, 45, 46, 95}"

definition url_char :: "u8 \<Rightarrow> bytes" where
  "url_char c = (if url_plain c then [c] else if c = 32 then [43]
     else [37, url_digit (unat c div 16), url_digit (unat c mod 16)])"

definition url_text :: "bytes \<Rightarrow> bytes" where
  "url_text s = concat (map url_char s)"

fun form_body :: "(bytes \<times> bytes) list \<Rightarrow> bytes" where
  "form_body [] = []"
| "form_body [(a, v)] = url_text a @ 61 # url_text v"
| "form_body ((a, v) # fs) = url_text a @ 61 # url_text v @ 38 # form_body fs"

section \<open>Decoding\<close>

lemma less_16_cases: "n < 16 \<Longrightarrow> n \<in> {0, 1, 2, 3, 4, 5, 6, 7, 8, 9, 10, 11, 12, 13, 14, 15 :: nat}"
  by (auto simp: numeral_eq_Suc less_Suc_eq)

lemma hex_url_digit: "n < 16 \<Longrightarrow> cgiHexValue (url_digit n) = n"
  by (drule less_16_cases) (elim insertE emptyE; simp add: cgiHexValue_def url_digit_def)

lemma unescape_url_char: "\<exists>w. unescape_loop cgiEscapeRest v (url_char c @ s) = c # unescape_loop cgiEscapeRest w s"
proof (cases "url_plain c \<or> c = 32")
  case True
  then show ?thesis by (auto simp: url_char_def url_plain_def is_digit_def)
next
  case False
  then have "cgiHexValue (url_digit (unat c div 16)) * 16 + cgiHexValue (url_digit (unat c mod 16)) = unat c"
    by (simp add: hex_url_digit byte_nibbles)
  then have "(of_nat (cgiHexValue (url_digit (unat c div 16)) * 16 + cgiHexValue (url_digit (unat c mod 16))) :: u8) = of_nat (unat c)"
    by (rule arg_cong)
  then have "(of_nat (cgiHexValue (url_digit (unat c div 16)) * 16 + cgiHexValue (url_digit (unat c mod 16))) :: u8) = c"
    by (simp del: of_nat_add of_nat_mult)
  with False show ?thesis by (auto simp: url_char_def)
qed

lemma unescape_url_text: "unescape_loop cgiEscapeRest v (url_text s) = s"
proof (induction s arbitrary: v)
  case (Cons c s)
  then show ?case using unescape_url_char [of v c "url_text s"] by (auto simp: url_text_def)
qed (simp add: url_text_def)

lemma cgiUnescape_url_text: "0 \<notin> set s \<Longrightarrow> cgiUnescapeChars (url_text s) = s"
  by (auto simp: cgiUnescapeChars_def unescape_url_text takeWhile_eq_all_conv)

lemma url_digit_plain: "n < 16 \<Longrightarrow> url_digit n \<notin> {38, 61}"
  by (drule less_16_cases) (elim insertE emptyE; simp add: url_digit_def)

lemma url_text_plain: "x \<in> {38, 61} \<Longrightarrow> x \<notin> set (url_text s)"
proof (induction s)
  case (Cons c s)
  note d = byte_nibbles [THEN url_digit_plain, of c]
  have "x \<notin> set (url_char c)" using Cons.prems d
    by (auto simp: url_char_def url_plain_def is_digit_def)
  with Cons show ?case by (simp add: url_text_def)
qed (simp add: url_text_def)

lemma scan_for_found: "x \<notin> set s \<Longrightarrow> scan_for x (s @ x # r) = (s, Some r)"
  by (induction s) auto

lemma scan_for_none: "x \<notin> set s \<Longrightarrow> scan_for x s = (s, None)"
  by (induction s) auto

lemma parse_form_body:
  assumes "\<forall>(a, v) \<in> set fs. 0 \<notin> set a \<and> 0 \<notin> set v"
  shows "cgiParseFormInput (form_body fs) = map (\<lambda>(a, v). \<lparr>e_attr = a, e_value = v\<rparr>) fs"
  using assms
proof (induction fs rule: form_body.induct)
  case 1
  show ?case by (simp add: cgiParseFormInput.simps)
next
  case (2 a v)
  then show ?case using url_text_plain [of 61 a] url_text_plain [of 38 v]
    by (simp add: cgiParseFormInput.simps [of "_ @ _"] scan_for_found scan_for_none cgiUnescape_url_text)
next
  case (3 a v f fs)
  then have "cgiParseFormInput (form_body (f # fs)) = map (\<lambda>(a, v). \<lparr>e_attr = a, e_value = v\<rparr>) (f # fs)" by auto
  with 3 show ?case using url_text_plain [of 61 a] url_text_plain [of 38 v]
    by (simp add: cgiParseFormInput.simps [of "_ @ _"] scan_for_found cgiUnescape_url_text)
qed

section \<open>Reading fields\<close>

text \<open>Without newlines the loop of \<open>cgiFormEntryString\<close> keeps the first characters that are none.\<close>

definition no_breaks :: "bytes \<Rightarrow> bytes" where
  "no_breaks s = filter (\<lambda>c. c \<noteq> 13 \<and> c \<noteq> 10) s"

lemma entry_string_no_breaks:
  "len \<le> avail \<Longrightarrow> entry_string False avail cr lf len s = (take (avail - len) (no_breaks s), avail - len < length (no_breaks s))"
proof (induction s arbitrary: cr lf len)
  case (Cons c s)
  show ?case
  proof (cases "avail - len")
    case 0
    then show ?thesis using Cons by (auto simp: no_breaks_def)
  next
    case (Suc k)
    then have "avail - Suc len = k" "len < avail" by auto
    then show ?thesis using Cons Suc by (auto simp: no_breaks_def)
  qed
qed (simp add: no_breaks_def)

lemma entry_string_top: "entry_string False avail 0 0 0 s = (take avail (no_breaks s), avail < length (no_breaks s))"
  by (simp add: entry_string_no_breaks)

lemma StringNoNewlines_found:
  assumes "cgiFormEntryFindFirst name es = Some e" "no_breaks (e_value e) = v" "length v < m" "length v < length result"
  shows "cgiFormStringNoNewlines name result m es
     = Some (if v = [] then cgiFormEmpty else cgiFormSuccess, v @ 0 # drop (length v + 1) result)"
  using assms by (auto simp: cgiFormStringNoNewlines_def cgiFormEntryString_def entry_string_top wrs_def)

lemma choice_index_nth: "distinct cs \<Longrightarrow> k < length cs \<Longrightarrow> choice_index (cs ! k) i cs = Some (i + k)"
proof (induction cs arbitrary: k i)
  case (Cons c cs)
  then show ?case by (cases k) auto
qed simp

end
