(* ===== verification/Form_Facts.thy ===== *)
theory Form_Facts
  imports Pages Cgic_Facts
begin

text \<open>
  Facts about the management pages: what a browser makes of the fields of a page, and what the page
  makes of the fields it gets back.
\<close>

section \<open>Fields of a page\<close>

text \<open>The entry of a selection: the marked choice, or the first if none is.\<close>

definition shown :: "(bytes \<times> bool) list \<Rightarrow> bytes" where
  "shown os = (case List.find snd os of Some (t, _) \<Rightarrow> t | None \<Rightarrow> fst (hd os))"

lemma shown_marked: "v \<in> set (map f cs) \<Longrightarrow> shown (map (\<lambda>t. (t, f t = v)) cs) \<in> set cs \<and> f (shown (map (\<lambda>t. (t, f t = v)) cs)) = v"
  by (induction cs) (auto simp: shown_def find_None_iff split: option.splits)

lemma shown_index: "v \<in> set is \<Longrightarrow> shown (map (\<lambda>i. (g i, i = v)) is) = g v"
  by (induction "is") (auto simp: shown_def find_None_iff split: option.splits)

text \<open>The entries a browser sends of fields with their texts.\<close>

definition entries_of :: "(bytes \<times> bytes) list \<Rightarrow> cgiFormEntry list" where
  "entries_of fs = map (\<lambda>(a, v). \<lparr>e_attr = a, e_value = v\<rparr>) fs"

lemma find_entries [simp]:
  "cgiFormEntryFindFirst n (entries_of []) = None"
  "cgiFormEntryFindFirst n (entries_of ((a, v) # fs)) = (if a = n then Some \<lparr>e_attr = a, e_value = v\<rparr> else cgiFormEntryFindFirst n (entries_of fs))"
  by (simp_all add: cgiFormEntryFindFirst_def entries_of_def)

lemma parse_entries: "\<forall>(a, v) \<in> set fs. 0 \<notin> set a \<and> 0 \<notin> set v \<Longrightarrow> cgiParseFormInput (form_body fs) = entries_of fs"
  by (simp add: parse_form_body entries_of_def)

section \<open>Reading them back\<close>

lemma choice_index_in: "t \<in> set cs \<Longrightarrow> \<exists>k < length cs. choice_index t i cs = Some (i + k) \<and> cs ! k = t"
proof (induction cs arbitrary: i)
  case (Cons c cs)
  show ?case
  proof (cases "c = t")
    case False
    with Cons.prems obtain k where "k < length cs" "choice_index t (Suc i) cs = Some (Suc i + k)" "cs ! k = t"
      using Cons.IH [of "Suc i"] by auto
    with False show ?thesis by (intro exI [of _ "Suc k"]) simp
  qed auto
qed simp

lemma select_single_text:
  assumes "cgiFormEntryFindFirst n es = Some e" "e_value e \<in> set cs"
  shows "rd cs (select_single n cs es) = Some (e_value e)"
  using choice_index_in [OF assms(2), of 0] assms(1) by (auto simp: select_single_def cgiFormSelectSingle_def rd_in)

lemma select_single_index:
  assumes "cgiFormEntryFindFirst n es = Some e" "e_value e = cs ! k" "distinct cs" "k < length cs"
  shows "select_single n cs es = k"
  using choice_index_nth [OF assms(3,4), of 0] assms(1,2) by (simp add: select_single_def cgiFormSelectSingle_def)

lemma get_host_found:
  assumes "cgiFormEntryFindFirst n es = Some e" "no_breaks (e_value e) = e_value e" "length (e_value e) \<le> 29" "length dp = 32"
  shows "get_host n dp es = Some (e_value e @ 0 # zeros (31 - length (e_value e)))"
proof -
  have "wrs dp 0 (zeros 32) = Some (zeros 32)" using assms(4) by (simp add: wrs_def)
  then show ?thesis using StringNoNewlines_found [OF assms(1,2), of 30 "zeros 32"] assms(3)
    by (simp add: get_host_def) (simp add: zeros_def)
qed

lemma get_host_missing:
  assumes "cgiFormEntryFindFirst n es = None" "length dp = 32"
  shows "get_host n dp es = Some (zeros 32)"
proof -
  have "wrs dp 0 (zeros 32) = Some (zeros 32)" "wrs (zeros 32) 0 [0] = Some (zeros 32)"
    using assms(2) by (simp_all add: wrs_def) (simp add: zeros_def numeral_eq_Suc)
  with assms(1) show ?thesis by (simp add: get_host_def cgiFormStringNoNewlines_def)
qed

section \<open>\<open>com.c\<close>\<close>

text \<open>What a browser sends of the serial port's page when nothing is changed.\<close>

definition com_page :: "CONFIG_COM \<Rightarrow> (bytes \<times> bytes) list" where
  "com_page x = [(bytes_of ''bps'', shown (show_bps x)), (bytes_of ''dbit'', shown (show_dbit x)), (bytes_of ''chk'', shown (show_chk x)),
     (bytes_of ''sbit'', shown (show_sbit x)), (bytes_of ''type'', shown (show_type x)), (bytes_of ''loop'', shown (show_loop x)),
     (bytes_of ''com'', [111, 107])]"

text \<open>Settings every field of the page has a choice for.\<close>

definition com_showable :: "CONFIG_COM \<Rightarrow> bool" where
  "com_showable x \<longleftrightarrow> bps x \<in> set (map (\<lambda>t. of_int (atoi t)) bps_choices) \<and> unat (dbit x) \<in> {5, 6, 7, 8} \<and> unat (chk x) \<in> {1, 2, 3} \<and>
     unat (sbit x) \<in> {1, 2} \<and> unat (com_type x) \<in> {0, 1} \<and> unat (isloop x) \<in> {0, 1}"

lemma find_com_page:
  "cgiFormEntryFindFirst (bytes_of ''bps'') (entries_of (com_page x)) = Some \<lparr>e_attr = bytes_of ''bps'', e_value = shown (show_bps x)\<rparr>"
  "cgiFormEntryFindFirst (bytes_of ''dbit'') (entries_of (com_page x)) = Some \<lparr>e_attr = bytes_of ''dbit'', e_value = shown (show_dbit x)\<rparr>"
  "cgiFormEntryFindFirst (bytes_of ''chk'') (entries_of (com_page x)) = Some \<lparr>e_attr = bytes_of ''chk'', e_value = shown (show_chk x)\<rparr>"
  "cgiFormEntryFindFirst (bytes_of ''sbit'') (entries_of (com_page x)) = Some \<lparr>e_attr = bytes_of ''sbit'', e_value = shown (show_sbit x)\<rparr>"
  "cgiFormEntryFindFirst (bytes_of ''type'') (entries_of (com_page x)) = Some \<lparr>e_attr = bytes_of ''type'', e_value = shown (show_type x)\<rparr>"
  "cgiFormEntryFindFirst (bytes_of ''loop'') (entries_of (com_page x)) = Some \<lparr>e_attr = bytes_of ''loop'', e_value = shown (show_loop x)\<rparr>"
  "cgiFormEntryFindFirst (bytes_of ''checkbox'') (entries_of (com_page x)) = None"
  unfolding com_page_def by (simp_all add: bytes_of_def)

lemma shown_com:
  assumes "com_showable x"
  shows "shown (show_bps x) \<in> set bps_choices" "of_int (atoi (shown (show_bps x))) = bps x"
    "shown (show_dbit x) = decimal (unat (dbit x))" "shown (show_chk x) = chk_choices ! (unat (chk x) - 1)"
    "shown (show_sbit x) = decimal (unat (sbit x))" "shown (show_type x) = type_choices ! unat (com_type x)"
    "shown (show_loop x) = NO_YES ! unat (isloop x)"
proof -
  show "shown (show_bps x) \<in> set bps_choices" "of_int (atoi (shown (show_bps x))) = bps x"
    using shown_marked [of "bps x" "\<lambda>t. of_int (atoi t)" bps_choices] assms by (simp_all add: com_showable_def show_bps_def)
  have m: "unat (dbit x) \<in> set [5, 6, 7, 8]" "unat (chk x) \<in> set [1, 2, 3]" "unat (sbit x) \<in> set [1, 2]"
    "unat (com_type x) \<in> set [0, 1]" "unat (isloop x) \<in> set [0, 1]"
    using assms unfolding com_showable_def list.set by blast+
  show "shown (show_dbit x) = decimal (unat (dbit x))" unfolding show_dbit_def by (rule shown_index [OF m(1)])
  show "shown (show_chk x) = chk_choices ! (unat (chk x) - 1)" unfolding show_chk_def by (rule shown_index [OF m(2)])
  show "shown (show_sbit x) = decimal (unat (sbit x))" unfolding show_sbit_def by (rule shown_index [OF m(3)])
  show "shown (show_type x) = type_choices ! unat (com_type x)" unfolding show_type_def by (rule shown_index [OF m(4)])
  show "shown (show_loop x) = NO_YES ! unat (isloop x)" unfolding show_loop_def by (rule shown_index [OF m(5)])
qed

lemma numeral_choices: "dbit_choices = map decimal [5, 6, 7, 8]" "sbit_choices = map decimal [1, 2]"
  by (simp_all add: dbit_choices_def sbit_choices_def bytes_of_def decimal.simps digit_def)

lemma get_bps_shown:
  assumes "com_showable x"
  shows "get_bps (entries_of (com_page x)) y = Some (y\<lparr>bps := bps x\<rparr>)"
  using select_single_text [OF find_com_page(1) [of x], of bps_choices] shown_com(1,2) [OF assms] by (simp add: get_bps_def)

lemma get_dbit_shown:
  assumes "com_showable x"
  shows "get_dbit (entries_of (com_page x)) y = Some (y\<lparr>dbit := dbit x\<rparr>)"
proof -
  have "decimal (unat (dbit x)) \<in> set dbit_choices" using assms by (auto simp: com_showable_def numeral_choices)
  then show ?thesis using select_single_text [OF find_com_page(2) [of x], of dbit_choices] shown_com(3) [OF assms] atoi_dec [of "[]" "unat (dbit x)"]
    by (simp add: get_dbit_def)
qed

lemma get_sbit_shown:
  assumes "com_showable x"
  shows "get_sbit (entries_of (com_page x)) y = Some (y\<lparr>sbit := sbit x\<rparr>)"
proof -
  have "decimal (unat (sbit x)) \<in> set sbit_choices" using assms by (auto simp: com_showable_def numeral_choices)
  then show ?thesis using select_single_text [OF find_com_page(4) [of x], of sbit_choices] shown_com(5) [OF assms] atoi_dec [of "[]" "unat (sbit x)"]
    by (simp add: get_sbit_def)
qed

lemma get_choices_shown:
  assumes "com_showable x"
  shows "get_chk (entries_of (com_page x)) y = y\<lparr>chk := chk x\<rparr>" "get_type (entries_of (com_page x)) y = y\<lparr>com_type := com_type x\<rparr>"
    "get_loop (entries_of (com_page x)) y = y\<lparr>isloop := isloop x\<rparr>"
proof -
  have l: "unat (chk x) - 1 < length chk_choices" "unat (com_type x) < length type_choices" "unat (isloop x) < length NO_YES" "unat (chk x) - 1 + 1 = unat (chk x)"
    using assms by (auto simp: com_showable_def chk_choices_def type_choices_def NO_YES_def)
  have d: "distinct chk_choices" "distinct type_choices" "distinct NO_YES"
    by (simp_all add: chk_choices_def type_choices_def NO_YES_def bytes_of_def)
  have "of_nat (unat (chk x) - 1 + 1) = chk x" unfolding l(4) by simp
  then show "get_chk (entries_of (com_page x)) y = y\<lparr>chk := chk x\<rparr>"
    using select_single_index [OF find_com_page(3) [of x], of chk_choices, OF _ d(1) l(1)] shown_com(4) [OF assms]
    by (simp add: get_chk_def)
  show "get_type (entries_of (com_page x)) y = y\<lparr>com_type := com_type x\<rparr>"
    using select_single_index [OF find_com_page(5) [of x], of type_choices, OF _ d(2) l(2)] shown_com(6) [OF assms]
    by (simp add: get_type_def)
  show "get_loop (entries_of (com_page x)) y = y\<lparr>isloop := isloop x\<rparr>"
    using select_single_index [OF find_com_page(6) [of x], of NO_YES, OF _ d(3) l(3)] shown_com(7) [OF assms]
    by (simp add: get_loop_def)
qed

lemma com_fields_shown:
  assumes "com_showable x"
  shows "com_fields (entries_of (com_page x)) y = Some (y\<lparr>bps := bps x, dbit := dbit x, chk := chk x, sbit := sbit x, com_type := com_type x,
     isloop := isloop x, com_all := 0\<rparr>)"
  using assms find_com_page(7) [of x]
  by (simp add: com_fields_def get_bps_shown get_dbit_shown get_sbit_shown get_choices_shown getallYN_def clicked_def cgiFormCheckboxSingle_def)

end
