(* ===== verification/Page_Facts.thy ===== *)
theory Page_Facts
  imports Form_Facts Remote_Props
begin

text \<open>
  Facts about the other pages: the host page and the upload, the login's session, the connections of
  a run, and the network page against the daemon.
\<close>

lemma zeros_rest: "k \<le> 31 \<Longrightarrow> zeros (32 - k) = 0 # zeros (31 - k)"
  by (simp add: zeros_def Suc_diff_le flip: replicate_Suc)

lemma cstring_zeros [simp]: "0 < k \<Longrightarrow> cstring (zeros k) = Some []"
  by (cases k) (simp_all add: zeros_def)

section \<open>\<open>host.c\<close>\<close>

text \<open>What a browser sends of the host page with its fields as they are.\<close>

definition host_page :: "CONFIG_SYS \<Rightarrow> (bytes \<times> bytes) list option" where
  "host_page x = map_option (\<lambda>fs. fs @ [(bytes_of ''host'', [111, 107])]) (show_host x)"

text \<open>A text a field of 32 bytes takes back as it is.\<close>

definition plain_text :: "bytes \<Rightarrow> bool" where
  "plain_text t \<longleftrightarrow> length t \<le> 29 \<and> 0 \<notin> set t \<and> 13 \<notin> set t \<and> 10 \<notin> set t"

lemma plain_no_breaks: "plain_text t \<Longrightarrow> no_breaks t = t"
  by (auto simp: plain_text_def no_breaks_def filter_id_conv)

lemma get_host_plain:
  assumes "cgiFormEntryFindFirst n es = Some e" "plain_text (e_value e)" "length dp = 32"
  shows "get_host n dp es = Some (e_value e @ 0 # zeros (31 - length (e_value e)))"
  using get_host_found [OF assms(1) plain_no_breaks [OF assms(2)] _ assms(3)] assms(2) by (simp add: plain_text_def)

lemma host_fields_shown:
  assumes "host_page x = Some fs" "cstring (host_name x) = Some n" "cstring (host_pos x) = Some p" "plain_text n" "plain_text p" "ok_CONFIG_SYS y"
  shows "host_fields (entries_of fs) y = Some (y\<lparr>host_name := n @ 0 # zeros (31 - length n), host_pos := p @ 0 # zeros (31 - length p),
     host_id := zeros 32, description := zeros 32\<rparr>)"
proof -
  have f: "cgiFormEntryFindFirst (bytes_of ''host_name'') (entries_of fs) = Some \<lparr>e_attr = bytes_of ''host_name'', e_value = n\<rparr>"
    "cgiFormEntryFindFirst (bytes_of ''host_pos'') (entries_of fs) = Some \<lparr>e_attr = bytes_of ''host_pos'', e_value = p\<rparr>"
    "cgiFormEntryFindFirst (bytes_of ''host_id'') (entries_of fs) = None" "cgiFormEntryFindFirst (bytes_of ''description'') (entries_of fs) = None"
    using assms(1-3) by (auto simp: host_page_def show_host_def bind_eq_Some_conv bytes_of_def)
  have len: "length (host_name y) = 32" "length (host_pos y) = 32" "length (host_id y) = 32" "length (description y) = 32"
    using assms(6) by (simp_all add: ok_CONFIG_SYS_def)
  show ?thesis
    using get_host_plain [OF f(1) _ len(1)] get_host_plain [OF f(2) _ len(2)] get_host_missing [OF f(3) len(3)] get_host_missing [OF f(4) len(4)] assms(4,5)
    by (simp add: host_fields_def)
qed

section \<open>\<open>upgrade.c\<close>\<close>

lemma write_file_loop_all:
  "length buf = 1024 \<Longrightarrow> write_file_loop (int (length data)) data buf = Some data"
proof (induction "length data" arbitrary: data buf rule: less_induct)
  case less
  consider "data = []" | "data \<noteq> []" "length data < 1024" | "1024 \<le> length data" by linarith
  then show ?case
  proof cases
    case 1
    then show ?thesis by (simp add: write_file_loop.simps)
  next
    case 2
    then show ?thesis using less.prems by (simp add: write_file_loop.simps [of _ data] wrs_def rds_def)
  next
    case 3
    have n: "data \<noteq> []" using 3 by auto
    have "wrs buf 0 (take 1024 data) = Some (take 1024 data)" using 3 less.prems by (simp add: wrs_def min_absorb2)
    moreover have "int (length data) - 1024 = int (length (drop 1024 data))" using 3 by simp
    moreover have "write_file_loop (int (length (drop 1024 data))) (drop 1024 data) (take 1024 data) = Some (drop 1024 data)"
      by (rule less.hyps) (use 3 in auto)
    ultimately show ?thesis using 3 n by (simp add: write_file_loop.simps [of _ data] rds_def min_absorb2)
  qed
qed

section \<open>Sessions\<close>

lemma session_saved:
  assumes "length addr \<le> 23" "cstring name = Some n"
  shows "session_save addr file True name = Some (Some (n @ drop (length n) (case file of None \<Rightarrow> [] | Some c \<Rightarrow> c)))"
  using assms by (simp add: session_save_def bytes_of_def)

lemma session_found:
  assumes "length addr \<le> 23" "c \<noteq> []" "length c \<le> 32"
  shows "session_read addr (Some c) (zeros 32) = Some (1, c @ zeros (32 - length c))"
  using assms by (simp add: session_read_def bytes_of_def wrs_def) (simp add: zeros_def)

section \<open>The connections of a run\<close>

text \<open>
  What a page relies on: a query and a setting end well on the connection they were given, whatever
  they return. The connections of a run are then few, in their order, and each has ended well.
\<close>

locale page_calls =
  fixes query :: "nat \<Rightarrow> 'c \<Rightarrow> (int \<times> 'c \<times> lib) option"
    and store :: "nat \<Rightarrow> 'c \<Rightarrow> (int \<times> lib) option"
    and ends :: "nat \<Rightarrow> lib \<Rightarrow> bool"
  assumes query_ends: "query k x = Some (r, x', l) \<Longrightarrow> ends k l"
    and store_ends: "store k x = Some (r, l) \<Longrightarrow> ends k l"
begin

lemma run_form_libs:
  assumes "run_form query store entered ok cleared clk x = Some (p, y, ls)"
  shows "length ls \<le> 3 \<and> (\<forall>i < length ls. ends i (ls ! i))"
proof -
  obtain r0 x0 l0 where q0: "query 0 x = Some (r0, x0, l0)" using assms(1) by (auto simp: run_form_def bind_eq_Some_conv)
  note P0 = query_ends [OF q0]
  show ?thesis
  proof (cases "r0 \<noteq> cmd_code QUERY_OK \<or> \<not> clk")
    case True
    with assms(1) q0 P0 show ?thesis by (auto simp: run_form_def split: if_splits)
  next
    case False
    with assms(1) q0 obtain f where f: "entered x0 = Some f" by (auto simp: run_form_def bind_eq_Some_conv)
    show ?thesis
    proof (cases f)
      case (Inl w)
      with False assms(1) q0 f obtain r1 l1 where "query 1 cleared = Some (r1, y, l1)" "ls = [l0, l1]"
        by (auto simp: run_form_def bind_eq_Some_conv)
      with P0 query_ends show ?thesis by (auto simp: less_Suc_eq)
    next
      case (Inr x1)
      with False assms(1) q0 f obtain r1 l1 where s: "store 1 x1 = Some (r1, l1)"
        "ls = [l0, l1] \<or> (\<exists>r2 l2. query 2 cleared = Some (r2, y, l2) \<and> ls = [l0, l1, l2])"
        by (auto simp: run_form_def bind_eq_Some_conv split: if_splits)
      note P1 = store_ends [OF s(1)]
      from s(2) show ?thesis
      proof (elim disjE exE conjE)
        fix r2 l2 assume q: "query 2 cleared = Some (r2, y, l2)" "ls = [l0, l1, l2]"
        from P0 P1 query_ends [OF q(1)] q(2) show ?thesis by (auto simp: less_Suc_eq numeral_eq_Suc)
      qed (use P0 P1 in \<open>auto simp: less_Suc_eq\<close>)
    qed
  qed
qed

end

section \<open>\<open>net.c\<close>\<close>

lemma ip_text_quad: "is_dotted_quad (ip_text ip)"
proof -
  have p: "46 \<notin> set (decimal n)" for n by (auto dest!: dec_digits simp: is_digit_def word_le_nat_alt)
  have "is_octet (decimal (unat b))" for b :: u8
  proof -
    have "unat b < 256" using unsigned_less [of b] by simp
    then show ?thesis using atoi_digits_dec_acc [of "unat b" "[]" 0] dec_digits by (auto simp: is_octet_def)
  qed
  then show ?thesis by (simp add: is_dotted_quad_def ip_text_def split_on_app split_on_plain p)
qed

text \<open>What a browser sends of the network page with its fields as they are.\<close>

definition net_page :: "CONFIG_NET \<Rightarrow> (bytes \<times> bytes) list option" where
  "net_page x = map_option (\<lambda>fs. fs @ [(bytes_of ''dev_dhcp'', shown (show_dev_dhcp x)), (bytes_of ''net'', [111, 107])]) (show_net x)"

definition net_applied :: "CONFIG_NET \<Rightarrow> CONFIG_NET \<Rightarrow> CONFIG_NET" where
  "net_applied x y = y\<lparr>dev_ip := dev_ip x, dev_nm := dev_nm x, dev_gw := dev_gw x, dns := dns x, dev_dhcp := dev_dhcp x, dev_mac := dev_mac x\<rparr>"

lemma ip_text_plain: "plain_text (ip_text ip)"
proof -
  have "c \<noteq> 13 \<and> c \<noteq> 10" if "c \<in> set (ip_text ip)" for c
    using that by (auto simp: ip_text_def is_digit_def dest!: dec_digits)
  then show ?thesis using length_ip_text [of ip] ip_text_no_nul [of ip] by (auto simp: plain_text_def)
qed

lemma net_addr_shown:
  assumes "cgiFormEntryFindFirst (bytes_of field) es = Some \<lparr>e_attr = n, e_value = ip_text ip\<rparr>"
  shows "net_addr field es = Some (Some ip)"
proof -
  let ?b = "ip_text ip @ 0 # zeros (31 - length (ip_text ip))"
  have "get_host (bytes_of field) (zeros 32) es = Some ?b"
    using get_host_plain [OF assms, of "zeros 32"] ip_text_plain by simp
  moreover have "cstring ?b = Some (ip_text ip)" using ip_text_no_nul by (simp add: cstring_append)
  then have "ip_check ?b = Some 1" using ip_check_iff ip_text_quad by blast
  ultimately show ?thesis by (simp add: net_addr_def str2ip_ip_text)
qed

lemma mac_digit: "n < 16 \<Longrightarrow> is_mac (hex_digit n) \<and> hex_digit n \<notin> {10, 13}"
  by (drule less_16_cases) (elim insertE emptyE; simp add: is_mac_def hex_digit_def)

lemma mac_text_page:
  assumes "length m = 6"
  obtains t where "mac_text m = Some t" "plain_text t" "length t = 17" "mac_chars 0 t" "tokens 58 t = map hex2 m"
proof -
  obtain a b c e f g where m: "m = [a, b, c, e, f, g]" using assms by (auto simp: numeral_eq_Suc length_Suc_conv)
  let ?t = "hex2 a @ 58 # hex2 b @ 58 # hex2 c @ 58 # hex2 e @ 58 # hex2 f @ 58 # hex2 g"
  have d: "\<forall>z \<in> set (hex2 y). is_mac z \<and> z \<noteq> 0 \<and> z \<noteq> 10 \<and> z \<noteq> 13" "length (hex2 y) = 2" for y
    using mac_digit [OF byte_nibbles(1) [of y]] mac_digit [OF byte_nibbles(2) [of y]] hex2_facts(3) [of y] by (auto simp: hex2_def)
  have "tokens 58 ?t = map hex2 m" by (simp add: tokens_app tokens_plain hex2_facts m)
  moreover have "mac_text m = Some ?t" by (simp add: m mac_text_def rd_in)
  moreover have "plain_text ?t" using d by (auto simp: plain_text_def)
  moreover have "mac_chars 0 ?t" using d(1) by (simp add: hex2_def)
  ultimately show ?thesis using d(2) by (intro that [of ?t]) simp_all
qed

lemma get_mac_shown:
  assumes "length m = 6" "length (dev_mac y) = 6" "cstring str = Some t" "tokens 58 t = map hex2 m"
  shows "get_mac str y = Some (0, y\<lparr>dev_mac := m\<rparr>)"
proof -
  obtain a b c e f g where m: "m = [a, b, c, e, f, g]" using assms(1) by (auto simp: numeral_eq_Suc length_Suc_conv)
  obtain a' b' c' e' f' g' where y: "dev_mac y = [a', b', c', e', f', g']" using assms(2) by (auto simp: numeral_eq_Suc length_Suc_conv)
  have u: "[Suc 0..<6] = [1, 2, 3, 4, 5]" by (simp add: upt_rec)
  show ?thesis by (simp add: get_mac_def assms(3,4) m y u str2hex_hex2 wr_in)
qed

lemma net_page_fields:
  assumes "net_page x = Some fs" "ok_CONFIG_NET x" "dev_dhcp x < 2"
  obtains d0 d1 t where "dns x = [d0, d1]" "plain_text t" "length t = 17" "mac_chars 0 t" "tokens 58 t = map hex2 (dev_mac x)"
    "unat (dev_dhcp x) < length NO_YES"
    "fs = [(bytes_of ''host_ip'', ip_text (dev_ip x)), (bytes_of ''host_netmask'', ip_text (dev_nm x)), (bytes_of ''host_dev_gw'', ip_text (dev_gw x)),
      (bytes_of ''host_dns0'', ip_text d0), (bytes_of ''host_dns1'', ip_text d1), (bytes_of ''dev_mac'', t),
      (bytes_of ''dev_dhcp'', NO_YES ! unat (dev_dhcp x)), (bytes_of ''net'', [111, 107])]"
proof -
  obtain d0 d1 where dx: "dns x = [d0, d1]" using assms(2) by (auto simp: ok_CONFIG_NET_def numeral_2_eq_2 length_Suc_conv)
  obtain t where t: "mac_text (dev_mac x) = Some t" "plain_text t" "length t = 17" "mac_chars 0 t" "tokens 58 t = map hex2 (dev_mac x)"
    by (rule mac_text_page [of "dev_mac x"]) (use assms(2) in \<open>simp_all add: ok_CONFIG_NET_def\<close>)
  have dh: "unat (dev_dhcp x) < length NO_YES" "unat (dev_dhcp x) \<in> set [0, 1]" using assms(3)
    by (auto simp: NO_YES_def word_less_nat_alt)
  have sh: "shown (show_dev_dhcp x) = NO_YES ! unat (dev_dhcp x)" unfolding show_dev_dhcp_def by (rule shown_index [OF dh(2)])
  show ?thesis using assms(1) dh(1)
    by (intro that [OF dx t(2-5)]) (simp_all add: net_page_def show_net_def ip2str_eq dx rd_in t(1) sh)
qed

lemma net_page_sent:
  assumes "net_page x = Some fs" "ok_CONFIG_NET x" "dev_dhcp x < 2"
  shows "cgiParseFormInput (form_body fs) = entries_of fs" "clicked ''net'' (entries_of fs)"
proof -
  obtain d0 d1 t where f: "plain_text t" "unat (dev_dhcp x) < length NO_YES"
    "fs = [(bytes_of ''host_ip'', ip_text (dev_ip x)), (bytes_of ''host_netmask'', ip_text (dev_nm x)), (bytes_of ''host_dev_gw'', ip_text (dev_gw x)),
      (bytes_of ''host_dns0'', ip_text d0), (bytes_of ''host_dns1'', ip_text d1), (bytes_of ''dev_mac'', t),
      (bytes_of ''dev_dhcp'', NO_YES ! unat (dev_dhcp x)), (bytes_of ''net'', [111, 107])]"
    by (rule net_page_fields [OF assms])
  have "NO_YES ! unat (dev_dhcp x) \<in> set NO_YES" using f(2) by (rule nth_mem)
  then have "0 \<notin> set (NO_YES ! unat (dev_dhcp x))" by (auto simp: NO_YES_def)
  with f(1) show "cgiParseFormInput (form_body fs) = entries_of fs"
    by (intro parse_entries) (simp add: f(3) ip_text_no_nul plain_text_def bytes_of_def)
  show "clicked ''net'' (entries_of fs)" by (simp add: f(3) clicked_def cgiFormCheckboxSingle_def bytes_of_def)
qed

lemma net_fields_shown:
  assumes "net_page x = Some fs" "ok_CONFIG_NET x" "dev_dhcp x < 2" "ok_CONFIG_NET y"
  shows "net_fields_entered (entries_of fs) y = Some (Inr (net_applied x y))"
proof -
  obtain d0 d1 t where dx: "dns x = [d0, d1]" and t: "plain_text t" "length t = 17" "mac_chars 0 t" "tokens 58 t = map hex2 (dev_mac x)"
    and dh: "unat (dev_dhcp x) < length NO_YES"
    and fs: "fs = [(bytes_of ''host_ip'', ip_text (dev_ip x)), (bytes_of ''host_netmask'', ip_text (dev_nm x)), (bytes_of ''host_dev_gw'', ip_text (dev_gw x)),
      (bytes_of ''host_dns0'', ip_text d0), (bytes_of ''host_dns1'', ip_text d1), (bytes_of ''dev_mac'', t),
      (bytes_of ''dev_dhcp'', NO_YES ! unat (dev_dhcp x)), (bytes_of ''net'', [111, 107])]"
    by (rule net_page_fields [OF assms(1-3)])
  obtain d0' d1' where dy: "dns y = [d0', d1']" using assms(4) by (auto simp: ok_CONFIG_NET_def numeral_2_eq_2 length_Suc_conv)
  have m6: "length (dev_mac x) = 6" "length (dev_mac y) = 6" using assms(2,4) by (simp_all add: ok_CONFIG_NET_def)
  let ?es = "entries_of fs"
  have find: "cgiFormEntryFindFirst (bytes_of ''dev_mac'') ?es = Some \<lparr>e_attr = bytes_of ''dev_mac'', e_value = t\<rparr>"
    "cgiFormEntryFindFirst (bytes_of ''dev_dhcp'') ?es = Some \<lparr>e_attr = bytes_of ''dev_dhcp'', e_value = NO_YES ! unat (dev_dhcp x)\<rparr>"
    by (simp_all add: fs bytes_of_def)
  have addr: "net_addr ''host_ip'' ?es = Some (Some (dev_ip x))" "net_addr ''host_netmask'' ?es = Some (Some (dev_nm x))"
    "net_addr ''host_dev_gw'' ?es = Some (Some (dev_gw x))" "net_addr ''host_dns0'' ?es = Some (Some d0)" "net_addr ''host_dns1'' ?es = Some (Some d1)"
    by (rule net_addr_shown; simp add: fs bytes_of_def)+
  have sel: "select_single (bytes_of ''dev_dhcp'') NO_YES ?es = unat (dev_dhcp x)"
    using select_single_index [OF find(2) _ _ dh] by (simp add: NO_YES_def)
  have gh: "get_host (bytes_of ''dev_mac'') (zeros 32) ?es = Some (t @ 0 # zeros 14)"
    using get_host_plain [OF find(1), of "zeros 32"] t(1,2) by simp
  have c: "cstring (t @ 0 # zeros 14) = Some t" using t(1) by (simp add: cstring_append plain_text_def)
  have mc: "mac_str_check (t @ 0 # zeros 14) = Some 0" by (simp add: mac_str_check_def c t(2,3) MAC_STR_LEN_def)
  note gm = get_mac_shown [OF m6(1) _ c t(4)]
  show ?thesis using m6(2)
    by (simp add: net_fields_entered_def NET_ADDRS_def addr sel gh mc gm net_applied_def dx dy)
qed

section \<open>The network page and the daemon\<close>

text \<open>
  The connections of a run, one after the other, each with the daemon's turn that serves it: what
  either has written is what the other has read.
\<close>

fun conversed :: "env \<Rightarrow> lib list \<Rightarrow> lib list \<Rightarrow> NET_CONN_INFO list \<Rightarrow> dev \<Rightarrow> dev \<Rightarrow> bool" where
  "conversed e [] [] [] d d' \<longleftrightarrow> d' = d"
| "conversed e (l # ls) (l' # ls') (c # cs) d d' \<longleftrightarrow> (\<exists>c1 d1.
     l_inp l = wrote (client_conn c) (drop (length (trace d)) (trace d1)) \<and>
     web_svr_proc e (c\<lparr>inp := wrote (l_socket l) (l_trace l')\<rparr>) d = Some (c1, d1) \<and> conversed e ls ls' cs d1 d')"
| "conversed e _ _ _ d d' \<longleftrightarrow> False"

lemma with_user_name_only: "cstring a = cstring b \<Longrightarrow> with_user a pak = with_user b pak"
  by (simp add: with_user_def strcpy_def)

lemma remote_exchange:
  assumes "remote call e l c d r c1 d1"
  obtains s l' where "call (l\<lparr>l_inp := s\<rparr>) = Some (r, l')" "s = wrote (client_conn c) (drop (length (trace d)) (trace d1))"
    "web_svr_proc e (c\<lparr>inp := wrote (l_socket l) (l_trace l')\<rparr>) d = Some (c1, d1)"
  using assms unfolding remote_def by blast

lemma net_page_run:
  assumes "ok_env e" "ok_dev d" "flash_writable d" "ok_CONFI_DATA junk" "prompt c0" "prompt c1"
    and "willing l0" "willing l1" "ok_ITSIP p0" "ok_ITSIP p1" "964 \<le> length mem"
    and "length addr \<le> 23" "fits n" "n \<noteq> []" "net_page x = Some fs" "ok_CONFIG_NET x" "dev_dhcp x < 2"
  obtains s0 s1 ls d' where
    "net_main addr (Some n) (entries_of fs) mem (\<lambda>k. if k = 0 then (p0, l0\<lparr>l_inp := s0\<rparr>) else (p1, l1\<lparr>l_inp := s1\<rparr>))
       = Some (Saved, con_net (g_conf_info d'), ls)"
    "conversed e [l0\<lparr>l_inp := s0\<rparr>, l1\<lparr>l_inp := s1\<rparr>] ls [c0, c1] d d'"
    "g_conf_info d' = (g_conf_info d)\<lparr>con_net := net_applied x (con_net (g_conf_info d))\<rparr>" "g_conf_info (restart junk d') = g_conf_info d'"
proof -
  let ?y = "con_net (g_conf_info d)" and ?b = "n @ zeros (32 - length n)"
  have y: "ok_CONFIG_NET ?y" using assms(2) by (simp add: ok_dev_def ok_CONFI_DATA_def)
  have n: "length n \<le> 23" "0 \<notin> set n" using assms(13) by (simp_all add: fits_def)
  have b: "session_read addr (Some n) (zeros 32) = Some (1, ?b)" by (rule session_found) (use assms(12,14) n in auto)
  have "?b = n @ 0 # zeros (31 - length n)" using zeros_rest [of "length n"] n(1) by simp
  then have cb: "cstring ?b = cstring (n @ [0])" using cstring_append [OF n(2)] by simp
  have z: "ok_CONFIG_NET zero_NET" by (simp add: ok_CONFIG_NET_def zero_NET_def)
  obtain d1 where r0: "remote (\<lambda>l. map_option (\<lambda>(r, x, l). ((r, x), l)) (its_netinfo_query (n @ [0]) zero_NET p0 l)) e l0 c0 d
      (cmd_code QUERY_OK, ?y) ((served c0 [])\<lparr>idle := 0\<rparr>) d1" "g_conf_info d1 = g_conf_info d" "ok_dev d1" "flash_writable d1 = flash_writable d"
    by (rule netinfo_remote_query [OF assms(1,2,5,7,9,13) z])
  let ?x = "net_applied x ?y"
  have x: "ok_CONFIG_NET ?x" using assms(16) y by (simp add: ok_CONFIG_NET_def net_applied_def)
  obtain d2 where r1: "remote (its_netinfo_set ?x mem p1) e l1 c1 d1 (cmd_code NET_SET_OK)
      ((served (served c1 (enc_CONFIG_NET ?x @ take 964 mem)) (take 964 mem))\<lparr>idle := 0\<rparr>) d2"
    "g_conf_info d2 = (g_conf_info d1)\<lparr>con_net := ?x\<rparr>" "g_conf_info (restart junk d2) = g_conf_info d2"
    by (rule netinfo_remote_set [OF assms(1) r0(3) _ x assms(4,6,8,10,11)]) (use assms(3) r0(4) in auto)
  obtain s0 l0' where e0: "its_netinfo_query ?b zero_NET p0 (l0\<lparr>l_inp := s0\<rparr>) = Some (cmd_code QUERY_OK, ?y, l0')"
    "s0 = wrote (client_conn c0) (drop (length (trace d)) (trace d1))"
    "web_svr_proc e (c0\<lparr>inp := wrote (l_socket l0) (l_trace l0')\<rparr>) d = Some ((served c0 [])\<lparr>idle := 0\<rparr>, d1)"
    by (rule remote_exchange [OF r0(1)]) (auto simp: its_netinfo_query_def with_user_name_only [OF cb])
  obtain s1 l1' where e1: "its_netinfo_set ?x mem p1 (l1\<lparr>l_inp := s1\<rparr>) = Some (cmd_code NET_SET_OK, l1')"
    "s1 = wrote (client_conn c1) (drop (length (trace d1)) (trace d2))"
    "web_svr_proc e (c1\<lparr>inp := wrote (l_socket l1) (l_trace l1')\<rparr>) d1 = Some ((served (served c1 (enc_CONFIG_NET ?x @ take 964 mem)) (take 964 mem))\<lparr>idle := 0\<rparr>, d2)"
    by (rule remote_exchange [OF r1(1)])
  have "net_main addr (Some n) (entries_of fs) mem (\<lambda>k. if k = 0 then (p0, l0\<lparr>l_inp := s0\<rparr>) else (p1, l1\<lparr>l_inp := s1\<rparr>)) = Some (Saved, ?x, [l0', l1'])"
    using net_page_sent(2) [OF assms(15-17)] net_fields_shown [OF assms(15-17) y]
    by (simp add: net_main_def b run_form_def e0(1) e1(1))
  moreover have "conversed e [l0\<lparr>l_inp := s0\<rparr>, l1\<lparr>l_inp := s1\<rparr>] [l0', l1'] [c0, c1] d d2"
    using e0(2,3) e1(2,3) by simp
  ultimately show ?thesis using r1(2,3) r0(2) by (intro that [of s0 s1 d2 "[l0', l1']"]) simp_all
qed

end
