(* ===== verification/Mode_Page.thy ===== *)
theory Mode_Page
  imports Page_Facts
begin

text \<open>The page of the sessions, \<open>mode.c\<close>: the texts it shows and what it makes of them.\<close>

section \<open>Numbers as text\<close>

lemma length_decimal: "n < 10 ^ k \<Longrightarrow> 0 < k \<Longrightarrow> length (decimal n) \<le> k"
proof (induction n arbitrary: k rule: decimal.induct)
  case (1 n)
  show ?case
  proof (cases "n < 10")
    case True
    with 1 show ?thesis by (simp add: decimal.simps [of n])
  next
    case False
    then obtain j where k: "k = Suc j" "0 < j" using 1(2,3) by (cases k; cases "k - 1") auto
    then have "n div 10 < 10 ^ j" using 1(2) by (simp add: less_mult_imp_div_less mult.commute)
    with 1(1) [OF False _ k(2)] k(1) False show ?thesis by (simp add: decimal.simps [of n])
  qed
qed

lemma signed_text_facts: "plain_text (signed_text w)" "atoi_int (signed_text w) = Some (sint w)"
proof -
  have r: "- (2 ^ 31) \<le> sint w" "sint w < 2 ^ 31" using sint_ge [of w] sint_lt [of w] by simp_all
  have c: "z \<noteq> 0 \<and> z \<noteq> 10 \<and> z \<noteq> 13" if "z \<in> set (decimal n)" for z n
    using that by (auto dest!: dec_digits simp: is_digit_def)
  have l: "length (decimal n) \<le> 10" if "n \<le> 2 ^ 31" for n using length_decimal [of n 10] that by simp
  have "nat (- sint w) \<le> 2 ^ 31" "nat (sint w) \<le> 2 ^ 31" using r by auto
  then show "plain_text (signed_text w)" using l c by (fastforce simp: plain_text_def signed_text_def)
  have "atoi (signed_text w) = sint w"
    using atoi_dec [of "[]" "nat (sint w)"] atoi_digits_dec_acc [of "nat (- sint w)" "[]" 0]
    by (auto simp: signed_text_def atoi_def is_blank_def)
  with r show "atoi_int (signed_text w) = Some (sint w)" by (simp add: atoi_int_def)
qed

section \<open>The page\<close>

definition session_entries :: "nat \<Rightarrow> CONFIG_SESSION \<Rightarrow> (bytes \<times> bytes) list" where
  "session_entries n s = (bytes_of ''ptl'' @ decimal n, shown (show_protocol s)) # the (show_session n s)"

text \<open>What a browser sends of the page with its fields as they are.\<close>

definition mode_page :: "CONFIG_MODE \<Rightarrow> (bytes \<times> bytes) list" where
  "mode_page x = (bytes_of ''workmode'', shown (show_workmode x)) # (bytes_of ''datamode'', shown (show_datamode x)) #
     concat (map (\<lambda>n. session_entries n (session x ! n)) [0, 1, 2, 3, 4, 5]) @ [(bytes_of ''mode'', [111, 107])]"

definition mode_showable :: "CONFIG_MODE \<Rightarrow> bool" where
  "mode_showable x \<longleftrightarrow> unat (work_mode x) \<in> {0, 1} \<and> unat (tcp_mode x) \<in> {0, 1} \<and> length (session x) = 6 \<and>
     (\<forall>s \<in> set (session x). unat (protocol s) \<in> {0, 1, 2, 3})"

definition ses_applied :: "CONFIG_SESSION \<Rightarrow> CONFIG_SESSION \<Rightarrow> CONFIG_SESSION" where
  "ses_applied s t = t\<lparr>protocol := protocol s, ses_ip := ses_ip s, lport := lport s, dport := dport s\<rparr>"

lemma session_entries_eq:
  "session_entries n s = [(bytes_of ''ptl'' @ decimal n, shown (show_protocol s)), (bytes_of ''ip'' @ decimal n, ip_text (ses_ip s)),
     (bytes_of ''lport'' @ decimal n, signed_text (lport s)), (bytes_of ''dport'' @ decimal n, signed_text (dport s))]"
  by (simp add: session_entries_def show_session_def ip2str_eq)

lemma decimal_small: "decimal 0 = [48]" "decimal (Suc 0) = [49]" "decimal 2 = [50]" "decimal 3 = [51]" "decimal 4 = [52]" "decimal 5 = [53]"
  by (simp_all add: decimal.simps digit_def)

lemma find_session:
  assumes "n \<in> {0, 1, 2, 3, 4, 5}"
  shows "cgiFormEntryFindFirst (bytes_of ''ptl'' @ decimal n) (entries_of (mode_page x)) =
      Some \<lparr>e_attr = bytes_of ''ptl'' @ decimal n, e_value = shown (show_protocol (session x ! n))\<rparr>"
    "cgiFormEntryFindFirst (bytes_of ''ip'' @ decimal n) (entries_of (mode_page x)) =
      Some \<lparr>e_attr = bytes_of ''ip'' @ decimal n, e_value = ip_text (ses_ip (session x ! n))\<rparr>"
    "cgiFormEntryFindFirst (bytes_of ''lport'' @ decimal n) (entries_of (mode_page x)) =
      Some \<lparr>e_attr = bytes_of ''lport'' @ decimal n, e_value = signed_text (lport (session x ! n))\<rparr>"
    "cgiFormEntryFindFirst (bytes_of ''dport'' @ decimal n) (entries_of (mode_page x)) =
      Some \<lparr>e_attr = bytes_of ''dport'' @ decimal n, e_value = signed_text (dport (session x ! n))\<rparr>"
  using assms unfolding mode_page_def session_entries_eq
  by (elim insertE emptyE; simp add: bytes_of_def decimal_small)+

lemma find_modes:
  "cgiFormEntryFindFirst (bytes_of ''workmode'') (entries_of (mode_page x)) = Some \<lparr>e_attr = bytes_of ''workmode'', e_value = shown (show_workmode x)\<rparr>"
  "cgiFormEntryFindFirst (bytes_of ''datamode'') (entries_of (mode_page x)) = Some \<lparr>e_attr = bytes_of ''datamode'', e_value = shown (show_datamode x)\<rparr>"
  unfolding mode_page_def by (simp_all add: bytes_of_def)

lemma choices_distinct: "distinct wmode_choices" "distinct dmode_choices" "distinct ptl_choices"
  "length wmode_choices = 2" "length dmode_choices = 2" "length ptl_choices = 4"
  by (simp_all add: wmode_choices_def dmode_choices_def ptl_choices_def bytes_of_def)

lemma get_modes_shown:
  assumes "mode_showable x"
  shows "get_datamode (entries_of (mode_page x)) (get_workmode (entries_of (mode_page x)) y) = y\<lparr>work_mode := work_mode x, tcp_mode := tcp_mode x\<rparr>"
proof -
  have m: "unat (work_mode x) \<in> set [0, 1]" "unat (tcp_mode x) \<in> set [0, 1]" using assms by (auto simp: mode_showable_def)
  have "shown (show_workmode x) = wmode_choices ! unat (work_mode x)" unfolding show_workmode_def by (rule shown_index [OF m(1)])
  moreover have "shown (show_datamode x) = dmode_choices ! unat (tcp_mode x)" unfolding show_datamode_def by (rule shown_index [OF m(2)])
  ultimately have "select_single (bytes_of ''workmode'') wmode_choices (entries_of (mode_page x)) = unat (work_mode x)"
    "select_single (bytes_of ''datamode'') dmode_choices (entries_of (mode_page x)) = unat (tcp_mode x)"
    using m choices_distinct by (auto intro!: select_single_index find_modes)
  then show ?thesis by (simp add: get_datamode_def get_workmode_def)
qed

lemma get_session_shown:
  assumes "n \<in> {0, 1, 2, 3, 4, 5}" "mode_showable x" "length (session y) = 6"
  shows "get_session (entries_of (mode_page x)) n y = Some (y\<lparr>session := (session y)[n := ses_applied (session x ! n) (session y ! n)]\<rparr>)"
proof -
  let ?s = "session x ! n" and ?es = "entries_of (mode_page x)"
  have n: "n < 6" using assms(1) by auto
  with assms(2) have "?s \<in> set (session x)" by (simp add: mode_showable_def)
  with assms(2) have p: "unat (protocol ?s) \<in> set [0, 1, 2, 3]" by (auto simp: mode_showable_def)
  note f = find_session [OF assms(1), of x]
  have "shown (show_protocol ?s) = ptl_choices ! unat (protocol ?s)" unfolding show_protocol_def by (rule shown_index [OF p])
  then have sel: "select_single (bytes_of ''ptl'' @ decimal n) ptl_choices ?es = unat (protocol ?s)"
    by (intro select_single_index [OF f(1)]) (use p choices_distinct in auto)
  have str: "cstring (t @ 0 # zeros (31 - length t)) = Some t" if "plain_text t" for t
    using that by (simp add: cstring_append plain_text_def)
  note h = get_host_plain [OF f(2), of "zeros 32"] get_host_plain [OF f(3), of "zeros 32"] get_host_plain [OF f(4), of "zeros 32"]
  show ?thesis using n assms(3)
    by (simp add: get_session_def rd_in wr_in sel h str ip_text_plain signed_text_facts str2ip_ip_text ses_applied_def)
qed

lemma mode_fields_shown:
  assumes "mode_showable x" "length (session y) = 6"
  shows "get_sessions (entries_of (mode_page x)) [0..<6] y = Some (y\<lparr>session := map2 ses_applied (session x) (session y)\<rparr>)"
proof -
  obtain a b c e f g where y: "session y = [a, b, c, e, f, g]" using assms(2) by (auto simp: numeral_eq_Suc length_Suc_conv)
  have "length (session x) = 6" using assms(1) by (simp add: mode_showable_def)
  then obtain a' b' c' e' f' g' where x: "session x = [a', b', c', e', f', g']" by (auto simp: numeral_eq_Suc length_Suc_conv)
  have u: "[0..<6] = [0, 1, 2, 3, 4, 5 :: nat]" by (simp add: upt_rec)
  show ?thesis unfolding u using get_session_shown [OF _ assms(1)] by (simp add: x y)
qed

lemma mode_page_sent:
  assumes "mode_showable x"
  shows "cgiParseFormInput (form_body (mode_page x)) = entries_of (mode_page x)"
proof (rule parse_entries)
  have t: "0 \<notin> set (signed_text w)" for w using signed_text_facts(1) [of w] by (simp add: plain_text_def)
  have sh: "shown (show_workmode x) \<in> set wmode_choices" "shown (show_datamode x) \<in> set dmode_choices"
    using shown_index [of "unat (work_mode x)" "[0, 1]" "(!) wmode_choices"] shown_index [of "unat (tcp_mode x)" "[0, 1]" "(!) dmode_choices"] assms choices_distinct
    by (auto simp: mode_showable_def show_workmode_def show_datamode_def)
  have sp: "shown (show_protocol (session x ! n)) \<in> set ptl_choices" if "n \<in> {0, 1, 2, 3, 4, 5}" for n
  proof -
    have "session x ! n \<in> set (session x)" using that assms by (intro nth_mem) (auto simp: mode_showable_def)
    then have "unat (protocol (session x ! n)) \<in> set [0, 1, 2, 3]" using assms by (auto simp: mode_showable_def)
    then show ?thesis using shown_index [of "unat (protocol (session x ! n))" "[0, 1, 2, 3]" "(!) ptl_choices"] choices_distinct
      by (auto simp: show_protocol_def intro!: nth_mem)
  qed
  have z: "0 \<notin> set c" if "c \<in> set wmode_choices \<union> set dmode_choices \<union> set ptl_choices" for c
    using that by (auto simp: wmode_choices_def dmode_choices_def ptl_choices_def bytes_of_def)
  show "\<forall>(a, v) \<in> set (mode_page x). 0 \<notin> set a \<and> 0 \<notin> set v"
    unfolding mode_page_def session_entries_eq
    using sh sp z t ip_text_no_nul by (auto simp: bytes_of_def decimal_small)
qed

end
