(* ===== verification/Form_Props.thy ===== *)
theory Form_Props
  imports Mode_Page
begin

text \<open>The properties of the form library and of the management pages.\<close>

section \<open>Forms\<close>

text \<open>C39: what a browser sends of a form's fields by \<open>post\<close>, whatever bytes but NUL are in them, is decoded
  to exactly these fields in their order, whatever follows the body on the input.\<close>

theorem form_body_round_trip:
  assumes "\<forall>(a, v) \<in> set fs. 0 \<notin> set a \<and> 0 \<notin> set v"
    and "cgiStrEqNc (cgiRequestMethod q) (bytes_of ''POST'')" "cgiStrEqNc (cgiContentType q) (bytes_of ''application/x-www-form-urlencoded'')"
    and "cgiContentLength q = int (length (form_body fs))" "cgiIn q = form_body fs @ r"
  shows "cgi_main q = CgiEntries (map (\<lambda>(a, v). \<lparr>e_attr = a, e_value = v\<rparr>) fs)"
proof -
  have "cgiStrEqNc (cgiRequestMethod q) (bytes_of ''post'')" using assms(2) by (simp add: cgiStrEqNc_def cgi_lower_def bytes_of_def)
  then have "cgi_main q = cgiParsePostFormInput q" using assms(3) by (simp add: cgi_main_def)
  moreover have "form_body fs = [] \<longleftrightarrow> fs = []" by (cases fs rule: form_body.cases) auto
  ultimately show ?thesis using parse_form_body [OF assms(1)] assms(4,5) by (auto simp: cgiParsePostFormInput_def)
qed

theorem form_body_round_trip_witness:
  "cgi_main \<lparr>cgiRequestMethod = bytes_of ''POST'', cgiContentType = bytes_of ''application/x-www-form-urlencoded'', cgiContentLength = 10,
     cgiQueryString = [], cgiRemoteAddr = [], cgiIn = bytes_of ''a=%26+&b=x!''\<rparr> = CgiEntries [\<lparr>e_attr = [97], e_value = [38, 32]\<rparr>, \<lparr>e_attr = [98], e_value = [120]\<rparr>]"
proof -
  have b: "form_body [([97], [38, 32]), ([98], [120])] = bytes_of ''a=%26+&b=x''"
    by (simp add: url_text_def url_char_def url_plain_def is_digit_def url_digit_def bytes_of_def)
  show ?thesis
    using form_body_round_trip [where q = "\<lparr>cgiRequestMethod = bytes_of ''POST'', cgiContentType = bytes_of ''application/x-www-form-urlencoded'',
        cgiContentLength = 10, cgiQueryString = [], cgiRemoteAddr = [], cgiIn = bytes_of ''a=%26+&b=x!''\<rparr>" and r = "[33]", of "[([97], [38, 32]), ([98], [120])]"]
    unfolding b by (simp add: cgiStrEqNc_def) (simp add: bytes_of_def)
qed

text \<open>A browser that sends the serial port's page back as it was shown, to that port or to another, sets exactly
  the settings that were shown, and leaves the fields the page does not have.\<close>

theorem com_page_round_trip:
  assumes "com_showable x"
  shows "com_fields (cgiParseFormInput (form_body (com_page x))) y = Some (y\<lparr>bps := bps x, dbit := dbit x, chk := chk x, sbit := sbit x,
     com_type := com_type x, isloop := isloop x, com_all := 0\<rparr>)"
proof -
  have n: "0 \<notin> set t" if "t \<in> set bps_choices \<union> set chk_choices \<union> set type_choices \<union> set NO_YES" for t
    using that by (auto simp: bps_choices_def chk_choices_def type_choices_def NO_YES_def bytes_of_def)
  note s = shown_com [OF assms]
  have "unat (chk x) - 1 < length chk_choices" "unat (com_type x) < length type_choices" "unat (isloop x) < length NO_YES"
    using assms by (auto simp: com_showable_def chk_choices_def type_choices_def NO_YES_def)
  note m = this [THEN nth_mem]
  have d: "0 \<notin> set (decimal k)" for k by (rule digits_no_sep)
  have "cgiParseFormInput (form_body (com_page x)) = entries_of (com_page x)"
    using n [of "shown (show_bps x)"] n [of "chk_choices ! (unat (chk x) - 1)"] n [of "type_choices ! unat (com_type x)"] n [of "NO_YES ! unat (isloop x)"] s m d
    by (intro parse_entries) (simp add: com_page_def bytes_of_def)
  then show ?thesis by (simp add: com_fields_shown [OF assms])
qed

theorem com_page_round_trip_witness:
  "com_fields (cgiParseFormInput (form_body (com_page (default_com 0)))) zero_COM = Some (zero_COM\<lparr>bps := 9600, dbit := 8, chk := 3, sbit := 1\<rparr>)"
proof -
  have "com_showable (default_com 0)"
    by (simp add: com_showable_def default_com_def zero_COM_def bps_choices_def bytes_of_def atoi_def is_blank_def is_digit_def)
  from com_page_round_trip [OF this] show ?thesis by (simp add: default_com_def zero_COM_def)
qed

text \<open>C40: the page of the sessions, sent back as it was shown, sets exactly the modes and, of each of the six sessions,
  the protocol, the address and the ports that were shown, whatever 32-bit values the ports are; everything
  the page does not show is left as it was.\<close>

theorem mode_page_round_trip:
  assumes "mode_showable x" "length (session y) = 6"
  shows "mode_fields (cgiParseFormInput (form_body (mode_page x))) y = Some (y\<lparr>work_mode := work_mode x, tcp_mode := tcp_mode x,
     session := map2 (\<lambda>s t. t\<lparr>protocol := protocol s, ses_ip := ses_ip s, lport := lport s, dport := dport s\<rparr>) (session x) (session y)\<rparr>)"
  using mode_fields_shown [OF assms(1), of "y\<lparr>work_mode := work_mode x, tcp_mode := tcp_mode x\<rparr>"] assms(2)
  by (simp add: mode_fields_def mode_page_sent [OF assms(1)] get_modes_shown [OF assms(1)] ses_applied_def [abs_def])

theorem mode_page_round_trip_witness:
  "mode_fields (cgiParseFormInput (form_body (mode_page (zero_MODE\<lparr>work_mode := 1, session := replicate 6 (zero_SESSION\<lparr>lport := 4294967295\<rparr>)\<rparr>)))) zero_MODE
     = Some (zero_MODE\<lparr>work_mode := 1, session := replicate 6 (zero_SESSION\<lparr>lport := 4294967295\<rparr>)\<rparr>)"
proof -
  let ?x = "zero_MODE\<lparr>work_mode := 1, session := replicate 6 (zero_SESSION\<lparr>lport := 4294967295\<rparr>)\<rparr>"
  have "mode_showable ?x" by (simp add: mode_showable_def zero_MODE_def zero_SESSION_def)
  from mode_page_round_trip [OF this, of zero_MODE] show ?thesis
    by (simp add: zero_MODE_def zero_SESSION_def numeral_eq_Suc)
qed

section \<open>The host page and the upload\<close>

text \<open>The host page leaves the device's number and description out of its fields, and its program takes them from
  there: a browser that sends the page back as it was shown keeps the two names and erases both.\<close>

theorem host_page_forgets:
  assumes "host_page x = Some fs" "cstring (host_name x) = Some n" "cstring (host_pos x) = Some p" "plain_text n" "plain_text p" "ok_CONFIG_SYS x"
  shows "\<exists>y. host_fields (entries_of fs) x = Some y \<and> cstring (host_name y) = Some n \<and> cstring (host_pos y) = Some p \<and>
     host_id y = zeros 32 \<and> description y = zeros 32 \<and> host_sn y = host_sn x"
  using host_fields_shown [OF assms] assms(4,5) by (simp add: plain_text_def cstring_append)

theorem host_page_forgets_witness:
  "\<exists>fs y. host_page (zero_SYS\<lparr>host_name := 97 # zeros 31, description := 100 # zeros 31\<rparr>) = Some fs \<and>
     host_fields (entries_of fs) (zero_SYS\<lparr>host_name := 97 # zeros 31, description := 100 # zeros 31\<rparr>) = Some y \<and> description y = zeros 32"
proof -
  let ?x = "zero_SYS\<lparr>host_name := 97 # zeros 31, description := 100 # zeros 31\<rparr>"
  have c: "cstring (host_name ?x) = Some [97]" by simp
  then obtain fs where fs: "host_page ?x = Some fs" by (simp add: host_page_def show_host_def zero_SYS_def)
  have ok: "ok_CONFIG_SYS ?x" "plain_text [97]" "plain_text []" "cstring (host_pos ?x) = Some []"
    by (simp_all add: ok_CONFIG_SYS_def zero_SYS_def plain_text_def)
  from host_page_forgets [OF fs c ok(4,2,3,1)] fs show ?thesis by blast
qed

text \<open>An upload is stored byte by byte if it has the expected name, a size up to the limit, and can be opened;
  otherwise it is refused and nothing is written.\<close>

theorem upgrade_stores_upload:
  assumes "up_size u = int (length (up_data u))"
  shows "writeFile u True = Some (if up_name u = Some (bytes_of ''nand1-2.tar.gz'') \<and> up_size u \<le> UPDATE_FILE_LEN_MAX \<and> up_open u
     then (0, Some (up_data u)) else (-1, None))"
proof -
  have "write_file_loop (up_size u) (up_data u) (zeros 1024) = Some (up_data u)" unfolding assms by (rule write_file_loop_all) simp
  then show ?thesis by (simp add: writeFile_def split: option.split)
qed

theorem upgrade_stores_upload_witness:
  "writeFile \<lparr>up_name = Some (bytes_of ''nand1-2.tar.gz''), up_size = 2, up_open = True, up_data = [1, 2]\<rparr> True = Some (0, Some [1, 2])"
  using upgrade_stores_upload [of "\<lparr>up_name = Some (bytes_of ''nand1-2.tar.gz''), up_size = 2, up_open = True, up_data = [1, 2]\<rparr>"]
  by (simp add: UPDATE_FILE_LEN_MAX_def)

section \<open>Sessions\<close>

text \<open>A login writes its user's name over the name of the last one from the same address: the pages then take the
  user for the one who logged in exactly if that name is not the shorter of the two.\<close>

theorem session_keeps_longer_name:
  assumes "length addr \<le> 23" "cstring name = Some n" "n \<noteq> []" "length n \<le> 31" "length c \<le> 31" "0 \<notin> set c"
  shows "\<exists>f b. session_save addr (Some c) True name = Some (Some f) \<and> session_read addr (Some f) (zeros 32) = Some (1, b) \<and>
     cstring b = Some (n @ drop (length n) c) \<and> (cstring b = Some n \<longleftrightarrow> length c \<le> length n)"
proof -
  let ?f = "n @ drop (length n) c"
  have s: "session_save addr (Some c) True name = Some (Some ?f)" using session_saved [OF assms(1,2), of "Some c"] by simp
  have l: "length ?f \<le> 31" "?f \<noteq> []" "0 \<notin> set ?f" using assms(3-6) cstring_SomeD [OF assms(2)] by (auto dest: in_set_dropD)
  have r: "session_read addr (Some ?f) (zeros 32) = Some (1, ?f @ zeros (32 - length ?f))" by (rule session_found [OF assms(1)]) (use l in auto)
  have "cstring (?f @ zeros (32 - length ?f)) = Some ?f" unfolding zeros_rest [OF l(1)] by (rule cstring_append [OF l(3)])
  with s r show ?thesis by (intro exI [of _ ?f] exI [of _ "?f @ zeros (32 - length ?f)"]) simp
qed

theorem session_keeps_longer_name_witness:
  "\<exists>f b. session_save [49] (Some (bytes_of ''operator'')) True (bytes_of ''root'' @ [0]) = Some (Some f) \<and>
     session_read [49] (Some f) (zeros 32) = Some (1, b) \<and> cstring b = Some (bytes_of ''rootator'')"
  using session_keeps_longer_name [of "[49]" "bytes_of ''root'' @ [0]" "bytes_of ''root''" "bytes_of ''operator''"]
  by (auto simp: bytes_of_def)

section \<open>The pages and the daemon\<close>

text \<open>The runs of the programs, with the connections they were given and those they used.\<close>

inductive page_run :: "calls \<Rightarrow> lib list \<Rightarrow> bool" where
  "mainFrame_main crypt addr file opens es calls = Some (p, f, ls) \<Longrightarrow> page_run calls ls"
| "com_main addr file query es mem calls = Some (p, x1, ls) \<Longrightarrow> page_run calls ls"
| "mode_main addr file query es mem calls = Some (p, x2, ls) \<Longrightarrow> page_run calls ls"
| "net_main addr file es mem calls = Some (p, x3, ls) \<Longrightarrow> page_run calls ls"
| "vlan_main addr file es mem calls = Some (p, x4, ls) \<Longrightarrow> page_run calls ls"
| "host_main addr file es mem calls = Some (p, x5, ls) \<Longrightarrow> page_run calls ls"
| "gpio_main addr file calls = Some (p, x6, ls) \<Longrightarrow> page_run calls ls"
| "gpio_set_main addr file es mem calls = Some (p, x7, ls) \<Longrightarrow> page_run calls ls"
| "server_main g q addr file es mem calls = Some (p, x8, ls) \<Longrightarrow> page_run calls ls"
| "factory_main addr file es calls = Some (p, ls) \<Longrightarrow> page_run calls ls"

definition all_released :: "calls \<Rightarrow> lib list \<Rightarrow> bool" where
  "all_released calls ls \<longleftrightarrow> length ls \<le> 4 \<and> (\<forall>i < length ls. released (l_socket (snd (calls i))) (ls ! i))"

definition fresh_calls :: "calls \<Rightarrow> bool" where
  "fresh_calls calls \<longleftrightarrow> (\<forall>k. l_trace (snd (calls k)) = [] \<and> 0 < l_socket (snd (calls k)))"

lemma call_releases:
  assumes "fresh_calls calls"
  shows "its_set pak data n (snd (calls k)) = Some (r, l) \<Longrightarrow> released (l_socket (snd (calls k))) l"
    "its_query pak bad img dec (snd (calls k)) = Some (r, x, l) \<Longrightarrow> released (l_socket (snd (calls k))) l"
  using assms by (auto simp: fresh_calls_def elim!: its_set_released its_query_released)

lemma query_releases:
  assumes "fresh_calls calls"
  shows "its_conf_com_query name x1 pak (snd (calls k)) = Some (r, y1, l) \<Longrightarrow> released (l_socket (snd (calls k))) l"
    "its_conf_mode_query name x2 pak (snd (calls k)) = Some (r, y2, l) \<Longrightarrow> released (l_socket (snd (calls k))) l"
    "its_netinfo_query name x3 pak (snd (calls k)) = Some (r, y3, l) \<Longrightarrow> released (l_socket (snd (calls k))) l"
    "its_vlan_query name x4 pak (snd (calls k)) = Some (r, y4, l) \<Longrightarrow> released (l_socket (snd (calls k))) l"
    "its_sysinfo_query name x5 pak (snd (calls k)) = Some (r, y5, l) \<Longrightarrow> released (l_socket (snd (calls k))) l"
    "its_conf_gpio_query name x6 pak (snd (calls k)) = Some (r, y6, l) \<Longrightarrow> released (l_socket (snd (calls k))) l"
    "its_conf_server_query name x7 pak (snd (calls k)) = Some (r, y7, l) \<Longrightarrow> released (l_socket (snd (calls k))) l"
  by (simp_all only: query_call_defs bind_eq_Some_conv) (elim exE conjE, rule call_releases(2) [OF assms], assumption)+

lemma store_releases:
  assumes "fresh_calls calls"
  shows "its_conf_com_set name x1 f mem pak (snd (calls k)) = Some (r, l) \<Longrightarrow> released (l_socket (snd (calls k))) l"
    "its_conf_mode_set name x2 mem pak (snd (calls k)) = Some (r, l) \<Longrightarrow> released (l_socket (snd (calls k))) l"
    "its_netinfo_set x3 mem pak (snd (calls k)) = Some (r, l) \<Longrightarrow> released (l_socket (snd (calls k))) l"
    "its_vlan_set x4 mem pak (snd (calls k)) = Some (r, l) \<Longrightarrow> released (l_socket (snd (calls k))) l"
    "its_sysinfo_set x5 mem pak (snd (calls k)) = Some (r, l) \<Longrightarrow> released (l_socket (snd (calls k))) l"
    "its_conf_gpio_set x6 mem pak (snd (calls k)) = Some (r, l) \<Longrightarrow> released (l_socket (snd (calls k))) l"
    "its_conf_server_set x7 mem pak (snd (calls k)) = Some (r, l) \<Longrightarrow> released (l_socket (snd (calls k))) l"
    "its_factory_set pak (snd (calls k)) = Some (r, l) \<Longrightarrow> released (l_socket (snd (calls k))) l"
    "user_login crypt name psw pak (snd (calls k)) = Some (r, l) \<Longrightarrow> released (l_socket (snd (calls k))) l"
  by (simp_all only: set_call_defs bind_eq_Some_conv) ((elim exE conjE)?, rule call_releases(1) [OF assms], assumption)+

lemma all_released_few [simp]:
  "all_released calls []" "all_released calls [l] \<longleftrightarrow> released (l_socket (snd (calls 0))) l"
  by (simp_all add: all_released_def)

text \<open>The calls of every page that runs a form, on connections that are fresh.\<close>

definition ends_released :: "calls \<Rightarrow> nat \<Rightarrow> lib \<Rightarrow> bool" where
  "ends_released calls k l \<longleftrightarrow> (fresh_calls calls \<longrightarrow> released (l_socket (snd (calls k))) l)"

interpretation com_calls: page_calls "\<lambda>k x. its_conf_com_query name x (fst (calls k)) (snd (calls k))"
    "\<lambda>k x. its_conf_com_set name x (com_all x) mem (fst (calls k)) (snd (calls k))" "ends_released calls" for name mem calls
  by unfold_locales (auto simp: ends_released_def elim: query_releases(1) store_releases(1))

interpretation mode_calls: page_calls "\<lambda>k x. its_conf_mode_query name x (fst (calls k)) (snd (calls k))"
    "\<lambda>k x. its_conf_mode_set name x mem (fst (calls k)) (snd (calls k))" "ends_released calls" for name mem calls
  by unfold_locales (auto simp: ends_released_def elim: query_releases(2) store_releases(2))

interpretation net_calls: page_calls "\<lambda>k x. its_netinfo_query name x (fst (calls k)) (snd (calls k))"
    "\<lambda>k x. its_netinfo_set x mem (fst (calls k)) (snd (calls k))" "ends_released calls" for name mem calls
  by unfold_locales (auto simp: ends_released_def elim: query_releases(3) store_releases(3))

interpretation vlan_calls: page_calls "\<lambda>k x. its_vlan_query name x (fst (calls k)) (snd (calls k))"
    "\<lambda>k x. its_vlan_set x mem (fst (calls k)) (snd (calls k))" "ends_released calls" for name mem calls
  by unfold_locales (auto simp: ends_released_def elim: query_releases(4) store_releases(4))

interpretation host_calls: page_calls "\<lambda>k x. its_sysinfo_query name x (fst (calls k)) (snd (calls k))"
    "\<lambda>k x. its_sysinfo_set x mem (fst (calls k)) (snd (calls k))" "ends_released calls" for name mem calls
  by unfold_locales (auto simp: ends_released_def elim: query_releases(5) store_releases(5))

interpretation gpio_calls: page_calls "\<lambda>k x. its_conf_gpio_query name x (fst (calls k)) (snd (calls k))"
    "\<lambda>k x. its_conf_gpio_set x mem (fst (calls k)) (snd (calls k))" "ends_released calls" for name mem calls
  by unfold_locales (auto simp: ends_released_def elim: query_releases(6) store_releases(6))

lemma all_released_ends:
  "fresh_calls calls \<Longrightarrow> length ls \<le> 3 \<and> (\<forall>i < length ls. ends_released calls i (ls ! i)) \<Longrightarrow> all_released calls ls"
  by (simp add: all_released_def ends_released_def)

text \<open>A page that needs a session.\<close>

lemma session_page:
  assumes "do { (ret, name) \<leftarrow> s; if ret \<noteq> 1 then Some (NoSession ret, x0, []) else B name } = Some (p, x, ls)"
    and "\<And>name. B name = Some (p, x, ls) \<Longrightarrow> all_released calls ls"
  shows "all_released calls ls"
  using assms by (auto simp: bind_eq_Some_conv split: if_splits)

lemma server_released:
  assumes "fresh_calls calls" "server_main g q addr file es mem calls = Some (p, x, ls)"
  shows "all_released calls ls"
  using assms(2) unfolding server_main_def
proof (rule session_page)
  fix name
  let ?q = "\<lambda>k x. its_conf_server_query name x (fst (calls k)) (snd (calls k))"
  let ?n = "its_netinfo_query name zero_NET (fst (calls 1)) (snd (calls 1))"
  let ?s = "\<lambda>x. its_conf_server_set x mem (fst (calls 2)) (snd (calls 2))"
  note ends = query_releases(3,7) [OF assms(1)] store_releases(7) [OF assms(1)]
  assume "do {
       let query = (\<lambda>k x. its_conf_server_query name x (fst (calls k)) (snd (calls k)));
       (ret, x, l0) \<leftarrow> query (0 :: nat) zero_SERVER;
       if ret \<noteq> cmd_code QUERY_OK then Some (NoSettings ret, x, [l0])
       else if \<not> clicked ''server'' es then Some (Untouched, x, [l0])
       else do {
         (_, net, l1) \<leftarrow> its_netinfo_query name zero_NET (fst (calls 1)) (snd (calls 1));
         f \<leftarrow> server_fields_entered g q es net x;
         case f of Inl why \<Rightarrow> do { (_, x, l2) \<leftarrow> query 2 zero_SERVER; Some (Invalid why, x, [l0, l1, l2]) }
         | Inr x \<Rightarrow> do {
             (ret, l2) \<leftarrow> its_conf_server_set x mem (fst (calls 2)) (snd (calls 2));
             if ret \<noteq> cmd_code SERVER_SET_OK then do { (_, x, l3) \<leftarrow> query 3 zero_SERVER; Some (Rejected ret, x, [l0, l1, l2, l3]) }
             else Some (Saved, x, [l0, l1, l2]) } } } = Some (p, x, ls)"
  note run = this
  then obtain r0 x0 l0 where q: "?q 0 zero_SERVER = Some (r0, x0, l0)" by (auto simp: Let_def bind_eq_Some_conv)
  consider "ls = [l0]" | r1 net l1 f where "?n = Some (r1, net, l1)" "server_fields_entered g q es net x0 = Some f"
      "(case f of Inl why \<Rightarrow> do { (_, x, l2) \<leftarrow> ?q 2 zero_SERVER; Some (Invalid why, x, [l0, l1, l2]) }
         | Inr x \<Rightarrow> do {
             (ret, l2) \<leftarrow> ?s x;
             if ret \<noteq> cmd_code SERVER_SET_OK then do { (_, x, l3) \<leftarrow> ?q 3 zero_SERVER; Some (Rejected ret, x, [l0, l1, l2, l3]) }
             else Some (Saved, x, [l0, l1, l2]) }) = Some (p, x, ls)"
    using run unfolding Let_def q by (auto simp: bind_eq_Some_conv simp del: cmd_code.simps split: if_splits)
  then show "all_released calls ls"
  proof cases
    case 1
    with ends(2) [OF q] show ?thesis by simp
  next
    case (2 r1 net l1 f)
    note n = ends(1) [OF 2(1)] ends(2) [OF q]
    show ?thesis
    proof (cases f)
      case (Inl w)
      with 2(3) n show ?thesis by (auto simp: bind_eq_Some_conv all_released_def less_Suc_eq numeral_eq_Suc dest!: ends(2))
    next
      case (Inr x3)
      with 2(3) n show ?thesis
        by (auto simp: bind_eq_Some_conv all_released_def less_Suc_eq numeral_eq_Suc split: if_splits dest!: ends(2,3))
    qed
  qed
qed

lemma page_run_released:
  assumes "page_run calls ls" "fresh_calls calls"
  shows "all_released calls ls"
  using assms(1)
proof cases
  case 1
  then show ?thesis by (auto simp: mainFrame_main_def bind_eq_Some_conv split: if_splits dest: store_releases(9) [OF assms(2)])
next
  case 2
  then show ?thesis unfolding com_main_def
    by (rule session_page) (auto simp: bind_eq_Some_conv dest: com_calls.run_form_libs intro!: all_released_ends [OF assms(2)])
next
  case 3
  then show ?thesis unfolding mode_main_def
    by (rule session_page) (auto simp: bind_eq_Some_conv dest: mode_calls.run_form_libs intro!: all_released_ends [OF assms(2)])
next
  case 4
  then show ?thesis unfolding net_main_def
    by (rule session_page) (auto simp: bind_eq_Some_conv dest: net_calls.run_form_libs intro!: all_released_ends [OF assms(2)])
next
  case 5
  then show ?thesis unfolding vlan_main_def
    by (rule session_page) (auto simp: bind_eq_Some_conv dest: vlan_calls.run_form_libs intro!: all_released_ends [OF assms(2)])
next
  case 6
  then show ?thesis unfolding host_main_def
    by (rule session_page) (auto simp: bind_eq_Some_conv dest: host_calls.run_form_libs intro!: all_released_ends [OF assms(2)])
next
  case 7
  then show ?thesis unfolding gpio_main_def
    by (rule session_page) (auto simp: bind_eq_Some_conv dest: query_releases(6) [OF assms(2)])
next
  case 8
  then show ?thesis unfolding gpio_set_main_def
    by (rule session_page) (auto simp: bind_eq_Some_conv dest: gpio_calls.run_form_libs intro!: all_released_ends [OF assms(2)])
next
  case 9
  then show ?thesis by (rule server_released [OF assms(2)])
next
  case 10
  then show ?thesis by (auto simp: factory_main_def bind_eq_Some_conv split: if_splits dest: store_releases(8) [OF assms(2)])
qed

text \<open>C38: whatever the network does, a run of a management page makes at most four connections to the daemon, writes only to
  them, and has closed each of them when it ends.\<close>

theorem pages_release_connections:
  assumes "page_run calls ls" "\<forall>k. l_trace (snd (calls k)) = [] \<and> 0 < l_socket (snd (calls k))"
  shows "length ls \<le> 4 \<and> (\<forall>i < length ls. \<exists>ps. l_trace (ls ! i) =
     [EvSocket (l_socket (snd (calls i))), EvConnect (l_socket (snd (calls i))) WEB_IP WEB_PORT] @
     map (EvWrite (l_socket (snd (calls i)))) ps @ [EvClose (l_socket (snd (calls i)))])"
  using page_run_released [OF assms(1)] assms(2) by (simp add: fresh_calls_def all_released_def released_def opened_by_def)

theorem pages_release_connections_witness:
  "\<exists>p l. factory_main [49] (Some [117]) (entries_of [(bytes_of ''factory'', [49])]) (\<lambda>_. (e_pak demo_env, demo_lib\<lparr>l_tx := [TxErr]\<rparr>)) = Some (p, [l]) \<and>
     last (l_trace l) = EvClose 5"
proof -
  let ?calls = "\<lambda>_ :: nat. (e_pak demo_env, demo_lib\<lparr>l_tx := [TxErr]\<rparr>)" and ?es = "entries_of [(bytes_of ''factory'', [49])]"
  have c: "\<exists>r l. its_factory_set (e_pak demo_env) (demo_lib\<lparr>l_tx := [TxErr]\<rparr>) = Some (r, l)"
    by (simp add: its_factory_set_def its_set_def its_request_def net_conn_connect_def demo_lib_def lib_send_def lib_send_pkt_def
        lib_start_def lib_conn_close_def lemit_def lib_fail_def)
  have s: "session_read [49] (Some [117]) (zeros 32) = Some (1, [117] @ zeros 31)" using session_found [of "[49]" "[117]"] by simp
  obtain p l where run: "factory_main [49] (Some [117]) ?es ?calls = Some (p, [l])"
    using c by (auto simp: factory_main_def s clicked_def cgiFormCheckboxSingle_def)
  have "page_run ?calls [l]" using run by (rule page_run.intros(10))
  from pages_release_connections [OF this] run show ?thesis by (auto simp: demo_lib_def)
qed

text \<open>C29: the network page end to end. A user with a session sends the form with the addresses, the hardware address and
  the choice of DHCP of \<open>x\<close>: the body is decoded, the page queries the daemon, puts the fields into the settings it
  got and sends them; the daemon stores them and keeps them over a restart, the fields the form does not have are as
  they were, and the page reports success.\<close>

theorem network_page_sets_device:
  assumes "ok_env e" "ok_dev d" "flash_writable d" "ok_CONFI_DATA junk" "prompt c0" "prompt c1"
    and "willing l0" "willing l1" "ok_ITSIP p0" "ok_ITSIP p1" "964 \<le> length mem"
    and "length addr \<le> 23" "fits n" "n \<noteq> []" "net_page x = Some fs" "ok_CONFIG_NET x" "dev_dhcp x < 2"
  shows "\<exists>s0 s1 ls d'.
    net_main addr (Some n) (cgiParseFormInput (form_body fs)) mem (\<lambda>k. if k = 0 then (p0, l0\<lparr>l_inp := s0\<rparr>) else (p1, l1\<lparr>l_inp := s1\<rparr>))
      = Some (Saved, con_net (g_conf_info d'), ls) \<and>
    conversed e [l0\<lparr>l_inp := s0\<rparr>, l1\<lparr>l_inp := s1\<rparr>] ls [c0, c1] d d' \<and>
    g_conf_info d' = (g_conf_info d)\<lparr>con_net := (con_net (g_conf_info d))\<lparr>dev_ip := dev_ip x, dev_nm := dev_nm x, dev_gw := dev_gw x,
      dns := dns x, dev_dhcp := dev_dhcp x, dev_mac := dev_mac x\<rparr>\<rparr> \<and>
    g_conf_info (restart junk d') = g_conf_info d'"
  unfolding net_page_sent(1) [OF assms(15-17)] net_applied_def [symmetric]
  by (rule net_page_run [OF assms]) blast

theorem network_page_sets_device_witness:
  "\<exists>fs s0 s1 ls (d' :: dev). net_page ((con_net demo_conf)\<lparr>dev_ip := 7\<rparr>) = Some fs \<and>
    net_main [49] (Some [117]) (cgiParseFormInput (form_body fs)) (zeros 1000)
      (\<lambda>k. if k = 0 then (e_pak demo_env, demo_lib\<lparr>l_inp := s0\<rparr>) else (e_pak demo_env, demo_lib\<lparr>l_inp := s1\<rparr>)) = Some (Saved, con_net (g_conf_info d'), ls) \<and>
    dev_ip (con_net (g_conf_info d')) = 7"
proof -
  let ?x = "(con_net demo_conf)\<lparr>dev_ip := 7\<rparr>"
  have x: "ok_CONFIG_NET ?x" using ok_demo_net by (simp add: ok_CONFIG_NET_def)
  then obtain t where "mac_text (dev_mac ?x) = Some t" using mac_text_page [of "dev_mac ?x"] by (auto simp: ok_CONFIG_NET_def)
  with x obtain fs where fs: "net_page ?x = Some fs" by (auto simp: net_page_def show_net_def ip2str_eq ok_CONFIG_NET_def rd_in)
  have f: "fits [117]" "964 \<le> length (zeros 1000)" "flash_writable (demo [])" "length [49 :: u8] \<le> 23" "[117 :: u8] \<noteq> []" by (simp_all add: fits_def)
  have dh: "dev_dhcp ?x < 2" by (simp add: demo_conf_def default_conf_def default_net_def)
  from network_page_sets_device [OF ok_demo_env ok_demo_nil f(3) ok_demo_conf prompt_demo prompt_demo willing_demo willing_demo ok_demo_pak ok_demo_pak f(2,4,1,5) fs x dh]
  obtain s0 s1 ls and d' :: dev where r: "net_main [49] (Some [117]) (cgiParseFormInput (form_body fs)) (zeros 1000)
      (\<lambda>k. if k = 0 then (e_pak demo_env, demo_lib\<lparr>l_inp := s0\<rparr>) else (e_pak demo_env, demo_lib\<lparr>l_inp := s1\<rparr>)) = Some (Saved, con_net (g_conf_info d'), ls)"
    "g_conf_info d' = (g_conf_info (demo []))\<lparr>con_net := (con_net (g_conf_info (demo [])))\<lparr>dev_ip := dev_ip ?x, dev_nm := dev_nm ?x, dev_gw := dev_gw ?x,
      dns := dns ?x, dev_dhcp := dev_dhcp ?x, dev_mac := dev_mac ?x\<rparr>\<rparr>"
    by blast
  have "dev_ip (con_net (g_conf_info d')) = 7" unfolding r(2) by simp
  with fs r(1) show ?thesis by blast
qed

end
