(* ===== verification/Starts.thy ===== *)
theory Starts
  imports WebServer Gpio
begin

text \<open>
  How two threads start and run: the listening socket of the management server (\<open>web_svr_start\<close> of
  \<open>web_net.c\<close>) and the thread that blinks the status light (\<open>system_run_proc\<close> of \<open>gpio.c\<close>).
\<close>

text \<open>What the system calls return; \<open>le_binds\<close> is how often \<open>bind\<close> fails before it succeeds.\<close>

record listen_env =
  le_fd :: int
  le_reuse :: bool
  le_keepalive :: bool
  le_sndbuf :: bool
  le_binds :: nat
  le_listen :: bool

fun bind_retry :: "nat \<Rightarrow> int \<Rightarrow> dev \<Rightarrow> dev" where
  "bind_retry 0 fd d = emit (EvBind fd WEB_PORT) d"
| "bind_retry (Suc n) fd d = bind_retry n fd (emit (EvSleep 3) (emit (EvBind fd WEB_PORT) d))"

definition web_svr_start :: "listen_env \<Rightarrow> server \<Rightarrow> dev \<Rightarrow> server \<times> dev" where
  "web_svr_start e s d = (let fd = le_fd e; s = s\<lparr>g_listen_conn := fd\<rparr> in
     if fd = -1 then (s, d)
     else let d = emit (EvSocket fd) d in
       if \<not> le_reuse e \<or> \<not> le_keepalive e \<or> \<not> le_sndbuf e then (s, d)
       else let d = emit (EvListen fd (of_nat MAX_TCP_CONN)) (bind_retry (le_binds e) fd d) in
         if \<not> le_listen e then (s, emit (EvClose fd) d)
         else (s\<lparr>m_max_sock := fd\<rparr>, d))"

text \<open>A turn of the loop; the half second after either switch is not in the trace.\<close>

definition system_run_turn :: "dev \<Rightarrow> dev" where
  "system_run_turn d = led_ctrl LED_D1_SYSTEM_STATUS LED_OFF (led_ctrl LED_D1_SYSTEM_STATUS LED_ON d)"

text \<open>A start without errors, however often \<open>bind\<close> is tried, is where the server's reachable states begin.\<close>

lemma web_svr_start_init:
  assumes "le_fd e \<noteq> -1" "le_reuse e" "le_keepalive e" "le_sndbuf e" "le_listen e"
  shows "fst (web_svr_start e (web_init (-1)) d) = web_init (le_fd e)"
  using assms by (simp add: web_svr_start_def web_init_def Let_def)

end
