(* ===== verification/Daemon.thy ===== *)
theory Daemon
  imports Starts Session_Facts Link Report Web_Table
begin

text \<open>
  The whole daemon, \<open>nc600-2.0/src/main.c\<close> and \<open>thread.c\<close>: the order of the start, and the threads
  with the turns they make. The main thread serves the management server; the others report to the
  PC tool, watch the alarm inputs and the reset key, blink the status light, talk to the alarm
  server, and serve the sessions and the serial ports. A turn of a thread is one step: the calls
  that block are at its end, and turns of different threads are made in any order.
\<close>

section \<open>Threads\<close>

datatype trd = ReportProc | AlarmProc | SystemRunProc | CfgKeyProc | ClientProc | ModeProc nat | ComProc nat

text \<open>\<open>trd_create\<close> with the results of \<open>pthread_create\<close> and \<open>pthread_detach\<close>; the thread runs unless the first fails.\<close>

definition trd_create :: "int \<times> int \<Rightarrow> int" where
  "trd_create r = (if fst r \<noteq> 0 then -1 else if snd r \<noteq> 0 then -2 else 0)"

definition started :: "(trd \<Rightarrow> int \<times> int) \<Rightarrow> trd list \<Rightarrow> trd set" where
  "started create ts = {t \<in> set ts. trd_create (create t) \<noteq> -1}"

text \<open>The threads in the order \<open>main\<close>, \<open>mode_init\<close> and \<open>com_init\<close> make them.\<close>

definition all_threads :: "trd list" where
  "all_threads = [ReportProc, AlarmProc, SystemRunProc, CfgKeyProc, ClientProc] @
     map ModeProc [0 ..< MAX_COM_PORT * MAX_SESSION] @ map ComProc [0 ..< MAX_COM_PORT]"

section \<open>The start\<close>

record main_env =
  m_date :: bytes
  m_time :: bytes
  m_crypt :: "bytes \<Rightarrow> bytes \<Rightarrow> bytes"
  m_hwaddr :: bytes
  m_listen :: listen_env
  m_gpio :: "bytes \<Rightarrow> bool"
  m_tty :: "int list"
  m_create :: "trd \<Rightarrow> int \<times> int"

text \<open>
  What the threads keep between turns: the alarm inputs once they have been read, the variable of the
  key, the socket of the report once it is open and the report's text.
\<close>

record daemon =
  d_dev :: dev
  d_server :: server
  d_running :: "trd set"
  d_threads :: threads
  d_alarm :: "alarm_state option"
  d_key :: u32
  d_report :: "int option"
  d_sendmsg :: bytes

text \<open>\<open>main\<close> up to its loop; \<open>key\<close> and \<open>msg\<close> are what the locals of two threads hold at first.\<close>

definition main_start :: "main_env \<Rightarrow> u32 \<Rightarrow> bytes \<Rightarrow> dev \<Rightarrow> daemon option" where
  "main_start m key msg d = do {
     d \<leftarrow> config_init (m_date m) (m_time m) (m_crypt m) (m_hwaddr m) d;
     let (s, d) = web_svr_start (m_listen m) (web_init (-1)) d;
     let d = init_gpio (m_gpio m) d;
     let d = led_ctrl LED_D1_SYSTEM_STATUS LED_ON (emit (EvSystem (bytes_of ''telnetd'')) d);
     d \<leftarrow> com_init (m_tty m) d;
     Some \<lparr>d_dev = d, d_server = s,
       d_running = started (m_create m) all_threads,
       d_threads = start_threads, d_alarm = None, d_key = key, d_report = None, d_sendmsg = msg\<rparr> }"

section \<open>The steps\<close>

text \<open>
  \<open>g\<close> is \<open>gethostbyname\<close> and \<open>e\<close> the memory around the management server's buffers. The kernel hands
  out descriptors that no connection of the server has. A client that is still trying to connect takes
  its next attempts in a turn of its own.
\<close>

inductive daemon_step :: "(bytes \<Rightarrow> u32 option) \<Rightarrow> env \<Rightarrow> daemon \<Rightarrow> daemon \<Rightarrow> bool" for g e where
  main_turn: "fresh_accept ev (d_server D) \<Longrightarrow> web_process e ev (d_server D, d_dev D) = Some (s, d) \<Longrightarrow>
    daemon_step g e D (D\<lparr>d_server := s, d_dev := d\<rparr>)"
| report_open: "ReportProc \<in> d_running D \<Longrightarrow> d_report D = None \<Longrightarrow> report_start re (d_dev D) = (Some fd, d) \<Longrightarrow>
    daemon_step g e D (D\<lparr>d_report := Some fd, d_dev := d\<rparr>)"
| report_end: "ReportProc \<in> d_running D \<Longrightarrow> d_report D = None \<Longrightarrow> report_start re (d_dev D) = (None, d) \<Longrightarrow>
    daemon_step g e D (D\<lparr>d_running := d_running D - {ReportProc}, d_dev := d\<rparr>)"
| report_serve: "ReportProc \<in> d_running D \<Longrightarrow> d_report D = Some fd \<Longrightarrow>
    report_turn g q fd r (d_sendmsg D) (d_dev D) = Some (msg, d) \<Longrightarrow> daemon_step g e D (D\<lparr>d_sendmsg := msg, d_dev := d\<rparr>)"
| alarm_first: "AlarmProc \<in> d_running D \<Longrightarrow> d_alarm D = None \<Longrightarrow>
    daemon_step g e D (D\<lparr>d_alarm := Some (alarm_start junk (d_dev D))\<rparr>)"
| alarm_next: "AlarmProc \<in> d_running D \<Longrightarrow> d_alarm D = Some a \<Longrightarrow> alarm_turn junk a (d_dev D) = (a', d) \<Longrightarrow>
    daemon_step g e D (D\<lparr>d_alarm := Some a', d_dev := d\<rparr>)"
| blink: "SystemRunProc \<in> d_running D \<Longrightarrow> daemon_step g e D (D\<lparr>d_dev := system_run_turn (d_dev D)\<rparr>)"
| key_turn: "CfgKeyProc \<in> d_running D \<Longrightarrow> cfg_key_turn later (d_key D) (d_dev D) = Some (v, d) \<Longrightarrow>
    daemon_step g e D (D\<lparr>d_key := v, d_dev := d\<rparr>)"
| client: "ClientProc \<in> d_running D \<Longrightarrow> ok_uninit (t_uninit t) \<Longrightarrow> client_turn g t (d_dev D) = Some (in_time, d) \<Longrightarrow>
    daemon_step g e D (D\<lparr>d_dev := d\<rparr>)"
| mode: "ModeProc i \<in> d_running D \<Longrightarrow> i < length (d_threads D) \<Longrightarrow>
    mode_step so me (fst (d_threads D ! i)) (snd (d_threads D ! i)) (d_dev D) = Some (pc, md, d) \<Longrightarrow>
    daemon_step g e D (D\<lparr>d_threads := (d_threads D)[i := (pc, md)], d_dev := d\<rparr>)"
| com: "ComProc i \<in> d_running D \<Longrightarrow> com_turn (modes_of (d_threads D)) (i + 1) r (d_dev D) = Some d \<Longrightarrow>
    daemon_step g e D (D\<lparr>d_dev := d\<rparr>)"
| pins_change: "daemon_step g e D (D\<lparr>d_dev := (d_dev D)\<lparr>pins := p\<rparr>\<rparr>)"

inductive daemon_reach :: "(bytes \<Rightarrow> u32 option) \<Rightarrow> env \<Rightarrow> dev \<Rightarrow> daemon \<Rightarrow> bool" for g e d0 where
  reach_start: "length (m_tty m) = MAX_COM_PORT \<Longrightarrow> 6 \<le> length (m_hwaddr m) \<Longrightarrow> main_start m key msg d0 = Some D \<Longrightarrow>
    daemon_reach g e d0 D"
| reach_step: "daemon_reach g e d0 D \<Longrightarrow> daemon_step g e D D' \<Longrightarrow> daemon_reach g e d0 D'"

inductive_cases daemon_stepE: "daemon_step g e D D'"

end
