(* ===== verification/Daemon_Props.thy ===== *)
theory Daemon_Props
  imports Daemon Device_Props Server_Props Session_Props
begin

text \<open>
  The device is well formed whatever the threads of the daemon do and in whatever order: what each
  operation that is not in the theories before keeps, the start, and the reachable states.
\<close>

section \<open>What the operations keep\<close>

lemma emit_ok [simp]: "ok_dev (emit ev d) = ok_dev d"
  by (simp add: ok_dev_def)

lemma led_ok [simp]: "ok_dev (led_ctrl l v d) = ok_dev d"
  by (simp add: led_ctrl_def)

lemma plain_fields_ok [simp]:
  "ok_dev (d\<lparr>heartbeat_s := h\<rparr>) = ok_dev d" "ok_dev (d\<lparr>heartbeat_timeout := t\<rparr>) = ok_dev d"
  "ok_dev (d\<lparr>g_sockfd_client := fd\<rparr>) = ok_dev d" "ok_dev (d\<lparr>g_sockfd_client_status := st\<rparr>) = ok_dev d"
  "ok_dev (d\<lparr>g_reconnect_flag := f\<rparr>) = ok_dev d" "ok_dev (d\<lparr>pins := p\<rparr>) = ok_dev d" "ok_dev (d\<lparr>trace := tr\<rparr>) = ok_dev d"
  by (simp_all add: ok_dev_def)

lemma drop_link_ok [simp]: "ok_dev (drop_link d) = ok_dev d"
  by (simp add: drop_link_def)

lemma set_server_ok: "ok_dev d \<Longrightarrow> ok_CONFIG_SERVER (f (con_server (g_conf_info d))) \<Longrightarrow> ok_dev (set_server f d)"
  by (simp add: ok_dev_def set_server_def ok_CONFI_DATA_def)

lemma ok_server: "ok_dev d \<Longrightarrow> ok_CONFIG_SERVER (con_server (g_conf_info d))"
  by (simp add: ok_dev_def ok_CONFI_DATA_def)

lemma its_dns_ok: "its_dns q w ip b d = Some (r, b', d') \<Longrightarrow> ok_dev d' = ok_dev d"
  by (drule its_dns_dev) auto

lemma dns_resolution_ok: "dns_resolution g q s d = Some (r, d') \<Longrightarrow> ok_dev d \<Longrightarrow> ok_dev d'"
  by (auto simp: dns_resolution_def bind_eq_Some_conv Let_def ok_CONFIG_SERVER_def set_server_def
      split: if_splits dest!: its_dns_ok strcpy_length intro!: set_server_ok [unfolded set_server_def] dest: ok_server)

lemma connect_ok: "client_connect_server g c d = Some (r, d') \<Longrightarrow> ok_dev d \<Longrightarrow> ok_dev d'"
  by (auto simp: client_connect_server_def bind_eq_Some_conv Let_def connect_err_def split: if_splits dest!: dns_resolution_ok)

lemma reconnect_loop_ok: "reconnect_loop g cs d = Some (r, d') \<Longrightarrow> ok_dev d \<Longrightarrow> ok_dev d'"
  by (induction cs arbitrary: d) (auto simp: bind_eq_Some_conv split: if_splits dest: connect_ok)

lemma heartbeat_ok [simp]: "ok_dev (set_heartbeat f s d) = ok_dev d"
  by (simp add: set_heartbeat_def ok_dev_def)

lemma cbuf_ok: "ok_dev d \<Longrightarrow> length b = length (cbuf d) \<Longrightarrow> ok_dev (d\<lparr>cbuf := b\<rparr>)"
  by (simp add: ok_dev_def)

lemma client_serve_ok: "client_serve t d = Some d' \<Longrightarrow> ok_dev d \<Longrightarrow> ok_uninit (t_uninit t) \<Longrightarrow> ok_dev d'"
  by (auto simp: client_serve_def bind_eq_Some_conv Let_def cbuf_ok dest!: wrs_Some_length split: if_splits option.splits
      intro: client_dispatch_ok)

lemma client_turn_ok: "client_turn g t d = Some (r, d') \<Longrightarrow> ok_dev d \<Longrightarrow> ok_uninit (t_uninit t) \<Longrightarrow> ok_dev d'"
  by (auto simp: client_turn_def client_reconnect_def bind_eq_Some_conv Let_def split: if_splits
      dest!: reconnect_loop_ok dest: client_serve_ok)

lemma cfg_key_turn_ok: "cfg_key_turn later v d = Some (v', d') \<Longrightarrow> ok_dev d \<Longrightarrow> ok_dev d'"
  by (auto simp: cfg_key_turn_def bind_eq_Some_conv Let_def split: if_splits prod.splits dest: ok_reconfig)

lemma alarm_turn_ok: "alarm_turn junk a d = (a', d') \<Longrightarrow> ok_dev d \<Longrightarrow> ok_dev d'"
  by (auto simp: alarm_turn_def alarm_tick_def Let_def ok_dev_def)

lemma system_run_turn_ok [simp]: "ok_dev (system_run_turn d) = ok_dev d"
  by (simp add: system_run_turn_def)

section \<open>Sessions and ports\<close>

lemma got_socket_ok [simp]: "ok_dev (got_socket f d) = ok_dev d"
  by (simp add: got_socket_def)

lemma close_each_ok [simp]: "ok_dev (close_each fs d) = ok_dev d"
  by (induction fs arbitrary: d) auto

lemma sockets_ok:
  "socket_cli_init so ip port d = (fd, d') \<Longrightarrow> ok_dev d' = ok_dev d"
  "socket_init so port n d = (fd, d') \<Longrightarrow> ok_dev d' = ok_dev d"
  "init_udp_socket so port d = (fd, d') \<Longrightarrow> ok_dev d' = ok_dev d"
  by (auto simp: socket_cli_init_def socket_init_def init_udp_socket_def Let_def split: if_splits)

lemma mode_again_ok:
  assumes "mode_again so md d = Some (pc', md', d')"
  shows "ok_dev d' = ok_dev d"
  using assms
  by (auto simp: mode_again_def bind_eq_Some_conv open_with_def Let_def split: if_splits prod.splits dest: sockets_ok)

lemma srv_recv_ok: "srv_recv e n fs d = Some (fs', d') \<Longrightarrow> ok_dev d \<Longrightarrow> ok_dev d'"
  by (induction fs arbitrary: d fs') (fastforce simp: bind_eq_Some_conv split: if_splits dest!: SendNetDataToCom_ok)+

lemma srv_accept_ok: "srv_accept e md d = (md', d') \<Longrightarrow> ok_dev d' = ok_dev d"
  by (auto simp: srv_accept_def Let_def split: if_splits option.splits)

lemma mode_loop_ok: "mode_loop e tmp md d = Some (pc', md', d') \<Longrightarrow> ok_dev d \<Longrightarrow> ok_dev d'"
  by (auto simp: mode_loop_def bind_eq_Some_conv Let_def split: if_splits prod.splits
      dest!: SendNetDataToCom_ok srv_accept_ok intro: srv_recv_ok)

lemma mode_step_ok: "mode_step so e pc md d = Some (pc', md', d') \<Longrightarrow> ok_dev d \<Longrightarrow> ok_dev d'"
  by (auto simp: mode_step_def split: md_pc.splits dest: mode_again_ok mode_loop_ok)

lemma send_each_ok [simp]: "ok_dev (send_each fs data d) = ok_dev d"
  by (simp add: send_each_eq)

lemma send_sessions_ok: "send_sessions mds data d = Some d' \<Longrightarrow> ok_dev d \<Longrightarrow> ok_dev d'"
  by (induction mds arbitrary: d) (fastforce simp: bind_eq_Some_conv send_session_def split: if_splits)+

lemma poll_ok: "Protocol_SendComDataToNet_PollMode n data d = Some d' \<Longrightarrow> ok_dev d' = ok_dev d"
  by (auto simp: Protocol_SendComDataToNet_PollMode_def Let_def bind_eq_Some_conv ok_dev_def split: if_splits dest!: wrs_Some_length)

lemma int_mode_ok: "Protocol_SendComDataToNet_IntMode n data d = Some d' \<Longrightarrow> ok_dev d \<Longrightarrow> ok_dev d'"
proof -
  assume "Protocol_SendComDataToNet_IntMode n data d = Some d'" "ok_dev d"
  then obtain d1 k b where s: "Protocol_SendComDataToNet_PollMode n data d = Some d1"
    "make_ack_query_uart_recv_data d1 (cbuf_send d1) = Some (k, b)" "client_write k (d1\<lparr>cbuf_send := b\<rparr>) = Some d'" "ok_dev d"
    by (auto simp: Protocol_SendComDataToNet_IntMode_def bind_eq_Some_conv)
  then have "ok_dev d1" "length b = 1024" using poll_ok [OF s(1)] builder_lengths(8) [OF s(2)] by (simp_all add: ok_dev_def)
  then show "ok_dev d'" using client_write_ok [OF s(3)] ok_dev_buf_send by simp
qed

lemma com_turn_ok: "com_turn modes n r d = Some d' \<Longrightarrow> ok_dev d \<Longrightarrow> ok_dev d'"
  by (auto simp: com_turn_def SendComDataToNet_def bind_eq_Some_conv Let_def poll_ok split: if_splits
      dest: send_sessions_ok int_mode_ok)

section \<open>The report\<close>

lemma with_tok_cases: "with_tok ts k f x = Some y \<Longrightarrow> y = x \<or> f (ts ! k) x = Some y"
  by (auto simp: with_tok_def split: if_splits)

lemma net_fields_ok: "net_fields ts n = Some n' \<Longrightarrow> ok_CONFIG_NET n \<Longrightarrow> ok_CONFIG_NET n'"
  by (auto simp: net_fields_def with_tok_def bind_eq_Some_conv ok_CONFIG_NET_def wr_Some_iff split: if_splits)

lemma server_fields_ok: "server_fields ts s = Some s' \<Longrightarrow> ok_CONFIG_SERVER s \<Longrightarrow> ok_CONFIG_SERVER s'"
  by (auto simp: server_fields_def with_tok_def bind_eq_Some_conv ok_CONFIG_SERVER_def split: if_splits dest!: strcpy_length)

lemma store_mac_length: "store_mac qs i m = Some m' \<Longrightarrow> length m' = length m"
  by (induction qs arbitrary: i m) (auto simp: bind_eq_Some_conv wr_Some_iff)

lemma set_mac_length: "set_mac t m = Some m' \<Longrightarrow> length m' = length m"
  by (auto simp: set_mac_def bind_eq_Some_conv wr_Some_iff split: list.splits dest!: store_mac_length)

lemma ok_mac: "ok_CONFIG_NET n \<Longrightarrow> length a = 6 \<Longrightarrow> ok_CONFIG_NET (n\<lparr>dev_mac := a\<rparr>)"
  by (simp add: ok_CONFIG_NET_def)

lemma pc_set_dev_info_ok:
  assumes "pc_set_dev_info g q recv d = Some d'" "ok_dev d"
  shows "ok_dev d'"
proof (cases "d' = d")
  case False
  let ?c = "g_conf_info d"
  obtain ts n s sys mac a d1 r d2 where p: "net_fields ts (con_net ?c) = Some n" "server_fields ts (con_server ?c) = Some s"
    "with_tok ts 9 (\<lambda>p c. do { t \<leftarrow> strcpy (host_sn c) (p @ [0]); Some (c\<lparr>host_sn := t\<rparr>) }) (con_sys ?c) = Some sys"
    "set_mac mac (dev_mac n) = Some a"
    "config_net_set (n\<lparr>dev_mac := a\<rparr>) (d\<lparr>g_conf_info := ?c\<lparr>con_net := n\<lparr>dev_mac := a\<rparr>, con_server := s\<rparr>\<rparr>) = Some d1"
    "dns_resolution g q (dns_str s) d1 = Some (r, d2)"
    "d' = emit (EvSystem (bytes_of ''reboot'')) (emit (EvSleep 1) (config_save (d2\<lparr>g_conf_info := (g_conf_info d2)\<lparr>con_sys := sys\<rparr>\<rparr>)))"
    using assms(1) False by (auto simp: pc_set_dev_info_def bind_eq_Some_conv Let_def split: if_splits)
  have ok: "ok_CONFIG_NET (con_net ?c)" "ok_CONFIG_SERVER (con_server ?c)" "ok_CONFIG_SYS (con_sys ?c)"
    using assms(2) by (simp_all add: ok_dev_def ok_CONFI_DATA_def)
  have sys: "ok_CONFIG_SYS sys" using with_tok_cases [OF p(3)] ok(3)
    by (auto simp: bind_eq_Some_conv ok_CONFIG_SYS_def dest!: strcpy_length)
  have n: "ok_CONFIG_NET n" using net_fields_ok [OF p(1) ok(1)] .
  then have "ok_CONFIG_NET (n\<lparr>dev_mac := a\<rparr>)" using ok_mac set_mac_length [OF p(4)] by (simp add: ok_CONFIG_NET_def)
  then have "ok_dev d1" using ok_config_net_set [OF p(5)] server_fields_ok [OF p(2) ok(2)] assms(2)
    by (simp add: ok_dev_def ok_CONFI_DATA_def)
  then have "ok_dev d2" using dns_resolution_ok [OF p(6)] by simp
  then show ?thesis using sys by (simp add: p(7) ok_dev_def ok_CONFI_DATA_def)
qed (use assms in simp)

lemma report_start_ok: "report_start re d = (r, d') \<Longrightarrow> ok_dev d' = ok_dev d"
  by (auto simp: report_start_def Let_def split: if_splits)

lemma report_turn_ok: "report_turn g q fd r msg d = Some (msg', d') \<Longrightarrow> ok_dev d \<Longrightarrow> ok_dev d'"
  by (auto simp: report_turn_def bind_eq_Some_conv Let_def split: option.splits if_splits dest: pc_set_dev_info_ok)

section \<open>The start\<close>

lemma default_conf_ok:
  assumes "default_conf date time crypt = Some c"
  shows "ok_CONFI_DATA c"
  using assms
  by (auto simp: default_conf_def default_net_def default_server_def bind_eq_Some_conv Let_def alarm_on_off_all_eq
      ok_CONFI_DATA_def ok_CONFIG_SYS_def ok_CONFIG_NET_def ok_CONFIG_VLAN_def
      ok_CONFIG_COM_def ok_CONFIG_MODE_def ok_CONFIG_SESSION_def ok_CONFIG_LIMIT_def ok_USR_INFO_def
      ok_CONFIG_SERVER_def ok_CONFIG_GPIO_def ok_CONFIG_SENSOR_def default_com_def zero_COM_def
      default_mode_def zero_SESSION_def default_lim_def default_usr_def default_sensors_def sensor_of_def
      list_all_iff dest!: strcpy_length)

lemma conf_ok: "ok_dev d \<Longrightarrow> ok_CONFI_DATA c \<Longrightarrow> ok_dev (d\<lparr>g_conf_info := c\<rparr>)"
  by (simp add: ok_dev_def)

lemma config_load_ok: "ok_dev d \<Longrightarrow> ok_dev (config_load d)"
  by (auto simp: config_load_def conf_ok split: option.splits dest: cDATA.dec_ok)

lemma get_mac_init_ok: "ok_dev d \<Longrightarrow> 6 \<le> length hw \<Longrightarrow> ok_dev (get_mac_init hw d)"
  by (simp add: get_mac_init_def ok_dev_def ok_CONFI_DATA_def ok_CONFIG_NET_def)

lemma config_init_ok:
  assumes "config_init date time crypt hw d = Some d'" "ok_dev d" "6 \<le> length hw"
  shows "ok_dev d'"
proof -
  obtain d1 d2 where p: "(if flash d = None then config_makedefault date time crypt d else Some (config_load d)) = Some d1"
    "config_net_set (con_net (g_conf_info d1)) d1 = Some d2" "d' = get_mac_init hw d2"
    using assms(1) unfolding config_init_def bind_eq_Some_conv by auto
  have "ok_dev d1" using p(1) assms(2) config_load_ok
    by (auto simp: config_makedefault_def bind_eq_Some_conv conf_ok split: if_splits dest!: default_conf_ok)
  then show ?thesis using ok_config_net_set [OF p(2)] get_mac_init_ok assms(3) by (simp add: p(3))
qed

lemma bind_retry_ok [simp]: "ok_dev (bind_retry n fd d) = ok_dev d"
  by (induction n arbitrary: d) simp_all

lemma web_svr_start_ok:
  assumes "web_svr_start e (web_init (-1)) d = (s, d')"
  shows "table_ok s \<and> ok_dev d' = ok_dev d"
  using assms table_ok_init [of "-1"]
  by (auto simp: web_svr_start_def Let_def table_ok_def split: if_splits)

lemma write_files_ok: "write_files can fs d = (r, d') \<Longrightarrow> ok_dev d' = ok_dev d"
  by (induction fs arbitrary: d) (fastforce split: if_splits)+

lemma open_gpio_ok: "ok_dev (snd (open_gpio can d)) = ok_dev d"
  by (auto simp: open_gpio_def Let_def split: if_splits prod.splits dest!: write_files_ok)

lemma init_alarm_ok: "ok_dev d \<Longrightarrow> ok_dev (init_alarm d)"
  by (simp add: init_alarm_def ok_set_gpios) (simp add: ok_dev_def)

lemma init_gpio_ok: "ok_dev d \<Longrightarrow> ok_dev (init_gpio can d)"
  by (simp add: init_gpio_def Let_def ok_set_gpios init_alarm_ok open_gpio_ok)

lemma com_init_ok: "com_init fds d = Some d' \<Longrightarrow> ok_dev d \<Longrightarrow> length fds = MAX_COM_PORT \<Longrightarrow> ok_dev d'"
proof -
  have "ok_dev (com_dev_open fds d)" if "ok_dev d" "length fds = MAX_COM_PORT"
    using that by (simp add: com_dev_open_def ok_dev_def MAX_COM_PORT_def)
  then show "com_init fds d = Some d' \<Longrightarrow> ok_dev d \<Longrightarrow> length fds = MAX_COM_PORT \<Longrightarrow> ok_dev d'"
    by (auto simp: com_init_def bind_eq_Some_conv Let_def)
qed

section \<open>The reachable states\<close>

definition placed :: "threads \<Rightarrow> bool" where
  "placed ts \<longleftrightarrow> length ts = 12 \<and> (\<forall>i < 12. md_id (snd (ts ! i)) = i div 6 \<and> md_ses (snd (ts ! i)) = i mod 6)"

lemma placed_start: "placed start_threads"
  by (simp add: placed_def start_threads_nth)

lemma mode_step_place:
  assumes "mode_step so e pc md d = Some (pc', md', d')"
  shows "same_place md md'"
  using assms
  by (auto simp: mode_step_def mode_again_def mode_loop_def srv_accept_def open_with_def same_place_def bind_eq_Some_conv Let_def
      split: md_pc.splits if_splits prod.splits option.splits)

lemma placed_step:
  assumes "placed ts" "i < length ts" "mode_step so e (fst (ts ! i)) (snd (ts ! i)) d = Some (pc', md', d')"
  shows "placed (ts[i := (pc', md')])"
  using assms mode_step_place [OF assms(3)] by (auto simp: placed_def same_place_def nth_list_update)

definition daemon_ok :: "daemon \<Rightarrow> bool" where
  "daemon_ok D \<longleftrightarrow> ok_dev (d_dev D) \<and> table_ok (d_server D) \<and> placed (d_threads D) \<and>
     (\<forall>i. ModeProc i \<in> d_running D \<longrightarrow> i < 12)"

lemma started_modes: "ModeProc i \<in> started create all_threads \<Longrightarrow> i < 12"
  by (auto simp: started_def all_threads_def MAX_COM_PORT_def MAX_SESSION_def)

lemma main_start_ok:
  assumes "main_start m key msg d0 = Some D" "ok_dev d0" "length (m_tty m) = MAX_COM_PORT" "6 \<le> length (m_hwaddr m)"
  shows "daemon_ok D"
proof -
  obtain d1 where d1: "config_init (m_date m) (m_time m) (m_crypt m) (m_hwaddr m) d0 = Some d1"
    using assms(1) by (auto simp: main_start_def bind_eq_Some_conv)
  obtain s d2 where s: "web_svr_start (m_listen m) (web_init (-1)) d1 = (s, d2)" by fastforce
  obtain d3 where p:
    "com_init (m_tty m) (led_ctrl LED_D1_SYSTEM_STATUS LED_ON (emit (EvSystem (bytes_of ''telnetd'')) (init_gpio (m_gpio m) d2))) = Some d3"
    "d_dev D = d3" "d_server D = s" "d_threads D = start_threads" "d_running D = started (m_create m) all_threads"
    using assms(1) by (auto simp: main_start_def bind_eq_Some_conv Let_def d1 s)
  have "ok_dev d2" "table_ok s" using config_init_ok [OF d1 assms(2,4)] web_svr_start_ok [OF s] by simp_all
  then show ?thesis using com_init_ok [OF p(1)] init_gpio_ok assms(3) placed_start started_modes p(2-) by (simp add: daemon_ok_def)
qed

lemma daemon_step_ok:
  assumes "daemon_step g e D D'" "daemon_ok D"
  shows "daemon_ok D'"
  using assms
proof cases
  case (main_turn ev s d)
  then show ?thesis using web_process_ok [OF main_turn(3)] assms(2) by (simp add: daemon_ok_def)
next
  case (mode i so me pc md d)
  then show ?thesis using placed_step [OF _ mode(3,4)] mode_step_ok [OF mode(4)] assms(2) by (simp add: daemon_ok_def)
qed (use assms(2) in \<open>auto simp: daemon_ok_def report_start_ok dest: report_turn_ok alarm_turn_ok cfg_key_turn_ok client_turn_ok com_turn_ok\<close>)

lemma daemon_reach_ok: "daemon_reach g e d0 D \<Longrightarrow> ok_dev d0 \<Longrightarrow> daemon_ok D"
  by (induction rule: daemon_reach.induct) (blast intro: main_start_ok daemon_step_ok)+

section \<open>Sessions always have a step\<close>

lemma SendNetDataToCom_returns: "ok_dev d \<Longrightarrow> n < 2 \<Longrightarrow> \<exists>r d'. SendNetDataToCom n data d = Some (r, d') \<and> ok_dev d'"
proof -
  assume d: "ok_dev d" "n < 2"
  then have "\<exists>r d'. SendNetDataToCom n data d = Some (r, d')"
    by (cases "writen (tty_script d) data"; cases "writen_rs485 (tty_script d) data")
      (simp add: SendNetDataToCom_def rd_in ok_dev_def)
  then show ?thesis using SendNetDataToCom_ok d(1) by blast
qed

lemma srv_recv_returns: "ok_dev d \<Longrightarrow> n < 2 \<Longrightarrow> \<exists>fs' d'. srv_recv e n fs d = Some (fs', d')"
proof (induction fs arbitrary: d)
  case (Cons f fs)
  obtain r d1 where d1: "SendNetDataToCom n (got (me_recv e f)) d = Some (r, d1)" "ok_dev d1"
    using SendNetDataToCom_returns [OF Cons.prems] by blast
  show ?case using Cons.IH [OF d1(2) Cons.prems(2)] Cons.IH [OF _ Cons.prems(2), of "emit (EvClose f) d"]
      Cons.IH [OF Cons.prems] Cons.prems(1) d1(1) by auto
qed simp

lemma session_place_found:
  assumes "ok_dev d" "placed ts" "i < 12"
  shows "\<exists>m s. md_mode (snd (ts ! i)) d = Some m \<and> md_session (snd (ts ! i)) d = Some s \<and> md_id (snd (ts ! i)) < 2"
proof -
  have p: "md_id (snd (ts ! i)) < 2" "md_ses (snd (ts ! i)) < 6" using assms(2,3) by (auto simp: placed_def)
  have m: "length (con_mode (g_conf_info d)) = 2" "\<forall>m \<in> set (con_mode (g_conf_info d)). length (session m) = 6"
    using assms(1) by (simp_all add: ok_dev_def ok_CONFI_DATA_def ok_CONFIG_MODE_def list_all_iff)
  then show ?thesis using p by (simp add: md_session_def md_mode_def rd_in)
qed

lemma mode_step_returns:
  assumes "ok_dev d" "placed ts" "i < 12"
  shows "\<exists>pc md d'. mode_step so e (fst (ts ! i)) (snd (ts ! i)) d = Some (pc, md, d')"
proof -
  let ?md = "snd (ts ! i)"
  obtain m s where ms: "md_mode ?md d = Some m" "md_session ?md d = Some s" "md_id ?md < 2"
    using session_place_found [OF assms] by blast
  obtain md1 d1 where acc: "srv_accept e ?md d = (md1, d1)" by fastforce
  have "ok_dev d1" using srv_accept_ok [OF acc] assms(1) by simp
  then obtain fs d2 where rcv: "srv_recv e (md_id md1) (sfd md1) d1 = Some (fs, d2)"
    using srv_recv_returns [of d1 "md_id md1" e "sfd md1"] acc ms(3)
    by (auto simp: srv_accept_def Let_def split: if_splits option.splits)
  obtain r d3 where com: "SendNetDataToCom (md_id ?md) (got (me_recv e (md_fd ?md))) d = Some (r, d3)"
    using SendNetDataToCom_returns [OF assms(1) ms(3)] by blast
  have "mode_again so ?md d \<noteq> None" by (simp add: mode_again_def ms)
  moreover have "mode_loop e tmp ?md d \<noteq> None" for tmp by (simp add: mode_loop_def ms acc rcv com)
  ultimately have "mode_step so e (fst (ts ! i)) ?md d \<noteq> None" by (simp add: mode_step_def split: md_pc.split)
  then show ?thesis by (cases "mode_step so e (fst (ts ! i)) ?md d") auto
qed

section \<open>A start without a configuration\<close>

lemma main_start_returns:
  assumes "flash d = None" "ok_dev d" "ok_stamp (m_date m) (m_time m) (m_crypt m)" "length (m_tty m) = MAX_COM_PORT" "6 \<le> length (m_hwaddr m)"
  shows "\<exists>D. main_start m key msg d = Some D \<and> d_running D = started (m_create m) all_threads \<and> d_threads D = start_threads"
proof -
  obtain c where c: "default_conf (m_date m) (m_time m) (m_crypt m) = Some c" "ok_CONFI_DATA c" "length (dev_mac (con_net c)) = 6"
    using default_conf_parts [OF assms(3)] by auto
  let ?d = "config_save (d\<lparr>g_conf_info := c\<rparr>)"
  obtain tr where "config_net_set (con_net c) ?d = Some (?d\<lparr>trace := tr\<rparr>)" using config_net_set_eq [OF c(3)] by blast
  then obtain d1 where d1: "config_init (m_date m) (m_time m) (m_crypt m) (m_hwaddr m) d = Some d1"
    using assms(1) c(1) by (simp add: config_init_def config_makedefault_def)
  obtain s d2 where s: "web_svr_start (m_listen m) (web_init (-1)) d1 = (s, d2)" by fastforce
  have "ok_dev d2" using config_init_ok [OF d1 assms(2,5)] web_svr_start_ok [OF s] by simp
  define d3 where "d3 = led_ctrl LED_D1_SYSTEM_STATUS LED_ON (emit (EvSystem (bytes_of ''telnetd'')) (init_gpio (m_gpio m) d2))"
  have "ok_dev d3" unfolding d3_def using init_gpio_ok [OF \<open>ok_dev d2\<close>] by simp
  then have "length (con_com (g_conf_info d3)) = 2" by (simp add: ok_dev_def ok_CONFI_DATA_def)
  then have "\<exists>d4. com_init (m_tty m) d3 = Some d4"
    using assms(4) by (simp add: com_init_def com_dev_open_def rd_in MAX_COM_PORT_def)
  then show ?thesis using d1 s by (auto simp: main_start_def d3_def)
qed

section \<open>Properties\<close>


text \<open>A device without a configuration file, and a start at which every call succeeds.\<close>

definition blank :: dev where
  "blank = (demo [])\<lparr>flash := None\<rparr>"

definition demo_main :: main_env where
  "demo_main = \<lparr>m_date = bytes_of ''Nov 18 2025'', m_time = bytes_of ''22:00:00'', m_crypt = demo_crypt, m_hwaddr = [1, 2, 3, 4, 5, 6],
     m_listen = \<lparr>le_fd = 3, le_reuse = True, le_keepalive = True, le_sndbuf = True, le_binds = 0, le_listen = True\<rparr>,
     m_gpio = (\<lambda>_. True), m_tty = [4, 5], m_create = (\<lambda>_. (0, 0))\<rparr>"

lemma ok_blank: "ok_dev blank"
  using ok_demo [of "[]"] by (simp add: blank_def ok_dev_def)

lemma demo_start:
  "\<exists>D. main_start demo_main 0 (zeros 255) blank = Some D \<and> daemon_reach g e blank D \<and> d_running D = set all_threads \<and> d_threads D = start_threads"
proof -
  have m: "flash blank = None" "ok_stamp (m_date demo_main) (m_time demo_main) (m_crypt demo_main)"
    "length (m_tty demo_main) = MAX_COM_PORT" "6 \<le> length (m_hwaddr demo_main)"
    using ok_stamp_demo by (simp_all add: blank_def demo_main_def MAX_COM_PORT_def)
  obtain D where D: "main_start demo_main 0 (zeros 255) blank = Some D" "d_running D = started (m_create demo_main) all_threads"
    "d_threads D = start_threads"
    using main_start_returns [OF m(1) ok_blank m(2-)] by blast
  moreover have "d_running D = set all_threads" by (simp add: D(2) started_def trd_create_def demo_main_def)
  ultimately show ?thesis using reach_start [OF m(3,4) D(1)] by blast
qed




end
