(* ===== verification/Multipart.thy ===== *)
theory Multipart
  imports Pages
begin

text \<open>
  The parser of uploads of the form library, \<open>web/cgic/cgic.c\<close>: the content type of the request, the
  stream with put-back, the search for the boundary, the headers of a part, and the temporary files;
  and the functions with which \<open>upgrade.c\<close> reads the file that was sent.

  A loop that reads the stream is a \<open>partial_function\<close>: that it returns is a theorem, not an
  assumption. As everywhere, \<open>None\<close> is also what C leaves undefined.
\<close>

section \<open>The content type\<close>

definition is_alnum :: "u8 \<Rightarrow> bool" where
  "is_alnum c \<longleftrightarrow> is_digit c \<or> 65 \<le> c \<and> c \<le> 90 \<or> 97 \<le> c \<and> c \<le> 122"

definition cgiStrBeginsNc :: "bytes \<Rightarrow> bytes \<Rightarrow> bool" where
  "cgiStrBeginsNc s1 s2 \<longleftrightarrow> map cgi_lower (take (length s2) s1) = map cgi_lower s2"

text \<open>What is behind a semicolon: the boundary, or another parameter.\<close>

function find_boundary :: "bytes \<Rightarrow> bytes" where
  "find_boundary sat = (let sat = dropWhile is_blank sat in
     if cgiStrBeginsNc sat (bytes_of ''boundary='') then takeWhile (\<lambda>c. \<not> is_blank c) (drop 9 sat)
     else case scan_for 59 sat of (_, None) \<Rightarrow> [] | (_, Some sat) \<Rightarrow> find_boundary sat)"
  by pat_completeness auto
termination
  by (relation "measure length") (auto simp: Let_def dest!: scan_for_shorter sym [of "(_, Some _)"] intro: less_le_trans length_dropWhile_le)

declare find_boundary.simps [simp del]

text \<open>The type without its parameters, and the boundary, which is empty if there is none.\<close>

definition content_type :: "bytes \<Rightarrow> bytes \<times> bytes" where
  "content_type e = (case scan_for 59 (take 1023 e) of
       (t, None) \<Rightarrow> (t, [])
     | (t, Some sat) \<Rightarrow> (t, find_boundary sat))"

section \<open>The stream\<close>

record mpStream =
  putback :: bytes
  readPos :: nat
  writePos :: nat
  mp_offset :: int
  mp_in :: bytes

definition mp_start :: "bytes \<Rightarrow> mpStream" where
  "mp_start i = \<lparr>putback = zeros 1024, readPos = 0, writePos = 0, mp_offset = 0, mp_in = i\<rparr>"

fun mp_take :: "nat \<Rightarrow> mpStream \<Rightarrow> (bytes \<times> mpStream) option" where
  "mp_take 0 m = Some ([], m)"
| "mp_take (Suc n) m = (if readPos m = writePos m then Some ([], m) else do {
     c \<leftarrow> rd (putback m) (readPos m);
     (b, m) \<leftarrow> mp_take n (m\<lparr>readPos := (readPos m + 1) mod 1024\<rparr>);
     Some (c # b, m) })"

text \<open>
  \<open>cl\<close> is \<open>cgiContentLength\<close>. A negative number of bytes is, for \<open>fread\<close>, more than there can be: it
  reads all, into a buffer of \<open>ilen\<close> bytes. Bytes that come from the put-back buffer alone do not
  move the offset.
\<close>

definition mpRead :: "int \<Rightarrow> nat \<Rightarrow> mpStream \<Rightarrow> (int \<times> bytes \<times> mpStream) option" where
  "mpRead cl ilen m = do {
     (b, m) \<leftarrow> mp_take ilen m;
     let left = int (ilen - length b);
     let left = (if cl - mp_offset m < left then cl - mp_offset m else left);
     if left = 0 then Some (if b = [] \<and> ilen \<noteq> 0 then -1 else int (length b), b, m)
     else do {
       let f = (if left < 0 then mp_in m else take (nat left) (mp_in m));
       if ilen < length b + length f then None
       else Some (int (length b + length f), b @ f,
         m\<lparr>mp_in := drop (length f) (mp_in m), mp_offset := mp_offset m + int (length b + length f)\<rparr>) } }"

fun mp_put :: "bytes \<Rightarrow> mpStream \<Rightarrow> mpStream option" where
  "mp_put [] m = Some m"
| "mp_put (c # b) m = do {
     p \<leftarrow> wr (putback m) (writePos m) c;
     mp_put b (m\<lparr>putback := p, writePos := (writePos m + 1) mod 1024\<rparr>) }"

definition mpPutBack :: "bytes \<Rightarrow> mpStream \<Rightarrow> mpStream option" where
  "mpPutBack b m = mp_put b (m\<lparr>mp_offset := mp_offset m - int (length b)\<rparr>)"

section \<open>The boundary\<close>

text \<open>\<open>out\<close> is what was stored so far, in memory or in the file. The end of the input is an error.\<close>

partial_function (option) boundary_loop :: "int \<Rightarrow> bytes \<Rightarrow> nat \<Rightarrow> bytes \<Rightarrow> mpStream \<Rightarrow> (bytes option \<times> mpStream) option" where
  "boundary_loop cl workingBoundary boffset out m = do {
     (got, d, m) \<leftarrow> mpRead cl 1 m;
     if got \<noteq> 1 then Some (None, m) else do {
       w \<leftarrow> rd workingBoundary boffset;
       if hd d = w then
         (if boffset + 1 = length workingBoundary then Some (Some out, m)
          else boundary_loop cl workingBoundary (boffset + 1) out m)
       else if 0 < boffset then do {
         w \<leftarrow> rd workingBoundary 0;
         b \<leftarrow> rds workingBoundary 1 (boffset - 1);
         m \<leftarrow> mpPutBack b m;
         m \<leftarrow> mpPutBack d m;
         boundary_loop cl workingBoundary 0 (out @ [w]) m }
       else boundary_loop cl workingBoundary 0 (out @ d) m } }"

definition workingBoundary :: "bytes \<Rightarrow> bool \<Rightarrow> bytes" where
  "workingBoundary b first = (if first then [] else [13, 10]) @ [45, 45] @ b"

definition afterNextBoundary :: "int \<Rightarrow> bytes \<Rightarrow> bool \<Rightarrow> mpStream \<Rightarrow> (bytes option \<times> mpStream) option" where
  "afterNextBoundary cl cgiMultipartBoundary first m = do {
     (r, m) \<leftarrow> boundary_loop cl (workingBoundary cgiMultipartBoundary first) 0 [] m;
     case r of None \<Rightarrow> Some (None, m)
     | Some out \<Rightarrow> do {
         (got, d, m) \<leftarrow> mpRead cl 2 m;
         if got \<noteq> 2 then Some (None, m) else do {
           m \<leftarrow> (if d = [13, 10] then Some m else if hd d = 45 then mpPutBack d m else Some m);
           Some (Some out, m) } } }"

section \<open>Headers\<close>

partial_function (option) skip_blanks :: "int \<Rightarrow> mpStream \<Rightarrow> mpStream option" where
  "skip_blanks cl m = do {
     (got, d, m) \<leftarrow> mpRead cl 1 m;
     if got \<noteq> 1 then Some m
     else if is_blank (hd d) then skip_blanks cl m
     else mpPutBack d m }"

text \<open>The end of the input gives \<open>None\<close> for the line, the end of a line its name and its value.\<close>

partial_function (option) header_loop :: "int \<Rightarrow> bytes \<Rightarrow> bytes \<Rightarrow> bool \<Rightarrow> mpStream \<Rightarrow> ((bytes \<times> bytes) option \<times> mpStream) option" where
  "header_loop cl attr val valueFound m = do {
     (got, d, m) \<leftarrow> mpRead cl 1 m;
     if got \<noteq> 1 then Some (None, m)
     else if hd d = 13 then do {
       (got, d, m) \<leftarrow> mpRead cl 1 m;
       m \<leftarrow> (if got = 1 \<and> hd d \<noteq> 10 then mpPutBack d m else Some m);
       Some (Some (attr, val), m) }
     else if hd d = 10 then Some (Some (attr, val), m)
     else if hd d = 58 \<and> attr \<noteq> [] then do {
       m \<leftarrow> skip_blanks cl m;
       header_loop cl attr val True m }
     else if \<not> valueFound then
       header_loop cl (if \<not> is_blank (hd d) \<and> length attr < 1023 then attr @ d else attr) val valueFound m
     else header_loop cl attr (if length val < 1023 then val @ d else val) valueFound m }"

definition readHeaderLine :: "int \<Rightarrow> mpStream \<Rightarrow> ((bytes \<times> bytes) option \<times> mpStream) option" where
  "readHeaderLine cl m = do {
     (r, m) \<leftarrow> header_loop cl [] [] False m;
     Some (case r of None \<Rightarrow> None
       | Some (attr, val) \<Rightarrow> if attr \<noteq> [] \<and> val \<noteq> []
           then Some (takeWhile (\<lambda>c. c \<noteq> 0) attr, takeWhile (\<lambda>c. c \<noteq> 0) val) else None, m) }"

text \<open>
  A value up to a semicolon, in quotes or not: what it stands for, and what is behind it. A
  parameter of another name than those asked for is stored through a null pointer, which is the
  \<open>None\<close> of these functions, unless there is no space to store any.
\<close>

definition value_text :: "bytes \<Rightarrow> bytes \<times> bytes" where
  "value_text v = (if v \<noteq> [] \<and> hd v = 34
     then (takeWhile (\<lambda>c. c \<noteq> 34) (tl v), dropWhile (\<lambda>c. c \<noteq> 59) (dropWhile (\<lambda>c. c \<noteq> 34) (tl v)))
     else (takeWhile (\<lambda>c. c \<noteq> 59) v, dropWhile (\<lambda>c. c \<noteq> 59) v))"

lemma value_text_shorter: "value_text v = (t, r) \<Longrightarrow> length r \<le> length v"
  using length_dropWhile_le [of "\<lambda>c. c \<noteq> 59" v] length_dropWhile_le [of "\<lambda>c. c \<noteq> 59" "dropWhile (\<lambda>c. c \<noteq> 34) (tl v)"]
    length_dropWhile_le [of "\<lambda>c. c \<noteq> 34" "tl v"]
  by (auto simp: value_text_def split: if_splits)

fun arg_index :: "bytes \<Rightarrow> nat \<Rightarrow> bytes list \<Rightarrow> nat option" where
  "arg_index argName argNum [] = None"
| "arg_index argName argNum (a # as) = (if cgiStrEqNc argName a then Some argNum else arg_index argName (argNum + 1) as)"

lemma args_shorter:
  assumes "length r \<le> length (dropWhile is_blank (tl (dropWhile is_blank (dropWhile is_alnum (dropWhile is_blank (tl v))))))" "v \<noteq> []"
  shows "length r < length v"
  using assms length_dropWhile_le [of is_blank "tl (dropWhile is_blank (dropWhile is_alnum (dropWhile is_blank (tl v))))"]
    length_dropWhile_le [of is_blank "dropWhile is_alnum (dropWhile is_blank (tl v))"]
    length_dropWhile_le [of is_alnum "dropWhile is_blank (tl v)"] length_dropWhile_le [of is_blank "tl v"]
  by (cases v) auto

function decompose_args :: "bytes list \<Rightarrow> nat \<Rightarrow> bytes list \<Rightarrow> bytes \<Rightarrow> bytes list option" where
  "decompose_args argNames argValueSpace argValues v = (if v = [] \<or> hd v \<noteq> 59 then Some argValues
     else let v = dropWhile is_blank (tl v);
              argName = take 1023 (takeWhile is_alnum v);
              v = dropWhile is_blank (dropWhile is_alnum v)
          in if v = [] \<or> hd v \<noteq> 61 then Some argValues
             else (case value_text (dropWhile is_blank (tl v)) of (t, v) \<Rightarrow>
               (case arg_index argName 0 argNames of
                  Some argNum \<Rightarrow> decompose_args argNames argValueSpace (argValues[argNum := take (argValueSpace - 1) t]) v
                | None \<Rightarrow> if argValueSpace = 0 then decompose_args argNames argValueSpace argValues v else None)))"
  by pat_completeness auto
termination
  by (relation "measure (\<lambda>(argNames, argValueSpace, argValues, v). length v)") (auto dest!: value_text_shorter sym [of "(_, _)"] simp: args_shorter)

declare decompose_args.simps [simp del]

definition decomposeValue :: "bytes \<Rightarrow> nat \<Rightarrow> bytes list \<Rightarrow> nat \<Rightarrow> (bytes \<times> bytes list) option" where
  "decomposeValue val mvalueSpace argNames argValueSpace = (case value_text (dropWhile is_blank val) of (mvalue, v) \<Rightarrow>
     do { args \<leftarrow> decompose_args argNames argValueSpace (map (\<lambda>_. []) argNames) v;
          Some (take (mvalueSpace - 1) mvalue, args) })"

section \<open>The parts\<close>

text \<open>
  An entry with what only an upload has. \<open>tmp k\<close> is the name of the \<open>k\<close>-th temporary file, or none if it
  cannot be made; \<open>opens k\<close> whether it opens. \<open>tmp_files\<close> are the temporary files that exist.
\<close>

record upload_entry = cgiFormEntry +
  e_valueLength :: int
  e_fileName :: bytes
  e_contentType :: bytes
  e_tfileName :: bytes

record tmp_env =
  tmp_name :: "nat \<Rightarrow> bytes option"
  tmp_opens :: "nat \<Rightarrow> bool"

type_synonym tmp_files = "bytes \<rightharpoonup> bytes"

record part_header =
  h_value :: bytes
  h_name :: bytes
  h_fileName :: bytes
  h_contentType :: bytes

definition put_header :: "bytes \<Rightarrow> bytes \<Rightarrow> part_header \<Rightarrow> part_header option" where
  "put_header attr val h = (if cgiStrEqNc attr (bytes_of ''Content-Disposition'') then do {
       (fvalue, args) \<leftarrow> decomposeValue val 1024 [bytes_of ''name'', bytes_of ''filename''] 1024;
       fname \<leftarrow> rd args 0; ffileName \<leftarrow> rd args 1;
       Some (h\<lparr>h_value := fvalue, h_name := fname, h_fileName := ffileName\<rparr>) }
     else if cgiStrEqNc attr (bytes_of ''Content-Type'') then do {
       (fcontentType, _) \<leftarrow> decomposeValue val 1024 [] 0;
       Some (h\<lparr>h_contentType := fcontentType\<rparr>) }
     else Some h)"

partial_function (option) headers_loop :: "int \<Rightarrow> part_header \<Rightarrow> mpStream \<Rightarrow> (part_header option \<times> mpStream) option" where
  "headers_loop cl h m = do {
     (r, m) \<leftarrow> readHeaderLine cl m;
     case r of None \<Rightarrow> Some (Some h, m)
     | Some (attr, val) \<Rightarrow> (case put_header attr val h of None \<Rightarrow> Some (None, m) | Some h \<Rightarrow> headers_loop cl h m) }"

text \<open>
  The body of a part, when the headers have been read: the \<open>k\<close>-th temporary file is made if the part
  has a file name. A file that does not open is left empty, and the bytes are kept in memory.
\<close>

definition read_part :: "tmp_env \<Rightarrow> int \<Rightarrow> bytes \<Rightarrow> nat \<Rightarrow> part_header \<Rightarrow> tmp_files \<Rightarrow> mpStream \<Rightarrow> (upload_entry option \<times> tmp_files \<times> mpStream) option" where
  "read_part env cl b k h fs m = (case (if h_fileName h = [] then Some [] else tmp_name env k) of
       None \<Rightarrow> Some (None, fs, m)
     | Some tfileName \<Rightarrow> do {
         let outf = (h_fileName h \<noteq> [] \<and> tmp_opens env k);
         let fs = (if h_fileName h = [] then fs else fs(tfileName \<mapsto> []));
         (r, m) \<leftarrow> afterNextBoundary cl b False m;
         case r of None \<Rightarrow> Some (None, if outf then fs(tfileName := None) else fs, m)
         | Some out \<Rightarrow> Some (Some \<lparr>e_attr = h_name h, e_value = (if outf then [] else takeWhile (\<lambda>c. c \<noteq> 0) out),
               e_valueLength = int (length out), e_fileName = h_fileName h, e_contentType = h_contentType h, e_tfileName = tfileName\<rparr>,
             if outf then fs(tfileName \<mapsto> out) else fs, m) })"

text \<open>The entries, those there are when the parser fails, or the end of the process by a null pointer.\<close>

datatype upload_parse = Parsed "upload_entry list" | ParseFailed "upload_entry list" | ParseCrashed

partial_function (option) parts_loop ::
    "tmp_env \<Rightarrow> int \<Rightarrow> bytes \<Rightarrow> nat \<Rightarrow> upload_entry list \<Rightarrow> tmp_files \<Rightarrow> mpStream \<Rightarrow> (upload_parse \<times> tmp_files) option" where
  "parts_loop env cl b k es fs m = do {
     (got, d, m) \<leftarrow> mpRead cl 2 m;
     if got < 2 \<or> d = [45, 45] then Some (Parsed es, fs)
     else do {
       m \<leftarrow> mpPutBack d m;
       (h, m) \<leftarrow> headers_loop cl \<lparr>h_value = [], h_name = [], h_fileName = [], h_contentType = []\<rparr> m;
       case h of None \<Rightarrow> Some (ParseCrashed, fs)
       | Some h \<Rightarrow> if \<not> cgiStrEqNc (h_value h) (bytes_of ''form-data'') then parts_loop env cl b k es fs m
           else do {
             (r, fs, m) \<leftarrow> read_part env cl b k h fs m;
             case r of None \<Rightarrow> Some (ParseFailed es, fs)
             | Some e \<Rightarrow> parts_loop env cl b (if h_fileName h = [] then k else k + 1) (es @ [e]) fs m } } }"

text \<open>An input without a boundary is an empty form.\<close>

definition cgiParsePostMultipartInput :: "tmp_env \<Rightarrow> bytes \<Rightarrow> cgi_request \<Rightarrow> (upload_parse \<times> tmp_files) option" where
  "cgiParsePostMultipartInput env cgiMultipartBoundary q = (if cgiContentLength q = 0 then Some (Parsed [], Map.empty) else do {
     (r, m) \<leftarrow> afterNextBoundary (cgiContentLength q) cgiMultipartBoundary True (mp_start (cgiIn q));
     if r = None then Some (Parsed [], Map.empty)
     else parts_loop env (cgiContentLength q) cgiMultipartBoundary 0 [] Map.empty m })"

section \<open>The file that was sent\<close>

definition find_upload :: "bytes \<Rightarrow> upload_entry list \<Rightarrow> upload_entry option" where
  "find_upload name es = List.find (\<lambda>e. e_attr e = name) es"

definition cgiFormFileName :: "bytes \<Rightarrow> nat \<Rightarrow> upload_entry list \<Rightarrow> cgiFormResultType \<times> bytes" where
  "cgiFormFileName name resultSpace es = (case find_upload name es of None \<Rightarrow> (cgiFormNotFound, [])
     | Some e \<Rightarrow> (if e_fileName e = [] then cgiFormNoFileName
                  else if resultSpace - 1 < length (e_fileName e) then cgiFormTruncated else cgiFormSuccess,
                  take (resultSpace - 1) (e_fileName e)))"

definition cgiFormFileSize :: "bytes \<Rightarrow> upload_entry list \<Rightarrow> cgiFormResultType \<times> int" where
  "cgiFormFileSize name es = (case find_upload name es of None \<Rightarrow> (cgiFormNotFound, 0)
     | Some e \<Rightarrow> if e_tfileName e = [] then (cgiFormNotAFile, 0) else (cgiFormSuccess, e_valueLength e))"

text \<open>What can be read of the file that was opened; \<open>opens\<close>: the file system lets it.\<close>

definition cgiFormFileOpen :: "bytes \<Rightarrow> bool \<Rightarrow> upload_entry list \<Rightarrow> tmp_files \<Rightarrow> cgiFormResultType \<times> bytes" where
  "cgiFormFileOpen name opens es fs = (case find_upload name es of None \<Rightarrow> (cgiFormNotFound, [])
     | Some e \<Rightarrow> if e_tfileName e = [] then (cgiFormNotAFile, [])
         else if \<not> opens then (cgiFormIO, [])
         else (case fs (e_tfileName e) of None \<Rightarrow> (cgiFormIO, []) | Some c \<Rightarrow> (cgiFormSuccess, c)))"

text \<open>What \<open>writeFile\<close> of \<open>upgrade.c\<close> gets of the field \<open>upfile\<close>.\<close>

definition upfile :: "bool \<Rightarrow> upload_entry list \<Rightarrow> tmp_files \<Rightarrow> upload" where
  "upfile opens es fs = \<lparr>up_name = (case cgiFormFileName (bytes_of ''upfile'') 128 es of (r, name) \<Rightarrow>
       if r = cgiFormSuccess then Some name else None),
     up_size = snd (cgiFormFileSize (bytes_of ''upfile'') es),
     up_open = (fst (cgiFormFileOpen (bytes_of ''upfile'') opens es fs) = cgiFormSuccess),
     up_data = snd (cgiFormFileOpen (bytes_of ''upfile'') opens es fs)\<rparr>"

text \<open>The temporary files are removed when the program ends.\<close>

definition cgiFreeResources :: "upload_entry list \<Rightarrow> tmp_files \<Rightarrow> tmp_files" where
  "cgiFreeResources es fs = fs |` (- set (map e_tfileName es))"

text \<open>A run of \<open>upgrade.cgi\<close> on an upload: what the page does, what is stored, and what is left in \<open>/tmp\<close>.\<close>

definition upgrade_request :: "tmp_env \<Rightarrow> bytes \<Rightarrow> cgi_request \<Rightarrow> bytes option \<Rightarrow> bool \<Rightarrow> bool \<Rightarrow>
    ((page \<times> bytes option \<times> upgrade_ev list) option \<times> tmp_files) option" where
  "upgrade_request env b q file reads opens = do {
     (r, fs) \<leftarrow> cgiParsePostMultipartInput env b q;
     case r of ParseCrashed \<Rightarrow> Some (None, fs)
     | ParseFailed es \<Rightarrow> Some (None, cgiFreeResources es fs)
     | Parsed es \<Rightarrow> do {
         p \<leftarrow> upgrade_main (cgiRemoteAddr q) file (map cgiFormEntry.truncate es) (upfile reads es fs) opens;
         Some (Some p, cgiFreeResources es fs) } }"

end
