(* ===== verification/Cgic_Env.thy ===== *)
theory Cgic_Env
  imports Multipart Codec
begin

text \<open>
  Saving a request to a file and restoring it, \<open>cgiWriteEnvironment\<close> and \<open>cgiReadEnvironment\<close> of
  \<open>web/cgic/cgic.c\<close>: the variables, and the entries with the contents of their files. What both rely on
  is an interface, data that is written as an image and read back from it, with integers and strings as
  its interpretations.
\<close>

section \<open>Writing\<close>

text \<open>A stream to a file that takes \<open>sk_room\<close> more bytes; \<open>fwrite\<close> says whether all of its bytes were taken.\<close>

record sink =
  sk_data :: bytes
  sk_room :: nat

definition fput :: "bytes \<Rightarrow> sink \<Rightarrow> bool \<times> sink" where
  "fput b s = (length b \<le> sk_room s, s\<lparr>sk_data := sk_data s @ take (sk_room s) b, sk_room := sk_room s - length b\<rparr>)"

text \<open>\<open>if (!v) goto error; if (!w) goto error\<close>\<close>

definition and_then :: "(sink \<Rightarrow> bool \<times> sink) \<Rightarrow> (sink \<Rightarrow> bool \<times> sink) \<Rightarrow> sink \<Rightarrow> bool \<times> sink" where
  "and_then v w s = (let (ok, s) = v s in if ok then w s else (False, s))"

fun write_each :: "('a \<Rightarrow> sink \<Rightarrow> bool \<times> sink) \<Rightarrow> 'a list \<Rightarrow> sink \<Rightarrow> bool \<times> sink" where
  "write_each w [] s = (True, s)"
| "write_each w (x # xs) s = and_then (w x) (write_each w xs) s"

definition int_image :: "int \<Rightarrow> bytes" where
  "int_image i = enc32 (of_int i)"

definition cgiWriteInt :: "int \<Rightarrow> sink \<Rightarrow> bool \<times> sink" where
  "cgiWriteInt i s = fput (int_image i) s"

text \<open>Whether the length was written is not looked at.\<close>

definition cgiWriteString :: "bytes \<Rightarrow> sink \<Rightarrow> bool \<times> sink" where
  "cgiWriteString t s = (let (_, s) = cgiWriteInt (int (length t)) s in fput t s)"

function copy_blocks :: "bytes \<Rightarrow> sink \<Rightarrow> bool \<times> sink" where
  "copy_blocks c s = (if c = [] then (True, s) else and_then (fput (take 1024 c)) (copy_blocks (drop 1024 c)) s)"
  by pat_completeness auto
termination
  by (relation "measure (\<lambda>(c, s). length c)") auto

declare copy_blocks.simps [simp del]

record cgi_vars =
  serverSoftware :: bytes
  serverName :: bytes
  gatewayInterface :: bytes
  serverProtocol :: bytes
  serverPort :: bytes
  requestMethod :: bytes
  pathInfo :: bytes
  pathTranslated :: bytes
  scriptName :: bytes
  queryString :: bytes
  remoteHost :: bytes
  remoteAddr :: bytes
  authType :: bytes
  remoteUser :: bytes
  remoteIdent :: bytes
  contentType :: bytes
  accept_types :: bytes
  userAgent :: bytes
  referrer :: bytes
  cookie :: bytes
  contentLength :: int

definition var_texts :: "cgi_vars \<Rightarrow> bytes list" where
  "var_texts v = [serverSoftware v, serverName v, gatewayInterface v, serverProtocol v, serverPort v, requestMethod v,
     pathInfo v, pathTranslated v, scriptName v, queryString v, remoteHost v, remoteAddr v, authType v, remoteUser v,
     remoteIdent v, contentType v, accept_types v, userAgent v, referrer v, cookie v]"

definition CGIC_VERSION :: bytes where
  "CGIC_VERSION = bytes_of ''CGIC2.0''"

text \<open>
  An entry; its file is asked for by the name of the field. \<open>opens\<close> says for which names the file system
  opens the file.
\<close>

definition write_entry :: "(bytes \<Rightarrow> bool) \<Rightarrow> upload_entry list \<Rightarrow> tmp_files \<Rightarrow> upload_entry \<Rightarrow> sink \<Rightarrow> bool \<times> sink" where
  "write_entry opens es fs e = and_then (write_each cgiWriteString [e_attr e, e_value e, e_fileName e, e_contentType e])
     (and_then (cgiWriteInt (e_valueLength e))
       (case cgiFormFileOpen (e_attr e) (opens (e_attr e)) es fs of (r, c) \<Rightarrow>
          if r = cgiFormSuccess then and_then (cgiWriteInt 1) (copy_blocks c) else cgiWriteInt 0))"

datatype cgiEnvironmentResultType = cgiEnvironmentIO | cgiEnvironmentMemory | cgiEnvironmentSuccess | cgiEnvironmentWrongVersion

text \<open>The result, and the file's contents: \<open>old\<close> before, and none if it was removed.\<close>

definition cgiWriteEnvironment ::
    "bool \<Rightarrow> nat \<Rightarrow> (bytes \<Rightarrow> bool) \<Rightarrow> cgi_vars \<Rightarrow> upload_entry list \<Rightarrow> tmp_files \<Rightarrow> bytes option \<Rightarrow> cgiEnvironmentResultType \<times> bytes option" where
  "cgiWriteEnvironment creates room opens v es fs old = (if \<not> creates then (cgiEnvironmentIO, old) else
     case and_then (write_each cgiWriteString (CGIC_VERSION # var_texts v))
         (and_then (cgiWriteInt (contentLength v)) (write_each (write_entry opens es fs) es)) \<lparr>sk_data = [], sk_room = room\<rparr> of
       (ok, s) \<Rightarrow> if ok then (cgiEnvironmentSuccess, Some (sk_data s)) else (cgiEnvironmentIO, None))"

section \<open>Reading\<close>

definition cgiReadInt :: "bytes \<Rightarrow> (int \<times> bytes) option" where
  "cgiReadInt i = map_option (\<lambda>(w, r). (sint w, r)) (dec32 i)"

text \<open>
  A string: the outer \<open>None\<close> is undefined (the size overflows, or is 0 for as many bytes as there are), the inner one a failure. A
  negative size is more than can be allocated.
\<close>

definition cgiReadString :: "bytes \<Rightarrow> (bytes \<times> bytes) option option" where
  "cgiReadString i = (case cgiReadInt i of None \<Rightarrow> Some None
     | Some (len, r) \<Rightarrow> if len = 2 ^ 31 - 1 then None
         else if len < -1 then Some None
         else if len = -1 then (if r = [] then Some None else None)
         else if length r < nat len then Some None
         else Some (Some (takeWhile (\<lambda>c. c \<noteq> 0) (take (nat len) r), drop (nat len) r)))"

fun read_each :: "(bytes \<Rightarrow> ('a \<times> bytes) option option) \<Rightarrow> nat \<Rightarrow> bytes \<Rightarrow> ('a list \<times> bytes) option option" where
  "read_each rdr 0 i = Some (Some ([], i))"
| "read_each rdr (Suc n) i = do {
     x \<leftarrow> rdr i;
     case x of None \<Rightarrow> Some None
     | Some (x, i) \<Rightarrow> do { xs \<leftarrow> read_each rdr n i; Some (case xs of None \<Rightarrow> None | Some (xs, i) \<Rightarrow> Some (x # xs, i)) } }"

text \<open>The entries end where no further name can be read.\<close>

datatype entry_read = NoEntry | EntryFailed cgiEnvironmentResultType tmp_files | EntryRead upload_entry bytes tmp_files

text \<open>
  The contents of an entry's file, the \<open>k\<close>-th temporary one. \<open>junk\<close> is what the allocated byte of the name of no file happens to be: unless it is 0 the name
  has no end for those that read it, the last of them the release of the entries. A file that cannot be read
  to its length is removed; one that cannot be opened stays.
\<close>

definition read_contents :: "tmp_env \<Rightarrow> u8 \<Rightarrow> nat \<Rightarrow> int \<Rightarrow> upload_entry \<Rightarrow> bytes \<Rightarrow> tmp_files \<Rightarrow> entry_read option" where
  "read_contents env junk k fileFlag e i fs = (if fileFlag \<noteq> 0 then
       (case tmp_name env k of None \<Rightarrow> Some (EntryFailed cgiEnvironmentIO fs)
        | Some t \<Rightarrow> let len = nat (e_valueLength e) in
            if \<not> tmp_opens env k then Some (EntryFailed cgiEnvironmentIO (fs(t \<mapsto> [])))
            else if length i < len then Some (EntryFailed cgiEnvironmentIO (fs(t := None)))
            else Some (EntryRead (e\<lparr>e_tfileName := t\<rparr>) (drop len i) (fs(t \<mapsto> take len i))))
     else if junk \<noteq> 0 then None else Some (EntryRead e i fs))"

text \<open>The other parts of an entry, in the order of the file.\<close>

definition read_parts :: "bytes \<Rightarrow> ((bytes list \<times> int \<times> int) \<times> bytes) option option" where
  "read_parts i = do {
     ts \<leftarrow> read_each cgiReadString 3 i;
     Some (case ts of None \<Rightarrow> None
       | Some (ts, i) \<Rightarrow> do { (len, i) \<leftarrow> cgiReadInt i; (fileFlag, i) \<leftarrow> cgiReadInt i; Some ((ts, len, fileFlag), i) }) }"

definition read_entry :: "tmp_env \<Rightarrow> u8 \<Rightarrow> nat \<Rightarrow> bytes \<Rightarrow> tmp_files \<Rightarrow> entry_read option" where
  "read_entry env junk k i fs = do {
     a \<leftarrow> cgiReadString i;
     case a of None \<Rightarrow> Some NoEntry
     | Some (attr, i) \<Rightarrow> do {
         p \<leftarrow> read_parts i;
         case p of None \<Rightarrow> Some (EntryFailed cgiEnvironmentMemory fs)
         | Some ((ts, len, fileFlag), i) \<Rightarrow> read_contents env junk k fileFlag \<lparr>e_attr = attr, e_value = ts ! 0, e_valueLength = len,
             e_fileName = ts ! 1, e_contentType = ts ! 2, e_tfileName = []\<rparr> i fs } }"

lemma cgiReadInt_shorter: "cgiReadInt i = Some (x, r) \<Longrightarrow> length r < length i"
  by (auto simp: cgiReadInt_def dest: dec32_Some_length)

lemma cgiReadString_shorter: "cgiReadString i = Some (Some (t, r)) \<Longrightarrow> length r < length i"
  by (auto simp: cgiReadString_def split: option.splits if_splits dest!: cgiReadInt_shorter)

lemma read_each_shorter: "read_each cgiReadString n i = Some (Some (ts, r)) \<Longrightarrow> length r \<le> length i"
  by (induction n arbitrary: i ts) (fastforce simp: bind_eq_Some_conv split: option.splits dest!: cgiReadString_shorter)+

lemma read_parts_shorter: "read_parts i = Some (Some (p, r)) \<Longrightarrow> length r < length i"
  by (auto simp: read_parts_def bind_eq_Some_conv split: option.splits dest!: read_each_shorter cgiReadInt_shorter)

lemma read_contents_shorter: "read_contents env junk k flag e i fs = Some (EntryRead e' r fs') \<Longrightarrow> length r \<le> length i"
  by (auto simp: read_contents_def Let_def split: option.splits if_splits)

lemma read_entry_shorter: "read_entry env junk k i fs = Some (EntryRead e r fs') \<Longrightarrow> length r < length i"
  by (fastforce simp: read_entry_def bind_eq_Some_conv split: option.splits
      dest: cgiReadString_shorter read_parts_shorter read_contents_shorter)

datatype env_read = EnvRead cgi_vars "upload_entry list" | EnvFailed cgiEnvironmentResultType

text \<open>\<open>k\<close> temporary files have been made. A failure releases the entries read before.\<close>

function read_entries :: "tmp_env \<Rightarrow> (nat \<Rightarrow> u8) \<Rightarrow> cgi_vars \<Rightarrow> nat \<Rightarrow> upload_entry list \<Rightarrow> bytes \<Rightarrow> tmp_files \<Rightarrow> (env_read \<times> tmp_files) option" where
  "read_entries env junk v k es i fs = (case read_entry env (junk (length es)) k i fs of
       None \<Rightarrow> None
     | Some NoEntry \<Rightarrow> Some (EnvRead v es, fs)
     | Some (EntryFailed r fs) \<Rightarrow> Some (EnvFailed r, cgiFreeResources es fs)
     | Some (EntryRead e i fs) \<Rightarrow> read_entries env junk v (if e_tfileName e = [] then k else k + 1) (es @ [e]) i fs)"
  by pat_completeness auto
termination
  by (relation "measure (\<lambda>(env, junk, v, k, es, i, fs). length i)") (auto dest: read_entry_shorter)

declare read_entries.simps [simp del]

definition vars_of :: "bytes list \<Rightarrow> int \<Rightarrow> cgi_vars" where
  "vars_of ts n = \<lparr>serverSoftware = ts ! 0, serverName = ts ! 1, gatewayInterface = ts ! 2, serverProtocol = ts ! 3, serverPort = ts ! 4,
     requestMethod = ts ! 5, pathInfo = ts ! 6, pathTranslated = ts ! 7, scriptName = ts ! 8, queryString = ts ! 9,
     remoteHost = ts ! 10, remoteAddr = ts ! 11, authType = ts ! 12, remoteUser = ts ! 13, remoteIdent = ts ! 14,
     contentType = ts ! 15, accept_types = ts ! 16, userAgent = ts ! 17, referrer = ts ! 18, cookie = ts ! 19, contentLength = n\<rparr>"

text \<open>
  The request there was is released first, whatever becomes of the file. After a failure the variables are
  partly those of the file, and are not to be used.
\<close>

definition cgiReadEnvironment ::
    "tmp_env \<Rightarrow> (nat \<Rightarrow> u8) \<Rightarrow> upload_entry list \<Rightarrow> tmp_files \<Rightarrow> bytes option \<Rightarrow> (env_read \<times> tmp_files) option" where
  "cgiReadEnvironment env junk es fs file = (let fs = cgiFreeResources es fs in
     case file of None \<Rightarrow> Some (EnvFailed cgiEnvironmentIO, fs)
     | Some i \<Rightarrow> do {
         r \<leftarrow> cgiReadString i;
         case r of None \<Rightarrow> Some (EnvFailed cgiEnvironmentIO, fs)
         | Some (version, i) \<Rightarrow> if version \<noteq> CGIC_VERSION then Some (EnvFailed cgiEnvironmentWrongVersion, fs)
             else do {
               r \<leftarrow> read_each cgiReadString 20 i;
               case r of None \<Rightarrow> Some (EnvFailed cgiEnvironmentIO, fs)
               | Some (ts, i) \<Rightarrow> (case cgiReadInt i of None \<Rightarrow> Some (EnvFailed cgiEnvironmentIO, fs)
                   | Some (n, i) \<Rightarrow> read_entries env junk (vars_of ts n) 0 [] i fs) } })"

end
