(* ===== verification/Cgic_More.thy ===== *)
theory Cgic_More
  imports Cgic_Env
begin

text \<open>
  The other functions of the form library, \<open>web/cgic/cgic.c\<close>: fields with several values, cookies, the
  headers of a reply, and the escaping of what is written into a page.
\<close>

section \<open>Fields with several values\<close>

text \<open>\<open>cgiFindPos\<close> is the rest of the list; the entry found and the new position.\<close>

fun cgiFormEntryFindNext :: "bytes \<Rightarrow> cgiFormEntry list \<Rightarrow> (cgiFormEntry \<times> cgiFormEntry list) option" where
  "cgiFormEntryFindNext cgiFindTarget [] = None"
| "cgiFormEntryFindNext cgiFindTarget (c # cgiFindPos) =
     (if e_attr c = cgiFindTarget then Some (c, cgiFindPos) else cgiFormEntryFindNext cgiFindTarget cgiFindPos)"

lemma FindNext_shorter: "cgiFormEntryFindNext name es = Some (c, r) \<Longrightarrow> length r < length es"
  by (induction es) (auto split: if_splits)

function find_each :: "bytes \<Rightarrow> cgiFormEntry list \<Rightarrow> cgiFormEntry list" where
  "find_each name pos = (case cgiFormEntryFindNext name pos of None \<Rightarrow> [] | Some (c, pos) \<Rightarrow> c # find_each name pos)"
  by pat_completeness auto
termination
  by (relation "measure (\<lambda>(name, pos). length pos)") (auto dest: FindNext_shorter)

declare find_each.simps [simp del]

lemma find_each_filter: "find_each name es = filter (\<lambda>e. e_attr e = name) es"
proof (induction es rule: length_induct)
  case (1 es)
  have "filter (\<lambda>e. e_attr e = name) es = (case cgiFormEntryFindNext name es of None \<Rightarrow> [] | Some (c, r) \<Rightarrow> c # filter (\<lambda>e. e_attr e = name) r)"
    by (induction es) auto
  then show ?case using 1 FindNext_shorter [of name es] by (subst find_each.simps) (auto split: option.split)
qed

text \<open>Every value is copied into an array of its length, where its line ends are made uniform.\<close>

fun copy_values :: "cgiFormEntry list \<Rightarrow> bytes list option" where
  "copy_values [] = Some []"
| "copy_values (e # es) = do {
     (_, result) \<leftarrow> cgiFormEntryString e (e_value e @ [0]) (length (e_value e) + 1) True;
     s \<leftarrow> cstring result;
     ss \<leftarrow> copy_values es;
     Some (s # ss) }"

definition cgiFormStringMultiple :: "bytes \<Rightarrow> cgiFormEntry list \<Rightarrow> (cgiFormResultType \<times> bytes list) option" where
  "cgiFormStringMultiple name es = (let found = find_each name es in do {
     ss \<leftarrow> copy_values found; Some (if found = [] then cgiFormNotFound else cgiFormSuccess, ss) })"

definition cgiFormStringSpaceNeeded :: "bytes \<Rightarrow> cgiFormEntry list \<Rightarrow> cgiFormResultType \<times> nat" where
  "cgiFormStringSpaceNeeded name es = (case cgiFormEntryFindFirst name es of
     None \<Rightarrow> (cgiFormNotFound, 1) | Some e \<Rightarrow> (cgiFormSuccess, length (e_value e) + 1))"

definition cgiFormIntegerBounded :: "bytes \<Rightarrow> int \<Rightarrow> int \<Rightarrow> int \<Rightarrow> cgiFormEntry list \<Rightarrow> (cgiFormResultType \<times> int) option" where
  "cgiFormIntegerBounded name mn mx defaultV es = do {
     (r, v) \<leftarrow> cgiFormInteger name defaultV es;
     Some (if r \<noteq> cgiFormSuccess then (r, v)
       else if v < mn then (cgiFormConstrained, mn)
       else if mx < v then (cgiFormConstrained, mx)
       else (cgiFormSuccess, v)) }"

text \<open>The choices that were made, how many values were one, and how many were none.\<close>

fun select_each :: "bytes list \<Rightarrow> cgiFormEntry list \<Rightarrow> bool list \<times> nat \<times> nat \<Rightarrow> bool list \<times> nat \<times> nat" where
  "select_each choicesText [] st = st"
| "select_each choicesText (e # es) st = (let (result, hits, invalidE) = st in
     select_each choicesText es (case choice_index (e_value e) 0 choicesText of
       Some i \<Rightarrow> (result[i := True], hits + 1, invalidE)
     | None \<Rightarrow> (result, hits, invalidE + 1)))"

definition cgiFormSelectMultiple :: "bytes \<Rightarrow> bytes list \<Rightarrow> cgiFormEntry list \<Rightarrow> cgiFormResultType \<times> bool list \<times> nat" where
  "cgiFormSelectMultiple name choicesText es = (let
     (result, hits, invalidE) = select_each choicesText (find_each name es) (map (\<lambda>_. False) choicesText, 0, 0)
   in (if hits = 0 then cgiFormNotFound else cgiFormSuccess, result, invalidE))"

definition cgiFormRadio :: "bytes \<Rightarrow> bytes list \<Rightarrow> nat \<Rightarrow> cgiFormEntry list \<Rightarrow> cgiFormResultType \<times> nat" where
  "cgiFormRadio name valuesText defaultV es = cgiFormSelectSingle name valuesText defaultV es"

text \<open>The names of the fields: an entry is passed over if one before it has its name.\<close>

fun form_names :: "bytes list \<Rightarrow> cgiFormEntry list \<Rightarrow> bytes list" where
  "form_names seen [] = []"
| "form_names seen (e # es) = (if e_attr e \<in> set seen then form_names (e_attr e # seen) es
     else e_attr e # form_names (e_attr e # seen) es)"

definition cgiFormEntries :: "cgiFormEntry list \<Rightarrow> bytes list" where
  "cgiFormEntries es = form_names [] es"

definition cgiFormFileContentType :: "bytes \<Rightarrow> nat \<Rightarrow> upload_entry list \<Rightarrow> cgiFormResultType \<times> bytes" where
  "cgiFormFileContentType name resultSpace es = (case find_upload name es of None \<Rightarrow> (cgiFormNotFound, [])
     | Some e \<Rightarrow> (if e_contentType e = [] then cgiFormNoContentType
                  else if resultSpace - 1 < length (e_contentType e) then cgiFormTruncated else cgiFormSuccess,
                  take (resultSpace - 1) (e_contentType e)))"

section \<open>Cookies\<close>

text \<open>
  The comparison of the header with a name: what is left of both behind their common part. When both end at
  once it goes on behind their ends.
\<close>

fun cookie_match :: "bytes \<Rightarrow> bytes \<Rightarrow> (bytes \<times> bytes) option" where
  "cookie_match (c # p) (d # n) = (if c = d then cookie_match p n else Some (c # p, d # n))"
| "cookie_match [] [] = None"
| "cookie_match p n = Some (p, n)"

lemma cookie_match_shorter: "cookie_match p n = Some (p', n') \<Longrightarrow> length p' \<le> length p"
  by (induction p n rule: cookie_match.induct) (auto split: if_splits)

text \<open>The text that is stored, if there is room for any.\<close>

definition stored_text :: "nat \<Rightarrow> bytes \<Rightarrow> bytes option" where
  "stored_text space t = (if space = 0 then None else Some (take (space - 1) t))"

function cookie_scan :: "bytes \<Rightarrow> nat \<Rightarrow> bytes \<Rightarrow> (cgiFormResultType \<times> bytes option) option" where
  "cookie_scan name space p = (if p = [] then Some (cgiFormNotFound, stored_text space []) else
     case cookie_match p name of
       None \<Rightarrow> None
     | Some (p, n) \<Rightarrow> if n = [] \<and> p \<noteq> [] \<and> hd p = 61 then
           (let t = takeWhile (\<lambda>c. c \<noteq> 59) (tl p)
            in Some (if space - 1 < length t then cgiFormTruncated else cgiFormSuccess, stored_text space t))
         else (case scan_for 59 p of (_, None) \<Rightarrow> Some (cgiFormNotFound, stored_text space [])
           | (_, Some r) \<Rightarrow> cookie_scan name space (dropWhile is_blank r)))"
  by pat_completeness auto
termination
  by (relation "measure (\<lambda>(name, space, p). length p)")
    (auto dest!: cookie_match_shorter scan_for_shorter sym [of "(_, Some _)"] intro: le_less_trans [OF length_dropWhile_le])

declare cookie_scan.simps [simp del]

definition cgiCookieString :: "bytes \<Rightarrow> bytes \<Rightarrow> nat \<Rightarrow> (cgiFormResultType \<times> bytes option) option" where
  "cgiCookieString cgiCookie name space = cookie_scan name space cgiCookie"

definition cgiCookieInteger :: "bytes \<Rightarrow> bytes \<Rightarrow> int \<Rightarrow> (cgiFormResultType \<times> int) option" where
  "cgiCookieInteger cgiCookie name defaultV = do {
     (r, buffer) \<leftarrow> cgiCookieString cgiCookie name 256;
     if r \<noteq> cgiFormSuccess then Some (r, defaultV)
     else do { t \<leftarrow> buffer; v \<leftarrow> atoi_int t; Some (r, v) } }"

text \<open>
  The names of all cookies, which end at an equals sign, and the array for them: one place for every equals
  sign and one for the null pointer at the end.
\<close>

function cookie_names :: "bytes \<Rightarrow> bytes list" where
  "cookie_names p = (if p = [] then [] else let p = dropWhile is_blank p in
     (if takeWhile (\<lambda>c. c \<noteq> 61) p = [] then [] else [takeWhile (\<lambda>c. c \<noteq> 61) p]) @
     (case scan_for 59 (dropWhile (\<lambda>c. c \<noteq> 61) p) of (_, None) \<Rightarrow> [] | (_, Some r) \<Rightarrow> cookie_names r))"
  by pat_completeness auto
termination
  by (relation "measure length")
    (auto dest!: scan_for_shorter sym [of "(_, Some _)"] intro: less_le_trans le_trans [OF length_dropWhile_le length_dropWhile_le])

declare cookie_names.simps [simp del]

fun store_names :: "bytes list \<Rightarrow> nat \<Rightarrow> bytes option list \<Rightarrow> bytes option list option" where
  "store_names [] i stringArray = Some stringArray"
| "store_names (n # ns) i stringArray = do { a \<leftarrow> wr stringArray i (Some n); store_names ns (i + 1) a }"

definition cgiCookies :: "bytes \<Rightarrow> bytes option list option" where
  "cgiCookies cgiCookie = (let total = length (filter (\<lambda>c. c = 61) cgiCookie)
     in store_names (cookie_names cgiCookie) 0 (replicate (total + 1) None))"

section \<open>Headers\<close>

definition days :: "string list" where
  "days = [''Sun'', ''Mon'', ''Tue'', ''Wed'', ''Thu'', ''Fri'', ''Sat'']"

definition months :: "string list" where
  "months = [''Jan'', ''Feb'', ''Mar'', ''Apr'', ''May'', ''Jun'', ''Jul'', ''Aug'', ''Sep'', ''Oct'', ''Nov'', ''Dec'']"

definition cgiHeaderCookieSetString :: "(int \<Rightarrow> tm) \<Rightarrow> int \<Rightarrow> bytes \<Rightarrow> bytes \<Rightarrow> int \<Rightarrow> bytes \<Rightarrow> bytes \<Rightarrow> bytes option" where
  "cgiHeaderCookieSetString gmtime now name value secondsToLive path domain = (let gt = gmtime (now + secondsToLive) in do {
     day \<leftarrow> rd days (tm_wday gt); month \<leftarrow> rd months (tm_mon gt);
     Some (bytes_of ''Set-Cookie: '' @ name @ [61] @ value @ bytes_of ''; domain='' @ domain @ bytes_of ''; expires='' @ bytes_of day @
       bytes_of '', '' @ digits_at_least 2 (tm_mday gt) @ [45] @ bytes_of month @ [45] @ digits_at_least 4 (tm_year gt + 1900) @ [32] @
       digits_at_least 2 (tm_hour gt) @ [58] @ digits_at_least 2 (tm_min gt) @ [58] @ digits_at_least 2 (tm_sec gt) @
       bytes_of '' GMT; path='' @ path @ [13, 10]) })"

definition cgiHeaderCookieSetInteger :: "(int \<Rightarrow> tm) \<Rightarrow> int \<Rightarrow> bytes \<Rightarrow> u32 \<Rightarrow> int \<Rightarrow> bytes \<Rightarrow> bytes \<Rightarrow> bytes option" where
  "cgiHeaderCookieSetInteger gmtime now name value secondsToLive path domain =
     cgiHeaderCookieSetString gmtime now name (signed_text value) secondsToLive path domain"

definition cgiHeaderLocation :: "bytes \<Rightarrow> bytes" where
  "cgiHeaderLocation redirectUrl = bytes_of ''Location: '' @ redirectUrl @ [13, 10, 13, 10]"

definition cgiHeaderStatus :: "u32 \<Rightarrow> bytes \<Rightarrow> bytes" where
  "cgiHeaderStatus status statusMessage = bytes_of ''Status: '' @ signed_text status @ [32] @ statusMessage @ [13, 10, 13, 10]"

definition cgiHeaderContentType :: "bytes \<Rightarrow> bytes" where
  "cgiHeaderContentType mimeType = bytes_of ''Content-type: '' @ mimeType @ [13, 10, 13, 10]"

section \<open>Escaping\<close>

definition html_escape :: "u8 \<Rightarrow> bytes" where
  "html_escape c = (if c = 60 then bytes_of ''&lt;'' else if c = 38 then bytes_of ''&amp;'' else if c = 62 then bytes_of ''&gt;'' else [c])"

definition value_escape :: "u8 \<Rightarrow> bytes" where
  "value_escape c = (if c = 34 then bytes_of ''&#34;'' else [c])"

text \<open>The characters are put one by one; the first that is not taken ends it.\<close>

definition escape_data :: "(u8 \<Rightarrow> bytes) \<Rightarrow> bytes \<Rightarrow> sink \<Rightarrow> cgiFormResultType \<times> sink" where
  "escape_data esc data s = (case write_each (\<lambda>c. write_each (\<lambda>ch. fput [ch]) (esc c)) data s of
     (ok, s) \<Rightarrow> (if ok then cgiFormSuccess else cgiFormIO, s))"

definition cgiHtmlEscapeData :: "bytes \<Rightarrow> sink \<Rightarrow> cgiFormResultType \<times> sink" where
  "cgiHtmlEscapeData data s = escape_data html_escape data s"

definition cgiValueEscapeData :: "bytes \<Rightarrow> sink \<Rightarrow> cgiFormResultType \<times> sink" where
  "cgiValueEscapeData data s = escape_data value_escape data s"

end
