(* ===== verification/Multipart_Facts.thy ===== *)
theory Multipart_Facts
  imports Multipart Page_Facts "HOL-Library.Sublist"
begin

text \<open>
  Facts about the parser of uploads: the stream is a queue of the bytes put back before the bytes of
  the input; every loop returns; and what a browser sends of a form with a file is taken apart.
\<close>

section \<open>The stream is a queue\<close>

definition queue :: "mpStream \<Rightarrow> bytes" where
  "queue m = map (\<lambda>i. putback m ! ((readPos m + i) mod 1024)) [0..<(writePos m + 1024 - readPos m) mod 1024]"

text \<open>As much as the input has may be read: the declared length is at least what is left.\<close>

definition stream :: "int \<Rightarrow> mpStream \<Rightarrow> bytes \<Rightarrow> bytes \<Rightarrow> bool" where
  "stream cl m q i \<longleftrightarrow> length (putback m) = 1024 \<and> readPos m < 1024 \<and> writePos m < 1024 \<and>
     queue m = q \<and> mp_in m = i \<and> mp_offset m + int (length q + length i) \<le> cl"

lemma stream_start: "int (length i) \<le> cl \<Longrightarrow> stream cl (mp_start i) [] i"
  by (simp add: stream_def mp_start_def queue_def)

lemma queue_Nil: "readPos m < 1024 \<Longrightarrow> writePos m < 1024 \<Longrightarrow> queue m = [] \<longleftrightarrow> readPos m = writePos m"
  by (cases "readPos m \<le> writePos m") (auto simp: queue_def mod_if)

lemma queue_length: "length (queue m) < 1024"
  by (simp add: queue_def)

lemma ring_index: "a < 1024 \<Longrightarrow> b < 1024 \<Longrightarrow> (a + b) mod 1024 = (if a + b < 1024 then a + b else a + b - 1024 :: nat)"
  by (simp add: mod_if)

lemma queue_get:
  assumes "readPos m < 1024" "writePos m < 1024" "readPos m \<noteq> writePos m"
  shows "queue m = putback m ! readPos m # queue (m\<lparr>readPos := (readPos m + 1) mod 1024\<rparr>)"
proof -
  define n where "n = (writePos m + 1024 - (readPos m + 1) mod 1024) mod 1024"
  have k: "(writePos m + 1024 - readPos m) mod 1024 = Suc n"
    using assms unfolding n_def by (cases "readPos m < writePos m"; cases "readPos m = 1023") (auto simp: mod_if)
  have "queue m = map (\<lambda>i. putback m ! ((readPos m + i) mod 1024)) (0 # map Suc [0..<n])"
    unfolding queue_def k by (simp add: upt_conv_Cons map_Suc_upt del: upt_Suc)
  also have "\<dots> = putback m ! readPos m # map (\<lambda>i. putback m ! (((readPos m + 1) mod 1024 + i) mod 1024)) [0..<n]"
    using assms(1) by (simp add: mod_add_left_eq)
  finally show ?thesis by (simp add: queue_def n_def)
qed

lemma queue_put:
  assumes "readPos m < 1024" "writePos m < 1024" "length (putback m) = 1024" "length (queue m) < 1023"
  shows "queue (m\<lparr>putback := (putback m)[writePos m := c], writePos := (writePos m + 1) mod 1024\<rparr>) = queue m @ [c]"
proof -
  define n where "n = (writePos m + 1024 - readPos m) mod 1024"
  have n: "n < 1023" using assms(4) by (simp add: queue_def n_def)
  have w: "(readPos m + n) mod 1024 = writePos m" using assms(1,2) by (simp add: n_def mod_add_right_eq)
  have k: "(Suc (writePos m) mod 1024 + 1024 - readPos m) mod 1024 = Suc n"
    using assms(1,2) n unfolding n_def by (cases "readPos m \<le> writePos m"; cases "writePos m = 1023") (auto simp: mod_if split: if_splits)
  have "(readPos m + i) mod 1024 \<noteq> writePos m" if "i < n" for i
    using that n assms(1) unfolding w [symmetric] by (auto simp: ring_index split: if_splits)
  then have v: "(putback m)[writePos m := c] ! ((readPos m + i) mod 1024) = putback m ! ((readPos m + i) mod 1024)" if "i < n" for i
    using that by (metis nth_list_update_neq)
  then show ?thesis unfolding queue_def n_def [symmetric] by (simp add: k w assms)
qed

lemma mp_take_queue:
  assumes "stream cl m q i"
  shows "\<exists>m'. mp_take n m = Some (take n q, m') \<and> length (putback m') = 1024 \<and> readPos m' < 1024 \<and> writePos m' < 1024 \<and>
     queue m' = drop n q \<and> mp_in m' = i \<and> mp_offset m' = mp_offset m"
  using assms
proof (induction n arbitrary: m q)
  case 0
  then show ?case by (auto simp: stream_def)
next
  case (Suc n)
  note s = Suc.prems [unfolded stream_def]
  show ?case
  proof (cases "readPos m = writePos m")
    case True
    with s have "q = []" using queue_Nil [of m] by simp
    with True s show ?thesis by auto
  next
    case False
    let ?m = "m\<lparr>readPos := (readPos m + 1) mod 1024\<rparr>"
    have q: "q = putback m ! readPos m # queue ?m" using queue_get [of m] s False by auto
    then have "stream cl ?m (queue ?m) i" using s by (auto simp: stream_def)
    from Suc.IH [OF this] q False s show ?thesis by (cases q) (auto simp: rd_def)
  qed
qed

lemma mpRead_queue:
  assumes "stream cl m q i"
  obtains got m' where "mpRead cl n m = Some (got, take n (q @ i), m')" "stream cl m' (drop n q) (drop (n - length q) i)"
    "got = int (length (take n (q @ i))) \<or> q = [] \<and> i = [] \<and> got = -1"
proof -
  obtain m1 where t: "mp_take n m = Some (take n q, m1)" "length (putback m1) = 1024" "readPos m1 < 1024" "writePos m1 < 1024"
    "queue m1 = drop n q" "mp_in m1 = i" "mp_offset m1 = mp_offset m"
    using mp_take_queue [OF assms] by blast
  have o: "mp_offset m + int (length q + length i) \<le> cl" using assms by (simp add: stream_def)
  let ?k = "int (n - length q)"
  define left where "left = (if cl - mp_offset m < ?k then cl - mp_offset m else ?k)"
  have l: "n - length (take n q) = n - length q" by simp
  have ge: "0 \<le> left" using o by (simp add: left_def)
  have tk: "take (nat left) i = take (n - length q) i" using o by (auto simp: left_def)
  have neg: "(left < 0) = False" and room: "(n < length (take n q) + length (take (n - length q) i)) = False" using ge by auto
  have r: "mpRead cl n m = (if left = 0 then Some (if take n q = [] \<and> n \<noteq> 0 then -1 else int (length (take n q)), take n q, m1)
     else do {
       let f = take (n - length q) i;
       Some (int (length (take n q) + length f), take n q @ f,
         m1\<lparr>mp_in := drop (length f) i, mp_offset := mp_offset m + int (length (take n q) + length f)\<rparr>) })"
    by (simp only: mpRead_def t(1,6,7) l left_def [symmetric] tk Let_def Option.bind_lunit prod.case neg if_False room)
  show thesis
  proof (cases "left = 0")
    case True
    then have e: "n \<le> length q \<or> i = []" using o by (cases i) (auto simp: left_def split: if_splits)
    then have "stream cl m1 (drop n q) (drop (n - length q) i)" "take n (q @ i) = take n q" using t(2-7) o by (auto simp: stream_def)
    moreover define g where "g = (if take n q = [] \<and> n \<noteq> 0 then -1 else int (length (take n q)))"
    moreover have "g = int (length (take n (q @ i))) \<or> q = [] \<and> i = [] \<and> g = -1"
      using e by (cases "n = 0"; cases "q = []") (auto simp: g_def)
    ultimately show thesis using that [of g m1] r True by simp
  next
    case False
    let ?f = "take (n - length q) i"
    let ?m = "m1\<lparr>mp_in := drop (length ?f) i, mp_offset := mp_offset m + int (length (take n q) + length ?f)\<rparr>"
    have "drop (length ?f) i = drop (n - length q) i" by (cases "length i \<le> n - length q") auto
    moreover have "queue ?m = drop n q" using t(5) by (simp add: queue_def)
    ultimately have s: "stream cl ?m (drop n q) (drop (n - length q) i)" using t(2-4) o by (simp add: stream_def)
    have "mpRead cl n m = Some (int (length (take n (q @ i))), take n (q @ i), ?m)"
      unfolding r using False by (simp only: if_False Let_def take_append length_append)
    from that [OF this s] show thesis by simp
  qed
qed

lemma mpRead_ex: "stream cl m q i \<Longrightarrow> \<exists>got m'. mpRead cl n m = Some (got, take n (q @ i), m') \<and> stream cl m' (drop n q) (drop (n - length q) i) \<and>
    (got = int (length (take n (q @ i))) \<or> q = [] \<and> i = [] \<and> got = -1)"
  by (rule mpRead_queue) auto

lemma mp_put_queue:
  assumes "length (putback m) = 1024" "readPos m < 1024" "writePos m < 1024" "length (queue m) + length b < 1024"
  shows "\<exists>m'. mp_put b m = Some m' \<and> length (putback m') = 1024 \<and> readPos m' < 1024 \<and> writePos m' < 1024 \<and>
     queue m' = queue m @ b \<and> mp_in m' = mp_in m \<and> mp_offset m' = mp_offset m"
  using assms
proof (induction b arbitrary: m)
  case (Cons c b)
  let ?m = "m\<lparr>putback := (putback m)[writePos m := c], writePos := (writePos m + 1) mod 1024\<rparr>"
  have q: "queue ?m = queue m @ [c]" using Cons.prems by (intro queue_put) auto
  have "mp_put (c # b) m = mp_put b ?m" using Cons.prems by (simp add: wr_def)
  then show ?case using Cons.IH [of ?m] Cons.prems q by auto
qed auto

lemma mpPutBack_queue:
  assumes "stream cl m q i" "length q + length b < 1024"
  obtains m' where "mpPutBack b m = Some m'" "stream cl m' (q @ b) i"
proof -
  let ?m = "m\<lparr>mp_offset := mp_offset m - int (length b)\<rparr>"
  have "queue ?m = q" using assms by (simp add: queue_def stream_def)
  then obtain m' where "mp_put b ?m = Some m' \<and> length (putback m') = 1024 \<and> readPos m' < 1024 \<and> writePos m' < 1024 \<and>
     queue m' = q @ b \<and> mp_in m' = i \<and> mp_offset m' = mp_offset m - int (length b)"
    using mp_put_queue [of ?m b] assms by (auto simp: stream_def)
  with assms show thesis by (intro that [of m']) (auto simp: mpPutBack_def stream_def)
qed

lemma mpPutBack_ex: "stream cl m q i \<Longrightarrow> length q + length b < 1024 \<Longrightarrow> \<exists>m'. mpPutBack b m = Some m' \<and> stream cl m' (q @ b) i"
  by (rule mpPutBack_queue) auto

text \<open>The next byte, from the queue or from the input.\<close>

lemma mpRead_byte:
  assumes "stream cl m q i" "q @ i = c # r"
  obtains m' i' where "mpRead cl (Suc 0) m = Some (1, [c], m')" "stream cl m' (tl q) i'" "tl q @ i' = r"
proof -
  obtain got m' where r: "mpRead cl (Suc 0) m = Some (got, take (Suc 0) (q @ i), m')" "stream cl m' (drop 1 q) (drop (1 - length q) i)"
    "got = int (length (take (Suc 0) (q @ i))) \<or> q = [] \<and> i = [] \<and> got = -1"
    using mpRead_queue [OF assms(1), where n = "Suc 0"] by auto
  have "drop 1 q @ drop (1 - length q) i = r" using assms(2) by (cases q) auto
  with r assms(2) show thesis by (intro that [of m' "drop (1 - length q) i"]) (auto simp: drop_Suc)
qed

lemma mpRead_end:
  assumes "stream cl m [] []"
  obtains got m' where "mpRead cl (Suc 0) m = Some (got, [], m')" "got \<noteq> 1" "stream cl m' [] []"
proof -
  obtain got m' where "mpRead cl (Suc 0) m = Some (got, take (Suc 0) ([] @ []), m')" "stream cl m' (drop 1 []) (drop (1 - length ([] :: bytes)) [])"
    "got = int (length (take (Suc 0) ([] @ [] :: bytes))) \<or> got = -1"
    using mpRead_queue [OF assms, where n = "Suc 0"] by auto
  then show thesis by (intro that [of got m']) auto
qed

section \<open>The boundary\<close>

lemma boundary_step:
  assumes "mpRead cl (Suc 0) m = Some (1, [c], m')" "boffset < length wb"
  shows "boundary_loop cl wb boffset out m = (if c = wb ! boffset then
         (if boffset + 1 = length wb then Some (Some out, m') else boundary_loop cl wb (boffset + 1) out m')
       else if 0 < boffset then do {
         m \<leftarrow> mpPutBack (take (boffset - 1) (drop 1 wb)) m';
         m \<leftarrow> mpPutBack [c] m;
         boundary_loop cl wb 0 (out @ [wb ! 0]) m }
       else boundary_loop cl wb 0 (out @ [c]) m')"
proof -
  have "wb \<noteq> []" using assms(2) by auto
  with assms show ?thesis by (subst boundary_loop.simps) (simp add: rd_def rds_def)
qed

text \<open>A false start: its first byte is stored, the others are put back.\<close>

lemma boundary_back:
  assumes "mpRead cl (Suc 0) m = Some (1, [c], m')" "boffset < length wb" "c \<noteq> wb ! boffset" "0 < boffset"
    and "stream cl m' q i" "length q + boffset < length wb" "length wb \<le> 1024"
  shows "\<exists>m2. boundary_loop cl wb boffset out m = boundary_loop cl wb 0 (out @ [wb ! 0]) m2 \<and>
     stream cl m2 ((q @ take (boffset - 1) (drop 1 wb)) @ [c]) i"
proof -
  let ?b = "take (boffset - 1) (drop 1 wb)"
  have lb: "length q + length ?b < 1024" "length (q @ ?b) + length [c] < 1024" using assms by auto
  obtain m1 where m1: "mpPutBack ?b m' = Some m1" "stream cl m1 (q @ ?b) i" using mpPutBack_ex [OF assms(5) lb(1)] by blast
  obtain m2 where m2: "mpPutBack [c] m1 = Some m2" "stream cl m2 ((q @ ?b) @ [c]) i" using mpPutBack_ex [OF m1(2) lb(2)] by blast
  with m1(1) assms(3,4) show ?thesis by (auto simp: boundary_step [OF assms(1,2)])
qed

text \<open>
  The search returns, and takes at least the boundary from the stream if it finds it; the bytes of a
  false start fit into the put-back buffer.
\<close>

text \<open>The loop ends, and when it has found the boundary at most \<open>n\<close> bytes were left for it and what follows.\<close>

definition ends :: "int \<Rightarrow> bytes \<Rightarrow> nat \<Rightarrow> nat \<Rightarrow> bytes \<Rightarrow> mpStream \<Rightarrow> bool" where
  "ends cl wb boffset n out m \<longleftrightarrow> (\<exists>r m' i'. boundary_loop cl wb boffset out m = Some (r, m') \<and> stream cl m' [] i' \<and>
     (r \<noteq> None \<longrightarrow> length i' + length wb \<le> n))"

lemma ends_step:
  "ends cl wb k n' out' m' \<Longrightarrow> boundary_loop cl wb boffset out m = boundary_loop cl wb k out' m' \<Longrightarrow> n' \<le> n \<Longrightarrow> ends cl wb boffset n out m"
  unfolding ends_def by fastforce

lemma boundary_loop_ends:
  assumes "stream cl m q i" "length wb \<le> 1024" "length q + boffset < length wb"
  shows "ends cl wb boffset (length q + length i + boffset) out m"
  using assms(1,3)
proof (induction "1024 * (length q + length i + boffset) + length q + length i" arbitrary: m q i boffset out rule: less_induct)
  case less
  show ?case
  proof (cases "q @ i")
    case Nil
    with less.prems(1) have "stream cl m [] []" by simp
    then obtain got m' where "mpRead cl (Suc 0) m = Some (got, [], m')" "got \<noteq> 1" "stream cl m' [] []" by (rule mpRead_end)
    then show ?thesis unfolding ends_def by (subst boundary_loop.simps) auto
  next
    case (Cons c r)
    obtain m' i' where r: "mpRead cl (Suc 0) m = Some (1, [c], m')" "stream cl m' (tl q) i'" "tl q @ i' = r"
      using mpRead_byte [OF less.prems(1) Cons] by blast
    have l: "Suc (length (tl q) + length i') = length q + length i" using Cons r(3) by (metis length_Cons length_append)
    have b: "boffset < length wb" using less.prems(2) by simp
    note step = boundary_step [OF r(1) b]
    consider (all) "c = wb ! boffset" "boffset + 1 = length wb" | (more) "c = wb ! boffset" "boffset + 1 < length wb"
      | (again) "c \<noteq> wb ! boffset" "0 < boffset" | (emit) "c \<noteq> wb ! boffset" "boffset = 0" using b by linarith
    then show ?thesis
    proof cases
      case all
      then have "tl q = []" using less.prems(2) by (cases q) auto
      with all r(2) l show ?thesis unfolding step ends_def by auto
    next
      case more
      then have "ends cl wb (boffset + 1) (length (tl q) + length i' + (boffset + 1)) out m'"
        using l less.prems(2) by (intro less.hyps [OF _ r(2)]) auto
      then show ?thesis by (rule ends_step) (use step more l in simp_all)
    next
      case again
      let ?b = "take (boffset - 1) (drop 1 wb)"
      have lq: "length (tl q) + boffset < length wb" using less.prems(2) by simp
      obtain m2 where m2: "boundary_loop cl wb boffset out m = boundary_loop cl wb 0 (out @ [wb ! 0]) m2" "stream cl m2 ((tl q @ ?b) @ [c]) i'"
        using boundary_back [OF r(1) b again r(2) lq assms(2)] by blast
      have "ends cl wb 0 (length ((tl q @ ?b) @ [c]) + length i' + 0) (out @ [wb ! 0]) m2"
        using l less.prems(2) b again(2) assms(2) by (intro less.hyps [OF _ m2(2)]) auto
      then show ?thesis by (rule ends_step) (use m2(1) l b again in auto)
    next
      case emit
      then have "ends cl wb 0 (length (tl q) + length i' + 0) (out @ [c]) m'"
        using l less.prems(2) by (intro less.hyps [OF _ r(2)]) auto
      then show ?thesis by (rule ends_step) (use step emit l in simp_all)
    qed
  qed
qed

lemma boundary_loop_returns:
  assumes "stream cl m q i" "length wb \<le> 1024" "length q + boffset < length wb"
  shows "\<exists>r m' i'. boundary_loop cl wb boffset out m = Some (r, m') \<and> stream cl m' [] i' \<and>
     (r \<noteq> None \<longrightarrow> length i' + length wb \<le> length q + length i + boffset)"
  using boundary_loop_ends [OF assms] by (simp add: ends_def)

text \<open>
  The search stops at the first boundary and gives back what is before it, if the bytes put back come
  before those still in the buffer: so if only the first byte of the boundary is a carriage return.
\<close>

lemma matched_alone:
  assumes "q @ i = wb ! boffset # r1" "0 < boffset \<longrightarrow> q = []" "13 \<notin> set (butlast q)" "hd wb = 13" "boffset < length wb"
  shows "tl q = []"
proof (cases q)
  case (Cons a as)
  then have "a = 13" using assms by (auto simp: hd_conv_nth)
  with assms(3) Cons show ?thesis by (cases as) auto
qed simp

lemma mismatch_before:
  assumes "take boffset wb @ c # r1 = x @ wb @ r" "c \<noteq> wb ! boffset" "boffset < length wb"
  obtains x' where "boffset = 0" "x = c # x'" "r1 = x' @ wb @ r"
    | x' where "0 < boffset" "x = wb ! 0 # x'" "(take (boffset - 1) (drop 1 wb) @ [c]) @ r1 = x' @ wb @ r"
proof -
  have "x \<noteq> []"
  proof
    assume "x = []"
    then have "(take boffset wb @ c # r1) ! boffset = (wb @ r) ! boffset" using assms(1) by simp
    then show False using assms(2,3) by (simp add: nth_append)
  qed
  moreover have "take boffset wb = (if boffset = 0 then [] else wb ! 0 # take (boffset - 1) (drop 1 wb))"
    using assms(3) by (cases wb; cases boffset) auto
  ultimately show thesis using assms(1) that by (cases x; cases "boffset = 0") auto
qed

lemma boundary_loop_finds:
  assumes "stream cl m q i" "length q + boffset < length wb" "length wb \<le> 1024"
    and "take boffset wb @ q @ i = x @ wb @ r" "\<forall>k < length x. \<not> prefix wb (drop k (x @ wb @ r))"
    and "hd wb = 13" "13 \<notin> set (tl wb)" "13 \<notin> set (butlast q)" "0 < boffset \<longrightarrow> q = []"
  shows "\<exists>m'. boundary_loop cl wb boffset out m = Some (Some (out @ x), m') \<and> stream cl m' [] r"
  using assms(1,2,4,5,8,9)
proof (induction "1024 * (length q + length i + boffset) + length q + length i" arbitrary: m q i boffset out x rule: less_induct)
  case less
  note p = less.prems
  have b: "boffset < length wb" using p(2) by simp
  have "q @ i \<noteq> []" using arg_cong [OF p(3), of length] b by auto
  then obtain c r1 where c: "q @ i = c # r1" by (cases "q @ i") auto
  obtain m' i' where r: "mpRead cl (Suc 0) m = Some (1, [c], m')" "stream cl m' (tl q) i'" "tl q @ i' = r1"
    using mpRead_byte [OF p(1) c] by blast
  have l: "Suc (length (tl q) + length i') = length q + length i" using c r(3) by (metis length_Cons length_append)
  note step = boundary_step [OF r(1) b]
  show ?case
  proof (cases "c = wb ! boffset")
    case True
    have t: "take (boffset + 1) wb @ tl q @ i' = x @ wb @ r"
      using p(3) b True by (simp add: c r(3) take_Suc_conv_app_nth)
    have q: "tl q = []" using matched_alone [OF _ p(6,5) assms(6) b] c True by simp
    show ?thesis
    proof (cases "boffset + 1 = length wb")
      case all: True
      then have "prefix wb (x @ wb @ r)" unfolding t [symmetric] by simp
      then have "x = []" using p(4) by (cases x) auto
      with t all q True r(2) show ?thesis unfolding step by auto
    next
      case False
      then have "\<exists>m''. boundary_loop cl wb (boffset + 1) out m' = Some (Some (out @ x), m'') \<and> stream cl m'' [] r"
        using l p(2) b q by (intro less.hyps [OF _ r(2) _ t p(4)]) auto
      with True False show ?thesis unfolding step by auto
    qed
  next
    case False
    have "take boffset wb @ c # r1 = x @ wb @ r" using p(3) c by simp
    from mismatch_before [OF this False b] show ?thesis
    proof cases
      case (1 x')
      have no: "\<forall>k < length x'. \<not> prefix wb (drop k (x' @ wb @ r))" using p(4) unfolding 1(2) by force
      have bl: "13 \<notin> set (butlast (tl q))" using p(5) by (cases q) (auto split: if_splits)
      have "\<exists>m''. boundary_loop cl wb 0 (out @ [c]) m' = Some (Some ((out @ [c]) @ x'), m'') \<and> stream cl m'' [] r"
        using l p(2) b bl 1 r(3) by (intro less.hyps [OF _ r(2) _ _ no]) auto
      with False 1(1,2) show ?thesis unfolding step by auto
    next
      case (2 x')
      let ?b = "take (boffset - 1) (drop 1 wb)"
      have no: "\<forall>k < length x'. \<not> prefix wb (drop k (x' @ wb @ r))" using p(4) unfolding 2(2) by force
      have q: "q = []" using p(6) 2(1) by simp
      have lq: "length (tl q) + boffset < length wb" using p(2) by simp
      obtain m2 where m2: "boundary_loop cl wb boffset out m = boundary_loop cl wb 0 (out @ [wb ! 0]) m2" "stream cl m2 (?b @ [c]) i'"
        using boundary_back [OF r(1) b False 2(1) r(2) lq assms(3)] q by auto
      have n13: "13 \<notin> set (butlast (?b @ [c]))" using assms(7) by (auto simp: drop_Suc dest: in_set_takeD)
      have t: "take 0 wb @ (?b @ [c]) @ i' = x' @ wb @ r" using 2(3) r(3) q by simp
      have "\<exists>m''. boundary_loop cl wb 0 (out @ [wb ! 0]) m2 = Some (Some ((out @ [wb ! 0]) @ x'), m'') \<and> stream cl m'' [] r"
        using l b 2(1) assms(3) q by (intro less.hyps [OF _ m2(2) _ t no n13]) auto
      then show ?thesis unfolding m2(1) 2(2) by auto
    qed
  qed
qed

lemma boundary_loop_here:
  assumes "stream cl m [] (drop boffset wb @ r)" "boffset < length wb"
  shows "\<exists>m'. boundary_loop cl wb boffset out m = Some (Some out, m') \<and> stream cl m' [] r"
  using assms
proof (induction "length wb - boffset" arbitrary: boffset m)
  case (Suc n)
  have "[] @ drop boffset wb @ r = wb ! boffset # drop (boffset + 1) wb @ r"
    using Suc.prems(2) by (simp add: Cons_nth_drop_Suc)
  then obtain m' i' where m': "mpRead cl (Suc 0) m = Some (1, [wb ! boffset], m')" "stream cl m' (tl []) i'"
    "tl [] @ i' = drop (boffset + 1) wb @ r"
    using mpRead_byte [OF Suc.prems(1)] by blast
  then have s: "stream cl m' [] (drop (boffset + 1) wb @ r)" by simp
  show ?case
  proof (cases "boffset + 1 = length wb")
    case True
    with s show ?thesis by (simp add: boundary_step [OF m'(1) Suc.prems(2)])
  next
    case False
    with Suc.prems(2) Suc.hyps(2) have "\<exists>m''. boundary_loop cl wb (boffset + 1) out m' = Some (Some out, m'') \<and> stream cl m'' [] r"
      by (intro Suc.hyps(1) [OF _ s]) auto
    with False show ?thesis by (simp add: boundary_step [OF m'(1) Suc.prems(2)])
  qed
qed simp

lemma workingBoundary_simps [simp]:
  "hd (workingBoundary b False) = 13" "tl (workingBoundary b False) = 10 # 45 # 45 # b"
  "length (workingBoundary b first) = length b + (if first then 2 else 4)"
  by (simp_all add: workingBoundary_def)

lemma afterNextBoundary_returns:
  assumes "stream cl m q i" "length b \<le> 1020" "length q \<le> (if first then 0 else 2)"
  shows "\<exists>r m' q' i'. afterNextBoundary cl b first m = Some (r, m') \<and> stream cl m' q' i' \<and> length q' \<le> 2 \<and>
     (r \<noteq> None \<longrightarrow> length q' + length i' + 2 \<le> length q + length i)"
proof -
  obtain r m1 i1 where l: "boundary_loop cl (workingBoundary b first) 0 [] m = Some (r, m1)" "stream cl m1 [] i1"
    "r \<noteq> None \<longrightarrow> length i1 + length (workingBoundary b first) \<le> length q + length i + 0"
    using boundary_loop_returns [OF assms(1), of "workingBoundary b first" 0 "[]"] assms(2,3) by (auto split: if_splits)
  show ?thesis
  proof (cases r)
    case None
    with l show ?thesis by (auto simp: afterNextBoundary_def)
  next
    case (Some out)
    obtain got m2 where m2: "mpRead cl 2 m1 = Some (got, take 2 i1, m2)" "stream cl m2 [] (drop 2 i1)"
      "got = int (length (take 2 i1)) \<or> i1 = [] \<and> got = -1"
      using mpRead_queue [OF l(2), where n = 2] by auto
    obtain m3 where m3: "mpPutBack (take 2 i1) m2 = Some m3" "stream cl m3 (take 2 i1) (drop 2 i1)"
      using mpPutBack_ex [OF m2(2), of "take 2 i1"] by (auto simp: min_less_iff_disj)
    have n: "length i1 + 2 \<le> length q + length i" using l(3) Some by (simp split: if_splits)
    then have n: "length [] + length (drop 2 i1) + 2 \<le> length q + length i" "length (take 2 i1) + length (drop 2 i1) + 2 \<le> length q + length i"
      "length (take 2 i1) \<le> 2" "length ([] :: bytes) \<le> 2" by auto
    have "afterNextBoundary cl b first m \<in> {Some (None, m2), Some (Some out, m2), Some (Some out, m3)}"
      using l(1) Some m2(1) m3(1) by (auto simp: afterNextBoundary_def)
    then consider r where "afterNextBoundary cl b first m = Some (r, m2)" | "afterNextBoundary cl b first m = Some (Some out, m3)" by auto
    then show ?thesis by cases (use m2(2) m3(2) n in blast)+
  qed
qed

text \<open>
  Behind the boundary there is the end of its line, which is taken, or the mark of the last one,
  which is put back.
\<close>

lemma afterNextBoundary_ends:
  assumes "boundary_loop cl (workingBoundary b first) 0 [] m = Some (Some x, m1)" "stream cl m1 [] (d @ s)" "d = [13, 10] \<or> d = [45, 45]"
  shows "\<exists>m'. afterNextBoundary cl b first m = Some (Some x, m') \<and> stream cl m' (if d = [13, 10] then [] else d) s"
proof -
  have "length d = 2" using assms(3) by auto
  then obtain m2 where m2: "mpRead cl 2 m1 = Some (2, d, m2)" "stream cl m2 [] s"
    using mpRead_ex [OF assms(2), of 2] by auto
  obtain m3 where m3: "mpPutBack d m2 = Some m3" "stream cl m3 d s"
    using mpPutBack_ex [OF m2(2), of d] assms(3) by auto
  show ?thesis using assms(1,3) m2 m3 by (auto simp: afterNextBoundary_def)
qed

lemma no_boundary_before:
  assumes "hd wb = 13" "13 \<notin> set (tl wb)" "\<not> sublist wb x" "k < length x"
  shows "\<not> prefix wb (drop k (x @ wb @ r))"
proof
  assume "prefix wb (drop k (x @ wb @ r))"
  then have p: "prefix wb (drop k x @ wb @ r)" using assms(4) by simp
  show False
  proof (cases "length wb \<le> length (drop k x)")
    case True
    have "prefix wb (drop k x)" by (rule prefix_length_prefix [OF p _ True]) simp
    then obtain t where "drop k x = wb @ t" by (auto simp: prefix_def)
    then have "x = take k x @ wb @ t" by (metis append_take_drop_id)
    then have "sublist wb x" unfolding sublist_def by blast
    with assms(3) show False by simp
  next
    case False
    let ?n = "length (drop k x)"
    from p obtain t where "drop k x @ wb @ r = wb @ t" by (auto simp: prefix_def)
    then have "(drop k x @ wb @ r) ! ?n = (wb @ t) ! ?n" by simp
    then have "wb ! ?n = wb ! 0" using False assms(4) by (auto simp: nth_append split: if_splits)
    moreover have "wb ! ?n = tl wb ! (?n - 1)" "?n - 1 < length (tl wb)" using False assms(4) by (auto simp: nth_tl Suc_diff_Suc)
    ultimately have "wb ! 0 \<in> set (tl wb)" by auto
    with assms(1,2) False show False by (cases wb) auto
  qed
qed

lemma afterNextBoundary_finds:
  assumes "stream cl m [] (x @ workingBoundary b False @ d @ s)" "13 \<notin> set b" "length b \<le> 1020" "\<not> sublist (workingBoundary b False) x"
    and "d = [13, 10] \<or> d = [45, 45]"
  shows "\<exists>m'. afterNextBoundary cl b False m = Some (Some x, m') \<and> stream cl m' (if d = [13, 10] then [] else d) s"
proof -
  have n: "\<forall>k<length x. \<not> prefix (workingBoundary b False) (drop k (x @ workingBoundary b False @ d @ s))"
    using no_boundary_before [of "workingBoundary b False" x] assms(2,4) by simp
  obtain m1 where "boundary_loop cl (workingBoundary b False) 0 [] m = Some (Some ([] @ x), m1)" "stream cl m1 [] (d @ s)"
    using boundary_loop_finds [OF assms(1) _ _ _ n, of 0 "[]"] assms(2,3) by auto
  with afterNextBoundary_ends assms(5) show ?thesis by simp
qed

lemma afterNextBoundary_first:
  assumes "stream cl m [] (workingBoundary b True @ d @ s)" "d = [13, 10] \<or> d = [45, 45]"
  shows "\<exists>m'. afterNextBoundary cl b True m = Some (Some [], m') \<and> stream cl m' (if d = [13, 10] then [] else d) s"
proof -
  have w: "stream cl m [] (drop 0 (workingBoundary b True) @ d @ s)" "0 < length (workingBoundary b True)" using assms(1) by simp_all
  obtain m1 where "boundary_loop cl (workingBoundary b True) 0 [] m = Some (Some [], m1)" "stream cl m1 [] (d @ s)"
    using boundary_loop_here [OF w] by blast
  from afterNextBoundary_ends [OF this assms(2)] show ?thesis .
qed

section \<open>Every loop returns\<close>

text \<open>At most \<open>k\<close> bytes wait in the buffer, and at most \<open>n\<close> can be read.\<close>

definition holds :: "int \<Rightarrow> mpStream \<Rightarrow> nat \<Rightarrow> nat \<Rightarrow> bool" where
  "holds cl m k n \<longleftrightarrow> (\<exists>q i. stream cl m q i \<and> length q \<le> k \<and> length q + length i \<le> n)"

lemma holds_mono: "holds cl m k n \<Longrightarrow> k \<le> k' \<Longrightarrow> n \<le> n' \<Longrightarrow> holds cl m k' n'"
  unfolding holds_def by (meson order_trans)

lemma holds_start: "int (length i) \<le> cl \<Longrightarrow> holds cl (mp_start i) 0 (length i)"
  using stream_start [of i cl] by (auto simp: holds_def)

lemma holds_byte:
  assumes "holds cl m k n"
  obtains (eof) got m' where "mpRead cl (Suc 0) m = Some (got, [], m')" "got \<noteq> 1" "holds cl m' 0 0"
    | (byte) c m' where "mpRead cl (Suc 0) m = Some (1, [c], m')" "0 < n" "holds cl m' (k - 1) (n - 1)"
proof -
  obtain q i where s: "stream cl m q i" "length q \<le> k" "length q + length i \<le> n" using assms by (auto simp: holds_def)
  show thesis
  proof (cases "q @ i")
    case Nil
    with s(1) have "stream cl m [] []" by simp
    then obtain got m' where "mpRead cl (Suc 0) m = Some (got, [], m')" "got \<noteq> 1" "stream cl m' [] []" by (rule mpRead_end)
    then show thesis by (intro eof) (auto simp: holds_def)
  next
    case (Cons c r)
    obtain m' i' where r: "mpRead cl (Suc 0) m = Some (1, [c], m')" "stream cl m' (tl q) i'" "tl q @ i' = r"
      using mpRead_byte [OF s(1) Cons] by blast
    have "Suc (length (tl q) + length i') = length q + length i" using Cons r(3) by (metis length_Cons length_append)
    then have "length (tl q) \<le> k - 1" "length (tl q) + length i' \<le> n - 1" "0 < n" using s(2,3) by auto
    with r(2) have "holds cl m' (k - 1) (n - 1)" unfolding holds_def by blast
    with r(1) \<open>0 < n\<close> show thesis by (intro byte)
  qed
qed

lemma holds_put:
  assumes "holds cl m k n" "k + length b < 1024"
  shows "\<exists>m'. mpPutBack b m = Some m' \<and> holds cl m' (k + length b) (n + length b)"
proof -
  obtain q i where s: "stream cl m q i" "length q \<le> k" "length q + length i \<le> n" using assms by (auto simp: holds_def)
  have l: "length q + length b < 1024" using s(2) assms(2) by simp
  obtain m' where m': "mpPutBack b m = Some m'" "stream cl m' (q @ b) i" using mpPutBack_ex [OF s(1) l] by blast
  have "length (q @ b) \<le> k + length b" "length (q @ b) + length i \<le> n + length b" using s by auto
  with m' show ?thesis unfolding holds_def by blast
qed

lemma afterNextBoundary_holds:
  assumes "holds cl m (if first then 0 else 2) n" "length b \<le> 1020"
  shows "\<exists>r m'. afterNextBoundary cl b first m = Some (r, m') \<and> (r \<noteq> None \<longrightarrow> holds cl m' 2 (n - 2) \<and> 2 \<le> n)"
proof -
  obtain q i where s: "stream cl m q i" "length q \<le> (if first then 0 else 2)" "length q + length i \<le> n"
    using assms(1) by (auto simp: holds_def)
  obtain r m' q' i' where r: "afterNextBoundary cl b first m = Some (r, m')" "stream cl m' q' i'" "length q' \<le> 2"
    "r \<noteq> None \<longrightarrow> length q' + length i' + 2 \<le> length q + length i"
    using afterNextBoundary_returns [OF s(1) assms(2) s(2)] by blast
  have "length q' + length i' \<le> n - 2 \<and> 2 \<le> n" if "r \<noteq> None" using that r(4) s(3) by auto
  with r(1-3) show ?thesis unfolding holds_def by blast
qed

lemma skip_blanks_returns: "holds cl m 2 n \<Longrightarrow> \<exists>m'. skip_blanks cl m = Some m' \<and> holds cl m' 2 n"
proof (induction n arbitrary: m rule: less_induct)
  case (less n)
  from less.prems show ?case
  proof (cases rule: holds_byte)
    case (eof got m')
    then show ?thesis by (subst skip_blanks.simps) (auto intro: holds_mono)
  next
    case (byte c m')
    obtain m2 where m2: "mpPutBack [c] m' = Some m2" "holds cl m2 (2 - 1 + length [c]) (n - 1 + length [c])"
      using holds_put [OF byte(3), of "[c]"] by auto
    have "holds cl m' 2 (n - 1)" using byte(3) by (rule holds_mono) auto
    then obtain m3 where m3: "skip_blanks cl m' = Some m3" "holds cl m3 2 (n - 1)" using less.IH [of "n - 1" m'] byte(2) by auto
    have "holds cl m2 2 n" "holds cl m3 2 n" using m2(2) m3(2) byte(2) by (auto intro: holds_mono)
    then show ?thesis using byte(1) m2(1) m3(1) by (subst skip_blanks.simps) auto
  qed
qed

lemma header_loop_returns:
  "holds cl m 2 n \<Longrightarrow> \<exists>r m'. header_loop cl attr val found m = Some (r, m') \<and> holds cl m' 2 (n - 1) \<and> (r \<noteq> None \<longrightarrow> 0 < n)"
proof (induction n arbitrary: m attr val found rule: less_induct)
  case (less n)
  from less.prems show ?case
  proof (cases rule: holds_byte)
    case (eof got m')
    then show ?thesis by (subst header_loop.simps) (auto intro: holds_mono)
  next
    case (byte c m')
    have h: "holds cl m' 2 (n - 1)" using byte(3) by (rule holds_mono) auto
    have rec: "\<exists>r m''. header_loop cl attr val found m1 = Some (r, m'') \<and> holds cl m'' 2 (n - 1)" if hm: "holds cl m1 2 (n - 1)" for attr val found m1
    proof -
      obtain r m'' where "header_loop cl attr val found m1 = Some (r, m'')" "holds cl m'' 2 (n - 1 - 1)"
        using less.IH [OF _ hm] byte(2) by fastforce
      then show ?thesis by (auto intro: holds_mono)
    qed
    have cr: "\<exists>got d m2 m3. mpRead cl (Suc 0) m' = Some (got, d, m2) \<and>
        (if got = 1 \<and> hd d \<noteq> 10 then mpPutBack d m2 else Some m2) = Some m3 \<and> holds cl m3 2 (n - 1)"
      using byte(3)
    proof (cases rule: holds_byte)
      case (eof got m2)
      then show ?thesis by (auto intro: holds_mono)
    next
      case (byte d m2)
      obtain m3 where "mpPutBack [d] m2 = Some m3" "holds cl m3 (2 - 1 - 1 + length [d]) (n - 1 - 1 + length [d])"
        using holds_put [OF byte(3), of "[d]"] by auto
      with byte show ?thesis by (auto intro: holds_mono)
    qed
    obtain m2 where "skip_blanks cl m' = Some m2" "holds cl m2 2 (n - 1)" using skip_blanks_returns [OF h] by blast
    with h rec cr byte(1,2) show ?thesis by (subst header_loop.simps) auto
  qed
qed

lemma readHeaderLine_returns:
  assumes "holds cl m 2 n"
  shows "\<exists>r m'. readHeaderLine cl m = Some (r, m') \<and> holds cl m' 2 (n - 1) \<and> (r \<noteq> None \<longrightarrow> 0 < n)"
  using header_loop_returns [OF assms, of "[]" "[]" False] by (force simp: readHeaderLine_def split: option.split)

lemma headers_loop_returns: "holds cl m 2 n \<Longrightarrow> \<exists>r m'. headers_loop cl h m = Some (r, m') \<and> holds cl m' 2 (n - 1)"
proof (induction n arbitrary: m h rule: less_induct)
  case (less n)
  obtain r m' where r: "readHeaderLine cl m = Some (r, m')" "holds cl m' 2 (n - 1)" "r \<noteq> None \<longrightarrow> 0 < n"
    using readHeaderLine_returns [OF less.prems] by blast
  have "\<exists>r m''. headers_loop cl h' m' = Some (r, m'') \<and> holds cl m'' 2 (n - 1)" if n: "0 < n" for h'
  proof -
    obtain r m'' where "headers_loop cl h' m' = Some (r, m'')" "holds cl m'' 2 (n - 1 - 1)" using less.IH [OF _ r(2)] n by fastforce
    then show ?thesis by (auto intro: holds_mono)
  qed
  with r show ?case by (subst headers_loop.simps) (auto split: option.split)
qed

lemma read_part_returns:
  assumes "holds cl m 2 n" "length b \<le> 1020"
  shows "\<exists>r fs' m'. read_part env cl b k h fs m = Some (r, fs', m') \<and> (r \<noteq> None \<longrightarrow> holds cl m' 2 (n - 2))"
proof -
  obtain r m' where "afterNextBoundary cl b False m = Some (r, m')" "r \<noteq> None \<longrightarrow> holds cl m' 2 (n - 2) \<and> 2 \<le> n"
    using afterNextBoundary_holds [of cl m False n b] assms by auto
  then show ?thesis by (auto simp: read_part_def Let_def split: option.split)
qed

lemma mpRead_pair:
  assumes "holds cl m 2 n"
  obtains (eof) got d m' where "mpRead cl 2 m = Some (got, d, m')" "got < 2"
    | (pair) d m' where "mpRead cl 2 m = Some (2, d, m')" "length d = 2" "2 \<le> n" "holds cl m' 0 (n - 2)"
proof -
  obtain q i where s: "stream cl m q i" "length q \<le> 2" "length q + length i \<le> n" using assms by (auto simp: holds_def)
  obtain got m' where r: "mpRead cl 2 m = Some (got, take 2 (q @ i), m')" "stream cl m' (drop 2 q) (drop (2 - length q) i)"
    "got = int (length (take 2 (q @ i))) \<or> q = [] \<and> i = [] \<and> got = -1"
    using mpRead_ex [OF s(1)] by blast
  show thesis
  proof (cases "got < 2")
    case True
    with r(1) show thesis by (rule eof)
  next
    case False
    then have l: "2 \<le> length q + length i" "got = 2" "length (take 2 (q @ i)) = 2" using r(3) by auto
    have "length (drop 2 q) \<le> 0" "length (drop 2 q) + length (drop (2 - length q) i) \<le> n - 2" using s l by auto
    with r(2) have "holds cl m' 0 (n - 2)" unfolding holds_def by blast
    with r(1) l s(3) show thesis by (intro pair) auto
  qed
qed

lemma parts_loop_returns:
  assumes "holds cl m 2 n" "length b \<le> 1020"
  shows "\<exists>r fs'. parts_loop env cl b k es fs m = Some (r, fs')"
  using assms(1)
proof (induction n arbitrary: m k es fs rule: less_induct)
  case (less n)
  from less.prems show ?case
  proof (cases rule: mpRead_pair)
    case (eof got d m')
    then show ?thesis by (subst parts_loop.simps) auto
  next
    case (pair d m')
    obtain m2 where m2: "mpPutBack d m' = Some m2" "holds cl m2 (0 + length d) (n - 2 + length d)" using holds_put [OF pair(4), of d] pair(2) by auto
    then have m2: "mpPutBack d m' = Some m2" "holds cl m2 2 n" using pair(2,3) by (auto elim: holds_mono)
    obtain h m3 where h: "headers_loop cl \<lparr>h_value = [], h_name = [], h_fileName = [], h_contentType = []\<rparr> m2 = Some (h, m3)" "holds cl m3 2 (n - 1)"
      using headers_loop_returns [OF m2(2)] by blast
    have next3: "\<exists>r fs'. parts_loop env cl b k es fs m3 = Some (r, fs')" for k es fs
      using less.IH [OF _ h(2)] pair(3) by auto
    have body: "\<exists>r fs'. do { (r, fs, m) \<leftarrow> read_part env cl b k h' fs m3;
        case r of None \<Rightarrow> Some (ParseFailed es, fs) | Some e \<Rightarrow> parts_loop env cl b k' (es @ [e]) fs m } = Some (r, fs')" for h' k'
    proof -
      obtain r fs' m4 where r: "read_part env cl b k h' fs m3 = Some (r, fs', m4)" "r \<noteq> None \<longrightarrow> holds cl m4 2 (n - 1 - 2)"
        using read_part_returns [OF h(2) assms(2)] by blast
      have "\<exists>r fs'. parts_loop env cl b k es fs m4 = Some (r, fs')" if "holds cl m4 2 (n - 1 - 2)" for k es fs
        using less.IH [OF _ that] pair(3) by auto
      with r show ?thesis by (auto split: option.split)
    qed
    with next3 show ?thesis
      by (subst parts_loop.simps) (auto simp: pair(1) m2(1) h(1) split: option.split)
  qed
qed

lemma multipart_returns:
  assumes "int (length (cgiIn q)) \<le> cgiContentLength q" "length b \<le> 1020"
  shows "\<exists>r fs. cgiParsePostMultipartInput env b q = Some (r, fs)"
proof -
  obtain r m where r: "afterNextBoundary (cgiContentLength q) b True (mp_start (cgiIn q)) = Some (r, m)"
    "r \<noteq> None \<longrightarrow> holds (cgiContentLength q) m 2 (length (cgiIn q) - 2) \<and> 2 \<le> length (cgiIn q)"
    using afterNextBoundary_holds [of "cgiContentLength q" "mp_start (cgiIn q)" True "length (cgiIn q)" b] holds_start [OF assms(1)] assms(2)
    by (auto simp del: not_None_eq)
  then show ?thesis using parts_loop_returns [OF _ assms(2)] by (auto simp: cgiParsePostMultipartInput_def)
qed

text \<open>The boundary of a request is short enough, since its content type is cut.\<close>

lemma scan_for_length: "scan_for x s = (a, r) \<Longrightarrow> length a + (case r of None \<Rightarrow> 0 | Some t \<Rightarrow> length t + 1) = length s"
  by (induction s arbitrary: a) (auto split: if_splits prod.splits)

lemma find_boundary_length: "length (find_boundary s) \<le> length s - 9"
proof (induction s rule: find_boundary.induct)
  case (1 s)
  let ?s = "dropWhile is_blank s"
  have l: "length ?s \<le> length s" by (rule length_dropWhile_le)
  show ?case
  proof (cases "cgiStrBeginsNc ?s (bytes_of ''boundary='')")
    case True
    have "length (takeWhile (\<lambda>c. \<not> is_blank c) (drop 9 ?s)) \<le> length (drop 9 ?s)" by (rule length_takeWhile_le)
    with True l show ?thesis by (subst find_boundary.simps) simp
  next
    case False
    show ?thesis
    proof (cases "scan_for 59 ?s")
      case (Pair a r)
      show ?thesis
      proof (cases r)
        case None
        with Pair False show ?thesis by (subst find_boundary.simps) simp
      next
        case (Some t)
        have "length (find_boundary t) \<le> length t - 9" using 1 [OF refl False Pair [symmetric]] Some by simp
        with Pair Some False l scan_for_length [OF Pair] show ?thesis by (subst find_boundary.simps) simp
      qed
    qed
  qed
qed

lemma content_type_boundary: "length (snd (content_type e)) \<le> 1020"
proof (cases "scan_for 59 (take 1023 e)")
  case (Pair t r)
  show ?thesis
  proof (cases r)
    case (Some s)
    with scan_for_length [OF Pair] have "length s \<le> 1023" by simp
    with find_boundary_length [of s] Pair Some show ?thesis by (simp add: content_type_def)
  qed (simp add: Pair content_type_def)
qed

end
