(* ===== verification/Multipart_Sent.thy ===== *)
theory Multipart_Sent
  imports Multipart_Facts
begin

text \<open>
  What a browser sends of a form by \<open>multipart/form-data\<close>, and the lemmas with which the parser takes
  it apart: header lines, the parameters of a value, the body of a part, and the list of the parts.
\<close>

section \<open>What a browser sends\<close>

record form_part =
  p_name :: bytes
  p_file :: "(bytes \<times> bytes) option"
  p_data :: bytes

definition file_name :: "form_part \<Rightarrow> bytes" where
  "file_name p = (case p_file p of None \<Rightarrow> [] | Some (f, _) \<Rightarrow> f)"

definition file_type :: "form_part \<Rightarrow> bytes" where
  "file_type p = (case p_file p of None \<Rightarrow> [] | Some (_, t) \<Rightarrow> t)"

definition disposition :: "form_part \<Rightarrow> bytes" where
  "disposition p = bytes_of ''form-data; name='' @ 34 # p_name p @ 34 #
     (case p_file p of None \<Rightarrow> [] | Some (f, _) \<Rightarrow> bytes_of ''; filename='' @ 34 # f @ [34])"

definition part_head :: "form_part \<Rightarrow> bytes" where
  "part_head p = bytes_of ''Content-Disposition: '' @ disposition p @ [13, 10] @
     (case p_file p of None \<Rightarrow> [] | Some (_, t) \<Rightarrow> bytes_of ''Content-Type: '' @ t @ [13, 10]) @ [13, 10]"

text \<open>The parts behind the line of a boundary, up to the last boundary.\<close>

fun part_text :: "bytes \<Rightarrow> form_part list \<Rightarrow> bytes" where
  "part_text b [] = [45, 45, 13, 10]"
| "part_text b (p # ps) = part_head p @ p_data p @ workingBoundary b False @ (if ps = [] then [] else [13, 10]) @ part_text b ps"

definition multipart_body :: "bytes \<Rightarrow> form_part list \<Rightarrow> bytes" where
  "multipart_body b ps = workingBoundary b True @ (if ps = [] then [] else [13, 10]) @ part_text b ps"

text \<open>
  Names have no quotes, colons, line ends or NUL and fit into the parser's buffers, a type begins with
  a character that is neither blank nor a quote, and the contents do not contain the boundary.
\<close>

definition header_text :: "bytes \<Rightarrow> bool" where
  "header_text s \<longleftrightarrow> (\<forall>c \<in> set s. c \<notin> {0, 10, 13, 34, 58})"

definition sendable :: "bytes \<Rightarrow> form_part \<Rightarrow> bool" where
  "sendable b p \<longleftrightarrow> header_text (p_name p) \<and> header_text (file_name p) \<and> length (p_name p) + length (file_name p) \<le> 990 \<and>
     (case p_file p of None \<Rightarrow> True | Some (_, t) \<Rightarrow> header_text t \<and> 59 \<notin> set t \<and> t \<noteq> [] \<and> \<not> is_blank (hd t) \<and> length t \<le> 1023) \<and>
     \<not> sublist (workingBoundary b False) (p_data p)"

text \<open>The entry that stands for a part, and the file that holds its contents.\<close>

definition received :: "tmp_files \<Rightarrow> form_part \<Rightarrow> upload_entry \<Rightarrow> bool" where
  "received fs p e \<longleftrightarrow> e_attr e = p_name p \<and> e_fileName e = file_name p \<and> e_contentType e = file_type p \<and>
     e_valueLength e = int (length (p_data p)) \<and>
     (if file_name p = [] then e_tfileName e = [] \<and> e_value e = takeWhile (\<lambda>c. c \<noteq> 0) (p_data p)
      else e_value e = [] \<and> e_tfileName e \<noteq> [] \<and> fs (e_tfileName e) = Some (p_data p))"

text \<open>\<open>mkstemp\<close> makes new files, and there is room for them.\<close>

definition good_tmp :: "tmp_env \<Rightarrow> bool" where
  "good_tmp env \<longleftrightarrow> (\<forall>k. tmp_opens env k \<and> (\<exists>t. tmp_name env k = Some t \<and> t \<noteq> [])) \<and> inj (tmp_name env)"

section \<open>Reading a text\<close>

text \<open>The text that comes next, of which at most \<open>k\<close> bytes are in the buffer.\<close>

definition reads :: "int \<Rightarrow> mpStream \<Rightarrow> nat \<Rightarrow> bytes \<Rightarrow> bool" where
  "reads cl m k s \<longleftrightarrow> (\<exists>q i. stream cl m q i \<and> q @ i = s \<and> length q \<le> k)"

lemma reads_mono: "reads cl m k s \<Longrightarrow> k \<le> k' \<Longrightarrow> reads cl m k' s"
  unfolding reads_def by (elim exE conjE, intro exI conjI, assumption, assumption, rule order_trans)

lemma reads_stream: "reads cl m 0 s \<longleftrightarrow> stream cl m [] s"
  by (auto simp: reads_def)

lemma reads_now: "stream cl m [] s \<Longrightarrow> reads cl m k s"
  unfolding reads_stream [symmetric] by (erule reads_mono) simp

lemma reads_byte:
  assumes "reads cl m k (c # s)"
  shows "\<exists>m'. mpRead cl (Suc 0) m = Some (1, [c], m') \<and> reads cl m' (k - 1) s"
proof -
  obtain q i where s: "stream cl m q i" "q @ i = c # s" "length q \<le> k" using assms by (auto simp: reads_def)
  obtain m' i' where r: "mpRead cl (Suc 0) m = Some (1, [c], m')" "stream cl m' (tl q) i'" "tl q @ i' = s"
    using mpRead_byte [OF s(1,2)] by blast
  have "length (tl q) \<le> k - 1" using s(3) by simp
  with r show ?thesis unfolding reads_def by blast
qed

lemma reads_pair:
  assumes "reads cl m 2 (c # d # s)"
  shows "\<exists>m'. mpRead cl 2 m = Some (2, [c, d], m') \<and> reads cl m' 0 s"
proof -
  obtain q i where s: "stream cl m q i" "q @ i = c # d # s" "length q \<le> 2" using assms by (auto simp: reads_def)
  obtain m' where m': "mpRead cl 2 m = Some (2, [c, d], m')" "stream cl m' (drop 2 q) (drop (2 - length q) i)"
    using mpRead_ex [OF s(1), of 2] s(2) by fastforce
  have "drop 2 q @ drop (2 - length q) i = s" using arg_cong [OF s(2), of "drop 2"] by simp
  with m' s(3) show ?thesis unfolding reads_def by (intro exI [of _ m'] conjI exI [of _ "drop 2 q"] exI [of _ "drop (2 - length q) i"]) auto
qed

lemma reads_put:
  assumes "reads cl m 0 s" "length b < 1024"
  shows "\<exists>m'. mpPutBack b m = Some m' \<and> reads cl m' (length b) (b @ s)"
proof -
  obtain m' where "mpPutBack b m = Some m'" "stream cl m' ([] @ b) s"
    using mpPutBack_ex [of cl m "[]" s b] assms by (auto simp: reads_stream)
  then show ?thesis by (auto simp: reads_def)
qed

section \<open>A header line\<close>

lemma header_name:
  assumes "reads cl m k (nm @ s)" "\<forall>c \<in> set nm. \<not> is_blank c \<and> c \<noteq> 58" "length attr + length nm \<le> 1023"
  shows "\<exists>m'. header_loop cl attr val False m = header_loop cl (attr @ nm) val False m' \<and> reads cl m' (k - length nm) s"
  using assms
proof (induction nm arbitrary: attr k m)
  case (Cons c nm)
  obtain m' where r: "mpRead cl (Suc 0) m = Some (1, [c], m')" "reads cl m' (k - 1) (nm @ s)"
    using reads_byte [of cl m k c "nm @ s"] Cons.prems(1) by auto
  have "c \<noteq> 13" "c \<noteq> 10" using Cons.prems(2) by (auto simp: is_blank_def)
  then have "header_loop cl attr val False m = header_loop cl (attr @ [c]) val False m'"
    using Cons.prems(2,3) by (subst header_loop.simps) (simp add: r)
  moreover have "\<exists>m''. header_loop cl (attr @ [c]) val False m' = header_loop cl ((attr @ [c]) @ nm) val False m'' \<and> reads cl m'' (k - 1 - length nm) s"
    by (rule Cons.IH [OF r(2)]) (use Cons.prems(2,3) in auto)
  ultimately show ?case by auto
qed auto

lemma header_value:
  assumes "reads cl m k (v @ s)" "\<forall>c \<in> set v. c \<notin> {10, 13, 58}" "length val + length v \<le> 1023"
  shows "\<exists>m'. header_loop cl attr val True m = header_loop cl attr (val @ v) True m' \<and> reads cl m' (k - length v) s"
  using assms
proof (induction v arbitrary: val k m)
  case (Cons c v)
  obtain m' where r: "mpRead cl (Suc 0) m = Some (1, [c], m')" "reads cl m' (k - 1) (v @ s)"
    using reads_byte [of cl m k c "v @ s"] Cons.prems(1) by auto
  have "header_loop cl attr val True m = header_loop cl attr (val @ [c]) True m'"
    using Cons.prems(2,3) by (subst header_loop.simps) (simp add: r)
  moreover have "\<exists>m''. header_loop cl attr (val @ [c]) True m' = header_loop cl attr ((val @ [c]) @ v) True m'' \<and> reads cl m'' (k - 1 - length v) s"
    by (rule Cons.IH [OF r(2)]) (use Cons.prems(2,3) in auto)
  ultimately show ?case by auto
qed auto

lemma header_end:
  assumes "reads cl m k (13 # 10 # s)"
  shows "\<exists>m'. header_loop cl attr val found m = Some (Some (attr, val), m') \<and> reads cl m' (k - 2) s"
proof -
  obtain m1 where m1: "mpRead cl (Suc 0) m = Some (1, [13], m1)" "reads cl m1 (k - 1) (10 # s)" using reads_byte [OF assms] by blast
  obtain m2 where m2: "mpRead cl (Suc 0) m1 = Some (1, [10], m2)" "reads cl m2 (k - 1 - 1) s" using reads_byte [OF m1(2)] by blast
  have "reads cl m2 (k - 2) s" using m2(2) by (simp add: numeral_2_eq_2)
  then show ?thesis by (subst header_loop.simps) (auto simp: m1(1) m2(1))
qed

lemma header_line:
  assumes "reads cl m 2 (nm @ [58, 32] @ v @ [13, 10] @ s)" "\<forall>c \<in> set nm. \<not> is_blank c \<and> c \<noteq> 58 \<and> c \<noteq> 0" "nm \<noteq> []" "length nm \<le> 1023"
    and "\<forall>c \<in> set v. c \<notin> {0, 10, 13, 58}" "v \<noteq> []" "\<not> is_blank (hd v)" "length v \<le> 1023"
  shows "\<exists>m'. readHeaderLine cl m = Some (Some (nm, v), m') \<and> reads cl m' 0 s"
proof -
  obtain m1 where m1: "header_loop cl [] [] False m = header_loop cl nm [] False m1" "reads cl m1 (2 - length nm) (58 # 32 # v @ 13 # 10 # s)"
    using header_name [OF assms(1), of "[]" "[]"] assms(2,4) by auto
  have "reads cl m1 1 (58 # 32 # v @ 13 # 10 # s)" using m1(2) assms(3) by (cases nm) (auto elim: reads_mono)
  then obtain m2 where m2: "mpRead cl (Suc 0) m1 = Some (1, [58], m2)" "reads cl m2 0 (32 # v @ 13 # 10 # s)" using reads_byte by fastforce
  obtain m3 where m3: "mpRead cl (Suc 0) m2 = Some (1, [32], m3)" "reads cl m3 0 (v @ 13 # 10 # s)" using reads_byte [OF m2(2)] by auto
  obtain c v' where v: "v = c # v'" using assms(6) by (cases v) auto
  obtain m4 where m4: "mpRead cl (Suc 0) m3 = Some (1, [c], m4)" "reads cl m4 0 (v' @ 13 # 10 # s)"
    using reads_byte [of cl m3 0 c "v' @ 13 # 10 # s"] m3(2) v by auto
  obtain m5 where m5: "mpPutBack [c] m4 = Some m5" "reads cl m5 1 (v @ 13 # 10 # s)" using reads_put [OF m4(2), of "[c]"] v by auto
  have "skip_blanks cl m3 = Some m5" using assms(7) v by (subst skip_blanks.simps) (simp add: m4(1) m5(1))
  then have b: "skip_blanks cl m2 = Some m5" by (subst skip_blanks.simps) (simp add: m3(1) is_blank_def)
  obtain m6 where m6: "header_loop cl nm [] True m5 = header_loop cl nm v True m6" "reads cl m6 (1 - length v) (13 # 10 # s)"
    using header_value [OF m5(2), of "[]" nm] assms(5,8) by auto
  obtain m7 where m7: "header_loop cl nm v True m6 = Some (Some (nm, v), m7)" "reads cl m7 0 s"
    using header_end [OF m6(2), of nm v True] v by auto
  have "header_loop cl [] [] False m = Some (Some (nm, v), m7)"
    unfolding m1(1) using assms(3) by (subst header_loop.simps) (simp add: m2(1) b m6(1) m7(1))
  moreover have "takeWhile (\<lambda>c. c \<noteq> 0) nm = nm" "takeWhile (\<lambda>c. c \<noteq> 0) v = v" using assms(2,5) by auto
  ultimately show ?thesis using assms(3,6) m7(2) by (simp add: readHeaderLine_def)
qed

lemma header_blank:
  assumes "reads cl m k (13 # 10 # s)"
  shows "\<exists>m'. readHeaderLine cl m = Some (None, m') \<and> reads cl m' (k - 2) s"
  using header_end [OF assms, of "[]" "[]" False] by (auto simp: readHeaderLine_def)

section \<open>Parameters\<close>

lemma quoted_text:
  assumes "34 \<notin> set v" "r = [] \<or> hd r = 59"
  shows "value_text (34 # v @ 34 # r) = (v, r)"
proof -
  have "takeWhile (\<lambda>c. c \<noteq> 34) (v @ 34 # r) = v" "dropWhile (\<lambda>c. c \<noteq> 34) (v @ 34 # r) = 34 # r"
    using assms(1) by (induction v) auto
  moreover have "dropWhile (\<lambda>c. c \<noteq> 59) r = r" using assms(2) by (cases r) auto
  ultimately show ?thesis by (simp add: value_text_def)
qed

lemma plain_value:
  assumes "59 \<notin> set v" "v = [] \<or> hd v \<noteq> 34" "r = [] \<or> hd r = 59" "v = [] \<longrightarrow> r = []"
  shows "value_text (v @ r) = (v, r)"
proof -
  have "takeWhile (\<lambda>c. c \<noteq> 59) (v @ r) = v" "dropWhile (\<lambda>c. c \<noteq> 59) (v @ r) = r"
    using assms(1,3) by (induction v) (cases r; auto)+
  then show ?thesis using assms(2,4) by (cases v) (auto simp: value_text_def)
qed

text \<open>One parameter in quotes: it is stored if its name is asked for, and ends the process if not.\<close>

lemma decompose_arg:
  assumes "\<forall>c \<in> set nm. is_alnum c" "length nm \<le> 1023" "34 \<notin> set v" "r = [] \<or> hd r = 59"
  shows "decompose_args names space args (59 # 32 # nm @ 61 # 34 # v @ 34 # r) =
     (case arg_index nm 0 names of
        Some j \<Rightarrow> decompose_args names space (args[j := take (space - 1) v]) r
      | None \<Rightarrow> if space = 0 then decompose_args names space args r else None)"
proof -
  have nb: "\<not> is_blank c" if "is_alnum c" for c
    using that by (auto simp: is_alnum_def is_blank_def is_digit_def word_le_nat_alt)
  have n61: "\<not> is_alnum 61" by (simp add: is_alnum_def is_digit_def)
  have d: "dropWhile is_blank (nm @ 61 # 34 # v @ 34 # r) = nm @ 61 # 34 # v @ 34 # r"
    using assms(1) nb by (cases nm) (auto simp: is_blank_def)
  have t: "takeWhile is_alnum (nm @ 61 # 34 # v @ 34 # r) = nm" "dropWhile is_alnum (nm @ 61 # 34 # v @ 34 # r) = 61 # 34 # v @ 34 # r"
    using assms(1) n61 by (induction nm) auto
  show ?thesis
    by (subst decompose_args.simps) (simp add: d t assms(2) quoted_text [OF assms(3,4)] is_blank_def split: option.split)
qed

lemma decompose_end: "decompose_args names space args [] = Some args"
  by (subst decompose_args.simps) simp

lemma disposition_value:
  assumes "header_text (p_name p)" "header_text (file_name p)" "length (p_name p) \<le> 1023" "length (file_name p) \<le> 1023"
  shows "decomposeValue (disposition p) 1024 [bytes_of ''name'', bytes_of ''filename''] 1024 =
     Some (bytes_of ''form-data'', [p_name p, file_name p])"
proof -
  let ?names = "[bytes_of ''name'', bytes_of ''filename'']"
  define r where "r = (case p_file p of None \<Rightarrow> [] | Some (f, _) \<Rightarrow> bytes_of ''; filename='' @ 34 # f @ [34])"
  have a: "\<forall>c \<in> set (bytes_of ''name''). is_alnum c" "\<forall>c \<in> set (bytes_of ''filename''). is_alnum c"
    by (simp_all add: bytes_of_def is_alnum_def is_digit_def)
  have ix: "arg_index (bytes_of ''name'') 0 ?names = Some 0" "arg_index (bytes_of ''filename'') 0 ?names = Some 1"
    by (simp_all add: cgiStrEqNc_def bytes_of_def cgi_lower_def)
  have q: "34 \<notin> set (p_name p)" "34 \<notin> set (file_name p)" using assms(1,2) by (auto simp: header_text_def)
  have r59: "r = [] \<or> hd r = 59" by (auto simp: r_def bytes_of_def split: option.split)
  have r: "decompose_args ?names 1024 [n, []] r = Some [n, file_name p]" for n
  proof (cases "p_file p")
    case None
    then show ?thesis by (simp add: r_def file_name_def decompose_end)
  next
    case (Some ft)
    then have "r = 59 # 32 # bytes_of ''filename'' @ 61 # 34 # file_name p @ 34 # []"
      by (simp add: r_def file_name_def bytes_of_def split: prod.split)
    then show ?thesis using decompose_arg [OF a(2) _ q(2), of "[]" ?names 1024 "[n, []]"] ix(2) assms(4)
      by (simp add: decompose_end)
  qed
  let ?r = "59 # 32 # bytes_of ''name'' @ 61 # 34 # p_name p @ 34 # r"
  have d: "disposition p = bytes_of ''form-data'' @ ?r" by (simp add: disposition_def r_def bytes_of_def)
  have "dropWhile is_blank (disposition p) = bytes_of ''form-data'' @ ?r" unfolding d by (simp add: bytes_of_def is_blank_def)
  moreover have "value_text (bytes_of ''form-data'' @ ?r) = (bytes_of ''form-data'', ?r)"
    by (rule plain_value) (simp_all add: bytes_of_def)
  moreover have "decompose_args ?names 1024 [[], []] ?r = Some [p_name p, file_name p]"
    using decompose_arg [OF a(1) _ q(1) r59, of ?names 1024 "[[], []]"] ix(1) assms(3) r by (simp add: bytes_of_def)
  ultimately show ?thesis by (simp add: decomposeValue_def)
qed

lemma type_value:
  assumes "59 \<notin> set t" "34 \<notin> set t" "t \<noteq> []" "\<not> is_blank (hd t)" "length t \<le> 1023"
  shows "decomposeValue t 1024 [] 0 = Some (t, [])"
proof -
  have "dropWhile is_blank t = t" using assms(3,4) by (cases t) auto
  moreover have "value_text (t @ []) = (t, [])" using assms by (intro plain_value) (cases t; auto)+
  ultimately show ?thesis using assms(5) by (simp add: decomposeValue_def decompose_end)
qed

section \<open>The parts\<close>

lemma header_text_bytes: "header_text s \<Longrightarrow> \<forall>c \<in> set s. c \<notin> {0, 10, 13, 58}"
  by (auto simp: header_text_def)

lemma disposition_text:
  assumes "sendable b p"
  shows "\<forall>c \<in> set (disposition p). c \<notin> {0, 10, 13, 58}" "disposition p \<noteq> []" "\<not> is_blank (hd (disposition p))" "length (disposition p) \<le> 1023"
proof -
  note p = assms(1) [unfolded sendable_def]
  have c: "\<forall>c \<in> set (bytes_of ''form-data; name=''). c \<notin> {0, 10, 13, 58}" "\<forall>c \<in> set (bytes_of ''; filename=''). c \<notin> {0, 10, 13, 58}"
    by (simp_all add: bytes_of_def)
  show "\<forall>c \<in> set (disposition p). c \<notin> {0, 10, 13, 58}"
  proof (cases "p_file p")
    case None
    with c p header_text_bytes [of "p_name p"] show ?thesis by (simp add: disposition_def ball_Un)
  next
    case (Some ft)
    with c p header_text_bytes [of "p_name p"] header_text_bytes [of "file_name p"] show ?thesis
      by (cases ft) (simp add: disposition_def file_name_def ball_Un)
  qed
  show "disposition p \<noteq> []" "\<not> is_blank (hd (disposition p))" by (simp_all add: disposition_def bytes_of_def is_blank_def)
  show "length (disposition p) \<le> 1023"
    using p by (auto simp: disposition_def file_name_def bytes_of_def split: option.split prod.split)
qed

lemma part_headers:
  assumes "sendable b p" "reads cl m 2 (part_head p @ s)"
  shows "\<exists>m'. headers_loop cl \<lparr>h_value = [], h_name = [], h_fileName = [], h_contentType = []\<rparr> m =
       Some (Some \<lparr>h_value = bytes_of ''form-data'', h_name = p_name p, h_fileName = file_name p, h_contentType = file_type p\<rparr>, m') \<and> reads cl m' 0 s"
proof -
  let ?h = "\<lparr>h_value = bytes_of ''form-data'', h_name = p_name p, h_fileName = file_name p, h_contentType = []\<rparr>"
  define u where "u = (case p_file p of None \<Rightarrow> [] | Some (_, t) \<Rightarrow> bytes_of ''Content-Type: '' @ t @ [13, 10]) @ [13, 10] @ s"
  note p = assms(1) [unfolded sendable_def]
  have h: "part_head p @ s = bytes_of ''Content-Disposition'' @ [58, 32] @ disposition p @ [13, 10] @ u"
    by (simp add: part_head_def u_def bytes_of_def)
  note d = disposition_text [OF assms(1)]
  have cd: "\<forall>c \<in> set (bytes_of ''Content-Disposition''). \<not> is_blank c \<and> c \<noteq> 58 \<and> c \<noteq> 0" "bytes_of ''Content-Disposition'' \<noteq> []"
    "length (bytes_of ''Content-Disposition'') \<le> 1023" by (simp_all add: bytes_of_def is_blank_def)
  have ct: "\<forall>c \<in> set (bytes_of ''Content-Type''). \<not> is_blank c \<and> c \<noteq> 58 \<and> c \<noteq> 0" "bytes_of ''Content-Type'' \<noteq> []"
    "length (bytes_of ''Content-Type'') \<le> 1023" by (simp_all add: bytes_of_def is_blank_def)
  obtain m1 where m1: "readHeaderLine cl m = Some (Some (bytes_of ''Content-Disposition'', disposition p), m1)" "reads cl m1 0 u"
    using header_line [OF assms(2) [unfolded h] cd d] by blast
  have put: "put_header (bytes_of ''Content-Disposition'') (disposition p) \<lparr>h_value = [], h_name = [], h_fileName = [], h_contentType = []\<rparr> = Some ?h"
    using disposition_value [of p] p by (simp add: put_header_def cgiStrEqNc_def rd_def)
  have "\<exists>m'. headers_loop cl ?h m1 = Some (Some (?h\<lparr>h_contentType := file_type p\<rparr>), m') \<and> reads cl m' 0 s"
  proof (cases "p_file p")
    case None
    then have "reads cl m1 0 (13 # 10 # s)" using m1(2) by (simp add: u_def)
    from header_blank [OF this] None show ?thesis by (subst headers_loop.simps) (auto simp: file_type_def)
  next
    case (Some ft)
    then obtain f t where ft: "p_file p = Some (f, t)" by (cases ft) auto
    have t: "header_text t" "59 \<notin> set t" "t \<noteq> []" "\<not> is_blank (hd t)" "length t \<le> 1023" "34 \<notin> set t" using p ft by (auto simp: header_text_def)
    have "u = bytes_of ''Content-Type'' @ [58, 32] @ t @ [13, 10] @ 13 # 10 # s" using ft by (simp add: u_def bytes_of_def)
    then have "reads cl m1 2 (bytes_of ''Content-Type'' @ [58, 32] @ t @ [13, 10] @ 13 # 10 # s)" using m1(2) by (auto elim: reads_mono)
    then obtain m2 where m2: "readHeaderLine cl m1 = Some (Some (bytes_of ''Content-Type'', t), m2)" "reads cl m2 0 (13 # 10 # s)"
      using header_line [OF _ ct header_text_bytes [OF t(1)] t(3,4,5)] by (metis append_Cons append_Nil)
    obtain m3 where m3: "readHeaderLine cl m2 = Some (None, m3)" "reads cl m3 0 s" using header_blank [OF m2(2)] by auto
    have "put_header (bytes_of ''Content-Type'') t ?h = Some (?h\<lparr>h_contentType := t\<rparr>)"
      using type_value [OF t(2,6,3,4,5)] by (simp add: put_header_def cgiStrEqNc_def) (simp add: bytes_of_def cgi_lower_def)
    moreover have "headers_loop cl (?h\<lparr>h_contentType := t\<rparr>) m2 = Some (Some (?h\<lparr>h_contentType := t\<rparr>), m3)"
      by (subst headers_loop.simps) (simp add: m3(1))
    ultimately have "headers_loop cl ?h m1 = Some (Some (?h\<lparr>h_contentType := t\<rparr>), m3)" by (subst headers_loop.simps) (simp add: m2(1))
    with m3(2) ft show ?thesis by (simp add: file_type_def)
  qed
  with m1(1) put show ?thesis by (subst headers_loop.simps) simp
qed

lemma last_text: "stream cl m [45, 45] [13, 10] \<Longrightarrow> reads cl m 2 (part_text b [])"
  unfolding reads_def by (intro exI [of _ "[45, 45]"] exI [of _ "[13, 10]"]) simp

lemma body_read:
  assumes "reads cl m 0 (x @ workingBoundary b False @ (if ps = [] then [] else [13, 10]) @ part_text b ps)"
    and "\<not> sublist (workingBoundary b False) x" "13 \<notin> set b" "length b \<le> 1020"
  shows "\<exists>m'. afterNextBoundary cl b False m = Some (Some x, m') \<and> reads cl m' 2 (part_text b ps)"
proof (cases ps)
  case Nil
  with assms(1) have "stream cl m [] (x @ workingBoundary b False @ [45, 45] @ [13, 10])" by (simp add: reads_stream)
  from afterNextBoundary_finds [OF this assms(3,4,2)] obtain m' where
    "afterNextBoundary cl b False m = Some (Some x, m')" "stream cl m' [45, 45] [13, 10]" by auto
  with Nil last_text show ?thesis by blast
next
  case (Cons p qs)
  with assms(1) have "stream cl m [] (x @ workingBoundary b False @ [13, 10] @ part_text b ps)" by (simp add: reads_stream)
  from afterNextBoundary_finds [OF this assms(3,4,2)] obtain m' where
    "afterNextBoundary cl b False m = Some (Some x, m')" "stream cl m' [] (part_text b ps)" by auto
  then show ?thesis using reads_now by blast
qed

lemma part_received:
  fixes fs :: tmp_files and k :: nat
  assumes "sendable b p" "good_tmp env" "13 \<notin> set b" "length b \<le> 1020"
    and "reads cl m 0 (p_data p @ workingBoundary b False @ (if ps = [] then [] else [13, 10]) @ part_text b ps)"
  defines "h \<equiv> \<lparr>h_value = bytes_of ''form-data'', h_name = p_name p, h_fileName = file_name p, h_contentType = file_type p\<rparr>"
    and "fs' \<equiv> if file_name p = [] then fs else fs(the (tmp_name env k) \<mapsto> p_data p)"
  shows "\<exists>e m'. read_part env cl b k h fs m = Some (Some e, fs', m') \<and> received fs' p e \<and> reads cl m' 2 (part_text b ps) \<and>
     (file_name p \<noteq> [] \<longrightarrow> e_tfileName e = the (tmp_name env k))"
proof -
  have "\<not> sublist (workingBoundary b False) (p_data p)" using assms(1) by (simp add: sendable_def)
  from body_read [OF assms(5) this assms(3,4)] obtain m' where
    m': "afterNextBoundary cl b False m = Some (Some (p_data p), m')" "reads cl m' 2 (part_text b ps)" by blast
  obtain t where t: "tmp_name env k = Some t" "t \<noteq> []" "tmp_opens env k" using assms(2) unfolding good_tmp_def by blast
  show ?thesis using m' t by (auto simp: read_part_def h_def fs'_def received_def Let_def)
qed

lemma received_later:
  assumes "received fs p e" "fs \<subseteq>\<^sub>m fs'"
  shows "received fs' p e"
  using assms by (auto simp: received_def map_le_def dom_def split: if_splits)

lemma parts_received:
  assumes "reads cl m 2 (part_text b ps)" "\<forall>p \<in> set ps. sendable b p" "good_tmp env" "13 \<notin> set b" "length b \<le> 1020"
    and "\<forall>j \<ge> k. the (tmp_name env j) \<notin> dom fs"
  shows "\<exists>es' fs'. parts_loop env cl b k es fs m = Some (Parsed (es @ es'), fs') \<and> fs \<subseteq>\<^sub>m fs' \<and> list_all2 (received fs') ps es' \<and>
     dom fs' \<subseteq> dom fs \<union> set (map e_tfileName es')"
  using assms(1,2,6)
proof (induction ps arbitrary: k es fs m)
  case Nil
  then obtain m' where "mpRead cl 2 m = Some (2, [45, 45], m')" using reads_pair [of cl m 45 45 "[13, 10]"] by auto
  then show ?case by (subst parts_loop.simps) simp
next
  case (Cons p ps)
  define u where "u = p_data p @ workingBoundary b False @ (if ps = [] then [] else [13, 10]) @ part_text b ps"
  have pt: "part_text b (p # ps) = part_head p @ u" by (simp add: u_def)
  then obtain w where w: "part_text b (p # ps) = 67 # 111 # w" by (auto simp: part_head_def bytes_of_def)
  obtain m1 where m1: "mpRead cl 2 m = Some (2, [67, 111], m1)" "reads cl m1 0 w" using reads_pair Cons.prems(1) unfolding w by blast
  obtain m2 where m2: "mpPutBack [67, 111] m1 = Some m2" "reads cl m2 2 (part_head p @ u)"
    using reads_put [OF m1(2), of "[67, 111]"] pt w by (auto simp: numeral_2_eq_2)
  have sp: "sendable b p" using Cons.prems(2) by simp
  obtain m3 where m3: "headers_loop cl \<lparr>h_value = [], h_name = [], h_fileName = [], h_contentType = []\<rparr> m2 =
      Some (Some \<lparr>h_value = bytes_of ''form-data'', h_name = p_name p, h_fileName = file_name p, h_contentType = file_type p\<rparr>, m3)"
    "reads cl m3 0 u" using part_headers [OF sp m2(2)] by blast
  define fs1 where "fs1 = (if file_name p = [] then fs else fs(the (tmp_name env k) \<mapsto> p_data p))"
  obtain e m4 where m4: "read_part env cl b k \<lparr>h_value = bytes_of ''form-data'', h_name = p_name p, h_fileName = file_name p, h_contentType = file_type p\<rparr> fs m3 =
      Some (Some e, fs1, m4)" "received fs1 p e" "reads cl m4 2 (part_text b ps)"
    "file_name p \<noteq> [] \<longrightarrow> e_tfileName e = the (tmp_name env k)"
    using part_received [OF sp assms(3-5), of cl m3 ps k fs] m3(2) unfolding u_def fs1_def by auto
  define k1 where "k1 = (if file_name p = [] then k else k + 1)"
  have "the (tmp_name env j) \<noteq> the (tmp_name env k)" if "j \<noteq> k" for j
    using assms(3) that unfolding good_tmp_def inj_def by (metis option.sel)
  then have free: "\<forall>j \<ge> k1. the (tmp_name env j) \<notin> dom fs1" "fs \<subseteq>\<^sub>m fs1"
    using Cons.prems(3) by (auto simp: k1_def fs1_def map_le_def dom_def)
  have "\<exists>es' fs'. parts_loop env cl b k1 (es @ [e]) fs1 m4 = Some (Parsed ((es @ [e]) @ es'), fs') \<and> fs1 \<subseteq>\<^sub>m fs' \<and>
      list_all2 (received fs') ps es' \<and> dom fs' \<subseteq> dom fs1 \<union> set (map e_tfileName es')"
    by (rule Cons.IH [OF m4(3) _ free(1)]) (use Cons.prems(2) in simp)
  then obtain es' fs' where r: "parts_loop env cl b k1 (es @ [e]) fs1 m4 = Some (Parsed ((es @ [e]) @ es'), fs')" "fs1 \<subseteq>\<^sub>m fs'"
    "list_all2 (received fs') ps es'" "dom fs' \<subseteq> dom fs1 \<union> set (map e_tfileName es')" by blast
  have "parts_loop env cl b k es fs m = Some (Parsed (es @ e # es'), fs')"
    using r(1) by (subst parts_loop.simps) (simp add: m1(1) m2(1) m3(1) m4(1) k1_def cgiStrEqNc_def)
  moreover have "fs \<subseteq>\<^sub>m fs'" using free(2) r(2) by (rule map_le_trans)
  moreover have "dom fs' \<subseteq> dom fs \<union> set (map e_tfileName (e # es'))" using r(4) m4(4) by (auto simp: fs1_def split: if_splits)
  ultimately show ?case using r(2,3) received_later [OF m4(2)] by (intro exI [of _ "e # es'"] exI [of _ fs']) simp
qed

lemma multipart_received:
  assumes "cgiIn q = multipart_body b ps" "cgiContentLength q = int (length (multipart_body b ps))"
    and "\<forall>p \<in> set ps. sendable b p" "good_tmp env" "13 \<notin> set b" "length b \<le> 1020"
  shows "\<exists>es fs. cgiParsePostMultipartInput env b q = Some (Parsed es, fs) \<and> list_all2 (received fs) ps es \<and>
     dom fs \<subseteq> set (map e_tfileName es)"
proof -
  let ?cl = "cgiContentLength q"
  have s: "stream ?cl (mp_start (cgiIn q)) [] (workingBoundary b True @ (if ps = [] then [] else [13, 10]) @ part_text b ps)"
    using stream_start [of "cgiIn q" ?cl] assms(1,2) by (simp add: multipart_body_def)
  have "\<exists>m. afterNextBoundary ?cl b True (mp_start (cgiIn q)) = Some (Some [], m) \<and> reads ?cl m 2 (part_text b ps)"
  proof (cases ps)
    case Nil
    with s have "stream ?cl (mp_start (cgiIn q)) [] (workingBoundary b True @ [45, 45] @ [13, 10])" by simp
    from afterNextBoundary_first [OF this] Nil last_text show ?thesis by auto
  next
    case (Cons p qs)
    with s have "stream ?cl (mp_start (cgiIn q)) [] (workingBoundary b True @ [13, 10] @ part_text b ps)" by simp
    from afterNextBoundary_first [OF this] show ?thesis using reads_now by auto
  qed
  then obtain m where m: "afterNextBoundary ?cl b True (mp_start (cgiIn q)) = Some (Some [], m)" "reads ?cl m 2 (part_text b ps)" by blast
  obtain es fs where "parts_loop env ?cl b 0 [] Map.empty m = Some (Parsed ([] @ es), fs)" "list_all2 (received fs) ps es"
    "dom fs \<subseteq> dom (Map.empty :: tmp_files) \<union> set (map e_tfileName es)"
    using parts_received [OF m(2) assms(3-6), of 0 Map.empty "[]"] by auto
  moreover have "?cl \<noteq> 0" using assms(2) by (simp add: multipart_body_def workingBoundary_def)
  ultimately show ?thesis using m(1) by (simp add: cgiParsePostMultipartInput_def)
qed

end
