(* ===== verification/Multipart_Props.thy ===== *)
theory Multipart_Props
  imports Multipart_Sent
begin

text \<open>
  The properties of uploads: the parser returns on every input, takes apart what a browser sends, and
  \<open>upgrade.cgi\<close> installs the file that was sent; and what the parser does with a parameter it does not
  know and with the length that was declared.
\<close>

section \<open>The parser returns\<close>

text \<open>C32: the parser of uploads returns, without leaving its buffers, on every input that is not longer than
  the length that was declared for it, whatever the content type of the request is.\<close>

theorem upload_parser_returns:
  assumes "int (length (cgiIn q)) \<le> cgiContentLength q"
  shows "\<exists>r fs. cgiParsePostMultipartInput env (snd (content_type e)) q = Some (r, fs)"
  using multipart_returns [OF assms content_type_boundary] .

definition demo_tmp :: tmp_env where
  "demo_tmp = \<lparr>tmp_name = (\<lambda>k. Some (replicate (Suc k) 120)), tmp_opens = (\<lambda>_. True)\<rparr>"

definition demo_request :: "bytes \<Rightarrow> cgi_request" where
  "demo_request i = \<lparr>cgiRequestMethod = bytes_of ''POST'', cgiContentType = bytes_of ''multipart/form-data'', cgiContentLength = int (length i),
     cgiQueryString = [], cgiRemoteAddr = [49], cgiIn = i\<rparr>"

theorem upload_parser_returns_witness:
  "\<exists>r fs. cgiParsePostMultipartInput demo_tmp (snd (content_type (bytes_of ''multipart/form-data; boundary=x'')))
     (demo_request [45, 45, 120, 13, 10, 13, 65, 45, 45]) = Some (r, fs)"
  using upload_parser_returns [of "demo_request [45, 45, 120, 13, 10, 13, 65, 45, 45]"] by (simp add: demo_request_def)

section \<open>What a browser sends\<close>

lemma good_demo_tmp: "good_tmp demo_tmp"
  by (auto simp: good_tmp_def demo_tmp_def inj_def)

text \<open>C30: a form that a browser sends part by part, its files in temporary files, is taken apart into
  exactly its parts, in their order; the contents of a file are those that were sent, whatever bytes
  they are, as long as the boundary is not among them.\<close>

theorem multipart_round_trip:
  assumes "cgiIn q = multipart_body b ps" "cgiContentLength q = int (length (multipart_body b ps))"
    and "\<forall>p \<in> set ps. sendable b p" "good_tmp env" "13 \<notin> set b" "length b \<le> 1020"
  shows "\<exists>es fs. cgiParsePostMultipartInput env b q = Some (Parsed es, fs) \<and> list_all2 (received fs) ps es"
  using multipart_received [OF assms] by blast

definition demo_parts :: "form_part list" where
  "demo_parts = [\<lparr>p_name = bytes_of ''upfile'', p_file = Some (bytes_of ''nand1-2.tar.gz'', bytes_of ''application/gzip''), p_data = [0, 13, 10, 45, 45, 255]\<rparr>,
     \<lparr>p_name = bytes_of ''upgrade'', p_file = None, p_data = [49]\<rparr>]"

lemma sendable_demo: "\<forall>p \<in> set demo_parts. sendable [120] p"
  by (simp add: demo_parts_def sendable_def header_text_def file_name_def bytes_of_def is_blank_def workingBoundary_def sublist_Cons_right prefix_def)

theorem multipart_round_trip_witness:
  "\<exists>es fs. cgiParsePostMultipartInput demo_tmp [120] (demo_request (multipart_body [120] demo_parts)) = Some (Parsed es, fs) \<and>
     fs (e_tfileName (es ! 0)) = Some [0, 13, 10, 45, 45, 255] \<and> e_value (es ! 1) = [49]"
proof -
  obtain es fs where "cgiParsePostMultipartInput demo_tmp [120] (demo_request (multipart_body [120] demo_parts)) = Some (Parsed es, fs)"
    "list_all2 (received fs) demo_parts es"
    using multipart_round_trip [of "demo_request (multipart_body [120] demo_parts)" "[120]" demo_parts demo_tmp] sendable_demo good_demo_tmp
    by (auto simp: demo_request_def)
  then show ?thesis by (auto simp: demo_parts_def list_all2_Cons1 received_def file_name_def bytes_of_def)
qed

section \<open>Upgrades\<close>

text \<open>The form of \<open>upgrade.c\<close>, with the file and the button.\<close>

definition upgrade_form :: "bytes \<Rightarrow> bytes \<Rightarrow> bytes \<Rightarrow> form_part list" where
  "upgrade_form t label c = [\<lparr>p_name = bytes_of ''upfile'', p_file = Some (bytes_of ''nand1-2.tar.gz'', t), p_data = c\<rparr>,
     \<lparr>p_name = bytes_of ''upgrade'', p_file = None, p_data = label\<rparr>]"

lemma upgrade_form_entries:
  assumes "list_all2 (received fs) (upgrade_form t label c) es" "int (length c) \<le> UPDATE_FILE_LEN_MAX"
  shows "writeFile (upfile True es fs) True = Some (0, Some c)" "clicked ''upgrade'' (map cgiFormEntry.truncate es)"
proof -
  obtain e e' where es: "es = [e, e']" "received fs (upgrade_form t label c ! 0) e" "received fs (upgrade_form t label c ! 1) e'"
    using assms(1) by (auto simp: upgrade_form_def list_all2_Cons1)
  have e: "e_attr e = bytes_of ''upfile''" "e_fileName e = bytes_of ''nand1-2.tar.gz''" "e_valueLength e = int (length c)" "e_tfileName e \<noteq> []"
    "fs (e_tfileName e) = Some c" "e_attr e' = bytes_of ''upgrade''"
    using es(2,3) by (simp_all add: upgrade_form_def received_def file_name_def bytes_of_def)
  have "find_upload (bytes_of ''upfile'') es = Some e" using es(1) e(1) by (simp add: find_upload_def)
  then have "upfile True es fs = \<lparr>up_name = Some (bytes_of ''nand1-2.tar.gz''), up_size = int (length c), up_open = True, up_data = c\<rparr>"
    using e(2-5) by (simp add: upfile_def cgiFormFileName_def cgiFormFileSize_def cgiFormFileOpen_def) (simp add: bytes_of_def)
  then show "writeFile (upfile True es fs) True = Some (0, Some c)"
    using write_file_loop_all [of "zeros 1024" c] assms(2) by (simp add: writeFile_def)
  show "clicked ''upgrade'' (map cgiFormEntry.truncate es)"
    using es(1) e(6) by (simp add: clicked_def cgiFormCheckboxSingle_def cgiFormEntryFindFirst_def cgiFormEntry.truncate_def)
qed

text \<open>C31: an upgrade end to end. A user with a session sends the form of the upgrade page with a file of the expected
  name and at most eight megabytes: the file is stored byte by byte, the commands that unpack it and restart
  the board are run, and no temporary file is left.\<close>

theorem uploaded_file_is_installed:
  assumes "cgiIn q = multipart_body b (upgrade_form t label c)" "cgiContentLength q = int (length (cgiIn q))"
    and "\<forall>p \<in> set (upgrade_form t label c). sendable b p" "good_tmp env" "13 \<notin> set b" "length b \<le> 1020"
    and "int (length c) \<le> UPDATE_FILE_LEN_MAX" "length (cgiRemoteAddr q) \<le> 23" "n \<noteq> []" "length n \<le> 32"
  shows "upgrade_request env b q (Some n) True True = Some (Some (Saved, Some c,
     [UpSystem (bytes_of ''/sbin/reboot -d 30 &''),
      UpSystem (bytes_of ''/bin/tar -xzf  /mnt/nand1-2/update.tar.gz  -C /mnt/nand1-2/ &''), UpSleep 20]), Map.empty)"
proof -
  obtain es fs where r: "cgiParsePostMultipartInput env b q = Some (Parsed es, fs)" "list_all2 (received fs) (upgrade_form t label c) es"
    "dom fs \<subseteq> set (map e_tfileName es)"
    using multipart_received [OF assms(1) _ assms(3-6)] assms(1,2) by auto
  have "cgiFreeResources es fs = Map.empty" using r(3) by (auto simp: cgiFreeResources_def restrict_map_def fun_eq_iff dom_def)
  then show ?thesis
    using upgrade_form_entries [OF r(2) assms(7)] session_found [OF assms(8-10)]
    by (simp add: upgrade_request_def r(1) upgrade_main_def)
qed

theorem uploaded_file_is_installed_witness:
  "\<exists>evs. upgrade_request demo_tmp [120] (demo_request (multipart_body [120] (upgrade_form [120] [49] [0, 13, 10, 45, 45, 255]))) (Some [117]) True True
     = Some (Some (Saved, Some [0, 13, 10, 45, 45, 255], evs), Map.empty)"
proof -
  have s: "\<forall>p \<in> set (upgrade_form [120] [49] [0, 13, 10, 45, 45, 255]). sendable [120] p"
    by (simp add: upgrade_form_def sendable_def header_text_def file_name_def bytes_of_def is_blank_def workingBoundary_def sublist_Cons_right prefix_def)
  show ?thesis
    using uploaded_file_is_installed [OF _ _ s good_demo_tmp, of "demo_request (multipart_body [120] (upgrade_form [120] [49] [0, 13, 10, 45, 45, 255]))" "[117]"]
    by (simp add: demo_request_def UPDATE_FILE_LEN_MAX_def)
qed

section \<open>Parameters that nobody asked for\<close>

lemma foreign_disposition:
  assumes "\<forall>c \<in> set nm. is_alnum c" "length nm \<le> 1023" "header_text v"
    and "arg_index nm 0 [bytes_of ''name'', bytes_of ''filename''] = None"
  shows "decomposeValue (bytes_of ''form-data; '' @ nm @ 61 # 34 # v @ [34]) 1024 [bytes_of ''name'', bytes_of ''filename''] 1024 = None"
proof -
  let ?r = "59 # 32 # nm @ 61 # 34 # v @ 34 # []"
  have f: "bytes_of ''form-data; '' @ nm @ 61 # 34 # v @ [34] = bytes_of ''form-data'' @ ?r" by (simp add: bytes_of_def)
  have "dropWhile is_blank (bytes_of ''form-data'' @ ?r) = bytes_of ''form-data'' @ ?r" by (simp add: bytes_of_def is_blank_def)
  moreover have "value_text (bytes_of ''form-data'' @ ?r) = (bytes_of ''form-data'', ?r)" by (rule plain_value) (simp_all add: bytes_of_def)
  moreover have "34 \<notin> set v" using assms(3) by (auto simp: header_text_def)
  ultimately show ?thesis unfolding f using decompose_arg [OF assms(1,2), of v "[]"] assms(4) by (simp add: decomposeValue_def)
qed

lemma foreign_header:
  assumes "\<forall>c \<in> set nm. is_alnum c" "length nm + length v \<le> 1000" "header_text v"
    and "arg_index nm 0 [bytes_of ''name'', bytes_of ''filename''] = None"
    and "reads cl m 2 (bytes_of ''Content-Disposition: form-data; '' @ nm @ 61 # 34 # v @ 34 # 13 # 10 # s)"
  shows "\<exists>m'. headers_loop cl h m = Some (None, m')"
proof -
  let ?v = "bytes_of ''form-data; '' @ nm @ 61 # 34 # v @ [34]"
  have nm: "\<forall>c \<in> set nm. c \<notin> {0, 10, 13, 58}" using assms(1) by (auto simp: is_alnum_def is_digit_def word_le_nat_alt)
  have t: "bytes_of ''Content-Disposition: form-data; '' @ nm @ 61 # 34 # v @ 34 # 13 # 10 # s =
      bytes_of ''Content-Disposition'' @ [58, 32] @ ?v @ [13, 10] @ s" by (simp add: bytes_of_def)
  have cd: "\<forall>c \<in> set (bytes_of ''Content-Disposition''). \<not> is_blank c \<and> c \<noteq> 58 \<and> c \<noteq> 0" "bytes_of ''Content-Disposition'' \<noteq> []"
    "length (bytes_of ''Content-Disposition'') \<le> 1023" by (simp_all add: bytes_of_def is_blank_def)
  have "\<forall>c \<in> set (bytes_of ''form-data; ''). c \<notin> {0, 10, 13, 58}" by (simp add: bytes_of_def)
  then have v: "\<forall>c \<in> set ?v. c \<notin> {0, 10, 13, 58}" using nm header_text_bytes [OF assms(3)] by (simp add: ball_Un)
  have l: "?v \<noteq> []" "\<not> is_blank (hd ?v)" "length ?v \<le> 1023" using assms(2) by (simp_all add: bytes_of_def is_blank_def)
  obtain m1 where "readHeaderLine cl m = Some (Some (bytes_of ''Content-Disposition'', ?v), m1)"
    using header_line [OF assms(5) [unfolded t] cd v l] by blast
  moreover have "put_header (bytes_of ''Content-Disposition'') ?v h = None"
    using foreign_disposition [OF assms(1) _ assms(3,4)] assms(2) by (simp add: put_header_def cgiStrEqNc_def)
  ultimately show ?thesis by (subst headers_loop.simps) simp
qed



section \<open>The declared length\<close>

text \<open>A stream whose put-back buffer is empty, at the offset \<open>k\<close>.\<close>

definition idle :: "int \<Rightarrow> bytes \<Rightarrow> mpStream \<Rightarrow> bool" where
  "idle k i m \<longleftrightarrow> length (putback m) = 1024 \<and> readPos m = writePos m \<and> readPos m < 1024 \<and> mp_offset m = k \<and> mp_in m = i"

lemma idle_read:
  assumes "idle k (c # i) m" "k < cl"
  shows "\<exists>m'. mpRead cl (Suc 0) m = Some (1, [c], m') \<and> idle (k + 1) i m'"
  using assms by (auto simp: idle_def mpRead_def Let_def nat_eq_iff split: if_splits)

text \<open>A byte that is put back and read again takes the offset back by one.\<close>

lemma idle_put_read:
  assumes "idle k i m" "k - 1 \<le> cl"
  shows "\<exists>m1 m2. mpPutBack [c] m = Some m1 \<and> mpRead cl (Suc 0) m1 = Some (1, [c], m2) \<and> idle (k - 1) i m2"
  using assms by (auto simp: idle_def mpPutBack_def wr_def mpRead_def rd_def Let_def mod_if split: if_splits)

lemma false_start:
  assumes "idle k (45 # c # i) m" "c \<noteq> 45" "k + 2 \<le> cl"
  shows "\<exists>m'. boundary_loop cl (workingBoundary b True) 0 out m = boundary_loop cl (workingBoundary b True) 0 (out @ [45, c]) m' \<and> idle (k + 1) i m'"
proof -
  have w: "0 < length (workingBoundary b True)" "Suc 0 < length (workingBoundary b True)" "workingBoundary b True ! 0 = 45" "workingBoundary b True ! Suc 0 = 45"
    by (simp_all add: workingBoundary_def)
  obtain m1 where m1: "mpRead cl (Suc 0) m = Some (1, [45], m1)" "idle (k + 1) (c # i) m1" using idle_read [OF assms(1), of cl] assms(3) by auto
  obtain m2 where m2: "mpRead cl (Suc 0) m1 = Some (1, [c], m2)" "idle (k + 1 + 1) i m2" using idle_read [OF m1(2), of cl] assms(3) by auto
  have "mpPutBack [] m2 = Some m2" by (simp add: mpPutBack_def)
  moreover obtain m3 m4 where m3: "mpPutBack [c] m2 = Some m3" "mpRead cl (Suc 0) m3 = Some (1, [c], m4)" "idle (k + 1 + 1 - 1) i m4"
    using idle_put_read [OF m2(2), of cl] assms(3) by force
  ultimately have "boundary_loop cl (workingBoundary b True) 0 out m = boundary_loop cl (workingBoundary b True) 0 (out @ [45, c]) m4"
    using assms(2) by (simp add: boundary_step [OF m1(1) w(1)] boundary_step [OF m2(1) w(2)] boundary_step [OF m3(2) w(1)] w(3,4))
  moreover have "idle (k + 1) i m4" using m3(3) by (simp add: idle_def)
  ultimately show ?thesis by blast
qed

lemma false_starts:
  assumes "idle k (concat (replicate n [45, c]) @ i) m" "c \<noteq> 45" "k + int n + 1 \<le> cl"
  shows "\<exists>out' m'. boundary_loop cl (workingBoundary b True) 0 out m = boundary_loop cl (workingBoundary b True) 0 out' m' \<and> idle (k + int n) i m'"
  using assms(1,3)
proof (induction n arbitrary: k m out)
  case 0
  then show ?case by auto
next
  case (Suc n)
  obtain m1 where m1: "boundary_loop cl (workingBoundary b True) 0 out m = boundary_loop cl (workingBoundary b True) 0 (out @ [45, c]) m1"
    "idle (k + 1) (concat (replicate n [45, c]) @ i) m1"
    using false_start [of k c "concat (replicate n [45, c]) @ i" m cl b out] Suc.prems assms(2) by auto
  have "k + 1 + int n + 1 \<le> cl" using Suc.prems(2) by simp
  from Suc.IH [OF m1(2) this, of "out @ [45, c]"] show ?case unfolding m1(1) by (simp add: add.assoc add.commute add.left_commute)
qed

lemma idle_boundary:
  assumes "idle k (drop boffset wb @ i) m" "boffset < length wb" "k + int (length wb - boffset) \<le> cl"
  shows "\<exists>m'. boundary_loop cl wb boffset out m = Some (Some out, m') \<and> idle (k + int (length wb - boffset)) i m'"
  using assms
proof (induction "length wb - boffset" arbitrary: boffset k m)
  case (Suc n)
  have d: "drop boffset wb @ i = wb ! boffset # drop (boffset + 1) wb @ i" using Suc.prems(2) by (simp add: Cons_nth_drop_Suc)
  obtain m' where m': "mpRead cl (Suc 0) m = Some (1, [wb ! boffset], m')" "idle (k + 1) (drop (boffset + 1) wb @ i) m'"
    using idle_read [OF Suc.prems(1) [unfolded d], of cl] Suc.prems(2,3) by auto
  show ?case
  proof (cases "boffset + 1 = length wb")
    case True
    with m'(2) Suc.prems(2) show ?thesis by (simp add: boundary_step [OF m'(1)] flip: True)
  next
    case False
    have e: "k + 1 + int (length wb - (boffset + 1)) = k + int (length wb - boffset)" using Suc.prems(2) by simp
    have "\<exists>m''. boundary_loop cl wb (boffset + 1) out m' = Some (Some out, m'') \<and> idle (k + 1 + int (length wb - (boffset + 1))) i m''"
      by (rule Suc.hyps(1) [OF _ m'(2)]) (use Suc.hyps(2) Suc.prems(2,3) False e in auto)
    with False Suc.prems(2) show ?thesis unfolding e by (simp add: boundary_step [OF m'(1)])
  qed
qed simp

text \<open>C37: the limit by the declared length counts a byte that was put back and read again as not read: a request
  can make the search for the first boundary read nearly twice as many bytes as it declares, and find the
  boundary behind them.\<close>

theorem reads_past_declared_length:
  assumes "c \<noteq> 45"
  shows "\<exists>out m. afterNextBoundary (int (n + length b + 4)) b True (mp_start (concat (replicate n [45, c]) @ workingBoundary b True @ [13, 10]))
     = Some (Some out, m) \<and> mp_in m = []"
proof -
  let ?cl = "int (n + length b + 4)" and ?wb = "workingBoundary b True"
  have "idle 0 (concat (replicate n [45, c]) @ ?wb @ [13, 10]) (mp_start (concat (replicate n [45, c]) @ ?wb @ [13, 10]))"
    by (simp add: idle_def mp_start_def)
  from false_starts [OF this assms, of ?cl b "[]"] obtain out m1 where
    m1: "boundary_loop ?cl ?wb 0 [] (mp_start (concat (replicate n [45, c]) @ ?wb @ [13, 10])) = boundary_loop ?cl ?wb 0 out m1"
      "idle (0 + int n) (drop 0 ?wb @ [13, 10]) m1" by auto
  obtain m2 where m2: "boundary_loop ?cl ?wb 0 out m1 = Some (Some out, m2)" "idle (0 + int n + int (length ?wb - 0)) [13, 10] m2"
    using idle_boundary [OF m1(2), of ?cl out] by (auto simp: workingBoundary_def)
  obtain m3 where "mpRead ?cl 2 m2 = Some (2, [13, 10], m3)" "mp_in m3 = []"
    using m2(2) by (auto simp: idle_def mpRead_def Let_def numeral_2_eq_2 split: if_splits)
  then show ?thesis using m1(1) m2(1) by (simp add: afterNextBoundary_def)
qed

theorem reads_past_declared_length_witness:
  "\<exists>out m. afterNextBoundary 6 [120] True (mp_start [45, 65, 45, 45, 120, 13, 10]) = Some (Some out, m) \<and> mp_in m = []"
  using reads_past_declared_length [of 65 1 "[120]"] by (simp add: workingBoundary_def)

end
