(* ===== verification/Cgic_Env_Props.thy ===== *)
theory Cgic_Env_Props
  imports Cgic_Env Multipart_Props
begin

text \<open>
  The saved request: the file is complete or removed, what is in it is restored, and the requests of which
  it does not hold. The interface \<open>saved_data\<close> is what both directions rely on.
\<close>

section \<open>What a stream takes\<close>

definition pushed :: "bytes \<Rightarrow> sink \<Rightarrow> sink" where
  "pushed b s = snd (fput b s)"

definition writes :: "(sink \<Rightarrow> bool \<times> sink) \<Rightarrow> bytes \<Rightarrow> bool" where
  "writes w b \<longleftrightarrow> (\<forall>s. (fst (w s) \<longrightarrow> snd (w s) = pushed b s) \<and> (length b \<le> sk_room s \<longrightarrow> fst (w s)))"

text \<open>A short write may go unnoticed, as that of the length of an empty string does; at the last write it does not.\<close>

definition exact :: "(sink \<Rightarrow> bool \<times> sink) \<Rightarrow> bytes \<Rightarrow> bool" where
  "exact w b \<longleftrightarrow> writes w b \<and> (\<forall>s. fst (w s) \<longrightarrow> length b \<le> sk_room s)"

lemma exact_writes: "exact w b \<Longrightarrow> writes w b"
  by (simp add: exact_def)

lemma pushed_room [simp]: "sk_room (pushed b s) = sk_room s - length b"
  by (simp add: pushed_def fput_def)

lemma pushed_append: "pushed b (pushed a s) = pushed (a @ b) s"
  by (simp add: pushed_def fput_def)

lemma pushed_Nil [simp]: "pushed [] s = s"
  by (simp add: pushed_def fput_def)

lemma exact_fput: "exact (fput b) b"
  by (simp add: exact_def writes_def pushed_def) (simp add: fput_def)

lemma writes_nothing: "exact (Pair True) []"
  by (simp add: exact_def writes_def)

lemma and_then_fst: "fst (and_then v w s) \<longleftrightarrow> fst (v s) \<and> fst (w (snd (v s)))"
  by (simp add: and_then_def split: prod.split)

lemma and_then_snd: "fst (v s) \<Longrightarrow> snd (and_then v w s) = snd (w (snd (v s)))"
  by (auto simp: and_then_def split: prod.split)

lemma writes_then: "writes v a \<Longrightarrow> writes w b \<Longrightarrow> writes (and_then v w) (a @ b)"
  by (auto simp: writes_def and_then_fst and_then_snd pushed_append)

lemma exact_room:
  assumes "writes v a" "exact w b" "fst (and_then v w s)"
  shows "fst (v s) \<and> length b \<le> sk_room s - length a"
proof -
  have v: "fst (v s)" and w: "fst (w (snd (v s)))" using assms(3) by (simp_all add: and_then_fst)
  then have "length b \<le> sk_room (pushed a s)" using assms(1,2) unfolding writes_def exact_def by metis
  with v show ?thesis by simp
qed

lemma exactI: "writes w b \<Longrightarrow> (\<And>s. fst (w s) \<Longrightarrow> length b \<le> sk_room s) \<Longrightarrow> exact w b"
  by (simp add: exact_def)

lemma exact_at: "exact w b \<Longrightarrow> fst (w s) = (length b \<le> sk_room s) \<and> (fst (w s) \<longrightarrow> snd (w s) = pushed b s)"
  by (auto simp: exact_def writes_def)

lemma exact_then:
  assumes "exact v a" "exact w b"
  shows "exact (and_then v w) (a @ b)"
proof (rule exactI)
  show "writes (and_then v w) (a @ b)" using assms by (simp add: exact_writes writes_then)
  fix s assume "fst (and_then v w s)"
  then have "fst (v s)" "length b \<le> sk_room s - length a" using exact_room [OF exact_writes [OF assms(1)] assms(2)] by auto
  moreover from this have "length a \<le> sk_room s" using assms(1) by (simp add: exact_def)
  ultimately show "length (a @ b) \<le> sk_room s" by simp
qed

lemma exact_last:
  assumes "writes v a" "exact w b" "b \<noteq> []"
  shows "exact (and_then v w) (a @ b)"
proof (rule exactI)
  show "writes (and_then v w) (a @ b)" using assms by (simp add: exact_writes writes_then)
  fix s assume "fst (and_then v w s)"
  then have "length b \<le> sk_room s - length a" using exact_room [OF assms(1,2)] by auto
  moreover have "0 < length b" using assms(3) by simp
  ultimately have "length a + length b \<le> sk_room s" by arith
  then show "length (a @ b) \<le> sk_room s" by simp
qed

lemma writes_each: "(\<And>x. writes (w x) (f x)) \<Longrightarrow> writes (write_each w xs) (concat (map f xs))"
proof (induction xs)
  case Nil
  have "write_each w [] = Pair True" by (rule ext) simp
  then show ?case using exact_writes [OF writes_nothing] by simp
next
  case (Cons x xs)
  have "write_each w (x # xs) = and_then (w x) (write_each w xs)" by (rule ext) simp
  then show ?case using writes_then [OF Cons.prems Cons.IH [OF Cons.prems]] by simp
qed

section \<open>Data that is saved\<close>

locale saved_data =
  fixes wrt :: "'a \<Rightarrow> sink \<Rightarrow> bool \<times> sink"
    and image :: "'a \<Rightarrow> bytes"
    and rdr :: "bytes \<Rightarrow> ('a \<times> bytes) option option"
    and ok :: "'a \<Rightarrow> bool"
  assumes writes_image: "writes (wrt x) (image x)"
    and read_image: "ok x \<Longrightarrow> rdr (image x @ r) = Some (Some (x, r))"
begin

lemma each_written: "writes (write_each wrt xs) (concat (map image xs))"
  by (simp add: writes_each writes_image)

lemma each_read: "list_all ok xs \<Longrightarrow> read_each rdr (length xs) (concat (map image xs) @ r) = Some (Some (xs, r))"
  by (induction xs) (simp_all add: read_image)

end

definition small_int :: "int \<Rightarrow> bool" where
  "small_int i \<longleftrightarrow> - (2 ^ 31) \<le> i \<and> i < 2 ^ 31"

lemma int_image_length [simp]: "length (int_image i) = 4"
  by (simp add: int_image_def enc32_def)

lemma int_restored: "small_int i \<Longrightarrow> cgiReadInt (int_image i @ r) = Some (i, r)"
  by (simp add: cgiReadInt_def int_image_def dec32_enc32 small_int_def sint_sbintrunc' signed_take_bit_int_eq_self)

interpretation saved_int: saved_data cgiWriteInt int_image "\<lambda>i. Some (cgiReadInt i)" small_int
proof unfold_locales
  show "writes (cgiWriteInt x) (int_image x)" for x
  proof -
    have "cgiWriteInt x = fput (int_image x)" by (rule ext) (simp add: cgiWriteInt_def)
    then show ?thesis using exact_writes [OF exact_fput] by simp
  qed
qed (simp add: int_restored)

definition savable :: "bytes \<Rightarrow> bool" where
  "savable t \<longleftrightarrow> 0 \<notin> set t \<and> int (length t) < 2 ^ 31 - 1"

definition string_image :: "bytes \<Rightarrow> bytes" where
  "string_image t = int_image (int (length t)) @ t"

lemma exact_int: "exact (cgiWriteInt i) (int_image i)"
proof -
  have "cgiWriteInt i = fput (int_image i)" by (rule ext) (simp add: cgiWriteInt_def)
  then show ?thesis by (simp add: exact_fput)
qed

lemma string_written: "writes (cgiWriteString t) (string_image t)"
proof -
  have "cgiWriteString t s = fput t (pushed (int_image (int (length t))) s)" for s
    by (simp add: cgiWriteString_def cgiWriteInt_def pushed_def case_prod_unfold)
  then show ?thesis
    using pushed_append [of t "int_image (int (length t))"] by (simp add: writes_def string_image_def) (auto simp: pushed_def fput_def)
qed

lemma string_restored: "savable t \<Longrightarrow> cgiReadString (string_image t @ r) = Some (Some (t, r))"
  by (auto simp: cgiReadString_def string_image_def int_restored small_int_def savable_def takeWhile_eq_all_conv)

interpretation saved_string: saved_data cgiWriteString string_image cgiReadString savable
  by unfold_locales (simp_all add: string_written string_restored)

lemma copy_blocks_exact: "exact (copy_blocks c) c"
proof (induction c rule: length_induct)
  case (1 c)
  show ?case
  proof (cases "c = []")
    case True
    have "copy_blocks [] = Pair True" by (rule ext) (simp add: copy_blocks.simps)
    then show ?thesis using writes_nothing True by simp
  next
    case False
    have "copy_blocks c = and_then (fput (take 1024 c)) (copy_blocks (drop 1024 c))" using False by (auto simp: copy_blocks.simps)
    then show ?thesis using exact_then [OF exact_fput 1 [rule_format], of "drop 1024 c" "take 1024 c"] False by simp
  qed
qed

section \<open>Entries\<close>

definition file_part :: "upload_entry list \<Rightarrow> tmp_files \<Rightarrow> upload_entry \<Rightarrow> bytes option" where
  "file_part es fs e = (case cgiFormFileOpen (e_attr e) True es fs of (r, c) \<Rightarrow> if r = cgiFormSuccess then Some c else None)"

definition entry_image :: "upload_entry list \<Rightarrow> tmp_files \<Rightarrow> upload_entry \<Rightarrow> bytes" where
  "entry_image es fs e = concat (map string_image [e_attr e, e_value e, e_fileName e, e_contentType e]) @ int_image (e_valueLength e) @
     (case file_part es fs e of None \<Rightarrow> int_image 0 | Some c \<Rightarrow> int_image 1 @ c)"

definition env_image :: "cgi_vars \<Rightarrow> upload_entry list \<Rightarrow> tmp_files \<Rightarrow> bytes" where
  "env_image v es fs = concat (map string_image (CGIC_VERSION # var_texts v)) @ int_image (contentLength v) @
     concat (map (entry_image es fs) es)"

lemma int_image_nonempty [simp]: "int_image i \<noteq> []"
  using int_image_length [of i] by (auto simp del: int_image_length)

lemma entry_written: "exact (write_entry (\<lambda>_. True) es fs e) (entry_image es fs e)"
proof -
  obtain r c where o: "cgiFormFileOpen (e_attr e) True es fs = (r, c)" by fastforce
  let ?w = "if r = cgiFormSuccess then and_then (cgiWriteInt 1) (copy_blocks c) else cgiWriteInt 0"
    and ?i = "case file_part es fs e of None \<Rightarrow> int_image 0 | Some c \<Rightarrow> int_image 1 @ c"
  have "exact ?w ?i" using exact_then [OF exact_int copy_blocks_exact] exact_int by (simp add: file_part_def o)
  then have "exact (and_then (cgiWriteInt (e_valueLength e)) ?w) (int_image (e_valueLength e) @ ?i)" by (rule exact_then [OF exact_int])
  then show ?thesis unfolding write_entry_def entry_image_def o prod.case
    by (rule exact_last [OF saved_string.each_written]) simp
qed

lemma entries_written: "exact (write_each (write_entry (\<lambda>_. True) es fs) todo) (concat (map (entry_image es fs) todo))"
proof (induction todo)
  case Nil
  have "write_each (write_entry (\<lambda>_. True) es fs) [] = Pair True" by (rule ext) simp
  then show ?case using writes_nothing by simp
next
  case (Cons e todo)
  have "write_each (write_entry (\<lambda>_. True) es fs) (e # todo) = and_then (write_entry (\<lambda>_. True) es fs e) (write_each (write_entry (\<lambda>_. True) es fs) todo)"
    by (rule ext) simp
  then show ?case using exact_then [OF entry_written Cons.IH] by simp
qed

text \<open>The file is the image of the request if there is room for it, and is removed otherwise.\<close>

lemma written_whole_or_not:
  "cgiWriteEnvironment True room (\<lambda>_. True) v es fs old = (if length (env_image v es fs) \<le> room
     then (cgiEnvironmentSuccess, Some (env_image v es fs)) else (cgiEnvironmentIO, None))"
proof -
  let ?w = "and_then (write_each cgiWriteString (CGIC_VERSION # var_texts v))
         (and_then (cgiWriteInt (contentLength v)) (write_each (write_entry (\<lambda>_. True) es fs) es))"
    and ?s = "\<lparr>sk_data = [], sk_room = room\<rparr>"
  have x: "exact ?w (env_image v es fs)" unfolding env_image_def
    by (rule exact_last [OF saved_string.each_written exact_then [OF exact_int entries_written]]) simp
  obtain ok s where w: "?w ?s = (ok, s)" by fastforce
  have "ok = (length (env_image v es fs) \<le> room)" "ok \<Longrightarrow> s = pushed (env_image v es fs) ?s"
    using exact_at [OF x, of ?s] unfolding w by simp_all
  then show ?thesis unfolding cgiWriteEnvironment_def w by (simp add: pushed_def fput_def)
qed

text \<open>What of an entry can be saved, and what it stands for: of a file its contents and not its name in \<open>/tmp\<close>.\<close>

definition entry_ok :: "tmp_files \<Rightarrow> upload_entry \<Rightarrow> bool" where
  "entry_ok fs e \<longleftrightarrow> list_all savable [e_attr e, e_value e, e_fileName e, e_contentType e] \<and> small_int (e_valueLength e) \<and>
     (e_tfileName e \<noteq> [] \<longrightarrow> (\<exists>c. fs (e_tfileName e) = Some c \<and> e_valueLength e = int (length c)))"

definition entry_data :: "tmp_files \<Rightarrow> upload_entry \<Rightarrow> bytes \<times> bytes \<times> int \<times> bytes \<times> bytes \<times> bytes option" where
  "entry_data fs e = (e_attr e, e_value e, e_valueLength e, e_fileName e, e_contentType e, if e_tfileName e = [] then None else fs (e_tfileName e))"

text \<open>Entries of one name share their file, which is that of the first.\<close>

definition files_apart :: "upload_entry list \<Rightarrow> bool" where
  "files_apart es \<longleftrightarrow> (\<forall>e \<in> set es. \<forall>e' \<in> set es. e_attr e = e_attr e' \<longrightarrow> e_tfileName e = e_tfileName e')"

lemma find_holds: "List.find P xs = Some x \<Longrightarrow> x \<in> set xs \<and> P x"
  by (induction xs) (auto split: if_splits)

lemma file_part_own:
  assumes "files_apart es" "e \<in> set es" "entry_ok fs e"
  shows "file_part es fs e = (if e_tfileName e = [] then None else fs (e_tfileName e))"
proof -
  have "find_upload (e_attr e) es \<noteq> None" using assms(2) by (auto simp: find_upload_def find_None_iff)
  then obtain e' where e': "find_upload (e_attr e) es = Some e'" by blast
  then have "e' \<in> set es" "e_attr e' = e_attr e" unfolding find_upload_def by (blast dest: find_holds)+
  then have "e_tfileName e' = e_tfileName e" using assms(1,2) unfolding files_apart_def by blast
  then show ?thesis using assms(3) e' by (auto simp: file_part_def cgiFormFileOpen_def entry_ok_def)
qed

lemma parts_restored:
  assumes "list_all savable [a, b, c]" "small_int n" "small_int k"
  shows "read_parts (string_image a @ string_image b @ string_image c @ int_image n @ int_image k @ r) = Some (Some (([a, b, c], n, k), r))"
  using saved_string.each_read [OF assms(1), of "int_image n @ int_image k @ r"] assms(2,3)
  by (simp add: read_parts_def int_restored numeral_3_eq_3)

lemma entry_restored:
  assumes "files_apart es" "e \<in> set es" "entry_ok fs e" "good_tmp env"
  shows "\<exists>e' fs'. read_entry env 0 k (entry_image es fs e @ r) fs0 = Some (EntryRead e' r fs') \<and> entry_data fs' e' = entry_data fs e \<and>
     (if e_tfileName e = [] then e_tfileName e' = [] \<and> fs' = fs0
      else e_tfileName e' \<noteq> [] \<and> tmp_name env k = Some (e_tfileName e') \<and> fs' = fs0(e_tfileName e' \<mapsto> the (fs (e_tfileName e))))"
proof -
  have ok: "list_all savable [e_attr e, e_value e, e_fileName e, e_contentType e]" "small_int (e_valueLength e)"
    using assms(3) by (simp_all add: entry_ok_def)
  have s: "small_int 0" "small_int 1" by (simp_all add: small_int_def)
  obtain t where t: "tmp_name env k = Some t" "t \<noteq> []" "tmp_opens env k" using assms(4) by (auto simp: good_tmp_def)
  note rd = file_part_own [OF assms(1-3)] parts_restored string_restored
  show ?thesis
  proof (cases "e_tfileName e = []")
    case True
    then show ?thesis using ok s
      by (simp add: read_entry_def entry_image_def rd read_contents_def entry_data_def)
  next
    case False
    then obtain c where "fs (e_tfileName e) = Some c" "e_valueLength e = int (length c)" using assms(3) by (auto simp: entry_ok_def)
    then show ?thesis using False ok s t
      by (simp add: read_entry_def entry_image_def rd read_contents_def entry_data_def)
  qed
qed

lemma entry_data_later: "(e_tfileName e \<noteq> [] \<Longrightarrow> fs' (e_tfileName e) = fs (e_tfileName e)) \<Longrightarrow> entry_data fs' e = entry_data fs e"
  by (simp add: entry_data_def)

lemma entries_restored:
  assumes "files_apart es" "\<forall>e \<in> set es. entry_ok fs e" "good_tmp env" "set todo \<subseteq> set es"
  shows "\<exists>es' fs'. read_entries env (\<lambda>_. 0) v k acc (concat (map (entry_image es fs) todo)) fs0 = Some (EnvRead v (acc @ es'), fs') \<and>
     map (entry_data fs') es' = map (entry_data fs) todo \<and> (\<forall>t. (\<forall>j \<ge> k. tmp_name env j \<noteq> Some t) \<longrightarrow> fs' t = fs0 t)"
  using assms(4)
proof (induction todo arbitrary: k acc fs0)
  case Nil
  have "read_entry env 0 k [] fs0 = Some NoEntry" by (simp add: read_entry_def cgiReadString_def cgiReadInt_def)
  then show ?case by (simp add: read_entries.simps)
next
  case (Cons e todo)
  let ?r = "concat (map (entry_image es fs) todo)"
  obtain e' fs1 where e': "read_entry env 0 k (entry_image es fs e @ ?r) fs0 = Some (EntryRead e' ?r fs1)" "entry_data fs1 e' = entry_data fs e"
    "if e_tfileName e = [] then e_tfileName e' = [] \<and> fs1 = fs0
      else e_tfileName e' \<noteq> [] \<and> tmp_name env k = Some (e_tfileName e') \<and> fs1 = fs0(e_tfileName e' \<mapsto> the (fs (e_tfileName e)))"
    using entry_restored [OF assms(1) _ _ assms(3), of e fs k ?r fs0] assms(2) Cons.prems by auto
  let ?k = "if e_tfileName e' = [] then k else k + 1"
  obtain es' fs' where r: "read_entries env (\<lambda>_. 0) v ?k (acc @ [e']) ?r fs1 = Some (EnvRead v ((acc @ [e']) @ es'), fs')"
    "map (entry_data fs') es' = map (entry_data fs) todo" "\<forall>t. (\<forall>j \<ge> ?k. tmp_name env j \<noteq> Some t) \<longrightarrow> fs' t = fs1 t"
    using Cons.IH [of ?k "acc @ [e']" fs1] Cons.prems by auto
  have new: "tmp_name env j \<noteq> Some (e_tfileName e')" if "e_tfileName e' \<noteq> []" "j \<ge> k + 1" for j
    using that e'(3) assms(3) injD [of "tmp_name env" j k] by (auto simp: good_tmp_def split: if_splits)
  have "entry_data fs' e' = entry_data fs e" using r(3) new entry_data_later [of e' fs' fs1] e'(2) by auto
  moreover have "fs' t = fs0 t" if "\<forall>j \<ge> k. tmp_name env j \<noteq> Some t" for t
    using r(3) that e'(3) by (auto split: if_splits)
  moreover have "read_entries env (\<lambda>_. 0) v k acc (entry_image es fs e @ ?r) fs0 = Some (EnvRead v (acc @ e' # es'), fs')"
    using r(1) e'(1) by (subst read_entries.simps) simp
  ultimately show ?case using r(2) by (intro exI [of _ "e' # es'"] exI [of _ fs']) simp
qed

lemma vars_restored: "vars_of (var_texts v) (contentLength v) = v"
  by (cases v) (simp add: vars_of_def var_texts_def)

definition vars_ok :: "cgi_vars \<Rightarrow> bool" where
  "vars_ok v \<longleftrightarrow> list_all savable (var_texts v) \<and> small_int (contentLength v)"

lemma saved_restored:
  assumes "cgiWriteEnvironment True room (\<lambda>_. True) v es fs old = (cgiEnvironmentSuccess, file)"
    and "vars_ok v" "\<forall>e \<in> set es. entry_ok fs e" "files_apart es" "good_tmp env"
  shows "\<exists>es' fs'. cgiReadEnvironment env (\<lambda>_. 0) es0 fs0 file = Some (EnvRead v es', fs') \<and>
     map (entry_data fs') es' = map (entry_data fs) es"
proof -
  have img: "file = Some (env_image v es fs)" using assms(1) by (simp add: written_whole_or_not split: if_splits)
  have ver: "savable CGIC_VERSION" by (simp add: CGIC_VERSION_def savable_def bytes_of_def)
  have ts: "list_all savable (var_texts v)" "length (var_texts v) = 20" using assms(2) by (simp_all add: vars_ok_def var_texts_def)
  let ?e = "concat (map (entry_image es fs) es)"
  have "read_each cgiReadString 20 (concat (map string_image (var_texts v)) @ int_image (contentLength v) @ ?e)
      = Some (Some (var_texts v, int_image (contentLength v) @ ?e))"
    using saved_string.each_read [OF ts(1)] ts(2) by simp
  moreover obtain es' fs' where "read_entries env (\<lambda>_. 0) v 0 [] ?e (cgiFreeResources es0 fs0) = Some (EnvRead v es', fs')"
    "map (entry_data fs') es' = map (entry_data fs) es"
    using entries_restored [OF assms(4,3,5), where acc = "[]" and ?fs0.0 = "cgiFreeResources es0 fs0" and todo = es and v = v and k = 0] by auto
  ultimately show ?thesis using assms(2)
    by (simp add: cgiReadEnvironment_def img env_image_def string_restored [OF ver] int_restored vars_restored vars_ok_def)
qed

section \<open>Properties\<close>


definition demo_vars :: cgi_vars where
  "demo_vars = vars_of (map (\<lambda>k. replicate k 65) [0 ..< 20]) 512"

definition demo_upload :: "upload_entry list" where
  "demo_upload = [\<lparr>e_attr = [110], e_value = [49, 50], e_valueLength = 2, e_fileName = [], e_contentType = [], e_tfileName = []\<rparr>,
     \<lparr>e_attr = [102], e_value = [], e_valueLength = 3, e_fileName = [97], e_contentType = [116], e_tfileName = [47]\<rparr>]"

lemma demo_vars_texts: "var_texts demo_vars = map (\<lambda>k. replicate k 65) [0 ..< 20]"
  by (simp add: demo_vars_def vars_of_def var_texts_def numeral_eq_Suc)

lemma demo_vars_ok: "vars_ok demo_vars"
  unfolding vars_ok_def demo_vars_texts by (simp add: list_all_iff savable_def) (simp add: small_int_def demo_vars_def vars_of_def)

lemma string_image_length [simp]: "length (string_image t) = 4 + length t"
  by (simp add: string_image_def)

lemma demo_head_length: "length (concat (map string_image (CGIC_VERSION # var_texts demo_vars)) @ int_image n) = 285"
  by (simp add: demo_vars_texts CGIC_VERSION_def bytes_of_def comp_def length_concat upt_rec)



definition demo_pair :: "upload_entry list" where
  "demo_pair = [\<lparr>e_attr = [102], e_value = [], e_valueLength = 1, e_fileName = [97], e_contentType = [], e_tfileName = [47, 49]\<rparr>,
     \<lparr>e_attr = [102], e_value = [], e_valueLength = 1, e_fileName = [98], e_contentType = [], e_tfileName = [47, 50]\<rparr>]"


end
