(* ===== verification/Cgic_More_Props.thy ===== *)
theory Cgic_More_Props
  imports Cgic_More Cgic_Env_Props
begin

text \<open>
  What the other functions of the form library find: the cookie that was set, the names of the cookies, the values of
  a field; and what escaping leaves of a text.
\<close>

section \<open>Cookies\<close>

text \<open>A header of cookies as a browser sends it.\<close>

fun cookie_text :: "(bytes \<times> bytes) list \<Rightarrow> bytes" where
  "cookie_text [] = []"
| "cookie_text [(n, v)] = n @ 61 # v"
| "cookie_text ((n, v) # ps) = n @ 61 # v @ 59 # 32 # cookie_text ps"

definition cookie_name :: "bytes \<Rightarrow> bool" where
  "cookie_name n \<longleftrightarrow> n \<noteq> [] \<and> \<not> is_blank (hd n) \<and> 61 \<notin> set n \<and> 59 \<notin> set n"

lemma match_same: "cookie_match (n @ c # r) n = Some (c # r, [])"
  by (induction n) auto

lemma scan_for_behind: "x \<notin> set a \<Longrightarrow> scan_for x (a @ x # r) = (a, Some r)"
  by (induction a) auto

lemma scan_for_absent: "x \<notin> set a \<Longrightarrow> scan_for x a = (a, None)"
  by (induction a) auto

text \<open>A comparison with another name ends before the equals sign, or at it before the name's end.\<close>

lemma match_other:
  assumes "n \<noteq> name" "61 \<notin> set n" "61 \<notin> set name"
  shows "\<exists>a b m. cookie_match (n @ 61 # r) name = Some (b @ 61 # r, m) \<and> n = a @ b \<and> (m = [] \<longrightarrow> b \<noteq> [])"
  using assms
proof (induction n arbitrary: name)
  case Nil
  then show ?case by (cases name) auto
next
  case (Cons c n)
  show ?case
  proof (cases name)
    case Nil
    then show ?thesis by (intro exI [of _ "[]"] exI [of _ "c # n"]) simp
  next
    case name: (Cons d m)
    show ?thesis
    proof (cases "c = d")
      case True
      then obtain a b k where "cookie_match (n @ 61 # r) m = Some (b @ 61 # r, k)" "n = a @ b" "k = [] \<longrightarrow> b \<noteq> []"
        using Cons.IH [of m] Cons.prems name by auto
      then show ?thesis using True name by (intro exI [of _ "c # a"] exI [of _ b] exI [of _ k]) simp
    next
      case False
      then show ?thesis using name by (intro exI [of _ "[]"] exI [of _ "c # n"] exI [of _ "d # m"]) simp
    qed
  qed
qed

lemma scan_same:
  assumes "59 \<notin> set v" "r = [] \<or> hd r = 59"
  shows "cookie_scan n space (n @ 61 # v @ r) =
     Some (if space - 1 < length v then cgiFormTruncated else cgiFormSuccess, stored_text space v)"
proof -
  have "takeWhile (\<lambda>c. c \<noteq> 59) (v @ r) = v" using assms by (cases r) (auto simp: takeWhile_eq_all_conv takeWhile_append)
  then show ?thesis by (subst cookie_scan.simps) (simp add: match_same)
qed

lemma scan_other:
  assumes "n \<noteq> name" "cookie_name n" "61 \<notin> set name" "59 \<notin> set v"
  shows "cookie_scan name space (n @ 61 # v) = Some (cgiFormNotFound, stored_text space [])"
    "cookie_scan name space (n @ 61 # v @ 59 # r) = cookie_scan name space (dropWhile is_blank r)"
proof -
  have n: "61 \<notin> set n" "59 \<notin> set n" using assms(2) by (simp_all add: cookie_name_def)
  note m = match_other [OF assms(1) n(1) assms(3)]
  obtain b k where 1: "cookie_match (n @ 61 # v) name = Some (b @ 61 # v, k)" "59 \<notin> set b" "k = [] \<longrightarrow> b \<noteq> [] \<and> hd b \<noteq> 61"
    using m [of v] n by (metis UnI2 hd_in_set set_append)
  obtain b' k' where 2: "cookie_match (n @ 61 # v @ 59 # r) name = Some (b' @ 61 # v @ 59 # r, k')" "59 \<notin> set b'" "k' = [] \<longrightarrow> b' \<noteq> [] \<and> hd b' \<noteq> 61"
    using m [of "v @ 59 # r"] n by (metis UnI2 hd_in_set set_append)
  have "scan_for 59 (b @ 61 # v) = (b @ 61 # v, None)" using 1(2) assms(4) by (intro scan_for_absent) auto
  then show "cookie_scan name space (n @ 61 # v) = Some (cgiFormNotFound, stored_text space [])"
    using 1 by (subst cookie_scan.simps) auto
  have "scan_for 59 ((b' @ 61 # v) @ 59 # r) = (b' @ 61 # v, Some r)" using 2(2) assms(4) by (intro scan_for_behind) auto
  then show "cookie_scan name space (n @ 61 # v @ 59 # r) = cookie_scan name space (dropWhile is_blank r)"
    using 2 by (subst cookie_scan.simps) auto
qed

lemma cookie_text_first: "ps \<noteq> [] \<Longrightarrow> \<forall>p \<in> set ps. cookie_name (fst p) \<Longrightarrow> \<exists>c t. cookie_text ps = c # t \<and> \<not> is_blank c"
  by (cases ps rule: cookie_text.cases) (auto simp: cookie_name_def neq_Nil_conv)

lemma cookie_text_start:
  assumes "ps \<noteq> []" "\<forall>p \<in> set ps. cookie_name (fst p)"
  shows "dropWhile is_blank (32 # cookie_text ps @ r) = cookie_text ps @ r"
proof -
  obtain c t where "cookie_text ps = c # t" "\<not> is_blank c" using cookie_text_first [OF assms] by blast
  then show ?thesis by (auto simp: is_blank_def)
qed

lemma scan_pairs:
  assumes "\<forall>p \<in> set ps. cookie_name (fst p) \<and> 59 \<notin> set (snd p)" "61 \<notin> set name"
  shows "cookie_scan name space (cookie_text ps) = (case map_of ps name of
     None \<Rightarrow> Some (cgiFormNotFound, stored_text space [])
   | Some v \<Rightarrow> Some (if space - 1 < length v then cgiFormTruncated else cgiFormSuccess, stored_text space v))"
  using assms(1)
proof (induction ps rule: cookie_text.induct)
  case 1
  then show ?case by (simp add: cookie_scan.simps)
next
  case (2 n v)
  then show ?case using scan_same [of v "[]" n space] scan_other(1) [OF _ _ assms(2), of n v space] by auto
next
  case (3 n v q ps)
  have nv: "cookie_name n" "59 \<notin> set v" using 3(2) by simp_all
  show ?case
  proof (cases "n = name")
    case True
    then show ?thesis using scan_same [of v "59 # 32 # cookie_text (q # ps)" n space] nv by simp
  next
    case False
    have "dropWhile is_blank (32 # cookie_text (q # ps)) = cookie_text (q # ps)" using cookie_text_start [of "q # ps" "[]"] 3(2) by simp
    then show ?thesis using scan_other(2) [OF False nv(1) assms(2) nv(2)] 3 False by simp
  qed
qed



text \<open>A header that ends with the bare name sends the comparison behind the ends of both strings.\<close>

lemma bare_cookie_overruns:
  assumes "\<forall>p \<in> set ps. cookie_name (fst p) \<and> 59 \<notin> set (snd p) \<and> fst p \<noteq> name" "cookie_name name" "ps \<noteq> []"
  shows "cgiCookieString (cookie_text ps @ 59 # name) name space = None"
proof -
  have last: "cookie_scan name space name = None"
  proof -
    have "cookie_match m m = None" for m by (induction m) auto
    then show ?thesis using assms(2) by (subst cookie_scan.simps) (simp add: cookie_name_def)
  qed
  have blank: "dropWhile is_blank name = name" using assms(2) by (cases name) (simp_all add: cookie_name_def)
  have eq: "61 \<notin> set name" using assms(2) by (simp add: cookie_name_def)
  have "cookie_scan name space (cookie_text ps @ 59 # name) = None"
    using assms(1,3)
  proof (induction ps rule: cookie_text.induct)
    case (2 n v)
    then show ?case using scan_other(2) [of n name v space name] eq last blank by simp
  next
    case (3 n v q ps)
    have "dropWhile is_blank (32 # cookie_text (q # ps) @ 59 # name) = cookie_text (q # ps) @ 59 # name"
      using 3(2) by (intro cookie_text_start) auto
    then show ?case using scan_other(2) [of n name v space "32 # cookie_text (q # ps) @ 59 # name"] eq 3 by simp
  qed simp
  then show ?thesis by (simp add: cgiCookieString_def)
qed

text \<open>
  The names of all cookies fit into their array. The null pointer that ends them is lost when there is a name
  behind the last equals sign.
\<close>

lemma equals_signs:
  "length (filter (\<lambda>c. c = 61) (dropWhile (\<lambda>c. c \<noteq> 61) p)) = length (filter (\<lambda>c. c = (61 :: u8)) p)"
  "dropWhile (\<lambda>c. c \<noteq> 61) p = [] \<or> (\<exists>r. dropWhile (\<lambda>c. c \<noteq> (61 :: u8)) p = 61 # r)"
  by (induction p) auto

lemma scan_equals:
  "scan_for 59 p = (a, Some r) \<Longrightarrow> length (filter (\<lambda>c. c = 61) r) \<le> length (filter (\<lambda>c. c = 61) p)"
  "scan_for 59 (61 # q) = (b, Some r) \<Longrightarrow> length (filter (\<lambda>c. c = 61) r) < length (filter (\<lambda>c. c = 61) (61 # q))"
proof -
  have le: "scan_for 59 p = (a, Some r) \<Longrightarrow> length (filter (\<lambda>c. c = 61) r) \<le> length (filter (\<lambda>c. c = 61) p)" for p a r
    by (induction p arbitrary: a) (auto split: if_splits prod.splits intro: le_SucI)
  show "scan_for 59 p = (a, Some r) \<Longrightarrow> length (filter (\<lambda>c. c = 61) r) \<le> length (filter (\<lambda>c. c = 61) p)" by (rule le)
  show "scan_for 59 (61 # q) = (b, Some r) \<Longrightarrow> length (filter (\<lambda>c. c = 61) r) < length (filter (\<lambda>c. c = 61) (61 # q))"
    using le by (auto split: prod.splits simp: less_Suc_eq_le)
qed

lemma blanks_equals: "length (filter (\<lambda>c. c = 61) (dropWhile is_blank p)) = length (filter (\<lambda>c. c = (61 :: u8)) p)"
  by (induction p) (auto simp: is_blank_def)

lemma cookie_names_count: "length (cookie_names p) \<le> length (filter (\<lambda>c. c = 61) p) + 1"
proof (induction p rule: length_induct)
  case (1 p)
  let ?q = "dropWhile is_blank p"
  let ?r = "dropWhile (\<lambda>c. c \<noteq> 61) ?q"
  consider "?r = []" | r where "?r = 61 # r" using equals_signs(2) [of ?q] by blast
  then show ?case
  proof cases
    case none: 1
    show ?thesis by (subst cookie_names.simps) (simp add: Let_def none del: dropWhile_eq_Nil_conv)
  next
    case (2 r)
    have n: "length (filter (\<lambda>c. c = 61) (61 # r)) = length (filter (\<lambda>c. c = 61) p)"
      using equals_signs(1) [of ?q] blanks_equals [of p] 2 by simp
    show ?thesis
    proof (cases "scan_for 59 (61 # r)")
      case (Pair a s)
      show ?thesis
      proof (cases s)
        case None
        then show ?thesis using Pair 2 n by (subst cookie_names.simps) (simp add: Let_def)
      next
        case (Some t)
        have "length t < length ?r" using scan_for_shorter Pair Some 2 by metis
        also have "\<dots> \<le> length p" using length_dropWhile_le le_trans by blast
        finally have "length (cookie_names t) \<le> length (filter (\<lambda>c. c = 61) t) + 1" using 1 by blast
        moreover have "length (filter (\<lambda>c. c = 61) t) < length (filter (\<lambda>c. c = 61) p)"
          using scan_equals(2) [of r a t] Pair Some n by simp
        ultimately show ?thesis using Pair Some 2 by (subst cookie_names.simps) (simp add: Let_def)
      qed
    qed
  qed
qed

lemma store_names_fit: "i + length ns \<le> length a \<Longrightarrow> store_names ns i a = Some (take i a @ map Some ns @ drop (i + length ns) a)"
proof (induction ns arbitrary: i a)
  case (Cons n ns)
  then show ?case using Cons.IH [of "Suc i" "a[i := Some n]"]
    by (simp add: wr_in take_Suc_conv_app_nth)
qed simp

theorem cookies_fit:
  "\<exists>k. cgiCookies c = Some (map Some (cookie_names c) @ replicate k None) \<and> k = length (filter (\<lambda>x. x = 61) c) + 1 - length (cookie_names c)"
  using store_names_fit [of 0 "cookie_names c"] cookie_names_count [of c] by (simp add: cgiCookies_def del: replicate.simps)

section \<open>Escaping\<close>

text \<open>What a browser shows of a text without tags.\<close>

function html_text :: "bytes \<Rightarrow> bytes" where
  "html_text s = (if s = [] then []
     else if take 4 s = bytes_of ''&lt;'' then 60 # html_text (drop 4 s)
     else if take 4 s = bytes_of ''&gt;'' then 62 # html_text (drop 4 s)
     else if take 5 s = bytes_of ''&amp;'' then 38 # html_text (drop 5 s)
     else hd s # html_text (tl s))"
  by pat_completeness auto
termination
  by (relation "measure length") auto

declare html_text.simps [simp del]

lemma escaped_shown: "html_text (html_escape c @ s) = c # html_text s"
  by (subst html_text.simps) (auto simp: html_escape_def bytes_of_def)

lemma escape_written: "writes (write_each (\<lambda>c. write_each (\<lambda>ch. fput [ch]) (esc c)) data) (concat (map esc data))"
proof (rule writes_each)
  fix c
  show "writes (write_each (\<lambda>ch. fput [ch]) (esc c)) (esc c)"
    using writes_each [of "\<lambda>ch. fput [ch]" "\<lambda>ch. [ch]" "esc c"] exact_writes [OF exact_fput] by (simp add: concat_map_singleton)
qed

text \<open>An escaped text has no tag in it, and a browser shows the text that was escaped.\<close>

theorem escaped_text_is_shown:
  assumes "cgiHtmlEscapeData data \<lparr>sk_data = [], sk_room = room\<rparr> = (cgiFormSuccess, s)" "5 * length data \<le> room"
  shows "html_text (sk_data s) = data \<and> 60 \<notin> set (sk_data s) \<and> 62 \<notin> set (sk_data s)"
proof -
  let ?e = "concat (map html_escape data)"
  have l: "length ?e \<le> 5 * length data" by (induction data) (auto simp: html_escape_def bytes_of_def)
  let ?w = "write_each (\<lambda>c. write_each (\<lambda>ch. fput [ch]) (html_escape c)) data"
  have "?w \<lparr>sk_data = [], sk_room = room\<rparr> = (True, s)"
    using assms(1) by (simp add: cgiHtmlEscapeData_def escape_data_def split: prod.splits if_splits)
  then have "s = pushed ?e \<lparr>sk_data = [], sk_room = room\<rparr>"
    using escape_written [of html_escape data] unfolding writes_def by (metis fst_conv snd_conv)
  then have s: "sk_data s = ?e" using l assms(2) by (simp add: pushed_def fput_def)
  have "html_text ?e = data" by (induction data) (simp_all add: escaped_shown, simp add: html_text.simps)
  moreover have "60 \<notin> set ?e \<and> 62 \<notin> set ?e" by (induction data) (auto simp: html_escape_def bytes_of_def)
  ultimately show ?thesis by (simp add: s)
qed

section \<open>Fields with several values\<close>

lemma choice_index_bound: "choice_index v k cs = Some i \<Longrightarrow> k \<le> i \<and> i < k + length cs"
  by (induction cs arbitrary: k) (fastforce split: if_splits)+

lemma select_each_result:
  "select_each cs es (r, h, k) = (r', h', k') \<Longrightarrow> length r = length cs \<Longrightarrow>
     length r' = length cs \<and> h' + k' = h + k + length es \<and>
     (\<forall>i < length cs. r' ! i \<longleftrightarrow> r ! i \<or> (\<exists>e \<in> set es. choice_index (e_value e) 0 cs = Some i))"
proof (induction es arbitrary: r h k)
  case (Cons e es)
  show ?case
  proof (cases "choice_index (e_value e) 0 cs")
    case None
    then show ?thesis using Cons.IH [of r h "k + 1"] Cons.prems by auto
  next
    case (Some j)
    have "j < length r" using choice_index_bound [OF Some] Cons.prems(2) by simp
    then show ?thesis using Cons.IH [of "r[j := True]" "h + 1" k] Cons.prems Some by (auto simp: nth_list_update)
  qed
qed simp

text \<open>A choice is reported exactly if a value of the field is this choice; the other values are counted.\<close>

theorem selections_are_reported:
  assumes "cgiFormSelectMultiple name choices es = (r, result, invalid)" "i < length choices"
  shows "result ! i \<longleftrightarrow> (\<exists>e \<in> set es. e_attr e = name \<and> choice_index (e_value e) 0 choices = Some i)"
proof -
  obtain h where "select_each choices (find_each name es) (map (\<lambda>_. False) choices, 0, 0) = (result, h, invalid)"
    using assms(1) by (auto simp: cgiFormSelectMultiple_def Let_def split: prod.splits)
  from select_each_result [OF this] show ?thesis using assms(2) by (auto simp: find_each_filter)
qed

text \<open>The names of the fields, each once, in the order of their first entries.\<close>

lemma form_names_set: "set (form_names seen es) = e_attr ` set es - set seen \<and> distinct (form_names seen es)"
  by (induction es arbitrary: seen) auto

end
