(* ===== verification/Log.thy ===== *)
theory Log
  imports Config
begin

text \<open>
  What the daemon prints on its console: \<open>sys_log\<close> of \<open>nc600-2.0/src/log.c\<close> and \<open>sys_version_show\<close> of
  \<open>system.c\<close>. The functions of the other theories leave their log calls out; what such a call relies on is here.
\<close>

datatype LOG_Lv = LOG_NONE | LOG_TRACE | LOG_DBG | LOG_MSG | LOG_WARN | LOG_ERR | LOG_FATAL

fun log_level :: "LOG_Lv \<Rightarrow> nat" where
  "log_level LOG_NONE = 0"
| "log_level LOG_TRACE = 1"
| "log_level LOG_DBG = 2"
| "log_level LOG_MSG = 3"
| "log_level LOG_WARN = 4"
| "log_level LOG_ERR = 5"
| "log_level LOG_FATAL = 6"

definition g_log_lv :: "string list" where
  "g_log_lv = [''NULL'', ''TRACE'', ''DBG'', ''INFO'', ''WARN'', ''ERROR'', ''FATAL'']"

definition color :: "nat list" where
  "color = [0, 37, 36, 32, 33, 31, 35]"

text \<open>What is printed before the message: the colour, the time, the module and the level.\<close>

definition log_head :: "tm \<Rightarrow> nat \<Rightarrow> bytes \<Rightarrow> LOG_Lv \<Rightarrow> bytes option" where
  "log_head stm usec module level = do {
     c \<leftarrow> rd color (log_level level); l \<leftarrow> rd g_log_lv (log_level level);
     Some ([27, 91] @ decimal c @ bytes_of '';40m'' @ digits_at_least 4 (tm_year stm + 1900) @ [45] @
       digits_at_least 2 (tm_mon stm + 1) @ [45] @ digits_at_least 2 (tm_mday stm) @ [32] @ digits_at_least 2 (tm_hour stm) @ [58] @
       digits_at_least 2 (tm_min stm) @ [58] @ digits_at_least 2 (tm_sec stm) @ [58] @ digits_at_least 6 usec @ bytes_of ''---['' @
       module @ bytes_of '']['' @ bytes_of l @ bytes_of ''] '') }"

text \<open>
  \<open>content\<close> is the text \<open>vsprintf\<close> makes of the message; \<open>stm\<close> and \<open>usec\<close> are the time. The last
  character of an empty text is the byte before the array.
\<close>

definition sys_log :: "tm \<Rightarrow> nat \<Rightarrow> bytes \<Rightarrow> LOG_Lv \<Rightarrow> bytes \<Rightarrow> bytes option" where
  "sys_log stm usec module level content = do {
     szcontent \<leftarrow> strcpy (zeros 8192) (content @ [0]);
     s \<leftarrow> cstring szcontent;
     if s = [] then None else do {
       let s = (if last s = 10 then butlast s else s);
       h \<leftarrow> log_head stm usec module level;
       sprintf_to 8448 (h @ s @ [27] @ bytes_of ''[0m'' @ [10]) } }"

definition sys_version_show :: "bytes \<Rightarrow> bytes \<Rightarrow> bytes" where
  "sys_version_show date time = (let line = replicate 84 42 @ [10] in
     line @ bytes_of ''****'' @ [9, 9] @ bytes_of ''Product Name: '' @ bytes_of PRODUCT_NAME @ [10] @
     bytes_of ''****'' @ [9, 9] @ bytes_of ''Program Version: '' @ bytes_of PROGRAM_VERSION @ [10] @
     bytes_of ''****'' @ [9, 9] @ bytes_of ''Build Time: '' @ date @ [32] @ time @ [10] @ line)"

text \<open>A message that fits is printed without its line's end; an empty one reads before the array.\<close>

lemma log_head_returns: "\<exists>h. log_head stm usec module level = Some h"
  by (cases level) (simp_all add: log_head_def color_def g_log_lv_def rd_in)

lemma log_printed:
  assumes "0 \<notin> set content" "content \<noteq> []" "length content < 8192" "log_head stm usec module level = Some h" "length h \<le> 250"
  shows "sys_log stm usec module level content = Some (h @ (if last content = 10 then butlast content else content) @ [27, 91, 48, 109, 10])"
proof -
  have "strcpy (zeros 8192) (content @ [0]) = Some (content @ 0 # drop (Suc (length content)) (zeros 8192))"
    using assms(1,3) by (simp add: strcpy_def cstring_append wrs_def)
  moreover have "length h + length content < 8443" "length h + (length content - 1) < 8443" using assms(3,5) by linarith+
  ultimately show ?thesis using assms(1,2,4) by (simp add: sys_log_def cstring_append sprintf_to_def bytes_of_def)
qed

lemma empty_log_undefined: "sys_log stm usec module level [] = None"
proof -
  have "strcpy (zeros 8192) ([] @ [0]) = Some ([] @ 0 # drop 1 (zeros 8192))"
    using cstring_append [of "[]" "[]"] by (simp add: strcpy_def wrs_def)
  then show ?thesis using cstring_append [of "[]"] by (simp add: sys_log_def)
qed

end
