(* ===== verification/Spec2Isabelle.thy ===== *)
theory Spec2Isabelle
  imports Client_Props Device_Props Server_Props Link_Props Session_Props Report_Props Remote_Users Form_Props
    Daemon_Props Cgic_More_Props Log
begin

text \<open>
  Verification library of the NC600 gateway, the daemon under \<open>nc600-2.0/\<close>.

  \<^bold>\<open>The program.\<close> The daemon runs on a small board with two serial ports, eight alarm
  inputs, two outputs and a temperature sensor. It keeps one configuration (\<open>g_conf_info\<close>) that it
  loads from and saves to a file, drives the serial ports and the pins, obeys a remote alarm server
  over one outgoing connection (\<open>client.c\<close>), serves a management protocol to up to nine local
  connections (\<open>web_net.c\<close>), whose other end is the client library under \<open>itslib/\<close>, forwards data between the serial ports and up to six network sessions
  each, and answers a discovery tool (\<open>mode.c\<close>).

  \<^bold>\<open>The theories.\<close>
  \<^item> \<open>Prelude\<close>: bytes, C strings, checked access to arrays, little-endian images. An access outside
    an array, a string without its end and the other things C leaves undefined are \<open>None\<close> of the
    option monad; an error the program handles is a value inside \<open>Some\<close>.
  \<^item> \<open>Sys\<close>: \<open>system.c\<close> and \<open>file.c\<close>. \<open>Codec\<close>: the interface of a memory image (a locale) and its
    interpretation for bytes and words. \<open>Layout\<close>: the records of \<open>config.h\<close>, \<open>user.h\<close>, \<open>itsip.h\<close> with
    their images. \<open>Protocol\<close>: enumerations of the two protocols.
  \<^item> \<open>Device\<close>: the state of the daemon (globals, files, pins, terminals) with the trace of its
    effects. \<open>Config\<close>: \<open>config.c\<close>, with the store as a locale interpreted on \<open>config_save\<close> and
    \<open>config_load\<close>. \<open>Users\<close>: the user table, with its refinement to a map from names to accounts.
    \<open>Gpio\<close>: \<open>gpio.c\<close>. \<open>Com\<close>: \<open>com.c\<close>.
  \<^item> \<open>Client\<close>: the commands of the alarm-server protocol and their dispatch (\<open>client.c\<close>);
    \<open>Client_Facts\<close> its lemmas.
  \<^item> \<open>WebConn\<close>, \<open>WebCmd\<close>, \<open>WebServer\<close>: receiving and sending with time limits, the management
    commands, the table of connections (\<open>web_net.c\<close>, \<open>itsip.c\<close>); \<open>Web_Facts\<close> and \<open>Web_Table\<close> their lemmas,
    the latter with the reachable states of the server.
  \<^item> \<open>Dns\<close>: the name query and the scan of its reply, the check of address texts, \<open>dns_resolution\<close>;
    its lemmas read the query as a name server does and the reply as a list of records.
  \<^item> \<open>Link\<close>: connecting to the alarm server, reconnecting, and the turns of the client thread with the
    heartbeat; \<open>Link_Facts\<close> has the reachable states of the thread with the descriptors open in them.
  \<^item> \<open>Sessions\<close>: the threads of the sessions as steps between the label \<open>AGAIN\<close> and their loop, what
    a port sends to them, and the port's reader; \<open>Session_Facts\<close> interleaves the threads of both ports
    in an inductive relation. \<open>Report\<close>: the discovery service.
  \<^item> \<open>ItsNet\<close> (\<open>itslib/src/net.c\<close>) and \<open>ItsCmd\<close> (\<open>itslib/src/itscmd.c\<close>): the client library, a process of
    its own with the state \<open>lib\<close>. \<open>ItsWire\<close> composes a call with the daemon (\<open>remote\<close>): each reads what the
    other has written. \<open>ItsProps\<close>: the descriptors of a call; \<open>Remote_Props\<close>, \<open>Remote_Users\<close>: what a call
    does to the daemon's configuration and users, and what it returns.
  \<^item> \<open>ItsDns\<close>: the library's copy of the name resolution. \<open>Cgic\<close>: forms and their fields in the form library
    (\<open>web/cgic/cgic.c\<close>); \<open>Cgic_Facts\<close> has the browser's encoding of a form and its decoding. \<open>Forms\<close>, \<open>Pages\<close>:
    the management pages (\<open>web/src\<close>), programs that read the fields of a form and call the library;
    \<open>Form_Facts\<close>, \<open>Page_Facts\<close>, \<open>Mode_Page\<close> say what a browser sends of a page and what the page makes of
    it, and run the network page against the daemon (\<open>conversed\<close>). \<open>Starts\<close>: the start of the
    management server and the status light.
  \<^item> \<open>Multipart\<close>: the parser of uploads of the form library, and the request of the upgrade page from the bytes
    of the browser to the installed file. \<open>Multipart_Facts\<close>: the stream with put-back is a queue before the
    input, and every loop over it returns; \<open>Multipart_Sent\<close>: what a browser sends of a form with files, and
    what each loop makes of it.
  \<^item> \<open>Cgic_Env\<close>: saving a request to a file and restoring it; \<open>Cgic_More\<close>: fields with several values, cookies, headers and
    escaping. No page uses these functions. \<open>Cgic_Env_Props\<close> has the interface \<open>saved_data\<close>, what is written as an image
    and read back from it, with its interpretations for integers and strings; \<open>Cgic_More_Props\<close> the properties of the others.
  \<^item> \<open>Daemon\<close>: the start (\<open>main.c\<close>, \<open>thread.c\<close>) and the whole daemon as a relation whose steps are the turns of
    its threads; \<open>Daemon_Props\<close>: what each operation keeps of the device, and the invariant of the reachable states.
  \<^item> \<open>Log\<close>: the text of a line of the log and the banner of the start. No operation of the other theories calls it.
  \<^item> \<open>Examples\<close>: a concrete device. \<open>Client_Props\<close>, \<open>Device_Props\<close>, \<open>Web_Props\<close>, \<open>Server_Props\<close>,
    \<open>Dns_Props\<close>, \<open>Link_Props\<close>, \<open>Session_Props\<close>, \<open>Report_Props\<close>, \<open>ItsProps\<close>, \<open>Remote_Props\<close>, \<open>Remote_Users\<close>,
    \<open>Form_Props\<close>, \<open>Multipart_Props\<close>, \<open>Cgic_Env_Props\<close>, \<open>Cgic_More_Props\<close>,
    \<open>Daemon_Props\<close>: the properties.

  \<^bold>\<open>Environment.\<close> Results of the operating system are scripts or fields of the state
  (\<open>flash_script\<close>, \<open>tty_script\<close>, \<open>rx\<close>, \<open>tx\<close>, \<open>starts\<close>); uninitialised locals are parameters (\<open>uninit\<close>,
  \<open>env\<close>, \<open>q_buf\<close>); one attempt to connect meets a \<open>conn_env\<close>, a turn of the client thread a \<open>turn_env\<close>,
  a turn of a session a \<open>sock_env\<close> and an \<open>md_env\<close>; \<open>crypt\<close>, \<open>gethostbyname\<close> and the hardware address are
  parameters. Every loop of the code that is modelled is a recursion on a script, a counter or the
  bytes left of a buffer; no fuel is used. The loops of the parser of uploads, which put back what they have read,
  are partial functions, with the theorem \<open>upload_parser_returns\<close> that they end. Loops without a limit are modelled by their turns: \<open>client_run\<close>
  and \<open>reconnect_loop\<close> go on as long as their scripts do, \<open>daemon_step\<close> makes one turn of any thread.

  \<^bold>\<open>Not modelled.\<close> The calls of the log in the operations (a line of the log is in \<open>Log\<close>); locking (a turn of a thread is atomic, and the first turns come after the start);
  \<open>update\<close> of \<open>mode.c\<close>, every path of which uses an unset pointer; the text of the pages apart from their
  fields; the floating-point fields of the form library; the vendored servers (\<open>boa\<close>, \<open>utelnetd\<close>).
\<close>

end
